(* ===== verification/Prelude.thy ===== *)
theory Prelude
  imports Complex_Main "HOL-Library.AList"
begin

text \<open>
  Shared vocabulary of the development: the exceptions of the program as one datatype, the
  result type of operations that may raise, loops over lists whose body may raise, Python
  dictionaries as association lists in insertion order, Python list indexing and slicing, and
  the generic lemmas about them that every component uses.
\<close>

section \<open>Exceptions and results\<close>

text \<open>
  The exceptions raised by the modelled code: the built-in ones and the classes the program
  declares itself (\<open>qoala/sim/memmgr.py\<close>, \<open>qoala/runtime/sharedmem.py\<close>,
  \<open>qoala/sim/qdevice.py\<close>, \<open>qoala/sim/qnos/qnosprocessor.py\<close>, \<open>qoala/lang/hostlang.py\<close>,
  \<open>qoala/lang/parse.py\<close>).
  \<open>NeverResumed\<close> is not an exception: it is the outcome of a generator that yields on an event
  which never fires, so that the code after the \<open>yield\<close> never runs. \<open>OutOfFuel\<close> is not one
  either: it marks a loop that has used up the number of rounds it was given.
\<close>

datatype py_error =
    KeyError | IndexError | ValueError | TypeError | AttributeError | AssertionError
  | RuntimeError | NotImplementedError | ZeroDivisionError | RecursionError
  | AllocError | NotAllocatedError
  | SharedMemWriteError | SharedMemReadError
  | SharedMemNotAllocatedError | SharedMemIllegalRegionError
  | UnsupportedQDeviceCommandError | NonInitializedQubitError
  | UnsupportedNetqasmInstructionError | HostLanguageSyntaxError
  | QoalaParseError | EndOfTextException | UnboundLocalError
  | NeverResumed | OutOfFuel

type_synonym 'a res = "py_error + 'a"

text \<open>Sequencing: the first exception ends the computation.\<close>

fun rbind :: "'a res \<Rightarrow> ('a \<Rightarrow> 'b res) \<Rightarrow> 'b res" where
  "rbind (Inl e) f = Inl e"
| "rbind (Inr x) f = f x"

text \<open>\<open>assert b\<close>, and more generally \<open>if not b: raise e\<close>.\<close>

definition ensure :: "bool \<Rightarrow> py_error \<Rightarrow> unit res" where
  "ensure b e = (if b then Inr () else Inl e)"

abbreviation py_assert :: "bool \<Rightarrow> unit res" where
  "py_assert b \<equiv> ensure b AssertionError"

lemma rbind_cong [fundef_cong]:
  "m = m' \<Longrightarrow> (\<And>x. m' = Inr x \<Longrightarrow> f x = f' x) \<Longrightarrow> rbind m f = rbind m' f'"
  by (cases m') auto

lemma rbind_eq_Inr [simp]: "rbind m f = Inr y \<longleftrightarrow> (\<exists>x. m = Inr x \<and> f x = Inr y)"
  by (cases m) auto

lemma rbind_eq_Inl: "rbind m f = Inl e \<longleftrightarrow> m = Inl e \<or> (\<exists>x. m = Inr x \<and> f x = Inl e)"
  by (cases m) auto

lemma rbind_assoc: "rbind (rbind m f) g = rbind m (\<lambda>x. rbind (f x) g)"
  by (cases m) auto

lemma rbind_Inr_right [simp]: "rbind m Inr = m"
  by (cases m) auto

lemma ensure_simps [simp]:
  "ensure True e = Inr ()" "ensure False e = Inl e"
  "ensure b e = Inr u \<longleftrightarrow> b" "ensure b e = Inl e' \<longleftrightarrow> \<not> b \<and> e' = e"
  by (auto simp: ensure_def)

lemma rbind_ensure: "rbind (ensure b e) f = (if b then f () else Inl e)"
  by simp

subsection \<open>Loops whose body may raise\<close>

text \<open>\<open>for x in xs: s = f(x, s)\<close>.\<close>

fun rfold :: "('a \<Rightarrow> 's \<Rightarrow> 's res) \<Rightarrow> 'a list \<Rightarrow> 's \<Rightarrow> 's res" where
  "rfold f [] s = Inr s"
| "rfold f (x # xs) s = rbind (f x s) (rfold f xs)"

text \<open>\<open>[f(x) for x in xs]\<close>.\<close>

fun rmap :: "('a \<Rightarrow> 'b res) \<Rightarrow> 'a list \<Rightarrow> 'b list res" where
  "rmap f [] = Inr []"
| "rmap f (x # xs) = rbind (f x) (\<lambda>y. rbind (rmap f xs) (\<lambda>ys. Inr (y # ys)))"

lemma rfold_append: "rfold f (xs @ ys) s = rbind (rfold f xs s) (rfold f ys)"
proof (induction xs arbitrary: s)
  case (Cons x xs)
  then show ?case by (cases "f x s") auto
qed simp

lemma rfold_cong [fundef_cong]:
  "xs = ys \<Longrightarrow> s = t \<Longrightarrow> (\<And>x s. x \<in> set ys \<Longrightarrow> f x s = g x s) \<Longrightarrow> rfold f xs s = rfold g ys t"
proof (induction xs arbitrary: ys s t)
  case (Cons x xs)
  then have "\<And>s. rfold f xs s = rfold g xs s" by auto
  then have "rfold f xs = rfold g xs" by auto
  with Cons show ?case by auto
qed auto

lemma rmap_cong [fundef_cong]:
  "xs = ys \<Longrightarrow> (\<And>x. x \<in> set ys \<Longrightarrow> f x = g x) \<Longrightarrow> rmap f xs = rmap g ys"
proof (induction xs arbitrary: ys)
  case (Cons x xs)
  then have "rmap f xs = rmap g xs" by auto
  with Cons show ?case by auto
qed auto

lemma rfold_map: "rfold f (map h xs) s = rfold (\<lambda>x. f (h x)) xs s"
proof (induction xs arbitrary: s)
  case (Cons x xs)
  then have "rfold f (map h xs) = rfold (\<lambda>x. f (h x)) xs" by auto
  then show ?case by simp
qed simp

text \<open>A loop in a loop is one loop over the pairs.\<close>

lemma rfold_nested:
  "rfold (\<lambda>x. rfold (f x) (h x)) xs s = rfold (\<lambda>(x, y). f x y) (concat (map (\<lambda>x. map (Pair x) (h x)) xs)) s"
proof (induction xs arbitrary: s)
  case (Cons x xs)
  then have "rfold (\<lambda>x. rfold (f x) (h x)) xs =
      rfold (\<lambda>(x, y). f x y) (concat (map (\<lambda>x. map (Pair x) (h x)) xs))" by auto
  then show ?case by (simp add: rfold_append rfold_map)
qed simp

text \<open>The invariant rule of such a loop.\<close>

lemma rfold_invariant:
  assumes "rfold f xs s = Inr t" "P s"
    and "\<And>x s s'. x \<in> set xs \<Longrightarrow> P s \<Longrightarrow> f x s = Inr s' \<Longrightarrow> P s'"
  shows "P t"
  using assms
proof (induction xs arbitrary: s)
  case (Cons x xs)
  then obtain s1 where "f x s = Inr s1" "rfold f xs s1 = Inr t" by auto
  with Cons show ?case by (metis list.set_intros(1) list.set_intros(2))
qed simp

text \<open>A loop whose body never raises is a fold.\<close>

lemma rfold_total: "(\<And>x s. x \<in> set xs \<Longrightarrow> f x s = Inr (g x s)) \<Longrightarrow> rfold f xs s = Inr (fold g xs s)"
  by (induction xs arbitrary: s) auto

text \<open>A loop that collects a set: each round adds its share.\<close>

lemma rfold_union:
  assumes "\<And>x s. x \<in> set xs \<Longrightarrow> distinct s \<Longrightarrow> \<exists>s'. f x s = Inr s' \<and> distinct s' \<and> set s' = set s \<union> h x"
    and "distinct s"
  shows "\<exists>s'. rfold f xs s = Inr s' \<and> distinct s' \<and> set s' = set s \<union> (\<Union>x \<in> set xs. h x)"
  using assms
proof (induction xs arbitrary: s)
  case (Cons x xs)
  from Cons.prems(1) [of x s] Cons.prems(2) obtain s1 where
    s1: "f x s = Inr s1" "distinct s1" "set s1 = set s \<union> h x" by auto
  from Cons.IH [of s1] Cons.prems(1) s1(2) obtain s2 where
    "rfold f xs s1 = Inr s2" "distinct s2" "set s2 = set s1 \<union> (\<Union>x \<in> set xs. h x)" by auto
  with s1 show ?case by auto
qed simp

lemma rmap_eq_Inr:
  "rmap f xs = Inr ys \<longleftrightarrow> length ys = length xs \<and> (\<forall>i < length xs. f (xs ! i) = Inr (ys ! i))"
proof (induction xs arbitrary: ys)
  case (Cons x xs)
  show ?case
  proof (cases ys)
    case (Cons y ys')
    then show ?thesis
      using Cons.IH [of ys'] by (auto simp: nth_Cons less_Suc_eq_0_disj split: nat.splits)
  qed simp
qed auto

lemma rmap_total: "(\<And>x. x \<in> set xs \<Longrightarrow> f x = Inr (g x)) \<Longrightarrow> rmap f xs = Inr (map g xs)"
  by (induction xs) auto

lemma rmap_member: "rmap f xs = Inr ys \<Longrightarrow> y \<in> set ys \<Longrightarrow> \<exists>x \<in> set xs. f x = Inr y"
  by (induction xs arbitrary: ys) auto

lemma rmap_length: "rmap f xs = Inr ys \<Longrightarrow> length ys = length xs"
  by (simp add: rmap_eq_Inr)

section \<open>Python dictionaries\<close>

text \<open>
  A \<open>dict\<close> keeps its keys in insertion order, and several decisions of the program depend
  on that order (the first root of a task graph, the first node with a matching request). It is
  an association list: \<open>AList.update\<close> overwrites a present key in place and appends a new
  one, as \<open>d[k] = v\<close> does.
\<close>

type_synonym ('k, 'v) dict = "('k \<times> 'v) list"

abbreviation dset :: "'k \<Rightarrow> 'v \<Rightarrow> ('k, 'v) dict \<Rightarrow> ('k, 'v) dict" where
  "dset \<equiv> AList.update"

abbreviation keys :: "('k, 'v) dict \<Rightarrow> 'k list" where
  "keys d \<equiv> map fst d"

text \<open>\<open>d[k]\<close>.\<close>

definition dget :: "('k, 'v) dict \<Rightarrow> 'k \<Rightarrow> 'v res" where
  "dget d k = (case map_of d k of None \<Rightarrow> Inl KeyError | Some v \<Rightarrow> Inr v)"

text \<open>\<open>k in d\<close>.\<close>

definition dhas :: "('k, 'v) dict \<Rightarrow> 'k \<Rightarrow> bool" where
  "dhas d k = (map_of d k \<noteq> None)"

text \<open>\<open>d.pop(k)\<close> on a present key.\<close>

definition ddel :: "'k \<Rightarrow> ('k, 'v) dict \<Rightarrow> ('k, 'v) dict" where
  "ddel k d = filter (\<lambda>p. fst p \<noteq> k) d"

text \<open>\<open>d.update(e)\<close>, and a dictionary display or comprehension from its items.\<close>

definition dupdate :: "('k, 'v) dict \<Rightarrow> ('k, 'v) dict \<Rightarrow> ('k, 'v) dict" where
  "dupdate d e = fold (\<lambda>(k, v). dset k v) e d"

abbreviation dict_of :: "('k \<times> 'v) list \<Rightarrow> ('k, 'v) dict" where
  "dict_of kvs \<equiv> dupdate [] kvs"

abbreviation dict_ok :: "('k, 'v) dict \<Rightarrow> bool" where
  "dict_ok d \<equiv> distinct (keys d)"

text \<open>Change the value stored under every key.\<close>

definition dmap :: "('k \<Rightarrow> 'v \<Rightarrow> 'w) \<Rightarrow> ('k, 'v) dict \<Rightarrow> ('k, 'w) dict" where
  "dmap f d = map (\<lambda>(k, v). (k, f k v)) d"

lemma dget_eq_Inr [simp]: "dget d k = Inr v \<longleftrightarrow> map_of d k = Some v"
  by (auto simp: dget_def split: option.splits)

lemma dget_eq_Inl: "dget d k = Inl e \<longleftrightarrow> map_of d k = None \<and> e = KeyError"
  by (auto simp: dget_def split: option.splits)

lemma dget_Some: "map_of d k = Some v \<Longrightarrow> dget d k = Inr v"
  by (simp add: dget_def)

lemma dget_None: "map_of d k = None \<Longrightarrow> dget d k = Inl KeyError"
  by (simp add: dget_def)

lemma dhas_iff: "dhas d k \<longleftrightarrow> k \<in> set (keys d)"
  by (simp add: dhas_def map_of_eq_None_iff)

lemma map_of_dset [simp]: "map_of (dset k v d) = (map_of d)(k \<mapsto> v)"
  by (rule update_conv')

lemma map_of_ddel [simp]: "map_of (ddel k d) = (map_of d)(k := None)"
  by (induction d) (auto simp: ddel_def fun_eq_iff)

lemma dict_ok_dset [simp]: "dict_ok d \<Longrightarrow> dict_ok (dset k v d)"
  by (rule distinct_update)

lemma keys_dset: "keys (dset k v d) = (if k \<in> set (keys d) then keys d else keys d @ [k])"
  by (rule update_keys)

lemma keys_dset_present: "map_of d k = Some x \<Longrightarrow> keys (dset k v d) = keys d"
  by (auto simp: keys_dset dest: map_of_SomeD intro: rev_image_eqI)

lemma keys_ddel: "keys (ddel k d) = filter (\<lambda>x. x \<noteq> k) (keys d)"
  by (induction d) (auto simp: ddel_def)

lemma dict_ok_ddel [simp]: "dict_ok d \<Longrightarrow> dict_ok (ddel k d)"
  by (simp add: keys_ddel)

lemma keys_dmap [simp]: "keys (dmap f d) = keys d"
  by (auto simp: dmap_def)

lemma map_of_dmap [simp]: "map_of (dmap f d) k = map_option (f k) (map_of d k)"
  by (induction d) (auto simp: dmap_def)

lemma map_of_dupdate: "map_of (dupdate d e) = map_of d ++ map_of (rev e)"
proof (induction e arbitrary: d)
  case (Cons p e)
  show ?case
    by (cases p) (simp add: Cons [unfolded dupdate_def] dupdate_def fun_eq_iff map_add_def
      split: option.splits)
qed (simp add: dupdate_def)

lemma map_of_rev_ok: "dict_ok e \<Longrightarrow> map_of (rev e) = map_of e"
  by (rule map_of_inject_set [THEN iffD2]) (auto simp: rev_map [symmetric])

lemma map_of_dupdate_ok [simp]: "dict_ok e \<Longrightarrow> map_of (dupdate d e) = map_of d ++ map_of e"
  by (simp add: map_of_dupdate map_of_rev_ok)

lemma dict_ok_dupdate [simp]: "dict_ok d \<Longrightarrow> dict_ok (dupdate d e)"
  by (induction e arbitrary: d) (auto simp: dupdate_def)

lemma set_keys_dupdate: "fst ` set (dupdate d e) = fst ` set d \<union> fst ` set e"
proof (induction e arbitrary: d)
  case (Cons p e)
  from Cons [of "dset (fst p) (snd p) d"] show ?case
    by (simp add: dupdate_def split_beta dom_update)
qed (simp add: dupdate_def)

lemma dset_dset: "dset k v (dset k w d) = dset k v d"
  by (induction d) auto

lemma dset_same: "map_of d k = Some v \<Longrightarrow> dset k v d = d"
  by (induction d) auto

lemma dmap_dmap: "dmap f (dmap h d) = dmap (\<lambda>k v. f k (h k v)) d"
  by (induction d) (auto simp: dmap_def)

lemma dmap_dset: "dmap f (dset k v d) = dset k (f k v) (dmap f d)"
  by (induction d) (auto simp: dmap_def)

lemma dmap_ddel: "dmap f (ddel k d) = ddel k (dmap f d)"
  by (induction d) (auto simp: dmap_def ddel_def)

lemma dset_fresh: "k \<notin> set (keys d) \<Longrightarrow> dset k v d = d @ [(k, v)]"
  by (induction d) auto

lemma dupdate_fresh: "distinct (keys (d @ e)) \<Longrightarrow> dupdate d e = d @ e"
proof (induction e arbitrary: d)
  case (Cons p e)
  have "dupdate d (p # e) = dupdate (d @ [p]) e"
    using Cons.prems dset_fresh [of "fst p" d "snd p"] by (cases p) (simp add: dupdate_def)
  with Cons show ?case by simp
qed (simp add: dupdate_def)

lemma dict_of_distinct: "dict_ok kvs \<Longrightarrow> dict_of kvs = kvs"
  using dupdate_fresh [of "[]" kvs] by simp

lemma map_of_in_keys: "map_of d k = Some v \<Longrightarrow> k \<in> set (keys d)"
  by (metis dhas_def dhas_iff option.distinct(1))

lemma in_keys_map_of: "k \<in> set (keys d) \<Longrightarrow> \<exists>v. map_of d k = Some v"
  by (metis dhas_def dhas_iff option.exhaust)

lemma option_eq_Some: "(\<And>v. x = Some v \<longleftrightarrow> y = Some v) \<Longrightarrow> x = y"
  by (cases x; cases y) auto

lemma items_map_of: "dict_ok d \<Longrightarrow> (k, v) \<in> set d \<longleftrightarrow> map_of d k = Some v"
  by (auto simp: map_of_is_SomeI dest: map_of_SomeD)

lemma ball_items:
  assumes "dict_ok d"
  shows "(\<forall>p \<in> set d. case p of (k, v) \<Rightarrow> P k v) \<longleftrightarrow> (\<forall>k v. map_of d k = Some v \<longrightarrow> P k v)"
  using items_map_of [OF assms] by (metis (mono_tags, lifting) case_prodE case_prodI2 case_prodD)

lemma bex_items:
  assumes "dict_ok d"
  shows "(\<exists>p \<in> set d. case p of (k, v) \<Rightarrow> P k v) \<longleftrightarrow> (\<exists>k v. map_of d k = Some v \<and> P k v)"
  using ball_items [OF assms, of "\<lambda>k v. \<not> P k v"] by (simp add: split_beta) blast

section \<open>Python lists\<close>

text \<open>\<open>xs[i]\<close>: a negative index counts from the end, anything else out of range raises.\<close>

definition py_index :: "'a list \<Rightarrow> int \<Rightarrow> nat res" where
  "py_index xs i =
     (let n = int (length xs); j = (if i < 0 then n + i else i)
      in if 0 \<le> j \<and> j < n then Inr (nat j) else Inl IndexError)"

definition py_nth :: "'a list \<Rightarrow> int \<Rightarrow> 'a res" where
  "py_nth xs i = rbind (py_index xs i) (\<lambda>j. Inr (xs ! j))"

text \<open>\<open>xs[i] = v\<close>.\<close>

definition py_setitem :: "'a list \<Rightarrow> int \<Rightarrow> 'a \<Rightarrow> 'a list res" where
  "py_setitem xs i v = rbind (py_index xs i) (\<lambda>j. Inr (xs[j := v]))"

text \<open>\<open>xs[a:b]\<close>: both ends are clipped to the list, negative ends count from the end.\<close>

definition py_clip :: "nat \<Rightarrow> int \<Rightarrow> nat" where
  "py_clip n i = (if i < 0 then nat (int n + i) else min n (nat i))"

definition py_slice :: "'a list \<Rightarrow> int \<Rightarrow> int \<Rightarrow> 'a list" where
  "py_slice xs a b = drop (py_clip (length xs) a) (take (py_clip (length xs) b) xs)"

text \<open>\<open>xs.index(x)\<close> and \<open>enumerate\<close>-style searches for the first position.\<close>

fun find_index :: "('a \<Rightarrow> bool) \<Rightarrow> 'a list \<Rightarrow> nat option" where
  "find_index P [] = None"
| "find_index P (x # xs) = (if P x then Some 0 else map_option Suc (find_index P xs))"

lemma py_index_nonneg: "0 \<le> i \<Longrightarrow> i < int (length xs) \<Longrightarrow> py_index xs i = Inr (nat i)"
  by (simp add: py_index_def)

lemma py_nth_nonneg: "0 \<le> i \<Longrightarrow> i < int (length xs) \<Longrightarrow> py_nth xs i = Inr (xs ! nat i)"
  by (simp add: py_nth_def py_index_nonneg)

lemma py_index_bound: "py_index xs i = Inr j \<Longrightarrow> j < length xs"
  by (auto simp: py_index_def Let_def split: if_splits)

lemma py_setitem_length: "py_setitem xs i v = Inr ys \<Longrightarrow> length ys = length xs"
  by (auto simp: py_setitem_def)

lemma find_index_None: "find_index P xs = None \<longleftrightarrow> (\<forall>x \<in> set xs. \<not> P x)"
  by (induction xs) auto

lemma find_index_Some:
  "find_index P xs = Some i \<Longrightarrow> i < length xs \<and> P (xs ! i) \<and> (\<forall>j < i. \<not> P (xs ! j))"
proof (induction xs arbitrary: i)
  case (Cons x xs)
  then show ?case
    by (cases i) (auto simp: nth_Cons split: if_splits nat.splits)
qed simp

lemma find_index_lessI: "x \<in> set xs \<Longrightarrow> P x \<Longrightarrow> \<exists>i. find_index P xs = Some i"
  by (metis find_index_None not_None_eq)

end
