(* ===== verification/MsgBuffer.thy ===== *)
theory MsgBuffer
  imports Prelude
begin

text \<open>
  Messages between components (\<open>qoala/sim/componentprot.py\<close>): \<open>MessageBuffer\<close>, one first-in
  first-out list per pair of source and destination process, and the listeners of a
  \<open>ComponentProtocol\<close>, one buffer per named port. A port delivers messages while the component
  waits; the arrivals still to come, with their times, are part of the state, so that waiting is
  a function. The contract of one channel of a buffer is the locale \<open>fifo\<close>.
\<close>

section \<open>Message buffers\<close>

record 'c message =
  src_pid :: int
  dst_pid :: int
  content :: 'c

definition msg_key :: "'c message \<Rightarrow> int \<times> int" where
  "msg_key m = (src_pid m, dst_pid m)"

type_synonym 'c msg_buffer = "(int \<times> int, 'c message list) dict"

definition add_msg :: "'c message \<Rightarrow> 'c msg_buffer \<Rightarrow> 'c msg_buffer" where
  "add_msg m b =
     (let k = msg_key m in
      case map_of b k of None \<Rightarrow> dset k [m] b | Some ms \<Rightarrow> dset k (ms @ [m]) b)"

definition has_msg :: "int \<Rightarrow> int \<Rightarrow> 'c msg_buffer \<Rightarrow> bool" where
  "has_msg src dst b = (case map_of b (src, dst) of None \<Rightarrow> False | Some ms \<Rightarrow> ms \<noteq> [])"

definition has_any :: "'c msg_buffer \<Rightarrow> bool" where
  "has_any b = list_ex (\<lambda>(k, ms). ms \<noteq> []) b"

definition get_all :: "'c msg_buffer \<Rightarrow> (int \<times> int) list" where
  "get_all b = map fst (filter (\<lambda>(k, ms). ms \<noteq> []) b)"

definition count_all :: "'c msg_buffer \<Rightarrow> nat" where
  "count_all b = sum_list (map (\<lambda>(k, ms). length ms) b)"

definition pop_msg :: "int \<Rightarrow> int \<Rightarrow> 'c msg_buffer \<Rightarrow> ('c message \<times> 'c msg_buffer) res" where
  "pop_msg src dst b =
     rbind (dget b (src, dst)) (\<lambda>ms.
     case ms of [] \<Rightarrow> Inl IndexError | m # ms' \<Rightarrow> Inr (m, dset (src, dst) ms' b))"

fun pop_any :: "'c msg_buffer \<Rightarrow> ('c message \<times> 'c msg_buffer) res" where
  "pop_any [] = Inl RuntimeError"
| "pop_any ((k, []) # b) = rbind (pop_any b) (\<lambda>(m, b'). Inr (m, (k, []) # b'))"
| "pop_any ((k, m # ms) # b) = Inr (m, (k, ms) # b)"

definition pop_all :: "'c msg_buffer \<Rightarrow> 'c message list \<times> 'c msg_buffer" where
  "pop_all b = (concat (map snd b), map (\<lambda>(k, ms). (k, [])) b)"

subsection \<open>The contents of a channel\<close>

definition channel :: "'c msg_buffer \<Rightarrow> int \<times> int \<Rightarrow> 'c message list" where
  "channel b k = (case map_of b k of None \<Rightarrow> [] | Some ms \<Rightarrow> ms)"

definition buffer_inv :: "'c msg_buffer \<Rightarrow> bool" where
  "buffer_inv b \<longleftrightarrow> dict_ok b \<and> (\<forall>(k, ms) \<in> set b. \<forall>m \<in> set ms. msg_key m = k)"

lemma buffer_inv_Nil [simp]: "buffer_inv []"
  by (simp add: buffer_inv_def)

lemma buffer_inv_map_of:
  "dict_ok b \<Longrightarrow> buffer_inv b \<longleftrightarrow>
     (\<forall>k ms. map_of b k = Some ms \<longrightarrow> (\<forall>m \<in> set ms. msg_key m = k))"
  unfolding buffer_inv_def
  by (simp only: ball_items [of b "\<lambda>k ms. \<forall>m \<in> set ms. msg_key m = k"]) simp

lemma buffer_inv_ok: "buffer_inv b \<Longrightarrow> dict_ok b"
  by (simp add: buffer_inv_def)

lemma buffer_inv_dset:
  assumes "buffer_inv b" "\<And>m. m \<in> set ms \<Longrightarrow> msg_key m = k"
  shows "buffer_inv (dset k ms b)"
proof -
  have d: "dict_ok b" "dict_ok (dset k ms b)" using buffer_inv_ok [OF assms(1)] by auto
  have "\<forall>k ms. map_of b k = Some ms \<longrightarrow> (\<forall>m \<in> set ms. msg_key m = k)"
    using assms(1) by (simp only: buffer_inv_map_of [OF d(1)])
  with assms(2) show ?thesis
    unfolding buffer_inv_map_of [OF d(2)] map_of_dset fun_upd_apply by (metis option.inject)
qed

lemma channel_msgs: "buffer_inv b \<Longrightarrow> m \<in> set (channel b k) \<Longrightarrow> msg_key m = k"
proof (cases "map_of b k")
  case (Some ms)
  assume "buffer_inv b" "m \<in> set (channel b k)"
  with Some show ?thesis using buffer_inv_map_of [OF buffer_inv_ok] by (metis channel_def option.simps(5))
qed (simp add: channel_def)

lemma channel_dset [simp]: "channel (dset k ms b) k' = (if k' = k then ms else channel b k')"
  by (auto simp: channel_def)

lemma channel_add:
  "channel (add_msg m b) k = (if k = msg_key m then channel b k @ [m] else channel b k)"
  by (auto simp: add_msg_def channel_def Let_def split: option.splits)

lemma buffer_inv_add:
  assumes "buffer_inv b"
  shows "buffer_inv (add_msg m b)"
proof -
  have "add_msg m b = dset (msg_key m) (channel b (msg_key m) @ [m]) b"
    by (cases "map_of b (msg_key m)") (simp_all add: add_msg_def channel_def)
  moreover have "msg_key x = msg_key m" if "x \<in> set (channel b (msg_key m) @ [m])" for x
    using that channel_msgs [OF assms, of x "msg_key m"] by auto
  ultimately show ?thesis using buffer_inv_dset [OF assms] by metis
qed

lemma has_msg_channel: "has_msg src dst b \<longleftrightarrow> channel b (src, dst) \<noteq> []"
  by (auto simp: has_msg_def channel_def split: option.splits)

lemma set_get_all: "dict_ok b \<Longrightarrow> (src, dst) \<in> set (get_all b) \<longleftrightarrow> has_msg src dst b"
proof -
  assume d: "dict_ok b"
  have "(src, dst) \<in> set (get_all b) \<longleftrightarrow> (\<exists>ms. ((src, dst), ms) \<in> set b \<and> ms \<noteq> [])"
    by (force simp: get_all_def)
  also have "\<dots> \<longleftrightarrow> (\<exists>ms. map_of b (src, dst) = Some ms \<and> ms \<noteq> [])"
    by (simp only: items_map_of [OF d])
  finally show ?thesis by (cases "map_of b (src, dst)") (simp_all add: has_msg_def)
qed

lemma has_any_iff: "dict_ok b \<Longrightarrow> has_any b \<longleftrightarrow> (\<exists>k. channel b k \<noteq> [])"
  unfolding has_any_def list_ex_iff channel_def
  by (simp only: bex_items [of b "\<lambda>k ms. ms \<noteq> []"]) (metis option.case_eq_if option.distinct(1) option.sel option.collapse)

lemma pop_msg_channel:
  assumes "channel b (src, dst) = m # ms"
  shows "pop_msg src dst b = Inr (m, dset (src, dst) ms b)"
proof -
  have "map_of b (src, dst) = Some (m # ms)"
    using assms by (cases "map_of b (src, dst)") (simp_all add: channel_def)
  then show ?thesis by (simp add: pop_msg_def dget_Some)
qed

lemma pop_msg_Inr:
  "pop_msg src dst b = Inr (m, b') \<longleftrightarrow>
     (\<exists>ms. channel b (src, dst) = m # ms \<and> b' = dset (src, dst) ms b)"
  by (auto simp: pop_msg_def channel_def split: option.splits list.splits)

lemma pop_any_Inr:
  "pop_any b = Inr (m, b') \<Longrightarrow> dict_ok b \<Longrightarrow>
     \<exists>k ms. k \<in> set (keys b) \<and> channel b k = m # ms \<and> b' = dset k ms b"
proof (induction b arbitrary: b' rule: pop_any.induct)
  case (2 k b)
  then obtain b1 where b1: "pop_any b = Inr (m, b1)" "b' = (k, []) # b1" by auto
  have "dict_ok b" using 2(3) by simp
  from 2(1) [OF b1(1) this] obtain k' ms where
    k': "k' \<in> set (keys b)" "channel b k' = m # ms" "b1 = dset k' ms b" by blast
  moreover have "k' \<noteq> k" using 2(3) k'(1) by auto
  ultimately show ?case using b1 by (intro exI [of _ k'] exI [of _ ms]) (simp add: channel_def)
qed (auto simp: channel_def)

lemma pop_any_total: "has_any b \<Longrightarrow> \<exists>m b'. pop_any b = Inr (m, b')"
  by (induction b rule: pop_any.induct) (auto simp: has_any_def)

lemma pop_any_empty: "\<not> has_any b \<Longrightarrow> pop_any b = Inl RuntimeError"
  by (induction b rule: pop_any.induct) (auto simp: has_any_def)

lemma pop_all_channels: "channel (snd (pop_all b)) k = []"
  by (induction b) (auto simp: pop_all_def channel_def)

lemma count_dset:
  assumes "dict_ok b" "map_of b k = Some ms"
  shows "count_all (dset k ms' b) + length ms = count_all b + length ms'"
  using assms
proof (induction b)
  case (Cons p b)
  obtain k1 ms1 where p: "p = (k1, ms1)" by (cases p)
  show ?case
  proof (cases "k1 = k")
    case True
    then show ?thesis using Cons.prems by (simp add: count_all_def p)
  next
    case False
    with Cons show ?thesis by (simp add: count_all_def p)
  qed
qed simp

lemma count_dset_new: "map_of b k = None \<Longrightarrow> count_all (dset k ms b) = count_all b + length ms"
  by (induction b) (auto simp: count_all_def split: if_splits)

lemma count_add: "dict_ok b \<Longrightarrow> count_all (add_msg m b) = Suc (count_all b)"
proof (cases "map_of b (msg_key m)")
  case (Some ms)
  assume "dict_ok b"
  from count_dset [OF this Some, of "ms @ [m]"] Some show ?thesis by (simp add: add_msg_def)
qed (simp add: add_msg_def count_dset_new)

subsection \<open>The contract of a channel\<close>

text \<open>Repeat a pop \<open>n\<close> times and collect what it returns.\<close>

fun pops :: "('b \<Rightarrow> ('m \<times> 'b) res) \<Rightarrow> nat \<Rightarrow> 'b \<Rightarrow> ('m list \<times> 'b) res" where
  "pops pop 0 b = Inr ([], b)"
| "pops pop (Suc n) b =
     rbind (pop b) (\<lambda>(m, b'). rbind (pops pop n b') (\<lambda>(ms, b''). Inr (m # ms, b'')))"

locale fifo =
  fixes inv :: "'b \<Rightarrow> bool"
    and push :: "'m \<Rightarrow> 'b \<Rightarrow> 'b"
    and pop :: "'k \<Rightarrow> 'b \<Rightarrow> ('m \<times> 'b) res"
    and key :: "'m \<Rightarrow> 'k"
    and queue :: "'b \<Rightarrow> 'k \<Rightarrow> 'm list"
  assumes push_inv: "inv b \<Longrightarrow> inv (push m b)"
    and push_queue: "queue (push m b) k = (if k = key m then queue b k @ [m] else queue b k)"
    and pop_some: "queue b k = m # ms \<Longrightarrow>
      \<exists>b'. pop k b = Inr (m, b') \<and> (inv b \<longrightarrow> inv b') \<and>
        (\<forall>k'. queue b' k' = (if k' = k then ms else queue b k'))"
    and pop_none: "queue b k = [] \<Longrightarrow> \<exists>e. pop k b = Inl e"
begin

text \<open>Messages pushed one after the other.\<close>

lemma pushes_queue: "queue (fold push ms b) k = queue b k @ filter (\<lambda>m. key m = k) ms"
  by (induction ms arbitrary: b) (auto simp: push_queue)

lemma pushes_inv: "inv b \<Longrightarrow> inv (fold push ms b)"
  by (induction ms arbitrary: b) (auto simp: push_inv)

text \<open>Popping from a channel until \<open>n\<close> messages are read.\<close>

lemma pops_queue:
  "n \<le> length (queue b k) \<Longrightarrow> \<exists>b'. pops (pop k) n b = Inr (take n (queue b k), b') \<and>
     queue b' k = drop n (queue b k) \<and> (\<forall>k'. k' \<noteq> k \<longrightarrow> queue b' k' = queue b k')"
proof (induction n arbitrary: b)
  case (Suc n)
  then obtain m ms where q: "queue b k = m # ms" by (cases "queue b k") auto
  from pop_some [OF q] obtain b1 where b1: "pop k b = Inr (m, b1)"
    "\<And>k'. queue b1 k' = (if k' = k then ms else queue b k')" by blast
  from Suc.IH [of b1] Suc.prems q b1(2) obtain b2 where "pops (pop k) n b1 = Inr (take n ms, b2)"
    "queue b2 k = drop n ms" "\<And>k'. k' \<noteq> k \<Longrightarrow> queue b2 k' = queue b1 k'" by auto
  with b1 q show ?case by auto
qed simp

end

interpretation chan: fifo buffer_inv add_msg "\<lambda>(s, d) b. pop_msg s d b"
    "\<lambda>m. msg_key m" channel
proof (unfold_locales, goal_cases)
  case (3 b k m ms)
  obtain s d where k: "k = (s, d)" by (cases k)
  have "buffer_inv b \<Longrightarrow> buffer_inv (dset k ms b)"
    using channel_msgs [of b _ k] 3 by (intro buffer_inv_dset) auto
  with 3 k show ?case by (simp add: pop_msg_channel)
next
  case (4 b k)
  then show ?case by (cases k) (auto simp: pop_msg_def channel_def dget_def split: option.splits)
qed (auto simp: buffer_inv_add channel_add)


subsection \<open>Any interleaving of operations\<close>

datatype 'c buffer_op = AddMsg "'c message" | PopMsg int int | PopAny | PopAll

text \<open>One operation: the messages it returns and the buffer it leaves.\<close>

fun buffer_step :: "'c buffer_op \<Rightarrow> 'c msg_buffer \<Rightarrow> ('c message list \<times> 'c msg_buffer) res" where
  "buffer_step (AddMsg m) b = Inr ([], add_msg m b)"
| "buffer_step (PopMsg s d) b = rbind (pop_msg s d b) (\<lambda>(m, b'). Inr ([m], b'))"
| "buffer_step PopAny b = rbind (pop_any b) (\<lambda>(m, b'). Inr ([m], b'))"
| "buffer_step PopAll b = Inr (pop_all b)"

fun buffer_run :: "'c buffer_op list \<Rightarrow> 'c msg_buffer \<Rightarrow> ('c message list \<times> 'c msg_buffer) res" where
  "buffer_run [] b = Inr ([], b)"
| "buffer_run (x # xs) b =
     rbind (buffer_step x b) (\<lambda>(out, b'). rbind (buffer_run xs b') (\<lambda>(outs, b''). Inr (out @ outs, b'')))"

fun added :: "'c buffer_op list \<Rightarrow> 'c message list" where
  "added [] = []"
| "added (AddMsg m # xs) = m # added xs"
| "added (x # xs) = added xs"

abbreviation on_key :: "int \<times> int \<Rightarrow> 'c message list \<Rightarrow> 'c message list" where
  "on_key k \<equiv> filter (\<lambda>m. msg_key m = k)"

lemma on_key_channel: "buffer_inv b \<Longrightarrow> on_key k (channel b k') = (if k = k' then channel b k else [])"
  using channel_msgs [of b _ k'] by (auto simp: filter_id_conv filter_empty_conv)

lemma on_key_concat:
  assumes "buffer_inv b"
  shows "on_key k (concat (map snd b)) = channel b k"
proof -
  have "dict_ok b \<Longrightarrow> (\<And>k' ms. (k', ms) \<in> set b \<Longrightarrow> \<forall>m \<in> set ms. msg_key m = k') \<Longrightarrow>
      on_key k (concat (map snd b)) = channel b k"
  proof (induction b)
    case (Cons p b)
    obtain k1 ms1 where p: "p = (k1, ms1)" by (cases p)
    have m1: "\<forall>m \<in> set ms1. msg_key m = k1" using Cons.prems(2) [of k1 ms1] p by simp
    have IH: "on_key k (concat (map snd b)) = channel b k"
      using Cons.prems by (intro Cons.IH) auto
    have "k1 = k \<Longrightarrow> map_of b k = None"
      using Cons.prems(1) p by (simp add: map_of_eq_None_iff)
    with IH m1 show ?case by (auto simp: p channel_def filter_id_conv filter_empty_conv)
  qed (simp add: channel_def)
  with assms show ?thesis by (auto simp: buffer_inv_def)
qed

lemma buffer_step_order:
  assumes "buffer_step x b = Inr (out, b')" "buffer_inv b"
  shows "buffer_inv b' \<and> on_key k out @ channel b' k = channel b k @ on_key k (added [x])"
proof (cases x)
  case (AddMsg m)
  with assms show ?thesis by (auto simp: buffer_inv_add channel_add)
next
  case (PopMsg s d)
  with assms obtain m ms where c: "channel b (s, d) = m # ms" "out = [m]" "b' = dset (s, d) ms b"
    by (auto simp: pop_msg_Inr)
  moreover have "\<And>x. x \<in> set (m # ms) \<Longrightarrow> msg_key x = (s, d)"
    using channel_msgs [OF assms(2)] c(1) by metis
  ultimately show ?thesis using PopMsg assms(2) by (auto intro!: buffer_inv_dset)
next
  case PopAny
  with assms obtain m where m: "out = [m]" "pop_any b = Inr (m, b')" by auto
  from pop_any_Inr [OF m(2) buffer_inv_ok [OF assms(2)]] obtain k' ms where
    c: "channel b k' = m # ms" "b' = dset k' ms b" by blast
  moreover have "\<And>x. x \<in> set (m # ms) \<Longrightarrow> msg_key x = k'"
    using channel_msgs [OF assms(2)] c(1) by metis
  ultimately show ?thesis using PopAny m(1) assms(2) by (auto intro!: buffer_inv_dset)
next
  case PopAll
  with assms have o: "out = concat (map snd b)" "b' = map (\<lambda>(k, ms). (k, [])) b"
    by (auto simp: pop_all_def)
  then have "channel b' k = []" using pop_all_channels [of b k] by (simp add: pop_all_def)
  moreover have "buffer_inv b'"
    using buffer_inv_ok [OF assms(2)] by (auto simp: buffer_inv_def o comp_def split_beta)
  ultimately show ?thesis using PopAll o on_key_concat [OF assms(2)] by simp
qed

text \<open>C16: Whatever the order in which messages are added, popped by channel, popped from any
channel and drained, no message of a channel is lost, duplicated or overtaken: what was taken out
of a channel, followed by what it still holds, is what was put in, in order.\<close>

theorem buffer_fifo:
  assumes "buffer_run ops b = Inr (out, b')" "buffer_inv b"
  shows "on_key k out @ channel b' k = channel b k @ on_key k (added ops)"
  using assms
proof (induction ops arbitrary: b out)
  case (Cons x xs)
  then obtain o1 b1 o2 where s: "buffer_step x b = Inr (o1, b1)" "buffer_run xs b1 = Inr (o2, b')"
    "out = o1 @ o2" by auto
  have a: "added (x # xs) = added [x] @ added xs" by (cases x) auto
  note step = buffer_step_order [OF s(1) Cons.prems(2), of k]
  have "on_key k out @ channel b' k = on_key k o1 @ on_key k o2 @ channel b' k" by (simp add: s(3))
  also have "\<dots> = (on_key k o1 @ channel b1 k) @ on_key k (added xs)"
    using Cons.IH [OF s(2)] step by simp
  also have "\<dots> = channel b k @ on_key k (added (x # xs))" using step by (simp only: a filter_append append_assoc)
  finally show ?case .
qed simp

theorem buffer_fifo_witness:
  "\<exists>out b'. buffer_run [AddMsg \<lparr>src_pid = 1, dst_pid = 2, content = ''a''\<rparr>,
       AddMsg \<lparr>src_pid = 1, dst_pid = 2, content = ''b''\<rparr>, PopMsg 1 2] [] = Inr (out, b') \<and>
     on_key (1, 2) out @ channel b' (1, 2) =
       [\<lparr>src_pid = 1, dst_pid = 2, content = ''a''\<rparr>, \<lparr>src_pid = 1, dst_pid = 2, content = ''b''\<rparr>]"
proof -
  let ?ops = "[AddMsg \<lparr>src_pid = 1, dst_pid = 2, content = ''a''\<rparr>,
       AddMsg \<lparr>src_pid = 1, dst_pid = 2, content = ''b''\<rparr>, PopMsg 1 2]"
  obtain out b' where r: "buffer_run ?ops [] = Inr (out, b')"
    by (simp add: add_msg_def pop_msg_def dget_def msg_key_def)
  have "on_key (1, 2) out @ channel b' (1, 2) = channel [] (1, 2) @ on_key (1, 2) (added ?ops)"
    by (rule buffer_fifo [OF r buffer_inv_Nil])
  then have "on_key (1, 2) out @ channel b' (1, 2) =
       [\<lparr>src_pid = 1, dst_pid = 2, content = ''a''\<rparr>, \<lparr>src_pid = 1, dst_pid = 2, content = ''b''\<rparr>]"
    by (simp add: channel_def [of "[]"] msg_key_def)
  with r show ?thesis by blast
qed

section \<open>Listeners\<close>

text \<open>
  The ports of one component: a buffer per listener, the clock, and the messages that are on
  their way, in the order of their arrival times. The run of a \<open>PortListener\<close> appends an
  arriving message to its buffer at the time it arrives.
\<close>

record 'c inbox =
  ib_listeners :: "(string, 'c msg_buffer) dict"
  ib_arrivals :: "(real \<times> string \<times> 'c message) list"
  ib_now :: real

definition deliver :: "real \<times> string \<times> 'c message \<Rightarrow> (string, 'c msg_buffer) dict \<Rightarrow> (string, 'c msg_buffer) dict" where
  "deliver a ls = (case a of (t, name, m) \<Rightarrow>
     (case map_of ls name of None \<Rightarrow> ls | Some b \<Rightarrow> dset name (add_msg m b) ls))"

text \<open>Let the simulation run up to time \<open>t\<close>.\<close>

definition advance :: "real \<Rightarrow> 'c inbox \<Rightarrow> 'c inbox" where
  "advance t ib =
     ib\<lparr>ib_listeners := fold deliver (takeWhile (\<lambda>(u, _). u \<le> t) (ib_arrivals ib)) (ib_listeners ib),
        ib_arrivals := dropWhile (\<lambda>(u, _). u \<le> t) (ib_arrivals ib),
        ib_now := max (ib_now ib) t\<rparr>"

text \<open>\<open>yield from self.wait(d)\<close>\<close>

definition ib_wait :: "real \<Rightarrow> 'c inbox \<Rightarrow> 'c inbox" where
  "ib_wait d ib = advance (ib_now ib + d) ib"

text \<open>\<open>_wait_for_msg\<close>: nothing to wait for, or the first arrival at this listener.\<close>

definition wait_for_msg :: "string \<Rightarrow> 'c inbox \<Rightarrow> 'c inbox res" where
  "wait_for_msg name ib =
     rbind (dget (ib_listeners ib) name) (\<lambda>b.
     if has_any b then Inr ib
     else case List.find (\<lambda>(t, n, m). n = name) (ib_arrivals ib) of
            None \<Rightarrow> Inl NeverResumed
          | Some (t, _) \<Rightarrow> Inr (advance t ib))"

definition ib_pop_any_msg :: "string \<Rightarrow> 'c inbox \<Rightarrow> ('c message \<times> 'c inbox) res" where
  "ib_pop_any_msg name ib =
     rbind (dget (ib_listeners ib) name) (\<lambda>b.
     rbind (pop_any b) (\<lambda>(m, b'). Inr (m, ib\<lparr>ib_listeners := dset name b' (ib_listeners ib)\<rparr>)))"

definition ib_pop_msg :: "string \<Rightarrow> int \<Rightarrow> int \<Rightarrow> 'c inbox \<Rightarrow> ('c message \<times> 'c inbox) res" where
  "ib_pop_msg name src dst ib =
     rbind (dget (ib_listeners ib) name) (\<lambda>b.
     rbind (pop_msg src dst b) (\<lambda>(m, b'). Inr (m, ib\<lparr>ib_listeners := dset name b' (ib_listeners ib)\<rparr>)))"

definition ib_has_msg :: "string \<Rightarrow> int \<Rightarrow> int \<Rightarrow> 'c inbox \<Rightarrow> bool res" where
  "ib_has_msg name src dst ib = rbind (dget (ib_listeners ib) name) (\<lambda>b. Inr (has_msg src dst b))"

text \<open>\<open>_pop_any_msg_any_source\<close>: the first listener of the list that has a message.\<close>

fun ib_pop_any_source :: "string list \<Rightarrow> 'c inbox \<Rightarrow> ('c message \<times> 'c inbox) res" where
  "ib_pop_any_source [] ib = Inl RuntimeError"
| "ib_pop_any_source (name # names) ib =
     rbind (dget (ib_listeners ib) name) (\<lambda>b.
     if has_any b then ib_pop_any_msg name ib else ib_pop_any_source names ib)"

fun ib_pop_all :: "string list \<Rightarrow> 'c inbox \<Rightarrow> ('c message list \<times> 'c inbox) res" where
  "ib_pop_all [] ib = Inr ([], ib)"
| "ib_pop_all (name # names) ib =
     rbind (dget (ib_listeners ib) name) (\<lambda>b.
     let (ms, b') = (if has_any b then pop_all b else ([], b)) in
     rbind (ib_pop_all names (ib\<lparr>ib_listeners := dset name b' (ib_listeners ib)\<rparr>)) (\<lambda>(rest, ib').
     Inr (ms @ rest, ib')))"

text \<open>\<open>_wait_for_msg_any_source\<close>, with the assertions of the event expression it builds.\<close>

definition wait_for_any :: "string list \<Rightarrow> 'c inbox \<Rightarrow> 'c inbox res" where
  "wait_for_any names ib =
     rbind (rmap (\<lambda>n. dget (ib_listeners ib) n) names) (\<lambda>bs.
     if list_ex has_any bs then Inr ib
     else rbind (py_assert (names \<noteq> [])) (\<lambda>_.
       case List.find (\<lambda>(t, n, m). n \<in> set names) (ib_arrivals ib) of
         None \<Rightarrow> Inl NeverResumed
       | Some (t, _) \<Rightarrow> Inr (advance t ib)))"

subsection \<open>Waiting delivers\<close>

definition inbox_inv :: "'c inbox \<Rightarrow> bool" where
  "inbox_inv ib \<longleftrightarrow> (\<forall>n b. map_of (ib_listeners ib) n = Some b \<longrightarrow> buffer_inv b) \<and>
     sorted (map fst (ib_arrivals ib))"

text \<open>The messages of one channel of one listener, those still on their way included.\<close>

definition inflight :: "string \<Rightarrow> int \<times> int \<Rightarrow> 'c inbox \<Rightarrow> 'c message list" where
  "inflight name k ib =
     (case map_of (ib_listeners ib) name of None \<Rightarrow> [] | Some b \<Rightarrow> channel b k) @
     on_key k (map (snd \<circ> snd) (filter (\<lambda>(t, n, m). n = name) (ib_arrivals ib)))"

lemma map_of_deliver:
  "map_of (deliver (t, n, m) ls) name =
     (if n = name then map_option (add_msg m) (map_of ls name) else map_of ls name)"
  by (auto simp: deliver_def split: option.splits)

lemma map_of_delivers:
  "map_of (fold deliver as ls) name =
     map_option (fold add_msg (map (snd \<circ> snd) (filter (\<lambda>(t, n, m). n = name) as))) (map_of ls name)"
proof (induction as arbitrary: ls)
  case (Cons a as)
  then show ?case by (cases a) (auto simp: map_of_deliver option.map_comp comp_def)
qed (simp add: id_def option.map_ident)

lemma takeWhile_dropWhile_filter: "filter P (takeWhile Q xs) @ filter P (dropWhile Q xs) = filter P xs"
  by (metis filter_append takeWhile_dropWhile_id)

lemma advance_inflight:
  assumes "map_of (ib_listeners ib) name \<noteq> None"
  shows "inflight name k (advance t ib) = inflight name k ib"
proof -
  let ?P = "\<lambda>(u, _). u \<le> t" and ?N = "\<lambda>(t, n, m). n = name"
  obtain b where b: "map_of (ib_listeners ib) name = Some b" using assms by auto
  have "inflight name k (advance t ib) = channel b k @
      on_key k (map (snd \<circ> snd) (filter ?N (takeWhile ?P (ib_arrivals ib)) @
                 filter ?N (dropWhile ?P (ib_arrivals ib))))"
    by (simp add: inflight_def advance_def map_of_delivers b chan.pushes_queue)
  also have "\<dots> = inflight name k ib"
    by (simp only: takeWhile_dropWhile_filter) (simp add: inflight_def b)
  finally show ?thesis .
qed

lemma inbox_inv_advance: "inbox_inv ib \<Longrightarrow> inbox_inv (advance t ib)"
proof -
  assume inv: "inbox_inv ib"
  then have "sorted (map fst (dropWhile (\<lambda>(u, _). u \<le> t) (ib_arrivals ib)))"
    by (simp add: inbox_inv_def sorted_map sorted_wrt_dropWhile)
  with inv show ?thesis
    by (auto simp: inbox_inv_def advance_def map_of_delivers intro: chan.pushes_inv)
qed


lemma fold_add_has_any:
  assumes "buffer_inv b" "m \<in> set ms"
  shows "has_any (fold add_msg ms b)"
proof -
  have "dict_ok (fold add_msg ms b)" using assms(1) chan.pushes_inv buffer_inv_ok by blast
  moreover have "channel (fold add_msg ms b) (msg_key m) \<noteq> []"
    using assms(2) by (auto simp: chan.pushes_queue filter_empty_conv)
  ultimately show ?thesis using has_any_iff by blast
qed

lemma find_sorted_takeWhile:
  assumes "List.find P xs = Some a" "sorted (map fst xs)"
  shows "a \<in> set (takeWhile (\<lambda>(u, _). u \<le> fst a) xs) \<and> P a"
proof -
  obtain ys zs where xs: "xs = ys @ a # zs" "P a"
    using assms(1) by (metis find_Some_iff id_take_nth_drop)
  have "\<forall>y \<in> set ys. fst y \<le> fst a" using assms(2) by (auto simp: xs sorted_append)
  then have "takeWhile (\<lambda>(u, _). u \<le> fst a) xs = ys @ takeWhile (\<lambda>(u, _). u \<le> fst a) (a # zs)"
    unfolding xs(1) by (intro takeWhile_append2) auto
  with xs(2) show ?thesis by (auto simp: split_beta)
qed

text \<open>C29: Waiting for a message at a listener returns with a message in that listener's buffer, at
a time no earlier than before, and it neither loses nor reorders any message of any channel, those
still under way included; it blocks for ever exactly when the buffer is empty and nothing is under
way to it.\<close>

theorem wait_for_msg_delivers:
  assumes "inbox_inv ib" "map_of (ib_listeners ib) name = Some b0"
  shows "(wait_for_msg name ib = Inl NeverResumed \<and> \<not> has_any b0 \<and>
      (\<forall>(t, n, m) \<in> set (ib_arrivals ib). n \<noteq> name)) \<or>
    (\<exists>ib' b. wait_for_msg name ib = Inr ib' \<and> inbox_inv ib' \<and>
      map_of (ib_listeners ib') name = Some b \<and> has_any b \<and> ib_now ib \<le> ib_now ib' \<and>
      (\<forall>n k. map_of (ib_listeners ib) n \<noteq> None \<longrightarrow> inflight n k ib' = inflight n k ib))"
proof (cases "has_any b0")
  case True
  then show ?thesis using assms by (intro disjI2) (simp add: wait_for_msg_def dget_Some)
next
  case False
  show ?thesis
  proof (cases "List.find (\<lambda>(t, n, m). n = name) (ib_arrivals ib)")
    case None
    then have "\<forall>(t, n, m) \<in> set (ib_arrivals ib). n \<noteq> name"
      unfolding find_None_iff by auto
    with None assms False show ?thesis
      by (intro disjI1) (simp add: wait_for_msg_def dget_Some)
  next
    case (Some a)
    obtain t m where a: "a = (t, name, m)"
      "a \<in> set (takeWhile (\<lambda>(u, _). u \<le> t) (ib_arrivals ib))"
      using find_sorted_takeWhile [OF Some] assms(1) by (cases a) (auto simp: inbox_inv_def)
    let ?ms = "map (snd \<circ> snd) (filter (\<lambda>(t, n, m). n = name)
      (takeWhile (\<lambda>(u, _). u \<le> t) (ib_arrivals ib)))"
    have "m \<in> set ?ms" using a by force
    moreover have "buffer_inv b0" using assms by (auto simp: inbox_inv_def)
    ultimately have "has_any (fold add_msg ?ms b0)" by (intro fold_add_has_any)
    moreover have "map_of (ib_listeners (advance t ib)) name = Some (fold add_msg ?ms b0)"
      using assms(2) by (simp add: advance_def map_of_delivers)
    moreover have "wait_for_msg name ib = Inr (advance t ib)"
      using assms(2) False Some a(1) by (simp add: wait_for_msg_def dget_Some)
    moreover have "ib_now ib \<le> ib_now (advance t ib)" by (simp add: advance_def)
    ultimately show ?thesis
      using inbox_inv_advance [OF assms(1)] advance_inflight by blast
  qed
qed

definition sample_inbox :: "int inbox" where
  "sample_inbox = \<lparr>ib_listeners = [(''peer_bob'', [])],
     ib_arrivals = [(7, ''peer_bob'', \<lparr>src_pid = 0, dst_pid = 0, content = 42\<rparr>)], ib_now = 5\<rparr>"

theorem wait_for_msg_delivers_witness:
  "\<exists>ib' b. wait_for_msg ''peer_bob'' sample_inbox = Inr ib' \<and>
     map_of (ib_listeners ib') ''peer_bob'' = Some b \<and> has_any b"
proof -
  have "inbox_inv sample_inbox" "map_of (ib_listeners sample_inbox) ''peer_bob'' = Some []"
    by (auto simp: sample_inbox_def inbox_inv_def)
  moreover have "\<not> (\<forall>(t, n, m) \<in> set (ib_arrivals sample_inbox). n \<noteq> ''peer_bob'')"
    by (simp add: sample_inbox_def)
  ultimately show ?thesis using wait_for_msg_delivers [of sample_inbox "''peer_bob''" "[]"] by blast
qed

end
