(* ===== verification/SharedMem.thy ===== *)
theory SharedMem
  imports Prelude "HOL-Library.Multiset"
begin

text \<open>
  The memory shared between Host, Qnos and Netstack (\<open>qoala/runtime/sharedmem.py\<close>):
  \<open>NetQASMArrays\<close>, a dictionary from addresses to arrays of optional integers, and
  \<open>SharedMemory\<close>, which hands out fresh addresses and files each under one of five regions
  (request-routine input and output, callback input, local-routine input and output).
  The five regions obey one contract, the locale \<open>mem_region\<close>, interpreted once per region.
\<close>

section \<open>Addresses\<close>

datatype mem_addr = MemAddr (addr: int)

text \<open>Addresses are ordered like their numbers; the code does not compare them.\<close>

instantiation mem_addr :: linorder
begin

definition less_eq_mem_addr :: "mem_addr \<Rightarrow> mem_addr \<Rightarrow> bool" where
  "less_eq_mem_addr a b \<longleftrightarrow> addr a \<le> addr b"

definition less_mem_addr :: "mem_addr \<Rightarrow> mem_addr \<Rightarrow> bool" where
  "less_mem_addr a b \<longleftrightarrow> addr a < addr b"

instance
  by standard (auto simp: less_eq_mem_addr_def less_mem_addr_def mem_addr.expand)

end

lemmas mem_addr_order = less_eq_mem_addr_def less_mem_addr_def

section \<open>Arrays\<close>

text \<open>\<open>NetQASMArrays\<close>; \<open>_next_addr\<close> is initialised and never read by the program.\<close>

record netqasm_arrays =
  arr_next_addr :: int
  arr_memory :: "(mem_addr, int option list) dict"

definition init_arrays :: netqasm_arrays where
  "init_arrays = \<lparr>arr_next_addr = 0, arr_memory = []\<rparr>"

definition arrays_allocate :: "mem_addr \<Rightarrow> int \<Rightarrow> netqasm_arrays \<Rightarrow> netqasm_arrays res" where
  "arrays_allocate a sz m =
     rbind (py_assert (\<not> dhas (arr_memory m) a)) (\<lambda>_.
     Inr (m\<lparr>arr_memory := dset a (replicate (nat sz) None) (arr_memory m)\<rparr>))"

text \<open>\<open>for i in range(len(data)): self._memory[addr][i + offset] = data[i]\<close>\<close>

fun store_items :: "int list \<Rightarrow> int \<Rightarrow> int option list \<Rightarrow> int option list res" where
  "store_items [] off xs = Inr xs"
| "store_items (v # vs) off xs = rbind (py_setitem xs off (Some v)) (store_items vs (off + 1))"

definition arrays_write :: "mem_addr \<Rightarrow> int list \<Rightarrow> int \<Rightarrow> netqasm_arrays \<Rightarrow> netqasm_arrays res" where
  "arrays_write a data offset m =
     (case map_of (arr_memory m) a of
        None \<Rightarrow> Inl SharedMemWriteError
      | Some xs \<Rightarrow>
          if int (length xs) < offset + int (length data) then Inl SharedMemWriteError
          else rbind (store_items data offset xs) (\<lambda>ys.
               Inr (m\<lparr>arr_memory := dset a ys (arr_memory m)\<rparr>)))"

text \<open>The slice of an array, which must hold no unwritten cell.\<close>

definition load_items :: "int option list \<Rightarrow> int \<Rightarrow> int \<Rightarrow> int list res" where
  "load_items xs sz offset =
     (let array = py_slice xs offset (offset + sz)
      in rbind (py_assert (\<forall>v \<in> set array. v \<noteq> None)) (\<lambda>_. Inr (map the array)))"

definition arrays_read :: "mem_addr \<Rightarrow> int \<Rightarrow> int \<Rightarrow> netqasm_arrays \<Rightarrow> int list res" where
  "arrays_read a sz offset m =
     (case map_of (arr_memory m) a of
        None \<Rightarrow> Inl SharedMemReadError
      | Some xs \<Rightarrow>
          if int (length xs) < offset + sz then Inl SharedMemReadError
          else load_items xs sz offset)"

subsection \<open>Stores and loads of a range\<close>

lemma store_items_nonneg:
  "0 \<le> off \<Longrightarrow> off + int (length data) \<le> int (length xs) \<Longrightarrow>
   store_items data off xs =
     Inr (take (nat off) xs @ map Some data @ drop (nat off + length data) xs)"
proof (induction data arbitrary: off xs)
  case (Cons v vs)
  let ?xs = "xs[nat off := Some v]"
  have o: "nat off < length xs" "nat (off + 1) = Suc (nat off)" using Cons.prems by auto
  have "py_setitem xs off (Some v) = Inr ?xs"
    using Cons.prems by (simp add: py_setitem_def py_index_nonneg)
  moreover have "store_items vs (off + 1) ?xs =
      Inr (take (Suc (nat off)) ?xs @ map Some vs @ drop (Suc (nat off) + length vs) ?xs)"
    using Cons.IH [of "off + 1" ?xs] Cons.prems o by simp
  moreover have "take (Suc (nat off)) ?xs = take (nat off) xs @ [Some v]"
    using o by (simp add: take_Suc_conv_app_nth)
  moreover have "drop (Suc (nat off) + length vs) ?xs = drop (nat off + length (v # vs)) xs"
    by (simp add: drop_update_cancel)
  ultimately show ?case by simp
qed simp

lemma store_items_length: "store_items data off xs = Inr ys \<Longrightarrow> length ys = length xs"
  by (induction data arbitrary: off xs) (auto dest: py_setitem_length)

lemma py_slice_nonneg:
  "0 \<le> off \<Longrightarrow> 0 \<le> n \<Longrightarrow> off + n \<le> int (length xs) \<Longrightarrow>
   py_slice xs off (off + n) = take (nat n) (drop (nat off) xs)"
  by (simp add: py_slice_def py_clip_def drop_take nat_add_distrib)

lemma load_after_store:
  assumes "0 \<le> off" "off + int (length data) \<le> int (length xs)" "store_items data off xs = Inr ys"
  shows "load_items ys (int (length data)) off = Inr data"
proof -
  have ys: "ys = take (nat off) xs @ map Some data @ drop (nat off + length data) xs"
    using assms by (simp add: store_items_nonneg)
  have "length ys = length xs" using assms(3) by (rule store_items_length)
  then have "py_slice ys off (off + int (length data)) = take (length data) (drop (nat off) ys)"
    using assms py_slice_nonneg [of off "int (length data)" ys] by simp
  also have "\<dots> = map Some data" using assms(1,2) by (simp add: ys)
  finally show ?thesis by (simp add: load_items_def comp_def)
qed

lemma store_items_frame:
  assumes "0 \<le> off" "off + int (length data) \<le> int (length xs)" "store_items data off xs = Inr ys"
    and "i < nat off \<or> nat off + length data \<le> i" "i < length xs"
  shows "ys ! i = xs ! i"
  using assms by (auto simp: store_items_nonneg nth_append min_def)

section \<open>The shared memory\<close>

record shared_memory =
  sm_arrays :: netqasm_arrays
  rr_in_addrs :: "mem_addr list"
  rr_out_addrs :: "mem_addr list"
  cr_in_addrs :: "mem_addr list"
  lr_in_addrs :: "mem_addr list"
  lr_out_addrs :: "mem_addr list"
  addr_counter :: int

definition init_shared :: shared_memory where
  "init_shared = \<lparr>sm_arrays = init_arrays, rr_in_addrs = [], rr_out_addrs = [],
     cr_in_addrs = [], lr_in_addrs = [], lr_out_addrs = [], addr_counter = 0\<rparr>"

definition sm_allocate :: "int \<Rightarrow> shared_memory \<Rightarrow> (mem_addr \<times> shared_memory) res" where
  "sm_allocate sz m =
     (let a = MemAddr (addr_counter m) in
      rbind (arrays_allocate a sz (sm_arrays m)) (\<lambda>arrs.
      Inr (a, m\<lparr>addr_counter := addr_counter m + 1, sm_arrays := arrs\<rparr>)))"

definition check_allocated :: "mem_addr \<Rightarrow> shared_memory \<Rightarrow> bool" where
  "check_allocated a m = (addr a < addr_counter m)"

text \<open>The guards and the access of every \<open>write_*\<close> and \<open>read_*\<close> method, by region list.\<close>

definition guarded_write ::
    "(shared_memory \<Rightarrow> mem_addr list) \<Rightarrow> mem_addr \<Rightarrow> int list \<Rightarrow> int \<Rightarrow> shared_memory \<Rightarrow> shared_memory res"
where
  "guarded_write region a data offset m =
     rbind (ensure (check_allocated a m) SharedMemNotAllocatedError) (\<lambda>_.
     rbind (ensure (a \<in> set (region m)) SharedMemIllegalRegionError) (\<lambda>_.
     rbind (arrays_write a data offset (sm_arrays m)) (\<lambda>arrs. Inr (m\<lparr>sm_arrays := arrs\<rparr>))))"

definition guarded_read ::
    "(shared_memory \<Rightarrow> mem_addr list) \<Rightarrow> mem_addr \<Rightarrow> int \<Rightarrow> int \<Rightarrow> shared_memory \<Rightarrow> int list res"
where
  "guarded_read region a sz offset m =
     rbind (ensure (check_allocated a m) SharedMemNotAllocatedError) (\<lambda>_.
     rbind (ensure (a \<in> set (region m)) SharedMemIllegalRegionError) (\<lambda>_.
     arrays_read a sz offset (sm_arrays m)))"

subsection \<open>The operations of the five regions\<close>

definition allocate_rr_in :: "int \<Rightarrow> shared_memory \<Rightarrow> (mem_addr \<times> shared_memory) res" where
  "allocate_rr_in sz m = rbind (sm_allocate sz m) (\<lambda>(a, m').
     Inr (a, m'\<lparr>rr_in_addrs := rr_in_addrs m' @ [a]\<rparr>))"

definition write_rr_in :: "mem_addr \<Rightarrow> int list \<Rightarrow> int \<Rightarrow> shared_memory \<Rightarrow> shared_memory res" where
  "write_rr_in = guarded_write rr_in_addrs"

definition read_rr_in :: "mem_addr \<Rightarrow> int \<Rightarrow> int \<Rightarrow> shared_memory \<Rightarrow> int list res" where
  "read_rr_in = guarded_read rr_in_addrs"

definition allocate_rr_out :: "int \<Rightarrow> shared_memory \<Rightarrow> (mem_addr \<times> shared_memory) res" where
  "allocate_rr_out sz m = rbind (sm_allocate sz m) (\<lambda>(a, m').
     Inr (a, m'\<lparr>rr_out_addrs := rr_out_addrs m' @ [a]\<rparr>))"

definition write_rr_out :: "mem_addr \<Rightarrow> int list \<Rightarrow> int \<Rightarrow> shared_memory \<Rightarrow> shared_memory res" where
  "write_rr_out = guarded_write rr_out_addrs"

definition read_rr_out :: "mem_addr \<Rightarrow> int \<Rightarrow> int \<Rightarrow> shared_memory \<Rightarrow> int list res" where
  "read_rr_out = guarded_read rr_out_addrs"

definition allocate_cr_in :: "int \<Rightarrow> shared_memory \<Rightarrow> (mem_addr \<times> shared_memory) res" where
  "allocate_cr_in sz m = rbind (sm_allocate sz m) (\<lambda>(a, m').
     Inr (a, m'\<lparr>cr_in_addrs := cr_in_addrs m' @ [a]\<rparr>))"

definition write_cr_in :: "mem_addr \<Rightarrow> int list \<Rightarrow> int \<Rightarrow> shared_memory \<Rightarrow> shared_memory res" where
  "write_cr_in = guarded_write cr_in_addrs"

definition read_cr_in :: "mem_addr \<Rightarrow> int \<Rightarrow> int \<Rightarrow> shared_memory \<Rightarrow> int list res" where
  "read_cr_in = guarded_read cr_in_addrs"

definition allocate_lr_in :: "int \<Rightarrow> shared_memory \<Rightarrow> (mem_addr \<times> shared_memory) res" where
  "allocate_lr_in sz m = rbind (sm_allocate sz m) (\<lambda>(a, m').
     Inr (a, m'\<lparr>lr_in_addrs := lr_in_addrs m' @ [a]\<rparr>))"

definition write_lr_in :: "mem_addr \<Rightarrow> int list \<Rightarrow> int \<Rightarrow> shared_memory \<Rightarrow> shared_memory res" where
  "write_lr_in = guarded_write lr_in_addrs"

definition read_lr_in :: "mem_addr \<Rightarrow> int \<Rightarrow> int \<Rightarrow> shared_memory \<Rightarrow> int list res" where
  "read_lr_in = guarded_read lr_in_addrs"

definition allocate_lr_out :: "int \<Rightarrow> shared_memory \<Rightarrow> (mem_addr \<times> shared_memory) res" where
  "allocate_lr_out sz m = rbind (sm_allocate sz m) (\<lambda>(a, m').
     Inr (a, m'\<lparr>lr_out_addrs := lr_out_addrs m' @ [a]\<rparr>))"

definition write_lr_out :: "mem_addr \<Rightarrow> int list \<Rightarrow> int \<Rightarrow> shared_memory \<Rightarrow> shared_memory res" where
  "write_lr_out = guarded_write lr_out_addrs"

definition read_lr_out :: "mem_addr \<Rightarrow> int \<Rightarrow> int \<Rightarrow> shared_memory \<Rightarrow> int list res" where
  "read_lr_out = guarded_read lr_out_addrs"

lemmas region_alloc_defs =
  allocate_rr_in_def allocate_rr_out_def allocate_cr_in_def allocate_lr_in_def allocate_lr_out_def

lemmas region_write_defs =
  write_rr_in_def write_rr_out_def write_cr_in_def write_lr_in_def write_lr_out_def

lemmas region_read_defs =
  read_rr_in_def read_rr_out_def read_cr_in_def read_lr_in_def read_lr_out_def

section \<open>Invariant\<close>

text \<open>
  Every allocated address is below the counter and is filed under exactly one region; the
  arrays exist for exactly the addresses handed out so far, so \<open>_allocate\<close> always gets a
  fresh address and the assertion of \<open>NetQASMArrays.allocate\<close> never fails.
\<close>

definition all_regions :: "shared_memory \<Rightarrow> mem_addr list" where
  "all_regions m =
     rr_in_addrs m @ rr_out_addrs m @ cr_in_addrs m @ lr_in_addrs m @ lr_out_addrs m"

definition sm_inv :: "shared_memory \<Rightarrow> bool" where
  "sm_inv m \<longleftrightarrow> 0 \<le> addr_counter m \<and> distinct (all_regions m) \<and>
     (\<forall>a. map_of (arr_memory (sm_arrays m)) a \<noteq> None \<longleftrightarrow> 0 \<le> addr a \<and> addr a < addr_counter m) \<and>
     (\<forall>a. a \<in> set (all_regions m) \<longleftrightarrow> 0 \<le> addr a \<and> addr a < addr_counter m)"

definition cells :: "shared_memory \<Rightarrow> mem_addr \<rightharpoonup> int option list" where
  "cells m = map_of (arr_memory (sm_arrays m))"

lemma sm_inv_init: "sm_inv init_shared"
  by (auto simp: sm_inv_def all_regions_def init_shared_def init_arrays_def)

lemma sm_inv_fresh: "sm_inv m \<Longrightarrow> cells m (MemAddr (addr_counter m)) = None"
proof -
  assume "sm_inv m"
  then have "cells m (MemAddr (addr_counter m)) \<noteq> None \<longleftrightarrow> addr_counter m < addr_counter m"
    by (simp only: sm_inv_def cells_def mem_addr.sel) blast
  then show ?thesis by simp
qed

lemma sm_inv_allocated: "sm_inv m \<Longrightarrow> a \<in> set (all_regions m) \<Longrightarrow> check_allocated a m \<and> cells m a \<noteq> None"
  by (auto simp: sm_inv_def cells_def check_allocated_def)

lemma sm_allocate_ok:
  "sm_inv m \<Longrightarrow> sm_allocate n m =
     Inr (MemAddr (addr_counter m), m\<lparr>addr_counter := addr_counter m + 1,
       sm_arrays := (sm_arrays m)\<lparr>arr_memory := dset (MemAddr (addr_counter m))
         (replicate (nat n) None) (arr_memory (sm_arrays m))\<rparr>\<rparr>)"
  using sm_inv_fresh [of m]
  by (simp add: sm_allocate_def arrays_allocate_def dhas_def cells_def Let_def)

text \<open>
  Filing a freshly allocated address under any one region keeps the invariant: it is enough
  that the new address joins the list of all regions once.
\<close>

lemma sm_inv_extend:
  assumes "sm_inv m" and "addr_counter m' = addr_counter m + 1"
    and "cells m' = (cells m)(MemAddr (addr_counter m) \<mapsto> xs)"
    and "mset (all_regions m') = add_mset (MemAddr (addr_counter m)) (mset (all_regions m))"
  shows "sm_inv m'"
proof -
  let ?a = "MemAddr (addr_counter m)"
  have new: "?a \<notin> set (all_regions m)" using assms(1) by (auto simp: sm_inv_def)
  have s: "set (all_regions m') = insert ?a (set (all_regions m))"
    using assms(4) by (metis set_mset_add_mset_insert set_mset_mset)
  have "distinct (all_regions m')"
    using assms(1,4) new by (metis distinct.simps(2) mset.simps(2) mset_eq_imp_distinct_iff sm_inv_def)
  moreover have "0 \<le> addr a \<and> addr a < addr_counter m' \<longleftrightarrow>
      a = ?a \<or> 0 \<le> addr a \<and> addr a < addr_counter m" for a
    using assms(1,2) by (cases a) (auto simp: sm_inv_def)
  moreover have "map_of (arr_memory (sm_arrays m')) a \<noteq> None \<longleftrightarrow> a = ?a \<or> cells m a \<noteq> None" for a
    using assms(3) by (simp add: cells_def [symmetric])
  ultimately show ?thesis
    using assms(1,2) s by (simp add: sm_inv_def cells_def)
qed

lemma guarded_write_Inr:
  "guarded_write region a data off m = Inr m' \<longleftrightarrow>
     (\<exists>xs ys. check_allocated a m \<and> a \<in> set (region m) \<and> cells m a = Some xs \<and>
        off + int (length data) \<le> int (length xs) \<and> store_items data off xs = Inr ys \<and>
        m' = m\<lparr>sm_arrays := (sm_arrays m)\<lparr>arr_memory := dset a ys (arr_memory (sm_arrays m))\<rparr>\<rparr>)"
  by (auto simp: guarded_write_def arrays_write_def cells_def not_less split: option.splits if_splits)

lemma all_regions_frame [simp]:
  "all_regions (m\<lparr>sm_arrays := x\<rparr>) = all_regions m"
  "all_regions (m\<lparr>addr_counter := c\<rparr>) = all_regions m"
  by (simp_all add: all_regions_def)

lemma guarded_write_inv:
  assumes "guarded_write region a data off m = Inr m'" "sm_inv m"
  shows "sm_inv m'"
proof -
  from assms(1) obtain xs ys where "cells m a = Some xs"
    and m': "m' = m\<lparr>sm_arrays := (sm_arrays m)\<lparr>arr_memory := dset a ys (arr_memory (sm_arrays m))\<rparr>\<rparr>"
    by (auto simp: guarded_write_Inr)
  then have e: "cells m' b \<noteq> None \<longleftrightarrow> cells m b \<noteq> None" for b by (simp add: cells_def)
  show ?thesis
    using assms(2) unfolding sm_inv_def cells_def [symmetric] e by (simp add: m')
qed

lemma guarded_write_cells:
  "guarded_write region a data off m = Inr m' \<Longrightarrow>
     \<exists>xs ys. cells m a = Some xs \<and> off + int (length data) \<le> int (length xs) \<and>
       store_items data off xs = Inr ys \<and> cells m' = (cells m)(a \<mapsto> ys)"
  by (auto simp: guarded_write_Inr cells_def)

lemma guarded_write_regions:
  "guarded_write region a data off m = Inr m' \<Longrightarrow>
     rr_in_addrs m' = rr_in_addrs m \<and> rr_out_addrs m' = rr_out_addrs m \<and>
     cr_in_addrs m' = cr_in_addrs m \<and> lr_in_addrs m' = lr_in_addrs m \<and>
     lr_out_addrs m' = lr_out_addrs m \<and> addr_counter m' = addr_counter m"
  by (auto simp: guarded_write_Inr)

lemma guarded_write_ok:
  assumes "sm_inv m" "a \<in> set (region m)" "set (region m) \<subseteq> set (all_regions m)"
    "cells m a = Some xs" "0 \<le> off" "off + int (length data) \<le> int (length xs)"
  shows "\<exists>m'. guarded_write region a data off m = Inr m'"
  using assms sm_inv_allocated [OF assms(1), of a]
  by (simp add: guarded_write_Inr store_items_nonneg subset_iff)

lemma guarded_read_eq:
  assumes "sm_inv m" "a \<in> set (region m)" "set (region m) \<subseteq> set (all_regions m)" "cells m a = Some xs"
  shows "guarded_read region a n off m =
    (if int (length xs) < off + n then Inl SharedMemReadError else load_items xs n off)"
  using assms sm_inv_allocated [OF assms(1), of a]
  by (simp add: guarded_read_def arrays_read_def cells_def subset_iff)

section \<open>The contract of a region\<close>

locale mem_region =
  fixes inv :: "'m \<Rightarrow> bool"
    and alloc :: "int \<Rightarrow> 'm \<Rightarrow> (mem_addr \<times> 'm) res"
    and put :: "mem_addr \<Rightarrow> int list \<Rightarrow> int \<Rightarrow> 'm \<Rightarrow> 'm res"
    and get :: "mem_addr \<Rightarrow> int \<Rightarrow> int \<Rightarrow> 'm \<Rightarrow> int list res"
    and region :: "'m \<Rightarrow> mem_addr list"
    and content :: "'m \<Rightarrow> mem_addr \<rightharpoonup> int option list"
  assumes alloc_total: "inv m \<Longrightarrow> \<exists>a m'. alloc n m = Inr (a, m')"
    and alloc_spec: "inv m \<Longrightarrow> alloc n m = Inr (a, m') \<Longrightarrow>
      inv m' \<and> content m a = None \<and> content m' = (content m)(a \<mapsto> replicate (nat n) None) \<and>
      region m' = region m @ [a]"
    and put_spec: "inv m \<Longrightarrow> put a data off m = Inr m' \<Longrightarrow>
      inv m' \<and> region m' = region m \<and> a \<in> set (region m) \<and>
      (\<exists>xs ys. content m a = Some xs \<and> off + int (length data) \<le> int (length xs) \<and>
         store_items data off xs = Inr ys \<and> content m' = (content m)(a \<mapsto> ys))"
    and put_total: "inv m \<Longrightarrow> a \<in> set (region m) \<Longrightarrow> content m a = Some xs \<Longrightarrow> 0 \<le> off \<Longrightarrow>
      off + int (length data) \<le> int (length xs) \<Longrightarrow> \<exists>m'. put a data off m = Inr m'"
    and get_spec: "inv m \<Longrightarrow> a \<in> set (region m) \<Longrightarrow> content m a = Some xs \<Longrightarrow>
      get a n off m = (if int (length xs) < off + n then Inl SharedMemReadError else load_items xs n off)"
begin

text \<open>What is written is what is read.\<close>

lemma get_put:
  assumes "inv m" "0 \<le> off" "put a data off m = Inr m'"
  shows "get a (int (length data)) off m' = Inr data"
proof -
  from put_spec [OF assms(1,3)] obtain xs ys where
    m': "inv m'" "a \<in> set (region m')" and
    xs: "off + int (length data) \<le> int (length xs)" "store_items data off xs = Inr ys"
    and ys: "content m' a = Some ys" by auto
  have "length ys = length xs" using xs(2) by (rule store_items_length)
  with get_spec [OF m' ys] xs load_after_store [OF assms(2) xs] show ?thesis by simp
qed

text \<open>Writing leaves every other address as it was.\<close>

lemma get_put_other:
  assumes "inv m" "put a data off m = Inr m'" "b \<noteq> a" "b \<in> set (region m)" "content m b \<noteq> None"
  shows "get b n k m' = get b n k m"
proof -
  from put_spec [OF assms(1,2)] have "inv m'" "region m' = region m" "content m' b = content m b"
    using assms(3) by auto
  with assms show ?thesis by (auto simp: get_spec)
qed

text \<open>Passing values through a fresh array: allocate, write, read.\<close>

lemma pass_values:
  assumes "inv m"
  shows "\<exists>a m1 m2. alloc (int (length data)) m = Inr (a, m1) \<and> put a data 0 m1 = Inr m2 \<and>
    inv m2 \<and> get a (int (length data)) 0 m2 = Inr data"
proof -
  from alloc_total [OF assms] obtain a m1 where al: "alloc (int (length data)) m = Inr (a, m1)"
    by blast
  from alloc_spec [OF assms al] have m1: "inv m1" "a \<in> set (region m1)"
    "content m1 a = Some (replicate (length data) None)" by auto
  from put_total [OF m1, of 0 data] obtain m2 where pu: "put a data 0 m1 = Inr m2" by auto
  with put_spec [OF m1(1) pu] get_put [OF m1(1) _ pu] al show ?thesis by auto
qed

text \<open>An array is read only after every cell of the range has been written.\<close>

lemma get_fresh:
  assumes "inv m" "alloc k m = Inr (a, m')" "0 < n" "n \<le> k"
  shows "get a n 0 m' = Inl AssertionError"
proof -
  from alloc_spec [OF assms(1,2)] have m': "inv m'" "a \<in> set (region m')"
    "content m' a = Some (replicate (nat k) None)" by auto
  have "py_slice (replicate (nat k) None :: int option list) 0 (0 + n) =
      take (nat n) (drop (nat 0) (replicate (nat k) None))"
    using assms(3,4) by (intro py_slice_nonneg) auto
  with assms(3,4) get_spec [OF m', of n 0] show ?thesis
    by (simp add: load_items_def ensure_def)
qed

end

lemmas region_guard_facts =
  guarded_write_inv guarded_write_regions guarded_write_cells guarded_write_ok guarded_read_eq
  sm_inv_fresh

lemma region_alloc_cells:
  "cells (m\<lparr>addr_counter := c, sm_arrays := (sm_arrays m)\<lparr>arr_memory :=
     dset a xs (arr_memory (sm_arrays m))\<rparr>\<rparr>) = (cells m)(a \<mapsto> xs)"
  by (simp add: cells_def)

lemma region_contract:
  assumes alloc: "\<And>n m. sm_inv m \<Longrightarrow> alloc n m =
      Inr (MemAddr (addr_counter m), upd (m\<lparr>addr_counter := addr_counter m + 1,
       sm_arrays := (sm_arrays m)\<lparr>arr_memory := dset (MemAddr (addr_counter m))
         (replicate (nat n) None) (arr_memory (sm_arrays m))\<rparr>\<rparr>) (MemAddr (addr_counter m)))"
    and upd: "\<And>m a. region (upd m a) = region m @ [a]"
      "\<And>m a. addr_counter (upd m a) = addr_counter m" "\<And>m a. cells (upd m a) = cells m"
      "\<And>m a. mset (all_regions (upd m a)) = add_mset a (mset (all_regions m))"
    and reg: "\<And>m. set (region m) \<subseteq> set (all_regions m)"
      "\<And>m c. region (m\<lparr>addr_counter := c\<rparr>) = region m" "\<And>m x. region (m\<lparr>sm_arrays := x\<rparr>) = region m"
  shows "mem_region sm_inv alloc (guarded_write region) (guarded_read region) region cells"
proof
  fix m a m' n assume inv: "sm_inv m" and al: "alloc n m = Inr (a, m')"
  from al alloc [OF inv] have a: "a = MemAddr (addr_counter m)" by simp
  from al alloc [OF inv] have c: "cells m' = (cells m)(a \<mapsto> replicate (nat n) None)"
    by (auto simp: upd region_alloc_cells)
  from al alloc [OF inv] have "mset (all_regions m') = add_mset a (mset (all_regions m))"
    by (auto simp: upd)
  moreover from al alloc [OF inv] have "addr_counter m' = addr_counter m + 1" by (auto simp: upd)
  ultimately have "sm_inv m'" using sm_inv_extend [OF inv] c a by blast
  moreover from al alloc [OF inv] have "region m' = region m @ [a]" by (auto simp: upd reg)
  ultimately show "sm_inv m' \<and> cells m a = None \<and> cells m' = (cells m)(a \<mapsto> replicate (nat n) None) \<and>
      region m' = region m @ [a]"
    using c a sm_inv_fresh [OF inv] by simp
next
  fix m a data off m' assume inv: "sm_inv m" and w: "guarded_write region a data off m = Inr m'"
  then show "sm_inv m' \<and> region m' = region m \<and> a \<in> set (region m) \<and>
      (\<exists>xs ys. cells m a = Some xs \<and> off + int (length data) \<le> int (length xs) \<and>
         store_items data off xs = Inr ys \<and> cells m' = (cells m)(a \<mapsto> ys))"
    using guarded_write_inv [OF w inv] by (auto simp: guarded_write_Inr cells_def reg)
qed (simp_all add: alloc guarded_write_ok [OF _ _ reg(1)] guarded_read_eq [OF _ _ reg(1)])

interpretation rr_in: mem_region sm_inv allocate_rr_in write_rr_in read_rr_in rr_in_addrs cells
  unfolding write_rr_in_def read_rr_in_def
  by (rule region_contract [where upd = "\<lambda>m a. m\<lparr>rr_in_addrs := rr_in_addrs m @ [a]\<rparr>"])
    (auto simp: allocate_rr_in_def sm_allocate_ok cells_def all_regions_def)

interpretation rr_out: mem_region sm_inv allocate_rr_out write_rr_out read_rr_out rr_out_addrs cells
  unfolding write_rr_out_def read_rr_out_def
  by (rule region_contract [where upd = "\<lambda>m a. m\<lparr>rr_out_addrs := rr_out_addrs m @ [a]\<rparr>"])
    (auto simp: allocate_rr_out_def sm_allocate_ok cells_def all_regions_def)

interpretation cr_in: mem_region sm_inv allocate_cr_in write_cr_in read_cr_in cr_in_addrs cells
  unfolding write_cr_in_def read_cr_in_def
  by (rule region_contract [where upd = "\<lambda>m a. m\<lparr>cr_in_addrs := cr_in_addrs m @ [a]\<rparr>"])
    (auto simp: allocate_cr_in_def sm_allocate_ok cells_def all_regions_def)

interpretation lr_in: mem_region sm_inv allocate_lr_in write_lr_in read_lr_in lr_in_addrs cells
  unfolding write_lr_in_def read_lr_in_def
  by (rule region_contract [where upd = "\<lambda>m a. m\<lparr>lr_in_addrs := lr_in_addrs m @ [a]\<rparr>"])
    (auto simp: allocate_lr_in_def sm_allocate_ok cells_def all_regions_def)

interpretation lr_out: mem_region sm_inv allocate_lr_out write_lr_out read_lr_out lr_out_addrs cells
  unfolding write_lr_out_def read_lr_out_def
  by (rule region_contract [where upd = "\<lambda>m a. m\<lparr>lr_out_addrs := lr_out_addrs m @ [a]\<rparr>"])
    (auto simp: allocate_lr_out_def sm_allocate_ok cells_def all_regions_def)

end
