(* ===== verification/HostLang.thy ===== *)
theory HostLang
  imports Prelude
begin

text \<open>
  The host language (\<open>qoala/lang/hostlang.py\<close>): variables, the fifteen operation classes with
  their constructors and their \<open>from_generic_args\<close> checks, and basic blocks. An operation is a
  record of its class and the three lists every \<open>ClassicalIqoalaOp\<close> object carries.
\<close>

section \<open>Values and variables\<close>

text \<open>\<open>IqoalaValue = Union[int, Template, str]\<close>\<close>

datatype iqoala_value = IntV int | TemplV string | StrV string

datatype iqoala_var =
    IqoalaSingleton string
  | IqoalaTuple "string list"
  | IqoalaVector string iqoala_value
  | IqoalaVectorElement string int

text \<open>\<open>isinstance(v, IqoalaSingleton) or isinstance(v, IqoalaVectorElement)\<close>, and its kin.\<close>

fun is_singleton :: "iqoala_var \<Rightarrow> bool" where
  "is_singleton (IqoalaSingleton n) = True"
| "is_singleton v = False"

fun is_operand :: "iqoala_var \<Rightarrow> bool" where
  "is_operand (IqoalaSingleton n) = True"
| "is_operand (IqoalaVectorElement n i) = True"
| "is_operand v = False"

fun is_tuple :: "iqoala_var \<Rightarrow> bool" where
  "is_tuple (IqoalaTuple vs) = True"
| "is_tuple v = False"

fun is_vector :: "iqoala_var \<Rightarrow> bool" where
  "is_vector (IqoalaVector n k) = True"
| "is_vector v = False"

fun is_int_value :: "iqoala_value \<Rightarrow> bool" where
  "is_int_value (IntV i) = True"
| "is_int_value v = False"

fun is_str_value :: "iqoala_value \<Rightarrow> bool" where
  "is_str_value (StrV s) = True"
| "is_str_value v = False"

section \<open>Operations\<close>

datatype op_class =
    AssignCValueOp | BusyOp | SendCMsgOp | ReceiveCMsgOp | AddCValueOp
  | MultiplyConstantCValueOp | BitConditionalMultiplyConstantCValueOp
  | RunSubroutineOp | RunRequestOp | ReturnResultOp | JumpOp
  | BranchIfEqualOp | BranchIfNotEqualOp | BranchIfGreaterThanOp | BranchIfLessThanOp

datatype instruction_type = TypCC | TypCL | TypQC | TypQL

record iqoala_op =
  op_class :: op_class
  op_arguments :: "iqoala_var list"
  op_results :: "iqoala_var option"
  op_attributes :: "iqoala_value list"

definition mk_op :: "op_class \<Rightarrow> iqoala_var list \<Rightarrow> iqoala_var option \<Rightarrow> iqoala_value list \<Rightarrow> iqoala_op" where
  "mk_op c args res attrs =
     \<lparr>op_class = c, op_arguments = args, op_results = res, op_attributes = attrs\<rparr>"

text \<open>The class attributes \<open>OP_NAME\<close> and \<open>TYP\<close>.\<close>

fun op_name :: "op_class \<Rightarrow> string" where
  "op_name AssignCValueOp = ''assign_cval''"
| "op_name BusyOp = ''busy''"
| "op_name SendCMsgOp = ''send_cmsg''"
| "op_name ReceiveCMsgOp = ''recv_cmsg''"
| "op_name AddCValueOp = ''add_cval_c''"
| "op_name MultiplyConstantCValueOp = ''mult_const''"
| "op_name BitConditionalMultiplyConstantCValueOp = ''bcond_mult_const''"
| "op_name RunSubroutineOp = ''run_subroutine''"
| "op_name RunRequestOp = ''run_request''"
| "op_name ReturnResultOp = ''return_result''"
| "op_name JumpOp = ''jump''"
| "op_name BranchIfEqualOp = ''beq''"
| "op_name BranchIfNotEqualOp = ''bne''"
| "op_name BranchIfGreaterThanOp = ''bgt''"
| "op_name BranchIfLessThanOp = ''blt''"

fun op_typ :: "op_class \<Rightarrow> instruction_type" where
  "op_typ SendCMsgOp = TypCC"
| "op_typ ReceiveCMsgOp = TypCC"
| "op_typ c = TypCL"

text \<open>
  \<open>ClassicalIqoalaOp.__eq__\<close> compares results, arguments and attributes. It does not compare
  the classes of the two operations.
\<close>

definition op_eq :: "iqoala_op \<Rightarrow> iqoala_op \<Rightarrow> bool" where
  "op_eq a b \<longleftrightarrow> op_results a = op_results b \<and> op_arguments a = op_arguments b \<and>
     op_attributes a = op_attributes b"

subsection \<open>Checked construction\<close>

text \<open>
  \<open>from_generic_args(result, args, attr)\<close> of every class: the checks in the order of the
  source, each raising \<open>HostLanguageSyntaxError\<close>, and then the constructor.
\<close>

abbreviation syn :: "bool \<Rightarrow> unit res" where
  "syn b \<equiv> ensure b HostLanguageSyntaxError"

type_synonym generic_args =
  "iqoala_var option \<Rightarrow> iqoala_var list \<Rightarrow> iqoala_value option \<Rightarrow> iqoala_op res"

definition assign_cvalue_from_args :: generic_args where
  "assign_cvalue_from_args result args attr =
     rbind (syn (result \<noteq> None)) (\<lambda>_.
     rbind (syn (is_singleton (the result))) (\<lambda>_.
     rbind (syn (length args = 0)) (\<lambda>_.
     rbind (syn (attr \<noteq> None \<and> is_int_value (the attr))) (\<lambda>_.
     Inr (mk_op AssignCValueOp [] result [the attr])))))"

definition busy_from_args :: generic_args where
  "busy_from_args result args attr =
     rbind (syn (result = None)) (\<lambda>_.
     rbind (syn (length args = 0)) (\<lambda>_.
     rbind (syn (attr \<noteq> None)) (\<lambda>_.
     Inr (mk_op BusyOp [] None [the attr]))))"

definition send_cmsg_from_args :: generic_args where
  "send_cmsg_from_args result args attr =
     rbind (syn (result = None)) (\<lambda>_.
     rbind (syn (length args = 2)) (\<lambda>_.
     rbind (syn (attr = None)) (\<lambda>_.
     rbind (syn (is_operand (args ! 0) \<and> is_operand (args ! 1))) (\<lambda>_.
     Inr (mk_op SendCMsgOp [args ! 0, args ! 1] None [])))))"

definition recv_cmsg_from_args :: generic_args where
  "recv_cmsg_from_args result args attr =
     rbind (syn (result \<noteq> None)) (\<lambda>_.
     rbind (syn (is_singleton (the result))) (\<lambda>_.
     rbind (syn (length args = 1)) (\<lambda>_.
     rbind (syn (attr = None)) (\<lambda>_.
     rbind (syn (is_operand (args ! 0))) (\<lambda>_.
     Inr (mk_op ReceiveCMsgOp [args ! 0] result []))))))"

definition add_cvalue_from_args :: generic_args where
  "add_cvalue_from_args result args attr =
     rbind (syn (result \<noteq> None)) (\<lambda>_.
     rbind (syn (is_singleton (the result))) (\<lambda>_.
     rbind (syn (length args = 2)) (\<lambda>_.
     rbind (syn (attr = None)) (\<lambda>_.
     rbind (syn (is_operand (args ! 0) \<and> is_operand (args ! 1))) (\<lambda>_.
     Inr (mk_op AddCValueOp [args ! 0, args ! 1] result []))))))"

definition mult_const_from_args :: generic_args where
  "mult_const_from_args result args attr =
     rbind (syn (result \<noteq> None)) (\<lambda>_.
     rbind (syn (is_singleton (the result))) (\<lambda>_.
     rbind (syn (length args = 1)) (\<lambda>_.
     rbind (syn (attr \<noteq> None)) (\<lambda>_.
     rbind (syn (is_operand (args ! 0))) (\<lambda>_.
     Inr (mk_op MultiplyConstantCValueOp [args ! 0] result [the attr]))))))"

definition bcond_mult_const_from_args :: generic_args where
  "bcond_mult_const_from_args result args attr =
     rbind (syn (result \<noteq> None)) (\<lambda>_.
     rbind (syn (is_singleton (the result))) (\<lambda>_.
     rbind (syn (length args = 2)) (\<lambda>_.
     rbind (syn (attr \<noteq> None)) (\<lambda>_.
     rbind (syn (is_operand (args ! 0) \<and> is_operand (args ! 1))) (\<lambda>_.
     rbind (syn (is_int_value (the attr))) (\<lambda>_.
     Inr (mk_op BitConditionalMultiplyConstantCValueOp [args ! 0, args ! 1] result [the attr])))))))"

definition run_subroutine_from_args :: generic_args where
  "run_subroutine_from_args result args0 attr =
     rbind (syn (pred_option (\<lambda>r. is_tuple r \<or> is_vector r) result)) (\<lambda>_.
     let args = (if length args0 = 0 then [IqoalaTuple []] else args0) in
     rbind (syn (length args = 1)) (\<lambda>_.
     rbind (syn (is_tuple (args ! 0))) (\<lambda>_.
     rbind (syn (attr \<noteq> None)) (\<lambda>_.
     rbind (syn (is_str_value (the attr))) (\<lambda>_.
     Inr (mk_op RunSubroutineOp [args ! 0] result [the attr]))))))"

definition run_request_from_args :: generic_args where
  "run_request_from_args result args0 attr =
     rbind (syn (pred_option (\<lambda>r. is_tuple r \<or> is_vector r) result)) (\<lambda>_.
     let args = (if length args0 = 0 then [IqoalaTuple []] else args0) in
     rbind (syn (length args = 1)) (\<lambda>_.
     rbind (syn (is_tuple (args ! 0))) (\<lambda>_.
     rbind (syn (attr \<noteq> None)) (\<lambda>_.
     rbind (syn (is_str_value (the attr))) (\<lambda>_.
     Inr (mk_op RunRequestOp [args ! 0] result [the attr]))))))"

definition return_result_from_args :: generic_args where
  "return_result_from_args result args attr =
     rbind (syn (result = None)) (\<lambda>_.
     rbind (syn (length args = 1)) (\<lambda>_.
     rbind (syn (attr = None)) (\<lambda>_.
     rbind (syn (is_singleton (args ! 0) \<or> is_vector (args ! 0))) (\<lambda>_.
     Inr (mk_op ReturnResultOp [args ! 0] None [])))))"

definition jump_from_args :: generic_args where
  "jump_from_args result args attr =
     rbind (syn (result = None)) (\<lambda>_.
     rbind (syn (length args = 0)) (\<lambda>_.
     rbind (syn (attr \<noteq> None)) (\<lambda>_.
     rbind (syn (is_str_value (the attr))) (\<lambda>_.
     Inr (mk_op JumpOp [] None [the attr])))))"

text \<open>The four branch classes run the same checks and differ in the class they build.\<close>

definition branch_from_args :: "op_class \<Rightarrow> generic_args" where
  "branch_from_args c result args attr =
     rbind (syn (result = None)) (\<lambda>_.
     rbind (syn (length args = 2)) (\<lambda>_.
     rbind (syn (attr \<noteq> None)) (\<lambda>_.
     rbind (syn (is_str_value (the attr))) (\<lambda>_.
     rbind (syn (is_operand (args ! 0) \<and> is_operand (args ! 1))) (\<lambda>_.
     Inr (mk_op c [args ! 0, args ! 1] None [the attr]))))))"

definition beq_from_args :: generic_args where
  "beq_from_args = branch_from_args BranchIfEqualOp"

definition bne_from_args :: generic_args where
  "bne_from_args = branch_from_args BranchIfNotEqualOp"

definition bgt_from_args :: generic_args where
  "bgt_from_args = branch_from_args BranchIfGreaterThanOp"

definition blt_from_args :: generic_args where
  "blt_from_args = branch_from_args BranchIfLessThanOp"

text \<open>The dispatch of the parser, \<open>LHR_OP_NAMES[op].from_generic_args(result, args, attr)\<close>.\<close>

fun from_generic_args :: "op_class \<Rightarrow> generic_args" where
  "from_generic_args AssignCValueOp = assign_cvalue_from_args"
| "from_generic_args BusyOp = busy_from_args"
| "from_generic_args SendCMsgOp = send_cmsg_from_args"
| "from_generic_args ReceiveCMsgOp = recv_cmsg_from_args"
| "from_generic_args AddCValueOp = add_cvalue_from_args"
| "from_generic_args MultiplyConstantCValueOp = mult_const_from_args"
| "from_generic_args BitConditionalMultiplyConstantCValueOp = bcond_mult_const_from_args"
| "from_generic_args RunSubroutineOp = run_subroutine_from_args"
| "from_generic_args RunRequestOp = run_request_from_args"
| "from_generic_args ReturnResultOp = return_result_from_args"
| "from_generic_args JumpOp = jump_from_args"
| "from_generic_args BranchIfEqualOp = beq_from_args"
| "from_generic_args BranchIfNotEqualOp = bne_from_args"
| "from_generic_args BranchIfGreaterThanOp = bgt_from_args"
| "from_generic_args BranchIfLessThanOp = blt_from_args"

lemmas from_args_defs =
  assign_cvalue_from_args_def busy_from_args_def send_cmsg_from_args_def recv_cmsg_from_args_def
  add_cvalue_from_args_def mult_const_from_args_def bcond_mult_const_from_args_def
  run_subroutine_from_args_def run_request_from_args_def return_result_from_args_def
  jump_from_args_def branch_from_args_def beq_from_args_def bne_from_args_def bgt_from_args_def
  blt_from_args_def

definition lhr_op_names :: "(string, op_class) dict" where
  "lhr_op_names = map (\<lambda>c. (op_name c, c))
     [SendCMsgOp, ReceiveCMsgOp, AddCValueOp, MultiplyConstantCValueOp,
      BitConditionalMultiplyConstantCValueOp, AssignCValueOp, RunSubroutineOp, RunRequestOp,
      ReturnResultOp, BusyOp, JumpOp, BranchIfEqualOp, BranchIfNotEqualOp, BranchIfLessThanOp,
      BranchIfGreaterThanOp]"

section \<open>Basic blocks\<close>

datatype block_type = CL | CC | QL | QC

record basic_block =
  block_name :: string
  block_typ :: block_type
  block_instructions :: "iqoala_op list"
  block_deadlines :: "(string, int) dict option"

text \<open>The generated \<open>__eq__\<close> of the dataclass, which uses the \<open>__eq__\<close> of the operations.\<close>

definition deadlines_eq :: "(string, int) dict option \<Rightarrow> (string, int) dict option \<Rightarrow> bool" where
  "deadlines_eq a b = (case (a, b) of
     (None, None) \<Rightarrow> True
   | (Some d, Some e) \<Rightarrow> set (keys d) = set (keys e) \<and> (\<forall>k \<in> set (keys d). map_of d k = map_of e k)
   | _ \<Rightarrow> False)"

definition block_eq :: "basic_block \<Rightarrow> basic_block \<Rightarrow> bool" where
  "block_eq a b \<longleftrightarrow> block_name a = block_name b \<and> block_typ a = block_typ b \<and>
     list_all2 op_eq (block_instructions a) (block_instructions b) \<and>
     deadlines_eq (block_deadlines a) (block_deadlines b)"

lemma op_eq_refl [simp]: "op_eq a a"
  by (simp add: op_eq_def)

lemma block_eq_refl [simp]: "block_eq b b"
  by (cases "block_deadlines b") (auto simp: block_eq_def deadlines_eq_def list_all2_refl)

section \<open>Well-shaped operations\<close>

text \<open>
  The shape of each class as its documentation describes it, stated without the checks: which
  kind of result, which arguments, which attributes.
\<close>

fun op_shape :: "op_class \<Rightarrow> iqoala_var option \<Rightarrow> iqoala_var list \<Rightarrow> iqoala_value list \<Rightarrow> bool" where
  "op_shape AssignCValueOp r as ts \<longleftrightarrow> (\<exists>x i. r = Some (IqoalaSingleton x) \<and> as = [] \<and> ts = [IntV i])"
| "op_shape BusyOp r as ts \<longleftrightarrow> (\<exists>t. r = None \<and> as = [] \<and> ts = [t])"
| "op_shape SendCMsgOp r as ts \<longleftrightarrow>
     (\<exists>a b. r = None \<and> as = [a, b] \<and> ts = [] \<and> is_operand a \<and> is_operand b)"
| "op_shape ReceiveCMsgOp r as ts \<longleftrightarrow>
     (\<exists>x a. r = Some (IqoalaSingleton x) \<and> as = [a] \<and> ts = [] \<and> is_operand a)"
| "op_shape AddCValueOp r as ts \<longleftrightarrow>
     (\<exists>x a b. r = Some (IqoalaSingleton x) \<and> as = [a, b] \<and> ts = [] \<and> is_operand a \<and> is_operand b)"
| "op_shape MultiplyConstantCValueOp r as ts \<longleftrightarrow>
     (\<exists>x a t. r = Some (IqoalaSingleton x) \<and> as = [a] \<and> ts = [t] \<and> is_operand a)"
| "op_shape BitConditionalMultiplyConstantCValueOp r as ts \<longleftrightarrow>
     (\<exists>x a b i. r = Some (IqoalaSingleton x) \<and> as = [a, b] \<and> ts = [IntV i] \<and>
        is_operand a \<and> is_operand b)"
| "op_shape RunSubroutineOp r as ts \<longleftrightarrow>
     (\<exists>vs s. pred_option (\<lambda>v. is_tuple v \<or> is_vector v) r \<and> as = [IqoalaTuple vs] \<and> ts = [StrV s])"
| "op_shape RunRequestOp r as ts \<longleftrightarrow>
     (\<exists>vs s. pred_option (\<lambda>v. is_tuple v \<or> is_vector v) r \<and> as = [IqoalaTuple vs] \<and> ts = [StrV s])"
| "op_shape ReturnResultOp r as ts \<longleftrightarrow>
     (\<exists>a. r = None \<and> as = [a] \<and> ts = [] \<and> (is_singleton a \<or> is_vector a))"
| "op_shape JumpOp r as ts \<longleftrightarrow> (\<exists>s. r = None \<and> as = [] \<and> ts = [StrV s])"
| "op_shape c r as ts \<longleftrightarrow>
     (\<exists>a b s. r = None \<and> as = [a, b] \<and> ts = [StrV s] \<and> is_operand a \<and> is_operand b)"

definition wf_op :: "iqoala_op \<Rightarrow> bool" where
  "wf_op x \<longleftrightarrow> op_shape (op_class x) (op_results x) (op_arguments x) (op_attributes x)"

lemma is_singleton_iff: "is_singleton v \<longleftrightarrow> (\<exists>x. v = IqoalaSingleton x)"
  by (cases v) auto

lemma is_tuple_iff: "is_tuple v \<longleftrightarrow> (\<exists>vs. v = IqoalaTuple vs)"
  by (cases v) auto

lemma is_int_value_iff: "is_int_value v \<longleftrightarrow> (\<exists>i. v = IntV i)"
  by (cases v) auto

lemma is_str_value_iff: "is_str_value v \<longleftrightarrow> (\<exists>s. v = StrV s)"
  by (cases v) auto

lemma length_1_iff: "length xs = Suc 0 \<longleftrightarrow> (\<exists>a. xs = [a])"
  by (cases xs) auto

lemma length_2_iff: "length xs = Suc (Suc 0) \<longleftrightarrow> (\<exists>a b. xs = [a, b])"
  by (cases xs; cases "tl xs") auto

lemmas shape_iffs =
  is_singleton_iff is_tuple_iff is_int_value_iff is_str_value_iff length_1_iff length_2_iff
  numeral_2_eq_2

text \<open>Accepted operations have the shape of their class.\<close>

lemma from_generic_args_shape:
  assumes "from_generic_args c r as t = Inr x"
  shows "op_class x = c \<and> wf_op x"
  using assms
  by (cases c) (auto simp: from_args_defs wf_op_def mk_op_def shape_iffs Let_def split: if_splits)

text \<open>Every well-shaped operation is accepted from its own parts.\<close>

lemma from_generic_args_complete:
  assumes "wf_op x"
  shows "from_generic_args (op_class x) (op_results x) (op_arguments x)
    (if op_attributes x = [] then None else Some (hd (op_attributes x))) = Inr x"
  using assms
  by (cases "op_class x")
    (auto simp: from_args_defs wf_op_def mk_op_def ensure_def Let_def split: if_splits)

lemma lhr_op_names_lookup: "map_of lhr_op_names (op_name c) = Some c"
  by (cases c) (simp_all add: lhr_op_names_def)

end
