(* ===== verification/NetQasm.thy ===== *)
theory NetQasm
  imports Prelude
begin

text \<open>
  The vocabulary of the two packages the program builds on, as far as its source names it:
  NetQASM registers and instruction objects, sorted by the classes the program tests with
  \<open>isinstance\<close>, and the NetSquid hardware instructions. What these packages do with the
  objects is no part of the model: the branch conditions of NetQASM and the quantum hardware of
  NetSquid are arguments of the definitions that use them.
\<close>

section \<open>NetQASM registers and instructions\<close>

datatype reg_name = RegR | RegC | RegQ | RegM

datatype register = Register (reg_name: reg_name) (reg_index: int)

text \<open>
  Instruction classes below the tested base classes. A class the program does not name is an
  \<open>Other\<close> case with an arbitrary tag.
\<close>

datatype single_gate = GateX | GateY | GateZ | GateH | OtherSingle nat
datatype two_gate = Cnot | Cphase | OtherTwo nat
datatype rotation_gate =
  VanillaRotX | VanillaRotY | VanillaRotZ | NvRotX | NvRotY | NvRotZ | OtherRotation nat
datatype controlled_gate = NvControlledRotX | NvControlledRotY | OtherControlled nat
datatype classical_op = AddOp | SubOp | MulOp | DivOp | RemOp | OtherOp nat
datatype classical_mod_op = AddmOp | SubmOp | OtherModOp nat

text \<open>\<open>instr.angle_num\<close> and \<open>instr.angle_denom\<close>: an immediate, a register or a template; and
\<open>instr.imm\<close>, an immediate or a template.\<close>

datatype immediate = Imm int | ImmTemplate string

datatype angle_operand = AngleImm int | AngleReg register | AngleTemplate string

text \<open>\<open>instr.entry\<close>: the address name and the index, a register or an immediate.\<close>

datatype entry_index = IndexReg register | IndexImm int

datatype array_address = AddrName string | AddrNum int

datatype array_entry = ArrayEntry (entry_address: array_address) (entry_idx: entry_index)

datatype nq_instr =
    SetInstr register immediate
  | StoreInstr register array_entry
  | LoadInstr register array_entry
  | LeaInstr register array_address
  | InitInstr register
  | MeasInstr register register
  | SingleQubitInstr single_gate register
  | TwoQubitInstr two_gate register register
  | RotationInstr rotation_gate register angle_operand angle_operand
  | ControlledRotationInstr controlled_gate register register angle_operand angle_operand
  | ClassicalOpInstr classical_op register register register
  | ClassicalOpModInstr classical_mod_op register register register register
  | BreakpointInstr int int
  | JmpInstr int
  | BranchUnaryInstr nat register int
  | BranchBinaryInstr nat register register int
  | OtherInstr nat

text \<open>\<open>type(instr)\<close>, the class of an instruction object.\<close>

datatype nq_type =
    TSet | TStore | TLoad | TLea | TInit | TMeas
  | TSingle single_gate | TTwo two_gate | TRotation rotation_gate | TControlled controlled_gate
  | TClassical classical_op | TClassicalMod classical_mod_op
  | TBreakpoint | TJmp | TBranchUnary nat | TBranchBinary nat | TOther nat

fun nq_type_of :: "nq_instr \<Rightarrow> nq_type" where
  "nq_type_of (SetInstr r i) = TSet"
| "nq_type_of (StoreInstr r e) = TStore"
| "nq_type_of (LoadInstr r e) = TLoad"
| "nq_type_of (LeaInstr r a) = TLea"
| "nq_type_of (InitInstr r) = TInit"
| "nq_type_of (MeasInstr q c) = TMeas"
| "nq_type_of (SingleQubitInstr g r) = TSingle g"
| "nq_type_of (TwoQubitInstr g r s) = TTwo g"
| "nq_type_of (RotationInstr g r n d) = TRotation g"
| "nq_type_of (ControlledRotationInstr g r s n d) = TControlled g"
| "nq_type_of (ClassicalOpInstr f x a b) = TClassical f"
| "nq_type_of (ClassicalOpModInstr f x a b m) = TClassicalMod f"
| "nq_type_of (BreakpointInstr a r) = TBreakpoint"
| "nq_type_of (JmpInstr l) = TJmp"
| "nq_type_of (BranchUnaryInstr c r l) = TBranchUnary c"
| "nq_type_of (BranchBinaryInstr c r s l) = TBranchBinary c"
| "nq_type_of (OtherInstr k) = TOther k"

text \<open>\<open>check_condition\<close> of the unary and the binary branch classes, by class.\<close>

record branch_semantics =
  check_unary :: "nat \<Rightarrow> int \<Rightarrow> bool"
  check_binary :: "nat \<Rightarrow> int \<Rightarrow> int \<Rightarrow> bool"

text \<open>A NetQASM \<open>Subroutine\<close>: its instructions and the names of its template arguments.\<close>

record subroutine =
  sub_instructions :: "nq_instr list"
  sub_arguments :: "string list"

section \<open>NetSquid instructions\<close>

datatype ns_instr =
    INSTR_INIT | INSTR_X | INSTR_Y | INSTR_Z | INSTR_H
  | INSTR_ROT_X | INSTR_ROT_Y | INSTR_ROT_Z
  | INSTR_CNOT | INSTR_CZ | INSTR_CXDIR | INSTR_CYDIR
  | INSTR_MEASURE | INSTR_MEASURE_INSTANT | OtherNs nat

end
