(* ===== verification/Lang.thy ===== *)
theory Lang
  imports HostLang NetQasm
begin

text \<open>
  Programs: requests and request routines (\<open>qoala/lang/request.py\<close>), local routines
  (\<open>qoala/lang/routine.py\<close>), and whole programs with their blocks (\<open>qoala/lang/program.py\<close>).
\<close>

section \<open>Local routines\<close>

record routine_metadata =
  qubit_use :: "int list"
  qubit_keep :: "int list"

definition use_none :: routine_metadata where
  "use_none = \<lparr>qubit_use = [], qubit_keep = []\<rparr>"

definition free_all :: "int list \<Rightarrow> routine_metadata" where
  "free_all ids = \<lparr>qubit_use = ids, qubit_keep = []\<rparr>"

text \<open>An entry of \<open>return_vars\<close>: a variable name or an \<open>IqoalaVector\<close>.\<close>

datatype return_var = RetName string | RetVector string iqoala_value

record local_routine =
  lr_name :: string
  lr_subroutine :: subroutine
  lr_return_vars :: "return_var list"
  lr_metadata :: routine_metadata
  lr_request_name :: "string option"

fun lr_var_size :: "return_var \<Rightarrow> int res" where
  "lr_var_size (RetVector n (IntV k)) = Inr k"
| "lr_var_size (RetVector n v) = Inl AssertionError"
| "lr_var_size (RetName n) = Inr 1"

definition lr_get_return_size :: "local_routine \<Rightarrow> int res" where
  "lr_get_return_size r =
     rfold (\<lambda>v acc. rbind (lr_var_size v) (\<lambda>k. Inr (acc + k))) (lr_return_vars r) 0"

section \<open>Requests\<close>

datatype callback_type = SEQUENTIAL | WAIT_ALL
datatype epr_type = CREATE_KEEP | MEASURE_DIRECTLY | REMOTE_STATE_PREP
datatype epr_role = CREATE | RECEIVE
datatype virt_id_mapping_type = EQUAL | INCREMENT | CUSTOM

text \<open>\<open>Union[int, Template]\<close> and \<open>Union[float, Template]\<close>.\<close>

datatype int_or_template = IntNum int | IntTemplate string
datatype float_or_template = FloatNum real | FloatTemplate string

record virt_id_mapping =
  vim_typ :: virt_id_mapping_type
  vim_single_value :: "int_or_template option"
  vim_custom_values :: "int list option"

definition get_id :: "virt_id_mapping \<Rightarrow> int \<Rightarrow> int res" where
  "get_id m index =
     (case vim_typ m of
        EQUAL \<Rightarrow>
          (case vim_single_value m of Some (IntNum v) \<Rightarrow> Inr v | _ \<Rightarrow> Inl AssertionError)
      | INCREMENT \<Rightarrow>
          (case vim_single_value m of Some (IntNum v) \<Rightarrow> Inr (v + index) | _ \<Rightarrow> Inl AssertionError)
      | CUSTOM \<Rightarrow>
          (case vim_custom_values m of Some vs \<Rightarrow> py_nth vs index | None \<Rightarrow> Inl AssertionError))"

record qoala_request =
  rq_name :: string
  rq_remote_id :: int_or_template
  rq_epr_socket_id :: int_or_template
  rq_num_pairs :: int_or_template
  rq_virt_ids :: virt_id_mapping
  rq_timeout :: float_or_template
  rq_fidelity :: float_or_template
  rq_typ :: epr_type
  rq_role :: epr_role

text \<open>
  \<open>QoalaRequest.instantiate\<close>: every field that is a template is replaced by its value, in the
  order of the source; a missing value is a \<open>KeyError\<close>. Program inputs are integers.
\<close>

type_synonym prog_input = "(string, int) dict"

fun inst_int :: "prog_input \<Rightarrow> int_or_template \<Rightarrow> int_or_template res" where
  "inst_int vals (IntTemplate n) = rbind (dget vals n) (\<lambda>v. Inr (IntNum v))"
| "inst_int vals (IntNum i) = Inr (IntNum i)"

fun inst_float :: "prog_input \<Rightarrow> float_or_template \<Rightarrow> float_or_template res" where
  "inst_float vals (FloatTemplate n) = rbind (dget vals n) (\<lambda>v. Inr (FloatNum (real_of_int v)))"
| "inst_float vals (FloatNum x) = Inr (FloatNum x)"

fun inst_single :: "prog_input \<Rightarrow> int_or_template option \<Rightarrow> int_or_template option res" where
  "inst_single vals None = Inr None"
| "inst_single vals (Some t) = rbind (inst_int vals t) (\<lambda>t'. Inr (Some t'))"

definition request_instantiate :: "prog_input \<Rightarrow> qoala_request \<Rightarrow> qoala_request res" where
  "request_instantiate vals r =
     rbind (inst_int vals (rq_remote_id r)) (\<lambda>remote.
     rbind (inst_int vals (rq_epr_socket_id r)) (\<lambda>sock.
     rbind (inst_int vals (rq_num_pairs r)) (\<lambda>num.
     rbind (inst_single vals (vim_single_value (rq_virt_ids r))) (\<lambda>single.
     rbind (inst_float vals (rq_timeout r)) (\<lambda>timeout.
     rbind (inst_float vals (rq_fidelity r)) (\<lambda>fid.
     Inr (r\<lparr>rq_remote_id := remote, rq_epr_socket_id := sock, rq_num_pairs := num,
            rq_virt_ids := (rq_virt_ids r)\<lparr>vim_single_value := single\<rparr>,
            rq_timeout := timeout, rq_fidelity := fid\<rparr>)))))))"

record request_routine =
  rr_name :: string
  rr_request :: qoala_request
  rr_return_vars :: "return_var list"
  rr_callback_type :: callback_type
  rr_callback :: "string option"

fun inst_return_var :: "prog_input \<Rightarrow> return_var \<Rightarrow> return_var res" where
  "inst_return_var vals (RetVector n (TemplV t)) = rbind (dget vals t) (\<lambda>k. Inr (RetVector n (IntV k)))"
| "inst_return_var vals v = Inr v"

definition routine_instantiate :: "prog_input \<Rightarrow> request_routine \<Rightarrow> request_routine res" where
  "routine_instantiate vals r =
     rbind (rmap (inst_return_var vals) (rr_return_vars r)) (\<lambda>rvs.
     rbind (request_instantiate vals (rr_request r)) (\<lambda>req.
     Inr (r\<lparr>rr_return_vars := rvs, rr_request := req\<rparr>)))"

fun rr_var_size :: "prog_input option \<Rightarrow> return_var \<Rightarrow> int res" where
  "rr_var_size inp (RetVector n (IntV k)) = Inr k"
| "rr_var_size (Some vals) (RetVector n (TemplV t)) = dget vals t"
| "rr_var_size None (RetVector n (TemplV t)) = Inl AssertionError"
| "rr_var_size inp (RetVector n (StrV s)) = Inr 0"
| "rr_var_size inp (RetName n) = Inr 1"

definition rr_get_return_size :: "prog_input option \<Rightarrow> request_routine \<Rightarrow> int res" where
  "rr_get_return_size inp r =
     rfold (\<lambda>v acc. rbind (rr_var_size inp v) (\<lambda>k. Inr (acc + k))) (rr_return_vars r) 0"

subsection \<open>Instantiation\<close>

definition is_intnum :: "int_or_template \<Rightarrow> bool" where
  "is_intnum t = (case t of IntNum i \<Rightarrow> True | IntTemplate n \<Rightarrow> False)"

definition is_float :: "float_or_template \<Rightarrow> bool" where
  "is_float t = (case t of FloatNum i \<Rightarrow> True | FloatTemplate n \<Rightarrow> False)"

fun is_sized :: "return_var \<Rightarrow> bool" where
  "is_sized (RetVector n (TemplV t)) = False"
| "is_sized v = True"

definition concrete_request :: "qoala_request \<Rightarrow> bool" where
  "concrete_request r \<longleftrightarrow> is_intnum (rq_remote_id r) \<and> is_intnum (rq_epr_socket_id r) \<and>
     is_intnum (rq_num_pairs r) \<and> pred_option is_intnum (vim_single_value (rq_virt_ids r)) \<and>
     is_float (rq_timeout r) \<and> is_float (rq_fidelity r)"

definition concrete_routine :: "request_routine \<Rightarrow> bool" where
  "concrete_routine r \<longleftrightarrow> list_all is_sized (rr_return_vars r) \<and> concrete_request (rr_request r)"

lemma inst_int_num [simp]: "inst_int vals t = Inr t' \<Longrightarrow> is_intnum t'"
  by (cases t) (auto simp: is_intnum_def)

lemma inst_int_id: "is_intnum t \<Longrightarrow> inst_int vals t = Inr t"
  by (cases t) (auto simp: is_intnum_def)

lemma inst_float_num [simp]: "inst_float vals t = Inr t' \<Longrightarrow> is_float t'"
  by (cases t) (auto simp: is_float_def)

lemma inst_float_id: "is_float t \<Longrightarrow> inst_float vals t = Inr t"
  by (cases t) (auto simp: is_float_def)

lemma inst_single_num [simp]: "inst_single vals t = Inr t' \<Longrightarrow> pred_option is_intnum t'"
  by (cases t) auto

lemma inst_single_id: "pred_option is_intnum t \<Longrightarrow> inst_single vals t = Inr t"
  by (cases t) (auto simp: inst_int_id)

lemma inst_return_var_sized: "inst_return_var vals v = Inr v' \<Longrightarrow> is_sized v'"
  by (cases "(vals, v)" rule: inst_return_var.cases) auto

lemma inst_return_var_id: "is_sized v \<Longrightarrow> inst_return_var vals v = Inr v"
  by (cases v rule: is_sized.cases) auto

lemma rmap_inst_sized: "rmap (inst_return_var vals) vs = Inr ws \<Longrightarrow> list_all is_sized ws"
  by (induction vs arbitrary: ws) (auto intro: inst_return_var_sized)

lemma rmap_inst_id: "list_all is_sized vs \<Longrightarrow> rmap (inst_return_var vals) vs = Inr vs"
  by (induction vs) (auto simp: inst_return_var_id)

lemma routine_instantiate_concrete:
  "routine_instantiate vals r = Inr r' \<Longrightarrow> concrete_routine r'"
  by (auto simp: routine_instantiate_def request_instantiate_def concrete_routine_def
      concrete_request_def intro: rmap_inst_sized)

lemma routine_instantiate_id: "concrete_routine r \<Longrightarrow> routine_instantiate vals r = Inr r"
  by (simp add: routine_instantiate_def request_instantiate_def concrete_routine_def
      concrete_request_def inst_int_id inst_float_id inst_single_id rmap_inst_id)

text \<open>The return size read from the inputs is the return size after instantiation.\<close>

lemma rr_var_size_inst:
  "inst_return_var vals v = Inr v' \<Longrightarrow> rr_var_size (Some vals) v = rr_var_size inp v'"
  by (cases "(vals, v)" rule: inst_return_var.cases) (auto simp: dget_Some)

lemma rr_return_size_inst:
  assumes "routine_instantiate vals r = Inr r'"
  shows "rr_get_return_size inp r' = rr_get_return_size (Some vals) r"
proof -
  have "rmap (inst_return_var vals) vs = Inr vs' \<Longrightarrow>
      rfold (\<lambda>v acc. rbind (rr_var_size inp v) (\<lambda>k. Inr (acc + k))) vs' s =
      rfold (\<lambda>v acc. rbind (rr_var_size (Some vals) v) (\<lambda>k. Inr (acc + k))) vs s" for vs vs' s
  proof (induction vs arbitrary: vs' s)
    case (Cons v vs)
    then obtain v' ws where v': "inst_return_var vals v = Inr v'" "rmap (inst_return_var vals) vs = Inr ws"
      "vs' = v' # ws" by auto
    then have "rr_var_size (Some vals) v = rr_var_size inp v'" using rr_var_size_inst by blast
    with v' Cons.IH show ?case by (auto simp: rbind_assoc intro!: rbind_cong)
  qed simp
  with assms show ?thesis by (auto simp: routine_instantiate_def rr_get_return_size_def)
qed

section \<open>Programs\<close>

record program_meta =
  pm_name :: string
  pm_parameters :: "string list"
  pm_csockets :: "(int, string) dict"
  pm_epr_sockets :: "(int, string) dict"

definition meta_empty :: "string \<Rightarrow> program_meta" where
  "meta_empty name = \<lparr>pm_name = name, pm_parameters = [], pm_csockets = [], pm_epr_sockets = []\<rparr>"

record qoala_program =
  pr_meta :: program_meta
  pr_blocks :: "basic_block list"
  pr_block_mapping :: "(string, basic_block) dict"
  pr_local_routines :: "(string, local_routine) dict"
  pr_request_routines :: "(string, request_routine) dict"

text \<open>\<open>QoalaProgram.__init__\<close>; an omitted dictionary of routines is empty.\<close>

definition mk_program ::
    "program_meta \<Rightarrow> basic_block list \<Rightarrow> (string, local_routine) dict option \<Rightarrow>
     (string, request_routine) dict option \<Rightarrow> qoala_program" where
  "mk_program meta blocks lrs rrs =
     \<lparr>pr_meta = meta, pr_blocks = blocks,
      pr_block_mapping = dict_of (map (\<lambda>b. (block_name b, b)) blocks),
      pr_local_routines = (case lrs of None \<Rightarrow> [] | Some d \<Rightarrow> d),
      pr_request_routines = (case rrs of None \<Rightarrow> [] | Some d \<Rightarrow> d)\<rparr>"

definition get_block :: "qoala_program \<Rightarrow> string \<Rightarrow> basic_block res" where
  "get_block p name = dget (pr_block_mapping p) name"

text \<open>\<open>self._blocks.index(...)\<close> searches by equality of blocks.\<close>

definition get_block_id :: "qoala_program \<Rightarrow> string \<Rightarrow> int res" where
  "get_block_id p name =
     rbind (dget (pr_block_mapping p) name) (\<lambda>b.
     case find_index (\<lambda>c. block_eq c b) (pr_blocks p) of
       None \<Rightarrow> Inl ValueError | Some i \<Rightarrow> Inr (int i))"

definition program_instructions :: "qoala_program \<Rightarrow> iqoala_op list" where
  "program_instructions p = concat (map block_instructions (pr_blocks p))"

text \<open>A program as its constructor builds it, with distinct block names.\<close>

definition wf_program :: "qoala_program \<Rightarrow> bool" where
  "wf_program p \<longleftrightarrow> distinct (map block_name (pr_blocks p)) \<and>
     pr_block_mapping p = dict_of (map (\<lambda>b. (block_name b, b)) (pr_blocks p))"

lemma wf_program_mapping:
  assumes "wf_program p"
  shows "map_of (pr_block_mapping p) n = Some b \<longleftrightarrow> b \<in> set (pr_blocks p) \<and> block_name b = n"
proof -
  let ?kvs = "map (\<lambda>b. (block_name b, b)) (pr_blocks p)"
  have d: "dict_ok ?kvs" using assms by (simp add: wf_program_def comp_def)
  have "pr_block_mapping p = dict_of ?kvs" using assms by (simp add: wf_program_def)
  then have "map_of (pr_block_mapping p) n = map_of ?kvs n" using d by simp
  moreover have "map_of ?kvs n = Some b \<longleftrightarrow> (n, b) \<in> set ?kvs" using items_map_of [OF d] by simp
  ultimately show ?thesis by auto
qed

lemma get_block_id_Some:
  assumes "wf_program p" "i < length (pr_blocks p)"
  shows "get_block_id p (block_name (pr_blocks p ! i)) = Inr (int i)"
proof -
  let ?b = "pr_blocks p ! i"
  have "map_of (pr_block_mapping p) (block_name ?b) = Some ?b"
    using assms by (auto simp: wf_program_mapping)
  moreover obtain j where j: "find_index (\<lambda>c. block_eq c ?b) (pr_blocks p) = Some j"
    using find_index_lessI [of ?b "pr_blocks p" "\<lambda>c. block_eq c ?b"] assms(2) by auto
  moreover have "j = i"
  proof -
    from find_index_Some [OF j] have "j < length (pr_blocks p)" "block_name (pr_blocks p ! j) = block_name ?b"
      by (auto simp: block_eq_def)
    with assms show ?thesis
      by (metis (no_types, lifting) length_map nth_eq_iff_index_eq nth_map wf_program_def)
  qed
  ultimately show ?thesis by (simp add: get_block_id_def dget_Some)
qed

lemma get_block_id_unknown:
  "wf_program p \<Longrightarrow> n \<notin> block_name ` set (pr_blocks p) \<Longrightarrow> get_block_id p n = Inl KeyError"
proof -
  assume "wf_program p" "n \<notin> block_name ` set (pr_blocks p)"
  then have "map_of (pr_block_mapping p) n = None"
    by (metis image_eqI not_None_eq wf_program_mapping)
  then show ?thesis by (simp add: get_block_id_def dget_None)
qed

lemma wf_mk_program: "distinct (map block_name blocks) \<Longrightarrow> wf_program (mk_program meta blocks lrs rrs)"
  by (simp add: wf_program_def mk_program_def)

end
