(* ===== verification/PyStr.thy ===== *)
theory PyStr
  imports Prelude
begin

text \<open>
  The string operations of Python that the program relies on when it reads names and numbers:
  stripping of white space, \<open>int(s)\<close> and \<open>str(i)\<close>. Strings are lists of 8-bit characters.
\<close>

section \<open>Characters\<close>

definition is_space :: "char \<Rightarrow> bool" where
  "is_space c \<longleftrightarrow> (let n = of_char c :: nat in (9 \<le> n \<and> n \<le> 13) \<or> (28 \<le> n \<and> n \<le> 32))"

definition is_digit :: "char \<Rightarrow> bool" where
  "is_digit c \<longleftrightarrow> (let n = of_char c :: nat in 48 \<le> n \<and> n \<le> 57)"

definition digit_val :: "char \<Rightarrow> int" where
  "digit_val c = int (of_char c) - 48"

definition digit_char :: "nat \<Rightarrow> char" where
  "digit_char d = char_of (48 + d)"

text \<open>\<open>s.strip()\<close>.\<close>

definition py_lstrip :: "string \<Rightarrow> string" where
  "py_lstrip s = dropWhile is_space s"

definition py_rstrip :: "string \<Rightarrow> string" where
  "py_rstrip s = rev (dropWhile is_space (rev s))"

definition py_strip :: "string \<Rightarrow> string" where
  "py_strip s = py_rstrip (py_lstrip s)"

section \<open>Integers\<close>

text \<open>
  \<open>int(s)\<close> in base ten: surrounding white space, an optional sign, and digits that single
  underscores may separate. Anything else is a \<open>ValueError\<close>.
\<close>

fun py_digits :: "int \<Rightarrow> bool \<Rightarrow> string \<Rightarrow> int res" where
  "py_digits acc prev [] = (if prev then Inr acc else Inl ValueError)"
| "py_digits acc prev (c # cs) =
     (if is_digit c then py_digits (acc * 10 + digit_val c) True cs
      else if c = CHR ''_'' \<and> prev then py_digits acc False cs
      else Inl ValueError)"

definition py_int :: "string \<Rightarrow> int res" where
  "py_int s =
     (case py_strip s of
        [] \<Rightarrow> Inl ValueError
      | c # cs \<Rightarrow>
          if c = CHR ''-'' then rbind (py_digits 0 False cs) (\<lambda>i. Inr (- i))
          else if c = CHR ''+'' then py_digits 0 False cs
          else py_digits 0 False (c # cs))"

text \<open>\<open>str(i)\<close>.\<close>

fun show_nat :: "nat \<Rightarrow> string" where
  "show_nat n = (if n < 10 then [digit_char n] else show_nat (n div 10) @ [digit_char (n mod 10)])"

declare show_nat.simps [simp del]

definition show_int :: "int \<Rightarrow> string" where
  "show_int i = (if i < 0 then CHR ''-'' # show_nat (nat (- i)) else show_nat (nat i))"

subsection \<open>Reading back a printed integer\<close>

lemma digit_char_props:
  assumes "d < 10"
  shows "is_digit (digit_char d)" "digit_val (digit_char d) = int d" "\<not> is_space (digit_char d)"
    "digit_char d \<noteq> CHR ''-''" "digit_char d \<noteq> CHR ''+''"
proof -
  have n: "of_char (digit_char d) = 48 + d" using assms by (simp add: digit_char_def)
  then show "is_digit (digit_char d)" "digit_val (digit_char d) = int d" "\<not> is_space (digit_char d)"
    using assms by (auto simp: is_digit_def digit_val_def is_space_def)
  with n show "digit_char d \<noteq> CHR ''-''" "digit_char d \<noteq> CHR ''+''"
    by (auto simp del: of_char_eq_iff dest!: arg_cong [of _ _ "of_char :: char \<Rightarrow> nat"])
qed

lemma show_nat_digits: "set (show_nat n) \<subseteq> digit_char ` {..<10}"
proof (induction n rule: show_nat.induct)
  case (1 n)
  then show ?case by (subst show_nat.simps) auto
qed

lemma show_nat_nonempty: "show_nat n \<noteq> []"
  by (subst show_nat.simps) auto

lemma py_digits_append:
  assumes "set cs \<subseteq> digit_char ` {..<10}" "cs \<noteq> []"
  shows "py_digits acc p (cs @ ds) = py_digits (fold (\<lambda>c a. a * 10 + digit_val c) cs acc) True ds"
  using assms
proof (induction cs arbitrary: acc p)
  case (Cons c cs)
  then have "is_digit c" by (auto simp: digit_char_props)
  with Cons show ?case by (cases "cs = []") auto
qed simp

lemma fold_show_nat: "fold (\<lambda>c a. a * 10 + digit_val c) (show_nat n) 0 = int n"
proof (induction n rule: show_nat.induct)
  case (1 n)
  show ?case
  proof (cases "n < 10")
    case False
    with 1 have "fold (\<lambda>c a. a * 10 + digit_val c) (show_nat n) 0 = int (n div 10) * 10 + int (n mod 10)"
      by (subst show_nat.simps) (simp add: digit_char_props)
    then show ?thesis by presburger
  qed (subst show_nat.simps, simp add: digit_char_props)
qed

lemma py_digits_show: "py_digits 0 False (show_nat n) = Inr (int n)"
  using py_digits_append [OF show_nat_digits show_nat_nonempty, of 0 False n "[]"]
  by (simp add: fold_show_nat)

lemma strip_no_space: "\<forall>c \<in> set s. \<not> is_space c \<Longrightarrow> py_strip s = s"
proof -
  have *: "\<forall>c \<in> set s. \<not> is_space c \<Longrightarrow> dropWhile is_space s = s" for s
    by (cases s) auto
  assume "\<forall>c \<in> set s. \<not> is_space c"
  with * [of s] * [of "rev s"] show ?thesis by (simp add: py_strip_def py_lstrip_def py_rstrip_def)
qed

lemma show_nat_no_space: "c \<in> set (show_nat n) \<Longrightarrow> \<not> is_space c"
  using show_nat_digits [of n] by (auto simp: digit_char_props)

lemma py_int_show: "py_int (show_int i) = Inr i"
proof (cases "i < 0")
  case True
  have "\<not> is_space (CHR ''-'')" by (simp add: is_space_def)
  then have "py_strip (show_int i) = CHR ''-'' # show_nat (nat (- i))"
    using True by (subst strip_no_space) (auto simp: show_int_def show_nat_no_space)
  with True show ?thesis by (simp add: py_int_def py_digits_show)
next
  case False
  then have s: "py_strip (show_int i) = show_nat (nat i)"
    by (subst strip_no_space) (auto simp: show_int_def show_nat_no_space)
  obtain c cs where c: "show_nat (nat i) = c # cs" using show_nat_nonempty by (cases "show_nat (nat i)") auto
  then have "c \<in> digit_char ` {..<10}" using show_nat_digits [of "nat i"] by auto
  then have "c \<noteq> CHR ''-''" "c \<noteq> CHR ''+''" by (auto simp: digit_char_props)
  then show ?thesis using s c py_digits_show [of "nat i"] False by (simp add: py_int_def)
qed

end
