(* ===== verification/Memory.thy ===== *)
theory Memory
  imports SharedMem Lang PyStr
begin

text \<open>
  The memory of a running program instance (\<open>qoala/runtime/memory.py\<close>): the variables and
  vectors of the Host, the NetQASM registers and running routines of Qnos, and the shared
  memory of theory SharedMem. All of them are stores with the same contract, the locale
  \<open>key_store\<close>: reading gives what was written last under that key.
\<close>

section \<open>Stores\<close>

locale key_store =
  fixes put :: "'k \<Rightarrow> 'v \<Rightarrow> 's \<Rightarrow> 's"
    and get :: "'k \<Rightarrow> 's \<Rightarrow> 'v res"
  assumes get_put: "get k' (put k v s) = (if k' = k then Inr v else get k' s)"
begin

lemma get_put_same [simp]: "get k (put k v s) = Inr v"
  by (simp add: get_put)

lemma get_put_other: "k' \<noteq> k \<Longrightarrow> get k' (put k v s) = get k' s"
  by (simp add: get_put)

text \<open>A loop of writes: the last write to a key is the one that is read.\<close>

lemma get_puts: "get k (fold (\<lambda>(k, v). put k v) kvs s) =
    (case map_of (rev kvs) k of None \<Rightarrow> get k s | Some v \<Rightarrow> Inr v)"
  by (induction kvs arbitrary: s) (auto simp: get_put map_add_def split: option.splits)

lemma get_puts_other: "k \<notin> fst ` set kvs \<Longrightarrow> get k (fold (\<lambda>(k, v). put k v) kvs s) = get k s"
  by (induction kvs arbitrary: s) (auto simp: get_put)

lemma get_puts_distinct:
  assumes "distinct ks" "i < length ks" "length vs = length ks"
  shows "get (ks ! i) (fold (\<lambda>(k, v). put k v) (zip ks vs) s) = Inr (vs ! i)"
proof -
  have "map_of (rev (zip ks vs)) (ks ! i) = map_of (zip ks vs) (ks ! i)"
    using assms by (simp add: map_of_rev_ok)
  also have "\<dots> = Some (vs ! i)" using assms by (simp add: map_of_zip_nth)
  finally show ?thesis by (simp add: get_puts)
qed

end

section \<open>Host memory\<close>

record host_memory =
  hm_mem :: "(string, int) dict"
  hm_vec_mem :: "(string, int list) dict"

definition init_host_memory :: host_memory where
  "init_host_memory = \<lparr>hm_mem = [], hm_vec_mem = []\<rparr>"

definition host_write :: "string \<Rightarrow> int \<Rightarrow> host_memory \<Rightarrow> host_memory" where
  "host_write loc v m = m\<lparr>hm_mem := dset loc v (hm_mem m)\<rparr>"

definition host_read :: "string \<Rightarrow> host_memory \<Rightarrow> int res" where
  "host_read loc m = dget (hm_mem m) loc"

definition host_write_vec :: "string \<Rightarrow> int list \<Rightarrow> host_memory \<Rightarrow> host_memory" where
  "host_write_vec loc vs m = m\<lparr>hm_vec_mem := dset loc vs (hm_vec_mem m)\<rparr>"

definition host_read_vec :: "string \<Rightarrow> host_memory \<Rightarrow> int list res" where
  "host_read_vec loc m = dget (hm_vec_mem m) loc"

lemma dget_dset: "dget (dset k v d) k' = (if k' = k then Inr v else dget d k')"
  by (simp add: dget_def)

interpretation vars: key_store host_write host_read
  by unfold_locales (simp add: host_write_def host_read_def dget_dset)

interpretation vecs: key_store host_write_vec host_read_vec
  by unfold_locales (simp add: host_write_vec_def host_read_vec_def dget_dset)

lemma host_frames [simp]:
  "host_read_vec x (host_write k v m) = host_read_vec x m"
  "host_read x (host_write_vec k vs m) = host_read x m"
  by (simp_all add: host_read_def host_read_vec_def host_write_def host_write_vec_def)

section \<open>Qnos memory\<close>

text \<open>\<open>RegisterMeta\<close>\<close>

definition reg_prefixes :: "char list" where
  "reg_prefixes = [CHR ''R'', CHR ''C'', CHR ''Q'', CHR ''M'']"

definition reg_group :: "char \<Rightarrow> reg_name" where
  "reg_group c = (if c = CHR ''R'' then RegR else if c = CHR ''C'' then RegC
     else if c = CHR ''Q'' then RegQ else RegM)"

definition parse_register :: "string \<Rightarrow> (reg_name \<times> int) res" where
  "parse_register name =
     rbind (py_assert (2 \<le> length name)) (\<lambda>_.
     rbind (py_assert (hd name \<in> set reg_prefixes)) (\<lambda>_.
     let group = reg_group (hd name) in
     rbind (py_int (tl name)) (\<lambda>index.
     rbind (py_assert (index < 16)) (\<lambda>_.
     Inr (group, index)))))"

record running_local_routine =
  rl_routine :: local_routine
  rl_params_addr :: mem_addr
  rl_result_addr :: mem_addr

record running_request_routine =
  rq_routine :: request_routine
  rq_params_addr :: mem_addr
  rq_result_addr :: mem_addr
  rq_cb_input_addrs :: "mem_addr list"
  rq_cb_output_addrs :: "mem_addr list"

text \<open>
  The two-level dictionary of registers, group first and then index, as one dictionary from
  registers. \<open>setup_registers\<close> of NetQASM names the four register groups.
\<close>

record qnos_memory =
  qm_running_local :: "(string, running_local_routine) dict"
  qm_running_request :: "(string, running_request_routine) dict"
  qm_registers :: "(register, int) dict"

definition all_registers :: "register list" where
  "all_registers = map (\<lambda>(n, i). Register n i) (List.product [RegR, RegC, RegQ, RegM] [0..15])"

definition init_qnos_memory :: qnos_memory where
  "init_qnos_memory = \<lparr>qm_running_local = [], qm_running_request = [],
     qm_registers = map (\<lambda>r. (r, 0)) all_registers\<rparr>"

definition add_running_local_routine :: "running_local_routine \<Rightarrow> qnos_memory \<Rightarrow> qnos_memory" where
  "add_running_local_routine r m =
     m\<lparr>qm_running_local := dset (lr_name (rl_routine r)) r (qm_running_local m)\<rparr>"

definition get_running_local_routine :: "string \<Rightarrow> qnos_memory \<Rightarrow> running_local_routine res" where
  "get_running_local_routine name m = dget (qm_running_local m) name"

definition add_running_request_routine :: "running_request_routine \<Rightarrow> qnos_memory \<Rightarrow> qnos_memory" where
  "add_running_request_routine r m =
     m\<lparr>qm_running_request := dset (rr_name (rq_routine r)) r (qm_running_request m)\<rparr>"

definition get_running_request_routine :: "string \<Rightarrow> qnos_memory \<Rightarrow> running_request_routine res" where
  "get_running_request_routine name m = dget (qm_running_request m) name"

definition set_reg_value :: "register \<Rightarrow> int \<Rightarrow> qnos_memory \<Rightarrow> qnos_memory" where
  "set_reg_value r v m = m\<lparr>qm_registers := dset r v (qm_registers m)\<rparr>"

definition get_reg_value :: "register \<Rightarrow> qnos_memory \<Rightarrow> int res" where
  "get_reg_value r m = dget (qm_registers m) r"

text \<open>The same accesses by the name of a register.\<close>

definition set_reg_by_name :: "string \<Rightarrow> int \<Rightarrow> qnos_memory \<Rightarrow> qnos_memory res" where
  "set_reg_by_name s v m = rbind (parse_register s) (\<lambda>(n, i). Inr (set_reg_value (Register n i) v m))"

definition get_reg_by_name :: "string \<Rightarrow> qnos_memory \<Rightarrow> int res" where
  "get_reg_by_name s m = rbind (parse_register s) (\<lambda>(n, i). get_reg_value (Register n i) m)"

interpretation regs: key_store set_reg_value get_reg_value
  by unfold_locales (simp add: set_reg_value_def get_reg_value_def dget_dset)

lemma get_add_running_local:
  "get_running_local_routine n (add_running_local_routine r m) =
     (if n = lr_name (rl_routine r) then Inr r else get_running_local_routine n m)"
  by (simp add: get_running_local_routine_def add_running_local_routine_def dget_dset)

lemma get_add_running_request:
  "get_running_request_routine n (add_running_request_routine r m) =
     (if n = rr_name (rq_routine r) then Inr r else get_running_request_routine n m)"
  by (simp add: get_running_request_routine_def add_running_request_routine_def dget_dset)

lemma qnos_memory_frames [simp]:
  "get_reg_value x (add_running_local_routine r m) = get_reg_value x m"
  "get_reg_value x (add_running_request_routine q m) = get_reg_value x m"
  "get_running_local_routine n (set_reg_value x v m) = get_running_local_routine n m"
  "get_running_request_routine n (set_reg_value x v m) = get_running_request_routine n m"
  by (simp_all add: get_reg_value_def add_running_local_routine_def add_running_request_routine_def
      get_running_local_routine_def get_running_request_routine_def set_reg_value_def)

text \<open>All sixteen registers of every group exist, so reading one never raises.\<close>

definition regs_ok :: "qnos_memory \<Rightarrow> bool" where
  "regs_ok m \<longleftrightarrow> (\<forall>r \<in> set all_registers. \<exists>v. get_reg_value r m = Inr v)"

lemma in_all_registers: "Register n i \<in> set all_registers \<longleftrightarrow> 0 \<le> i \<and> i < 16"
  by (cases n) (auto simp: all_registers_def image_iff)

lemma regs_ok_init: "regs_ok init_qnos_memory"
proof -
  have "map_of (map (\<lambda>r. (r, 0)) rs) r = Some (0 :: int)" if "r \<in> set rs" for r :: register and rs
    using that by (induction rs) auto
  then show ?thesis by (auto simp: regs_ok_def get_reg_value_def init_qnos_memory_def)
qed

lemma regs_ok_set [simp]: "regs_ok m \<Longrightarrow> regs_ok (set_reg_value r v m)"
  by (auto simp: regs_ok_def regs.get_put)

text \<open>The name of a register is read back as its group and index.\<close>

definition reg_letter :: "reg_name \<Rightarrow> char" where
  "reg_letter n = (case n of RegR \<Rightarrow> CHR ''R'' | RegC \<Rightarrow> CHR ''C'' | RegQ \<Rightarrow> CHR ''Q'' | RegM \<Rightarrow> CHR ''M'')"

definition register_name :: "register \<Rightarrow> string" where
  "register_name r = reg_letter (reg_name r) # show_int (reg_index r)"

lemma parse_register_name:
  assumes "r \<in> set all_registers"
  shows "parse_register (register_name r) = Inr (reg_name r, reg_index r)"
proof -
  obtain n i where r: "r = Register n i" "0 \<le> i" "i < 16"
    using assms in_all_registers [of "reg_name r" "reg_index r"] by simp (metis register.collapse)
  have "show_int i \<noteq> []" using r by (simp add: show_int_def show_nat_nonempty)
  then have "2 \<le> length (register_name r)" by (cases "show_int i") (auto simp: register_name_def r)
  with r show ?thesis
    by (cases n) (auto simp: parse_register_def register_name_def reg_letter_def reg_prefixes_def
        reg_group_def py_int_show Let_def)
qed

section \<open>Program memory\<close>

record program_memory =
  pm_host_mem :: host_memory
  pm_shared_mem :: shared_memory
  pm_qnos_mem :: qnos_memory

definition init_program_memory :: program_memory where
  "init_program_memory = \<lparr>pm_host_mem = init_host_memory, pm_shared_mem = init_shared,
     pm_qnos_mem = init_qnos_memory\<rparr>"

section \<open>Call tuples\<close>

text \<open>\<open>qoala/runtime/message.py\<close>: the addresses passed with a call of a routine.\<close>

record lr_call_tuple =
  lc_routine_name :: string
  lc_input_addr :: mem_addr
  lc_result_addr :: mem_addr

record rr_call_tuple =
  rc_routine_name :: string
  rc_input_addr :: mem_addr
  rc_result_addr :: mem_addr
  rc_cb_input_addrs :: "mem_addr list"
  rc_cb_output_addrs :: "mem_addr list"

definition no_alloc :: "string \<Rightarrow> rr_call_tuple" where
  "no_alloc name = \<lparr>rc_routine_name = name, rc_input_addr = MemAddr 0, rc_result_addr = MemAddr 0,
     rc_cb_input_addrs = [], rc_cb_output_addrs = []\<rparr>"

section \<open>The shared memory of the scheduler\<close>

text \<open>\<open>SharedSchedulerMemory\<close> (\<open>qoala/sim/driver.py\<close>): the call tuples that the tasks of one
call pass to each other, under the pointer of the call.\<close>

record sched_memory =
  sh_lrcalls :: "(int, lr_call_tuple) dict"
  sh_rrcalls :: "(int, rr_call_tuple) dict"

definition init_sched_memory :: sched_memory where
  "init_sched_memory = \<lparr>sh_lrcalls = [], sh_rrcalls = []\<rparr>"

definition write_shared_lrcall :: "int \<Rightarrow> lr_call_tuple \<Rightarrow> sched_memory \<Rightarrow> sched_memory" where
  "write_shared_lrcall ptr c m = m\<lparr>sh_lrcalls := dset ptr c (sh_lrcalls m)\<rparr>"

definition write_shared_rrcall :: "int \<Rightarrow> rr_call_tuple \<Rightarrow> sched_memory \<Rightarrow> sched_memory" where
  "write_shared_rrcall ptr c m = m\<lparr>sh_rrcalls := dset ptr c (sh_rrcalls m)\<rparr>"

definition read_shared_lrcall :: "int \<Rightarrow> sched_memory \<Rightarrow> lr_call_tuple res" where
  "read_shared_lrcall ptr m = dget (sh_lrcalls m) ptr"

definition read_shared_rrcall :: "int \<Rightarrow> sched_memory \<Rightarrow> rr_call_tuple res" where
  "read_shared_rrcall ptr m = dget (sh_rrcalls m) ptr"

interpretation lrcalls: key_store write_shared_lrcall read_shared_lrcall
  by unfold_locales (simp add: write_shared_lrcall_def read_shared_lrcall_def dget_dset)

interpretation rrcalls: key_store write_shared_rrcall read_shared_rrcall
  by unfold_locales (simp add: write_shared_rrcall_def read_shared_rrcall_def dget_dset)

lemma sched_memory_frames [simp]:
  "read_shared_lrcall p (write_shared_rrcall q c m) = read_shared_lrcall p m"
  "read_shared_rrcall p (write_shared_lrcall q d m) = read_shared_rrcall p m"
  by (simp_all add: read_shared_lrcall_def read_shared_rrcall_def write_shared_lrcall_def
      write_shared_rrcall_def)

section \<open>Registers by name\<close>

text \<open>A register written through its name is read back with the value, by name and by
register object, and every other register keeps its value; names of registers of all four groups
with indices below sixteen are accepted.\<close>

theorem register_names_round_trip:
  assumes "r \<in> set all_registers"
  shows "\<exists>m'. set_reg_by_name (register_name r) v m = Inr m' \<and>
    get_reg_by_name (register_name r) m' = Inr v \<and> get_reg_value r m' = Inr v \<and>
    (\<forall>r'. r' \<noteq> r \<longrightarrow> get_reg_value r' m' = get_reg_value r' m)"
  using parse_register_name [OF assms]
  by (cases r) (simp add: set_reg_by_name_def get_reg_by_name_def regs.get_put)

theorem register_names_round_trip_witness:
  "\<exists>m'. set_reg_by_name (register_name (Register RegM 7)) 3 init_qnos_memory = Inr m' \<and>
    get_reg_value (Register RegM 7) m' = Inr 3"
  using register_names_round_trip [of "Register RegM 7" 3 init_qnos_memory]
  by (auto simp: in_all_registers)

end
