(* ===== verification/Ehi.thy ===== *)
theory Ehi
  imports NetQasm
begin

text \<open>
  The exposed hardware interface (\<open>qoala/lang/ehi.py\<close>): what a node offers to programs
  (qubits, gates, latencies), the builders of such descriptions, unit modules, and the network
  description with its links. The network schedule of the same file is in theory NetSchedule.
\<close>

section \<open>Nodes\<close>

record ehi_qubit_info =
  eq_is_communication :: bool
  eq_decoherence_rate :: real

record ehi_gate_info =
  eg_instruction :: nq_type
  eg_duration :: real
  eg_decoherence :: real

record ehi_link_info =
  el_duration :: real
  el_fidelity :: real

record ehi_latencies =
  host_instr_time :: real
  qnos_instr_time :: real
  host_peer_latency :: real
  internal_sched_latency :: real

definition latencies_all_zero :: ehi_latencies where
  "latencies_all_zero = \<lparr>host_instr_time = 0, qnos_instr_time = 0, host_peer_latency = 0,
     internal_sched_latency = 0\<rparr>"

text \<open>\<open>qoala/lang/common.py\<close>: an ordered list of qubit IDs, used as a dictionary key.\<close>

datatype multi_qubit = MultiQubit (qubit_ids: "int list")

datatype flavour = VanillaFlavour | NVFlavour

record ehi_node_info =
  en_qubit_infos :: "(int, ehi_qubit_info) dict"
  en_flavour :: flavour
  en_single_gate_infos :: "(int, ehi_gate_info list) dict"
  en_multi_gate_infos :: "(multi_qubit, ehi_gate_info list) dict"
  en_latencies :: ehi_latencies

definition find_single_gate :: "ehi_node_info \<Rightarrow> int \<Rightarrow> nq_type \<Rightarrow> ehi_gate_info option" where
  "find_single_gate e q instr =
     (case map_of (en_single_gate_infos e) q of
        None \<Rightarrow> None
      | Some infos \<Rightarrow> List.find (\<lambda>g. eg_instruction g = instr) infos)"

definition find_multi_gate :: "ehi_node_info \<Rightarrow> int list \<Rightarrow> nq_type \<Rightarrow> ehi_gate_info option" where
  "find_multi_gate e qs instr =
     (case map_of (en_multi_gate_infos e) (MultiQubit qs) of
        None \<Rightarrow> None
      | Some infos \<Rightarrow> List.find (\<lambda>g. eg_instruction g = instr) infos)"

section \<open>Builders\<close>

definition decoherence_qubit :: "bool \<Rightarrow> real \<Rightarrow> ehi_qubit_info" where
  "decoherence_qubit c r = \<lparr>eq_is_communication = c, eq_decoherence_rate = r\<rparr>"

definition perfect_qubit :: "bool \<Rightarrow> ehi_qubit_info" where
  "perfect_qubit c = decoherence_qubit c 0"

definition decoherence_gates :: "real \<Rightarrow> nq_type list \<Rightarrow> real \<Rightarrow> ehi_gate_info list" where
  "decoherence_gates duration instructions decoherence =
     map (\<lambda>i. \<lparr>eg_instruction = i, eg_duration = duration, eg_decoherence = decoherence\<rparr>) instructions"

definition perfect_gates :: "real \<Rightarrow> nq_type list \<Rightarrow> ehi_gate_info list" where
  "perfect_gates duration instructions = decoherence_gates duration instructions 0"

text \<open>The dictionaries of the two shapes of node: all-to-all, and a star around qubit 0.\<close>

definition all_pairs :: "int \<Rightarrow> (int \<times> int) list" where
  "all_pairs n = filter (\<lambda>(i, j). i \<noteq> j) (List.product [0..n - 1] [0..n - 1])"

definition uniform_dict :: "int \<Rightarrow> 'v \<Rightarrow> (int, 'v) dict" where
  "uniform_dict n x = map (\<lambda>i. (i, x)) [0..n - 1]"

definition pairs_dict :: "int \<Rightarrow> 'v \<Rightarrow> (multi_qubit, 'v) dict" where
  "pairs_dict n x = map (\<lambda>(i, j). (MultiQubit [i, j], x)) (all_pairs n)"

definition star_dict :: "int \<Rightarrow> 'v \<Rightarrow> 'v \<Rightarrow> (int, 'v) dict" where
  "star_dict n c m = (0, c) # map (\<lambda>i. (i, m)) [1..n - 1]"

definition spokes_dict :: "int \<Rightarrow> 'v \<Rightarrow> (multi_qubit, 'v) dict" where
  "spokes_dict n x = map (\<lambda>i. (MultiQubit [0, i], x)) [1..n - 1]"

definition default_latencies :: "ehi_latencies option \<Rightarrow> ehi_latencies" where
  "default_latencies l = (case l of None \<Rightarrow> latencies_all_zero | Some x \<Rightarrow> x)"

definition fully_uniform ::
    "int \<Rightarrow> ehi_qubit_info \<Rightarrow> flavour \<Rightarrow> ehi_gate_info list \<Rightarrow> ehi_gate_info list \<Rightarrow>
     ehi_latencies option \<Rightarrow> ehi_node_info" where
  "fully_uniform n qi fl single two lat =
     \<lparr>en_qubit_infos = uniform_dict n qi, en_flavour = fl,
      en_single_gate_infos = uniform_dict n single,
      en_multi_gate_infos = pairs_dict n two,
      en_latencies = default_latencies lat\<rparr>"

definition perfect_uniform ::
    "int \<Rightarrow> flavour \<Rightarrow> nq_type list \<Rightarrow> real \<Rightarrow> nq_type list \<Rightarrow> real \<Rightarrow>
     ehi_latencies option \<Rightarrow> ehi_node_info" where
  "perfect_uniform n fl single_instrs single_dur two_instrs two_dur lat =
     fully_uniform n (perfect_qubit True) fl (perfect_gates single_dur single_instrs)
       (perfect_gates two_dur two_instrs) lat"

definition perfect_star ::
    "int \<Rightarrow> flavour \<Rightarrow> nq_type list \<Rightarrow> real \<Rightarrow> nq_type list \<Rightarrow> real \<Rightarrow> nq_type list \<Rightarrow> real \<Rightarrow>
     ehi_latencies option \<Rightarrow> ehi_node_info" where
  "perfect_star n fl comm_instrs comm_dur mem_instrs mem_dur two_instrs two_dur lat =
     \<lparr>en_qubit_infos = star_dict n (perfect_qubit True) (perfect_qubit False), en_flavour = fl,
      en_single_gate_infos =
        star_dict n (perfect_gates comm_dur comm_instrs) (perfect_gates mem_dur mem_instrs),
      en_multi_gate_infos = spokes_dict n (perfect_gates two_dur two_instrs),
      en_latencies = default_latencies lat\<rparr>"

definition generic_t1t2_star ::
    "int \<Rightarrow> flavour \<Rightarrow> real \<Rightarrow> real \<Rightarrow> nq_type list \<Rightarrow> real \<Rightarrow> real \<Rightarrow> nq_type list \<Rightarrow> real \<Rightarrow> real \<Rightarrow>
     nq_type list \<Rightarrow> real \<Rightarrow> real \<Rightarrow> ehi_latencies option \<Rightarrow> ehi_node_info" where
  "generic_t1t2_star n fl comm_deco mem_deco comm_instrs comm_dur comm_instr_deco
       mem_instrs mem_dur mem_instr_deco two_instrs two_dur two_instr_deco lat =
     \<lparr>en_qubit_infos = star_dict n (decoherence_qubit True comm_deco) (decoherence_qubit False mem_deco),
      en_flavour = fl,
      en_single_gate_infos =
        star_dict n (decoherence_gates comm_dur comm_instrs comm_instr_deco)
          (decoherence_gates mem_dur mem_instrs mem_instr_deco),
      en_multi_gate_infos = spokes_dict n (decoherence_gates two_dur two_instrs two_instr_deco),
      en_latencies = default_latencies lat\<rparr>"

lemma map_of_map_Pair: "map_of (map (\<lambda>i. (f i, x)) xs) k = (if k \<in> f ` set xs then Some x else None)"
  by (induction xs) auto

lemma map_of_uniform: "map_of (uniform_dict n x) i = (if 0 \<le> i \<and> i < n then Some x else None)"
  by (auto simp: uniform_dict_def map_of_map_Pair)

lemma map_of_star:
  "map_of (star_dict n c m) i = (if i = 0 then Some c else if 0 < i \<and> i < n then Some m else None)"
  by (auto simp: star_dict_def map_of_map_Pair)

lemma map_of_pairs:
  "map_of (pairs_dict n x) (MultiQubit [i, j]) =
     (if 0 \<le> i \<and> i < n \<and> 0 \<le> j \<and> j < n \<and> i \<noteq> j then Some x else None)"
proof -
  have "map_of (map (\<lambda>(i, j). (MultiQubit [i, j], x)) ps) (MultiQubit [i, j]) =
      (if (i, j) \<in> set ps then Some x else None)" for ps
    by (induction ps) auto
  then show ?thesis by (auto simp: pairs_dict_def all_pairs_def)
qed

lemma map_of_spokes:
  "map_of (spokes_dict n x) (MultiQubit [i, j]) =
     (if i = 0 \<and> 0 < j \<and> j < n then Some x else None)"
  by (auto simp: spokes_dict_def map_of_map_Pair)

lemma find_gate_perfect:
  "instr \<in> set instrs \<Longrightarrow> List.find (\<lambda>g. eg_instruction g = instr) (perfect_gates d instrs) =
     Some \<lparr>eg_instruction = instr, eg_duration = d, eg_decoherence = 0\<rparr>"
  by (induction instrs) (auto simp: perfect_gates_def decoherence_gates_def)

section \<open>Unit modules\<close>

record unit_module =
  um_info :: ehi_node_info

definition is_communication :: "unit_module \<Rightarrow> int \<Rightarrow> bool res" where
  "is_communication u q =
     rbind (dget (en_qubit_infos (um_info u)) q) (\<lambda>i. Inr (eq_is_communication i))"

definition get_all_qubit_ids :: "unit_module \<Rightarrow> int list" where
  "get_all_qubit_ids u = keys (en_qubit_infos (um_info u))"

definition from_ehi :: "ehi_node_info \<Rightarrow> int list \<Rightarrow> unit_module res" where
  "from_ehi e ids =
     rbind (rmap (\<lambda>i. rbind (dget (en_qubit_infos e) i) (\<lambda>x. Inr (i, x))) ids) (\<lambda>qs.
     rbind (rmap (\<lambda>i. rbind (dget (en_single_gate_infos e) i) (\<lambda>x. Inr (i, x))) ids) (\<lambda>gs.
     Inr \<lparr>um_info = \<lparr>en_qubit_infos = dict_of qs, en_flavour = en_flavour e,
       en_single_gate_infos = dict_of gs,
       en_multi_gate_infos =
         filter (\<lambda>(m, infos). \<forall>q \<in> set (qubit_ids m). q \<in> set ids) (en_multi_gate_infos e),
       en_latencies = en_latencies e\<rparr>\<rparr>))"

definition from_full_ehi :: "ehi_node_info \<Rightarrow> unit_module" where
  "from_full_ehi e = \<lparr>um_info = e\<rparr>"

lemma rmap_select:
  assumes "rmap (\<lambda>i. rbind (dget d i) (\<lambda>x. Inr (i, x))) ids = Inr kvs"
  shows "keys kvs = ids" and "(i, x) \<in> set kvs \<Longrightarrow> map_of d i = Some x"
proof -
  have "keys kvs = ids \<and> (\<forall>(i, x) \<in> set kvs. map_of d i = Some x)"
    using assms by (induction ids arbitrary: kvs) auto
  then show "keys kvs = ids" "(i, x) \<in> set kvs \<Longrightarrow> map_of d i = Some x" by auto
qed

lemma map_of_select:
  assumes "rmap (\<lambda>i. rbind (dget d i) (\<lambda>x. Inr (i, x))) ids = Inr kvs" "i \<in> set ids"
  shows "map_of (dict_of kvs) i = map_of d i"
proof -
  have "set (keys (rev kvs)) = set ids" by (simp add: rmap_select(1) [OF assms(1), symmetric])
  with assms(2) have "i \<in> set (keys (rev kvs))" by simp
  then obtain x where x: "map_of (rev kvs) i = Some x" using in_keys_map_of by metis
  then have "(i, x) \<in> set kvs" using map_of_SomeD by fastforce
  with rmap_select(2) [OF assms(1)] x show ?thesis by (simp add: map_of_dupdate)
qed

lemma from_ehi_comm:
  assumes "from_ehi e ids = Inr u" "i \<in> set ids"
  shows "is_communication u i = is_communication (from_full_ehi e) i"
  using assms by (auto simp: from_ehi_def is_communication_def from_full_ehi_def dget_def map_of_select)

lemma from_ehi_ids:
  assumes "from_ehi e ids = Inr u"
  shows "set (get_all_qubit_ids u) = set ids"
proof -
  from assms obtain qs where "rmap (\<lambda>i. rbind (dget (en_qubit_infos e) i) (\<lambda>x. Inr (i, x))) ids = Inr qs"
    "en_qubit_infos (um_info u) = dict_of qs"
    by (auto simp: from_ehi_def)
  moreover have "set (keys (dict_of qs)) = set (keys qs)"
    by (simp only: set_map set_keys_dupdate) simp
  ultimately show ?thesis using rmap_select(1) [of "en_qubit_infos e" ids qs]
    by (simp add: get_all_qubit_ids_def del: set_map)
qed

section \<open>The network\<close>

record ehi_network_info =
  ni_nodes :: "(int, string) dict"
  ni_links :: "(int set, ehi_link_info) dict"

definition only_nodes :: "(int, string) dict \<Rightarrow> ehi_network_info" where
  "only_nodes nodes = \<lparr>ni_nodes = nodes, ni_links = []\<rparr>"

text \<open>\<open>itertools.combinations(xs, 2)\<close>\<close>

fun combinations2 :: "'a list \<Rightarrow> ('a \<times> 'a) list" where
  "combinations2 [] = []"
| "combinations2 (x # xs) = map (Pair x) xs @ combinations2 xs"

definition fully_connected :: "(int, string) dict \<Rightarrow> ehi_link_info \<Rightarrow> ehi_network_info" where
  "fully_connected nodes info =
     \<lparr>ni_nodes = nodes,
      ni_links = fold (\<lambda>(n1, n2). dset {n1, n2} info) (combinations2 (keys nodes)) []\<rparr>"

definition perfect_fully_connected :: "(int, string) dict \<Rightarrow> real \<Rightarrow> ehi_network_info" where
  "perfect_fully_connected nodes duration =
     fully_connected nodes \<lparr>el_duration = duration, el_fidelity = 1\<rparr>"

definition get_node_id :: "ehi_network_info \<Rightarrow> string \<Rightarrow> int res" where
  "get_node_id n name =
     (case List.find (\<lambda>(i, nm). nm = name) (ni_nodes n) of
        Some (i, nm) \<Rightarrow> Inr i | None \<Rightarrow> Inl ValueError)"

definition add_link :: "int \<Rightarrow> int \<Rightarrow> ehi_link_info \<Rightarrow> ehi_network_info \<Rightarrow> ehi_network_info res" where
  "add_link n1 n2 info n =
     rbind (ensure (dhas (ni_nodes n) n1) ValueError) (\<lambda>_.
     rbind (ensure (dhas (ni_nodes n) n2) ValueError) (\<lambda>_.
     rbind (ensure (n1 \<noteq> n2) ValueError) (\<lambda>_.
     Inr (n\<lparr>ni_links := dset {n1, n2} info (ni_links n)\<rparr>))))"

definition get_all_node_names :: "ehi_network_info \<Rightarrow> string list" where
  "get_all_node_names n = map snd (ni_nodes n)"

definition get_link :: "ehi_network_info \<Rightarrow> int \<Rightarrow> int \<Rightarrow> ehi_link_info res" where
  "get_link n a b =
     (case map_of (ni_links n) {a, b} of Some l \<Rightarrow> Inr l | None \<Rightarrow> Inl ValueError)"

lemma combinations2_mem:
  "a \<in> set xs \<Longrightarrow> b \<in> set xs \<Longrightarrow> a \<noteq> b \<Longrightarrow> (a, b) \<in> set (combinations2 xs) \<or> (b, a) \<in> set (combinations2 xs)"
  by (induction xs) auto

lemma combinations2_sub: "(a, b) \<in> set (combinations2 xs) \<Longrightarrow> a \<in> set xs \<and> b \<in> set xs"
  by (induction xs) auto

lemma combinations2_neq: "distinct xs \<Longrightarrow> (a, b) \<in> set (combinations2 xs) \<Longrightarrow> a \<noteq> b"
  by (induction xs) (auto dest: combinations2_sub)

lemma map_of_fold_links:
  "map_of (fold (\<lambda>(n1, n2). dset {n1, n2} x) ps d) k =
     (if \<exists>(a, b) \<in> set ps. k = {a, b} then Some x else map_of d k)"
proof (induction ps arbitrary: d)
  case (Cons p ps)
  then show ?case by (cases p; cases "k = {fst p, snd p}") simp_all
qed simp

lemma get_link_fully_connected:
  assumes "dict_ok nodes"
  shows "get_link (fully_connected nodes info) a b =
    (if a \<noteq> b \<and> dhas nodes a \<and> dhas nodes b then Inr info else Inl ValueError)"
proof -
  have "(\<exists>(c, d) \<in> set (combinations2 (keys nodes)). {a, b} = {c, d}) \<longleftrightarrow>
      a \<noteq> b \<and> a \<in> set (keys nodes) \<and> b \<in> set (keys nodes)"
    using combinations2_mem [of a "keys nodes" b] combinations2_sub [of _ _ "keys nodes"]
      combinations2_neq [OF assms] by (fastforce simp: doubleton_eq_iff)
  then show ?thesis
    by (simp add: get_link_def fully_connected_def map_of_fold_links dhas_iff)
qed

end
