(* ===== verification/Process.thy ===== *)
theory Process
  imports Memory Ehi
begin

text \<open>
  Running program instances (\<open>qoala/sim/process.py\<close>, \<open>qoala/runtime/program.py\<close>) and their
  sockets (\<open>qoala/sim/host/csocket.py\<close>, \<open>qoala/sim/eprsocket.py\<close>).
\<close>

record csocket =
  ck_remote_name :: string
  ck_pid :: int
  ck_remote_pid :: int

record epr_socket =
  es_socket_id :: int
  es_remote_id :: int
  es_local_pid :: int
  es_remote_pid :: int
  es_fidelity :: real

text \<open>A value of \<open>ProgramResult\<close>: an integer or a vector.\<close>

datatype prog_value = IntResult int | VecResult "int list"

record program_instance =
  pi_pid :: int
  pi_program :: qoala_program
  pi_inputs :: prog_input
  pi_unit_module :: unit_module

record qoala_process =
  pc_instance :: program_instance
  pc_memory :: program_memory
  pc_result :: "(string, prog_value) dict"
  pc_csockets :: "(int, csocket) dict"
  pc_epr_sockets :: "(int, epr_socket) dict"

abbreviation pc_pid :: "qoala_process \<Rightarrow> int" where
  "pc_pid p \<equiv> pi_pid (pc_instance p)"

abbreviation pc_program :: "qoala_process \<Rightarrow> qoala_program" where
  "pc_program p \<equiv> pi_program (pc_instance p)"

abbreviation pc_inputs :: "qoala_process \<Rightarrow> prog_input" where
  "pc_inputs p \<equiv> pi_inputs (pc_instance p)"

abbreviation pc_host_mem :: "qoala_process \<Rightarrow> host_memory" where
  "pc_host_mem p \<equiv> pm_host_mem (pc_memory p)"

abbreviation pc_qnos_mem :: "qoala_process \<Rightarrow> qnos_memory" where
  "pc_qnos_mem p \<equiv> pm_qnos_mem (pc_memory p)"

abbreviation pc_shared_mem :: "qoala_process \<Rightarrow> shared_memory" where
  "pc_shared_mem p \<equiv> pm_shared_mem (pc_memory p)"

definition set_host_mem :: "host_memory \<Rightarrow> qoala_process \<Rightarrow> qoala_process" where
  "set_host_mem m p = p\<lparr>pc_memory := (pc_memory p)\<lparr>pm_host_mem := m\<rparr>\<rparr>"

definition set_qnos_mem :: "qnos_memory \<Rightarrow> qoala_process \<Rightarrow> qoala_process" where
  "set_qnos_mem m p = p\<lparr>pc_memory := (pc_memory p)\<lparr>pm_qnos_mem := m\<rparr>\<rparr>"

definition set_shared_mem :: "shared_memory \<Rightarrow> qoala_process \<Rightarrow> qoala_process" where
  "set_shared_mem m p = p\<lparr>pc_memory := (pc_memory p)\<lparr>pm_shared_mem := m\<rparr>\<rparr>"

lemma set_mem_simps [simp]:
  "pc_host_mem (set_host_mem m p) = m" "pc_qnos_mem (set_host_mem m p) = pc_qnos_mem p"
  "pc_shared_mem (set_host_mem m p) = pc_shared_mem p"
  "pc_qnos_mem (set_qnos_mem q p) = q" "pc_host_mem (set_qnos_mem q p) = pc_host_mem p"
  "pc_shared_mem (set_qnos_mem q p) = pc_shared_mem p"
  "pc_shared_mem (set_shared_mem s p) = s" "pc_host_mem (set_shared_mem s p) = pc_host_mem p"
  "pc_qnos_mem (set_shared_mem s p) = pc_qnos_mem p"
  "pc_instance (set_host_mem m p) = pc_instance p" "pc_instance (set_qnos_mem q p) = pc_instance p"
  "pc_instance (set_shared_mem s p) = pc_instance p"
  "pc_result (set_host_mem m p) = pc_result p" "pc_result (set_qnos_mem q p) = pc_result p"
  "pc_result (set_shared_mem s p) = pc_result p"
  "pc_csockets (set_host_mem m p) = pc_csockets p" "pc_csockets (set_qnos_mem q p) = pc_csockets p"
  "pc_csockets (set_shared_mem s p) = pc_csockets p"
  "pc_epr_sockets (set_host_mem m p) = pc_epr_sockets p"
  "pc_epr_sockets (set_qnos_mem q p) = pc_epr_sockets p"
  "pc_epr_sockets (set_shared_mem s p) = pc_epr_sockets p"
  by (simp_all add: set_host_mem_def set_qnos_mem_def set_shared_mem_def)

definition get_local_routine :: "qoala_process \<Rightarrow> string \<Rightarrow> local_routine res" where
  "get_local_routine p name = dget (pr_local_routines (pc_program p)) name"

definition get_all_local_routines :: "qoala_process \<Rightarrow> (string, local_routine) dict" where
  "get_all_local_routines p = pr_local_routines (pc_program p)"

definition get_request_routine :: "qoala_process \<Rightarrow> string \<Rightarrow> request_routine res" where
  "get_request_routine p name = dget (pr_request_routines (pc_program p)) name"

definition get_all_request_routines :: "qoala_process \<Rightarrow> (string, request_routine) dict" where
  "get_all_request_routines p = pr_request_routines (pc_program p)"

end
