(* ===== verification/TaskGraph.thy ===== *)
theory TaskGraph
  imports Prelude
begin

text \<open>
  Tasks and task graphs (\<open>qoala/runtime/task.py\<close>). A Python set of task IDs is a list without
  duplicates, whose order is an iteration order of the set; a graph is the dictionary of its task
  infos. Durations, deadlines and times are real numbers.
\<close>

section \<open>Tasks\<close>

datatype proc_type = CPU | QPU

datatype task_kind =
    HostLocalTask string
  | HostEventTask string
  | LocalRoutineTask string int
  | PreCallTask string int
  | PostCallTask string int
  | SinglePairTask int int
  | MultiPairTask int
  | SinglePairCallbackTask string int int
  | MultiPairCallbackTask string int

record qoala_task =
  task_id :: int
  task_pid :: int
  task_duration :: "real option"
  task_kind :: task_kind

definition mk_task :: "int \<Rightarrow> int \<Rightarrow> task_kind \<Rightarrow> real option \<Rightarrow> qoala_task" where
  "mk_task tid pid k d = \<lparr>task_id = tid, task_pid = pid, task_duration = d, task_kind = k\<rparr>"

text \<open>The processor type that each class passes to \<open>QoalaTask.__init__\<close>.\<close>

fun kind_processor :: "task_kind \<Rightarrow> proc_type" where
  "kind_processor (HostLocalTask b) = CPU"
| "kind_processor (HostEventTask b) = CPU"
| "kind_processor (PreCallTask b p) = CPU"
| "kind_processor (PostCallTask b p) = CPU"
| "kind_processor (LocalRoutineTask b p) = QPU"
| "kind_processor (SinglePairTask i p) = QPU"
| "kind_processor (MultiPairTask p) = QPU"
| "kind_processor (SinglePairCallbackTask c i p) = QPU"
| "kind_processor (MultiPairCallbackTask c p) = QPU"

definition processor_type :: "qoala_task \<Rightarrow> proc_type" where
  "processor_type t = kind_processor (task_kind t)"

definition is_epr_task :: "qoala_task \<Rightarrow> bool" where
  "is_epr_task t = (case task_kind t of SinglePairTask i p \<Rightarrow> True | MultiPairTask p \<Rightarrow> True | _ \<Rightarrow> False)"

definition is_event_task :: "qoala_task \<Rightarrow> bool" where
  "is_event_task t = (case task_kind t of HostEventTask b \<Rightarrow> True | _ \<Rightarrow> False)"

text \<open>
  Equality of tasks. Objects of different classes are different; local routine tasks and
  pre-call tasks compare their shared pointer with itself.
\<close>

definition kind_eq :: "task_kind \<Rightarrow> task_kind \<Rightarrow> bool" where
  "kind_eq k k' =
     (case k of
        HostLocalTask b \<Rightarrow> (case k' of HostLocalTask b' \<Rightarrow> b = b' | _ \<Rightarrow> False)
      | HostEventTask b \<Rightarrow> (case k' of HostEventTask b' \<Rightarrow> b = b' | _ \<Rightarrow> False)
      | LocalRoutineTask b p \<Rightarrow> (case k' of LocalRoutineTask b' p' \<Rightarrow> b = b' \<and> p = p | _ \<Rightarrow> False)
      | PreCallTask b p \<Rightarrow> (case k' of PreCallTask b' p' \<Rightarrow> b = b' \<and> p = p | _ \<Rightarrow> False)
      | PostCallTask b p \<Rightarrow> (case k' of PostCallTask b' p' \<Rightarrow> b = b' \<and> p = p' | _ \<Rightarrow> False)
      | SinglePairTask i p \<Rightarrow> (case k' of SinglePairTask i' p' \<Rightarrow> i = i' \<and> p = p' | _ \<Rightarrow> False)
      | MultiPairTask p \<Rightarrow> (case k' of MultiPairTask p' \<Rightarrow> p = p' | _ \<Rightarrow> False)
      | SinglePairCallbackTask c i p \<Rightarrow> (case k' of SinglePairCallbackTask c' i' p' \<Rightarrow> c = c' \<and> i = i' \<and> p = p' | _ \<Rightarrow> False)
      | MultiPairCallbackTask c p \<Rightarrow> (case k' of MultiPairCallbackTask c' p' \<Rightarrow> c = c' \<and> p = p' | _ \<Rightarrow> False))"

definition task_eq :: "qoala_task \<Rightarrow> qoala_task \<Rightarrow> bool" where
  "task_eq t u \<longleftrightarrow> task_id t = task_id u \<and> processor_type t = processor_type u \<and>
     task_pid t = task_pid u \<and> task_duration t = task_duration u \<and>
     kind_eq (task_kind t) (task_kind u)"

section \<open>Task infos and graphs\<close>

record task_info =
  ti_task :: qoala_task
  ti_predecessors :: "int list"
  ti_ext_predecessors :: "int list"
  ti_successors :: "int list"
  ti_deadline :: "real option"
  ti_rel_deadlines :: "(int, real) dict"
  ti_ext_rel_deadlines :: "(int, real) dict"
  ti_start_time :: "real option"

definition only_task :: "qoala_task \<Rightarrow> task_info" where
  "only_task t =
     \<lparr>ti_task = t, ti_predecessors = [], ti_ext_predecessors = [], ti_successors = [],
      ti_deadline = None, ti_rel_deadlines = [], ti_ext_rel_deadlines = [], ti_start_time = None\<rparr>"

definition is_cpu_task :: "task_info \<Rightarrow> bool" where
  "is_cpu_task ti \<longleftrightarrow> processor_type (ti_task ti) = CPU"

definition is_qpu_task :: "task_info \<Rightarrow> bool" where
  "is_qpu_task ti \<longleftrightarrow> processor_type (ti_task ti) = QPU"

type_synonym task_graph = "(int, task_info) dict"

text \<open>Changes to one entry of a graph.\<close>

definition upd_tinfo :: "int \<Rightarrow> (task_info \<Rightarrow> task_info) \<Rightarrow> task_graph \<Rightarrow> task_graph" where
  "upd_tinfo i f g = (case map_of g i of None \<Rightarrow> g | Some t \<Rightarrow> dset i (f t) g)"

definition add_pred :: "int \<Rightarrow> task_info \<Rightarrow> task_info" where
  "add_pred x t = t\<lparr>ti_predecessors := List.insert x (ti_predecessors t)\<rparr>"

definition add_succ :: "int \<Rightarrow> task_info \<Rightarrow> task_info" where
  "add_succ x t = t\<lparr>ti_successors := List.insert x (ti_successors t)\<rparr>"

definition add_ext_pred :: "int \<Rightarrow> task_info \<Rightarrow> task_info" where
  "add_ext_pred x t = t\<lparr>ti_ext_predecessors := List.insert x (ti_ext_predecessors t)\<rparr>"

definition add_tasks :: "qoala_task list \<Rightarrow> task_graph \<Rightarrow> task_graph" where
  "add_tasks ts g = fold (\<lambda>t. dset (task_id t) (only_task t)) ts g"

definition add_precedences :: "(int \<times> int) list \<Rightarrow> task_graph \<Rightarrow> task_graph res" where
  "add_precedences =
     rfold (\<lambda>(x, y) g. rbind (py_assert (dhas g x \<and> dhas g y)) (\<lambda>_.
       Inr (upd_tinfo x (add_succ y) (upd_tinfo y (add_pred x) g))))"

definition get_tinfo :: "task_graph \<Rightarrow> int \<Rightarrow> task_info res" where
  "get_tinfo g i = (case map_of g i of None \<Rightarrow> Inl AssertionError | Some t \<Rightarrow> Inr t)"

text \<open>The loops read predecessors only, which they do not change, so they run over the graph as it
was.\<close>

definition update_successors :: "task_graph \<Rightarrow> task_graph res" where
  "update_successors g =
     rfold (\<lambda>(tid, tinfo) g'. rfold (\<lambda>pred g''.
       rbind (get_tinfo g'' pred) (\<lambda>_. Inr (upd_tinfo pred (add_succ tid) g'')))
       (ti_predecessors tinfo) g') g g"

definition add_ext_precedences :: "(int \<times> int) list \<Rightarrow> task_graph \<Rightarrow> task_graph res" where
  "add_ext_precedences =
     rfold (\<lambda>(x, y) g. rbind (py_assert (\<not> dhas g x \<and> dhas g y)) (\<lambda>_.
       Inr (upd_tinfo y (add_ext_pred x) g)))"

definition add_deadlines :: "(int \<times> real) list \<Rightarrow> task_graph \<Rightarrow> task_graph res" where
  "add_deadlines =
     rfold (\<lambda>(x, d) g. rbind (py_assert (dhas g x)) (\<lambda>_.
       Inr (upd_tinfo x (\<lambda>t. t\<lparr>ti_deadline := Some d\<rparr>) g)))"

definition set_rel_deadline :: "int \<Rightarrow> real \<Rightarrow> task_info \<Rightarrow> task_info" where
  "set_rel_deadline x d t = t\<lparr>ti_rel_deadlines := dset x d (ti_rel_deadlines t)\<rparr>"

definition add_rel_deadlines :: "((int \<times> int) \<times> real) list \<Rightarrow> task_graph \<Rightarrow> task_graph res" where
  "add_rel_deadlines =
     rfold (\<lambda>((x, y), d) g. rbind (py_assert (dhas g x \<and> dhas g y)) (\<lambda>_.
       Inr (upd_tinfo y (set_rel_deadline x d) g)))"

definition add_ext_rel_deadlines :: "((int \<times> int) \<times> real) list \<Rightarrow> task_graph \<Rightarrow> task_graph res" where
  "add_ext_rel_deadlines =
     rfold (\<lambda>((x, y), d) g. rbind (py_assert (\<not> dhas g x \<and> dhas g y)) (\<lambda>_.
       Inr (upd_tinfo y (\<lambda>t. t\<lparr>ti_ext_rel_deadlines := dset x d (ti_ext_rel_deadlines t)\<rparr>) g)))"

definition task_exists_for_pid :: "int \<Rightarrow> task_graph \<Rightarrow> bool" where
  "task_exists_for_pid pid g \<longleftrightarrow> list_ex (\<lambda>(tid, tinfo). task_pid (ti_task tinfo) = pid) g"

definition get_roots :: "bool \<Rightarrow> task_graph \<Rightarrow> int list" where
  "get_roots ignore_external g =
     map fst (filter (\<lambda>(i, t). ti_predecessors t = [] \<and> (ignore_external \<or> ti_ext_predecessors t = [])) g)"

definition get_tasks_blocked_only_on_external :: "task_graph \<Rightarrow> int list" where
  "get_tasks_blocked_only_on_external g =
     map fst (filter (\<lambda>(i, t). ti_predecessors t = [] \<and> ti_ext_predecessors t \<noteq> []) g)"

definition get_epr_roots :: "bool \<Rightarrow> task_graph \<Rightarrow> int list" where
  "get_epr_roots ignore_external g =
     filter (\<lambda>r. is_epr_task (ti_task (the (map_of g r)))) (get_roots ignore_external g)"

definition get_event_roots :: "bool \<Rightarrow> task_graph \<Rightarrow> int list" where
  "get_event_roots ignore_external g =
     filter (\<lambda>r. is_event_task (ti_task (the (map_of g r)))) (get_roots ignore_external g)"

fun chain_from :: "nat \<Rightarrow> task_graph \<Rightarrow> int \<Rightarrow> int list res" where
  "chain_from 0 g i = Inr []"
| "chain_from (Suc n) g i =
     rbind (get_tinfo g i) (\<lambda>t.
     case ti_successors t of
       [s] \<Rightarrow> rbind (chain_from n g s) (\<lambda>rest. Inr (s # rest))
     | _ \<Rightarrow> Inl RuntimeError)"

definition linearize :: "task_graph \<Rightarrow> int list res" where
  "linearize g =
     (if g = [] then Inr []
      else case get_roots False g of
        [r] \<Rightarrow> rbind (chain_from (length g - 1) g r) (\<lambda>rest. Inr (r # rest))
      | _ \<Rightarrow> Inl RuntimeError)"

definition drop_pred :: "int \<Rightarrow> task_info \<Rightarrow> task_info" where
  "drop_pred x t = t\<lparr>ti_predecessors := removeAll x (ti_predecessors t)\<rparr>"

text \<open>\<open>t.deadline = t.rel_deadlines.pop(id)\<close>\<close>

definition resolve_deadline :: "int \<Rightarrow> task_info \<Rightarrow> task_info" where
  "resolve_deadline i t =
     (case map_of (ti_rel_deadlines t) i of
        None \<Rightarrow> t
      | Some d \<Rightarrow> t\<lparr>ti_deadline := Some d, ti_rel_deadlines := ddel i (ti_rel_deadlines t)\<rparr>)"

definition remove_task :: "int \<Rightarrow> task_graph \<Rightarrow> task_graph res" where
  "remove_task i g =
     rbind (py_assert (i \<in> set (get_roots True g))) (\<lambda>_.
     rbind (dget g i) (\<lambda>tinfo.
     rbind (rfold (\<lambda>s g'. rbind (get_tinfo g' s) (\<lambda>sinfo.
       rbind (py_assert (i \<in> set (ti_predecessors sinfo))) (\<lambda>_.
       Inr (dset s (drop_pred i sinfo) g')))) (ti_successors tinfo) (ddel i g)) (\<lambda>g'.
     Inr (dmap (\<lambda>_. resolve_deadline i) g'))))"

definition decrease_deadlines :: "real \<Rightarrow> task_graph \<Rightarrow> task_graph" where
  "decrease_deadlines amount g =
     dmap (\<lambda>_ t. t\<lparr>ti_deadline := map_option (\<lambda>d. d - amount) (ti_deadline t)\<rparr>) g"

subsection \<open>Partial graphs\<close>

text \<open>
  The recursion follows predecessors upwards; the fuel is the number of tasks, more than the
  length of any chain in a graph without cycles, and running out stands for the recursion error
  of a cyclic graph.
\<close>

fun cross_preds :: "nat \<Rightarrow> task_graph \<Rightarrow> int \<Rightarrow> bool \<Rightarrow> int list res" where
  "cross_preds 0 g i immediate = Inl RecursionError"
| "cross_preds (Suc n) g i immediate =
     rbind (get_tinfo g i) (\<lambda>t.
     rfold (\<lambda>p acc.
       rbind (get_tinfo g p) (\<lambda>pt.
       if processor_type (ti_task pt) \<noteq> processor_type (ti_task t) then Inr (List.insert p acc)
       else if \<not> immediate then rbind (cross_preds n g p immediate) (\<lambda>r. Inr (List.union acc r))
       else Inr acc)) (ti_predecessors t) [])"

definition cross_predecessors :: "task_graph \<Rightarrow> int \<Rightarrow> bool \<Rightarrow> int list res" where
  "cross_predecessors g i immediate = cross_preds (Suc (length g)) g i immediate"

definition double_cross_predecessors :: "task_graph \<Rightarrow> int \<Rightarrow> int list res" where
  "double_cross_predecessors g i =
     rbind (cross_predecessors g i True) (\<lambda>cps.
     rfold (\<lambda>cp acc. rbind (cross_predecessors g cp False) (\<lambda>r. Inr (List.union acc r))) cps [])"

definition keep_in_graph :: "task_graph \<Rightarrow> task_info \<Rightarrow> task_info" where
  "keep_in_graph partial t =
     t\<lparr>ti_predecessors := filter (dhas partial) (ti_predecessors t),
       ti_ext_predecessors := filter (\<lambda>p. \<not> dhas partial p) (ti_predecessors t),
       ti_successors := []\<rparr>"

text \<open>The relative deadlines are filtered before the external ones are taken from them.\<close>

definition keep_deadlines :: "task_graph \<Rightarrow> task_info \<Rightarrow> task_info" where
  "keep_deadlines partial t =
     (let kept = filter (\<lambda>(p, d). dhas partial p) (ti_rel_deadlines t) in
      t\<lparr>ti_rel_deadlines := kept,
        ti_ext_rel_deadlines := filter (\<lambda>(p, d). \<not> dhas partial p) kept\<rparr>)"

definition partial_graph :: "proc_type \<Rightarrow> task_graph \<Rightarrow> task_graph res" where
  "partial_graph typ g =
     (let partial = filter (\<lambda>(i, t). processor_type (ti_task t) = typ) g;
          moved = dmap (\<lambda>_. keep_in_graph partial) partial in
      rbind (rmap (\<lambda>(tid, t).
        rbind (double_cross_predecessors g tid) (\<lambda>preds.
        Inr (tid, keep_deadlines partial (fold add_pred preds t)))) moved) (\<lambda>tasks.
      update_successors tasks))"

definition get_cpu_graph :: "task_graph \<Rightarrow> task_graph res" where
  "get_cpu_graph = partial_graph CPU"

definition get_qpu_graph :: "task_graph \<Rightarrow> task_graph res" where
  "get_qpu_graph = partial_graph QPU"

subsection \<open>Builders\<close>

text \<open>\<open>zip\<close> each info with the task before it.\<close>

fun link_chain :: "task_info list \<Rightarrow> task_info list" where
  "link_chain (t1 # t2 # ts) = t1 # link_chain (add_pred (task_id (ti_task t1)) t2 # ts)"
| "link_chain ts = ts"

definition graph_of :: "task_info list \<Rightarrow> task_graph" where
  "graph_of tinfos = dict_of (map (\<lambda>t. (task_id (ti_task t), t)) tinfos)"

definition linear_tasks :: "qoala_task list \<Rightarrow> task_graph res" where
  "linear_tasks tasks = update_successors (graph_of (link_chain (map only_task tasks)))"

definition linear_tasks_with_start_times :: "(qoala_task \<times> real option) list \<Rightarrow> task_graph res" where
  "linear_tasks_with_start_times tasks =
     update_successors (graph_of (link_chain
       (map (\<lambda>(task, start). (only_task task)\<lparr>ti_start_time := start\<rparr>) tasks)))"

definition merge_graphs :: "task_graph list \<Rightarrow> task_graph res" where
  "merge_graphs graphs = update_successors (fold (\<lambda>g d. dupdate d g) graphs [])"

text \<open>The graphs are copied first; the chains are those of the original graphs.\<close>

fun link_graphs :: "task_graph list \<Rightarrow> task_graph \<Rightarrow> task_graph res" where
  "link_graphs (g1 # g2 # gs) merged =
     rbind (linearize g1) (\<lambda>chain1.
     rbind (linearize g2) (\<lambda>chain2.
     rbind (py_nth chain1 (- 1)) (\<lambda>x.
     rbind (py_nth chain2 0) (\<lambda>y.
     rbind (add_precedences [(x, y)] merged) (\<lambda>merged'.
     link_graphs (g2 # gs) merged')))))"
| "link_graphs gs merged = Inr merged"

definition merge_linear :: "task_graph list \<Rightarrow> task_graph res" where
  "merge_linear graphs =
     rbind (link_graphs graphs (fold (\<lambda>g d. dupdate d g) graphs [])) update_successors"

end
