(* ===== verification/TaskExec.thy ===== *)
theory TaskExec
  imports TaskGraph
begin

text \<open>
  Executing a task graph: which tasks are roots, what removing a finished task does, and that the
  possible executions are exactly the topological orders of the precedence relation.
\<close>

section \<open>The precedence relation\<close>

definition preds :: "task_graph \<Rightarrow> int \<Rightarrow> int set" where
  "preds g i = (case map_of g i of None \<Rightarrow> {} | Some t \<Rightarrow> set (ti_predecessors t))"

definition succs :: "task_graph \<Rightarrow> int \<Rightarrow> int set" where
  "succs g i = (case map_of g i of None \<Rightarrow> {} | Some t \<Rightarrow> set (ti_successors t))"

definition edges :: "task_graph \<Rightarrow> (int \<times> int) set" where
  "edges g = {(i, j). i \<in> preds g j}"

text \<open>
  The invariant of a graph: one entry per task, predecessors and successors are sets and mirror
  each other (so both mention tasks of the graph only), and there is no cycle.
\<close>

definition graph_ok :: "task_graph \<Rightarrow> bool" where
  "graph_ok g \<longleftrightarrow> dict_ok g \<and>
     (\<forall>i t. map_of g i = Some t \<longrightarrow> distinct (ti_predecessors t) \<and> distinct (ti_successors t)) \<and>
     (\<forall>i j. i \<in> preds g j \<longleftrightarrow> j \<in> succs g i)"

definition graph_inv :: "task_graph \<Rightarrow> bool" where
  "graph_inv g \<longleftrightarrow> graph_ok g \<and> acyclic (edges g)"

lemma graph_okI:
  assumes "dict_ok g"
    and "\<And>i t. map_of g i = Some t \<Longrightarrow> distinct (ti_predecessors t) \<and> distinct (ti_successors t)"
    and "\<And>i j. i \<in> preds g j \<longleftrightarrow> j \<in> succs g i"
  shows "graph_ok g"
  using assms unfolding graph_ok_def by blast

lemma graph_ok_dict: "graph_ok g \<Longrightarrow> dict_ok g"
  by (simp add: graph_ok_def)

lemma graph_ok_distinct:
  "graph_ok g \<Longrightarrow> map_of g i = Some t \<Longrightarrow> distinct (ti_predecessors t) \<and> distinct (ti_successors t)"
  by (simp add: graph_ok_def)

lemma graph_ok_dual: "graph_ok g \<Longrightarrow> i \<in> preds g j \<longleftrightarrow> j \<in> succs g i"
  by (simp add: graph_ok_def)

lemma preds_key: "i \<in> preds g j \<Longrightarrow> j \<in> set (keys g)"
  by (auto simp: preds_def simp del: set_map dest: map_of_in_keys split: option.splits)

lemma succs_key: "j \<in> succs g i \<Longrightarrow> i \<in> set (keys g)"
  by (auto simp: succs_def simp del: set_map dest: map_of_in_keys split: option.splits)

lemma graph_ok_closed:
  assumes "graph_ok g" "i \<in> preds g j"
  shows "i \<in> set (keys g)" "j \<in> set (keys g)"
proof -
  have "j \<in> succs g i" using assms by (simp add: graph_ok_dual)
  then show "i \<in> set (keys g)" by (rule succs_key)
  show "j \<in> set (keys g)" using assms(2) by (rule preds_key)
qed

lemma edges_keys: "graph_ok g \<Longrightarrow> edges g \<subseteq> set (keys g) \<times> set (keys g)"
  using graph_ok_closed unfolding edges_def by blast

lemma finite_edges: "graph_ok g \<Longrightarrow> finite (edges g)"
  by (rule finite_subset [OF edges_keys]) simp_all

lemma roots_iff:
  assumes "dict_ok g"
  shows "i \<in> set (get_roots True g) \<longleftrightarrow> i \<in> set (keys g) \<and> preds g i = {}"
proof -
  have "i \<in> set (get_roots True g) \<longleftrightarrow> (\<exists>t. (i, t) \<in> set g \<and> ti_predecessors t = [])"
    by (force simp: get_roots_def)
  also have "\<dots> \<longleftrightarrow> (\<exists>t. map_of g i = Some t \<and> ti_predecessors t = [])"
    by (simp only: items_map_of [OF assms])
  also have "\<dots> \<longleftrightarrow> i \<in> set (keys g) \<and> preds g i = {}"
    using in_keys_map_of [of i g] map_of_in_keys [of g i] by (fastforce simp: preds_def simp del: set_map)
  finally show ?thesis .
qed

section \<open>Removing a task\<close>

lemma remove_loop:
  assumes "distinct ss" "\<And>s. s \<in> set ss \<Longrightarrow> \<exists>t. map_of h s = Some t \<and> i \<in> set (ti_predecessors t)"
  shows "\<exists>h'. rfold (\<lambda>s g'. rbind (get_tinfo g' s) (\<lambda>sinfo.
       rbind (py_assert (i \<in> set (ti_predecessors sinfo))) (\<lambda>_.
       Inr (dset s (drop_pred i sinfo) g')))) ss h = Inr h' \<and> keys h' = keys h \<and>
     (\<forall>j. map_of h' j = (if j \<in> set ss then map_option (drop_pred i) (map_of h j) else map_of h j))"
  using assms
proof (induction ss arbitrary: h)
  case (Cons s ss)
  from Cons.prems(2) [of s] obtain t where t: "map_of h s = Some t" "i \<in> set (ti_predecessors t)" by auto
  let ?h = "dset s (drop_pred i t) h"
  have "\<exists>u. map_of ?h s' = Some u \<and> i \<in> set (ti_predecessors u)" if "s' \<in> set ss" for s'
    using that Cons.prems by auto
  with Cons.IH [of ?h] Cons.prems(1) obtain h' where
    h': "rfold (\<lambda>s g'. rbind (get_tinfo g' s) (\<lambda>sinfo.
       rbind (py_assert (i \<in> set (ti_predecessors sinfo))) (\<lambda>_.
       Inr (dset s (drop_pred i sinfo) g')))) ss ?h = Inr h'" "keys h' = keys ?h"
     "\<And>j. map_of h' j = (if j \<in> set ss then map_option (drop_pred i) (map_of ?h j) else map_of ?h j)"
    by auto
  moreover have "keys ?h = keys h" using t(1) by (rule keys_dset_present)
  ultimately show ?case using t Cons.prems(1) by (auto simp: get_tinfo_def)
qed auto

definition finish_pred :: "int \<Rightarrow> task_info \<Rightarrow> task_info" where
  "finish_pred i t = resolve_deadline i (drop_pred i t)"

lemma resolve_fields [simp]:
  "ti_task (resolve_deadline i t) = ti_task t"
  "ti_predecessors (resolve_deadline i t) = ti_predecessors t"
  "ti_successors (resolve_deadline i t) = ti_successors t"
  "ti_ext_predecessors (resolve_deadline i t) = ti_ext_predecessors t"
  by (simp_all add: resolve_deadline_def split: option.splits)

lemma finish_fields [simp]:
  "ti_task (finish_pred i t) = ti_task t"
  "ti_predecessors (finish_pred i t) = removeAll i (ti_predecessors t)"
  "ti_successors (finish_pred i t) = ti_successors t"
  "ti_ext_predecessors (finish_pred i t) = ti_ext_predecessors t"
  by (simp_all add: finish_pred_def drop_pred_def)

text \<open>Removing a root succeeds, and every other task forgets it as a predecessor.\<close>

lemma remove_task_ok:
  assumes "graph_ok g" "i \<in> set (keys g)" "preds g i = {}"
  shows "\<exists>g'. remove_task i g = Inr g' \<and> keys g' = removeAll i (keys g) \<and>
    (\<forall>j. map_of g' j = (if j = i then None else map_option (finish_pred i) (map_of g j)))"
proof -
  obtain t where t: "map_of g i = Some t" using assms(2) in_keys_map_of by metis
  have ss: "j \<in> set (ti_successors t) \<longleftrightarrow> i \<in> preds g j" for j
    using graph_ok_dual [OF assms(1), of i j] t by (simp add: succs_def)
  have "\<exists>u. map_of (ddel i g) s = Some u \<and> i \<in> set (ti_predecessors u)" if "s \<in> set (ti_successors t)" for s
  proof -
    have "i \<in> preds g s" using that ss by simp
    moreover have "s \<noteq> i" using calculation assms(3) by auto
    ultimately show ?thesis by (auto simp: preds_def split: option.splits)
  qed
  with remove_loop [of "ti_successors t" "ddel i g" i] graph_ok_distinct [OF assms(1) t]
  obtain h where h: "rfold (\<lambda>s g'. rbind (get_tinfo g' s) (\<lambda>sinfo.
       rbind (py_assert (i \<in> set (ti_predecessors sinfo))) (\<lambda>_.
       Inr (dset s (drop_pred i sinfo) g')))) (ti_successors t) (ddel i g) = Inr h"
     "keys h = keys (ddel i g)"
     "\<And>j. map_of h j = (if j \<in> set (ti_successors t) then map_option (drop_pred i) (map_of (ddel i g) j)
        else map_of (ddel i g) j)" by blast
  let ?g' = "dmap (\<lambda>_. resolve_deadline i) h"
  have "remove_task i g = Inr ?g'"
    using roots_iff [OF graph_ok_dict [OF assms(1)]] assms(2,3) t h(1) by (simp add: remove_task_def dget_Some)
  moreover have "keys ?g' = removeAll i (keys g)"
    by (simp only: keys_dmap h(2) keys_ddel removeAll_filter_not_eq) (simp add: eq_commute)
  moreover have "map_of ?g' j = (if j = i then None else map_option (finish_pred i) (map_of g j))" for j
  proof (cases "j \<noteq> i \<and> map_of g j \<noteq> None")
    case True
    then obtain u where u: "map_of g j = Some u" by auto
    have "drop_pred i u = u" if "i \<notin> set (ti_predecessors u)"
      using that by (simp add: drop_pred_def)
    with True u ss [of j] show ?thesis by (auto simp: h(3) preds_def finish_pred_def)
  qed (auto simp: h(3))
  ultimately show ?thesis by blast
qed

lemma remove_task_Inr:
  assumes "graph_ok g" "remove_task i g = Inr g'"
  shows "i \<in> set (keys g)" "preds g i = {}" "keys g' = removeAll i (keys g)"
    "map_of g' j = (if j = i then None else map_option (finish_pred i) (map_of g j))"
proof -
  from assms(2) have "i \<in> set (get_roots True g)" by (auto simp: remove_task_def)
  then show *: "i \<in> set (keys g)" "preds g i = {}"
    using roots_iff [OF graph_ok_dict [OF assms(1)]] by blast+
  from remove_task_ok [OF assms(1) *] assms(2) show "keys g' = removeAll i (keys g)"
    "map_of g' j = (if j = i then None else map_option (finish_pred i) (map_of g j))" by auto
qed

lemma remove_task_preds:
  assumes "graph_ok g" "remove_task i g = Inr g'"
  shows "preds g' j = (if j = i then {} else preds g j - {i})"
    "succs g' j = (if j = i then {} else succs g j)"
  using remove_task_Inr(4) [OF assms, of j] by (auto simp: preds_def succs_def split: option.splits)

lemma remove_task_edges:
  "graph_ok g \<Longrightarrow> remove_task i g = Inr g' \<Longrightarrow> edges g' = {(x, y) \<in> edges g. x \<noteq> i \<and> y \<noteq> i}"
  using remove_task_preds by (auto simp: edges_def split: if_splits)

lemma remove_task_graph_ok:
  assumes "graph_ok g" "remove_task i g = Inr g'"
  shows "graph_ok g'"
proof (rule graph_okI)
  show "dict_ok g'"
    unfolding remove_task_Inr(3) [OF assms] by (rule distinct_removeAll [OF graph_ok_dict [OF assms(1)]])
  show "distinct (ti_predecessors t) \<and> distinct (ti_successors t)" if "map_of g' j = Some t" for j t
    using that remove_task_Inr(4) [OF assms, of j] graph_ok_distinct [OF assms(1), of j]
    by (auto simp: distinct_removeAll split: if_splits)
  show "x \<in> preds g' y \<longleftrightarrow> y \<in> succs g' x" for x y
    using remove_task_preds [OF assms] graph_ok_dual [OF assms(1)] remove_task_Inr(2) [OF assms] by auto
qed

lemma remove_task_inv:
  assumes "graph_inv g" "remove_task i g = Inr g'"
  shows "graph_inv g'"
proof -
  from assms have ok: "graph_ok g" and ac: "acyclic (edges g)" by (auto simp: graph_inv_def)
  have "edges g' \<subseteq> edges g" unfolding remove_task_edges [OF ok assms(2)] by blast
  with ac have "acyclic (edges g')" by (rule acyclic_subset)
  with remove_task_graph_ok [OF ok assms(2)] show ?thesis by (simp add: graph_inv_def)
qed

section \<open>Executions\<close>

text \<open>Executing tasks in some order is removing them one by one.\<close>

definition execute :: "int list \<Rightarrow> task_graph \<Rightarrow> task_graph res" where
  "execute = rfold remove_task"

text \<open>An order of all elements in which every element comes after its predecessors.\<close>

definition topological :: "(int \<times> int) set \<Rightarrow> int set \<Rightarrow> int list \<Rightarrow> bool" where
  "topological E V order \<longleftrightarrow> distinct order \<and> set order = V \<and>
     (\<forall>as y bs. order = as @ y # bs \<longrightarrow> {x. (x, y) \<in> E} \<subseteq> set as)"

lemma execute_simps [simp]:
  "execute [] g = Inr g" "execute (i # is') g = rbind (remove_task i g) (execute is')"
  by (simp_all add: execute_def)

lemma execute_append: "execute (as @ bs) g = rbind (execute as g) (execute bs)"
  by (simp add: execute_def rfold_append)

lemma execute_inv: "graph_inv g \<Longrightarrow> execute is' g = Inr g' \<Longrightarrow> graph_inv g'"
  by (induction is' arbitrary: g) (auto dest: remove_task_inv)

lemma topological_Cons:
  "topological E V (i # order) \<longleftrightarrow> i \<in> V \<and> (\<forall>x. (x, i) \<notin> E) \<and>
     topological {(x, y) \<in> E. x \<noteq> i \<and> y \<noteq> i} (V - {i}) order"
proof
  assume t: "topological E V (i # order)"
  then have *: "distinct (i # order)" "set (i # order) = V"
    "\<And>as y bs. i # order = as @ y # bs \<Longrightarrow> {x. (x, y) \<in> E} \<subseteq> set as"
    unfolding topological_def by blast+
  have "{x. (x, i) \<in> E} \<subseteq> {}" using *(3) [of "[]" i order] by simp
  moreover have "{x. (x, y) \<in> {(x, y) \<in> E. x \<noteq> i \<and> y \<noteq> i}} \<subseteq> set as" if "order = as @ y # bs" for as y bs
    using *(3) [of "i # as" y bs] that by auto
  ultimately show "i \<in> V \<and> (\<forall>x. (x, i) \<notin> E) \<and>
     topological {(x, y) \<in> E. x \<noteq> i \<and> y \<noteq> i} (V - {i}) order"
    using *(1,2) unfolding topological_def by auto
next
  assume r: "i \<in> V \<and> (\<forall>x. (x, i) \<notin> E) \<and>
     topological {(x, y) \<in> E. x \<noteq> i \<and> y \<noteq> i} (V - {i}) order"
  then have *: "distinct order" "set order = V - {i}"
    "\<And>as y bs. order = as @ y # bs \<Longrightarrow> {x. (x, y) \<in> {(x, y) \<in> E. x \<noteq> i \<and> y \<noteq> i}} \<subseteq> set as"
    unfolding topological_def by blast+
  have "{x. (x, y) \<in> E} \<subseteq> set as" if s: "i # order = as @ y # bs" for as y bs
  proof (cases as)
    case Nil
    with s r show ?thesis by auto
  next
    case (Cons a as')
    with s have o: "order = as' @ y # bs" and a: "a = i" by auto
    have "y \<noteq> i" using o *(2) by auto
    with *(3) [OF o] Cons a show ?thesis by auto
  qed
  with * r show "topological E V (i # order)" unfolding topological_def by auto
qed

lemma topological_Nil: "topological E V [] \<longleftrightarrow> V = {}"
  by (auto simp: topological_def)

text \<open>A nonempty graph without cycles has a root.\<close>

lemma acyclic_root:
  assumes "graph_inv g" "g \<noteq> []"
  shows "get_roots True g \<noteq> []"
proof -
  have ok: "graph_ok g" and ac: "acyclic (edges g)" using assms(1) by (auto simp: graph_inv_def)
  have "wf (edges g)" using finite_edges [OF ok] ac by (rule finite_acyclic_wf)
  moreover obtain j where "j \<in> set (keys g)" using assms(2) by (cases g) auto
  ultimately obtain m where m: "m \<in> set (keys g)" "\<And>y. (y, m) \<in> edges g \<Longrightarrow> y \<notin> set (keys g)"
    by (metis wfE_min)
  then have "preds g m = {}" using graph_ok_closed(1) [OF ok] by (auto simp: edges_def)
  with m(1) have "m \<in> set (get_roots True g)" using roots_iff [OF graph_ok_dict [OF ok]] by blast
  then show ?thesis by (cases "get_roots True g") simp_all
qed

lemma execute_topological:
  "graph_ok g \<Longrightarrow> execute order g = Inr [] \<longleftrightarrow> topological (edges g) (set (keys g)) order"
proof (induction order arbitrary: g)
  case Nil
  show ?case by (auto simp: topological_Nil)
next
  case (Cons i order)
  note ok = Cons.prems
  show ?case
  proof (cases "i \<in> set (keys g) \<and> preds g i = {}")
    case True
    with remove_task_ok [OF ok] obtain g' where g': "remove_task i g = Inr g'" by blast
    have "set (keys g') = set (keys g) - {i}"
      by (simp only: remove_task_Inr(3) [OF ok g'] set_removeAll)
    with Cons.IH [OF remove_task_graph_ok [OF ok g']] remove_task_edges [OF ok g'] g' True
    show ?thesis by (simp add: topological_Cons edges_def del: set_map)
  next
    case False
    then have "remove_task i g \<noteq> Inr g'" for g' using remove_task_Inr(1,2) [OF ok] by blast
    then show ?thesis using False by (auto simp: topological_Cons edges_def simp del: set_map)
  qed
qed

lemma execute_complete:
  "graph_inv g \<Longrightarrow> \<exists>order. execute order g = Inr []"
proof (induction "length g" arbitrary: g)
  case 0
  then have "execute [] g = Inr []" by simp
  then show ?case by blast
next
  case (Suc n)
  then have ok: "graph_ok g" by (simp add: graph_inv_def)
  have "g \<noteq> []" using Suc.hyps(2) by auto
  from acyclic_root [OF Suc.prems this] obtain i where "i \<in> set (get_roots True g)"
    by (cases "get_roots True g") auto
  then have i: "i \<in> set (keys g)" "preds g i = {}" using roots_iff [OF graph_ok_dict [OF ok]] by blast+
  with remove_task_ok [OF ok] obtain g' where g': "remove_task i g = Inr g'" by blast
  have "length (removeAll i (keys g)) = length g - 1"
    using i(1) graph_ok_dict [OF ok] by (simp add: distinct_remove1_removeAll [symmetric] length_remove1 del: set_map)
  then have "n = length g'" using Suc.hyps(2) remove_task_Inr(3) [OF ok g'] by (metis diff_Suc_1 length_map)
  from Suc.hyps(1) [OF this remove_task_inv [OF Suc.prems g']] obtain order where
    "execute order g' = Inr []" by blast
  with g' have "execute (i # order) g = Inr []" by simp
  then show ?case by blast
qed


section \<open>Building graphs\<close>

lemma map_of_upd_tinfo: "map_of (upd_tinfo i f g) j = (if j = i then map_option f (map_of g i) else map_of g j)"
  by (auto simp: upd_tinfo_def split: option.splits)

lemma keys_upd_tinfo [simp]: "keys (upd_tinfo i f g) = keys g"
  by (auto simp: upd_tinfo_def keys_dset_present split: option.splits)

lemma add_precedences_ok:
  assumes "graph_ok g" "\<And>x y. (x, y) \<in> set ps \<Longrightarrow> x \<in> set (keys g) \<and> y \<in> set (keys g)"
  shows "\<exists>g'. add_precedences ps g = Inr g' \<and> graph_ok g' \<and> keys g' = keys g \<and>
    edges g' = edges g \<union> set ps"
  using assms
proof (induction ps arbitrary: g)
  case Nil
  then show ?case by (auto simp: add_precedences_def)
next
  case (Cons p ps)
  obtain x y where p: "p = (x, y)" by (cases p)
  let ?g = "upd_tinfo x (add_succ y) (upd_tinfo y (add_pred x) g)"
  have xy: "x \<in> set (keys g)" "y \<in> set (keys g)" using Cons.prems(2) [of x y] p by auto
  have keys: "keys ?g = keys g" by simp
  obtain tx ty where t: "map_of g x = Some tx" "map_of g y = Some ty" using xy in_keys_map_of by metis
  have pr: "preds ?g j = (if j = y then insert x (preds g y) else preds g j)" for j
    using t by (auto simp: preds_def map_of_upd_tinfo add_pred_def add_succ_def)
  have sc: "succs ?g j = (if j = x then insert y (succs g x) else succs g j)" for j
    using t by (auto simp: succs_def map_of_upd_tinfo add_pred_def add_succ_def)
  have ok: "graph_ok ?g"
  proof (rule graph_okI)
    show "dict_ok ?g" unfolding keys using Cons.prems(1) by (rule graph_ok_dict)
    show "distinct (ti_predecessors u) \<and> distinct (ti_successors u)" if "map_of ?g i = Some u" for i u
      using that t graph_ok_distinct [OF Cons.prems(1)]
      by (auto simp: map_of_upd_tinfo add_pred_def add_succ_def split: if_splits)
    show "i \<in> preds ?g j \<longleftrightarrow> j \<in> succs ?g i" for i j
      using graph_ok_dual [OF Cons.prems(1), of i j] unfolding pr sc by auto
  qed
  have e: "edges ?g = edges g \<union> {(x, y)}" unfolding edges_def pr by auto
  have "\<exists>g'. add_precedences ps ?g = Inr g' \<and> graph_ok g' \<and> keys g' = keys ?g \<and>
      edges g' = edges ?g \<union> set ps"
    by (rule Cons.IH [OF ok], unfold keys, rule Cons.prems(2)) simp
  then obtain g' where g': "add_precedences ps ?g = Inr g'" "graph_ok g'" "keys g' = keys ?g"
    "edges g' = edges ?g \<union> set ps" by blast
  have "dhas g x" "dhas g y" using xy by (simp_all only: dhas_iff)
  then have "add_precedences (p # ps) g = Inr g'" using g'(1) by (simp add: add_precedences_def p)
  moreover have "edges g' = edges g \<union> set (p # ps)" using g'(4) by (auto simp: e p)
  ultimately show ?case using g'(2,3) keys by auto
qed

text \<open>A loop that adds successors: entry \<open>(t, p)\<close> makes \<open>t\<close> a successor of \<open>p\<close>.\<close>

lemma add_succ_loop:
  assumes "\<And>t p. (t, p) \<in> set es \<Longrightarrow> p \<in> set (keys g)"
    and "\<And>i u. map_of g i = Some u \<Longrightarrow> distinct (ti_successors u)"
  shows "\<exists>g'. rfold (\<lambda>(t, p) g. rbind (get_tinfo g p) (\<lambda>_. Inr (upd_tinfo p (add_succ t) g))) es g = Inr g' \<and>
    keys g' = keys g \<and> (\<forall>i u. map_of g i = Some u \<longrightarrow>
      (\<exists>ss. map_of g' i = Some (u\<lparr>ti_successors := ss\<rparr>) \<and> distinct ss \<and>
         set ss = set (ti_successors u) \<union> {t. (t, i) \<in> set es}))"
  using assms
proof (induction es arbitrary: g)
  case Nil
  have "\<exists>ss. map_of g i = Some (u\<lparr>ti_successors := ss\<rparr>) \<and> distinct ss \<and>
      set ss = set (ti_successors u) \<union> {t. (t, i) \<in> set []}" if "map_of g i = Some u" for i u
    using that Nil(2) [OF that] by (intro exI [of _ "ti_successors u"]) simp
  then show ?case by simp
next
  case (Cons e es)
  obtain t p where e: "e = (t, p)" by (cases e)
  let ?g = "upd_tinfo p (add_succ t) g"
  have keys: "keys ?g = keys g" by simp
  obtain up where up: "map_of g p = Some up" using Cons.prems(1) [of t p] e in_keys_map_of by fastforce
  have "\<exists>g'. rfold (\<lambda>(t, p) g. rbind (get_tinfo g p) (\<lambda>_. Inr (upd_tinfo p (add_succ t) g))) es ?g = Inr g' \<and>
    keys g' = keys ?g \<and> (\<forall>i u. map_of ?g i = Some u \<longrightarrow>
      (\<exists>ss. map_of g' i = Some (u\<lparr>ti_successors := ss\<rparr>) \<and> distinct ss \<and>
         set ss = set (ti_successors u) \<union> {t. (t, i) \<in> set es}))"
  proof (rule Cons.IH)
    show "q \<in> set (keys ?g)" if "(s, q) \<in> set es" for s q
      unfolding keys using that Cons.prems(1) [of s q] by simp
    show "distinct (ti_successors u)" if "map_of ?g i = Some u" for i u
      using that up Cons.prems(2) by (auto simp: map_of_upd_tinfo add_succ_def split: if_splits)
  qed
  then obtain g' where g': "rfold (\<lambda>(t, p) g. rbind (get_tinfo g p) (\<lambda>_. Inr (upd_tinfo p (add_succ t) g))) es ?g = Inr g'"
    "keys g' = keys ?g" "\<And>i u. map_of ?g i = Some u \<Longrightarrow>
      (\<exists>ss. map_of g' i = Some (u\<lparr>ti_successors := ss\<rparr>) \<and> distinct ss \<and>
         set ss = set (ti_successors u) \<union> {t. (t, i) \<in> set es})" by blast
  have "\<exists>ss. map_of g' i = Some (u\<lparr>ti_successors := ss\<rparr>) \<and> distinct ss \<and>
         set ss = set (ti_successors u) \<union> {t. (t, i) \<in> set (e # es)}" if u: "map_of g i = Some u" for i u
  proof (cases "i = p")
    case True
    then have "map_of ?g i = Some (add_succ t u)" using u by (simp add: map_of_upd_tinfo)
    from g'(3) [OF this] show ?thesis using True by (auto simp: add_succ_def e)
  next
    case False
    then have "map_of ?g i = Some u" using u by (simp add: map_of_upd_tinfo)
    from g'(3) [OF this] show ?thesis using False by (auto simp: e)
  qed
  moreover have "get_tinfo g p = Inr up" using up by (simp add: get_tinfo_def)
  ultimately show ?case using g'(1,2) keys by (simp add: e)
qed

text \<open>
  \<open>update_successors\<close> needs the predecessors to be tasks of the graph; it changes successors only,
  and makes them the mirror image of the predecessors.
\<close>

lemma update_successors_ok:
  assumes "dict_ok g" "\<And>j. preds g j \<subseteq> set (keys g)"
    and "\<And>i u. map_of g i = Some u \<Longrightarrow> distinct (ti_successors u) \<and> distinct (ti_predecessors u)"
    and "\<And>i j. j \<in> succs g i \<Longrightarrow> i \<in> preds g j"
  shows "\<exists>g'. update_successors g = Inr g' \<and> graph_ok g' \<and> keys g' = keys g \<and> edges g' = edges g \<and>
    (\<forall>i u. map_of g i = Some u \<longrightarrow>
      (\<exists>ss. map_of g' i = Some (u\<lparr>ti_successors := ss\<rparr>) \<and> set ss = {j. i \<in> preds g j}))"
proof -
  define es where "es = concat (map (\<lambda>(i, u). map (Pair i) (ti_predecessors u)) g)"
  have in_es: "(t, p) \<in> set es \<longleftrightarrow> p \<in> preds g t" for t p
  proof -
    have "(t, p) \<in> set es \<longleftrightarrow> (\<exists>u. (t, u) \<in> set g \<and> p \<in> set (ti_predecessors u))"
      by (force simp: es_def)
    also have "\<dots> \<longleftrightarrow> p \<in> preds g t"
      by (simp add: items_map_of [OF assms(1)] preds_def split: option.splits)
    finally show ?thesis .
  qed
  have upd: "update_successors g =
      rfold (\<lambda>(t, p) g. rbind (get_tinfo g p) (\<lambda>_. Inr (upd_tinfo p (add_succ t) g))) es g"
  proof -
    have "update_successors g = rfold (\<lambda>x. rfold (\<lambda>p g'.
        rbind (get_tinfo g' p) (\<lambda>_. Inr (upd_tinfo p (add_succ (fst x)) g'))) (ti_predecessors (snd x))) g g"
      by (simp add: update_successors_def case_prod_unfold)
    also have "\<dots> = rfold (\<lambda>(x, p) g'. rbind (get_tinfo g' p) (\<lambda>_. Inr (upd_tinfo p (add_succ (fst x)) g')))
        (concat (map (\<lambda>x. map (Pair x) (ti_predecessors (snd x))) g)) g"
      by (rule rfold_nested)
    also have "\<dots> = rfold (\<lambda>(t, p) g. rbind (get_tinfo g p) (\<lambda>_. Inr (upd_tinfo p (add_succ t) g)))
        (map (\<lambda>(x, p). (fst x, p)) (concat (map (\<lambda>x. map (Pair x) (ti_predecessors (snd x))) g))) g"
      by (simp add: rfold_map case_prod_unfold)
    also have "map (\<lambda>(x, p). (fst x, p)) (concat (map (\<lambda>x. map (Pair x) (ti_predecessors (snd x))) g)) = es"
      by (simp add: es_def map_concat comp_def case_prod_unfold)
    finally show ?thesis .
  qed
  have es_keys: "\<And>t p. (t, p) \<in> set es \<Longrightarrow> p \<in> set (keys g)"
    using assms(2) unfolding in_es by blast
  have es_distinct: "\<And>i u. map_of g i = Some u \<Longrightarrow> distinct (ti_successors u)" using assms(3) by blast
  have "\<exists>g'. update_successors g = Inr g' \<and> keys g' = keys g \<and>
    (\<forall>i u. map_of g i = Some u \<longrightarrow>
      (\<exists>ss. map_of g' i = Some (u\<lparr>ti_successors := ss\<rparr>) \<and> distinct ss \<and>
         set ss = set (ti_successors u) \<union> {t. (t, i) \<in> set es}))"
    unfolding upd by (rule add_succ_loop) (erule es_keys, erule es_distinct)
  then obtain g' where
    g': "update_successors g = Inr g'" "keys g' = keys g"
    "\<And>i u. map_of g i = Some u \<Longrightarrow>
      \<exists>ss. map_of g' i = Some (u\<lparr>ti_successors := ss\<rparr>) \<and> distinct ss \<and>
         set ss = set (ti_successors u) \<union> {t. (t, i) \<in> set es}" by blast
  have ss: "\<exists>ss. map_of g' i = Some (u\<lparr>ti_successors := ss\<rparr>) \<and> distinct ss \<and> set ss = {j. i \<in> preds g j}"
    if u: "map_of g i = Some u" for i u
  proof -
    have "set (ti_successors u) \<subseteq> {j. i \<in> preds g j}" using u assms(4) by (auto simp: succs_def)
    with g'(3) [OF u] show ?thesis by (auto simp: in_es Un_absorb1)
  qed
  have dom: "map_of g i = None \<longleftrightarrow> map_of g' i = None" for i
    using g'(2) unfolding map_of_eq_None_iff by (metis set_map)
  have pr: "preds g' j = preds g j" for j
    using ss [of j] dom [of j] by (cases "map_of g j") (auto simp: preds_def)
  have "graph_ok g'"
  proof (rule graph_okI)
    show "dict_ok g'" unfolding g'(2) by (rule assms(1))
    show "distinct (ti_predecessors t) \<and> distinct (ti_successors t)" if t: "map_of g' i = Some t" for i t
    proof -
      obtain u where u: "map_of g i = Some u" using dom [of i] t by (cases "map_of g i") auto
      with ss [OF u] t assms(3) [OF u] show ?thesis by auto
    qed
    show "i \<in> preds g' j \<longleftrightarrow> j \<in> succs g' i" for i j
    proof (cases "map_of g i")
      case None
      then have "i \<notin> preds g j" using assms(2) in_keys_map_of [of i g] by fastforce
      with None dom [of i] show ?thesis by (simp add: pr succs_def)
    next
      case (Some u)
      with ss [OF Some] show ?thesis by (auto simp: pr succs_def)
    qed
  qed
  moreover have "edges g' = edges g" by (simp add: edges_def pr)
  ultimately show ?thesis using g'(1,2) ss by blast
qed


section \<open>Properties\<close>

text \<open>A diamond: task 0 before tasks 1 and 2, both before task 3.\<close>

definition sample_tasks :: "qoala_task list" where
  "sample_tasks = [mk_task 0 0 (HostLocalTask ''b0'') None, mk_task 1 0 (LocalRoutineTask ''b1'' 0) None,
     mk_task 2 0 (HostLocalTask ''b2'') None, mk_task 3 0 (HostLocalTask ''b3'') None]"

definition sample_graph :: task_graph where
  "sample_graph = projr (add_precedences [(0, 1), (0, 2), (1, 3), (2, 3)] (add_tasks sample_tasks []))"

lemma add_tasks_ok:
  assumes "distinct (map task_id ts)"
  shows "graph_ok (add_tasks ts [])" "keys (add_tasks ts []) = map task_id ts" "edges (add_tasks ts []) = {}"
proof -
  have "add_tasks ts g = g @ map (\<lambda>t. (task_id t, only_task t)) ts"
    if "distinct (keys g @ map task_id ts)" for g
    using that
  proof (induction ts arbitrary: g)
    case (Cons t ts)
    have "dset (task_id t) (only_task t) g = g @ [(task_id t, only_task t)]"
      using Cons.prems by (induction g) auto
    with Cons show ?case by (simp add: add_tasks_def)
  qed (simp add: add_tasks_def)
  from this [of "[]"] assms have e: "add_tasks ts [] = map (\<lambda>t. (task_id t, only_task t)) ts" by simp
  show k: "keys (add_tasks ts []) = map task_id ts" by (simp add: e)
  have m: "map_of (add_tasks ts []) i = Some u \<Longrightarrow> \<exists>t. u = only_task t" for i u
    unfolding e by (auto dest!: map_of_SomeD)
  have *: "preds (add_tasks ts []) i = {}" "succs (add_tasks ts []) i = {}" for i
    using m [of i] by (cases "map_of (add_tasks ts []) i"; auto simp: preds_def succs_def only_task_def)+
  then show "edges (add_tasks ts []) = {}" by (simp add: edges_def)
  show "graph_ok (add_tasks ts [])"
  proof (rule graph_okI)
    show "dict_ok (add_tasks ts [])" unfolding k by (rule assms)
    show "distinct (ti_predecessors t) \<and> distinct (ti_successors t)"
      if "map_of (add_tasks ts []) i = Some t" for i t
      using m [OF that] by (auto simp: only_task_def)
  qed (simp add: *)
qed

lemma sample_graph_facts:
  "graph_inv sample_graph" "keys sample_graph = [0, 1, 2, 3]"
  "edges sample_graph = {(0, 1), (0, 2), (1, 3), (2, 3)}"
proof -
  let ?ps = "[(0, 1), (0, 2), (1, 3), (2, 3)] :: (int \<times> int) list"
  have d: "distinct (map task_id sample_tasks)" by (simp add: sample_tasks_def mk_task_def)
  have k: "keys (add_tasks sample_tasks []) = [0, 1, 2, 3]"
    unfolding add_tasks_ok(2) [OF d] by (simp add: sample_tasks_def mk_task_def)
  have "x \<in> set (keys (add_tasks sample_tasks [])) \<and> y \<in> set (keys (add_tasks sample_tasks []))"
    if "(x, y) \<in> set ?ps" for x y
    using that unfolding k by auto
  from add_precedences_ok [OF add_tasks_ok(1) [OF d] this] obtain g where
    g: "add_precedences ?ps (add_tasks sample_tasks []) = Inr g" "graph_ok g"
    "keys g = keys (add_tasks sample_tasks [])" "edges g = edges (add_tasks sample_tasks []) \<union> set ?ps"
    by blast
  then have s: "sample_graph = g" by (simp add: sample_graph_def)
  then show "keys sample_graph = [0, 1, 2, 3]" using g(3) k by metis
  have e: "edges g = {(0, 1), (0, 2), (1, 3), (2, 3)}" unfolding g(4) add_tasks_ok(3) [OF d] by simp
  with s show "edges sample_graph = {(0, 1), (0, 2), (1, 3), (2, 3)}" by simp
  have "acyclic (edges g)"
    unfolding e by (rule acyclicI_order [of _ "\<lambda>x. - x"]) auto
  with s g(2) show "graph_inv sample_graph" by (simp add: graph_inv_def)
qed

text \<open>C2: Finishing tasks one by one empties a task graph exactly when they are taken in a
topological order of the precedence relation: every task once, each after all its predecessors.
Any other choice raises.\<close>

theorem executions_are_topological:
  assumes "graph_ok g"
  shows "execute order g = Inr [] \<longleftrightarrow> topological (edges g) (set (keys g)) order"
  by (rule execute_topological [OF assms])

theorem executions_are_topological_witness:
  "execute [0, 2, 1, 3] sample_graph = Inr []"
proof -
  have ok: "graph_ok sample_graph" using sample_graph_facts(1) by (simp add: graph_inv_def)
  have "topological {(0, 1), (0, 2), (1, 3), (2, 3)} {0, 1, 2, 3} [0, 2, 1, 3 :: int]"
    by (auto simp: topological_Cons topological_Nil)
  then have "topological (edges sample_graph) (set (keys sample_graph)) [0, 2, 1, 3]"
    unfolding sample_graph_facts(2,3) by simp
  then show ?thesis using executions_are_topological [OF ok] by blast
qed

text \<open>A task graph without cycles never gets stuck: whatever roots have been finished so far,
the rest can be finished too; in particular a nonempty graph always has a root.\<close>

theorem never_stuck:
  assumes "graph_inv g" "execute done_tasks g = Inr g'"
  shows "(\<exists>rest. execute (done_tasks @ rest) g = Inr []) \<and> (g' \<noteq> [] \<longrightarrow> get_roots True g' \<noteq> [])"
proof -
  note inv = execute_inv [OF assms]
  from execute_complete [OF inv] obtain rest where "execute rest g' = Inr []" by blast
  with assms(2) have "execute (done_tasks @ rest) g = Inr []" by (simp add: execute_append)
  with acyclic_root [OF inv] show ?thesis by blast
qed

theorem never_stuck_witness: "\<exists>rest. execute ([] @ rest) sample_graph = Inr []"
  using never_stuck [OF sample_graph_facts(1), of "[]"] by simp

text \<open>When a task is removed, a relative deadline that another task had on it becomes that
task's absolute deadline and is gone; all other deadlines, relative deadlines and tasks stay.\<close>

theorem remove_task_deadlines:
  assumes "graph_ok g" "remove_task i g = Inr g'" "map_of g j = Some t" "j \<noteq> i"
  shows "\<exists>t'. map_of g' j = Some t' \<and> ti_task t' = ti_task t \<and>
    ti_deadline t' = (case map_of (ti_rel_deadlines t) i of None \<Rightarrow> ti_deadline t | Some d \<Rightarrow> Some d) \<and>
    map_of (ti_rel_deadlines t') = (map_of (ti_rel_deadlines t))(i := None)"
  using remove_task_Inr(4) [OF assms(1,2), of j] assms(3,4)
  by (auto simp: finish_pred_def resolve_deadline_def drop_pred_def fun_upd_idem split: option.splits)

theorem remove_task_deadlines_witness:
  "\<exists>g' t'. remove_task 0 (upd_tinfo 1 (set_rel_deadline 0 50) sample_graph) = Inr g' \<and>
     map_of g' 1 = Some t' \<and> ti_deadline t' = Some 50"
proof -
  let ?g = "upd_tinfo 1 (set_rel_deadline 0 50) sample_graph"
  have ok: "graph_ok sample_graph" using sample_graph_facts(1) by (simp add: graph_inv_def)
  obtain t where t: "map_of sample_graph 1 = Some t"
    using in_keys_map_of [of 1 sample_graph] unfolding sample_graph_facts(2) by auto
  have pr: "preds ?g j = preds sample_graph j" "succs ?g j = succs sample_graph j" for j
    using t by (auto simp: preds_def succs_def map_of_upd_tinfo set_rel_deadline_def)
  have okg: "graph_ok ?g"
  proof (rule graph_okI)
    show "dict_ok ?g" unfolding keys_upd_tinfo by (rule graph_ok_dict [OF ok])
    show "distinct (ti_predecessors u) \<and> distinct (ti_successors u)" if "map_of ?g i = Some u" for i u
      using that t graph_ok_distinct [OF ok]
      by (auto simp: map_of_upd_tinfo set_rel_deadline_def split: if_splits)
  qed (simp add: pr graph_ok_dual [OF ok])
  have "(x, 0) \<notin> edges sample_graph" for x unfolding sample_graph_facts(3) by simp
  then have "preds ?g 0 = {}" unfolding pr edges_def by blast
  moreover have "0 \<in> set (keys ?g)" unfolding keys_upd_tinfo sample_graph_facts(2) by simp
  ultimately obtain g' where g': "remove_task 0 ?g = Inr g'" using remove_task_ok [OF okg] by blast
  have t1: "map_of ?g 1 = Some (set_rel_deadline 0 50 t)" using t by (simp add: map_of_upd_tinfo)
  from remove_task_deadlines [OF okg g' t1] g' show ?thesis by (auto simp: set_rel_deadline_def)
qed

end
