(* ===== verification/TaskPartial.thy ===== *)
theory TaskPartial
  imports TaskExec
begin

text \<open>
  The task graph of one processor (\<open>TaskGraph.partial_graph\<close>): what the recursive searches for
  predecessors on the other processor return, that they end, and that the graph of one processor
  orders its tasks exactly as the whole graph does.
\<close>

section \<open>Searching for predecessors on the other processor\<close>

text \<open>The searches read predecessors only, so they need no more of a graph than these to be in order;
the graph of a single block is one in which no successor has been recorded yet.\<close>

definition preds_ok :: "task_graph \<Rightarrow> bool" where
  "preds_ok g \<longleftrightarrow> dict_ok g \<and> (\<forall>i t. map_of g i = Some t \<longrightarrow> distinct (ti_predecessors t)) \<and>
     edges g \<subseteq> set (keys g) \<times> set (keys g)"

definition pred_inv :: "task_graph \<Rightarrow> bool" where
  "pred_inv g \<longleftrightarrow> preds_ok g \<and> acyclic (edges g)"

lemma preds_ok_dict: "preds_ok g \<Longrightarrow> dict_ok g"
  by (simp add: preds_ok_def)

lemma preds_ok_distinct: "preds_ok g \<Longrightarrow> map_of g i = Some t \<Longrightarrow> distinct (ti_predecessors t)"
  by (simp add: preds_ok_def)

lemma preds_ok_edges: "preds_ok g \<Longrightarrow> edges g \<subseteq> set (keys g) \<times> set (keys g)"
  by (simp add: preds_ok_def)

lemma preds_ok_closed: "preds_ok g \<Longrightarrow> i \<in> preds g j \<Longrightarrow> i \<in> set (keys g)"
  using preds_ok_edges by (auto simp: edges_def)

lemma graph_inv_pred: "graph_inv g \<Longrightarrow> pred_inv g"
  using edges_keys graph_ok_distinct by (auto simp: graph_inv_def pred_inv_def preds_ok_def graph_ok_dict)

definition ptype :: "task_graph \<Rightarrow> int \<Rightarrow> proc_type" where
  "ptype g i = processor_type (ti_task (the (map_of g i)))"

text \<open>Precedences between tasks of one processor.\<close>

definition same_edges :: "task_graph \<Rightarrow> (int \<times> int) set" where
  "same_edges g = {(x, y) \<in> edges g. ptype g x = ptype g y}"

definition cross_direct :: "task_graph \<Rightarrow> int \<Rightarrow> int set" where
  "cross_direct g i = {p \<in> preds g i. ptype g p \<noteq> ptype g i}"

definition cross_closest :: "task_graph \<Rightarrow> int \<Rightarrow> int set" where
  "cross_closest g i = {p. \<exists>q. (p, q) \<in> edges g \<and> ptype g p \<noteq> ptype g q \<and> (q, i) \<in> (same_edges g)\<^sup>*}"

definition ancestors :: "task_graph \<Rightarrow> int \<Rightarrow> int set" where
  "ancestors g i = {p. (p, i) \<in> (edges g)\<^sup>+}"

lemma ancestors_sub:
  assumes "preds_ok g"
  shows "ancestors g i \<subseteq> set (keys g)"
proof -
  have "(edges g)\<^sup>+ \<subseteq> set (keys g) \<times> set (keys g)"
    using preds_ok_edges [OF assms] by (rule trancl_subset_Sigma)
  then show ?thesis by (auto simp: ancestors_def)
qed

lemma ancestors_less:
  assumes "pred_inv g" "p \<in> preds g i"
  shows "card (ancestors g p) < card (ancestors g i)"
proof -
  have ok: "preds_ok g" and ac: "acyclic (edges g)" using assms(1) by (auto simp: pred_inv_def)
  have e: "(p, i) \<in> edges g" using assms(2) by (simp add: edges_def)
  have "ancestors g p \<subseteq> ancestors g i"
    unfolding ancestors_def using e by (auto intro: trancl_into_trancl)
  moreover have "p \<in> ancestors g i" using e by (auto simp: ancestors_def)
  moreover have "p \<notin> ancestors g p" using ac by (auto simp: ancestors_def acyclic_def)
  ultimately have "ancestors g p \<subset> ancestors g i" by blast
  moreover have "finite (ancestors g i)" by (rule finite_subset [OF ancestors_sub [OF ok]]) simp
  ultimately show ?thesis by (rule psubset_card_mono [rotated])
qed

lemma card_ancestors: "preds_ok g \<Longrightarrow> card (ancestors g i) \<le> length g"
proof -
  assume "preds_ok g"
  then have "card (ancestors g i) \<le> card (set (keys g))"
    by (intro card_mono ancestors_sub) auto
  also have "\<dots> \<le> length (keys g)" by (rule card_length)
  finally show ?thesis by simp
qed

lemma cross_closest_step:
  "cross_closest g i = cross_direct g i \<union>
     (\<Union>p \<in> {p \<in> preds g i. ptype g p = ptype g i}. cross_closest g p)"
proof (rule set_eqI, rule iffI)
  fix p assume "p \<in> cross_closest g i"
  then obtain q where q: "(p, q) \<in> edges g" "ptype g p \<noteq> ptype g q" "(q, i) \<in> (same_edges g)\<^sup>*"
    by (auto simp: cross_closest_def)
  from q(3) show "p \<in> cross_direct g i \<union> (\<Union>p \<in> {p \<in> preds g i. ptype g p = ptype g i}. cross_closest g p)"
  proof (cases rule: rtranclE)
    case base
    with q show ?thesis by (auto simp: cross_direct_def edges_def)
  next
    case (step r)
    then have "p \<in> cross_closest g r" using q by (auto simp: cross_closest_def)
    with step(2) show ?thesis by (auto simp: same_edges_def edges_def)
  qed
next
  fix p assume "p \<in> cross_direct g i \<union> (\<Union>p \<in> {p \<in> preds g i. ptype g p = ptype g i}. cross_closest g p)"
  then show "p \<in> cross_closest g i"
  proof
    assume "p \<in> cross_direct g i"
    then show ?thesis by (auto simp: cross_direct_def cross_closest_def edges_def)
  next
    assume "p \<in> (\<Union>p \<in> {p \<in> preds g i. ptype g p = ptype g i}. cross_closest g p)"
    then obtain r where "r \<in> preds g i" "ptype g r = ptype g i" "p \<in> cross_closest g r" by blast
    then show ?thesis
      by (auto simp: cross_closest_def same_edges_def edges_def intro: rtrancl_into_rtrancl)
  qed
qed

text \<open>
  The search with enough fuel returns: more fuel than the task has ancestors is enough.
\<close>

lemma cross_preds_ok:
  assumes "pred_inv g" "i \<in> set (keys g)" "card (ancestors g i) < n"
  shows "\<exists>r. cross_preds n g i immediate = Inr r \<and> distinct r \<and>
    set r = (if immediate then cross_direct g i else cross_closest g i)"
  using assms(2,3)
proof (induction n arbitrary: i)
  case (Suc n)
  have ok: "preds_ok g" using assms(1) by (simp add: pred_inv_def)
  obtain t where t: "map_of g i = Some t" using Suc.prems(1) in_keys_map_of by metis
  have pr: "preds g i = set (ti_predecessors t)" using t by (simp add: preds_def)
  let ?h = "\<lambda>p. if ptype g p \<noteq> ptype g i then {p} else if immediate then {} else cross_closest g p"
  let ?body = "\<lambda>p acc. rbind (get_tinfo g p) (\<lambda>pt.
       if processor_type (ti_task pt) \<noteq> processor_type (ti_task t) then Inr (List.insert p acc)
       else if \<not> immediate then rbind (cross_preds n g p immediate) (\<lambda>r. Inr (List.union acc r))
       else Inr acc)"
  have "\<exists>s'. ?body p s = Inr s' \<and> distinct s' \<and> set s' = set s \<union> ?h p"
    if p: "p \<in> set (ti_predecessors t)" and d: "distinct s" for p s
  proof -
    have pi: "p \<in> preds g i" using p pr by simp
    then have pk: "p \<in> set (keys g)" using preds_ok_closed [OF ok] by blast
    then obtain pt where pt: "map_of g p = Some pt" using in_keys_map_of by metis
    have types: "processor_type (ti_task pt) = ptype g p" "processor_type (ti_task t) = ptype g i"
      using pt t by (simp_all add: ptype_def)
    have "card (ancestors g p) < n" using ancestors_less [OF assms(1) pi] Suc.prems(2) by simp
    from Suc.IH [OF pk this] obtain r where r: "cross_preds n g p immediate = Inr r" "distinct r"
      "set r = (if immediate then cross_direct g p else cross_closest g p)" by blast
    have "get_tinfo g p = Inr pt" using pt by (simp add: get_tinfo_def)
    then show ?thesis using r d by (auto simp: types distinct_union)
  qed
  from rfold_union [of "ti_predecessors t" ?body ?h "[]", OF this] obtain r where
    r: "rfold ?body (ti_predecessors t) [] = Inr r" "distinct r"
      "set r = (\<Union>p \<in> set (ti_predecessors t). ?h p)" by auto
  have "(\<Union>p \<in> set (ti_predecessors t). ?h p) =
      (if immediate then cross_direct g i else cross_closest g i)"
    unfolding cross_closest_step [of g i] pr [symmetric] by (auto simp: cross_direct_def)
  moreover have "get_tinfo g i = Inr t" using t by (simp add: get_tinfo_def)
  ultimately show ?case using r by simp
qed simp

lemma cross_predecessors_ok:
  assumes "pred_inv g" "i \<in> set (keys g)"
  shows "\<exists>r. cross_predecessors g i immediate = Inr r \<and> distinct r \<and>
    set r = (if immediate then cross_direct g i else cross_closest g i)"
proof -
  have "preds_ok g" using assms(1) by (simp add: pred_inv_def)
  then have "card (ancestors g i) < Suc (length g)" using card_ancestors [of g i] by simp
  from cross_preds_ok [OF assms this] show ?thesis by (simp add: cross_predecessors_def)
qed

definition double_cross :: "task_graph \<Rightarrow> int \<Rightarrow> int set" where
  "double_cross g i = (\<Union>c \<in> cross_direct g i. cross_closest g c)"

lemma double_cross_predecessors_ok:
  assumes "pred_inv g" "i \<in> set (keys g)"
  shows "\<exists>r. double_cross_predecessors g i = Inr r \<and> distinct r \<and> set r = double_cross g i"
proof -
  have ok: "preds_ok g" using assms(1) by (simp add: pred_inv_def)
  from cross_predecessors_ok [OF assms, of True] obtain cps where
    cps: "cross_predecessors g i True = Inr cps" "set cps = cross_direct g i" by auto
  have "\<exists>s'. rbind (cross_predecessors g c False) (\<lambda>r. Inr (List.union s r)) = Inr s' \<and> distinct s' \<and>
      set s' = set s \<union> cross_closest g c" if c: "c \<in> set cps" and d: "distinct s" for c s
  proof -
    have "c \<in> preds g i" using c cps(2) by (auto simp: cross_direct_def)
    then have "c \<in> set (keys g)" using preds_ok_closed [OF ok] by blast
    from cross_predecessors_ok [OF assms(1) this, of False] d show ?thesis by (auto simp: distinct_union)
  qed
  from rfold_union [of cps _ "cross_closest g" "[]", OF this] cps show ?thesis
    by (auto simp: double_cross_predecessors_def double_cross_def)
qed


section \<open>The partial graph\<close>

definition of_type :: "proc_type \<Rightarrow> task_graph \<Rightarrow> task_graph" where
  "of_type typ g = filter (\<lambda>(i, t). processor_type (ti_task t) = typ) g"

lemma map_of_of_type:
  assumes "dict_ok g"
  shows "map_of (of_type typ g) i = (case map_of g i of None \<Rightarrow> None
    | Some t \<Rightarrow> if processor_type (ti_task t) = typ then Some t else None)"
proof -
  have d: "dict_ok (of_type typ g)" using assms by (simp add: of_type_def distinct_map_filter)
  have "map_of (of_type typ g) i = Some t \<longleftrightarrow>
      map_of g i = Some t \<and> processor_type (ti_task t) = typ" for t
    using items_map_of [OF d, of i t] items_map_of [OF assms, of i t] by (auto simp: of_type_def)
  then have "map_of (of_type typ g) i = Some t \<longleftrightarrow> (case map_of g i of None \<Rightarrow> None
    | Some t \<Rightarrow> if processor_type (ti_task t) = typ then Some t else None) = Some t" for t
    by (auto split: option.splits)
  then show ?thesis by (rule option_eq_Some)
qed

lemma dhas_of_type:
  assumes "dict_ok g"
  shows "dhas (of_type typ g) i \<longleftrightarrow> i \<in> set (keys g) \<and> ptype g i = typ"
proof (cases "map_of g i")
  case None
  then have "i \<notin> set (keys g)" using in_keys_map_of by fastforce
  with None show ?thesis by (simp add: dhas_def map_of_of_type [OF assms] del: set_map)
next
  case (Some t)
  then have "i \<in> set (keys g)" by (rule map_of_in_keys)
  with Some show ?thesis by (simp add: dhas_def map_of_of_type [OF assms] ptype_def del: set_map)
qed

text \<open>The entry of a task in the partial graph, but for its successors.\<close>

definition partial_info :: "task_graph \<Rightarrow> task_graph \<Rightarrow> int list \<Rightarrow> task_info \<Rightarrow> task_info" where
  "partial_info g part ps t = keep_deadlines part (fold add_pred ps (keep_in_graph part t))"

lemma fold_add_pred:
  "ti_predecessors (fold add_pred ps t) = fold List.insert ps (ti_predecessors t)"
  "ti_task (fold add_pred ps t) = ti_task t"
  "ti_successors (fold add_pred ps t) = ti_successors t"
  "ti_ext_predecessors (fold add_pred ps t) = ti_ext_predecessors t"
  "ti_rel_deadlines (fold add_pred ps t) = ti_rel_deadlines t"
  "ti_deadline (fold add_pred ps t) = ti_deadline t"
  by (induction ps arbitrary: t) (simp_all add: add_pred_def)

lemma set_fold_insert: "set (fold List.insert ps xs) = set xs \<union> set ps"
  by (induction ps arbitrary: xs) auto

lemma distinct_fold_insert: "distinct xs \<Longrightarrow> distinct (fold List.insert ps xs)"
  by (induction ps arbitrary: xs) auto

lemma partial_info_fields:
  "ti_task (partial_info g part ps t) = ti_task t"
  "ti_successors (partial_info g part ps t) = []"
  "set (ti_predecessors (partial_info g part ps t)) = {p \<in> set (ti_predecessors t). dhas part p} \<union> set ps"
  "set (ti_ext_predecessors (partial_info g part ps t)) = {p \<in> set (ti_predecessors t). \<not> dhas part p}"
  "distinct (ti_predecessors t) \<Longrightarrow> distinct (ti_predecessors (partial_info g part ps t))"
  "ti_deadline (partial_info g part ps t) = ti_deadline t"
  "ti_rel_deadlines (partial_info g part ps t) = filter (\<lambda>(p, d). dhas part p) (ti_rel_deadlines t)"
  "ti_ext_rel_deadlines (partial_info g part ps t) = []"
  by (auto simp: partial_info_def keep_deadlines_def keep_in_graph_def fold_add_pred set_fold_insert
      distinct_fold_insert Let_def filter_empty_conv)

lemma partial_graph_ok:
  assumes "pred_inv g"
  shows "\<exists>g'. partial_graph typ g = Inr g' \<and> graph_ok g' \<and>
    set (keys g') = {i \<in> set (keys g). ptype g i = typ} \<and>
    (\<forall>i. i \<in> set (keys g') \<longrightarrow> preds g' i = {p \<in> preds g i. ptype g p = typ} \<union> double_cross g i) \<and>
    (\<forall>i t. map_of g i = Some t \<longrightarrow> processor_type (ti_task t) = typ \<longrightarrow>
       (\<exists>t'. map_of g' i = Some t' \<and> ti_task t' = ti_task t \<and> ti_deadline t' = ti_deadline t \<and>
          set (ti_ext_predecessors t') = {p \<in> preds g i. ptype g p \<noteq> typ} \<and>
          ti_rel_deadlines t' = filter (\<lambda>(p, d). dhas (of_type typ g) p) (ti_rel_deadlines t) \<and>
          ti_ext_rel_deadlines t' = []))"
proof -
  have ok: "preds_ok g" using assms by (simp add: pred_inv_def)
  have d: "dict_ok g" by (rule preds_ok_dict [OF ok])
  let ?part = "of_type typ g"
  have d': "dict_ok ?part" using d by (simp add: of_type_def distinct_map_filter)
  have part_keys: "i \<in> set (keys ?part) \<longleftrightarrow> i \<in> set (keys g) \<and> ptype g i = typ" for i
    using dhas_of_type [OF d, of "typ" i] unfolding dhas_iff .
  define dc where "dc i = projr (double_cross_predecessors g i)" for i
  have dc: "double_cross_predecessors g i = Inr (dc i)" "set (dc i) = double_cross g i"
    if "i \<in> set (keys g)" for i
  proof -
    from double_cross_predecessors_ok [OF assms that] obtain r where
      "double_cross_predecessors g i = Inr r" "set r = double_cross g i" by blast
    then show "double_cross_predecessors g i = Inr (dc i)" "set (dc i) = double_cross g i"
      by (simp_all add: dc_def)
  qed
  let ?f = "\<lambda>i t. partial_info g ?part (dc i) t"
  let ?new = "dmap ?f ?part"
  have "rmap (\<lambda>(tid, t). rbind (double_cross_predecessors g tid) (\<lambda>preds.
        Inr (tid, keep_deadlines ?part (fold add_pred preds t)))) (dmap (\<lambda>_. keep_in_graph ?part) ?part) = Inr ?new"
  proof -
    let ?F = "\<lambda>(tid, t). rbind (double_cross_predecessors g tid) (\<lambda>preds.
        Inr (tid, keep_deadlines ?part (fold add_pred preds t)))"
    let ?G = "\<lambda>(i, t). (i, keep_deadlines ?part (fold add_pred (dc i) t))"
    have "?F x = Inr (?G x)" if x: "x \<in> set (dmap (\<lambda>_. keep_in_graph ?part) ?part)" for x
    proof -
      obtain i t where it: "x = (i, t)" by (cases x)
      have "fst x \<in> set (keys (dmap (\<lambda>_. keep_in_graph ?part) ?part))"
        unfolding set_map using x by (rule imageI)
      then have "i \<in> set (keys (dmap (\<lambda>_. keep_in_graph ?part) ?part))" by (simp only: it fst_conv)
      then have "i \<in> set (keys g)" unfolding keys_dmap using part_keys by blast
      from dc(1) [OF this] show ?thesis by (simp add: it)
    qed
    then have "rmap ?F (dmap (\<lambda>_. keep_in_graph ?part) ?part) =
        Inr (map ?G (dmap (\<lambda>_. keep_in_graph ?part) ?part))" by (rule rmap_total)
    also have "map ?G (dmap (\<lambda>_. keep_in_graph ?part) ?part) = ?new"
      by (simp add: dmap_def partial_info_def case_prod_unfold comp_def)
    finally show ?thesis .
  qed
  then have pg: "partial_graph typ g = update_successors ?new"
    by (simp add: partial_graph_def of_type_def [symmetric] Let_def)
  have new: "map_of ?new i = map_option (?f i) (map_of ?part i)" for i by simp
  have pr: "preds ?new i = (if i \<in> set (keys ?part)
      then {p \<in> preds g i. ptype g p = typ} \<union> double_cross g i else {})" for i
  proof (cases "map_of ?part i")
    case None
    then have "i \<notin> set (keys ?part)" using in_keys_map_of by fastforce
    with None show ?thesis by (simp add: preds_def del: set_map)
  next
    case (Some t)
    then have i: "i \<in> set (keys ?part)" by (rule map_of_in_keys)
    have t: "map_of g i = Some t" using Some by (auto simp: map_of_of_type [OF d] split: option.splits if_splits)
    have "dhas ?part p \<longleftrightarrow> ptype g p = typ" if "p \<in> preds g i" for p
      using dhas_of_type [OF d, of "typ" p] preds_ok_closed [OF ok that] by blast
    moreover have "i \<in> set (keys g)" using i part_keys by blast
    ultimately show ?thesis using Some i t
      by (auto simp: preds_def partial_info_fields dc(2) simp del: set_map)
  qed
  have dc_type: "p \<in> set (keys ?part)" if i: "i \<in> set (keys ?part)" and p: "p \<in> double_cross g i" for i p
  proof -
    from p obtain c q where "ptype g c \<noteq> ptype g i" "(p, q) \<in> edges g" "ptype g p \<noteq> ptype g q"
      "(q, c) \<in> (same_edges g)\<^sup>*"
      by (auto simp: double_cross_def cross_direct_def cross_closest_def)
    moreover have "ptype g q = ptype g c" if "(q, c) \<in> (same_edges g)\<^sup>*"
      using that by (induction rule: rtrancl_induct) (auto simp: same_edges_def)
    ultimately have "ptype g p = ptype g i" "p \<in> set (keys g)"
      using preds_ok_closed [OF ok, of p q]
      by (cases "ptype g p"; cases "ptype g c"; cases "ptype g i"; simp add: edges_def del: set_map)+
    with i show ?thesis using part_keys by simp
  qed
  have "\<exists>g'. update_successors ?new = Inr g' \<and> graph_ok g' \<and> keys g' = keys ?new \<and> edges g' = edges ?new \<and>
    (\<forall>i u. map_of ?new i = Some u \<longrightarrow>
      (\<exists>ss. map_of g' i = Some (u\<lparr>ti_successors := ss\<rparr>) \<and> set ss = {j. i \<in> preds ?new j}))"
  proof (rule update_successors_ok)
    show "dict_ok ?new" unfolding keys_dmap by (rule d')
    show "preds ?new j \<subseteq> set (keys ?new)" for j
    proof (cases "j \<in> set (keys ?part)")
      case True
      have "{p \<in> preds g j. ptype g p = typ} \<subseteq> set (keys ?part)"
        using part_keys preds_ok_closed [OF ok] by blast
      moreover have "double_cross g j \<subseteq> set (keys ?part)" using dc_type [OF True] by blast
      ultimately show ?thesis unfolding keys_dmap pr if_P [OF True] by (rule Un_least)
    qed (simp only: pr if_False empty_subsetI)
    show "distinct (ti_successors u) \<and> distinct (ti_predecessors u)" if u: "map_of ?new i = Some u" for i u
    proof -
      obtain t where t: "map_of ?part i = Some t" "u = ?f i t" using u unfolding new by auto
      then have "map_of g i = Some t" by (auto simp: map_of_of_type [OF d] split: option.splits if_splits)
      from preds_ok_distinct [OF ok this] t show ?thesis by (simp add: partial_info_fields)
    qed
    show "i \<in> preds ?new j" if "j \<in> succs ?new i" for i j
      using that by (auto simp: succs_def partial_info_fields split: option.splits)
  qed
  then obtain g' where g': "partial_graph typ g = Inr g'" "graph_ok g'" "keys g' = keys ?part"
    "edges g' = edges ?new" "\<And>i u. map_of ?new i = Some u \<Longrightarrow> \<exists>ss. map_of g' i = Some (u\<lparr>ti_successors := ss\<rparr>)"
    unfolding pg keys_dmap by blast
  have "preds g' i = preds ?new i" for i using g'(4) unfolding edges_def by blast
  then have "preds g' i = {p \<in> preds g i. ptype g p = typ} \<union> double_cross g i" if "i \<in> set (keys g')" for i
    using that unfolding g'(3) by (simp add: pr del: set_map)
  moreover have "set (keys g') = {i \<in> set (keys g). ptype g i = typ}"
    unfolding g'(3) using part_keys by blast
  moreover have "\<exists>t'. map_of g' i = Some t' \<and> ti_task t' = ti_task t \<and> ti_deadline t' = ti_deadline t \<and>
          set (ti_ext_predecessors t') = {p \<in> preds g i. ptype g p \<noteq> typ} \<and>
          ti_rel_deadlines t' = filter (\<lambda>(p, d). dhas ?part p) (ti_rel_deadlines t) \<and>
          ti_ext_rel_deadlines t' = []"
    if t: "map_of g i = Some t" and ty: "processor_type (ti_task t) = typ" for i t
  proof -
    have "map_of ?part i = Some t" using t ty by (simp add: map_of_of_type [OF d])
    then have "map_of ?new i = Some (?f i t)" by simp
    from g'(5) [OF this] obtain ss where ss: "map_of g' i = Some ((?f i t)\<lparr>ti_successors := ss\<rparr>)" by blast
    have "dhas ?part p \<longleftrightarrow> ptype g p = typ" if "p \<in> preds g i" for p
      using dhas_of_type [OF d, of "typ" p] preds_ok_closed [OF ok that] by blast
    then have "{p \<in> set (ti_predecessors t). \<not> dhas ?part p} = {p \<in> preds g i. ptype g p \<noteq> typ}"
      using t by (auto simp: preds_def)
    with ss show ?thesis by (simp add: partial_info_fields)
  qed
  ultimately show ?thesis using g'(1,2) by blast
qed


section \<open>Properties\<close>

lemma two_types: "(a :: proc_type) \<noteq> b \<Longrightarrow> c \<noteq> b \<Longrightarrow> a = c"
  by (cases a; cases b; cases c) auto

text \<open>A precedence of the partial graph comes from a chain of precedences of the whole graph.\<close>

lemma same_edges_trancl: "(q, i) \<in> (same_edges g)\<^sup>* \<Longrightarrow> (q, i) \<in> (edges g)\<^sup>*"
  by (rule rtrancl_mono [THEN subsetD]) (auto simp: same_edges_def)

lemma double_cross_chain:
  assumes "p \<in> double_cross g i"
  shows "(p, i) \<in> (edges g)\<^sup>+"
proof -
  from assms obtain c where c: "c \<in> preds g i" "p \<in> cross_closest g c"
    by (auto simp: double_cross_def cross_direct_def)
  then obtain q where q: "(p, q) \<in> edges g" "(q, c) \<in> (same_edges g)\<^sup>*"
    by (auto simp: cross_closest_def)
  from q(2) have "(q, c) \<in> (edges g)\<^sup>*" by (rule same_edges_trancl)
  with q(1) have "(p, c) \<in> (edges g)\<^sup>+" by (rule rtrancl_into_trancl2)
  moreover have "(c, i) \<in> edges g" using c(1) by (simp add: edges_def)
  ultimately show ?thesis by (rule trancl.trancl_into_trancl)
qed

text \<open>Where a chain of precedences that starts at a task of the type has got to.\<close>

lemma chain_in_partial:
  assumes "graph_inv g" "edges h = {(p, i). i \<in> set (keys g) \<and> ptype g i = typ \<and>
      (p \<in> preds g i \<and> ptype g p = typ \<or> p \<in> double_cross g i)}"
    and "(x, y) \<in> (edges g)\<^sup>+" "ptype g x = typ"
  shows "if ptype g y = typ then (x, y) \<in> (edges h)\<^sup>+
    else \<exists>z. (x, z) \<in> (edges h)\<^sup>* \<and> ptype g z = typ \<and> z \<in> cross_closest g y"
  using assms(3)
proof (induction rule: trancl_induct)
  case (base y)
  have "graph_ok g" using assms(1) by (simp add: graph_inv_def)
  with base have y: "y \<in> set (keys g)" using graph_ok_closed(2) by (auto simp: edges_def)
  show ?case
  proof (cases "ptype g y = typ")
    case True
    with base y assms(4) have "(x, y) \<in> edges h" unfolding assms(2) by (auto simp: edges_def)
    with True show ?thesis by auto
  next
    case False
    with base assms(4) have "x \<in> cross_closest g y" by (auto simp: cross_closest_def)
    with False assms(4) show ?thesis by auto
  qed
next
  case (step y w)
  have "graph_ok g" using assms(1) by (simp add: graph_inv_def)
  with step(2) have w: "w \<in> set (keys g)" "y \<in> preds g w"
    using graph_ok_closed(2) by (auto simp: edges_def)
  show ?case
  proof (cases "ptype g y = typ")
    case yt: True
    with step.IH have xy: "(x, y) \<in> (edges h)\<^sup>+" by simp
    show ?thesis
    proof (cases "ptype g w = typ")
      case True
      with w yt have "(y, w) \<in> edges h" unfolding assms(2) by simp
      with True xy show ?thesis by (simp add: trancl.trancl_into_trancl)
    next
      case False
      with step(2) yt have "y \<in> cross_closest g w" by (auto simp: cross_closest_def)
      with False xy yt show ?thesis by (auto intro: trancl_into_rtrancl)
    qed
  next
    case yo: False
    with step.IH obtain z where z: "(x, z) \<in> (edges h)\<^sup>*" "ptype g z = typ" "z \<in> cross_closest g y" by auto
    show ?thesis
    proof (cases "ptype g w = typ")
      case True
      have "z \<in> double_cross g w" using z(3) w(2) yo True by (auto simp: double_cross_def cross_direct_def)
      with w True have "(z, w) \<in> edges h" unfolding assms(2) by simp
      with z(1) True show ?thesis by (simp add: rtrancl_into_trancl1)
    next
      case False
      with yo have "ptype g y = ptype g w" by (rule two_types)
      with step(2) have "(y, w) \<in> same_edges g" by (simp add: same_edges_def)
      with z(3) have "z \<in> cross_closest g w" by (auto simp: cross_closest_def intro: rtrancl_into_rtrancl)
      with z False show ?thesis by auto
    qed
  qed
qed

text \<open>C14: The graph of one processor holds exactly the tasks of that processor, has no cycle, and
orders two of them exactly when the whole graph does: a chain of precedences in the whole graph,
through tasks of either processor, is a chain in the partial graph and the other way round.\<close>

theorem partial_graph_order:
  assumes "graph_inv g"
  shows "\<exists>g'. partial_graph typ g = Inr g' \<and> graph_inv g' \<and>
    set (keys g') = {i \<in> set (keys g). ptype g i = typ} \<and>
    (\<forall>x y. (x, y) \<in> (edges g')\<^sup>+ \<longleftrightarrow> ptype g x = typ \<and> ptype g y = typ \<and> (x, y) \<in> (edges g)\<^sup>+)"
proof -
  have ok: "graph_ok g" and ac: "acyclic (edges g)" using assms by (auto simp: graph_inv_def)
  from partial_graph_ok [OF graph_inv_pred [OF assms], of "typ"] obtain g' where
    g': "partial_graph typ g = Inr g'" "graph_ok g'"
      "set (keys g') = {i \<in> set (keys g). ptype g i = typ}"
      "\<And>i. i \<in> set (keys g') \<Longrightarrow> preds g' i = {p \<in> preds g i. ptype g p = typ} \<union> double_cross g i"
    by blast
  have e: "edges g' = {(p, i). i \<in> set (keys g) \<and> ptype g i = typ \<and>
      (p \<in> preds g i \<and> ptype g p = typ \<or> p \<in> double_cross g i)}"
  proof -
    have "(p, i) \<in> edges g' \<longleftrightarrow> (p, i) \<in> {(p, i). i \<in> set (keys g) \<and> ptype g i = typ \<and>
      (p \<in> preds g i \<and> ptype g p = typ \<or> p \<in> double_cross g i)}" for p i
    proof -
      have "(p, i) \<in> edges g' \<longleftrightarrow> i \<in> set (keys g') \<and> p \<in> preds g' i"
        using preds_key unfolding edges_def by blast
      also have "\<dots> \<longleftrightarrow> i \<in> set (keys g') \<and> (p \<in> preds g i \<and> ptype g p = typ \<or> p \<in> double_cross g i)"
        using g'(4) by blast
      finally show ?thesis unfolding g'(3) by blast
    qed
    then show ?thesis by (intro equalityI subrelI) (simp_all only:)
  qed
  have chain: "(edges g')\<^sup>+ \<subseteq> (edges g)\<^sup>+"
  proof (rule subsetI)
    fix xy assume "xy \<in> (edges g')\<^sup>+"
    moreover have "edges g' \<subseteq> (edges g)\<^sup>+"
      unfolding e using double_cross_chain by (auto simp: edges_def)
    ultimately show "xy \<in> (edges g)\<^sup>+" using trancl_mono_subset trancl_id trans_trancl by (metis subsetD)
  qed
  have types: "ptype g x = typ \<and> ptype g y = typ" if "(x, y) \<in> (edges g')\<^sup>+" for x y
    using subsetD [OF trancl_subset_Sigma [OF edges_keys [OF g'(2)]] that] g'(3) by auto
  have "acyclic (edges g')" using ac chain unfolding acyclic_def by blast
  moreover have "(x, y) \<in> (edges g')\<^sup>+" if "ptype g x = typ" "ptype g y = typ" "(x, y) \<in> (edges g)\<^sup>+" for x y
    using chain_in_partial [OF assms e that(3,1)] that(2) by simp
  ultimately show ?thesis using g'(1-3) chain types unfolding graph_inv_def by blast
qed

theorem partial_graph_order_witness:
  "\<exists>g'. partial_graph CPU sample_graph = Inr g' \<and> graph_inv g'"
  using partial_graph_order [OF sample_graph_facts(1), of CPU] by blast

text \<open>What the graph of one processor forgets. Precedences on tasks of the other processor are
kept as external predecessors, but relative deadlines on them are dropped: the dictionary of
external relative deadlines, filled from the already filtered one, is always empty.\<close>

theorem partial_graph_drops_deadlines:
  assumes "graph_inv g" "map_of g i = Some t" "processor_type (ti_task t) = typ"
    and "p \<in> preds g i" "ptype g p \<noteq> typ"
  shows "\<exists>g' t'. partial_graph typ g = Inr g' \<and> map_of g' i = Some t' \<and>
    p \<in> set (ti_ext_predecessors t') \<and> ti_ext_rel_deadlines t' = [] \<and>
    map_of (ti_rel_deadlines t') p = None"
proof -
  have ok: "graph_ok g" using assms(1) by (simp add: graph_inv_def)
  from partial_graph_ok [OF graph_inv_pred [OF assms(1)], of "typ"] assms(2,3) obtain g' t' where
    g': "partial_graph typ g = Inr g'" "map_of g' i = Some t'"
      "set (ti_ext_predecessors t') = {p \<in> preds g i. ptype g p \<noteq> typ}"
      "ti_rel_deadlines t' = filter (\<lambda>(p, d). dhas (of_type typ g) p) (ti_rel_deadlines t)"
      "ti_ext_rel_deadlines t' = []" by blast
  have "\<not> dhas (of_type typ g) p" using dhas_of_type [OF graph_ok_dict [OF ok]] assms(5) by blast
  then have "map_of (ti_rel_deadlines t') p = None"
    unfolding g'(4) by (auto simp: map_of_eq_None_iff)
  with g' assms(4,5) show ?thesis by auto
qed


theorem partial_graph_drops_deadlines_witness:
  "\<exists>g' t'. partial_graph QPU sample_graph = Inr g' \<and> map_of g' 1 = Some t' \<and>
     0 \<in> set (ti_ext_predecessors t') \<and> ti_ext_rel_deadlines t' = []"
proof -
  have m: "map_of sample_graph 0 = Some (the (map_of sample_graph 0))"
    "map_of sample_graph 1 = Some (the (map_of sample_graph 1))"
    "processor_type (ti_task (the (map_of sample_graph 1))) = QPU" "ptype sample_graph 0 \<noteq> QPU"
    by (simp_all add: sample_graph_def sample_tasks_def add_precedences_def add_tasks_def mk_task_def
        dhas_def upd_tinfo_def add_pred_def add_succ_def only_task_def ptype_def processor_type_def)
  have "(0, 1) \<in> edges sample_graph" unfolding sample_graph_facts(3) by simp
  then have "0 \<in> preds sample_graph 1" by (simp add: edges_def)
  from partial_graph_drops_deadlines [OF sample_graph_facts(1) m(2,3) this m(4)] show ?thesis by blast
qed

section \<open>Linear graphs\<close>

lemma get_roots_filter:
  assumes "dict_ok g"
  shows "get_roots True g = filter (\<lambda>i. preds g i = {}) (keys g)"
proof -
  have "filter (\<lambda>i. preds g i = {}) (keys g) = map fst (filter (\<lambda>(i, t). preds g i = {}) g)"
    by (simp add: filter_map comp_def case_prod_unfold)
  also have "filter (\<lambda>(i, t). preds g i = {}) g = filter (\<lambda>(i, t). ti_predecessors t = []) g"
    using items_map_of [OF assms] by (intro filter_cong) (auto simp: preds_def)
  finally show ?thesis by (simp add: get_roots_def)
qed

fun infos_after :: "int \<Rightarrow> qoala_task list \<Rightarrow> task_info list" where
  "infos_after p [] = []"
| "infos_after p (t # ts) = add_pred p (only_task t) # infos_after (task_id t) ts"

lemma link_chain_infos:
  "link_chain (x # map only_task ts) = x # infos_after (task_id (ti_task x)) ts"
  by (induction ts arbitrary: x) (simp_all add: only_task_def add_pred_def)

text \<open>The predecessor of each task is the task before it.\<close>

fun pairs_of :: "int list \<Rightarrow> (int \<times> int) list" where
  "pairs_of (i # j # is') = (i, j) # pairs_of (j # is')"
| "pairs_of is' = []"

lemma infos_after_ids [simp]: "map (\<lambda>t. task_id (ti_task t)) (infos_after p ts) = map task_id ts"
  by (induction ts arbitrary: p) (simp_all add: only_task_def add_pred_def)

lemma infos_after_fields:
  "t \<in> set (infos_after p ts) \<Longrightarrow> ti_successors t = [] \<and> ti_ext_predecessors t = [] \<and>
     distinct (ti_predecessors t)"
  by (induction ts arbitrary: p) (auto simp: only_task_def add_pred_def)

lemma infos_after_preds:
  "(\<exists>t \<in> set (infos_after p ts). task_id (ti_task t) = j \<and> i \<in> set (ti_predecessors t)) \<longleftrightarrow>
     (i, j) \<in> set (pairs_of (p # map task_id ts))"
  by (induction ts arbitrary: p) (auto simp: only_task_def add_pred_def)

lemma pairs_of_members: "(i, j) \<in> set (pairs_of is') \<Longrightarrow> i \<in> set is' \<and> j \<in> set (tl is')"
  by (induction is' rule: pairs_of.induct) auto

lemma pairs_of_unique:
  "distinct is' \<Longrightarrow> as @ i # j # bs = is' \<Longrightarrow> (i, k) \<in> set (pairs_of is') \<longleftrightarrow> k = j"
proof (induction is' arbitrary: as rule: pairs_of.induct)
  case (1 a b is')
  show ?case
  proof (cases as)
    case Nil
    with 1 pairs_of_members [of i k "b # is'"] show ?thesis by auto
  next
    case (Cons x as')
    with 1(3) have e: "as' @ i # j # bs = b # is'" by simp
    have "i \<in> set (b # is')" unfolding e [symmetric] by simp
    then have "i \<noteq> a" using 1(2) by auto
    with 1(1) [of as'] 1(2) e show ?thesis by simp
  qed
qed auto

lemma linear_graph_facts:
  assumes "distinct (map task_id ts)"
  defines "g \<equiv> graph_of (link_chain (map only_task ts))"
  shows "keys g = map task_id ts" "edges g = set (pairs_of (map task_id ts))"
    "map_of g i = Some u \<Longrightarrow> ti_successors u = [] \<and> ti_ext_predecessors u = [] \<and> distinct (ti_predecessors u)"
proof -
  let ?us = "link_chain (map only_task ts)"
  have us: "map (\<lambda>t. task_id (ti_task t)) ?us = map task_id ts"
    by (cases ts) (simp_all add: link_chain_infos, simp add: only_task_def)
  have fold_new: "fold (\<lambda>(k, v). dset k v) kvs d = d @ kvs"
    if "distinct (keys d @ keys kvs)" for kvs d :: task_graph
    using that
  proof (induction kvs arbitrary: d)
    case (Cons kv kvs)
    obtain k v where kv: "kv = (k, v)" by (cases kv)
    have "dset k v d = d @ [(k, v)]" using Cons.prems kv by (induction d) auto
    with Cons kv show ?case by simp
  qed simp
  have ids: "distinct (map (\<lambda>t. task_id (ti_task t)) ?us)" using assms(1) us by simp
  then have g: "g = map (\<lambda>t. (task_id (ti_task t), t)) ?us"
    unfolding g_def graph_of_def dupdate_def by (subst fold_new) (simp_all add: comp_def)
  have k: "keys g = map task_id ts" using us by (simp add: g comp_def)
  then show "keys g = map task_id ts" .
  have d: "dict_ok g" unfolding k by (rule assms(1))
  have f: "u \<in> set ?us \<Longrightarrow> ti_successors u = [] \<and> ti_ext_predecessors u = [] \<and> distinct (ti_predecessors u)" for u
    by (cases ts) (auto simp: link_chain_infos only_task_def dest: infos_after_fields)
  have mem: "map_of g i = Some u \<longleftrightarrow> u \<in> set ?us \<and> task_id (ti_task u) = i" for i u
    using items_map_of [OF d, of i u] by (auto simp: g)
  then show "map_of g i = Some u \<Longrightarrow>
      ti_successors u = [] \<and> ti_ext_predecessors u = [] \<and> distinct (ti_predecessors u)"
    using f by blast
  have "i \<in> preds g j \<longleftrightarrow> (\<exists>u. map_of g j = Some u \<and> i \<in> set (ti_predecessors u))" for i j
    by (auto simp: preds_def split: option.splits)
  then have "i \<in> preds g j \<longleftrightarrow> (\<exists>u \<in> set ?us. task_id (ti_task u) = j \<and> i \<in> set (ti_predecessors u))" for i j
    unfolding mem by blast
  moreover have "(\<exists>u \<in> set ?us. task_id (ti_task u) = j \<and> i \<in> set (ti_predecessors u)) \<longleftrightarrow>
      (i, j) \<in> set (pairs_of (map task_id ts))" for i j
    by (cases ts) (simp_all add: link_chain_infos infos_after_preds [of "task_id (hd ts)" "tl ts", simplified],
      auto simp: only_task_def infos_after_preds)
  ultimately show "edges g = set (pairs_of (map task_id ts))" by (auto simp: edges_def)
qed

lemma chain_from_linear:
  assumes "\<And>i. i \<in> set ids \<Longrightarrow> \<exists>u. map_of g i = Some u \<and> distinct (ti_successors u)"
    and "\<And>i. succs g i = {j. (i, j) \<in> set (pairs_of ids)}" "distinct ids" "ids = as @ i # bs"
  shows "chain_from (length bs) g i = Inr bs"
  using assms(4)
proof (induction bs arbitrary: as i)
  case (Cons j bs)
  from assms(1) [of i] Cons.prems obtain u where u: "map_of g i = Some u" "distinct (ti_successors u)" by auto
  have "set (ti_successors u) = {j}"
    using u(1) assms(2) [of i] pairs_of_unique [OF assms(3), of as i j bs] Cons.prems
    by (auto simp: succs_def)
  with u(2) have "ti_successors u = [j]" by (cases "ti_successors u") (auto, metis list.set_intros(1) neq_Nil_conv singletonD subset_singletonD set_empty)
  moreover from Cons.IH [of "as @ [i]" j] Cons.prems have "chain_from (length bs) g j = Inr bs" by simp
  ultimately show ?case using u(1) by (simp add: get_tinfo_def)
qed simp

text \<open>A linear graph is the chain it was built from: for tasks with distinct IDs,
\<open>linear_tasks\<close> never raises, each task's only predecessor is the task before it, and
\<open>linearize\<close> gives the tasks back in order.\<close>

theorem linear_tasks_round_trip:
  assumes "distinct (map task_id ts)"
  shows "\<exists>g. linear_tasks ts = Inr g \<and> graph_ok g \<and> edges g = set (pairs_of (map task_id ts)) \<and>
    linearize g = Inr (map task_id ts)"
proof -
  let ?h = "graph_of (link_chain (map only_task ts))"
  let ?ids = "map task_id ts"
  note f = linear_graph_facts [OF assms]
  have pr: "preds ?h j = {i. (i, j) \<in> set (pairs_of ?ids)}" for j
    using f(2) by (auto simp: edges_def)
  have "\<exists>g'. update_successors ?h = Inr g' \<and> graph_ok g' \<and> keys g' = keys ?h \<and> edges g' = edges ?h \<and>
    (\<forall>i u. map_of ?h i = Some u \<longrightarrow>
      (\<exists>ss. map_of g' i = Some (u\<lparr>ti_successors := ss\<rparr>) \<and> set ss = {j. i \<in> preds ?h j}))"
  proof (rule update_successors_ok)
    show "dict_ok ?h" unfolding f(1) by (rule assms)
    show "preds ?h j \<subseteq> set (keys ?h)" for j
      unfolding f(1) pr using pairs_of_members by blast
    show "distinct (ti_successors u) \<and> distinct (ti_predecessors u)" if "map_of ?h i = Some u" for i u
      using f(3) [OF that] by simp
    show "i \<in> preds ?h j" if "j \<in> succs ?h i" for i j
      using that f(3) [of i] by (auto simp: succs_def split: option.splits)
  qed
  then obtain g where g: "linear_tasks ts = Inr g" "graph_ok g" "keys g = ?ids"
    "edges g = set (pairs_of ?ids)" "\<And>i u. map_of ?h i = Some u \<Longrightarrow>
      \<exists>ss. map_of g i = Some (u\<lparr>ti_successors := ss\<rparr>)"
    unfolding linear_tasks_def f(1,2) by blast
  have d: "dict_ok g" by (rule graph_ok_dict [OF g(2)])
  have ext: "ti_ext_predecessors u = []" if u: "map_of g i = Some u" for i u
  proof -
    have "i \<in> set (keys ?h)" using map_of_in_keys [OF u] unfolding g(3) f(1) .
    then obtain w where "map_of ?h i = Some w" using in_keys_map_of by metis
    with g(5) [OF this] f(3) [OF this] u show ?thesis by auto
  qed
  have "get_roots False g = get_roots True g"
    unfolding get_roots_def using ext items_map_of [OF d] by (intro arg_cong [where f = "map fst"] filter_cong) auto
  also have "\<dots> = filter (\<lambda>i. \<forall>p. (p, i) \<notin> set (pairs_of ?ids)) ?ids"
    unfolding get_roots_filter [OF d] g(3) using g(4) by (auto simp: edges_def intro!: filter_cong)
  finally have roots: "get_roots False g = filter (\<lambda>i. \<forall>p. (p, i) \<notin> set (pairs_of ?ids)) ?ids" .
  show ?thesis
  proof (cases ts)
    case Nil
    with g show ?thesis by (simp add: linearize_def)
  next
    case (Cons t ts')
    have later: "\<exists>p. (p, i) \<in> set (pairs_of (j # is'))" if "i \<in> set is'" for i j is'
      using that by (induction is' arbitrary: j) auto
    have "filter (\<lambda>i. \<forall>p. (p, i) \<notin> set (pairs_of ?ids)) ?ids = [task_id t]"
      using assms later [of _ "map task_id ts'" "task_id t"] pairs_of_members [of _ "task_id t" ?ids]
      by (auto simp: Cons filter_empty_conv)
    moreover have "chain_from (length ts') g (task_id t) = Inr (map task_id ts')"
    proof -
      have "chain_from (length (map task_id ts')) g (task_id t) = Inr (map task_id ts')"
      proof (rule chain_from_linear [where ids = ?ids and as = "[]"])
        show "\<exists>u. map_of g i = Some u \<and> distinct (ti_successors u)" if "i \<in> set ?ids" for i
          using in_keys_map_of [of i g] that graph_ok_distinct [OF g(2)] unfolding g(3) by blast
        show "succs g i = {j. (i, j) \<in> set (pairs_of ?ids)}" for i
        proof -
          have "j \<in> succs g i \<longleftrightarrow> (i, j) \<in> edges g" for j
            using graph_ok_dual [OF g(2)] by (simp add: edges_def)
          then show ?thesis unfolding g(4) by blast
        qed
      qed (use assms Cons in auto)
      then show ?thesis by simp
    qed
    moreover have "length g = Suc (length ts')" using arg_cong [OF g(3), of length] Cons by simp
    moreover have "g \<noteq> []" using calculation(3) by auto
    ultimately show ?thesis using g roots Cons by (simp add: linearize_def)
  qed
qed

theorem linear_tasks_round_trip_witness:
  "\<exists>g. linear_tasks sample_tasks = Inr g \<and> linearize g = Inr [0, 1, 2, 3]"
  using linear_tasks_round_trip [of sample_tasks] by (auto simp: sample_tasks_def mk_task_def)

end
