(* ===== verification/TaskBuild.thy ===== *)
theory TaskBuild
  imports TaskPartial Process
begin

text \<open>
  Building task graphs from programs (\<open>TaskDurationEstimator\<close>, \<open>TaskGraphFromBlockBuilder\<close> and
  \<open>QoalaGraphFromProgramBuilder\<close> in \<open>qoala/runtime/task.py\<close>): the tasks of each block type,
  their durations, shared pointers and precedences.
\<close>

section \<open>Durations\<close>

text \<open>The instructions that Qnos executes without a gate.\<close>

fun is_classical_instr :: "nq_instr \<Rightarrow> bool" where
  "is_classical_instr (SetInstr r i) = True"
| "is_classical_instr (StoreInstr r e) = True"
| "is_classical_instr (LoadInstr r e) = True"
| "is_classical_instr (LeaInstr r a) = True"
| "is_classical_instr (BranchBinaryInstr c r s l) = True"
| "is_classical_instr (BranchUnaryInstr c r l) = True"
| "is_classical_instr (JmpInstr l) = True"
| "is_classical_instr (ClassicalOpInstr f x a b) = True"
| "is_classical_instr (ClassicalOpModInstr f x a b m) = True"
| "is_classical_instr i = False"

definition gate_max_duration :: "ehi_node_info \<Rightarrow> nq_type \<Rightarrow> real" where
  "gate_max_duration e t =
     (let d1 = fold (\<lambda>i m. case find_single_gate e i t of None \<Rightarrow> m | Some g \<Rightarrow> max m (eg_duration g))
                 (keys (en_single_gate_infos e)) (- 1)
      in fold (\<lambda>q m. case find_multi_gate e (qubit_ids q) t of None \<Rightarrow> m | Some g \<Rightarrow> max m (eg_duration g))
           (keys (en_multi_gate_infos e)) d1)"

definition instr_duration :: "ehi_node_info \<Rightarrow> nq_instr \<Rightarrow> real res" where
  "instr_duration e instr =
     (if is_classical_instr instr then Inr (qnos_instr_time (en_latencies e))
      else let d = gate_max_duration e (nq_type_of instr) in
           if d \<noteq> - 1 then Inr d else Inl RuntimeError)"

definition lr_duration :: "ehi_node_info \<Rightarrow> local_routine \<Rightarrow> real res" where
  "lr_duration e r =
     rfold (\<lambda>instr d. rbind (instr_duration e instr) (\<lambda>x. Inr (d + x)))
       (sub_instructions (lr_subroutine r)) 0"

section \<open>Builder state\<close>

text \<open>The graph under construction and the counter of \<open>unique_id\<close>.\<close>

type_synonym builder = "task_graph \<times> int"

definition new_task :: "int \<Rightarrow> task_kind \<Rightarrow> real option \<Rightarrow> builder \<Rightarrow> builder" where
  "new_task pid k d b = (add_tasks [mk_task (snd b) pid k d] (fst b), snd b + 1)"

text \<open>\<open>graph.get_tinfo(i).predecessors.add(p)\<close>\<close>

definition precede :: "int \<Rightarrow> int \<Rightarrow> builder \<Rightarrow> builder res" where
  "precede p i b = rbind (get_tinfo (fst b) i) (\<lambda>_. Inr (upd_tinfo i (add_pred p) (fst b), snd b))"

definition sole_instruction :: "basic_block \<Rightarrow> op_class \<Rightarrow> iqoala_op res" where
  "sole_instruction b c =
     rbind (py_assert (length (block_instructions b) = 1)) (\<lambda>_.
     let instr = block_instructions b ! 0 in
     rbind (py_assert (op_class instr = c)) (\<lambda>_. Inr instr))"

text \<open>\<open>instr.subroutine\<close> and \<open>instr.req_routine\<close>: the first attribute, a string.\<close>

definition routine_name :: "iqoala_op \<Rightarrow> string res" where
  "routine_name instr = rbind (py_nth (op_attributes instr) 0) (\<lambda>v.
     case v of StrV s \<Rightarrow> Inr s | _ \<Rightarrow> Inl AssertionError)"

definition host_time :: "ehi_node_info option \<Rightarrow> real option" where
  "host_time ehi = map_option (\<lambda>e. host_instr_time (en_latencies e)) ehi"

definition peer_time :: "ehi_node_info option \<Rightarrow> real option" where
  "peer_time ehi = map_option (\<lambda>e. host_peer_latency (en_latencies e)) ehi"

definition qnos_time :: "ehi_node_info option \<Rightarrow> real option" where
  "qnos_time ehi = map_option (\<lambda>e. qnos_instr_time (en_latencies e)) ehi"

definition cl_duration :: "ehi_node_info option \<Rightarrow> basic_block \<Rightarrow> real option" where
  "cl_duration ehi b = map_option (\<lambda>t. t * real (length (block_instructions b))) (host_time ehi)"

definition routine_duration ::
    "ehi_node_info option \<Rightarrow> (string, local_routine) dict \<Rightarrow> iqoala_op \<Rightarrow> real option res" where
  "routine_duration ehi routines instr =
     (case ehi of
        None \<Rightarrow> Inr None
      | Some e \<Rightarrow> rbind (routine_name instr) (\<lambda>n. rbind (dget routines n) (\<lambda>r.
          rbind (lr_duration e r) (\<lambda>d. Inr (Some d)))))"

definition resolve_num_pairs :: "request_routine \<Rightarrow> prog_input option \<Rightarrow> int res" where
  "resolve_num_pairs r inp =
     (case rq_num_pairs (rr_request r) of
        IntNum n \<Rightarrow> Inr n
      | IntTemplate t \<Rightarrow> (case inp of None \<Rightarrow> Inl AssertionError | Some vals \<Rightarrow> dget vals t))"

text \<open>The durations of one pair and of all pairs, from the first link of the network.\<close>

definition pair_durations ::
    "ehi_network_info option \<Rightarrow> request_routine \<Rightarrow> prog_input option \<Rightarrow> (real option \<times> real option) res" where
  "pair_durations network r inp =
     (case network of
        None \<Rightarrow> Inr (None, None)
      | Some n \<Rightarrow> rbind (py_nth (map snd (ni_links n)) 0) (\<lambda>link.
          rbind (resolve_num_pairs r inp) (\<lambda>num.
          Inr (Some (el_duration link), Some (el_duration link * real_of_int num)))))"

section \<open>The tasks of a block\<close>

text \<open>Pre-call, local routine and post-call, in this order.\<close>

definition routine_tasks ::
    "int \<Rightarrow> string \<Rightarrow> real option \<Rightarrow> real option \<Rightarrow> builder \<Rightarrow> (int \<times> int \<times> builder) res" where
  "routine_tasks pid name call_dur lr_dur b0 =
     (let precall_id = snd b0;
          b1 = new_task pid (PreCallTask name precall_id) call_dur b0;
          lr_id = snd b1;
          b2 = new_task pid (LocalRoutineTask name precall_id) lr_dur b1;
          postcall_id = snd b2;
          b3 = new_task pid (PostCallTask name precall_id) call_dur b2 in
      rbind (precede precall_id lr_id b3) (\<lambda>b4.
      rbind (precede lr_id postcall_id b4) (\<lambda>b5.
      Inr (precall_id, postcall_id, b5))))"

text \<open>
  An entanglement task between the pre-call and the post-call task, followed by its callback task
  if there is one.
\<close>

definition epr_tasks ::
    "int \<Rightarrow> task_kind \<Rightarrow> task_kind option \<Rightarrow> int \<Rightarrow> int \<Rightarrow> real option \<Rightarrow> real option \<Rightarrow> builder \<Rightarrow> builder res" where
  "epr_tasks pid kind callback precall_id postcall_id dur cb_dur b0 =
     (let rr_id = snd b0; b1 = new_task pid kind dur b0 in
      rbind (precede precall_id rr_id b1) (\<lambda>b2.
      case callback of
        Some cb_kind \<Rightarrow>
          let cb_id = snd b2; b3 = new_task pid cb_kind cb_dur b2 in
          rbind (precede rr_id cb_id b3) (\<lambda>b4. precede cb_id postcall_id b4)
      | None \<Rightarrow> precede rr_id postcall_id b2))"

text \<open>One pair of a sequential request, and all pairs at once.\<close>

definition pair_tasks ::
    "int \<Rightarrow> string option \<Rightarrow> int \<Rightarrow> int \<Rightarrow> real option \<Rightarrow> real option \<Rightarrow> int \<Rightarrow> builder \<Rightarrow> builder res" where
  "pair_tasks pid callback precall_id postcall_id pair_dur cb_dur i =
     epr_tasks pid (SinglePairTask i precall_id)
       (map_option (\<lambda>cb. SinglePairCallbackTask cb i precall_id) callback)
       precall_id postcall_id pair_dur cb_dur"

definition multi_pair_tasks ::
    "int \<Rightarrow> string option \<Rightarrow> int \<Rightarrow> int \<Rightarrow> real option \<Rightarrow> real option \<Rightarrow> builder \<Rightarrow> builder res" where
  "multi_pair_tasks pid callback precall_id postcall_id multi_dur cb_dur =
     epr_tasks pid (MultiPairTask precall_id)
       (map_option (\<lambda>cb. MultiPairCallbackTask cb precall_id) callback)
       precall_id postcall_id multi_dur cb_dur"

definition request_tasks ::
    "(string, request_routine) dict \<Rightarrow> basic_block \<Rightarrow> int \<Rightarrow> ehi_node_info option \<Rightarrow>
     ehi_network_info option \<Rightarrow> prog_input option \<Rightarrow> builder \<Rightarrow> (int \<times> int \<times> builder) res" where
  "request_tasks routines block pid ehi network inp b0 =
     rbind (sole_instruction block RunRequestOp) (\<lambda>instr.
     rbind (routine_name instr) (\<lambda>name.
     rbind (dget routines name) (\<lambda>r.
     rbind (pair_durations network r inp) (\<lambda>(pair_dur, multi_dur).
     let precall_id = snd b0;
         b1 = new_task pid (PreCallTask (block_name block) precall_id) (host_time ehi) b0;
         postcall_id = snd b1;
         b2 = new_task pid (PostCallTask (block_name block) precall_id) (host_time ehi) b1 in
     rbind (if rr_callback_type r = WAIT_ALL
            then multi_pair_tasks pid (rr_callback r) precall_id postcall_id multi_dur (qnos_time ehi) b2
            else rbind (resolve_num_pairs r inp) (\<lambda>num.
              rfold (pair_tasks pid (rr_callback r) precall_id postcall_id pair_dur (qnos_time ehi))
                [0..num - 1] b2)) (\<lambda>b3.
     Inr (precall_id, postcall_id, b3))))))"

text \<open>\<open>TaskGraphFromBlockBuilder.build\<close>; the counter of the builder outlives the graph.\<close>

definition block_build ::
    "program_instance \<Rightarrow> int \<Rightarrow> ehi_network_info option \<Rightarrow> int \<Rightarrow> (task_graph \<times> int) res" where
  "block_build inst block_index network counter =
     rbind (py_nth (pr_blocks (pi_program inst)) block_index) (\<lambda>block.
     let pid = pi_pid inst; ehi = Some (um_info (pi_unit_module inst)); b0 = ([], counter) in
     case block_typ block of
       CL \<Rightarrow> Inr (new_task pid (HostLocalTask (block_name block)) (cl_duration ehi block) b0)
     | CC \<Rightarrow> rbind (sole_instruction block ReceiveCMsgOp) (\<lambda>_.
         Inr (new_task pid (HostEventTask (block_name block)) (peer_time ehi) b0))
     | QL \<Rightarrow> rbind (sole_instruction block RunSubroutineOp) (\<lambda>instr.
         rbind (routine_duration ehi (pr_local_routines (pi_program inst)) instr) (\<lambda>lr_dur.
         rbind (routine_tasks pid (block_name block) (host_time ehi) lr_dur b0) (\<lambda>(pre, post, b).
         Inr b)))
     | QC \<Rightarrow> rbind (request_tasks (pr_request_routines (pi_program inst)) block pid ehi network
           (Some (pi_inputs inst)) b0) (\<lambda>(pre, post, b). Inr b))"

section \<open>The tasks of a program\<close>

text \<open>\<open>QoalaGraphFromProgramBuilder\<close>: builder, tasks of the blocks so far, last task.\<close>

record program_builder =
  pb_builder :: builder
  pb_block_to_task :: "(string, int) dict"
  pb_prev :: "int option"

definition precede_prev :: "int option \<Rightarrow> int \<Rightarrow> builder \<Rightarrow> builder res" where
  "precede_prev prev i b = (case prev of None \<Rightarrow> Inr b | Some p \<Rightarrow> precede p i b)"

text \<open>The deadlines of a block, relative to the tasks of earlier blocks.\<close>

definition block_rel_deadlines :: "basic_block \<Rightarrow> (string, int) dict \<Rightarrow> (int, real) dict res" where
  "block_rel_deadlines block tasks =
     (case block_deadlines block of
        None \<Rightarrow> Inr []
      | Some dls \<Rightarrow> rbind (rmap (\<lambda>(blk, dl). rbind (dget tasks blk) (\<lambda>t. Inr (t, real_of_int dl))) dls)
          (\<lambda>kvs. Inr (dict_of kvs)))"

definition put_rel_deadlines :: "int \<Rightarrow> (int, real) dict \<Rightarrow> builder \<Rightarrow> builder" where
  "put_rel_deadlines i dls b =
     (fold (\<lambda>(t, d). upd_tinfo i (set_rel_deadline t d)) dls (fst b), snd b)"

definition build_cl ::
    "int \<Rightarrow> ehi_node_info option \<Rightarrow> basic_block \<Rightarrow> program_builder \<Rightarrow> program_builder res" where
  "build_cl pid ehi block s =
     (let i = snd (pb_builder s);
          b1 = new_task pid (HostLocalTask (block_name block)) (cl_duration ehi block) (pb_builder s);
          tasks = dset (block_name block) i (pb_block_to_task s) in
      rbind (precede_prev (pb_prev s) i b1) (\<lambda>b2.
      rbind (block_rel_deadlines block tasks) (\<lambda>dls.
      Inr (s\<lparr>pb_builder := put_rel_deadlines i dls b2, pb_block_to_task := tasks, pb_prev := Some i\<rparr>))))"

definition build_cc ::
    "int \<Rightarrow> ehi_node_info option \<Rightarrow> basic_block \<Rightarrow> program_builder \<Rightarrow> program_builder res" where
  "build_cc pid ehi block s =
     rbind (sole_instruction block ReceiveCMsgOp) (\<lambda>_.
     let i = snd (pb_builder s);
         b1 = new_task pid (HostEventTask (block_name block)) (peer_time ehi) (pb_builder s);
         tasks = dset (block_name block) i (pb_block_to_task s) in
     rbind (precede_prev (pb_prev s) i b1) (\<lambda>b2.
     Inr (s\<lparr>pb_builder := b2, pb_block_to_task := tasks, pb_prev := Some i\<rparr>)))"

definition build_ql ::
    "qoala_program \<Rightarrow> int \<Rightarrow> ehi_node_info option \<Rightarrow> basic_block \<Rightarrow> program_builder \<Rightarrow> program_builder res" where
  "build_ql program pid ehi block s =
     rbind (sole_instruction block RunSubroutineOp) (\<lambda>instr.
     rbind (routine_duration ehi (pr_local_routines program) instr) (\<lambda>lr_dur.
     rbind (block_rel_deadlines block (pb_block_to_task s)) (\<lambda>dls.
     rbind (routine_tasks pid (block_name block) (host_time ehi) lr_dur (pb_builder s)) (\<lambda>(pre, post, b1).
     let b2 = put_rel_deadlines pre dls b1 in
     rbind (precede_prev (pb_prev s) pre b2) (\<lambda>b3.
     Inr (s\<lparr>pb_builder := b3, pb_block_to_task := dset (block_name block) post (pb_block_to_task s),
            pb_prev := Some post\<rparr>))))))"

definition build_qc ::
    "qoala_program \<Rightarrow> int \<Rightarrow> ehi_node_info option \<Rightarrow> ehi_network_info option \<Rightarrow> prog_input option \<Rightarrow>
     basic_block \<Rightarrow> program_builder \<Rightarrow> program_builder res" where
  "build_qc program pid ehi network inp block s =
     rbind (request_tasks (pr_request_routines program) block pid ehi network inp (pb_builder s))
       (\<lambda>(pre, post, b1).
     rbind (precede_prev (pb_prev s) pre b1) (\<lambda>b2.
     Inr (s\<lparr>pb_builder := b2, pb_block_to_task := dset (block_name block) post (pb_block_to_task s),
            pb_prev := Some post\<rparr>)))"

definition build_block ::
    "qoala_program \<Rightarrow> int \<Rightarrow> ehi_node_info option \<Rightarrow> ehi_network_info option \<Rightarrow> prog_input option \<Rightarrow>
     basic_block \<Rightarrow> program_builder \<Rightarrow> program_builder res" where
  "build_block program pid ehi network inp block s =
     (case block_typ block of
        CL \<Rightarrow> build_cl pid ehi block s
      | CC \<Rightarrow> build_cc pid ehi block s
      | QL \<Rightarrow> build_ql program pid ehi block s
      | QC \<Rightarrow> build_qc program pid ehi network inp block s)"

definition from_program ::
    "qoala_program \<Rightarrow> int \<Rightarrow> ehi_node_info option \<Rightarrow> ehi_network_info option \<Rightarrow> int \<Rightarrow>
     prog_input option \<Rightarrow> task_graph res" where
  "from_program program pid ehi network first_task_id inp =
     rbind (rfold (build_block program pid ehi network inp) (pr_blocks program)
       \<lparr>pb_builder = ([], first_task_id), pb_block_to_task = [], pb_prev = None\<rparr>) (\<lambda>s.
     update_successors (fst (pb_builder s)))"


section \<open>What the builders build\<close>

definition wf_b :: "builder \<Rightarrow> bool" where
  "wf_b b \<longleftrightarrow> dict_ok (fst b) \<and> (\<forall>i \<in> set (keys (fst b)). i < snd b) \<and>
     (\<forall>i u. map_of (fst b) i = Some u \<longrightarrow> ti_successors u = [] \<and> distinct (ti_predecessors u))"

text \<open>The task of an ID.\<close>

definition task_at :: "task_graph \<Rightarrow> int \<Rightarrow> qoala_task option" where
  "task_at g i = map_option ti_task (map_of g i)"

lemma new_task_facts:
  assumes "wf_b b" "b' = new_task pid k d b"
  shows "wf_b b'" "keys (fst b') = keys (fst b) @ [snd b]" "edges (fst b') = edges (fst b)"
    "snd b' = snd b + 1" "task_at (fst b') = (task_at (fst b))(snd b \<mapsto> mk_task (snd b) pid k d)"
proof -
  have new: "snd b \<notin> set (keys (fst b))" using assms(1) by (auto simp: wf_b_def)
  have g: "fst b' = dset (snd b) (only_task (mk_task (snd b) pid k d)) (fst b)"
    by (simp add: assms(2) new_task_def add_tasks_def mk_task_def)
  show "snd b' = snd b + 1" by (simp add: assms(2) new_task_def)
  show k: "keys (fst b') = keys (fst b) @ [snd b]" using new unfolding g keys_dset by (rule if_not_P)
  have none: "map_of (fst b) (snd b) = None" using new by (simp add: map_of_eq_None_iff)
  have "preds (fst b') i = preds (fst b) i" for i
    using none by (auto simp: preds_def g only_task_def)
  then show "edges (fst b') = edges (fst b)" by (simp add: edges_def)
  show "task_at (fst b') = (task_at (fst b))(snd b \<mapsto> mk_task (snd b) pid k d)"
    by (auto simp: task_at_def g only_task_def fun_eq_iff)
  have "dict_ok (fst b')" using assms(1) by (simp add: g wf_b_def)
  moreover have "ti_successors u = [] \<and> distinct (ti_predecessors u)" if "map_of (fst b') i = Some u" for i u
    using that assms(1) by (auto simp: g wf_b_def only_task_def split: if_splits)
  moreover have "\<forall>i \<in> set (keys (fst b')). i < snd b'"
    using assms(1) unfolding k \<open>snd b' = snd b + 1\<close> wf_b_def by fastforce
  ultimately show "wf_b b'" unfolding wf_b_def by blast
qed

lemma precede_facts:
  assumes "wf_b b" "precede p i b = Inr b'"
  shows "wf_b b'" "keys (fst b') = keys (fst b)" "edges (fst b') = insert (p, i) (edges (fst b))"
    "snd b' = snd b" "task_at (fst b') = task_at (fst b)"
proof -
  from assms(2) obtain t where t: "map_of (fst b) i = Some t"
    and b': "b' = (upd_tinfo i (add_pred p) (fst b), snd b)"
    by (auto simp: precede_def get_tinfo_def split: option.splits)
  show k: "keys (fst b') = keys (fst b)" by (simp add: b')
  show "snd b' = snd b" by (simp add: b')
  have "preds (fst b') j = (if j = i then insert p (preds (fst b) i) else preds (fst b) j)" for j
    using t by (auto simp: preds_def b' map_of_upd_tinfo add_pred_def)
  then show "edges (fst b') = insert (p, i) (edges (fst b))" by (auto simp: edges_def split: if_splits)
  show "task_at (fst b') = task_at (fst b)"
    using t by (auto simp: task_at_def b' map_of_upd_tinfo add_pred_def fun_eq_iff)
  show "wf_b b'"
    using assms(1) t unfolding wf_b_def k
    by (auto simp: b' map_of_upd_tinfo add_pred_def simp del: set_map)
qed

lemma precede_total: "i \<in> set (keys (fst b)) \<Longrightarrow> \<exists>b'. precede p i b = Inr b'"
  using in_keys_map_of [of i "fst b"] by (auto simp: precede_def get_tinfo_def simp del: set_map)

text \<open>
  Growing a builder by a block: fresh consecutive IDs, and new precedences among them only, each
  towards a later task or towards the post-call task.
\<close>

definition block_edges :: "int \<Rightarrow> int \<Rightarrow> int \<Rightarrow> (int \<times> int) set" where
  "block_edges c c' post =
     {(x, y). c \<le> x \<and> x < c' \<and> c \<le> y \<and> y < c' \<and> x \<noteq> post \<and> (y = post \<or> x < y)}"

definition grown :: "int \<Rightarrow> int \<Rightarrow> builder \<Rightarrow> builder \<Rightarrow> bool" where
  "grown pid post b0 b \<longleftrightarrow> wf_b b \<and> snd b0 \<le> snd b \<and>
     keys (fst b) = keys (fst b0) @ [snd b0..snd b - 1] \<and>
     edges (fst b0) \<subseteq> edges (fst b) \<and>
     edges (fst b) \<subseteq> edges (fst b0) \<union> block_edges (snd b0) (snd b) post \<and>
     (\<forall>i. i < snd b0 \<longrightarrow> task_at (fst b) i = task_at (fst b0) i) \<and>
     (\<forall>i. snd b0 \<le> i \<and> i < snd b \<longrightarrow> (\<exists>t. task_at (fst b) i = Some t \<and> task_id t = i \<and> task_pid t = pid))"

lemma grown_refl: "wf_b b \<Longrightarrow> grown pid post b b"
  by (auto simp: grown_def)

lemma block_edges_mono: "c' \<le> c'' \<Longrightarrow> block_edges c c' post \<subseteq> block_edges c c'' post"
  by (auto simp: block_edges_def)

lemma grown_new_task:
  assumes "grown pid post b0 b"
  shows "grown pid post b0 (new_task pid k d b)"
proof -
  let ?b = "new_task pid k d b"
  have wf: "wf_b b" and g: "snd b0 \<le> snd b" "keys (fst b) = keys (fst b0) @ [snd b0..snd b - 1]"
    using assms by (auto simp: grown_def)
  note f = new_task_facts [OF wf refl, of pid k d]
  have "[snd b0..snd ?b - 1] = [snd b0..snd b - 1] @ [snd b]"
    using g(1) by (simp add: f(4) upto_rec2)
  then have "keys (fst ?b) = keys (fst b0) @ [snd b0..snd ?b - 1]" by (simp add: f(2) g(2))
  moreover have "edges (fst ?b) \<subseteq> edges (fst b0) \<union> block_edges (snd b0) (snd ?b) post"
    using assms block_edges_mono [of "snd b" "snd ?b" "snd b0" post] by (auto simp: grown_def f(3,4))
  ultimately show ?thesis
    using assms f(1) by (auto simp: grown_def f(3,4,5) mk_task_def)
qed

lemma grown_precede:
  assumes "grown pid post b0 b" "precede p i b = Inr b'" "(p, i) \<in> block_edges (snd b0) (snd b) post"
  shows "grown pid post b0 b'"
proof -
  have "wf_b b" using assms(1) by (simp add: grown_def)
  note f = precede_facts [OF this assms(2)]
  show ?thesis using assms(1,3) f(1) by (auto simp: grown_def f(2-5))
qed

lemma grown_key: "grown pid post b0 b \<Longrightarrow> snd b0 \<le> i \<Longrightarrow> i < snd b \<Longrightarrow> i \<in> set (keys (fst b))"
  by (simp add: grown_def)

lemma snd_new_task [simp]: "snd (new_task pid k d b) = snd b + 1"
  by (simp add: new_task_def)

lemma precede_snd: "precede p i b = Inr b' \<Longrightarrow> snd b' = snd b"
  by (auto simp: precede_def)

lemma routine_tasks_grown:
  assumes "wf_b b0"
  shows "\<exists>b. routine_tasks pid name cd ld b0 = Inr (snd b0, snd b0 + 2, b) \<and>
    grown pid (snd b0 + 2) b0 b \<and> snd b = snd b0 + 3 \<and>
    edges (fst b) = edges (fst b0) \<union> {(snd b0, snd b0 + 1), (snd b0 + 1, snd b0 + 2)}"
proof -
  let ?c = "snd b0"
  define b1 where "b1 = new_task pid (PreCallTask name ?c) cd b0"
  define b2 where "b2 = new_task pid (LocalRoutineTask name ?c) ld b1"
  define b3 where "b3 = new_task pid (PostCallTask name ?c) cd b2"
  have g1: "grown pid (?c + 2) b0 b1" unfolding b1_def by (intro grown_new_task grown_refl assms)
  have g2: "grown pid (?c + 2) b0 b2" unfolding b2_def using g1 by (rule grown_new_task)
  have g3: "grown pid (?c + 2) b0 b3" unfolding b3_def using g2 by (rule grown_new_task)
  have s: "snd b1 = ?c + 1" "snd b2 = ?c + 2" "snd b3 = ?c + 3" by (simp_all add: b1_def b2_def b3_def)
  have w: "wf_b b1" "wf_b b2" "wf_b b3" using g1 g2 g3 by (auto simp: grown_def)
  have e: "edges (fst b3) = edges (fst b0)"
    using new_task_facts(3) [OF assms b1_def] new_task_facts(3) [OF w(1) b2_def]
      new_task_facts(3) [OF w(2) b3_def] by simp
  have "?c + 1 \<in> set (keys (fst b3))" by (rule grown_key [OF g3]) (simp_all add: s)
  then obtain b4 where b4: "precede ?c (?c + 1) b3 = Inr b4" using precede_total by blast
  have g4: "grown pid (?c + 2) b0 b4" by (rule grown_precede [OF g3 b4]) (simp add: block_edges_def s)
  note f4 = precede_facts [OF w(3) b4]
  have "?c + 2 \<in> set (keys (fst b4))" by (rule grown_key [OF g4]) (simp_all add: f4(4) s)
  then obtain b5 where b5: "precede (?c + 1) (?c + 2) b4 = Inr b5" using precede_total by blast
  have "grown pid (?c + 2) b0 b5" by (rule grown_precede [OF g4 b5]) (simp add: block_edges_def f4(4) s)
  moreover note f5 = precede_facts [OF f4(1) b5]
  moreover have "routine_tasks pid name cd ld b0 = Inr (?c, ?c + 2, b5)"
    using b4 b5 s by (simp add: routine_tasks_def Let_def add.commute [of 2] b1_def [symmetric] b2_def [symmetric] b3_def [symmetric])
  ultimately show ?thesis by (auto simp: f4 e s)
qed

lemma epr_tasks_grown:
  assumes "grown pid post b0 b" "snd b0 \<le> pre" "pre < snd b" "snd b0 \<le> post" "post < snd b" "pre \<noteq> post"
  shows "\<exists>b'. epr_tasks pid k cb pre post pd cd b = Inr b' \<and> grown pid post b0 b' \<and> snd b < snd b' \<and>
    edges (fst b) \<subseteq> edges (fst b') \<and>
    (\<forall>x. snd b \<le> x \<and> x < snd b' \<longrightarrow> (pre, x) \<in> (edges (fst b'))\<^sup>* \<and> (x, post) \<in> (edges (fst b'))\<^sup>*)"
proof -
  let ?d = "snd b"
  define b1 where "b1 = new_task pid k pd b"
  have g1: "grown pid post b0 b1" unfolding b1_def using assms(1) by (rule grown_new_task)
  have s1: "snd b1 = ?d + 1" by (simp add: b1_def)
  have "?d \<in> set (keys (fst b1))" by (rule grown_key [OF g1]) (use assms in \<open>simp_all add: s1\<close>)
  then obtain b2 where b2: "precede pre ?d b1 = Inr b2" using precede_total by blast
  have g2: "grown pid post b0 b2" by (rule grown_precede [OF g1 b2]) (use assms in \<open>auto simp: block_edges_def s1\<close>)
  have s2: "snd b2 = ?d + 1" using precede_snd [OF b2] s1 by simp
  have w1: "wf_b b1" "wf_b b2" "wf_b b" using assms(1) g1 g2 by (auto simp: grown_def)
  have e1: "edges (fst b1) = edges (fst b)" by (rule new_task_facts(3) [OF w1(3) b1_def])
  note f2 = precede_facts [OF w1(1) b2]
  have pt: "epr_tasks pid k cb pre post pd cd b = (case cb of
        Some c \<Rightarrow> (let b3 = new_task pid c cd b2 in
          rbind (precede ?d (?d + 1) b3) (\<lambda>b4. precede (?d + 1) post b4))
      | None \<Rightarrow> precede ?d post b2)"
    using b2 s2 by (simp add: epr_tasks_def Let_def b1_def [symmetric] split: option.splits)
  show ?thesis
  proof (cases cb)
    case None
    have "post \<in> set (keys (fst b2))" by (rule grown_key [OF g2]) (use assms in \<open>simp_all add: s2\<close>)
    then obtain b3 where b3: "precede ?d post b2 = Inr b3" using precede_total by blast
    have "grown pid post b0 b3" by (rule grown_precede [OF g2 b3]) (use assms in \<open>auto simp: block_edges_def s2\<close>)
    moreover have e: "edges (fst b3) = {(?d, post), (pre, ?d)} \<union> edges (fst b)"
      by (auto simp: precede_facts(3) [OF w1(2) b3] f2(3) e1)
    moreover have "epr_tasks pid k cb pre post pd cd b = Inr b3" unfolding pt by (simp add: None b3)
    moreover have "snd b3 = ?d + 1" using precede_snd [OF b3] s2 by simp
    then have "x = ?d" if "?d \<le> x" "x < snd b3" for x using that by simp
    moreover have "(pre, ?d) \<in> (edges (fst b3))\<^sup>*" "(?d, post) \<in> (edges (fst b3))\<^sup>*" unfolding e by blast+
    ultimately show ?thesis using \<open>snd b3 = ?d + 1\<close> by (intro exI [of _ b3]) auto
  next
    case (Some c)
    define b3 where "b3 = new_task pid c cd b2"
    have g3: "grown pid post b0 b3" unfolding b3_def using g2 by (rule grown_new_task)
    have s3: "snd b3 = ?d + 2" by (simp add: b3_def s2)
    have "?d + 1 \<in> set (keys (fst b3))" by (rule grown_key [OF g3]) (use assms in \<open>simp_all add: s3\<close>)
    then obtain b4 where b4: "precede ?d (?d + 1) b3 = Inr b4" using precede_total by blast
    have g4: "grown pid post b0 b4" by (rule grown_precede [OF g3 b4]) (use assms in \<open>auto simp: block_edges_def s3\<close>)
    have s4: "snd b4 = ?d + 2" using precede_snd [OF b4] s3 by simp
    have "post \<in> set (keys (fst b4))" by (rule grown_key [OF g4]) (use assms in \<open>simp_all add: s4\<close>)
    then obtain b5 where b5: "precede (?d + 1) post b4 = Inr b5" using precede_total by blast
    have "grown pid post b0 b5" by (rule grown_precede [OF g4 b5]) (use assms in \<open>auto simp: block_edges_def s4\<close>)
    moreover have "wf_b b3" "wf_b b4" using g3 g4 by (auto simp: grown_def)
    then have e: "edges (fst b5) = {(?d + 1, post), (?d, ?d + 1), (pre, ?d)} \<union> edges (fst b)"
      by (auto simp: precede_facts(3) [OF _ b5] precede_facts(3) [OF _ b4] new_task_facts(3) [OF w1(2) b3_def] f2(3) e1)
    moreover have "epr_tasks pid k cb pre post pd cd b = Inr b5"
      unfolding pt by (simp add: Some b3_def [symmetric] Let_def b4 b5)
    moreover have s5: "snd b5 = ?d + 2" using precede_snd [OF b5] s4 by simp
    have st: "(pre, ?d) \<in> (edges (fst b5))\<^sup>*" "(?d, ?d + 1) \<in> (edges (fst b5))\<^sup>*"
      "(?d + 1, post) \<in> (edges (fst b5))\<^sup>*" unfolding e by blast+
    note st' = rtrancl_trans [OF st(1,2)] rtrancl_trans [OF st(2,3)]
    have "(pre, x) \<in> (edges (fst b5))\<^sup>* \<and> (x, post) \<in> (edges (fst b5))\<^sup>*"
      if "?d \<le> x" "x < snd b5" for x
    proof -
      from that have "x = ?d \<or> x = ?d + 1" unfolding s5 by auto
      with st st' show ?thesis by blast
    qed
    moreover have "edges (fst b) \<subseteq> edges (fst b5)" unfolding e by blast
    moreover have "?d < snd b5" by (simp add: s5)
    ultimately show ?thesis by blast
  qed
qed

lemma block_edges_acyclic: "acyclic (block_edges c c' post)"
  by (rule acyclicI_order [of _ "\<lambda>x. if x = post then - (max c' (post + 1)) else - x"])
    (auto simp: block_edges_def)

text \<open>Precedences that lead into a disjoint set of new tasks close no cycle.\<close>

lemma acyclic_extend:
  assumes "acyclic E" "E \<subseteq> V \<times> V" "acyclic F" "F \<subseteq> W \<times> W" "V \<inter> W = {}" "C \<subseteq> V \<times> W"
  shows "acyclic (E \<union> F \<union> C)"
proof -
  have "(x, y) \<in> E\<^sup>+ \<and> x \<in> V \<and> y \<in> V \<or> (x, y) \<in> F\<^sup>+ \<and> x \<in> W \<and> y \<in> W \<or> x \<in> V \<and> y \<in> W"
    if "(x, y) \<in> (E \<union> F \<union> C)\<^sup>+" for x y
    using that
  proof (induction rule: trancl_induct)
    case (base y)
    with assms show ?case by auto
  next
    case (step y z)
    from step(2) have "(y, z) \<in> E \<and> y \<in> V \<and> z \<in> V \<or> (y, z) \<in> F \<and> y \<in> W \<and> z \<in> W \<or> y \<in> V \<and> z \<in> W"
      using assms(2,4,6) by blast
    with step(3) assms(5) show ?case by (auto intro: trancl.trancl_into_trancl)
  qed
  with assms(1,3,5) show ?thesis unfolding acyclic_def by blast
qed

text \<open>Every task of a block lies between its first and its last task.\<close>

definition spans :: "int \<Rightarrow> int \<Rightarrow> int \<Rightarrow> builder \<Rightarrow> bool" where
  "spans c pre post b \<longleftrightarrow> (\<forall>x. c \<le> x \<and> x < snd b \<longrightarrow>
     (pre, x) \<in> (edges (fst b))\<^sup>* \<and> (x, post) \<in> (edges (fst b))\<^sup>*)"

text \<open>The request of a routine asks for at least one pair.\<close>

definition some_pair :: "prog_input option \<Rightarrow> request_routine \<Rightarrow> bool" where
  "some_pair inp r \<longleftrightarrow> rr_callback_type r = WAIT_ALL \<or> (\<forall>n. resolve_num_pairs r inp = Inr n \<longrightarrow> 1 \<le> n)"

lemma request_tasks_grown:
  assumes "wf_b b0" "request_tasks routines block pid ehi network inp b0 = Inr (pre, post, b)"
  shows "pre = snd b0 \<and> post = snd b0 + 1 \<and> grown pid post b0 b \<and> snd b0 + 1 < snd b \<and>
    ((\<forall>n r. map_of routines n = Some r \<longrightarrow> some_pair inp r) \<longrightarrow> spans (snd b0) pre post b)"
proof -
  let ?c = "snd b0"
  from assms(2) obtain n r pd md where r: "pre = ?c" "post = ?c + 1"
    "(if rr_callback_type r = WAIT_ALL
      then multi_pair_tasks pid (rr_callback r) ?c (?c + 1) md (qnos_time ehi)
        (new_task pid (PostCallTask (block_name block) ?c) (host_time ehi)
          (new_task pid (PreCallTask (block_name block) ?c) (host_time ehi) b0))
      else rbind (resolve_num_pairs r inp) (\<lambda>num.
        rfold (pair_tasks pid (rr_callback r) ?c (?c + 1) pd (qnos_time ehi)) [0..num - 1]
          (new_task pid (PostCallTask (block_name block) ?c) (host_time ehi)
            (new_task pid (PreCallTask (block_name block) ?c) (host_time ehi) b0)))) = Inr b"
    "map_of routines n = Some r"
    by (auto simp: request_tasks_def Let_def simp del: split_paired_Ex cong: if_cong)
  let ?P = "\<lambda>x. grown pid (?c + 1) b0 x \<and> ?c + 1 < snd x \<and> spans (?c + 2) ?c (?c + 1) x"
  define b2 where "b2 = new_task pid (PostCallTask (block_name block) ?c) (host_time ehi)
          (new_task pid (PreCallTask (block_name block) ?c) (host_time ehi) b0)"
  have "grown pid (?c + 1) b0 b2" unfolding b2_def by (intro grown_new_task grown_refl assms)
  moreover have s2: "snd b2 = ?c + 2" by (simp add: b2_def)
  moreover have "spans (?c + 2) ?c (?c + 1) b2" unfolding spans_def s2 by auto
  ultimately have P2: "?P b2" by simp
  have step: "?P y \<and> snd x < snd y" if "?P x" "epr_tasks pid k cb ?c (?c + 1) d1 d2 x = Inr y" for x y k cb d1 d2
  proof -
    from epr_tasks_grown [of pid "?c + 1" b0 x ?c k cb d1 d2] that have
      y: "grown pid (?c + 1) b0 y" "snd x < snd y" "edges (fst x) \<subseteq> edges (fst y)"
        "\<And>z. snd x \<le> z \<Longrightarrow> z < snd y \<Longrightarrow> (?c, z) \<in> (edges (fst y))\<^sup>* \<and> (z, ?c + 1) \<in> (edges (fst y))\<^sup>*"
      by auto
    have "spans (?c + 2) ?c (?c + 1) y"
      using that(1) y(4) rtrancl_mono [OF y(3)] unfolding spans_def by (meson not_le subsetD)
    with that(1) y show ?thesis by simp
  qed
  have "?P b \<and> (some_pair inp r \<longrightarrow> ?c + 2 < snd b)"
  proof (cases "rr_callback_type r = WAIT_ALL")
    case True
    with r(3) have "multi_pair_tasks pid (rr_callback r) ?c (?c + 1) md (qnos_time ehi) b2 = Inr b"
      by (simp add: b2_def)
    from step [OF P2 this [unfolded multi_pair_tasks_def]] show ?thesis by (simp add: s2)
  next
    case False
    with r(3) obtain num where num: "resolve_num_pairs r inp = Inr num"
      "rfold (pair_tasks pid (rr_callback r) ?c (?c + 1) pd (qnos_time ehi)) [0..num - 1] b2 = Inr b"
      by (auto simp: b2_def)
    have step': "?P y \<and> snd x < snd y"
      if "?P x" "pair_tasks pid (rr_callback r) ?c (?c + 1) pd (qnos_time ehi) i x = Inr y" for i x y
      using that(2) unfolding pair_tasks_def by (rule step [OF that(1)])
    have b: "?P b" using num(2) P2 by (rule rfold_invariant) (use step' in blast)
    moreover have "?c + 2 < snd b" if "1 \<le> num"
    proof -
      from that have "[0..num - 1] = 0 # [1..num - 1]" by (simp add: upto_rec1)
      with num(2) obtain b3 where b3: "pair_tasks pid (rr_callback r) ?c (?c + 1) pd (qnos_time ehi) 0 b2 = Inr b3"
        "rfold (pair_tasks pid (rr_callback r) ?c (?c + 1) pd (qnos_time ehi)) [1..num - 1] b3 = Inr b"
        by auto
      from step' [OF P2 b3(1)] have "?P b3 \<and> ?c + 2 < snd b3" by (simp add: s2)
      with b3(2) have "?P b \<and> ?c + 2 < snd b"
        by (rule rfold_invariant) (meson step' order.strict_trans)
      then show ?thesis by simp
    qed
    ultimately show ?thesis using num(1) False by (auto simp: some_pair_def)
  qed
  then have b: "?P b" "some_pair inp r \<Longrightarrow> ?c + 2 < snd b" by blast+
  have "spans ?c ?c (?c + 1) b" if "some_pair inp r"
  proof -
    from b(1) b(2) [OF that] have "(?c, ?c + 2) \<in> (edges (fst b))\<^sup>*" "(?c + 2, ?c + 1) \<in> (edges (fst b))\<^sup>*"
      by (auto simp: spans_def)
    then have "(?c, ?c + 1) \<in> (edges (fst b))\<^sup>*" by (rule rtrancl_trans)
    moreover have "x = ?c \<or> x = ?c + 1 \<or> ?c + 2 \<le> x" if "?c \<le> x" for x using that by auto
    ultimately show ?thesis using b(1) unfolding spans_def by blast
  qed
  with r b(1) show ?thesis by auto
qed

end
