(* ===== verification/HostProc.thy ===== *)
theory HostProc
  imports MsgBuffer Process TaskBuild
begin

text \<open>
  The Host of a node: classical sockets (\<open>qoala/sim/host/csocket.py\<close>), the part of
  \<open>HostInterface\<close> that the processor uses (\<open>qoala/sim/host/hostinterface.py\<close>) and the
  \<open>HostProcessor\<close> (\<open>qoala/sim/host/hostprocessor.py\<close>), which executes the instructions of
  classical blocks and prepares and finishes the calls of routines. A process is passed in and
  returned; what the Host keeps itself is its inbox with the clock, the jumps requested by the
  running program instances, and the messages it has sent.
\<close>

section \<open>The Host\<close>

text \<open>The contents of messages between hosts.\<close>

datatype host_content = IntMsg int | StrMsg string | FloatMsg real

record host_latencies =
  hl_instr_time :: real
  hl_peer_latency :: real

definition host_all_zero :: host_latencies where
  "host_all_zero = \<lparr>hl_instr_time = 0, hl_peer_latency = 0\<rparr>"

record host =
  hs_latencies :: host_latencies
  hs_inbox :: "host_content inbox"
  hs_jumps :: "(int, int) dict"
  hs_sent :: "(string \<times> host_content message) list"

definition peer_listener :: "string \<Rightarrow> string" where
  "peer_listener peer = ''peer_'' @ peer"

text \<open>
  A peer that the Host has no port for is a \<open>KeyError\<close>. There is one listener and one output
  port per peer, so the listeners tell the peers.
\<close>

definition send_peer_msg :: "string \<Rightarrow> host_content message \<Rightarrow> host \<Rightarrow> host res" where
  "send_peer_msg peer m h =
     rbind (ensure (dhas (ib_listeners (hs_inbox h)) (peer_listener peer)) KeyError) (\<lambda>_.
     Inr (h\<lparr>hs_sent := hs_sent h @ [(peer, m)]\<rparr>))"

definition get_available_messages :: "string \<Rightarrow> host \<Rightarrow> (int \<times> int) list res" where
  "get_available_messages peer h =
     rbind (dget (ib_listeners (hs_inbox h)) (peer_listener peer)) (\<lambda>b. Inr (get_all b))"

definition host_wait_for_msg :: "string \<Rightarrow> host \<Rightarrow> host res" where
  "host_wait_for_msg peer h =
     rbind (wait_for_msg (peer_listener peer) (hs_inbox h)) (\<lambda>ib. Inr (h\<lparr>hs_inbox := ib\<rparr>))"

definition host_pop_msg :: "string \<Rightarrow> int \<Rightarrow> int \<Rightarrow> host \<Rightarrow> (host_content message \<times> host) res" where
  "host_pop_msg peer src dst h =
     rbind (ib_pop_msg (peer_listener peer) src dst (hs_inbox h)) (\<lambda>(m, ib).
     Inr (m, h\<lparr>hs_inbox := ib\<rparr>))"

definition receive_peer_msg :: "string \<Rightarrow> host \<Rightarrow> (host_content message \<times> host) res" where
  "receive_peer_msg peer h =
     rbind (wait_for_msg (peer_listener peer) (hs_inbox h)) (\<lambda>ib.
     rbind (ib_pop_any_msg (peer_listener peer) ib) (\<lambda>(m, ib').
     Inr (m, h\<lparr>hs_inbox := ib'\<rparr>)))"

definition host_wait :: "real \<Rightarrow> host \<Rightarrow> host" where
  "host_wait d h = h\<lparr>hs_inbox := ib_wait d (hs_inbox h)\<rparr>"

definition set_jump :: "int \<Rightarrow> int \<Rightarrow> host \<Rightarrow> host" where
  "set_jump pid b h = h\<lparr>hs_jumps := dset pid b (hs_jumps h)\<rparr>"

abbreviation host_now :: "host \<Rightarrow> real" where
  "host_now h \<equiv> ib_now (hs_inbox h)"

abbreviation instr_time :: "host \<Rightarrow> real" where
  "instr_time h \<equiv> hl_instr_time (hs_latencies h)"

section \<open>Classical sockets\<close>

definition ck_send :: "csocket \<Rightarrow> host_content message \<Rightarrow> host \<Rightarrow> host res" where
  "ck_send c m = send_peer_msg (ck_remote_name c) m"

definition ck_recv :: "csocket \<Rightarrow> host \<Rightarrow> (host_content message \<times> host) res" where
  "ck_recv c = receive_peer_msg (ck_remote_name c)"

definition ck_read :: "csocket \<Rightarrow> host \<Rightarrow> (host_content message \<times> host) res" where
  "ck_read c = host_pop_msg (ck_remote_name c) (ck_pid c) (ck_remote_pid c)"

definition ck_message :: "csocket \<Rightarrow> host_content \<Rightarrow> host_content message" where
  "ck_message c v = \<lparr>src_pid = ck_pid c, dst_pid = ck_remote_pid c, content = v\<rparr>"

text \<open>\<open>assert isinstance(msg.content, ...)\<close>\<close>

fun content_str :: "host_content \<Rightarrow> string res" where
  "content_str (StrMsg s) = Inr s"
| "content_str c = Inl AssertionError"

fun content_int :: "host_content \<Rightarrow> int res" where
  "content_int (IntMsg i) = Inr i"
| "content_int c = Inl AssertionError"

fun content_float :: "host_content \<Rightarrow> real res" where
  "content_float (FloatMsg x) = Inr x"
| "content_float c = Inl AssertionError"

definition ck_send_str :: "csocket \<Rightarrow> string \<Rightarrow> host \<Rightarrow> host res" where
  "ck_send_str c s = ck_send c (ck_message c (StrMsg s))"

definition ck_recv_str :: "csocket \<Rightarrow> host \<Rightarrow> (string \<times> host) res" where
  "ck_recv_str c h = rbind (ck_recv c h) (\<lambda>(m, h'). rbind (content_str (content m)) (\<lambda>s. Inr (s, h')))"

definition ck_read_str :: "csocket \<Rightarrow> host \<Rightarrow> (string \<times> host) res" where
  "ck_read_str c h = rbind (ck_read c h) (\<lambda>(m, h'). rbind (content_str (content m)) (\<lambda>s. Inr (s, h')))"

definition ck_send_int :: "csocket \<Rightarrow> int \<Rightarrow> host \<Rightarrow> host res" where
  "ck_send_int c v = ck_send c (ck_message c (IntMsg v))"

definition ck_recv_int :: "csocket \<Rightarrow> host \<Rightarrow> (int \<times> host) res" where
  "ck_recv_int c h = rbind (ck_recv c h) (\<lambda>(m, h'). rbind (content_int (content m)) (\<lambda>v. Inr (v, h')))"

definition ck_read_int :: "csocket \<Rightarrow> host \<Rightarrow> (int \<times> host) res" where
  "ck_read_int c h = rbind (ck_read c h) (\<lambda>(m, h'). rbind (content_int (content m)) (\<lambda>v. Inr (v, h')))"

definition ck_send_float :: "csocket \<Rightarrow> real \<Rightarrow> host \<Rightarrow> host res" where
  "ck_send_float c v = ck_send c (ck_message c (FloatMsg v))"

definition ck_recv_float :: "csocket \<Rightarrow> host \<Rightarrow> (real \<times> host) res" where
  "ck_recv_float c h = rbind (ck_recv c h) (\<lambda>(m, h'). rbind (content_float (content m)) (\<lambda>v. Inr (v, h')))"

definition ck_read_float :: "csocket \<Rightarrow> host \<Rightarrow> (real \<times> host) res" where
  "ck_read_float c h = rbind (ck_read c h) (\<lambda>(m, h'). rbind (content_float (content m)) (\<lambda>v. Inr (v, h')))"

section \<open>Operands\<close>

fun read_operand :: "iqoala_var \<Rightarrow> host_memory \<Rightarrow> int res" where
  "read_operand (IqoalaSingleton n) m = host_read n m"
| "read_operand (IqoalaVectorElement n i) m = rbind (host_read_vec n m) (\<lambda>vs. py_nth vs i)"
| "read_operand (IqoalaVector n s) m = Inl AttributeError"
| "read_operand (IqoalaTuple vs) m = Inl AttributeError"

text \<open>The argument at a position, which must be a singleton or a vector element.\<close>

definition operand :: "iqoala_op \<Rightarrow> nat \<Rightarrow> iqoala_var res" where
  "operand x i =
     rbind (py_nth (op_arguments x) (int i)) (\<lambda>a. rbind (py_assert (is_operand a)) (\<lambda>_. Inr a))"

text \<open>The result variable, which must be a singleton.\<close>

definition result_name :: "iqoala_op \<Rightarrow> string res" where
  "result_name x = (case op_results x of Some (IqoalaSingleton n) \<Rightarrow> Inr n | _ \<Rightarrow> Inl AssertionError)"

definition int_attribute :: "iqoala_op \<Rightarrow> int res" where
  "int_attribute x = rbind (py_nth (op_attributes x) 0) (\<lambda>v. case v of IntV i \<Rightarrow> Inr i | _ \<Rightarrow> Inl AssertionError)"

definition str_attribute :: "iqoala_op \<Rightarrow> string res" where
  "str_attribute x = rbind (py_nth (op_attributes x) 0) (\<lambda>v. case v of StrV s \<Rightarrow> Inr s | _ \<Rightarrow> Inl AssertionError)"

definition write_var :: "string \<Rightarrow> int \<Rightarrow> qoala_process \<Rightarrow> qoala_process" where
  "write_var n v p = set_host_mem (host_write n v (pc_host_mem p)) p"

definition write_vec :: "string \<Rightarrow> int list \<Rightarrow> qoala_process \<Rightarrow> qoala_process" where
  "write_vec n vs p = set_host_mem (host_write_vec n vs (pc_host_mem p)) p"

definition initialize :: "qoala_process \<Rightarrow> qoala_process" where
  "initialize p = fold (\<lambda>(n, v). write_var n v) (pc_inputs p) p"

section \<open>Executing an instruction\<close>

text \<open>
  The duration of an instruction is simulated in two halves, before it reads and before it
  writes. Each class of instructions is one definition; the branch of \<open>assign_instr\<close> that has
  it is the source of the definition.
\<close>

definition half_wait :: "host \<Rightarrow> host" where
  "half_wait h = host_wait (instr_time h / 2) h"

definition rest_wait :: "host \<Rightarrow> host" where
  "rest_wait h = host_wait (instr_time h - instr_time h / 2) h"

definition exec_assign :: "iqoala_op \<Rightarrow> qoala_process \<Rightarrow> host \<Rightarrow> (qoala_process \<times> host) res" where
  "exec_assign x p h =
     (let h1 = half_wait h in
      rbind (int_attribute x) (\<lambda>value.
      rbind (result_name x) (\<lambda>loc.
      Inr (write_var loc value p, rest_wait h1))))"

fun busy_value :: "iqoala_value \<Rightarrow> host_memory \<Rightarrow> int res" where
  "busy_value (IntV i) m = Inr i"
| "busy_value (StrV s) m = host_read s m"
| "busy_value (TemplV t) m = Inl KeyError"

definition exec_busy :: "iqoala_op \<Rightarrow> qoala_process \<Rightarrow> host \<Rightarrow> (qoala_process \<times> host) res" where
  "exec_busy x p h =
     rbind (py_nth (op_attributes x) 0) (\<lambda>v.
     rbind (busy_value v (pc_host_mem p)) (\<lambda>value.
     Inr (p, host_wait (real_of_int value) h)))"

definition exec_send :: "iqoala_op \<Rightarrow> qoala_process \<Rightarrow> host \<Rightarrow> (qoala_process \<times> host) res" where
  "exec_send x p h =
     rbind (operand x 0) (\<lambda>a0.
     rbind (operand x 1) (\<lambda>a1.
     rbind (read_operand a0 (pc_host_mem p)) (\<lambda>csck_id.
     rbind (dget (pc_csockets p) csck_id) (\<lambda>csck.
     rbind (read_operand a1 (pc_host_mem p)) (\<lambda>value.
     rbind (ck_send_int csck value h) (\<lambda>h1.
     Inr (p, host_wait (instr_time h) h1)))))))"

text \<open>
  The message is read at once when one from the partner process is there already, and is
  otherwise whatever arrives first from that peer.
\<close>

definition exec_recv :: "iqoala_op \<Rightarrow> qoala_process \<Rightarrow> host \<Rightarrow> (qoala_process \<times> host) res" where
  "exec_recv x p h =
     rbind (operand x 0) (\<lambda>a0.
     rbind (result_name x) (\<lambda>loc.
     rbind (read_operand a0 (pc_host_mem p)) (\<lambda>csck_id.
     rbind (dget (pc_csockets p) csck_id) (\<lambda>csck.
     rbind (get_available_messages (ck_remote_name csck) h) (\<lambda>available.
     rbind (if (ck_remote_pid csck, pc_pid p) \<notin> set available
            then ck_recv_int csck h else ck_read_int csck h) (\<lambda>(msg, h1).
     let h2 = host_wait (hl_peer_latency (hs_latencies h1)) h1 in
     Inr (write_var loc msg p, h2)))))))"

definition exec_add :: "iqoala_op \<Rightarrow> qoala_process \<Rightarrow> host \<Rightarrow> (qoala_process \<times> host) res" where
  "exec_add x p h =
     (let h1 = half_wait h in
      rbind (operand x 0) (\<lambda>a0.
      rbind (operand x 1) (\<lambda>a1.
      rbind (read_operand a0 (pc_host_mem p)) (\<lambda>arg0.
      rbind (read_operand a1 (pc_host_mem p)) (\<lambda>arg1.
      rbind (result_name x) (\<lambda>loc.
      Inr (write_var loc (arg0 + arg1) p, rest_wait h1)))))))"

definition exec_mult :: "iqoala_op \<Rightarrow> qoala_process \<Rightarrow> host \<Rightarrow> (qoala_process \<times> host) res" where
  "exec_mult x p h =
     (let h1 = half_wait h in
      rbind (operand x 0) (\<lambda>a0.
      rbind (read_operand a0 (pc_host_mem p)) (\<lambda>arg0.
      rbind (int_attribute x) (\<lambda>const.
      rbind (result_name x) (\<lambda>loc.
      Inr (write_var loc (arg0 * const) p, rest_wait h1))))))"

definition exec_bcond_mult :: "iqoala_op \<Rightarrow> qoala_process \<Rightarrow> host \<Rightarrow> (qoala_process \<times> host) res" where
  "exec_bcond_mult x p h =
     (let h1 = half_wait h in
      rbind (operand x 0) (\<lambda>a0.
      rbind (operand x 1) (\<lambda>a1.
      rbind (read_operand a0 (pc_host_mem p)) (\<lambda>arg0.
      rbind (read_operand a1 (pc_host_mem p)) (\<lambda>cnd.
      rbind (int_attribute x) (\<lambda>const.
      rbind (result_name x) (\<lambda>loc.
      Inr (write_var loc (if cnd = 1 then arg0 * const else arg0) p, rest_wait h1))))))))"

definition set_result :: "string \<Rightarrow> prog_value \<Rightarrow> qoala_process \<Rightarrow> qoala_process" where
  "set_result n v p = p\<lparr>pc_result := dset n v (pc_result p)\<rparr>"

fun return_value :: "iqoala_var \<Rightarrow> host_memory \<Rightarrow> (string \<times> prog_value) res" where
  "return_value (IqoalaSingleton loc) m = rbind (host_read loc m) (\<lambda>v. Inr (loc, IntResult v))"
| "return_value (IqoalaVector loc s) m = rbind (host_read_vec loc m) (\<lambda>vs. Inr (loc, VecResult vs))"
| "return_value a m = Inl AssertionError"

definition exec_return :: "iqoala_op \<Rightarrow> qoala_process \<Rightarrow> host \<Rightarrow> (qoala_process \<times> host) res" where
  "exec_return x p h =
     (let h1 = half_wait h in
      rbind (py_nth (op_arguments x) 0) (\<lambda>a.
      rbind (return_value a (pc_host_mem p)) (\<lambda>(loc, v).
      Inr (set_result loc v p, rest_wait h1))))"

definition exec_jump :: "iqoala_op \<Rightarrow> qoala_process \<Rightarrow> host \<Rightarrow> (qoala_process \<times> host) res" where
  "exec_jump x p h =
     (let h1 = half_wait h in
      rbind (str_attribute x) (\<lambda>name.
      rbind (get_block_id (pc_program p) name) (\<lambda>b.
      Inr (p, rest_wait (set_jump (pc_pid p) b h1)))))"

text \<open>\<open>_branch\<close>\<close>

definition exec_branch :: "(int \<Rightarrow> int \<Rightarrow> bool) \<Rightarrow> iqoala_op \<Rightarrow> qoala_process \<Rightarrow> host \<Rightarrow> (qoala_process \<times> host) res" where
  "exec_branch cmp x p h =
     (let h1 = half_wait h in
      rbind (operand x 0) (\<lambda>a0.
      rbind (operand x 1) (\<lambda>a1.
      rbind (read_operand a0 (pc_host_mem p)) (\<lambda>value0.
      rbind (read_operand a1 (pc_host_mem p)) (\<lambda>value1.
      rbind (str_attribute x) (\<lambda>name.
      rbind (if cmp value0 value1
             then rbind (get_block_id (pc_program p) name) (\<lambda>b. Inr (set_jump (pc_pid p) b h1))
             else Inr h1) (\<lambda>h2.
      Inr (p, rest_wait h2))))))))"

text \<open>
  \<open>assign_instr\<close>: a jump request of the process is withdrawn, then the class of the instruction
  decides. Calls of routines are not executed here.
\<close>

definition exec_op :: "iqoala_op \<Rightarrow> qoala_process \<Rightarrow> host \<Rightarrow> (qoala_process \<times> host) res" where
  "exec_op x = (case op_class x of
       AssignCValueOp \<Rightarrow> exec_assign x
     | BusyOp \<Rightarrow> exec_busy x
     | SendCMsgOp \<Rightarrow> exec_send x
     | ReceiveCMsgOp \<Rightarrow> exec_recv x
     | AddCValueOp \<Rightarrow> exec_add x
     | MultiplyConstantCValueOp \<Rightarrow> exec_mult x
     | BitConditionalMultiplyConstantCValueOp \<Rightarrow> exec_bcond_mult x
     | ReturnResultOp \<Rightarrow> exec_return x
     | JumpOp \<Rightarrow> exec_jump x
     | BranchIfEqualOp \<Rightarrow> exec_branch (=) x
     | BranchIfNotEqualOp \<Rightarrow> exec_branch (\<noteq>) x
     | BranchIfLessThanOp \<Rightarrow> exec_branch (<) x
     | BranchIfGreaterThanOp \<Rightarrow> exec_branch (>) x
     | RunSubroutineOp \<Rightarrow> (\<lambda>p h. Inr (p, h))
     | RunRequestOp \<Rightarrow> (\<lambda>p h. Inr (p, h)))"

definition assign_instr :: "iqoala_op \<Rightarrow> qoala_process \<Rightarrow> host \<Rightarrow> (qoala_process \<times> host) res" where
  "assign_instr x p h = exec_op x p (set_jump (pc_pid p) (- 1) h)"

definition assign_instr_index :: "int \<Rightarrow> qoala_process \<Rightarrow> host \<Rightarrow> (qoala_process \<times> host) res" where
  "assign_instr_index i p h =
     rbind (py_nth (program_instructions (pc_program p)) i) (\<lambda>x. assign_instr x p h)"

text \<open>\<open>assign_block\<close>: the loop leaves after an instruction that requested a jump.\<close>

fun run_instrs :: "iqoala_op list \<Rightarrow> qoala_process \<Rightarrow> host \<Rightarrow> (qoala_process \<times> host) res" where
  "run_instrs [] p h = Inr (p, h)"
| "run_instrs (x # xs) p h =
     rbind (assign_instr x p h) (\<lambda>(p', h').
     rbind (dget (hs_jumps h') (pc_pid p')) (\<lambda>j.
     if j \<noteq> - 1 then Inr (p', h') else run_instrs xs p' h'))"

definition assign_block :: "string \<Rightarrow> qoala_process \<Rightarrow> host \<Rightarrow> (qoala_process \<times> host) res" where
  "assign_block name p h =
     rbind (get_block (pc_program p) name) (\<lambda>b. run_instrs (block_instructions b) p h)"

section \<open>Calling routines\<close>

fun result_size :: "prog_input option \<Rightarrow> iqoala_var option \<Rightarrow> int res" where
  "result_size inp None = Inr 0"
| "result_size inp (Some (IqoalaTuple vs)) = Inr (int (length vs))"
| "result_size inp (Some (IqoalaVector n s)) =
     (case s of
        IntV k \<Rightarrow> Inr k
      | _ \<Rightarrow> (case inp of
          None \<Rightarrow> Inl AssertionError
        | Some vals \<Rightarrow> (case s of StrV v \<Rightarrow> dget vals v | _ \<Rightarrow> Inl KeyError)))"
| "result_size inp (Some (IqoalaSingleton n)) = Inr 1"
| "result_size inp (Some (IqoalaVectorElement n i)) = Inl RuntimeError"

text \<open>The names of the argument tuple, and \<open>{arg: host_mem.read(arg) for arg in args}\<close>.\<close>

definition call_arguments :: "iqoala_op \<Rightarrow> string list res" where
  "call_arguments x = rbind (py_nth (op_arguments x) 0) (\<lambda>a.
     case a of IqoalaTuple vs \<Rightarrow> Inr vs | _ \<Rightarrow> Inl AssertionError)"

definition arg_values :: "string list \<Rightarrow> host_memory \<Rightarrow> (string, int) dict res" where
  "arg_values args m =
     rbind (rmap (\<lambda>a. rbind (host_read a m) (\<lambda>v. Inr (a, v))) args) (\<lambda>kvs. Inr (dict_of kvs))"

definition prepare_lr_call :: "qoala_process \<Rightarrow> iqoala_op \<Rightarrow> (lr_call_tuple \<times> qoala_process) res" where
  "prepare_lr_call p x =
     rbind (call_arguments x) (\<lambda>args.
     rbind (str_attribute x) (\<lambda>name.
     rbind (get_local_routine p name) (\<lambda>routine.
     rbind (arg_values args (pc_host_mem p)) (\<lambda>vals.
     rbind (allocate_lr_in (int (length vals)) (pc_shared_mem p)) (\<lambda>(input_addr, m1).
     rbind (write_lr_in input_addr (map snd vals) 0 m1) (\<lambda>m2.
     rbind (result_size None (op_results x)) (\<lambda>len.
     rbind (lr_get_return_size routine) (\<lambda>k.
     rbind (py_assert (len = k)) (\<lambda>_.
     rbind (allocate_lr_out len m2) (\<lambda>(result_addr, m3).
     Inr (\<lparr>lc_routine_name = name, lc_input_addr = input_addr, lc_result_addr = result_addr\<rparr>,
          set_shared_mem m3 p)))))))))))"

text \<open>\<open>for value, var in zip(result, names)\<close>\<close>

definition write_vars :: "string list \<Rightarrow> int list \<Rightarrow> qoala_process \<Rightarrow> qoala_process" where
  "write_vars names vs p = fold (\<lambda>(v, n). write_var n v) (zip vs names) p"

text \<open>With a single result variable the loop runs over the characters of its name.\<close>

definition post_lr_call :: "qoala_process \<Rightarrow> iqoala_op \<Rightarrow> lr_call_tuple \<Rightarrow> qoala_process res" where
  "post_lr_call p x c =
     rbind (result_size None (op_results x)) (\<lambda>len.
     rbind (read_lr_out (lc_result_addr c) len 0 (pc_shared_mem p)) (\<lambda>result.
     rbind (py_assert (int (length result) = len)) (\<lambda>_.
     case op_results x of
       Some (IqoalaSingleton n) \<Rightarrow> Inr (write_vars (map (\<lambda>ch. [ch]) n) result p)
     | Some (IqoalaTuple names) \<Rightarrow> Inr (write_vars names result p)
     | Some (IqoalaVector n s) \<Rightarrow> Inr (write_vec n result p)
     | None \<Rightarrow> Inr p
     | _ \<Rightarrow> Inl RuntimeError)))"

text \<open>Memory for one callback: its inputs and its results.\<close>

definition alloc_callback ::
    "local_routine \<Rightarrow> mem_addr list \<times> mem_addr list \<times> int \<times> shared_memory \<Rightarrow>
     (mem_addr list \<times> mem_addr list \<times> int \<times> shared_memory) res" where
  "alloc_callback cb s = (case s of (ins, outs, tot, m) \<Rightarrow>
     rbind (allocate_cr_in (int (length (sub_arguments (lr_subroutine cb)))) m) (\<lambda>(a, m1).
     rbind (lr_get_return_size cb) (\<lambda>k.
     rbind (allocate_lr_out k m1) (\<lambda>(b, m2).
     Inr (ins @ [a], outs @ [b], tot + k, m2)))))"

definition alloc_callbacks ::
    "qoala_process \<Rightarrow> request_routine \<Rightarrow> int \<Rightarrow> shared_memory \<Rightarrow>
     (mem_addr list \<times> mem_addr list \<times> int \<times> shared_memory) res" where
  "alloc_callbacks p routine num_pairs m =
     (case rr_callback routine of
        None \<Rightarrow> Inr ([], [], 0, m)
      | Some cb_name \<Rightarrow>
          rbind (get_local_routine p cb_name) (\<lambda>cb.
          if rr_callback_type routine = SEQUENTIAL
          then rfold (\<lambda>_. alloc_callback cb) [0..num_pairs - 1] ([], [], 0, m)
          else alloc_callback cb ([], [], 0, m)))"

definition prepare_rr_call :: "qoala_process \<Rightarrow> iqoala_op \<Rightarrow> (rr_call_tuple \<times> qoala_process) res" where
  "prepare_rr_call p x =
     rbind (call_arguments x) (\<lambda>args.
     rbind (str_attribute x) (\<lambda>name.
     rbind (get_request_routine p name) (\<lambda>routine.
     rbind (arg_values args (pc_host_mem p)) (\<lambda>vals.
     rbind (allocate_rr_in (int (length vals)) (pc_shared_mem p)) (\<lambda>(input_addr, m1).
     rbind (write_rr_in input_addr (map snd vals) 0 m1) (\<lambda>m2.
     rbind (resolve_num_pairs routine (Some (pc_inputs p))) (\<lambda>num_pairs.
     rbind (alloc_callbacks p routine num_pairs m2) (\<lambda>(ins, outs, tot, m3).
     rbind (rr_get_return_size (Some (pc_inputs p)) routine) (\<lambda>k.
     rbind (allocate_rr_out k m3) (\<lambda>(result_addr, m4).
     rbind (result_size (Some (pc_inputs p)) (op_results x)) (\<lambda>len.
     rbind (py_assert (len = tot + k)) (\<lambda>_.
     Inr (\<lparr>rc_routine_name = name, rc_input_addr = input_addr, rc_result_addr = result_addr,
            rc_cb_input_addrs = ins, rc_cb_output_addrs = outs\<rparr>, set_shared_mem m4 p)))))))))))))"

definition read_callback :: "qoala_process \<Rightarrow> local_routine \<Rightarrow> rr_call_tuple \<Rightarrow> int \<Rightarrow> int list res" where
  "read_callback p cb c i =
     rbind (lr_get_return_size cb) (\<lambda>k.
     rbind (py_nth (rc_cb_output_addrs c) i) (\<lambda>a. read_lr_out a k 0 (pc_shared_mem p)))"

definition read_callbacks :: "qoala_process \<Rightarrow> request_routine \<Rightarrow> int \<Rightarrow> rr_call_tuple \<Rightarrow> int list res" where
  "read_callbacks p routine num_pairs c =
     (case rr_callback routine of
        None \<Rightarrow> Inr []
      | Some cb_name \<Rightarrow>
          rbind (get_local_routine p cb_name) (\<lambda>cb.
          if rr_callback_type routine = SEQUENTIAL
          then rbind (rmap (read_callback p cb c) [0..num_pairs - 1]) (\<lambda>rs. Inr (concat rs))
          else read_callback p cb c 0))"

definition post_rr_call :: "qoala_process \<Rightarrow> iqoala_op \<Rightarrow> rr_call_tuple \<Rightarrow> qoala_process res" where
  "post_rr_call p x c =
     rbind (get_request_routine p (rc_routine_name c)) (\<lambda>routine.
     rbind (resolve_num_pairs routine (Some (pc_inputs p))) (\<lambda>num_pairs.
     rbind (rr_get_return_size (Some (pc_inputs p)) routine) (\<lambda>k.
     rbind (read_rr_out (rc_result_addr c) k 0 (pc_shared_mem p)) (\<lambda>rr_result.
     rbind (read_callbacks p routine num_pairs c) (\<lambda>cb_results.
     let all_results = rr_result @ cb_results in
     rbind (result_size (Some (pc_inputs p)) (op_results x)) (\<lambda>len.
     rbind (py_assert (int (length all_results) = len)) (\<lambda>_.
     case op_results x of
       Some (IqoalaSingleton n) \<Rightarrow> rbind (py_nth all_results 0) (\<lambda>v. Inr (write_var n v p))
     | Some (IqoalaTuple names) \<Rightarrow> Inr (write_vars names all_results p)
     | Some (IqoalaVector n s) \<Rightarrow> Inr (write_vec n all_results p)
     | None \<Rightarrow> Inr p
     | _ \<Rightarrow> Inl RuntimeError)))))))"

end
