(* ===== verification/TaskProgram.thy ===== *)
theory TaskProgram
  imports TaskBuild
begin

text \<open>
  The task graph of a whole program: it is well-formed and without cycles, its tasks carry
  consecutive IDs, and the tasks of a block come after all tasks of the blocks before it.
\<close>

section \<open>Adding one block\<close>

lemma put_rel_deadlines_facts:
  assumes "wf_b b" "b' = put_rel_deadlines i dls b"
  shows "wf_b b'" "keys (fst b') = keys (fst b)" "edges (fst b') = edges (fst b)"
    "snd b' = snd b" "task_at (fst b') = task_at (fst b)"
proof -
  let ?f = "\<lambda>(t, d). upd_tinfo i (set_rel_deadline t d)"
  define same where "same g \<longleftrightarrow> keys g = keys (fst b) \<and> preds g = preds (fst b) \<and>
    task_at g = task_at (fst b) \<and> wf_b (g, snd b)" for g
  have step: "same (?f p g)" if "same g" for p g
  proof -
    obtain t d where p: "p = (t, d)" by (cases p)
    have m: "map_of (?f p g) j = (if j = i then map_option (set_rel_deadline t d) (map_of g i) else map_of g j)" for j
      by (simp add: p map_of_upd_tinfo)
    have "preds (?f p g) j = preds g j" "task_at (?f p g) j = task_at g j" for j
      by (cases "map_of g i"; auto simp: preds_def task_at_def m set_rel_deadline_def)+
    then have "preds (?f p g) = preds g" "task_at (?f p g) = task_at g" by auto
    moreover have k: "keys (?f p g) = keys g" by (simp add: p)
    moreover have "wf_b (?f p g, snd b)"
      using that unfolding same_def wf_b_def fst_conv snd_conv k m by (auto simp: set_rel_deadline_def simp del: set_map)
    ultimately show ?thesis using that by (simp add: same_def)
  qed
  have "same (fold ?f dls g)" if "same g" for g
    using that by (induction dls arbitrary: g) (use step in auto)
  then have "same (fst b')" using assms by (simp add: put_rel_deadlines_def same_def)
  then show "keys (fst b') = keys (fst b)" "edges (fst b') = edges (fst b)" "task_at (fst b') = task_at (fst b)"
    by (auto simp: same_def edges_def)
  show "snd b' = snd b" by (simp add: assms(2) put_rel_deadlines_def)
  then show "wf_b b'" using \<open>same (fst b')\<close> by (simp add: same_def flip: \<open>snd b' = snd b\<close>)
qed

lemma precede_prev_facts:
  assumes "wf_b b" "precede_prev prev i b = Inr b'"
  shows "wf_b b'" "keys (fst b') = keys (fst b)" "snd b' = snd b" "task_at (fst b') = task_at (fst b)"
    "edges (fst b') = edges (fst b) \<union> {(p, i) | p. prev = Some p}"
  using assms precede_facts [OF assms(1)]
  by (auto simp: precede_prev_def split: option.splits)

text \<open>A block grows the builder by its tasks and hangs its first task below the last one before.\<close>

definition appends :: "int \<Rightarrow> bool \<Rightarrow> program_builder \<Rightarrow> program_builder \<Rightarrow> bool" where
  "appends pid paired s s' \<longleftrightarrow> (\<exists>b1 pre post.
     grown pid post (pb_builder s) b1 \<and> {pre, post} \<subseteq> {snd (pb_builder s)..<snd b1} \<and>
     (paired \<longrightarrow> spans (snd (pb_builder s)) pre post b1) \<and>
     wf_b (pb_builder s') \<and> keys (fst (pb_builder s')) = keys (fst b1) \<and> snd (pb_builder s') = snd b1 \<and>
     task_at (fst (pb_builder s')) = task_at (fst b1) \<and>
     edges (fst (pb_builder s')) = edges (fst b1) \<union> {(p, pre) | p. pb_prev s = Some p} \<and>
     pb_prev s' = Some post)"

lemma appendsI:
  assumes "grown pid post (pb_builder s) b1" "{pre, post} \<subseteq> {snd (pb_builder s)..<snd b1}"
    and "paired \<Longrightarrow> spans (snd (pb_builder s)) pre post b1"
    and "precede_prev (pb_prev s) pre (put_rel_deadlines i dls b1) = Inr b2"
    and "b' = put_rel_deadlines j dls' b2" "pb_builder s' = b'" "pb_prev s' = Some post"
  shows "appends pid paired s s'"
proof -
  have "wf_b b1" using assms(1) by (simp add: grown_def)
  note f1 = put_rel_deadlines_facts [OF this refl, of i dls]
  note f2 = precede_prev_facts [OF f1(1) assms(4)]
  note f3 = put_rel_deadlines_facts [OF f2(1) assms(5)]
  from assms(1-3,7) f3(1) show ?thesis
    unfolding appends_def assms(6)
    by (intro exI [of _ b1] exI [of _ pre] exI [of _ post]) (simp add: f1 f2 f3)
qed

lemma put_no_deadlines [simp]: "put_rel_deadlines i [] b = b"
  by (simp add: put_rel_deadlines_def)

lemma build_one_appends:
  assumes "wf_b (pb_builder s)" "b1 = new_task pid k d (pb_builder s)"
    "precede_prev (pb_prev s) (snd (pb_builder s)) b1 = Inr b2"
    "pb_builder s' = put_rel_deadlines (snd (pb_builder s)) dls b2" "pb_prev s' = Some (snd (pb_builder s))"
  shows "appends pid paired s s'"
proof (rule appendsI [where ?b1.0 = b1 and pre = "snd (pb_builder s)" and dls = "[]"])
  show "grown pid (snd (pb_builder s)) (pb_builder s) b1"
    unfolding assms(2) by (intro grown_new_task grown_refl assms)
  show "spans (snd (pb_builder s)) (snd (pb_builder s)) (snd (pb_builder s)) b1"
    unfolding spans_def by (auto simp: assms(2) dest: order.antisym)
qed (use assms in auto)

lemma build_block_appends:
  assumes "wf_b (pb_builder s)" "build_block program pid ehi network inp block s = Inr s'"
  shows "appends pid (\<forall>n r. map_of (pr_request_routines program) n = Some r \<longrightarrow> some_pair inp r) s s'"
proof (cases "block_typ block")
  case CL
  with assms show ?thesis
    by (auto simp: build_block_def build_cl_def Let_def intro!: build_one_appends)
next
  case CC
  with assms(2) obtain b2 where
    "precede_prev (pb_prev s) (snd (pb_builder s))
       (new_task pid (HostEventTask (block_name block)) (peer_time ehi) (pb_builder s)) = Inr b2"
    "pb_builder s' = put_rel_deadlines 0 [] b2" "pb_prev s' = Some (snd (pb_builder s))"
    by (auto simp: build_block_def build_cc_def Let_def)
  with assms(1) show ?thesis by (intro build_one_appends [where dls = "[]"]) auto
next
  case QL
  let ?c = "snd (pb_builder s)"
  from QL assms(2) obtain cd ld pre post b1 b2 dls where
    t: "routine_tasks pid (block_name block) cd ld (pb_builder s) = Inr (pre, post, b1)" and
    p: "precede_prev (pb_prev s) pre (put_rel_deadlines pre dls b1) = Inr b2" and
    s': "pb_builder s' = put_rel_deadlines 0 [] b2" "pb_prev s' = Some post"
    by (auto simp: build_block_def build_ql_def Let_def simp del: split_paired_Ex)
  from routine_tasks_grown [OF assms(1), of pid "block_name block" cd ld] t have
    g: "pre = ?c" "post = ?c + 2" "grown pid (?c + 2) (pb_builder s) b1" "snd b1 = ?c + 3" and
    e: "edges (fst b1) = edges (fst (pb_builder s)) \<union> {(?c, ?c + 1), (?c + 1, ?c + 2)}" by auto
  have st: "(?c, ?c + 1) \<in> (edges (fst b1))\<^sup>*" "(?c + 1, ?c + 2) \<in> (edges (fst b1))\<^sup>*" unfolding e by blast+
  have "spans ?c ?c (?c + 2) b1"
    unfolding spans_def
  proof (intro allI impI)
    fix x assume "?c \<le> x \<and> x < snd b1"
    then have "x = ?c \<or> x = ?c + 1 \<or> x = ?c + 2" unfolding g(4) by auto
    with st rtrancl_trans [OF st] show "(?c, x) \<in> (edges (fst b1))\<^sup>* \<and> (x, ?c + 2) \<in> (edges (fst b1))\<^sup>*" by blast
  qed
  then show ?thesis
    using g p s' by (intro appendsI [where ?b1.0 = b1 and pre = pre and post = post and i = pre and dls = dls and dls' = "[]" and j = 0]) auto
next
  case QC
  from QC assms(2) obtain pre post b1 b2 where
    t: "request_tasks (pr_request_routines program) block pid ehi network inp (pb_builder s) = Inr (pre, post, b1)" and
    p: "precede_prev (pb_prev s) pre b1 = Inr b2" and
    s': "pb_builder s' = put_rel_deadlines 0 [] b2" "pb_prev s' = Some post"
    by (auto simp: build_block_def build_qc_def Let_def simp del: split_paired_Ex)
  from request_tasks_grown [OF assms(1) t] p s' show ?thesis
    by (intro appendsI [where ?b1.0 = b1 and pre = pre and post = post and i = 0 and dls = "[]" and dls' = "[]" and j = 0]) auto
qed

section \<open>The invariant of the program builder\<close>

definition pb_inv :: "int \<Rightarrow> int \<Rightarrow> program_builder \<Rightarrow> bool" where
  "pb_inv pid c0 s \<longleftrightarrow> wf_b (pb_builder s) \<and> c0 \<le> snd (pb_builder s) \<and>
     keys (fst (pb_builder s)) = [c0..snd (pb_builder s) - 1] \<and>
     edges (fst (pb_builder s)) \<subseteq> {c0..<snd (pb_builder s)} \<times> {c0..<snd (pb_builder s)} \<and>
     acyclic (edges (fst (pb_builder s))) \<and>
     (\<forall>i \<in> {c0..<snd (pb_builder s)}. \<exists>t. task_at (fst (pb_builder s)) i = Some t \<and> task_id t = i \<and> task_pid t = pid) \<and>
     (\<forall>p. pb_prev s = Some p \<longrightarrow> p \<in> {c0..<snd (pb_builder s)}) \<and>
     (pb_prev s = None \<longrightarrow> c0 = snd (pb_builder s))"

lemma appends_inv:
  assumes "pb_inv pid c0 s" "appends pid paired s s'"
  shows "pb_inv pid c0 s'"
proof -
  let ?c = "snd (pb_builder s)" and ?E = "edges (fst (pb_builder s))"
  from assms(2) obtain b1 pre post where
    g: "grown pid post (pb_builder s) b1" and r: "{pre, post} \<subseteq> {?c..<snd b1}" and
    wf: "wf_b (pb_builder s')" and k: "keys (fst (pb_builder s')) = keys (fst b1)" and
    n: "snd (pb_builder s') = snd b1" and t: "task_at (fst (pb_builder s')) = task_at (fst b1)" and
    e: "edges (fst (pb_builder s')) = edges (fst b1) \<union> {(p, pre) | p. pb_prev s = Some p}" and
    l: "pb_prev s' = Some post" unfolding appends_def by blast
  from assms(1) have i: "c0 \<le> ?c" "keys (fst (pb_builder s)) = [c0..?c - 1]" "?E \<subseteq> {c0..<?c} \<times> {c0..<?c}"
    "acyclic ?E" "\<And>p. pb_prev s = Some p \<Longrightarrow> p \<in> {c0..<?c}"
    "\<And>i. i \<in> {c0..<?c} \<Longrightarrow> \<exists>t. task_at (fst (pb_builder s)) i = Some t \<and> task_id t = i \<and> task_pid t = pid"
    unfolding pb_inv_def by blast+
  let ?B = "block_edges ?c (snd b1) post" and ?C = "{(p, pre) | p. pb_prev s = Some p}"
  have sub: "edges (fst (pb_builder s')) \<subseteq> ?E \<union> ?B \<union> ?C" unfolding e using g by (auto simp: grown_def)
  have B: "?B \<subseteq> {?c..<snd b1} \<times> {?c..<snd b1}" by (auto simp: block_edges_def)
  have C: "?C \<subseteq> {c0..<?c} \<times> {?c..<snd b1}" using i(5) r by blast
  have le: "?c \<le> snd b1" using g by (simp add: grown_def)
  have "acyclic (?E \<union> ?B \<union> ?C)"
    by (rule acyclic_extend [OF i(4,3) block_edges_acyclic B _ C]) auto
  then have ac: "acyclic (edges (fst (pb_builder s')))" using sub by (rule acyclic_subset)
  have "?E \<union> ?B \<union> ?C \<subseteq> {c0..<snd b1} \<times> {c0..<snd b1}"
    using i(1,3) le B C by fastforce
  then have in_range: "edges (fst (pb_builder s')) \<subseteq> {c0..<snd b1} \<times> {c0..<snd b1}" using sub by blast
  have keys: "keys (fst b1) = [c0..snd b1 - 1]"
  proof -
    have "[c0..?c - 1] @ [?c..snd b1 - 1] = [c0..snd b1 - 1]"
      using i(1) le upto_split1 [of c0 ?c "snd b1 - 1"] by (cases "?c = snd b1") auto
    then show ?thesis using g i(2) by (simp add: grown_def)
  qed
  have "\<exists>u. task_at (fst b1) x = Some u \<and> task_id u = x \<and> task_pid u = pid" if "x \<in> {c0..<snd b1}" for x
  proof (cases "x < ?c")
    case True
    with that i(6) [of x] g show ?thesis by (auto simp: grown_def)
  next
    case False
    with that g show ?thesis by (auto simp: grown_def)
  qed
  moreover have "post \<in> {c0..<snd b1}" using r i(1) by auto
  moreover have "c0 \<le> snd b1" using i(1) le by simp
  ultimately show ?thesis
    unfolding pb_inv_def n k t using wf keys in_range ac l by (simp del: set_map)
qed

text \<open>The tasks below \<open>n\<close> all come before the others, and every task leads to the last one.\<close>

definition pb_ordered :: "int \<Rightarrow> int \<Rightarrow> program_builder \<Rightarrow> bool" where
  "pb_ordered c0 n s \<longleftrightarrow> n \<le> snd (pb_builder s) \<and>
     (\<forall>x \<in> {c0..<n}. \<forall>y \<in> {n..<snd (pb_builder s)}. (x, y) \<in> (edges (fst (pb_builder s)))\<^sup>+) \<and>
     (\<forall>x \<in> {c0..<snd (pb_builder s)}. \<exists>p. pb_prev s = Some p \<and> (x, p) \<in> (edges (fst (pb_builder s)))\<^sup>*)"

lemma appends_ordered:
  assumes "pb_ordered c0 n s" "appends pid True s s'"
  shows "pb_ordered c0 n s'"
proof -
  let ?c = "snd (pb_builder s)"
  let ?E = "edges (fst (pb_builder s))" and ?F = "edges (fst (pb_builder s'))"
  from assms(2) obtain b1 pre post where
    g: "grown pid post (pb_builder s) b1" and sp: "spans ?c pre post b1" and r: "pre \<in> {?c..<snd b1}" and
    n: "snd (pb_builder s') = snd b1" and e: "?F = edges (fst b1) \<union> {(p, pre) | p. pb_prev s = Some p}" and
    l: "pb_prev s' = Some post" unfolding appends_def by auto
  have EF: "?E \<subseteq> ?F" and bF: "edges (fst b1) \<subseteq> ?F" and le: "?c \<le> snd b1"
    using g e by (auto simp: grown_def)
  from assms(1) have o: "n \<le> ?c" "\<And>x y. x \<in> {c0..<n} \<Longrightarrow> y \<in> {n..<?c} \<Longrightarrow> (x, y) \<in> ?E\<^sup>+"
    "\<And>x. x \<in> {c0..<?c} \<Longrightarrow> \<exists>p. pb_prev s = Some p \<and> (x, p) \<in> ?E\<^sup>*"
    unfolding pb_ordered_def by blast+
  have new: "(pre, y) \<in> ?F\<^sup>* \<and> (y, post) \<in> ?F\<^sup>*" if "y \<in> {?c..<snd b1}" for y
    using sp that rtrancl_mono [OF bF] unfolding spans_def by (meson atLeastLessThan_iff subsetD)
  have old: "(x, pre) \<in> ?F\<^sup>+" if x: "x \<in> {c0..<?c}" for x
  proof -
    from o(3) [OF x] obtain p where p: "pb_prev s = Some p" "(x, p) \<in> ?E\<^sup>*" by blast
    then have "(x, p) \<in> ?F\<^sup>*" using rtrancl_mono [OF EF] by blast
    moreover have "(p, pre) \<in> ?F" unfolding e using p(1) by blast
    ultimately show ?thesis by (rule rtrancl_into_trancl1)
  qed
  have "(x, y) \<in> ?F\<^sup>+" if "x \<in> {c0..<n}" "y \<in> {n..<snd b1}" for x y
  proof (cases "y < ?c")
    case True
    with that o(2) [of x y] trancl_mono [OF _ EF] show ?thesis by auto
  next
    case False
    with that old [of x] new [of y] o(1) show ?thesis by (auto intro: trancl_rtrancl_trancl)
  qed
  moreover have "(x, post) \<in> ?F\<^sup>*" if "x \<in> {c0..<snd b1}" for x
  proof (cases "x < ?c")
    case True
    with that old [of x] new [OF r] show ?thesis by (auto dest!: trancl_into_rtrancl intro: rtrancl_trans)
  next
    case False
    with that new [of x] show ?thesis by auto
  qed
  ultimately show ?thesis unfolding pb_ordered_def n l using o(1) le by auto
qed

abbreviation start_builder :: "int \<Rightarrow> program_builder" where
  "start_builder c0 \<equiv> \<lparr>pb_builder = ([], c0), pb_block_to_task = [], pb_prev = None\<rparr>"

lemma start_builder_inv: "pb_inv pid c0 (start_builder c0)" "pb_ordered c0 c0 (start_builder c0)"
  by (simp_all add: pb_inv_def pb_ordered_def wf_b_def edges_def preds_def acyclic_def)

lemma build_blocks_inv:
  assumes "rfold (build_block program pid ehi network inp) blocks s = Inr s'" "pb_inv pid c0 s"
  shows "pb_inv pid c0 s'"
  using assms
proof (rule rfold_invariant)
  fix block s s'
  assume "pb_inv pid c0 s" "build_block program pid ehi network inp block s = Inr s'"
  then show "pb_inv pid c0 s'"
    by (intro appends_inv [OF _ build_block_appends [where s = s and s' = s']]) (auto simp: pb_inv_def)
qed

lemma build_blocks_ordered:
  assumes "rfold (build_block program pid ehi network inp) blocks s = Inr s'"
    and "\<And>n r. map_of (pr_request_routines program) n = Some r \<Longrightarrow> some_pair inp r"
    and "pb_inv pid c0 s \<and> pb_ordered c0 n s"
  shows "pb_inv pid c0 s' \<and> pb_ordered c0 n s'"
  using assms(1,3)
proof (rule rfold_invariant)
  fix block s s'
  assume s: "pb_inv pid c0 s \<and> pb_ordered c0 n s" "build_block program pid ehi network inp block s = Inr s'"
  then have "appends pid True s s'"
    using build_block_appends [of s program pid ehi network inp block s'] assms(2) by (simp add: pb_inv_def)
  with s(1) show "pb_inv pid c0 s' \<and> pb_ordered c0 n s'"
    using appends_inv appends_ordered by blast
qed

lemma from_program_graph:
  assumes "pb_inv pid c0 s" "update_successors (fst (pb_builder s)) = Inr g"
  shows "graph_inv g" "keys g = [c0..snd (pb_builder s) - 1]" "edges g = edges (fst (pb_builder s))"
    "\<And>i t. map_of g i = Some t \<Longrightarrow> task_id (ti_task t) = i \<and> task_pid (ti_task t) = pid"
proof -
  let ?g = "fst (pb_builder s)" and ?n = "snd (pb_builder s)"
  have wf: "wf_b (pb_builder s)" and k: "keys ?g = [c0..?n - 1]"
    and e: "edges ?g \<subseteq> {c0..<?n} \<times> {c0..<?n}" and ac: "acyclic (edges ?g)"
    and t: "\<forall>i \<in> {c0..<?n}. \<exists>t. task_at ?g i = Some t \<and> task_id t = i \<and> task_pid t = pid"
    using assms(1) by (auto simp: pb_inv_def)
  have "\<exists>g'. update_successors ?g = Inr g' \<and> graph_ok g' \<and> keys g' = keys ?g \<and> edges g' = edges ?g \<and>
    (\<forall>i u. map_of ?g i = Some u \<longrightarrow>
      (\<exists>ss. map_of g' i = Some (u\<lparr>ti_successors := ss\<rparr>) \<and> set ss = {j. i \<in> preds ?g j}))"
  proof (rule update_successors_ok)
    show "preds ?g j \<subseteq> set (keys ?g)" for j using e by (auto simp: k edges_def)
    show "i \<in> preds ?g j" if "j \<in> succs ?g i" for i j
      using that wf by (auto simp: succs_def wf_b_def split: option.splits)
  qed (use wf in \<open>auto simp: wf_b_def\<close>)
  with assms(2) have g: "graph_ok g" "keys g = keys ?g" "edges g = edges ?g"
    "\<And>i u. map_of ?g i = Some u \<Longrightarrow> \<exists>ss. map_of g i = Some (u\<lparr>ti_successors := ss\<rparr>)"
    by force+
  show "graph_inv g" using g ac by (simp add: graph_inv_def)
  show "keys g = [c0..?n - 1]" "edges g = edges ?g" using g k by simp_all
  show "task_id (ti_task u) = i \<and> task_pid (ti_task u) = pid" if "map_of g i = Some u" for i u
  proof -
    from that have i: "i \<in> set (keys ?g)" using g(2) map_of_in_keys [of g i u] by simp
    then obtain v where v: "map_of ?g i = Some v" using in_keys_map_of [of i ?g] by auto
    from i have "i \<in> {c0..<?n}" by (simp add: k)
    from bspec [OF t this] v have "task_id (ti_task v) = i \<and> task_pid (ti_task v) = pid"
      by (auto simp: task_at_def)
    moreover from g(4) [OF v] that have "ti_task u = ti_task v" by auto
    ultimately show ?thesis by simp
  qed
qed

section \<open>Properties\<close>

text \<open>A program of four blocks: local classical, local quantum, receive, and a request for two pairs.\<close>

definition sample_block :: "string \<Rightarrow> block_type \<Rightarrow> iqoala_op list \<Rightarrow> basic_block" where
  "sample_block n t is = \<lparr>block_name = n, block_typ = t, block_instructions = is, block_deadlines = None\<rparr>"

definition sample_request :: "callback_type \<Rightarrow> int \<Rightarrow> request_routine" where
  "sample_request cb n = \<lparr>rr_name = ''req'', rr_request = \<lparr>rq_name = ''req'', rq_remote_id = IntNum 1,
     rq_epr_socket_id = IntNum 0, rq_num_pairs = IntNum n,
     rq_virt_ids = \<lparr>vim_typ = INCREMENT, vim_single_value = Some (IntNum 0), vim_custom_values = None\<rparr>,
     rq_timeout = FloatNum 1000, rq_fidelity = FloatNum 1, rq_typ = CREATE_KEEP, rq_role = CREATE\<rparr>,
     rr_return_vars = [], rr_callback_type = cb, rr_callback = None\<rparr>"

definition sample_blocks :: "basic_block list" where
  "sample_blocks =
     [sample_block ''b0'' CL [mk_op AssignCValueOp [] (Some (IqoalaSingleton ''x'')) [IntV 1]],
      sample_block ''b1'' QL [mk_op RunSubroutineOp [] None [StrV ''sub'']],
      sample_block ''b2'' QC [mk_op RunRequestOp [] None [StrV ''req'']]]"

definition sample_program :: "basic_block list \<Rightarrow> int \<Rightarrow> qoala_program" where
  "sample_program blocks n = mk_program (meta_empty ''prog'') blocks
     (Some [(''sub'', \<lparr>lr_name = ''sub'', lr_subroutine = \<lparr>sub_instructions = [], sub_arguments = []\<rparr>,
        lr_return_vars = [], lr_metadata = use_none, lr_request_name = None\<rparr>)])
     (Some [(''req'', sample_request SEQUENTIAL n)])"

text \<open>C13: The task graph built for a program is a well-formed graph without cycles; its task IDs are
consecutive from the given first ID, every task stores its own ID and belongs to the program's
process.\<close>

theorem from_program_well_formed:
  assumes "from_program program pid ehi network c0 inp = Inr g"
  shows "graph_inv g \<and> keys g = [c0..c0 + int (length g) - 1] \<and>
    (\<forall>i t. map_of g i = Some t \<longrightarrow> task_id (ti_task t) = i \<and> task_pid (ti_task t) = pid)"
proof -
  from assms obtain s where s: "rfold (build_block program pid ehi network inp) (pr_blocks program) (start_builder c0) = Inr s"
    "update_successors (fst (pb_builder s)) = Inr g" by (auto simp: from_program_def)
  have inv: "pb_inv pid c0 s" by (rule build_blocks_inv [OF s(1) start_builder_inv(1)])
  note g = from_program_graph [OF inv s(2)]
  have "int (length g) = snd (pb_builder s) - c0"
    using arg_cong [OF g(2), of length] inv by (simp add: pb_inv_def)
  then have "c0 + int (length g) - 1 = snd (pb_builder s) - 1" by simp
  with g show ?thesis by simp
qed

theorem from_program_well_formed_witness:
  "\<exists>g. from_program (sample_program sample_blocks 2) 7 None None 0 None = Inr g \<and> graph_inv g \<and>
     (\<exists>t. map_of g 5 = Some t \<and> task_pid (ti_task t) = 7)"
proof -
  have e: "case from_program (sample_program sample_blocks 2) 7 None None 0 None of
     Inr g \<Rightarrow> keys g = [0, 1, 2, 3, 4, 5, 6, 7] | Inl e \<Rightarrow> False" by code_simp
  then obtain g where g: "from_program (sample_program sample_blocks 2) 7 None None 0 None = Inr g"
    "keys g = [0, 1, 2, 3, 4, 5, 6, 7]" by (auto split: sum.splits)
  from in_keys_map_of [of 5 g] obtain t where "map_of g 5 = Some t" unfolding g(2) by auto
  with from_program_well_formed [OF g(1)] g(1) show ?thesis by auto
qed

text \<open>In the task graph of a program the blocks keep their order: if every request asks for at
least one pair, each task of the first blocks precedes each task of the later ones, so that
every execution finishes a block before it starts the next.\<close>

theorem from_program_block_order:
  assumes "from_program program pid ehi network c0 inp = Inr g"
    and "pr_blocks program = before @ after"
    and "rfold (build_block program pid ehi network inp) before (start_builder c0) = Inr s"
    and "\<And>n r. map_of (pr_request_routines program) n = Some r \<Longrightarrow> some_pair inp r"
    and "x \<in> set (keys g)" "y \<in> set (keys g)" "x < snd (pb_builder s)" "snd (pb_builder s) \<le> y"
  shows "(x, y) \<in> (edges g)\<^sup>+"
proof -
  let ?n = "snd (pb_builder s)"
  from assms(1-3) obtain s' where s':
    "rfold (build_block program pid ehi network inp) after s = Inr s'"
    "update_successors (fst (pb_builder s')) = Inr g" by (auto simp: from_program_def rfold_append)
  have s: "pb_inv pid c0 s \<and> pb_ordered c0 c0 s"
    by (rule build_blocks_ordered [OF assms(3)]) (use assms(4) start_builder_inv in blast)+
  then have "pb_ordered c0 ?n s" by (auto simp: pb_ordered_def)
  with s have "pb_inv pid c0 s' \<and> pb_ordered c0 ?n s'"
    by (intro build_blocks_ordered [OF s'(1)]) (use assms(4) in blast)+
  moreover from this have "keys g = [c0..snd (pb_builder s') - 1]" "edges g = edges (fst (pb_builder s'))"
    using from_program_graph(2,3) [OF _ s'(2)] by blast+
  ultimately show ?thesis using assms(5-8) by (auto simp: pb_ordered_def simp del: set_map)
qed

theorem from_program_block_order_witness:
  "\<exists>g. from_program (sample_program sample_blocks 2) 7 None None 0 None = Inr g \<and> (0, 6) \<in> (edges g)\<^sup>+"
proof -
  let ?p = "sample_program sample_blocks 2"
  have e: "case from_program ?p 7 None None 0 None of
     Inr g \<Rightarrow> keys g = [0, 1, 2, 3, 4, 5, 6, 7] | Inl e \<Rightarrow> False" by code_simp
  have f: "case rfold (build_block ?p 7 None None None) (take 2 sample_blocks) (start_builder 0) of
     Inr s \<Rightarrow> snd (pb_builder s) = 4 | Inl e \<Rightarrow> False" by code_simp
  from e obtain g where g: "from_program ?p 7 None None 0 None = Inr g" "keys g = [0, 1, 2, 3, 4, 5, 6, 7]"
    by (auto split: sum.splits)
  from f obtain s where s: "rfold (build_block ?p 7 None None None) (take 2 sample_blocks) (start_builder 0) = Inr s"
    "snd (pb_builder s) = 4" by (auto split: sum.splits)
  have "(0, 6) \<in> (edges g)\<^sup>+"
  proof (rule from_program_block_order [OF g(1) _ s(1)])
    show "pr_blocks ?p = take 2 sample_blocks @ drop 2 sample_blocks"
      by (simp add: sample_program_def mk_program_def)
    show "some_pair None r" if "map_of (pr_request_routines ?p) n = Some r" for n r
      using that by (auto simp: sample_program_def mk_program_def sample_request_def some_pair_def
        resolve_num_pairs_def split: if_splits)
  qed (simp_all only: g(2) s(2), simp_all)
  with g(1) show ?thesis by blast
qed

text \<open>A sequential request for no pairs does not get the order of its own tasks: the post-call
task has no predecessors, so that it may run before the pre-call task.\<close>

theorem no_pair_post_call_is_root:
  "case from_program (sample_program [sample_block ''b'' QC [mk_op RunRequestOp [] None [StrV ''req'']]] 0)
     pid None None 0 None of
   Inr g \<Rightarrow> get_roots True g = [0, 1] \<and> map_option (task_kind \<circ> ti_task) (map_of g 0) = Some (PreCallTask ''b'' 0) \<and>
     map_option (task_kind \<circ> ti_task) (map_of g 1) = Some (PostCallTask ''b'' 0)
   | Inl e \<Rightarrow> False"
  by code_simp

end
