(* ===== verification/HostExec.thy ===== *)
theory HostExec
  imports HostProc TaskProgram
begin

text \<open>
  What executing host instructions does: the time it takes, what it may change, where it may
  jump, which errors it may raise, and how values travel through sockets and through the calls
  of local routines.
\<close>

section \<open>What the parts keep\<close>

lemma host_wait_frame [simp]:
  "hs_jumps (host_wait d h) = hs_jumps h" "hs_latencies (host_wait d h) = hs_latencies h"
  "hs_sent (host_wait d h) = hs_sent h"
  by (simp_all add: host_wait_def)

lemma host_wait_now: "0 \<le> d \<Longrightarrow> host_now (host_wait d h) = host_now h + d"
  by (simp add: host_wait_def ib_wait_def advance_def)

lemma half_rest_frame [simp]:
  "hs_jumps (half_wait h) = hs_jumps h" "hs_latencies (half_wait h) = hs_latencies h"
  "hs_sent (half_wait h) = hs_sent h"
  "hs_jumps (rest_wait h) = hs_jumps h" "hs_latencies (rest_wait h) = hs_latencies h"
  "hs_sent (rest_wait h) = hs_sent h"
  by (simp_all add: half_wait_def rest_wait_def)

lemma set_jump_frame [simp]:
  "hs_jumps (set_jump i b h) = dset i b (hs_jumps h)" "hs_latencies (set_jump i b h) = hs_latencies h"
  "hs_sent (set_jump i b h) = hs_sent h" "hs_inbox (set_jump i b h) = hs_inbox h"
  by (simp_all add: set_jump_def)

lemma half_rest_now:
  assumes "0 \<le> instr_time h"
  shows "host_now (rest_wait (half_wait h)) = host_now h + instr_time h"
    "host_now (rest_wait (set_jump i b (half_wait h))) = host_now h + instr_time h"
  using assms by (simp_all add: half_wait_def rest_wait_def host_wait_now)

lemma send_frame:
  "ck_send_int c v h = Inr h' \<Longrightarrow> hs_jumps h' = hs_jumps h \<and> hs_latencies h' = hs_latencies h \<and>
     hs_inbox h' = hs_inbox h \<and> hs_sent h' = hs_sent h @ [(ck_remote_name c, ck_message c (IntMsg v))]"
  by (auto simp: ck_send_int_def ck_send_def send_peer_msg_def)

lemma wait_for_msg_now: "wait_for_msg n ib = Inr ib' \<Longrightarrow> ib_now ib \<le> ib_now ib'"
  by (auto simp: wait_for_msg_def advance_def split: if_splits option.splits prod.splits)

lemma recv_frame:
  assumes "ck_recv_int c h = Inr (v, h') \<or> ck_read_int c h = Inr (v, h')"
  shows "hs_jumps h' = hs_jumps h \<and> hs_latencies h' = hs_latencies h \<and> hs_sent h' = hs_sent h \<and>
    host_now h \<le> host_now h'"
  using assms
  by (auto simp: ck_recv_int_def ck_recv_def receive_peer_msg_def ck_read_int_def ck_read_def
      host_pop_msg_def ib_pop_any_msg_def ib_pop_msg_def dest: wait_for_msg_now)

lemmas exec_defs = exec_assign_def exec_busy_def exec_send_def exec_recv_def exec_add_def
  exec_mult_def exec_bcond_mult_def exec_return_def exec_jump_def exec_branch_def

lemma write_var_frame [simp]:
  "pc_instance (write_var n v p) = pc_instance p" "pc_qnos_mem (write_var n v p) = pc_qnos_mem p"
  "pc_shared_mem (write_var n v p) = pc_shared_mem p" "pc_csockets (write_var n v p) = pc_csockets p"
  "pc_epr_sockets (write_var n v p) = pc_epr_sockets p" "pc_result (write_var n v p) = pc_result p"
  "pc_host_mem (write_var n v p) = host_write n v (pc_host_mem p)"
  by (simp_all add: write_var_def)

lemma write_vec_frame [simp]:
  "pc_instance (write_vec n vs p) = pc_instance p" "pc_qnos_mem (write_vec n vs p) = pc_qnos_mem p"
  "pc_shared_mem (write_vec n vs p) = pc_shared_mem p" "pc_csockets (write_vec n vs p) = pc_csockets p"
  "pc_epr_sockets (write_vec n vs p) = pc_epr_sockets p" "pc_result (write_vec n vs p) = pc_result p"
  "pc_host_mem (write_vec n vs p) = host_write_vec n vs (pc_host_mem p)"
  by (simp_all add: write_vec_def)

lemma set_result_frame [simp]:
  "pc_instance (set_result n v p) = pc_instance p" "pc_memory (set_result n v p) = pc_memory p"
  "pc_csockets (set_result n v p) = pc_csockets p" "pc_epr_sockets (set_result n v p) = pc_epr_sockets p"
  by (simp_all add: set_result_def)

section \<open>One instruction\<close>

text \<open>The process changes in at most one variable or one result.\<close>

lemma assign_instr_process:
  assumes "assign_instr x p h = Inr (p', h')"
  shows "(\<exists>n v. p' = write_var n v p) \<or> (\<exists>n v. p' = set_result n v p) \<or> p' = p"
  using assms
  by (cases "op_class x")
    (auto simp: assign_instr_def exec_op_def exec_defs Let_def)

text \<open>The jump requested by the process is withdrawn or set to a block of the program.\<close>

lemma assign_instr_jumps:
  assumes "assign_instr x p h = Inr (p', h')"
  shows "hs_jumps h' = dset (pc_pid p) (- 1) (hs_jumps h) \<or>
    (\<exists>n b. get_block_id (pc_program p) n = Inr b \<and>
       hs_jumps h' = dset (pc_pid p) b (hs_jumps h))"
  using assms
  by (cases "op_class x")
    ((auto simp: assign_instr_def exec_op_def exec_defs Let_def split: if_splits
      dest!: send_frame recv_frame [OF disjI1] recv_frame [OF disjI2]); blast)+

subsection \<open>Duration\<close>

text \<open>Executing an instruction takes the time the latencies prescribe: computations,
assignments, sends, returns, jumps and branches one instruction time, whichever way a branch goes,
a busy instruction its own duration, a receive at least the peer latency, and calls of routines,
which are executed by their own tasks, none.\<close>

theorem host_instr_timing:
  assumes "assign_instr x p h = Inr (p', h')"
    and "0 \<le> instr_time h" "0 \<le> hl_peer_latency (hs_latencies h)"
  shows "case op_class x of
      BusyOp \<Rightarrow> (\<forall>d. rbind (py_nth (op_attributes x) 0) (\<lambda>v. busy_value v (pc_host_mem p)) = Inr d \<longrightarrow>
        0 \<le> d \<longrightarrow> host_now h' = host_now h + real_of_int d)
    | ReceiveCMsgOp \<Rightarrow> host_now h + hl_peer_latency (hs_latencies h) \<le> host_now h'
    | RunSubroutineOp \<Rightarrow> host_now h' = host_now h
    | RunRequestOp \<Rightarrow> host_now h' = host_now h
    | _ \<Rightarrow> host_now h' = host_now h + instr_time h"
proof (cases "op_class x")
  case ReceiveCMsgOp
  with assms(1) obtain c v h1 where
    "ck_recv_int c (set_jump (pc_pid p) (- 1) h) = Inr (v, h1) \<or> ck_read_int c (set_jump (pc_pid p) (- 1) h) = Inr (v, h1)"
    and h': "h' = host_wait (hl_peer_latency (hs_latencies h1)) h1"
    by (auto simp: assign_instr_def exec_op_def exec_recv_def Let_def split: if_splits)
  from recv_frame [OF this(1)] assms(3) ReceiveCMsgOp show ?thesis
    by (simp add: h' host_wait_now)
next
  case SendCMsgOp
  with assms show ?thesis
    by (auto simp: assign_instr_def exec_op_def exec_send_def host_wait_now dest!: send_frame)
qed (use assms in \<open>auto simp: assign_instr_def exec_op_def exec_defs Let_def half_rest_now host_wait_now split: if_splits\<close>)

subsection \<open>Errors\<close>

text \<open>
  What can go wrong in a well-shaped instruction: an unknown variable, block, socket or peer, and
  a vector index out of range.
\<close>

abbreviation lookup_error :: "py_error \<Rightarrow> bool" where
  "lookup_error e \<equiv> e = KeyError \<or> e = IndexError"

lemma lookup_errors:
  "host_read n m = Inl e \<Longrightarrow> lookup_error e" "host_read_vec n m = Inl e \<Longrightarrow> lookup_error e"
  "py_nth xs i = Inl e \<Longrightarrow> lookup_error e" "dget d k = Inl e \<Longrightarrow> lookup_error e"
  by (auto simp: host_read_def host_read_vec_def dget_eq_Inl py_nth_def py_index_def rbind_eq_Inl Let_def
      split: if_splits)

lemma operand_read_error: "is_operand a \<Longrightarrow> read_operand a m = Inl e \<Longrightarrow> lookup_error e"
  by (cases a) (auto simp: rbind_eq_Inl dest: lookup_errors)

lemma busy_error: "busy_value v m = Inl e \<Longrightarrow> lookup_error e"
  by (cases v) (auto dest: lookup_errors)

lemma return_error:
  "is_singleton a \<Longrightarrow> return_value a m = Inl e \<Longrightarrow> lookup_error e"
  "is_vector a \<Longrightarrow> return_value a m = Inl e \<Longrightarrow> lookup_error e"
  by (cases a; auto simp: rbind_eq_Inl dest: lookup_errors)+

lemma send_error: "ck_send_int c v h = Inl e \<Longrightarrow> lookup_error e"
  by (simp add: ck_send_int_def ck_send_def send_peer_msg_def rbind_eq_Inl)

lemma block_id_error: "wf_program p \<Longrightarrow> get_block_id p n = Inl e \<Longrightarrow> lookup_error e"
proof (cases "n \<in> block_name ` set (pr_blocks p)")
  case True
  assume "wf_program p" "get_block_id p n = Inl e"
  moreover from True obtain i where "i < length (pr_blocks p)" "n = block_name (pr_blocks p ! i)"
    by (auto simp: in_set_conv_nth)
  ultimately show ?thesis using get_block_id_Some [of p i] by simp
next
  case False
  assume "wf_program p" "get_block_id p n = Inl e"
  with get_block_id_unknown [OF _ False] show ?thesis by simp
qed

lemmas host_errors = lookup_errors operand_read_error busy_error return_error send_error block_id_error

text \<open>An instruction that the parser's checked constructors accept never fails an assertion of
the Host processor: unless it receives, the only errors it can raise are unknown names and vector
indices out of range. (The constant of a multiplication is not checked by its constructor, so
that it has to be assumed an integer.)\<close>

theorem accepted_instr_errors:
  assumes "from_generic_args c result args attr = Inr x" "wf_program (pc_program p)"
    and "c \<noteq> ReceiveCMsgOp" "c = MultiplyConstantCValueOp \<Longrightarrow> is_int_value (the attr)"
    and "assign_instr x p h = Inl e"
  shows "e = KeyError \<or> e = IndexError"
proof -
  have wf: "op_class x = c" "wf_op x" using from_generic_args_shape [OF assms(1)] by auto
  have attr: "c = MultiplyConstantCValueOp \<Longrightarrow> \<exists>i. op_attributes x = [IntV i]"
    using assms(1,4) by (auto simp: from_args_defs mk_op_def is_int_value_iff)
  have nth: "py_nth [a] 0 = Inr a" "py_nth [a, b] 0 = Inr a" "py_nth [a, b] 1 = Inr b" for a b :: 'a
    by (simp_all add: py_nth_def py_index_def)
  show ?thesis
    using assms(2,3,5) wf attr
    by (cases c) (auto simp: wf_op_def assign_instr_def exec_op_def exec_defs operand_def result_name_def
        int_attribute_def str_attribute_def rbind_eq_Inl Let_def nth py_nth_def py_index_def
        split: if_splits dest: host_errors)
qed

section \<open>One block\<close>

lemma block_id_bounds:
  assumes "get_block_id p n = Inr b"
  shows "0 \<le> b \<and> b < int (length (pr_blocks p))"
proof -
  from assms obtain c i where "find_index (\<lambda>d. block_eq d c) (pr_blocks p) = Some i" "b = int i"
    by (auto simp: get_block_id_def split: option.splits)
  with find_index_Some show ?thesis by fastforce
qed

text \<open>The jumps a process may have requested: none, or a block of its program.\<close>

definition valid_jump :: "qoala_program \<Rightarrow> int \<Rightarrow> bool" where
  "valid_jump p j \<longleftrightarrow> j = - 1 \<or> 0 \<le> j \<and> j < int (length (pr_blocks p))"

text \<open>What the execution of host instructions leaves alone.\<close>

definition host_frame :: "qoala_process \<Rightarrow> host \<Rightarrow> qoala_process \<Rightarrow> host \<Rightarrow> bool" where
  "host_frame p h p' h' \<longleftrightarrow> pc_instance p' = pc_instance p \<and> pc_qnos_mem p' = pc_qnos_mem p \<and>
     pc_shared_mem p' = pc_shared_mem p \<and> pc_csockets p' = pc_csockets p \<and>
     pc_epr_sockets p' = pc_epr_sockets p \<and> hs_latencies h' = hs_latencies h \<and>
     (\<forall>q. q \<noteq> pc_pid p \<longrightarrow> map_of (hs_jumps h') q = map_of (hs_jumps h) q)"

lemma assign_instr_frame:
  assumes "assign_instr x p h = Inr (p', h')"
  shows "host_frame p h p' h'"
proof -
  have "hs_latencies h' = hs_latencies h"
    using assms
    by (cases "op_class x")
      (auto simp: assign_instr_def exec_op_def exec_defs Let_def split: if_splits
        dest!: send_frame recv_frame [OF disjI1] recv_frame [OF disjI2])
  moreover have "\<forall>q. q \<noteq> pc_pid p \<longrightarrow> map_of (hs_jumps h') q = map_of (hs_jumps h) q"
    using assign_instr_jumps [OF assms] by auto
  ultimately show ?thesis using assign_instr_process [OF assms] by (auto simp: host_frame_def)
qed

lemma host_frame_trans: "host_frame p h p1 h1 \<Longrightarrow> host_frame p1 h1 p2 h2 \<Longrightarrow> host_frame p h p2 h2"
  by (simp add: host_frame_def)

lemma assign_instr_jump:
  assumes "assign_instr x p h = Inr (p', h')"
  shows "\<exists>j. map_of (hs_jumps h') (pc_pid p) = Some j \<and> valid_jump (pc_program p) j"
  using assign_instr_jumps [OF assms] block_id_bounds by (auto simp: valid_jump_def)

lemma run_instrs_effects:
  assumes "run_instrs xs p h = Inr (p', h')"
  shows "host_frame p h p' h' \<and> (xs \<noteq> [] \<longrightarrow>
    (\<exists>j. map_of (hs_jumps h') (pc_pid p) = Some j \<and> valid_jump (pc_program p) j))"
  using assms
proof (induction xs arbitrary: p h)
  case (Cons x xs)
  then obtain p1 h1 j where x: "assign_instr x p h = Inr (p1, h1)"
    and j: "map_of (hs_jumps h1) (pc_pid p1) = Some j"
    and rest: "if j \<noteq> - 1 then p' = p1 \<and> h' = h1 else run_instrs xs p1 h1 = Inr (p', h')"
    by (auto split: if_splits)
  note f = assign_instr_frame [OF x]
  then have pid: "pc_pid p1 = pc_pid p" "pc_program p1 = pc_program p" by (simp_all add: host_frame_def)
  show ?case
  proof (cases "j \<noteq> - 1 \<or> xs = []")
    case True
    with rest have "p' = p1" "h' = h1" by (auto split: if_splits)
    with f assign_instr_jump [OF x] show ?thesis by simp
  next
    case False
    with rest have "run_instrs xs p1 h1 = Inr (p', h')" by simp
    from Cons.IH [OF this] False f pid show ?thesis by (auto intro: host_frame_trans)
  qed
qed (auto simp: host_frame_def)

text \<open>Executing a classical block changes nothing but the variables and results of its process
and the jump requested by that process: other programs, the quantum memory, the shared memory and
the sockets stay as they are. If the block has an instruction, the process has afterwards either
no jump requested or a jump to a block that exists.\<close>

theorem assign_block_effects:
  assumes "assign_block name p h = Inr (p', h')"
  shows "host_frame p h p' h' \<and>
    (\<forall>b. get_block (pc_program p) name = Inr b \<longrightarrow> block_instructions b \<noteq> [] \<longrightarrow>
      (\<exists>j. map_of (hs_jumps h') (pc_pid p) = Some j \<and> valid_jump (pc_program p) j))"
  using assms by (auto simp: assign_block_def dest: run_instrs_effects)

section \<open>Calls of local routines\<close>

lemma arg_values_distinct:
  assumes "distinct args" "arg_values args m = Inr d"
  shows "length d = length args \<and> (\<forall>i < length args. host_read (args ! i) m = Inr (map snd d ! i))"
proof -
  from assms(2) obtain kvs where
    r: "rmap (\<lambda>a. rbind (host_read a m) (\<lambda>v. Inr (a, v))) args = Inr kvs" and d: "d = dict_of kvs"
    by (auto simp: arg_values_def)
  have k: "fst (kvs ! i) = args ! i \<and> host_read (args ! i) m = Inr (snd (kvs ! i))" if "i < length args" for i
  proof -
    from r that have "rbind (host_read (args ! i) m) (\<lambda>v. Inr (args ! i, v)) = Inr (kvs ! i)"
      by (simp only: rmap_eq_Inr)
    then obtain v where "host_read (args ! i) m = Inr v" "(args ! i, v) = kvs ! i" by auto
    then show ?thesis by (metis fst_conv snd_conv)
  qed
  from r have len: "length kvs = length args" by (rule rmap_length)
  with k have "keys kvs = args" by (auto intro: nth_equalityI)
  with assms(1) have "dict_of kvs = kvs" by (intro dict_of_distinct) simp
  with k len show ?thesis by (simp add: d)
qed

text \<open>A call of a local routine passes its values by the shared memory: the routine finds the
values of the argument variables at the input address it is given, in order, and whatever it
writes to the result address is what the Host copies to the result variables afterwards; on the
way no other variable of the Host changes.\<close>

theorem lr_call_passes_values:
  assumes "sm_inv (pc_shared_mem p)" "prepare_lr_call p x = Inr (c, p1)"
    and "op_arguments x = [IqoalaTuple args]" "distinct args"
    and "op_results x = Some (IqoalaTuple names)" "distinct names"
    and "write_lr_out (lc_result_addr c) results 0 (pc_shared_mem p1) = Inr m2" "length results = length names"
  shows "(\<exists>vals. read_lr_in (lc_input_addr c) (int (length args)) 0 (pc_shared_mem p1) = Inr vals \<and>
      (\<forall>i < length args. host_read (args ! i) (pc_host_mem p) = Inr (vals ! i))) \<and>
    (\<exists>p2. post_lr_call (set_shared_mem m2 p1) x c = Inr p2 \<and>
      (\<forall>i < length names. host_read (names ! i) (pc_host_mem p2) = Inr (results ! i)) \<and>
      (\<forall>n. n \<notin> set names \<longrightarrow> host_read n (pc_host_mem p2) = host_read n (pc_host_mem p)))"
proof -
  from assms(2,3,5) obtain d a m1 m3 b m4 where
    d: "arg_values args (pc_host_mem p) = Inr d" and
    al: "allocate_lr_in (int (length d)) (pc_shared_mem p) = Inr (a, m1)" and
    wr: "write_lr_in a (map snd d) 0 m1 = Inr m3" and
    al2: "allocate_lr_out (int (length names)) m3 = Inr (b, m4)" and
    c: "lc_input_addr c = a" "lc_result_addr c = b" and p1: "p1 = set_shared_mem m4 p"
    by (auto simp: prepare_lr_call_def call_arguments_def py_nth_def py_index_def)
  note vals = arg_values_distinct [OF assms(4) d]
  from lr_in.alloc_spec [OF assms(1) al] have m1: "sm_inv m1" "a \<in> set (lr_in_addrs m1)" by auto
  from lr_in.put_spec [OF m1(1) wr] have m3: "sm_inv m3" "a \<in> set (lr_in_addrs m3)" "cells m3 a \<noteq> None" by auto
  have rd: "read_lr_in a (int (length (map snd d))) 0 m3 = Inr (map snd d)"
    by (rule lr_in.get_put [OF m1(1) _ wr]) simp
  from lr_out.alloc_spec [OF m3(1) al2] have m4: "sm_inv m4" "b \<in> set (lr_out_addrs m4)" "cells m3 b = None"
    "cells m4 = (cells m3)(b \<mapsto> replicate (length names) None)" by auto
  have "lr_in_addrs m4 = lr_in_addrs m3"
    using al2 by (auto simp: allocate_lr_out_def sm_allocate_def Let_def)
  moreover have "cells m4 a = cells m3 a" using m4(3,4) m3(3) by auto
  ultimately have "read_lr_in a n 0 m4 = read_lr_in a n 0 m3" for n
    using m3 m4(1) by (auto simp: lr_in.get_spec)
  with rd vals have inputs: "read_lr_in (lc_input_addr c) (int (length args)) 0 (pc_shared_mem p1) = Inr (map snd d)"
    by (simp add: c p1)
  have "write_lr_out b results 0 m4 = Inr m2" using assms(7) by (simp add: c p1)
  then have "read_lr_out b (int (length results)) 0 m2 = Inr results"
    by (intro lr_out.get_put [OF m4(1)]) auto
  then have "post_lr_call (set_shared_mem m2 p1) x c = Inr (write_vars names results (set_shared_mem m2 p1))"
    using assms(5,8) by (simp add: post_lr_call_def c)
  moreover have "pc_host_mem (write_vars names results q) =
      fold (\<lambda>(n, v). host_write n v) (zip names results) (pc_host_mem q)" for q
    using assms(8)
  proof (induction names results arbitrary: q rule: list_induct2')
    case (4 n names v results)
    from "4.IH" [of "write_var n v q"] "4.prems" show ?case by (simp add: write_vars_def)
  qed (simp_all add: write_vars_def)
  moreover have "n \<notin> fst ` set (zip names results)" if "n \<notin> set names" for n
    using that by (auto dest: set_zip_leftD)
  ultimately show ?thesis
    using inputs vals assms(6,8) vars.get_puts_distinct [of names _ results]
      vars.get_puts_other [of _ "zip names results"]
    by (auto simp: p1)
qed

section \<open>Messages\<close>

text \<open>The first arrival at an empty listener, with which nothing else arrives there.\<close>

lemma recv_first_arrival:
  assumes "map_of (ib_listeners (hs_inbox h)) (peer_listener (ck_remote_name c)) = Some []"
    and "ib_arrivals (hs_inbox h) = before @ (t, peer_listener (ck_remote_name c), m) # after"
    and "\<forall>(u, n, _) \<in> set before. u \<le> t \<and> n \<noteq> peer_listener (ck_remote_name c)"
    and "\<forall>(u, _) \<in> set after. t < u" "host_now h \<le> t" "content m = IntMsg v"
  shows "\<exists>h'. ck_recv_int c h = Inr (v, h') \<and> host_now h' = t \<and> hs_latencies h' = hs_latencies h"
proof -
  let ?n = "peer_listener (ck_remote_name c)" and ?ib = "hs_inbox h"
  let ?at = "\<lambda>(u, n, m). n = ?n" and ?due = "\<lambda>(u, _). u \<le> t"
  have "List.find ?at (before @ xs) = List.find ?at xs" for xs using assms(3) by (induction before) auto
  then have "wait_for_msg ?n ?ib = Inr (advance t ?ib)"
    using assms(1,2) by (simp add: wait_for_msg_def dget_Some has_any_def)
  moreover have "takeWhile ?due (before @ (t, ?n, m) # after) = before @ takeWhile ?due ((t, ?n, m) # after)"
    using assms(3) by (intro takeWhile_append2) auto
  moreover have "takeWhile ?due after = []" using assms(4) by (cases after) auto
  moreover have "filter ?at before = []" using assms(3) by (auto simp: filter_empty_conv)
  moreover from calculation have "map_of (ib_listeners (advance t ?ib)) ?n = Some [(msg_key m, [m])]"
    using assms(1,2) by (simp add: advance_def map_of_delivers map_of_deliver add_msg_def)
  ultimately show ?thesis
    using assms(5,6) by (simp add: ck_recv_int_def ck_recv_def receive_peer_msg_def ib_pop_any_msg_def
        dget_Some advance_def max_absorb2)
qed

text \<open>C31: An integer sent by a send instruction is received unchanged by a receive instruction at the other
end, when the receiver waits for it. A send instruction appends one message to what its Host has sent, to
the peer of the socket that its first operand names, from and to the processes of that socket. If that
message is the first to arrive, and alone, at the listener of the peer of the receiving socket, and the
listener is empty when the receive instruction starts, then the instruction ends one peer latency after
the arrival and its result variable holds the value that the second operand of the send named; no other
variable changes. (A message that is there already is another matter: see \<open>ready_message_is_lost\<close>.)\<close>

theorem send_receive_round_trip:
  assumes "op_class x = SendCMsgOp" "operand x 0 = Inr sa" "operand x 1 = Inr va"
    and "read_operand sa (pc_host_mem pa) = Inr i" "map_of (pc_csockets pa) i = Some ca"
    and "read_operand va (pc_host_mem pa) = Inr v" "assign_instr x pa ha = Inr (pa', ha')"
    and "op_class y = ReceiveCMsgOp" "operand y 0 = Inr sb" "result_name y = Inr loc"
    and "read_operand sb (pc_host_mem pb) = Inr j" "map_of (pc_csockets pb) j = Some cb"
    and "map_of (ib_listeners (hs_inbox hb)) (peer_listener (ck_remote_name cb)) = Some []"
    and "\<forall>(u, n, _) \<in> set before. u \<le> t \<and> n \<noteq> peer_listener (ck_remote_name cb)"
    and "\<forall>(u, _) \<in> set after. t < u" "host_now hb \<le> t" "0 \<le> hl_peer_latency (hs_latencies hb)"
  shows "\<exists>m. hs_sent ha' = hs_sent ha @ [(ck_remote_name ca, m)] \<and> msg_key m = (ck_pid ca, ck_remote_pid ca) \<and>
    (ib_arrivals (hs_inbox hb) = before @ (t, peer_listener (ck_remote_name cb), m) # after \<longrightarrow>
      (\<exists>pb' hb'. assign_instr y pb hb = Inr (pb', hb') \<and> host_read loc (pc_host_mem pb') = Inr v \<and>
         (\<forall>n. n \<noteq> loc \<longrightarrow> host_read n (pc_host_mem pb') = host_read n (pc_host_mem pb)) \<and>
         host_now hb' = t + hl_peer_latency (hs_latencies hb)))"
proof (intro exI [of _ "ck_message ca (IntMsg v)"] conjI impI)
  show "hs_sent ha' = hs_sent ha @ [(ck_remote_name ca, ck_message ca (IntMsg v))]"
    using assms(1-7) by (auto simp: assign_instr_def exec_op_def exec_send_def dget_Some dest!: send_frame)
  show "msg_key (ck_message ca (IntMsg v)) = (ck_pid ca, ck_remote_pid ca)" by (simp add: ck_message_def msg_key_def)
  let ?h = "set_jump (pc_pid pb) (- 1) hb"
  assume "ib_arrivals (hs_inbox hb) = before @ (t, peer_listener (ck_remote_name cb), ck_message ca (IntMsg v)) # after"
  with recv_first_arrival [of ?h cb before t "ck_message ca (IntMsg v)" "after" v] assms(13-16) obtain h' where
    h: "ck_recv_int cb ?h = Inr (v, h')" "host_now h' = t" "hs_latencies h' = hs_latencies hb"
    by (auto simp: ck_message_def)
  have "assign_instr y pb hb = Inr (write_var loc v pb, host_wait (hl_peer_latency (hs_latencies hb)) h')"
    using assms(8-13) h by (simp add: assign_instr_def exec_op_def exec_recv_def get_available_messages_def
        get_all_def dget_Some)
  then show "\<exists>pb' hb'. assign_instr y pb hb = Inr (pb', hb') \<and> host_read loc (pc_host_mem pb') = Inr v \<and>
         (\<forall>n. n \<noteq> loc \<longrightarrow> host_read n (pc_host_mem pb') = host_read n (pc_host_mem pb)) \<and>
         host_now hb' = t + hl_peer_latency (hs_latencies hb)"
    using h(2) assms(17) by (simp add: host_wait_now vars.get_put)
qed

text \<open>C32: A receive instruction raises a \<open>KeyError\<close> when the message it wants is already there,
unless the two processes have equal IDs (or messages under the reversed pair exist): it looks for a
message from the remote process to this one, but then reads the channel from this process to the
remote one.\<close>

theorem ready_message_is_lost:
  assumes "op_class x = ReceiveCMsgOp" "operand x 0 = Inr a" "result_name x = Inr loc"
    and "read_operand a (pc_host_mem p) = Inr i" "map_of (pc_csockets p) i = Some c" "ck_pid c = pc_pid p"
    and "map_of (ib_listeners (hs_inbox h)) (peer_listener (ck_remote_name c)) = Some b" "dict_ok b"
    and "has_msg (ck_remote_pid c) (pc_pid p) b" "map_of b (pc_pid p, ck_remote_pid c) = None"
  shows "assign_instr x p h = Inl KeyError"
proof -
  have "(ck_remote_pid c, pc_pid p) \<in> set (get_all b)" using assms(8,9) by (simp add: set_get_all)
  moreover have "ck_read_int c (set_jump (pc_pid p) (- 1) h) = Inl KeyError"
    using assms(6,7,10)
    by (simp add: ck_read_int_def ck_read_def host_pop_msg_def ib_pop_msg_def pop_msg_def dget_Some dget_None)
  ultimately show ?thesis
    using assms(1-5,7) by (simp add: assign_instr_def exec_op_def exec_recv_def get_available_messages_def dget_Some)
qed

section \<open>A sample host\<close>

definition sample_host :: "(real \<times> string \<times> host_content message) list \<Rightarrow> host_content msg_buffer \<Rightarrow> host" where
  "sample_host arrivals buffer = \<lparr>hs_latencies = \<lparr>hl_instr_time = 10, hl_peer_latency = 5\<rparr>,
     hs_inbox = \<lparr>ib_listeners = [(peer_listener ''bob'', buffer)], ib_arrivals = arrivals, ib_now = 100\<rparr>,
     hs_jumps = [], hs_sent = []\<rparr>"

definition sample_add :: iqoala_op where
  "sample_add = mk_op AddCValueOp [IqoalaSingleton ''x'', IqoalaSingleton ''x''] (Some (IqoalaSingleton ''y'')) []"

definition sample_call :: iqoala_op where
  "sample_call = mk_op RunSubroutineOp [IqoalaTuple [''x'']] (Some (IqoalaTuple [''r''])) [StrV ''sub'']"

definition sample_recv :: iqoala_op where
  "sample_recv = mk_op ReceiveCMsgOp [IqoalaSingleton ''sock''] (Some (IqoalaSingleton ''y'')) []"

definition sample_socket :: csocket where
  "sample_socket = \<lparr>ck_remote_name = ''bob'', ck_pid = 3, ck_remote_pid = 4\<rparr>"

definition sample_instance :: program_instance where
  "sample_instance = \<lparr>pi_pid = 3, pi_program = mk_program (meta_empty ''prog'')
       [sample_block ''b'' CL [sample_add, mk_op JumpOp [] None [StrV ''b'']]]
       (Some [(''sub'', \<lparr>lr_name = ''sub'', lr_subroutine = \<lparr>sub_instructions = [], sub_arguments = []\<rparr>,
          lr_return_vars = [RetName ''r''], lr_metadata = use_none, lr_request_name = None\<rparr>)]) None,
     pi_inputs = [], pi_unit_module = \<lparr>um_info = \<lparr>en_qubit_infos = [], en_flavour = VanillaFlavour,
       en_single_gate_infos = [], en_multi_gate_infos = [], en_latencies = latencies_all_zero\<rparr>\<rparr>\<rparr>"

definition sample_running :: qoala_process where
  "sample_running = \<lparr>pc_instance = sample_instance,
     pc_memory = \<lparr>pm_host_mem = \<lparr>hm_mem = [(''x'', 7), (''sock'', 0)], hm_vec_mem = []\<rparr>,
       pm_shared_mem = init_shared, pm_qnos_mem = \<lparr>qm_running_local = [], qm_running_request = [], qm_registers = []\<rparr>\<rparr>,
     pc_result = [], pc_csockets = [(0, sample_socket)], pc_epr_sockets = []\<rparr>"

lemma sample_add_runs:
  "\<exists>p' h'. assign_instr sample_add sample_running (sample_host [] []) = Inr (p', h')"
  by (simp add: assign_instr_def exec_op_def exec_add_def sample_add_def mk_op_def operand_def py_nth_def
      py_index_def sample_running_def host_read_def dget_def result_name_def ensure_def)

theorem host_instr_timing_witness:
  "\<exists>p' h'. assign_instr sample_add sample_running (sample_host [] []) = Inr (p', h') \<and> host_now h' = 110"
proof -
  from sample_add_runs obtain p' h' where
    r: "assign_instr sample_add sample_running (sample_host [] []) = Inr (p', h')" by blast
  from host_instr_timing [OF r] have "host_now h' = 110"
    by (simp add: sample_add_def mk_op_def sample_host_def)
  with r show ?thesis by blast
qed

theorem accepted_instr_errors_witness:
  "assign_instr (mk_op AddCValueOp [IqoalaSingleton ''u'', IqoalaSingleton ''u''] (Some (IqoalaSingleton ''y'')) [])
     sample_running (sample_host [] []) = Inl KeyError \<and> (KeyError = KeyError \<or> KeyError = IndexError)"
proof -
  let ?as = "[IqoalaSingleton ''u'', IqoalaSingleton ''u'']"
  let ?x = "mk_op AddCValueOp ?as (Some (IqoalaSingleton ''y'')) []"
  have a: "from_generic_args AddCValueOp (Some (IqoalaSingleton ''y'')) ?as None = Inr ?x"
    by (simp add: add_cvalue_from_args_def)
  have e: "assign_instr ?x sample_running (sample_host [] []) = Inl KeyError"
    by (simp add: assign_instr_def exec_op_def exec_add_def mk_op_def operand_def py_nth_def
      py_index_def sample_running_def host_read_def dget_def result_name_def ensure_def)
  have "wf_program (pc_program sample_running)"
    by (simp add: sample_running_def sample_instance_def wf_mk_program)
  from accepted_instr_errors [OF a this _ _ e] e show ?thesis by simp
qed

theorem assign_block_effects_witness:
  "\<exists>p' h'. assign_block ''b'' sample_running (sample_host [] []) = Inr (p', h') \<and>
     pc_shared_mem p' = pc_shared_mem sample_running \<and> map_of (hs_jumps h') 3 = Some 0"
proof -
  have e: "case assign_block ''b'' sample_running (sample_host [] []) of
      Inr (p', h') \<Rightarrow> map_of (hs_jumps h') 3 = Some 0 | Inl e \<Rightarrow> False"
    by (simp add: assign_block_def get_block_def sample_running_def sample_instance_def mk_program_def
        sample_block_def dupdate_def dget_def assign_instr_def exec_op_def exec_add_def sample_add_def mk_op_def
        operand_def py_nth_def py_index_def host_read_def result_name_def ensure_def exec_jump_def
        str_attribute_def get_block_id_def)
  then obtain p' h' where r: "assign_block ''b'' sample_running (sample_host [] []) = Inr (p', h')"
    "map_of (hs_jumps h') 3 = Some 0" by (auto split: sum.splits)
  from assign_block_effects [OF r(1)] r show ?thesis by (auto simp: host_frame_def)
qed

theorem lr_call_passes_values_witness:
  "\<exists>c p1 m2 p2. prepare_lr_call sample_running sample_call = Inr (c, p1) \<and>
     write_lr_out (lc_result_addr c) [42] 0 (pc_shared_mem p1) = Inr m2 \<and>
     read_lr_in (lc_input_addr c) 1 0 (pc_shared_mem p1) = Inr [7] \<and>
     post_lr_call (set_shared_mem m2 p1) sample_call c = Inr p2 \<and> host_read ''r'' (pc_host_mem p2) = Inr 42"
proof -
  have inv: "sm_inv (pc_shared_mem sample_running)" by (simp add: sample_running_def sm_inv_init)
  have "case prepare_lr_call sample_running sample_call of
      Inr (c, p1) \<Rightarrow> (case write_lr_out (lc_result_addr c) [42] 0 (pc_shared_mem p1) of
        Inr m2 \<Rightarrow> read_lr_in (lc_input_addr c) 1 0 (pc_shared_mem p1) = Inr [7] | Inl e \<Rightarrow> False)
    | Inl e \<Rightarrow> False" by code_simp
  then obtain c p1 where p1: "prepare_lr_call sample_running sample_call = Inr (c, p1)"
    and w: "case write_lr_out (lc_result_addr c) [42] 0 (pc_shared_mem p1) of
        Inr m2 \<Rightarrow> read_lr_in (lc_input_addr c) 1 0 (pc_shared_mem p1) = Inr [7] | Inl e \<Rightarrow> False"
    by (cases "prepare_lr_call sample_running sample_call") auto
  from w obtain m2 where "write_lr_out (lc_result_addr c) [42] 0 (pc_shared_mem p1) = Inr m2"
    "read_lr_in (lc_input_addr c) 1 0 (pc_shared_mem p1) = Inr [7]"
    by (cases "write_lr_out (lc_result_addr c) [42] 0 (pc_shared_mem p1)") auto
  note r = p1 this
  from lr_call_passes_values [OF inv r(1) _ _ _ _ r(2), of "[''x'']" "[''r'']"] r show ?thesis
    by (auto simp: sample_call_def mk_op_def)
qed

text \<open>The first process sends its 7 over the socket, the second waits from time 100 on until 120.\<close>

definition sample_send :: iqoala_op where
  "sample_send = mk_op SendCMsgOp [IqoalaSingleton ''sock'', IqoalaSingleton ''x''] None []"

lemma sample_send_runs:
  "\<exists>h'. assign_instr sample_send sample_running (sample_host [] []) = Inr (sample_running, h')"
  by (simp add: assign_instr_def exec_op_def exec_send_def sample_send_def mk_op_def operand_def py_nth_def
      py_index_def ensure_def sample_running_def host_read_def dget_def ck_send_int_def ck_send_def
      send_peer_msg_def sample_host_def sample_socket_def sample_instance_def set_jump_def dhas_def)

theorem send_receive_round_trip_witness:
  "\<exists>m pb' hb'. assign_instr sample_recv sample_running
       (sample_host [(110, ''netstack'', m), (120, ''peer_bob'', m)] []) = Inr (pb', hb') \<and>
     host_read ''y'' (pc_host_mem pb') = Inr 7 \<and> host_now hb' = 125"
proof -
  let ?c = sample_socket and ?p = sample_running
  obtain h' where s: "assign_instr sample_send ?p (sample_host [] []) = Inr (?p, h')" using sample_send_runs by blast
  have send: "op_class sample_send = SendCMsgOp" "operand sample_send 0 = Inr (IqoalaSingleton ''sock'')"
    "operand sample_send 1 = Inr (IqoalaSingleton ''x'')"
    by (simp_all add: sample_send_def mk_op_def operand_def py_nth_def py_index_def ensure_def)
  have recv: "op_class sample_recv = ReceiveCMsgOp" "operand sample_recv 0 = Inr (IqoalaSingleton ''sock'')"
    "result_name sample_recv = Inr ''y''"
    by (simp_all add: sample_recv_def mk_op_def operand_def py_nth_def py_index_def ensure_def result_name_def)
  have vals: "read_operand (IqoalaSingleton ''sock'') (pc_host_mem ?p) = Inr 0" "map_of (pc_csockets ?p) 0 = Some ?c"
    "read_operand (IqoalaSingleton ''x'') (pc_host_mem ?p) = Inr 7"
    by (simp_all add: sample_running_def host_read_def dget_def)
  have host: "map_of (ib_listeners (hs_inbox (sample_host as []))) (peer_listener (ck_remote_name ?c)) = Some []"
    "\<forall>(u, n, _) \<in> set [(110, ''netstack'', k)]. u \<le> (120 :: real) \<and> n \<noteq> peer_listener (ck_remote_name ?c)"
    "\<forall>(u, _) \<in> set []. (120 :: real) < u" "host_now (sample_host as []) \<le> 120"
    "0 \<le> hl_peer_latency (hs_latencies (sample_host as []))" for as and k :: "host_content message"
    by (simp_all add: sample_host_def sample_socket_def peer_listener_def)
  note r = send_receive_round_trip [OF send vals(1,2,3) s recv vals(1,2) host]
  obtain m where m: "hs_sent h' = [(''bob'', m)]"
    using r [of "[]" m] by (auto simp: sample_host_def sample_socket_def)
  let ?hb = "sample_host [(110, ''netstack'', m), (120, ''peer_bob'', m)] []"
  have "ib_arrivals (hs_inbox ?hb) = [(110, ''netstack'', m)] @ (120, peer_listener (ck_remote_name ?c), m) # []"
    "hl_peer_latency (hs_latencies ?hb) = 5"
    by (simp_all add: sample_host_def sample_socket_def peer_listener_def)
  with r [of "[(110, ''netstack'', m), (120, ''peer_bob'', m)]" m] m show ?thesis
    by (auto simp: sample_host_def [of "[]"] sample_socket_def)
qed

theorem ready_message_is_lost_witness:
  "assign_instr sample_recv sample_running
     (sample_host [] [((4, 3), [\<lparr>src_pid = 4, dst_pid = 3, content = IntMsg 1\<rparr>])]) = Inl KeyError"
proof (rule ready_message_is_lost [where a = "IqoalaSingleton ''sock''" and i = 0 and c = sample_socket])
  show "map_of (ib_listeners (hs_inbox (sample_host [] [((4, 3), [\<lparr>src_pid = 4, dst_pid = 3, content = IntMsg 1\<rparr>])])))
      (peer_listener (ck_remote_name sample_socket)) = Some [((4, 3), [\<lparr>src_pid = 4, dst_pid = 3, content = IntMsg 1\<rparr>])]"
    by (simp add: sample_host_def sample_socket_def)
qed (simp_all add: sample_recv_def mk_op_def operand_def py_nth_def py_index_def ensure_def result_name_def
    sample_running_def host_read_def dget_def sample_socket_def sample_instance_def has_msg_def)

end
