(* ===== verification/NetSchedule.thy ===== *)
theory NetSchedule
  imports Prelude
begin

text \<open>
  The network schedule (\<open>EhiNetworkSchedule\<close> in \<open>qoala/lang/ehi.py\<close>): a pattern of time
  bins that repeats, and the two searches for the next bin. Simulated time is a real number.
\<close>

record network_timebin =
  tb_nodes :: "int set"
  tb_pids :: "(int, int) dict"

text \<open>The generated \<open>__eq__\<close>: frozen sets and dictionaries compare by content.\<close>

definition timebin_eq :: "network_timebin \<Rightarrow> network_timebin \<Rightarrow> bool" where
  "timebin_eq a b \<longleftrightarrow> tb_nodes a = tb_nodes b \<and>
     set (keys (tb_pids a)) = set (keys (tb_pids b)) \<and>
     (\<forall>k \<in> set (keys (tb_pids a)). map_of (tb_pids a) k = map_of (tb_pids b) k)"

record network_schedule =
  ns_bin_length :: int
  ns_first_bin :: int
  ns_bin_pattern :: "network_timebin list"
  ns_repeat_period :: int

text \<open>\<open>floor(x / n)\<close> and \<open>ceil(x / n)\<close>; a zero divisor raises.\<close>

definition floor_div :: "real \<Rightarrow> int \<Rightarrow> int res" where
  "floor_div x n = (if n = 0 then Inl ZeroDivisionError else Inr \<lfloor>x / real_of_int n\<rfloor>)"

definition ceil_div :: "real \<Rightarrow> int \<Rightarrow> int res" where
  "ceil_div x n = (if n = 0 then Inl ZeroDivisionError else Inr \<lceil>x / real_of_int n\<rceil>)"

definition next_bin :: "network_schedule \<Rightarrow> real \<Rightarrow> (real \<times> network_timebin) res" where
  "next_bin s time =
     (let global_offset = time - real_of_int (ns_first_bin s) in
      rbind (floor_div global_offset (ns_repeat_period s)) (\<lambda>curr_pattern_index.
      let curr_pattern_start =
            real_of_int (curr_pattern_index * ns_repeat_period s + ns_first_bin s);
          time_since_pattern_start = global_offset - curr_pattern_start in
      rbind (ceil_div time_since_pattern_start (ns_bin_length s)) (\<lambda>next_bin_index.
      if int (length (ns_bin_pattern s)) \<le> next_bin_index
      then rbind (py_nth (ns_bin_pattern s) 0) (\<lambda>b.
           Inr (curr_pattern_start + real_of_int (ns_repeat_period s), b))
      else rbind (py_nth (ns_bin_pattern s) next_bin_index) (\<lambda>b.
           Inr (real_of_int (next_bin_index * ns_bin_length s) + curr_pattern_start, b)))))"

text \<open>
  The loop over the pattern does not stop at a match: the last equal bin counts.
\<close>

fun last_bin_index :: "network_timebin \<Rightarrow> network_timebin list \<Rightarrow> int \<Rightarrow> int option \<Rightarrow> int option" where
  "last_bin_index b [] i acc = acc"
| "last_bin_index b (p # ps) i acc = last_bin_index b ps (i + 1) (if timebin_eq b p then Some i else acc)"

definition next_specific_bin :: "network_schedule \<Rightarrow> real \<Rightarrow> network_timebin \<Rightarrow> real res" where
  "next_specific_bin s time b =
     (case last_bin_index b (ns_bin_pattern s) 0 None of
        None \<Rightarrow> Inl ValueError
      | Some bin_index \<Rightarrow>
          let bin_rel = real_of_int (bin_index * ns_bin_length s);
              global_offset = time - real_of_int (ns_first_bin s) in
          rbind (floor_div global_offset (ns_repeat_period s)) (\<lambda>curr_pattern_index.
          let curr_pattern_start =
                real_of_int (curr_pattern_index * ns_repeat_period s + ns_first_bin s);
              time_since = global_offset - curr_pattern_start in
          Inr (if bin_rel \<ge> time_since then bin_rel - time_since
               else real_of_int (ns_repeat_period s) - time_since + bin_rel)))"

text \<open>The time at which bin \<open>i\<close> of repetition \<open>k\<close> starts.\<close>

definition bin_start :: "network_schedule \<Rightarrow> int \<Rightarrow> int \<Rightarrow> real" where
  "bin_start s k i =
     real_of_int (ns_first_bin s + k * ns_repeat_period s + i * ns_bin_length s)"

text \<open>A schedule whose bins fit into the repeat period.\<close>

definition wf_schedule :: "network_schedule \<Rightarrow> bool" where
  "wf_schedule s \<longleftrightarrow> 0 < ns_bin_length s \<and> 0 < ns_repeat_period s \<and> ns_bin_pattern s \<noteq> [] \<and>
     int (length (ns_bin_pattern s)) * ns_bin_length s \<le> ns_repeat_period s"

lemma last_bin_index_acc:
  "last_bin_index b ps i acc = Some j \<Longrightarrow>
     acc = Some j \<or> (i \<le> j \<and> j < i + int (length ps) \<and> timebin_eq b (ps ! nat (j - i)))"
proof (induction ps arbitrary: i acc)
  case (Cons p ps)
  have step: "nat (j - i) = Suc (nat (j - (i + 1)))" if "i + 1 \<le> j" using that by linarith
  from Cons.prems have "last_bin_index b ps (i + 1) (if timebin_eq b p then Some i else acc) = Some j"
    by simp
  from Cons.IH [OF this] show ?case
  proof
    assume "(if timebin_eq b p then Some i else acc) = Some j"
    then show ?thesis by (auto split: if_splits)
  next
    assume "i + 1 \<le> j \<and> j < i + 1 + int (length ps) \<and> timebin_eq b (ps ! nat (j - (i + 1)))"
    then show ?thesis using step by simp
  qed
qed simp

lemma last_bin_index_range:
  "last_bin_index b ps 0 None = Some j \<Longrightarrow> 0 \<le> j \<and> j < int (length ps) \<and> timebin_eq b (ps ! nat j)"
  using last_bin_index_acc [of b ps 0 None j] by auto

lemma last_bin_index_None: "last_bin_index b ps i acc = None \<longleftrightarrow> acc = None \<and> (\<forall>p \<in> set ps. \<not> timebin_eq b p)"
  by (induction ps arbitrary: i acc) auto

text \<open>Two multiples of the period that are less than a period apart are equal.\<close>

lemma floor_period:
  fixes t :: real
  assumes "0 < R"
  shows "real_of_int (\<lfloor>t / real_of_int R\<rfloor> * R) \<le> t" "t < real_of_int (\<lfloor>t / real_of_int R\<rfloor> * R + R)"
proof -
  have R: "0 < real_of_int R" using assms by simp
  show "real_of_int (\<lfloor>t / real_of_int R\<rfloor> * R) \<le> t" "t < real_of_int (\<lfloor>t / real_of_int R\<rfloor> * R + R)"
    using floor_divide_lower [OF R, of t] floor_divide_upper [OF R, of t] by (simp_all add: algebra_simps)
qed


section \<open>Correctness of the searches\<close>

text \<open>A bin of the pattern starts within the repeat period.\<close>

lemma wf_bin_offset:
  assumes "wf_schedule s" "i < length (ns_bin_pattern s)"
  shows "int i * ns_bin_length s < ns_repeat_period s"
proof -
  have "(int i + 1) * ns_bin_length s \<le> int (length (ns_bin_pattern s)) * ns_bin_length s"
    using assms by (intro mult_right_mono) (auto simp: wf_schedule_def)
  then show ?thesis using assms(1) by (auto simp: wf_schedule_def algebra_simps)
qed

text \<open>No bin of an earlier repetition starts at or after a time of the current one.\<close>

lemma bin_start_period:
  assumes "wf_schedule s" "ns_first_bin s = 0" "i < length (ns_bin_pattern s)"
    and "t \<le> bin_start s k (int i)"
  shows "\<lfloor>t / real_of_int (ns_repeat_period s)\<rfloor> \<le> k"
proof (rule ccontr)
  let ?q = "\<lfloor>t / real_of_int (ns_repeat_period s)\<rfloor>"
  assume "\<not> ?q \<le> k"
  then have "(k + 1) * ns_repeat_period s \<le> ?q * ns_repeat_period s"
    using assms(1) by (intro mult_right_mono) (auto simp: wf_schedule_def)
  with wf_bin_offset [OF assms(1,3)]
  have "k * ns_repeat_period s + int i * ns_bin_length s < ?q * ns_repeat_period s"
    by (simp add: algebra_simps)
  then have "bin_start s k (int i) < real_of_int (?q * ns_repeat_period s)"
    using assms(2) unfolding bin_start_def of_int_less_iff by simp
  moreover have "real_of_int (?q * ns_repeat_period s) \<le> t"
    using assms(1) floor_period(1) by (simp add: wf_schedule_def)
  ultimately show False using assms(4) by linarith
qed

text \<open>What \<open>next_bin\<close> computes when the schedule starts at time zero.\<close>

lemma next_bin_zero:
  fixes t :: real
  assumes "wf_schedule s" "ns_first_bin s = 0"
  defines "q \<equiv> \<lfloor>t / real_of_int (ns_repeat_period s)\<rfloor>"
  defines "n \<equiv> \<lceil>(t - real_of_int (q * ns_repeat_period s)) / real_of_int (ns_bin_length s)\<rceil>"
  shows "0 \<le> n"
    and "next_bin s t = Inr (if int (length (ns_bin_pattern s)) \<le> n
           then (bin_start s (q + 1) 0, ns_bin_pattern s ! 0)
           else (bin_start s q n, ns_bin_pattern s ! nat n))"
proof -
  have *: "0 < ns_bin_length s" "0 < ns_repeat_period s" "ns_bin_pattern s \<noteq> []"
    using assms by (auto simp: wf_schedule_def)
  have "0 \<le> t - real_of_int (q * ns_repeat_period s)"
    using floor_period(1) [OF *(2)] by (simp add: q_def)
  then show n: "0 \<le> n" using *(1)
    by (metis ceiling_mono ceiling_zero divide_nonneg_pos n_def of_int_0_less_iff)
  have p0: "py_nth (ns_bin_pattern s) 0 = Inr (ns_bin_pattern s ! 0)"
    using *(3) by (simp add: py_nth_nonneg)
  have "floor_div t (ns_repeat_period s) = Inr q"
    "ceil_div (t - real_of_int (q * ns_repeat_period s)) (ns_bin_length s) = Inr n"
    using * by (auto simp: floor_div_def ceil_div_def q_def n_def)
  then show "next_bin s t = Inr (if int (length (ns_bin_pattern s)) \<le> n
           then (bin_start s (q + 1) 0, ns_bin_pattern s ! 0)
           else (bin_start s q n, ns_bin_pattern s ! nat n))"
    using assms(2) n p0
    by (simp add: next_bin_def bin_start_def py_nth_nonneg algebra_simps)
qed

text \<open>C24: For a schedule whose first bin starts at time zero, \<open>next_bin\<close> never raises: it returns
the start of a bin, with that bin's entry of the pattern, no earlier than the given time; and no
bin of any repetition that starts at or after the given time starts before it.\<close>

theorem next_bin_earliest:
  assumes "wf_schedule s" "ns_first_bin s = 0"
  shows "\<exists>k i. i < length (ns_bin_pattern s) \<and>
    next_bin s t = Inr (bin_start s k (int i), ns_bin_pattern s ! i) \<and>
    t \<le> bin_start s k (int i) \<and>
    (\<forall>k' i'. i' < length (ns_bin_pattern s) \<longrightarrow> t \<le> bin_start s k' (int i') \<longrightarrow>
       bin_start s k (int i) \<le> bin_start s k' (int i'))"
proof -
  define q where "q = \<lfloor>t / real_of_int (ns_repeat_period s)\<rfloor>"
  define n where "n = \<lceil>(t - real_of_int (q * ns_repeat_period s)) / real_of_int (ns_bin_length s)\<rceil>"
  note nb = next_bin_zero [OF assms, of t, folded q_def, folded n_def]
  let ?len = "length (ns_bin_pattern s)"
  have pos: "0 < ns_bin_length s" "0 < ns_repeat_period s" "0 < ?len"
    using assms(1) by (auto simp: wf_schedule_def)
  have after: "bin_start s (q + 1) 0 \<le> bin_start s k' (int i')" if "q < k'" for k' i'
  proof -
    have "(q + 1) * ns_repeat_period s \<le> k' * ns_repeat_period s"
      using that pos by (intro mult_right_mono) auto
    moreover have "0 \<le> int i' * ns_bin_length s" using pos by simp
    ultimately have "ns_first_bin s + (q + 1) * ns_repeat_period s + 0 * ns_bin_length s \<le>
        ns_first_bin s + k' * ns_repeat_period s + int i' * ns_bin_length s" by linarith
    then show ?thesis unfolding bin_start_def of_int_le_iff .
  qed
  have same: "n \<le> int i'" if "t \<le> bin_start s q (int i')" for i'
  proof -
    have "(t - real_of_int (q * ns_repeat_period s)) / real_of_int (ns_bin_length s) \<le> real_of_int (int i')"
      using that pos assms(2) by (simp add: bin_start_def field_simps)
    then show ?thesis unfolding n_def by (simp add: ceiling_le_iff)
  qed
  have le_k: "q \<le> k'" if "i' < ?len" "t \<le> bin_start s k' (int i')" for k' i'
    using bin_start_period [OF assms that] by (simp add: q_def)
  show ?thesis
  proof (cases "int ?len \<le> n")
    case True
    have "t \<le> bin_start s (q + 1) 0"
      using floor_period(2) [OF pos(2), of t] assms(2) by (simp add: bin_start_def q_def algebra_simps)
    moreover have "bin_start s (q + 1) 0 \<le> bin_start s k' (int i')"
      if "i' < ?len" "t \<le> bin_start s k' (int i')" for k' i'
    proof (cases "k' = q")
      case True
      with that have "n \<le> int i'" by (intro same) simp
      with that \<open>int ?len \<le> n\<close> show ?thesis by linarith
    next
      case False
      with le_k [OF that] show ?thesis by (intro after) auto
    qed
    ultimately show ?thesis using nb(2) True pos(3)
      by (intro exI [of _ "q + 1"] exI [of _ 0]) auto
  next
    case False
    define i where "i = nat n"
    have i: "int i = n" "i < ?len" using False nb(1) by (auto simp: i_def)
    have "(t - real_of_int (q * ns_repeat_period s)) / real_of_int (ns_bin_length s) \<le> real_of_int n"
      unfolding n_def by linarith
    then have t: "t \<le> bin_start s q (int i)"
      using pos assms(2) i by (simp add: bin_start_def field_simps)
    have "bin_start s q (int i) \<le> bin_start s k' (int i')"
      if "i' < ?len" "t \<le> bin_start s k' (int i')" for k' i'
    proof (cases "k' = q")
      case True
      with that have "n \<le> int i'" by (intro same) simp
      with i have "int i * ns_bin_length s \<le> int i' * ns_bin_length s"
        using pos by (intro mult_right_mono) auto
      then have "ns_first_bin s + q * ns_repeat_period s + int i * ns_bin_length s \<le>
          ns_first_bin s + k' * ns_repeat_period s + int i' * ns_bin_length s" using True by simp
      then show ?thesis unfolding bin_start_def of_int_le_iff .
    next
      case False
      with le_k [OF that] have "bin_start s (q + 1) 0 \<le> bin_start s k' (int i')" by (intro after) auto
      moreover have "bin_start s q (int i) \<le> bin_start s (q + 1) 0"
        using wf_bin_offset [OF assms(1) i(2)] unfolding bin_start_def of_int_le_iff
        by (simp add: algebra_simps)
      ultimately show ?thesis by linarith
    qed
    with t i nb(2) False show ?thesis
      by (intro exI [of _ q] exI [of _ i]) (auto simp: i_def)
  qed
qed

definition sample_schedule :: network_schedule where
  "sample_schedule = \<lparr>ns_bin_length = 100, ns_first_bin = 0,
     ns_bin_pattern = [\<lparr>tb_nodes = {0, 1}, tb_pids = [(0, 0), (1, 0)]\<rparr>,
                       \<lparr>tb_nodes = {0, 1}, tb_pids = [(0, 1), (1, 1)]\<rparr>],
     ns_repeat_period = 300\<rparr>"

lemma sample_schedule_ok: "wf_schedule sample_schedule" "ns_first_bin sample_schedule = 0"
  by (auto simp: wf_schedule_def sample_schedule_def)

theorem next_bin_earliest_witness:
  "\<exists>k i. i < length (ns_bin_pattern sample_schedule) \<and>
    next_bin sample_schedule 150 =
      Inr (bin_start sample_schedule k (int i), ns_bin_pattern sample_schedule ! i)"
  using next_bin_earliest [OF sample_schedule_ok, of 150] by blast

text \<open>For a schedule whose first bin starts at time zero, \<open>next_specific_bin\<close> returns the
non-negative delay, shorter than one repeat period, to a start of an entry of the pattern equal to
the requested bin; no start of that entry lies in between. It raises exactly when the pattern has
no such entry.\<close>

theorem next_specific_bin_delay:
  assumes "wf_schedule s" "ns_first_bin s = 0"
  shows "(\<forall>p \<in> set (ns_bin_pattern s). \<not> timebin_eq b p) \<and> next_specific_bin s t b = Inl ValueError \<or>
    (\<exists>d j k. next_specific_bin s t b = Inr d \<and> 0 \<le> d \<and> d < real_of_int (ns_repeat_period s) \<and>
       j < length (ns_bin_pattern s) \<and> timebin_eq b (ns_bin_pattern s ! j) \<and>
       t + d = bin_start s k (int j) \<and>
       (\<forall>k'. t \<le> bin_start s k' (int j) \<longrightarrow> t + d \<le> bin_start s k' (int j)))"
proof (cases "last_bin_index b (ns_bin_pattern s) 0 None")
  case None
  moreover from None have "\<forall>p \<in> set (ns_bin_pattern s). \<not> timebin_eq b p"
    by (simp add: last_bin_index_None)
  ultimately show ?thesis by (intro disjI1) (simp add: next_specific_bin_def)
next
  case (Some j')
  let ?R = "ns_repeat_period s"
  define q where "q = \<lfloor>t / real_of_int ?R\<rfloor>"
  define j where "j = nat j'"
  have j: "j' = int j" "j < length (ns_bin_pattern s)" "timebin_eq b (ns_bin_pattern s ! j)"
    using last_bin_index_range [OF Some] by (auto simp: j_def)
  have pos: "0 < ?R" using assms by (simp add: wf_schedule_def)
  define since where "since = t - real_of_int (q * ?R)"
  have since: "0 \<le> since" "since < real_of_int ?R"
    using floor_period [OF pos, of t] by (auto simp: since_def q_def)
  define rel where "rel = real_of_int (int j * ns_bin_length s)"
  have rel: "0 \<le> rel" "rel < real_of_int ?R"
    using wf_bin_offset [OF assms(1) j(2)] assms(1) unfolding rel_def of_int_less_iff
    by (auto simp: wf_schedule_def)
  define d where "d = (if since \<le> rel then rel - since else real_of_int ?R - since + rel)"
  define k where "k = (if since \<le> rel then q else q + 1)"
  have eq: "next_specific_bin s t b = Inr d"
    using Some assms(2) pos j(1)
    by (simp add: next_specific_bin_def floor_div_def d_def since_def rel_def q_def)
  have start: "bin_start s k' (int j) = real_of_int (k' * ?R) + rel" for k'
    using assms(2) by (simp add: bin_start_def rel_def)
  have d: "0 \<le> d" "d < real_of_int ?R" "t + d = bin_start s k (int j)"
    using since rel by (auto simp: d_def k_def start since_def algebra_simps)
  have "t + d \<le> bin_start s k' (int j)" if "t \<le> bin_start s k' (int j)" for k'
  proof -
    have "k \<le> k'"
    proof (rule ccontr)
      assume "\<not> k \<le> k'"
      then have "(k' + 1) * ?R \<le> k * ?R" using pos by (intro mult_right_mono) auto
      then have "real_of_int (k' * ?R) + real_of_int ?R \<le> real_of_int (k * ?R)"
        by (simp only: of_int_add [symmetric] of_int_le_iff) (simp add: algebra_simps)
      with d that show False by (simp add: start)
    qed
    then have "k * ?R \<le> k' * ?R" using pos by (intro mult_right_mono) auto
    then have "real_of_int (k * ?R) \<le> real_of_int (k' * ?R)" by (simp only: of_int_le_iff)
    with d(3) show ?thesis by (simp add: start)
  qed
  with eq d j show ?thesis by blast
qed

theorem next_specific_bin_delay_witness:
  "\<exists>d j. next_specific_bin sample_schedule 150 (ns_bin_pattern sample_schedule ! 0) = Inr d \<and>
     j < length (ns_bin_pattern sample_schedule) \<and> 0 \<le> d"
proof -
  have "\<exists>p \<in> set (ns_bin_pattern sample_schedule). timebin_eq (ns_bin_pattern sample_schedule ! 0) p"
    by (auto simp: sample_schedule_def timebin_eq_def)
  then show ?thesis
    using next_specific_bin_delay [OF sample_schedule_ok, of "ns_bin_pattern sample_schedule ! 0" 150]
    by blast
qed

text \<open>The offset of the first bin is subtracted twice. When the schedule starts at a positive
time and the given time lies after it by less than that offset, and by no less than the offset less
one bin, \<open>next_bin\<close> returns the very first bin, which started in the past.\<close>

theorem next_bin_returns_past:
  assumes "wf_schedule s" "real_of_int (ns_first_bin s) < t"
    and "t < real_of_int (2 * ns_first_bin s)" "real_of_int (2 * ns_first_bin s) < t + real_of_int (ns_bin_length s)"
    and "t < real_of_int (ns_first_bin s + ns_repeat_period s)"
  shows "next_bin s t = Inr (real_of_int (ns_first_bin s), ns_bin_pattern s ! 0) \<and>
    real_of_int (ns_first_bin s) < t"
proof -
  let ?g = "t - real_of_int (ns_first_bin s)"
  have pos: "0 < ns_bin_length s" "0 < ns_repeat_period s" "ns_bin_pattern s \<noteq> []"
    using assms(1) by (auto simp: wf_schedule_def)
  have "\<lfloor>?g / real_of_int (ns_repeat_period s)\<rfloor> = 0"
    using assms pos by (intro floor_unique) (auto simp: field_simps)
  moreover have "\<lceil>(?g - real_of_int (ns_first_bin s)) / real_of_int (ns_bin_length s)\<rceil> = 0"
    using assms pos by (intro ceiling_unique) (auto simp: field_simps)
  moreover have "py_nth (ns_bin_pattern s) 0 = Inr (ns_bin_pattern s ! 0)"
    using pos by (simp add: py_nth_nonneg)
  ultimately show ?thesis using assms(2) pos
    by (simp add: next_bin_def floor_div_def ceil_div_def)
qed

theorem next_bin_returns_past_witness:
  "next_bin (sample_schedule\<lparr>ns_first_bin := 50\<rparr>) 95 = Inr (50, ns_bin_pattern sample_schedule ! 0)"
  using next_bin_returns_past [of "sample_schedule\<lparr>ns_first_bin := 50\<rparr>" 95]
  by (simp add: sample_schedule_def wf_schedule_def)

end
