(* ===== verification/Lhi.thy ===== *)
theory Lhi
  imports Ehi NetSchedule
begin

text \<open>
  The low-level hardware interface (\<open>qoala/runtime/lhi.py\<close>), the translation of native
  instructions (\<open>qoala/runtime/ntf.py\<close>) and the conversion to the exposed interface
  (\<open>qoala/runtime/lhi_to_ehi.py\<close>). NetSquid's classes appear as names only: error models and
  sampler factories are compared and passed on, never run.
\<close>

section \<open>Topologies\<close>

datatype error_model = DepolarNoiseModel | T1T2NoiseModel | OtherErrorModel nat

record lhi_qubit_info =
  lq_is_communication :: bool
  lq_error_model :: error_model
  lq_error_model_kwargs :: "(string, real) dict"

record lhi_gate_info =
  lg_instruction :: ns_instr
  lg_duration :: real
  lg_error_model :: error_model
  lg_error_model_kwargs :: "(string, real) dict"

record lhi_topology =
  lt_qubit_infos :: "(int, lhi_qubit_info) dict"
  lt_single_gate_infos :: "(int, lhi_gate_info list) dict"
  lt_multi_gate_infos :: "(multi_qubit, lhi_gate_info list) dict"

definition lhi_find_single_gate :: "lhi_topology \<Rightarrow> int \<Rightarrow> ns_instr \<Rightarrow> lhi_gate_info option" where
  "lhi_find_single_gate t q instr =
     (case map_of (lt_single_gate_infos t) q of
        None \<Rightarrow> None
      | Some infos \<Rightarrow> List.find (\<lambda>g. lg_instruction g = instr) infos)"

definition lhi_find_multi_gate :: "lhi_topology \<Rightarrow> int list \<Rightarrow> ns_instr \<Rightarrow> lhi_gate_info option" where
  "lhi_find_multi_gate t qs instr =
     (case map_of (lt_multi_gate_infos t) (MultiQubit qs) of
        None \<Rightarrow> None
      | Some infos \<Rightarrow> List.find (\<lambda>g. lg_instruction g = instr) infos)"

subsection \<open>Builders\<close>

text \<open>The configuration interfaces, as what their methods return.\<close>

record lhi_qubit_config =
  to_is_communication :: bool
  to_q_error_model :: error_model
  to_q_error_model_kwargs :: "(string, real) dict"

record lhi_gate_config =
  to_instruction :: ns_instr
  to_duration :: int
  to_g_error_model :: error_model
  to_g_error_model_kwargs :: "(string, real) dict"

record lhi_topology_config =
  get_qubit_configs :: "(int, lhi_qubit_config) dict"
  get_single_gate_configs :: "(int, lhi_gate_config list) dict"
  get_multi_gate_configs :: "(multi_qubit, lhi_gate_config list) dict"

definition gate_from_config :: "lhi_gate_config \<Rightarrow> lhi_gate_info" where
  "gate_from_config c =
     \<lparr>lg_instruction = to_instruction c, lg_duration = real_of_int (to_duration c),
      lg_error_model = to_g_error_model c, lg_error_model_kwargs = to_g_error_model_kwargs c\<rparr>"

definition topology_from_config :: "lhi_topology_config \<Rightarrow> lhi_topology" where
  "topology_from_config cfg =
     \<lparr>lt_qubit_infos = dict_of (map (\<lambda>(i, c). (i,
        \<lparr>lq_is_communication = to_is_communication c, lq_error_model = to_q_error_model c,
         lq_error_model_kwargs = to_q_error_model_kwargs c\<rparr>)) (get_qubit_configs cfg)),
      lt_single_gate_infos =
        dict_of (map (\<lambda>(i, cs). (i, map gate_from_config cs)) (get_single_gate_configs cfg)),
      lt_multi_gate_infos =
        dict_of (map (\<lambda>(i, cs). (i, map gate_from_config cs)) (get_multi_gate_configs cfg))\<rparr>"

definition t1t2_qubit :: "bool \<Rightarrow> real \<Rightarrow> real \<Rightarrow> lhi_qubit_info" where
  "t1t2_qubit c t1 t2 =
     \<lparr>lq_is_communication = c, lq_error_model = T1T2NoiseModel,
      lq_error_model_kwargs = [(''T1'', t1), (''T2'', t2)]\<rparr>"

definition lhi_perfect_qubit :: "bool \<Rightarrow> lhi_qubit_info" where
  "lhi_perfect_qubit c = t1t2_qubit c 0 0"

definition depolar_gates :: "real \<Rightarrow> ns_instr list \<Rightarrow> real \<Rightarrow> lhi_gate_info list" where
  "depolar_gates duration instructions depolar_rate =
     map (\<lambda>i. \<lparr>lg_instruction = i, lg_duration = duration, lg_error_model = DepolarNoiseModel,
       lg_error_model_kwargs = [(''depolar_rate'', depolar_rate)]\<rparr>) instructions"

definition lhi_perfect_gates :: "real \<Rightarrow> ns_instr list \<Rightarrow> lhi_gate_info list" where
  "lhi_perfect_gates duration instructions = depolar_gates duration instructions 0"

definition lhi_fully_uniform ::
    "int \<Rightarrow> lhi_qubit_info \<Rightarrow> lhi_gate_info list \<Rightarrow> lhi_gate_info list \<Rightarrow> lhi_topology" where
  "lhi_fully_uniform n qi single two =
     \<lparr>lt_qubit_infos = uniform_dict n qi, lt_single_gate_infos = uniform_dict n single,
      lt_multi_gate_infos = pairs_dict n two\<rparr>"

definition lhi_perfect_uniform ::
    "int \<Rightarrow> ns_instr list \<Rightarrow> real \<Rightarrow> ns_instr list \<Rightarrow> real \<Rightarrow> lhi_topology" where
  "lhi_perfect_uniform n single_instrs single_dur two_instrs two_dur =
     lhi_fully_uniform n (lhi_perfect_qubit True) (lhi_perfect_gates single_dur single_instrs)
       (lhi_perfect_gates two_dur two_instrs)"

definition perfect_uniform_default_gates :: "int \<Rightarrow> lhi_topology" where
  "perfect_uniform_default_gates n =
     lhi_perfect_uniform n
       [INSTR_INIT, INSTR_X, INSTR_Y, INSTR_Z, INSTR_H, INSTR_ROT_X, INSTR_ROT_Y, INSTR_ROT_Z,
        INSTR_MEASURE, INSTR_MEASURE_INSTANT] 5000 [INSTR_CNOT, INSTR_CZ] 100000"

definition lhi_perfect_star ::
    "int \<Rightarrow> ns_instr list \<Rightarrow> real \<Rightarrow> ns_instr list \<Rightarrow> real \<Rightarrow> ns_instr list \<Rightarrow> real \<Rightarrow> lhi_topology" where
  "lhi_perfect_star n comm_instrs comm_dur mem_instrs mem_dur two_instrs two_dur =
     \<lparr>lt_qubit_infos = star_dict n (lhi_perfect_qubit True) (lhi_perfect_qubit False),
      lt_single_gate_infos =
        star_dict n (lhi_perfect_gates comm_dur comm_instrs) (lhi_perfect_gates mem_dur mem_instrs),
      lt_multi_gate_infos = spokes_dict n (lhi_perfect_gates two_dur two_instrs)\<rparr>"

definition lhi_generic_t1t2_star ::
    "int \<Rightarrow> real \<Rightarrow> real \<Rightarrow> real \<Rightarrow> real \<Rightarrow> ns_instr list \<Rightarrow> real \<Rightarrow> real \<Rightarrow> ns_instr list \<Rightarrow> real \<Rightarrow> real \<Rightarrow>
     ns_instr list \<Rightarrow> real \<Rightarrow> real \<Rightarrow> lhi_topology" where
  "lhi_generic_t1t2_star n comm_t1 comm_t2 mem_t1 mem_t2 comm_instrs comm_dur comm_depolar
       mem_instrs mem_dur mem_depolar two_instrs two_dur two_depolar =
     \<lparr>lt_qubit_infos = star_dict n (t1t2_qubit True comm_t1 comm_t2) (t1t2_qubit False mem_t1 mem_t2),
      lt_single_gate_infos =
        star_dict n (depolar_gates comm_dur comm_instrs comm_depolar)
          (depolar_gates mem_dur mem_instrs mem_depolar),
      lt_multi_gate_infos = spokes_dict n (depolar_gates two_dur two_instrs two_depolar)\<rparr>"

section \<open>Latencies, links, networks\<close>

record lhi_latencies =
  ll_host_instr_time :: real
  ll_qnos_instr_time :: real
  ll_host_peer_latency :: real
  ll_internal_sched_latency :: real

definition lhi_latencies_zero :: lhi_latencies where
  "lhi_latencies_zero = \<lparr>ll_host_instr_time = 0, ll_qnos_instr_time = 0, ll_host_peer_latency = 0,
     ll_internal_sched_latency = 0\<rparr>"

datatype sampler_factory =
    PerfectStateSamplerFactory | DepolariseWithFailureStateSamplerFactory | OtherSampler nat

record lhi_link_info =
  lk_sampler_factory :: sampler_factory
  lk_sampler_kwargs :: "(string, real) dict"
  lk_state_delay :: real

definition link_perfect :: "real \<Rightarrow> lhi_link_info" where
  "link_perfect duration = \<lparr>lk_sampler_factory = PerfectStateSamplerFactory,
     lk_sampler_kwargs = [(''cycle_time'', 0)], lk_state_delay = duration\<rparr>"

definition link_depolarise :: "real \<Rightarrow> real \<Rightarrow> real \<Rightarrow> real \<Rightarrow> lhi_link_info" where
  "link_depolarise cycle_time prob_max_mixed prob_success state_delay =
     \<lparr>lk_sampler_factory = DepolariseWithFailureStateSamplerFactory,
      lk_sampler_kwargs = [(''cycle_time'', cycle_time), (''prob_max_mixed'', prob_max_mixed),
        (''prob_success'', prob_success)],
      lk_state_delay = state_delay\<rparr>"

record lhi_network_info =
  ln_nodes :: "(int, string) dict"
  ln_links :: "(int set, lhi_link_info) dict"

definition lhi_fully_connected :: "(int, string) dict \<Rightarrow> lhi_link_info \<Rightarrow> lhi_network_info" where
  "lhi_fully_connected nodes info =
     \<lparr>ln_nodes = nodes,
      ln_links = fold (\<lambda>(n1, n2). dset {n1, n2} info) (combinations2 (keys nodes)) []\<rparr>"

definition lhi_perfect_fully_connected :: "(int, string) dict \<Rightarrow> real \<Rightarrow> lhi_network_info" where
  "lhi_perfect_fully_connected nodes duration = lhi_fully_connected nodes (link_perfect duration)"

definition lhi_add_link :: "int \<Rightarrow> int \<Rightarrow> lhi_link_info \<Rightarrow> lhi_network_info \<Rightarrow> lhi_network_info" where
  "lhi_add_link n1 n2 info n = n\<lparr>ln_links := dset {n1, n2} info (ln_links n)\<rparr>"

definition lhi_get_link :: "lhi_network_info \<Rightarrow> int \<Rightarrow> int \<Rightarrow> lhi_link_info res" where
  "lhi_get_link n a b =
     (case map_of (ln_links n) {a, b} of Some l \<Rightarrow> Inr l | None \<Rightarrow> Inl ValueError)"

record lhi_network_timebin =
  lb_nodes :: "int set"
  lb_pids :: "(int, int) dict"

record lhi_network_schedule =
  lhs_bin_length :: int
  lhs_first_bin :: int
  lhs_bin_pattern :: "lhi_network_timebin list"
  lhs_repeat_period :: int

section \<open>Native and NetQASM instructions\<close>

record ntf_interface =
  ntf_flavour :: flavour
  native_to_netqasm :: "ns_instr \<Rightarrow> nq_type list res"
  netqasm_to_native :: "nq_type \<Rightarrow> ns_instr list res"

definition generic_ns_nq_map :: "(ns_instr, nq_type list) dict" where
  "generic_ns_nq_map = dict_of
     [(INSTR_INIT, [TInit]), (INSTR_X, [TSingle GateX]), (INSTR_Y, [TSingle GateY]),
      (INSTR_Z, [TSingle GateZ]), (INSTR_H, [TSingle GateH]),
      (INSTR_ROT_X, [TRotation VanillaRotX]), (INSTR_ROT_Y, [TRotation VanillaRotY]),
      (INSTR_ROT_Z, [TRotation VanillaRotZ]), (INSTR_CNOT, [TTwo Cnot]), (INSTR_CZ, [TTwo Cphase]),
      (INSTR_MEASURE, [TMeas]), (INSTR_MEASURE_INSTANT, [TMeas])]"

definition generic_nq_ns_map :: "(nq_type, ns_instr list) dict" where
  "generic_nq_ns_map = dict_of
     [(TInit, [INSTR_INIT]), (TSingle GateX, [INSTR_X]), (TSingle GateY, [INSTR_Y]),
      (TSingle GateZ, [INSTR_Z]), (TSingle GateH, [INSTR_H]),
      (TRotation VanillaRotX, [INSTR_ROT_X]), (TRotation VanillaRotY, [INSTR_ROT_Y]),
      (TRotation VanillaRotZ, [INSTR_ROT_Z]), (TTwo Cnot, [INSTR_CNOT]), (TTwo Cphase, [INSTR_CZ]),
      (TMeas, [INSTR_MEASURE]), (TMeas, [INSTR_MEASURE_INSTANT])]"

definition generic_ntf :: ntf_interface where
  "generic_ntf = \<lparr>ntf_flavour = VanillaFlavour, native_to_netqasm = dget generic_ns_nq_map,
     netqasm_to_native = dget generic_nq_ns_map\<rparr>"

definition nv_ns_nq_map :: "(ns_instr, nq_type list) dict" where
  "nv_ns_nq_map = dict_of
     [(INSTR_INIT, [TInit]), (INSTR_ROT_X, [TRotation NvRotX]), (INSTR_ROT_Y, [TRotation NvRotY]),
      (INSTR_ROT_Z, [TRotation NvRotZ]), (INSTR_CXDIR, [TControlled NvControlledRotX]),
      (INSTR_CYDIR, [TControlled NvControlledRotY]), (INSTR_MEASURE, [TMeas]),
      (INSTR_MEASURE_INSTANT, [TMeas])]"

definition nv_nq_ns_map :: "(nq_type, ns_instr list) dict" where
  "nv_nq_ns_map = dict_of
     [(TInit, [INSTR_INIT]), (TRotation NvRotX, [INSTR_ROT_X]), (TRotation NvRotY, [INSTR_ROT_Y]),
      (TRotation NvRotZ, [INSTR_ROT_Z]), (TControlled NvControlledRotX, [INSTR_CXDIR]),
      (TControlled NvControlledRotY, [INSTR_CYDIR]), (TMeas, [INSTR_MEASURE]),
      (TMeas, [INSTR_MEASURE_INSTANT])]"

definition nv_ntf :: ntf_interface where
  "nv_ntf = \<lparr>ntf_flavour = NVFlavour, native_to_netqasm = dget nv_ns_nq_map,
     netqasm_to_native = dget nv_nq_ns_map\<rparr>"

text \<open>The instruction classes of a flavour: the core ones, and those of its own module.\<close>

fun in_flavour :: "flavour \<Rightarrow> nq_type \<Rightarrow> bool" where
  "in_flavour VanillaFlavour (TSingle g) = True"
| "in_flavour VanillaFlavour (TTwo g) = True"
| "in_flavour VanillaFlavour (TRotation g) = (g \<in> {VanillaRotX, VanillaRotY, VanillaRotZ})"
| "in_flavour VanillaFlavour (TControlled g) = False"
| "in_flavour NVFlavour (TSingle g) = False"
| "in_flavour NVFlavour (TTwo g) = False"
| "in_flavour NVFlavour (TRotation g) = (g \<in> {NvRotX, NvRotY, NvRotZ})"
| "in_flavour NVFlavour (TControlled g) = (g \<in> {NvControlledRotX, NvControlledRotY})"
| "in_flavour f t = True"

text \<open>
  The contract of an \<open>NtfInterface\<close>: each translation is one instruction of the interface's
  flavour, and translating back and forth gives the same NetQASM instruction.
\<close>

locale ntf_contract =
  fixes ntf :: ntf_interface
  assumes single: "native_to_netqasm ntf i = Inr ts \<Longrightarrow> \<exists>t. ts = [t]"
    and of_flavour: "native_to_netqasm ntf i = Inr [t] \<Longrightarrow> in_flavour (ntf_flavour ntf) t"
    and backward: "native_to_netqasm ntf i = Inr [t] \<Longrightarrow>
      \<exists>j. netqasm_to_native ntf t = Inr [j] \<and> native_to_netqasm ntf j = Inr [t]"
    and forward: "netqasm_to_native ntf t = Inr js \<Longrightarrow>
      \<exists>i. js = [i] \<and> native_to_netqasm ntf i = Inr [t]"
begin

lemma translation_image:
  "(\<exists>i. native_to_netqasm ntf i = Inr [t]) \<longleftrightarrow> (\<exists>js. netqasm_to_native ntf t = Inr js)"
  using backward forward by metis

lemma native_injective:
  "netqasm_to_native ntf t = Inr js \<Longrightarrow> netqasm_to_native ntf u = Inr js \<Longrightarrow> t = u"
  using forward by (metis list.inject sum.inject(2))

end

lemma map_of_if: "map_of ((k, v) # d) x = (if x = k then Some v else map_of d x)"
  by auto

lemma generic_maps_eval:
  "generic_ns_nq_map =
     [(INSTR_INIT, [TInit]), (INSTR_X, [TSingle GateX]), (INSTR_Y, [TSingle GateY]),
      (INSTR_Z, [TSingle GateZ]), (INSTR_H, [TSingle GateH]),
      (INSTR_ROT_X, [TRotation VanillaRotX]), (INSTR_ROT_Y, [TRotation VanillaRotY]),
      (INSTR_ROT_Z, [TRotation VanillaRotZ]), (INSTR_CNOT, [TTwo Cnot]), (INSTR_CZ, [TTwo Cphase]),
      (INSTR_MEASURE, [TMeas]), (INSTR_MEASURE_INSTANT, [TMeas])]"
  "generic_nq_ns_map =
     [(TInit, [INSTR_INIT]), (TSingle GateX, [INSTR_X]), (TSingle GateY, [INSTR_Y]),
      (TSingle GateZ, [INSTR_Z]), (TSingle GateH, [INSTR_H]),
      (TRotation VanillaRotX, [INSTR_ROT_X]), (TRotation VanillaRotY, [INSTR_ROT_Y]),
      (TRotation VanillaRotZ, [INSTR_ROT_Z]), (TTwo Cnot, [INSTR_CNOT]), (TTwo Cphase, [INSTR_CZ]),
      (TMeas, [INSTR_MEASURE_INSTANT])]"
  by (simp_all add: generic_ns_nq_map_def generic_nq_ns_map_def dupdate_def)

lemma nv_maps_eval:
  "nv_ns_nq_map =
     [(INSTR_INIT, [TInit]), (INSTR_ROT_X, [TRotation NvRotX]), (INSTR_ROT_Y, [TRotation NvRotY]),
      (INSTR_ROT_Z, [TRotation NvRotZ]), (INSTR_CXDIR, [TControlled NvControlledRotX]),
      (INSTR_CYDIR, [TControlled NvControlledRotY]), (INSTR_MEASURE, [TMeas]),
      (INSTR_MEASURE_INSTANT, [TMeas])]"
  "nv_nq_ns_map =
     [(TInit, [INSTR_INIT]), (TRotation NvRotX, [INSTR_ROT_X]), (TRotation NvRotY, [INSTR_ROT_Y]),
      (TRotation NvRotZ, [INSTR_ROT_Z]), (TControlled NvControlledRotX, [INSTR_CXDIR]),
      (TControlled NvControlledRotY, [INSTR_CYDIR]), (TMeas, [INSTR_MEASURE_INSTANT])]"
  by (simp_all add: nv_ns_nq_map_def nv_nq_ns_map_def dupdate_def)

interpretation generic: ntf_contract generic_ntf
  by unfold_locales (auto simp: generic_ntf_def generic_maps_eval map_of_if split: if_splits)

interpretation nv: ntf_contract nv_ntf
  by unfold_locales (auto simp: nv_ntf_def nv_maps_eval map_of_if split: if_splits)

end
