(* ===== verification/QDevice.thy ===== *)
theory QDevice
  imports Lhi
begin

text \<open>
  The quantum device of a node (\<open>qoala/sim/qdevice.py\<close>): which qubits are communication qubits,
  which commands the processor supports, and the checks before a list of commands is executed.
  The NetSquid processor itself is a parameter: \<open>hw_peek\<close> says whether a memory position holds a
  qubit, \<open>hw_execute\<close> what running a program does to the quantum state, how long it takes and
  what the last measurement gives.
\<close>

record qdevice_command =
  cmd_instr :: ns_instr
  cmd_indices :: "int list"
  cmd_angle :: "real option"

record 'q hardware =
  hw_peek :: "'q \<Rightarrow> int \<Rightarrow> bool"
  hw_execute :: "qdevice_command list \<Rightarrow> 'q \<Rightarrow> int option \<times> real \<times> 'q"

text \<open>
  A physical instruction has a topology or none; an entry of a topology is a position or a pair of
  positions, here a list of one or two elements.
\<close>

record 'q qdevice =
  qd_topology :: lhi_topology
  qd_phys_instrs :: "(ns_instr \<times> int list list option) list"
  qd_in_use :: "bool list"
  qd_state :: 'q

text \<open>
  The sets of qubit IDs. They are iterated over, in an order Python leaves open; here it is the
  order of the topology.
\<close>

definition qd_all_qubit_ids :: "'q qdevice \<Rightarrow> int list" where
  "qd_all_qubit_ids d = keys (lt_qubit_infos (qd_topology d))"

definition qd_comm_qubit_ids :: "'q qdevice \<Rightarrow> int list" where
  "qd_comm_qubit_ids d =
     map fst (filter (\<lambda>(q, info). lq_is_communication info) (lt_qubit_infos (qd_topology d)))"

definition qd_non_comm_qubit_ids :: "'q qdevice \<Rightarrow> int list" where
  "qd_non_comm_qubit_ids d =
     map fst (filter (\<lambda>(q, info). \<not> lq_is_communication info) (lt_qubit_infos (qd_topology d)))"

definition qd_qubit_count :: "'q qdevice \<Rightarrow> nat" where
  "qd_qubit_count d = length (qd_all_qubit_ids d)"

definition qd_comm_qubit_count :: "'q qdevice \<Rightarrow> nat" where
  "qd_comm_qubit_count d = length (qd_comm_qubit_ids d)"

definition qd_non_comm_qubit_count :: "'q qdevice \<Rightarrow> nat" where
  "qd_non_comm_qubit_count d = length (qd_non_comm_qubit_ids d)"

fun matches_allow :: "(ns_instr \<times> int list list option) list \<Rightarrow> int list \<Rightarrow> bool res" where
  "matches_allow [] indices = Inr False"
| "matches_allow ((i, None) # ms) indices = Inr True"
| "matches_allow ((i, Some topo) # ms) indices =
     (if length indices = 1
      then (if [indices ! 0] \<in> set topo then Inr True else matches_allow ms indices)
      else rbind (py_nth indices 0) (\<lambda>a. rbind (py_nth indices 1) (\<lambda>b.
           if [a, b] \<in> set topo then Inr True else matches_allow ms indices)))"

definition is_allowed :: "'q qdevice \<Rightarrow> qdevice_command \<Rightarrow> bool res" where
  "is_allowed d cmd =
     matches_allow (filter (\<lambda>(i, t). i = cmd_instr cmd) (qd_phys_instrs d)) (cmd_indices cmd)"

definition set_mem_pos_in_use :: "int \<Rightarrow> bool \<Rightarrow> 'q qdevice \<Rightarrow> 'q qdevice res" where
  "set_mem_pos_in_use i b d =
     rbind (py_setitem (qd_in_use d) i b) (\<lambda>u. Inr (d\<lparr>qd_in_use := u\<rparr>))"

text \<open>The check that the qubits are initialised stops at the first initialisation.\<close>

fun check_initialized :: "(int \<Rightarrow> bool) \<Rightarrow> qdevice_command list \<Rightarrow> unit res" where
  "check_initialized peek [] = Inr ()"
| "check_initialized peek (c # cs) =
     (if cmd_instr c = INSTR_INIT then Inr ()
      else rbind (ensure (\<forall>i \<in> set (cmd_indices c). peek i) NonInitializedQubitError) (\<lambda>_.
           check_initialized peek cs))"

text \<open>The outcome of the last measurement, the time it took, and the device afterwards.\<close>

definition execute_commands ::
    "'q hardware \<Rightarrow> qdevice_command list \<Rightarrow> 'q qdevice \<Rightarrow> (int option \<times> real \<times> 'q qdevice) res" where
  "execute_commands hw cmds d =
     rbind (rmap (\<lambda>c. rbind (is_allowed d c) (\<lambda>ok. ensure ok UnsupportedQDeviceCommandError)) cmds) (\<lambda>_.
     rbind (check_initialized (hw_peek hw (qd_state d)) cmds) (\<lambda>_.
     let (outcome, duration, q) = hw_execute hw cmds (qd_state d) in
     Inr (outcome, duration, d\<lparr>qd_state := q\<rparr>)))"

text \<open>The topology and the flags survive the execution of commands.\<close>

lemma execute_commands_frame:
  assumes "execute_commands hw cmds d = Inr (r, t, d')"
  shows "qd_topology d' = qd_topology d" "qd_in_use d' = qd_in_use d"
    "qd_phys_instrs d' = qd_phys_instrs d"
  using assms by (auto simp: execute_commands_def split: prod.splits)

lemma set_mem_pos_frame:
  assumes "set_mem_pos_in_use i b d = Inr d'"
  shows "qd_topology d' = qd_topology d" "qd_phys_instrs d' = qd_phys_instrs d"
    "qd_state d' = qd_state d" "length (qd_in_use d') = length (qd_in_use d)"
  using assms by (auto simp: set_mem_pos_in_use_def dest: py_setitem_length)

lemma in_comm_qubit_ids:
  "dict_ok (lt_qubit_infos (qd_topology d)) \<Longrightarrow> q \<in> set (qd_comm_qubit_ids d) \<longleftrightarrow>
     (\<exists>info. map_of (lt_qubit_infos (qd_topology d)) q = Some info \<and> lq_is_communication info)"
  by (force simp: qd_comm_qubit_ids_def items_map_of [symmetric])

lemma in_non_comm_qubit_ids:
  "dict_ok (lt_qubit_infos (qd_topology d)) \<Longrightarrow> q \<in> set (qd_non_comm_qubit_ids d) \<longleftrightarrow>
     (\<exists>info. map_of (lt_qubit_infos (qd_topology d)) q = Some info \<and> \<not> lq_is_communication info)"
  by (force simp: qd_non_comm_qubit_ids_def items_map_of [symmetric])

lemma qubit_counts: "qd_comm_qubit_count d + qd_non_comm_qubit_count d = qd_qubit_count d"
  using sum_length_filter_compl [of "\<lambda>x. lq_is_communication (snd x)" "lt_qubit_infos (qd_topology d)"]
  by (simp add: qd_qubit_count_def qd_comm_qubit_count_def qd_non_comm_qubit_count_def
      qd_all_qubit_ids_def qd_comm_qubit_ids_def qd_non_comm_qubit_ids_def case_prod_unfold)

text \<open>A command list that begins with an initialisation is never refused for missing qubits.\<close>

lemma check_initialized_init: "cmd_instr c = INSTR_INIT \<Longrightarrow> check_initialized peek (c # cs) = Inr ()"
  by simp

end
