(* ===== verification/MemMgr.thy ===== *)
theory MemMgr
  imports Process QDevice
begin

text \<open>
  The memory manager (\<open>qoala/sim/memmgr.py\<close>): which physical qubit holds which virtual qubit of
  which process. The device whose flags it sets and the processes it hands out are shared with
  the processors of the node; here the manager's record owns them. The contract of allocation
  and release is the locale \<open>allocator\<close>.
\<close>

section \<open>State and operations\<close>

record virtual_mapping =
  vm_unit_module :: unit_module
  vm_mapping :: "(int, int option) dict"

record virtual_location =
  vl_pid :: int
  vl_unit_module :: unit_module
  vl_virt_id :: int

record 'q memory_manager =
  mm_processes :: "(int, qoala_process) dict"
  mm_ehi :: "ehi_node_info option"
  mm_qdevice :: "'q qdevice"
  mm_process_mappings :: "(int, virtual_mapping) dict"
  mm_physical_mapping :: "(int, virtual_location option) dict"
  mm_freed_signals :: nat

definition init_memmgr :: "'q qdevice \<Rightarrow> ehi_node_info option \<Rightarrow> 'q memory_manager" where
  "init_memmgr d ehi =
     \<lparr>mm_processes = [], mm_ehi = ehi, mm_qdevice = d, mm_process_mappings = [],
      mm_physical_mapping = map (\<lambda>i. (i, None)) (qd_all_qubit_ids d), mm_freed_signals = 0\<rparr>"

text \<open>The first position of the list that no virtual qubit occupies.\<close>

fun first_free :: "(int, virtual_location option) dict \<Rightarrow> int list \<Rightarrow> int res" where
  "first_free phys [] = Inl AllocError"
| "first_free phys (i # is') =
     rbind (dget phys i) (\<lambda>l. if l = None then Inr i else first_free phys is')"

definition get_free_comm_phys_id :: "'q memory_manager \<Rightarrow> int res" where
  "get_free_comm_phys_id mm = first_free (mm_physical_mapping mm) (qd_comm_qubit_ids (mm_qdevice mm))"

definition get_free_mem_phys_id :: "'q memory_manager \<Rightarrow> int res" where
  "get_free_mem_phys_id mm = first_free (mm_physical_mapping mm) (qd_non_comm_qubit_ids (mm_qdevice mm))"

definition get_ehi :: "'q memory_manager \<Rightarrow> ehi_node_info res" where
  "get_ehi mm = (case mm_ehi mm of None \<Rightarrow> Inl AssertionError | Some e \<Rightarrow> Inr e)"

definition add_process :: "qoala_process \<Rightarrow> 'q memory_manager \<Rightarrow> 'q memory_manager" where
  "add_process p mm =
     (let um = pi_unit_module (pc_instance p) in
      mm\<lparr>mm_processes := dset (pc_pid p) p (mm_processes mm),
         mm_process_mappings := dset (pc_pid p)
           \<lparr>vm_unit_module = um, vm_mapping = dict_of (map (\<lambda>x. (x, None)) (get_all_qubit_ids um))\<rparr>
           (mm_process_mappings mm)\<rparr>)"

definition get_process :: "int \<Rightarrow> 'q memory_manager \<Rightarrow> qoala_process res" where
  "get_process pid mm = dget (mm_processes mm) pid"

definition get_all_program_ids :: "'q memory_manager \<Rightarrow> int list" where
  "get_all_program_ids mm = keys (mm_processes mm)"

definition allocate :: "int \<Rightarrow> int \<Rightarrow> 'q memory_manager \<Rightarrow> (int \<times> 'q memory_manager) res" where
  "allocate pid virt_id mm =
     rbind (dget (mm_process_mappings mm) pid) (\<lambda>vmap.
     rbind (ensure (virt_id \<in> set (get_all_qubit_ids (vm_unit_module vmap))) AllocError) (\<lambda>_.
     rbind (dget (vm_mapping vmap) virt_id) (\<lambda>cur.
     rbind (ensure (cur = None) AllocError) (\<lambda>_.
     rbind (is_communication (vm_unit_module vmap) virt_id) (\<lambda>comm.
     rbind (if comm then get_free_comm_phys_id mm else get_free_mem_phys_id mm) (\<lambda>phys_id.
     Inr (phys_id,
       mm\<lparr>mm_physical_mapping := dset phys_id
            (Some \<lparr>vl_pid = pid, vl_unit_module = vm_unit_module vmap, vl_virt_id = virt_id\<rparr>)
            (mm_physical_mapping mm),
          mm_process_mappings := dset pid
            (vmap\<lparr>vm_mapping := dset virt_id (Some phys_id) (vm_mapping vmap)\<rparr>)
            (mm_process_mappings mm)\<rparr>)))))))"

definition allocate_comm :: "int \<Rightarrow> int \<Rightarrow> 'q memory_manager \<Rightarrow> (int \<times> 'q memory_manager) res" where
  "allocate_comm pid virt_id mm =
     rbind (dget (mm_process_mappings mm) pid) (\<lambda>vmap.
     rbind (ensure (virt_id \<in> set (get_all_qubit_ids (vm_unit_module vmap))) AllocError) (\<lambda>_.
     rbind (is_communication (vm_unit_module vmap) virt_id) (\<lambda>comm.
     rbind (ensure comm AllocError) (\<lambda>_.
     allocate pid virt_id mm))))"

definition mm_free :: "int \<Rightarrow> int \<Rightarrow> 'q memory_manager \<Rightarrow> 'q memory_manager res" where
  "mm_free pid virt_id mm =
     rbind (dget (mm_process_mappings mm) pid) (\<lambda>vmap.
     rbind (py_assert (virt_id \<in> set (get_all_qubit_ids (vm_unit_module vmap)))) (\<lambda>_.
     rbind (py_assert (dhas (vm_mapping vmap) virt_id)) (\<lambda>_.
     rbind (dget (vm_mapping vmap) virt_id) (\<lambda>cur.
     case cur of
       None \<Rightarrow> Inl AllocError
     | Some phys_id \<Rightarrow>
         rbind (set_mem_pos_in_use phys_id False (mm_qdevice mm)) (\<lambda>dev.
         Inr (mm\<lparr>mm_physical_mapping := dset phys_id None (mm_physical_mapping mm),
           mm_process_mappings := dset pid
             (vmap\<lparr>vm_mapping := dset virt_id None (vm_mapping vmap)\<rparr>) (mm_process_mappings mm),
           mm_qdevice := dev,
           mm_freed_signals := Suc (mm_freed_signals mm)\<rparr>))))))"

definition get_unmapped_non_comm_qubit :: "int \<Rightarrow> 'q memory_manager \<Rightarrow> int res" where
  "get_unmapped_non_comm_qubit pid mm =
     rbind (dget (mm_process_mappings mm) pid) (\<lambda>vmap.
     rbind (rfold (\<lambda>(v, p) acc.
       if p = None then rbind (is_communication (vm_unit_module vmap) v) (\<lambda>comm.
         Inr (if comm then acc else acc @ [v]))
       else Inr acc) (vm_mapping vmap) []) (\<lambda>free_ids.
     rbind (ensure (length free_ids \<noteq> 0) AllocError) (\<lambda>_.
     Inr (Min (set free_ids)))))"

definition phys_id_for :: "int \<Rightarrow> int \<Rightarrow> 'q memory_manager \<Rightarrow> int option res" where
  "phys_id_for pid virt_id mm =
     rbind (dget (mm_process_mappings mm) pid) (\<lambda>vmap.
     case map_of (vm_mapping vmap) virt_id of None \<Rightarrow> Inl RuntimeError | Some p \<Rightarrow> Inr p)"

definition virt_id_for :: "int \<Rightarrow> int \<Rightarrow> 'q memory_manager \<Rightarrow> int option res" where
  "virt_id_for pid phys_id mm =
     rbind (dget (mm_physical_mapping mm) phys_id) (\<lambda>loc.
     Inr (case loc of None \<Rightarrow> None | Some l \<Rightarrow> if vl_pid l = pid then Some (vl_virt_id l) else None))"


section \<open>Where qubits are\<close>

text \<open>The two directions of the mapping as partial functions.\<close>

definition phys_of :: "'q memory_manager \<Rightarrow> int \<times> int \<Rightarrow> int option" where
  "phys_of mm k =
     (case map_of (mm_process_mappings mm) (fst k) of
        None \<Rightarrow> None
      | Some vm \<Rightarrow> (case map_of (vm_mapping vm) (snd k) of None \<Rightarrow> None | Some p \<Rightarrow> p))"

definition owner :: "'q memory_manager \<Rightarrow> int \<Rightarrow> (int \<times> int) option" where
  "owner mm p =
     (case map_of (mm_physical_mapping mm) p of
        None \<Rightarrow> None | Some None \<Rightarrow> None | Some (Some l) \<Rightarrow> Some (vl_pid l, vl_virt_id l))"

text \<open>
  The invariant of the manager: the dictionaries have one entry per key; the physical mapping has
  an entry for exactly the qubits of the device, and each of them a flag; each process has an
  entry for exactly the qubits of its unit module; the two mappings are inverse to each other; and
  a virtual communication qubit lives in a physical communication qubit, a virtual memory qubit
  in a physical memory qubit.
\<close>

definition device_ok :: "'q qdevice \<Rightarrow> bool" where
  "device_ok d \<longleftrightarrow> dict_ok (lt_qubit_infos (qd_topology d)) \<and>
     (\<forall>q \<in> set (qd_all_qubit_ids d). 0 \<le> q \<and> q < int (length (qd_in_use d)))"

definition unit_module_ok :: "unit_module \<Rightarrow> bool" where
  "unit_module_ok u \<longleftrightarrow> dict_ok (en_qubit_infos (um_info u))"

text \<open>A virtual qubit that is mapped lives in a physical qubit of its kind.\<close>

definition same_kind :: "'q qdevice \<Rightarrow> unit_module \<Rightarrow> int \<Rightarrow> int \<Rightarrow> bool" where
  "same_kind d u v p \<longleftrightarrow>
     (is_communication u v = Inr True \<and> p \<in> set (qd_comm_qubit_ids d)) \<or>
     (is_communication u v = Inr False \<and> p \<in> set (qd_non_comm_qubit_ids d))"

definition vmap_ok :: "'q qdevice \<Rightarrow> virtual_mapping \<Rightarrow> bool" where
  "vmap_ok d vm \<longleftrightarrow> unit_module_ok (vm_unit_module vm) \<and>
     set (keys (vm_mapping vm)) = set (get_all_qubit_ids (vm_unit_module vm)) \<and>
     (\<forall>v p. map_of (vm_mapping vm) v = Some (Some p) \<longrightarrow> same_kind d (vm_unit_module vm) v p)"

definition mm_inv :: "'q memory_manager \<Rightarrow> bool" where
  "mm_inv mm \<longleftrightarrow> device_ok (mm_qdevice mm) \<and>
     set (keys (mm_physical_mapping mm)) = set (qd_all_qubit_ids (mm_qdevice mm)) \<and>
     (\<forall>pid vm. map_of (mm_process_mappings mm) pid = Some vm \<longrightarrow> vmap_ok (mm_qdevice mm) vm) \<and>
     (\<forall>k p. phys_of mm k = Some p \<longleftrightarrow> owner mm p = Some k)"

lemma mm_invI:
  assumes "device_ok (mm_qdevice mm)"
    and "set (keys (mm_physical_mapping mm)) = set (qd_all_qubit_ids (mm_qdevice mm))"
    and "\<And>pid vm. map_of (mm_process_mappings mm) pid = Some vm \<Longrightarrow> vmap_ok (mm_qdevice mm) vm"
    and "\<And>k p. phys_of mm k = Some p \<longleftrightarrow> owner mm p = Some k"
  shows "mm_inv mm"
  using assms unfolding mm_inv_def by blast

lemma mm_inv_parts:
  assumes "mm_inv mm"
  shows mm_inv_device: "device_ok (mm_qdevice mm)"
    and mm_inv_keys: "set (keys (mm_physical_mapping mm)) = set (qd_all_qubit_ids (mm_qdevice mm))"
    and mm_inv_vmap: "map_of (mm_process_mappings mm) pid = Some vm \<Longrightarrow> vmap_ok (mm_qdevice mm) vm"
    and mm_inv_bij: "phys_of mm k = Some p \<longleftrightarrow> owner mm p = Some k"
  using assms unfolding mm_inv_def by blast+

text \<open>A pid is known, a virtual ID belongs to its unit module.\<close>

definition known :: "'q memory_manager \<Rightarrow> int \<times> int \<Rightarrow> bool" where
  "known mm k = (case map_of (mm_process_mappings mm) (fst k) of
     None \<Rightarrow> False | Some vm \<Rightarrow> snd k \<in> set (get_all_qubit_ids (vm_unit_module vm)))"

text \<open>The kind of a virtual qubit, and the physical qubits of a kind in the order of the search.\<close>

definition virt_comm :: "'q memory_manager \<Rightarrow> int \<times> int \<Rightarrow> bool" where
  "virt_comm mm k = (case map_of (mm_process_mappings mm) (fst k) of
     None \<Rightarrow> False | Some vm \<Rightarrow> is_communication (vm_unit_module vm) (snd k) = Inr True)"

definition candidates :: "'q memory_manager \<Rightarrow> int \<times> int \<Rightarrow> int list" where
  "candidates mm k = (if virt_comm mm k then qd_comm_qubit_ids (mm_qdevice mm)
     else qd_non_comm_qubit_ids (mm_qdevice mm))"

lemma first_free_Inr:
  "first_free phys ids = Inr i \<Longrightarrow> i \<in> set ids \<and> map_of phys i = Some None"
  by (induction ids) (auto split: if_splits)

lemma first_free_find:
  assumes "\<And>i. i \<in> set ids \<Longrightarrow> map_of phys i \<noteq> None"
  shows "first_free phys ids =
    (case List.find (\<lambda>i. map_of phys i = Some None) ids of None \<Rightarrow> Inl AllocError | Some i \<Rightarrow> Inr i)"
  using assms
proof (induction ids)
  case (Cons i ids)
  then have "map_of phys i \<noteq> None" by simp
  then obtain l where "map_of phys i = Some l" by blast
  with Cons show ?case by (auto simp: dget_Some)
qed simp

lemma is_communication_total:
  "v \<in> set (get_all_qubit_ids u) \<Longrightarrow> \<exists>b. is_communication u v = Inr b"
  using in_keys_map_of [of v] by (auto simp: get_all_qubit_ids_def is_communication_def dget_Some simp del: set_map)

lemma comm_ids_sub:
  "set (qd_comm_qubit_ids d) \<subseteq> set (qd_all_qubit_ids d)"
  "set (qd_non_comm_qubit_ids d) \<subseteq> set (qd_all_qubit_ids d)"
  by (auto simp: qd_comm_qubit_ids_def qd_non_comm_qubit_ids_def qd_all_qubit_ids_def)

text \<open>The mappings after an assignment.\<close>

lemma phys_of_assign:
  assumes "map_of (mm_process_mappings mm) pid = Some vm"
    and "mm_process_mappings mm' = dset pid (vm\<lparr>vm_mapping := dset v x (vm_mapping vm)\<rparr>) (mm_process_mappings mm)"
  shows "phys_of mm' = (phys_of mm)((pid, v) := x)"
  using assms by (auto simp: phys_of_def fun_eq_iff)

lemma owner_assign:
  assumes "mm_physical_mapping mm' = dset p l (mm_physical_mapping mm)"
  shows "owner mm' = (owner mm)(p := map_option (\<lambda>l. (vl_pid l, vl_virt_id l)) l)"
  using assms by (auto simp: owner_def fun_eq_iff split: option.splits)

text \<open>What \<open>allocate\<close> returns, case by case.\<close>

definition assign_phys ::
    "int \<Rightarrow> int \<Rightarrow> int \<Rightarrow> virtual_mapping \<Rightarrow> 'q memory_manager \<Rightarrow> 'q memory_manager" where
  "assign_phys pid v p vm mm =
     mm\<lparr>mm_physical_mapping := dset p
          (Some \<lparr>vl_pid = pid, vl_unit_module = vm_unit_module vm, vl_virt_id = v\<rparr>)
          (mm_physical_mapping mm),
        mm_process_mappings := dset pid
          (vm\<lparr>vm_mapping := dset v (Some p) (vm_mapping vm)\<rparr>) (mm_process_mappings mm)\<rparr>"

lemma allocate_Inr:
  assumes "allocate pid v mm = Inr (p, mm')"
  obtains vm comm where "map_of (mm_process_mappings mm) pid = Some vm"
    "v \<in> set (get_all_qubit_ids (vm_unit_module vm))" "map_of (vm_mapping vm) v = Some None"
    "is_communication (vm_unit_module vm) v = Inr comm"
    "p \<in> set (if comm then qd_comm_qubit_ids (mm_qdevice mm) else qd_non_comm_qubit_ids (mm_qdevice mm))"
    "map_of (mm_physical_mapping mm) p = Some None" "mm' = assign_phys pid v p vm mm"
proof -
  from assms obtain vm comm where vm: "map_of (mm_process_mappings mm) pid = Some vm"
    "v \<in> set (get_all_qubit_ids (vm_unit_module vm))" "map_of (vm_mapping vm) v = Some None"
    "is_communication (vm_unit_module vm) v = Inr comm"
    "(if comm then get_free_comm_phys_id mm else get_free_mem_phys_id mm) = Inr p"
    "mm' = assign_phys pid v p vm mm"
    unfolding allocate_def assign_phys_def by (fastforce simp: dget_eq_Inr)
  from vm(5) have "p \<in> set (if comm then qd_comm_qubit_ids (mm_qdevice mm) else qd_non_comm_qubit_ids (mm_qdevice mm)) \<and>
      map_of (mm_physical_mapping mm) p = Some None"
    using first_free_Inr by (auto simp: get_free_comm_phys_id_def get_free_mem_phys_id_def split: if_splits)
  with vm that show thesis by blast
qed

lemma allocate_phys_of:
  assumes "allocate pid v mm = Inr (p, mm')"
  shows "phys_of mm (pid, v) = None" "owner mm p = None"
    "phys_of mm' = (phys_of mm)((pid, v) \<mapsto> p)" "owner mm' = (owner mm)(p \<mapsto> (pid, v))"
proof -
  from assms obtain vm comm where vm: "map_of (mm_process_mappings mm) pid = Some vm"
    "map_of (vm_mapping vm) v = Some None" "map_of (mm_physical_mapping mm) p = Some None"
    "mm' = assign_phys pid v p vm mm"
    by (rule allocate_Inr)
  then show "phys_of mm (pid, v) = None" "owner mm p = None" by (simp_all add: phys_of_def owner_def)
  show "phys_of mm' = (phys_of mm)((pid, v) \<mapsto> p)"
    by (rule phys_of_assign [OF vm(1)]) (simp add: vm(4) assign_phys_def)
  have "mm_physical_mapping mm' = dset p
      (Some \<lparr>vl_pid = pid, vl_unit_module = vm_unit_module vm, vl_virt_id = v\<rparr>) (mm_physical_mapping mm)"
    by (simp add: vm(4) assign_phys_def)
  from owner_assign [OF this] show "owner mm' = (owner mm)(p \<mapsto> (pid, v))" by simp
qed

lemma bij_assign:
  assumes "\<And>k p. f k = Some p \<longleftrightarrow> g p = Some k" "f k = None" "g p = None"
  shows "(f(k \<mapsto> p)) k' = Some p' \<longleftrightarrow> (g(p \<mapsto> k)) p' = Some k'"
  using assms(1) [of k' p'] assms(1) [of k p'] assms(1) [of k' p] assms(2,3) by auto

lemma bij_remove:
  assumes "\<And>k p. f k = Some p \<longleftrightarrow> g p = Some k" "f k = Some p"
  shows "(f(k := None)) k' = Some p' \<longleftrightarrow> (g(p := None)) p' = Some k'"
  using assms(1) [of k' p'] assms(1) [of k p'] assms(1) [of k' p] assms(1) [of k p] assms(2) by auto

lemma vmap_ok_assign:
  assumes "vmap_ok d vm" "v \<in> set (keys (vm_mapping vm))"
    and "\<And>p. x = Some p \<Longrightarrow> same_kind d (vm_unit_module vm) v p"
  shows "vmap_ok d (vm\<lparr>vm_mapping := dset v x (vm_mapping vm)\<rparr>)"
proof -
  have "keys (dset v x (vm_mapping vm)) = keys (vm_mapping vm)"
    using assms(2) unfolding keys_dset by (rule if_P)
  with assms show ?thesis unfolding vmap_ok_def by (auto simp del: set_map)
qed

lemma allocate_inv:
  assumes "mm_inv mm" "allocate pid v mm = Inr (p, mm')"
  shows "mm_inv mm'"
proof -
  from assms(2) obtain vm comm where
    vm: "map_of (mm_process_mappings mm) pid = Some vm"
      "map_of (vm_mapping vm) v = Some None" "is_communication (vm_unit_module vm) v = Inr comm"
      "p \<in> set (if comm then qd_comm_qubit_ids (mm_qdevice mm) else qd_non_comm_qubit_ids (mm_qdevice mm))"
      "map_of (mm_physical_mapping mm) p = Some None" and
    mm': "mm' = assign_phys pid v p vm mm"
    by (rule allocate_Inr)
  have dev: "mm_qdevice mm' = mm_qdevice mm" by (simp add: mm' assign_phys_def)
  have keys: "keys (mm_physical_mapping mm') = keys (mm_physical_mapping mm)"
    using vm(5) by (simp add: mm' assign_phys_def keys_dset_present)
  have kind: "same_kind (mm_qdevice mm) (vm_unit_module vm) v p"
    using vm(3,4) by (cases comm) (auto simp: same_kind_def)
  have v: "v \<in> set (keys (vm_mapping vm))" using vm(2) by (rule map_of_in_keys)
  show ?thesis
  proof (rule mm_invI)
    show "device_ok (mm_qdevice mm')" using mm_inv_device [OF assms(1)] by (simp only: dev)
    show "set (keys (mm_physical_mapping mm')) = set (qd_all_qubit_ids (mm_qdevice mm'))"
      using mm_inv_keys [OF assms(1)] by (simp only: keys dev)
    show "phys_of mm' k = Some q \<longleftrightarrow> owner mm' q = Some k" for k q
      unfolding allocate_phys_of(3,4) [OF assms(2)]
      by (rule bij_assign [OF mm_inv_bij [OF assms(1)] allocate_phys_of(1,2) [OF assms(2)]])
    show "vmap_ok (mm_qdevice mm') w" if "map_of (mm_process_mappings mm') pid' = Some w" for pid' w
    proof (cases "pid' = pid")
      case True
      then have "w = vm\<lparr>vm_mapping := dset v (Some p) (vm_mapping vm)\<rparr>"
        using that by (simp add: mm' assign_phys_def)
      then show ?thesis
        using vmap_ok_assign [OF mm_inv_vmap [OF assms(1) vm(1)] v, of "Some p"] kind
        by (simp add: dev)
    next
      case False
      then have "map_of (mm_process_mappings mm) pid' = Some w"
        using that by (simp add: mm' assign_phys_def)
      then show ?thesis using mm_inv_vmap [OF assms(1)] by (simp add: dev)
    qed
  qed
qed


subsection \<open>Release\<close>

definition clear_phys ::
    "int \<Rightarrow> int \<Rightarrow> int \<Rightarrow> virtual_mapping \<Rightarrow> 'q qdevice \<Rightarrow> 'q memory_manager \<Rightarrow> 'q memory_manager" where
  "clear_phys pid v p vm dev mm =
     mm\<lparr>mm_physical_mapping := dset p None (mm_physical_mapping mm),
        mm_process_mappings := dset pid
          (vm\<lparr>vm_mapping := dset v None (vm_mapping vm)\<rparr>) (mm_process_mappings mm),
        mm_qdevice := dev, mm_freed_signals := Suc (mm_freed_signals mm)\<rparr>"

lemma free_Inr:
  assumes "mm_free pid v mm = Inr mm'"
  obtains vm p dev where "map_of (mm_process_mappings mm) pid = Some vm"
    "map_of (vm_mapping vm) v = Some (Some p)" "set_mem_pos_in_use p False (mm_qdevice mm) = Inr dev"
    "mm' = clear_phys pid v p vm dev mm"
proof -
  from assms obtain vm cur where vm: "map_of (mm_process_mappings mm) pid = Some vm"
    "map_of (vm_mapping vm) v = Some cur"
    "(case cur of None \<Rightarrow> Inl AllocError | Some p \<Rightarrow>
        rbind (set_mem_pos_in_use p False (mm_qdevice mm)) (\<lambda>dev. Inr (clear_phys pid v p vm dev mm))) = Inr mm'"
    unfolding mm_free_def clear_phys_def by auto
  then obtain p where "cur = Some p" by (cases cur) auto
  with vm that show thesis by auto
qed

lemma free_phys_of:
  assumes "mm_inv mm" "mm_free pid v mm = Inr mm'"
  obtains p where "phys_of mm (pid, v) = Some p" "owner mm p = Some (pid, v)"
    "phys_of mm' = (phys_of mm)((pid, v) := None)" "owner mm' = (owner mm)(p := None)"
    "mm_freed_signals mm' = Suc (mm_freed_signals mm)"
proof -
  from assms(2) obtain vm p dev where vm: "map_of (mm_process_mappings mm) pid = Some vm"
    "map_of (vm_mapping vm) v = Some (Some p)" "mm' = clear_phys pid v p vm dev mm"
    by (rule free_Inr)
  then have ph: "phys_of mm (pid, v) = Some p" by (simp add: phys_of_def)
  then have ow: "owner mm p = Some (pid, v)" using mm_inv_bij [OF assms(1)] by blast
  have a: "phys_of mm' = (phys_of mm)((pid, v) := None)"
    by (rule phys_of_assign [OF vm(1)]) (simp add: vm(3) clear_phys_def)
  have "mm_physical_mapping mm' = dset p None (mm_physical_mapping mm)"
    by (simp add: vm(3) clear_phys_def)
  from owner_assign [OF this] have b: "owner mm' = (owner mm)(p := None)" by simp
  have "mm_freed_signals mm' = Suc (mm_freed_signals mm)" by (simp add: vm(3) clear_phys_def)
  from that [OF ph ow a b this] show thesis .
qed

lemma device_frame_ids:
  assumes "set_mem_pos_in_use p b d = Inr d'"
  shows "qd_all_qubit_ids d' = qd_all_qubit_ids d" "qd_comm_qubit_ids d' = qd_comm_qubit_ids d"
    "qd_non_comm_qubit_ids d' = qd_non_comm_qubit_ids d" "device_ok d' = device_ok d"
    "same_kind d' = same_kind d" "vmap_ok d' = vmap_ok d"
  using set_mem_pos_frame [OF assms]
  by (simp_all add: qd_all_qubit_ids_def qd_comm_qubit_ids_def qd_non_comm_qubit_ids_def
      device_ok_def same_kind_def vmap_ok_def fun_eq_iff)

lemma free_inv:
  assumes "mm_inv mm" "mm_free pid v mm = Inr mm'"
  shows "mm_inv mm'"
proof -
  from assms(2) obtain vm p dev where vm: "map_of (mm_process_mappings mm) pid = Some vm"
    "map_of (vm_mapping vm) v = Some (Some p)" and
    d: "set_mem_pos_in_use p False (mm_qdevice mm) = Inr dev" and
    mm': "mm' = clear_phys pid v p vm dev mm"
    by (rule free_Inr)
  from free_phys_of [OF assms] obtain p' where p': "phys_of mm (pid, v) = Some p'"
    "owner mm p' = Some (pid, v)" "phys_of mm' = (phys_of mm)((pid, v) := None)"
    "owner mm' = (owner mm)(p' := None)" by blast
  then have "p' = p" using vm by (simp add: phys_of_def)
  have dev: "mm_qdevice mm' = dev" by (simp add: mm' clear_phys_def)
  have "p \<in> set (keys (mm_physical_mapping mm))"
    using p'(2) \<open>p' = p\<close> by (cases "map_of (mm_physical_mapping mm) p")
      (auto simp: owner_def simp del: set_map dest: map_of_in_keys)
  then have keys: "keys (mm_physical_mapping mm') = keys (mm_physical_mapping mm)"
    by (simp add: mm' clear_phys_def keys_dset del: set_map)
  have v: "v \<in> set (keys (vm_mapping vm))" using vm(2) by (rule map_of_in_keys)
  show ?thesis
  proof (rule mm_invI)
    show "device_ok (mm_qdevice mm')"
      using mm_inv_device [OF assms(1)] by (simp only: dev device_frame_ids [OF d])
    show "set (keys (mm_physical_mapping mm')) = set (qd_all_qubit_ids (mm_qdevice mm'))"
      using mm_inv_keys [OF assms(1)] by (simp only: keys dev device_frame_ids [OF d])
    show "phys_of mm' k = Some q \<longleftrightarrow> owner mm' q = Some k" for k q
      unfolding p'(3,4) by (rule bij_remove [OF mm_inv_bij [OF assms(1)] p'(1)])
    show "vmap_ok (mm_qdevice mm') w" if "map_of (mm_process_mappings mm') pid' = Some w" for pid' w
    proof (cases "pid' = pid")
      case True
      then have "w = vm\<lparr>vm_mapping := dset v None (vm_mapping vm)\<rparr>"
        using that by (simp add: mm' clear_phys_def)
      then show ?thesis
        using vmap_ok_assign [OF mm_inv_vmap [OF assms(1) vm(1)] v, of None]
        by (simp add: dev device_frame_ids [OF d])
    next
      case False
      then have "map_of (mm_process_mappings mm) pid' = Some w"
        using that by (simp add: mm' clear_phys_def)
      then show ?thesis using mm_inv_vmap [OF assms(1)] by (simp add: dev device_frame_ids [OF d])
    qed
  qed
qed

text \<open>A mapped qubit can be freed.\<close>

lemma free_total:
  assumes "mm_inv mm" "phys_of mm (pid, v) = Some p"
  shows "\<exists>mm'. mm_free pid v mm = Inr mm'"
proof -
  from assms(2) obtain vm where vm: "map_of (mm_process_mappings mm) pid = Some vm"
    "map_of (vm_mapping vm) v = Some (Some p)" by (auto simp: phys_of_def split: option.splits)
  note ok = mm_inv_vmap [OF assms(1) vm(1)]
  have v: "v \<in> set (keys (vm_mapping vm))" using vm(2) by (rule map_of_in_keys)
  then have vu: "v \<in> set (get_all_qubit_ids (vm_unit_module vm))" using ok unfolding vmap_ok_def by metis
  have "same_kind (mm_qdevice mm) (vm_unit_module vm) v p" using ok vm(2) unfolding vmap_ok_def by blast
  then have "p \<in> set (qd_all_qubit_ids (mm_qdevice mm))" using comm_ids_sub by (auto simp: same_kind_def)
  then have "0 \<le> p \<and> p < int (length (qd_in_use (mm_qdevice mm)))"
    using mm_inv_device [OF assms(1)] by (auto simp: device_ok_def)
  then obtain dev where "set_mem_pos_in_use p False (mm_qdevice mm) = Inr dev"
    by (auto simp: set_mem_pos_in_use_def py_setitem_def py_index_nonneg)
  moreover have "dhas (vm_mapping vm) v" using v by (simp only: dhas_iff)
  ultimately show ?thesis using vm vu by (simp add: mm_free_def dget_Some)
qed

section \<open>The contract of allocation\<close>

datatype 'k alloc_op = Alloc 'k | Release 'k

text \<open>
  A history of requests. A request that raises leaves the state as it was, as the callers that
  catch the exception rely on.
\<close>

fun alloc_run ::
    "('k \<Rightarrow> 's \<Rightarrow> ('p \<times> 's) res) \<Rightarrow> ('k \<Rightarrow> 's \<Rightarrow> 's res) \<Rightarrow> 'k alloc_op list \<Rightarrow> 's \<Rightarrow> 's" where
  "alloc_run alloc release [] s = s"
| "alloc_run alloc release (Alloc k # ops) s =
     alloc_run alloc release ops (case alloc k s of Inl e \<Rightarrow> s | Inr (p, s') \<Rightarrow> s')"
| "alloc_run alloc release (Release k # ops) s =
     alloc_run alloc release ops (case release k s of Inl e \<Rightarrow> s | Inr s' \<Rightarrow> s')"

locale allocator =
  fixes inv :: "'s \<Rightarrow> bool"
    and alloc :: "'k \<Rightarrow> 's \<Rightarrow> ('p \<times> 's) res"
    and release :: "'k \<Rightarrow> 's \<Rightarrow> 's res"
    and place :: "'s \<Rightarrow> 'k \<Rightarrow> 'p option"
  assumes alloc_inv: "inv s \<Longrightarrow> alloc k s = Inr (p, s') \<Longrightarrow> inv s'"
    and alloc_place: "inv s \<Longrightarrow> alloc k s = Inr (p, s') \<Longrightarrow>
      place s k = None \<and> place s' = (place s)(k \<mapsto> p)"
    and release_inv: "inv s \<Longrightarrow> release k s = Inr s' \<Longrightarrow> inv s'"
    and release_place: "inv s \<Longrightarrow> release k s = Inr s' \<Longrightarrow>
      place s k \<noteq> None \<and> place s' = (place s)(k := None)"
    and release_total: "inv s \<Longrightarrow> place s k \<noteq> None \<Longrightarrow> \<exists>s'. release k s = Inr s'"
    and exclusive: "inv s \<Longrightarrow> place s k = Some p \<Longrightarrow> place s k' = Some p \<Longrightarrow> k = k'"
begin

lemma run_inv: "inv s \<Longrightarrow> inv (alloc_run alloc release ops s)"
proof (induction ops arbitrary: s)
  case (Cons x ops)
  then show ?case
    by (cases x) (auto dest: alloc_inv release_inv split: sum.splits)
qed simp

lemma run_exclusive:
  "inv s \<Longrightarrow> place (alloc_run alloc release ops s) k = Some p \<Longrightarrow>
   place (alloc_run alloc release ops s) k' = Some p \<Longrightarrow> k = k'"
  using run_inv exclusive by blast

text \<open>A place that is handed out was nobody's.\<close>

lemma alloc_fresh: "inv s \<Longrightarrow> alloc k s = Inr (p, s') \<Longrightarrow> place s k' \<noteq> Some p"
proof
  assume s: "inv s" "alloc k s = Inr (p, s')" and k': "place s k' = Some p"
  have "place s' k = Some p" using alloc_place [OF s] by simp
  moreover have "k' \<noteq> k" using alloc_place [OF s] k' by auto
  then have "place s' k' = Some p" using alloc_place [OF s] k' by simp
  ultimately show False using exclusive [OF alloc_inv [OF s]] \<open>k' \<noteq> k\<close> by blast
qed

text \<open>Giving back what was just handed out restores every place.\<close>

lemma release_alloc:
  assumes "inv s" "alloc k s = Inr (p, s')"
  shows "\<exists>s''. release k s' = Inr s'' \<and> inv s'' \<and> place s'' = place s"
proof -
  from alloc_place [OF assms] have "place s k = None" "place s' = (place s)(k \<mapsto> p)" by auto
  moreover from release_total [OF alloc_inv [OF assms], of k] this obtain s'' where
    "release k s' = Inr s''" by auto
  ultimately show ?thesis
    using release_place [OF alloc_inv [OF assms]] release_inv [OF alloc_inv [OF assms]]
    by (auto simp: fun_eq_iff)
qed

text \<open>A place stays with its holder until the holder releases it.\<close>

lemma run_keeps:
  assumes "inv s" "place s k = Some p" "Release k \<notin> set ops"
  shows "place (alloc_run alloc release ops s) k = Some p"
  using assms
proof (induction ops arbitrary: s)
  case (Cons x ops)
  show ?case
  proof (cases x)
    case (Alloc k')
    have "inv (case alloc k' s of Inl e \<Rightarrow> s | Inr (p, s') \<Rightarrow> s') \<and>
        place (case alloc k' s of Inl e \<Rightarrow> s | Inr (p, s') \<Rightarrow> s') k = Some p"
      using Cons.prems(1,2) alloc_inv alloc_place by (auto split: sum.splits)
    with Cons Alloc show ?thesis by auto
  next
    case (Release k')
    with Cons.prems(3) have "k' \<noteq> k" by auto
    then have "inv (case release k' s of Inl e \<Rightarrow> s | Inr s' \<Rightarrow> s') \<and>
        place (case release k' s of Inl e \<Rightarrow> s | Inr s' \<Rightarrow> s') k = Some p"
      using Cons.prems(1,2) release_inv release_place by (auto split: sum.splits)
    with Cons Release show ?thesis by auto
  qed
qed simp

end

abbreviation alloc_at :: "int \<times> int \<Rightarrow> 'q memory_manager \<Rightarrow> (int \<times> 'q memory_manager) res" where
  "alloc_at k mm \<equiv> allocate (fst k) (snd k) mm"

abbreviation free_at :: "int \<times> int \<Rightarrow> 'q memory_manager \<Rightarrow> 'q memory_manager res" where
  "free_at k mm \<equiv> mm_free (fst k) (snd k) mm"

interpretation qubits: allocator mm_inv alloc_at free_at phys_of
proof (unfold_locales, goal_cases)
  case (1 s k p s')
  then show ?case using allocate_inv by blast
next
  case (2 s k p s')
  then show ?case using allocate_phys_of(1,3) [of "fst k" "snd k" s p s'] by simp
next
  case (3 s k s')
  then show ?case using free_inv by blast
next
  case (4 s k s')
  obtain p where "phys_of s (fst k, snd k) = Some p" "phys_of s' = (phys_of s)((fst k, snd k) := None)"
    using free_phys_of [OF 4] by metis
  then show ?case by simp
next
  case (5 s k)
  then show ?case using free_total [of s "fst k" "snd k"] by auto
next
  case (6 s k p k')
  then show ?case using mm_inv_bij [OF 6(1)] by (metis option.inject)
qed


section \<open>Reachable states\<close>

text \<open>
  The states of a manager from its construction on: processes are added under fresh process IDs
  (the scheduler counts them up), qubits are allocated and freed.
\<close>

inductive mm_reachable :: "'q qdevice \<Rightarrow> ehi_node_info option \<Rightarrow> 'q memory_manager \<Rightarrow> bool"
  for d ehi where
  mm_init: "mm_reachable d ehi (init_memmgr d ehi)"
| mm_add: "mm_reachable d ehi mm \<Longrightarrow> map_of (mm_process_mappings mm) (pc_pid p) = None \<Longrightarrow>
    unit_module_ok (pi_unit_module (pc_instance p)) \<Longrightarrow> mm_reachable d ehi (add_process p mm)"
| mm_alloc: "mm_reachable d ehi mm \<Longrightarrow> allocate pid v mm = Inr (q, mm') \<Longrightarrow> mm_reachable d ehi mm'"
| mm_alloc_comm: "mm_reachable d ehi mm \<Longrightarrow> allocate_comm pid v mm = Inr (q, mm') \<Longrightarrow>
    mm_reachable d ehi mm'"
| mm_release: "mm_reachable d ehi mm \<Longrightarrow> mm_free pid v mm = Inr mm' \<Longrightarrow> mm_reachable d ehi mm'"

lemma init_memmgr_inv:
  assumes "device_ok d"
  shows "mm_inv (init_memmgr d ehi)"
proof (rule mm_invI)
  show "phys_of (init_memmgr d ehi) k = Some p \<longleftrightarrow> owner (init_memmgr d ehi) p = Some k" for k p
  proof -
    have "owner (init_memmgr d ehi) p = None"
      by (auto simp: owner_def init_memmgr_def map_of_map_Pair split: option.splits if_splits)
    then show ?thesis by (simp add: phys_of_def init_memmgr_def)
  qed
qed (auto simp: init_memmgr_def assms comp_def image_image)

lemma fresh_mapping:
  "map_of (dict_of (map (\<lambda>x. (x, None)) ids)) v = (if v \<in> set ids then Some None else None)"
proof -
  have "map_of (rev (map (\<lambda>x. (x, None)) ids)) v = (if v \<in> set ids then Some None else None)"
    unfolding rev_map by (induction ids rule: rev_induct) auto
  then show ?thesis by (simp add: map_of_dupdate)
qed

lemma add_process_inv:
  assumes "mm_inv mm" "map_of (mm_process_mappings mm) (pc_pid p) = None"
    and "unit_module_ok (pi_unit_module (pc_instance p))"
  shows "mm_inv (add_process p mm)"
proof (rule mm_invI)
  let ?u = "pi_unit_module (pc_instance p)"
  show "device_ok (mm_qdevice (add_process p mm))"
    using mm_inv_device [OF assms(1)] by (simp add: add_process_def Let_def)
  show "set (keys (mm_physical_mapping (add_process p mm))) =
      set (qd_all_qubit_ids (mm_qdevice (add_process p mm)))"
    using mm_inv_keys [OF assms(1)] by (simp add: add_process_def Let_def)
  have "phys_of (add_process p mm) k = phys_of mm k" for k
    using assms(2) by (auto simp: phys_of_def add_process_def Let_def fresh_mapping)
  moreover have "owner (add_process p mm) = owner mm"
    by (simp add: owner_def add_process_def Let_def fun_eq_iff)
  ultimately show "phys_of (add_process p mm) k = Some q \<longleftrightarrow> owner (add_process p mm) q = Some k" for k q
    using mm_inv_bij [OF assms(1)] by simp
  have new: "set (keys (dict_of (map (\<lambda>x. (x, None)) (get_all_qubit_ids ?u)))) = set (get_all_qubit_ids ?u)"
    by (simp only: set_map set_keys_dupdate) (simp add: image_image)
  show "vmap_ok (mm_qdevice (add_process p mm)) vm"
    if "map_of (mm_process_mappings (add_process p mm)) pid = Some vm" for pid vm
  proof (cases "pid = pc_pid p")
    case True
    then have "vm = \<lparr>vm_unit_module = ?u,
        vm_mapping = dict_of (map (\<lambda>x. (x, None)) (get_all_qubit_ids ?u))\<rparr>"
      using that by (simp add: add_process_def Let_def)
    then show ?thesis using assms(3) new by (simp add: vmap_ok_def fresh_mapping del: set_map)
  next
    case False
    then show ?thesis
      using that mm_inv_vmap [OF assms(1)] by (simp add: add_process_def Let_def)
  qed
qed

lemma allocate_comm_Inr:
  "allocate_comm pid v mm = Inr (p, mm') \<Longrightarrow>
     allocate pid v mm = Inr (p, mm') \<and> virt_comm mm (pid, v)"
  by (auto simp: allocate_comm_def virt_comm_def)

lemma mm_reachable_inv:
  assumes "mm_reachable d ehi mm" "device_ok d"
  shows "mm_inv mm"
  using assms
proof (induction rule: mm_reachable.induct)
  case mm_init
  then show ?case by (rule init_memmgr_inv)
qed (auto dest: allocate_comm_Inr intro: allocate_inv free_inv add_process_inv)

lemma phys_id_for_Some: "phys_id_for pid v mm = Inr (Some p) \<longleftrightarrow> phys_of mm (pid, v) = Some p"
  by (auto simp: phys_id_for_def phys_of_def dget_def split: option.splits)

lemma virt_id_for_Some: "virt_id_for pid p mm = Inr (Some v) \<longleftrightarrow> owner mm p = Some (pid, v)"
  by (auto simp: virt_id_for_def owner_def dget_def split: option.splits)

section \<open>Properties\<close>

definition sample_device :: "unit qdevice" where
  "sample_device = \<lparr>qd_topology = lhi_perfect_star 3 [] 0 [] 0 [] 0, qd_phys_instrs = [],
     qd_in_use = [False, False, False], qd_state = ()\<rparr>"

definition sample_unit_module :: unit_module where
  "sample_unit_module = from_full_ehi (perfect_star 3 VanillaFlavour [] 0 [] 0 [] 0 None)"

definition sample_process :: "int \<Rightarrow> qoala_process" where
  "sample_process pid =
     \<lparr>pc_instance = \<lparr>pi_pid = pid, pi_program = mk_program (meta_empty ''p'') [] None None,
        pi_inputs = [], pi_unit_module = sample_unit_module\<rparr>,
      pc_memory = init_program_memory, pc_result = [], pc_csockets = [], pc_epr_sockets = []\<rparr>"

definition sample_memmgr :: "unit memory_manager" where
  "sample_memmgr = add_process (sample_process 1) (add_process (sample_process 0)
     (init_memmgr sample_device None))"

lemma sample_star: "star_dict 3 c m = [(0, c), (1, m), (2, m)]"
  by (simp add: star_dict_def upto.simps)

lemmas sample_defs = sample_device_def sample_unit_module_def sample_process_def sample_memmgr_def
  lhi_perfect_star_def perfect_star_def from_full_ehi_def sample_star Let_def

lemma sample_device_ok: "device_ok sample_device"
  by (auto simp: sample_defs device_ok_def qd_all_qubit_ids_def)

lemma sample_reachable: "mm_reachable sample_device None sample_memmgr"
  unfolding sample_memmgr_def
  by (intro mm_add mm_init)
    (simp_all add: add_process_def init_memmgr_def sample_defs unit_module_ok_def)

text \<open>C1: In every reachable state of the memory manager the two directions of the mapping are
inverse to each other: \<open>phys_id_for\<close> gives a physical qubit for a process's virtual qubit exactly
when \<open>virt_id_for\<close> gives that virtual qubit back; so no physical qubit is ever shared by two
virtual qubits or two processes.\<close>

theorem mappings_inverse:
  assumes "mm_reachable d ehi mm" "device_ok d"
  shows "(phys_id_for pid v mm = Inr (Some p) \<longleftrightarrow> virt_id_for pid p mm = Inr (Some v)) \<and>
    (phys_id_for pid v mm = Inr (Some p) \<and> phys_id_for pid' v' mm = Inr (Some p) \<longrightarrow>
       pid = pid' \<and> v = v')"
  using qubits.exclusive [OF mm_reachable_inv [OF assms], of "(pid, v)" p "(pid', v')"]
    mm_inv_bij [OF mm_reachable_inv [OF assms], of "(pid, v)" p]
  by (auto simp: phys_id_for_Some virt_id_for_Some)

lemma sample_alloc: "allocate 0 1 sample_memmgr = Inr (1, snd (projr (allocate 0 1 sample_memmgr)))"
  by (simp add: allocate_def sample_defs add_process_def init_memmgr_def dget_def
      get_all_qubit_ids_def is_communication_def get_free_mem_phys_id_def qd_non_comm_qubit_ids_def
      qd_all_qubit_ids_def dupdate_def perfect_qubit_def decoherence_qubit_def lhi_perfect_qubit_def
      t1t2_qubit_def)

theorem mappings_inverse_witness:
  "\<exists>mm. mm_reachable sample_device None mm \<and> phys_id_for 0 1 mm = Inr (Some 1) \<and>
     virt_id_for 0 1 mm = Inr (Some 1)"
proof -
  define mm where "mm = snd (projr (allocate 0 1 sample_memmgr))"
  have r: "mm_reachable sample_device None mm"
    using mm_alloc [OF sample_reachable sample_alloc] by (simp add: mm_def)
  moreover have "phys_id_for 0 1 mm = Inr (Some 1)"
    using allocate_phys_of(3) [OF sample_alloc] by (simp add: mm_def phys_id_for_Some)
  ultimately show ?thesis
    using mappings_inverse [OF r sample_device_ok, of 0 1 1 0 1] by blast
qed

text \<open>C15: \<open>allocate\<close> answers every request as documented: an unknown process is a \<open>KeyError\<close>, an
ID outside the unit module or one that is already mapped an \<open>AllocError\<close>, and otherwise it maps the
first free physical qubit of the same kind, raising \<open>AllocError\<close> exactly when none is free.\<close>

theorem allocate_outcome:
  assumes "mm_inv mm"
  shows "allocate pid v mm =
    (if map_of (mm_process_mappings mm) pid = None then Inl KeyError
     else if \<not> known mm (pid, v) \<or> phys_of mm (pid, v) \<noteq> None then Inl AllocError
     else case List.find (\<lambda>p. owner mm p = None) (candidates mm (pid, v)) of
       None \<Rightarrow> Inl AllocError
     | Some p \<Rightarrow> Inr (p, assign_phys pid v p (the (map_of (mm_process_mappings mm) pid)) mm))"
proof (cases "map_of (mm_process_mappings mm) pid")
  case None
  then show ?thesis by (simp add: allocate_def dget_None)
next
  case (Some vm)
  let ?u = "vm_unit_module vm"
  note ok = mm_inv_vmap [OF assms Some]
  show ?thesis
  proof (cases "v \<in> set (get_all_qubit_ids ?u)")
    case False
    then show ?thesis using Some by (simp add: allocate_def dget_Some known_def)
  next
    case True
    then have "v \<in> set (keys (vm_mapping vm))" using ok unfolding vmap_ok_def by metis
    then obtain cur where cur: "map_of (vm_mapping vm) v = Some cur" using in_keys_map_of by metis
    obtain comm where comm: "is_communication ?u v = Inr comm"
      using is_communication_total [OF True] by blast
    have keys: "p \<in> set (qd_all_qubit_ids (mm_qdevice mm)) \<Longrightarrow> map_of (mm_physical_mapping mm) p \<noteq> None" for p
      using mm_inv_keys [OF assms] in_keys_map_of by (metis option.distinct(1))
    have ff: "first_free (mm_physical_mapping mm) ids = (case List.find (\<lambda>p. owner mm p = None) ids of
        None \<Rightarrow> Inl AllocError | Some p \<Rightarrow> Inr p)" if "set ids \<subseteq> set (qd_all_qubit_ids (mm_qdevice mm))" for ids
    proof -
      have "map_of (mm_physical_mapping mm) p = Some None \<longleftrightarrow> owner mm p = None" if "p \<in> set ids" for p
        using keys [of p] that \<open>set ids \<subseteq> _\<close> by (auto simp: owner_def split: option.splits)
      then have "List.find (\<lambda>p. map_of (mm_physical_mapping mm) p = Some None) ids =
          List.find (\<lambda>p. owner mm p = None) ids"
        by (intro find_cong) auto
      with first_free_find [of ids "mm_physical_mapping mm"] keys that show ?thesis by auto
    qed
    have cand: "(if comm then get_free_comm_phys_id mm else get_free_mem_phys_id mm) =
        (case List.find (\<lambda>p. owner mm p = None) (candidates mm (pid, v)) of
           None \<Rightarrow> Inl AllocError | Some p \<Rightarrow> Inr p)"
      using Some comm ff [OF comm_ids_sub(1)] ff [OF comm_ids_sub(2)]
      by (simp add: get_free_comm_phys_id_def get_free_mem_phys_id_def candidates_def virt_comm_def)
    have "allocate pid v mm = rbind (ensure (cur = None) AllocError) (\<lambda>_.
        rbind (if comm then get_free_comm_phys_id mm else get_free_mem_phys_id mm) (\<lambda>p.
        Inr (p, assign_phys pid v p vm mm)))"
      using Some True cur comm by (simp add: allocate_def dget_Some assign_phys_def)
    then show ?thesis
      using Some True cur unfolding cand
      by (cases cur) (auto simp: known_def phys_of_def split: option.splits)
  qed
qed

theorem allocate_outcome_witness:
  "allocate 7 0 sample_memmgr = Inl KeyError \<and> allocate 0 9 sample_memmgr = Inl AllocError"
proof -
  have inv: "mm_inv sample_memmgr" by (rule mm_reachable_inv [OF sample_reachable sample_device_ok])
  have "map_of (mm_process_mappings sample_memmgr) 7 = None"
    "map_of (mm_process_mappings sample_memmgr) 0 \<noteq> None" "\<not> known sample_memmgr (0, 9)"
    by (simp_all add: sample_defs add_process_def init_memmgr_def known_def get_all_qubit_ids_def
        dupdate_def)
  with allocate_outcome [OF inv, of 7 0] allocate_outcome [OF inv, of 0 9] show ?thesis by simp
qed

text \<open>Freeing a qubit that has just been allocated succeeds, gives back every mapping as it was
before, in both directions, and sends the signal that memory was freed.\<close>

theorem free_after_allocate:
  assumes "mm_inv mm" "allocate pid v mm = Inr (p, mm')"
  shows "\<exists>mm''. mm_free pid v mm' = Inr mm'' \<and> mm_inv mm'' \<and> phys_of mm'' = phys_of mm \<and>
    owner mm'' = owner mm \<and> mm_freed_signals mm'' = Suc (mm_freed_signals mm')"
proof -
  from qubits.release_alloc [of mm "(pid, v)" p mm'] assms obtain mm'' where
    mm'': "mm_free pid v mm' = Inr mm''" "mm_inv mm''" "phys_of mm'' = phys_of mm" by auto
  moreover have "owner mm'' = owner mm"
    using mm_inv_bij [OF mm''(2)] mm_inv_bij [OF assms(1)] mm''(3)
    by (metis ext not_Some_eq)
  moreover have "mm_freed_signals mm'' = Suc (mm_freed_signals mm')"
    using free_phys_of [OF allocate_inv [OF assms] mm''(1)] by metis
  ultimately show ?thesis by blast
qed

theorem free_after_allocate_witness:
  "\<exists>mm'. mm_free 0 1 (snd (projr (allocate 0 1 sample_memmgr))) = Inr mm' \<and>
     phys_of mm' = phys_of sample_memmgr"
  using free_after_allocate [OF mm_reachable_inv [OF sample_reachable sample_device_ok] sample_alloc]
  by blast

end
