(* ===== verification/QnosProc.thy ===== *)
theory QnosProc
  imports MsgBuffer MemMgr
begin

text \<open>
  The processor of the quantum node operating system (\<open>qoala/sim/qnos/qnosprocessor.py\<close>): it
  runs the NetQASM instructions of local routines, the classical ones on the registers and the
  shared memory of the process, the quantum ones on the device. The classes \<open>GenericProcessor\<close>
  and \<open>NVProcessor\<close> are one definition with a case distinction.
\<close>

section \<open>Environment and state\<close>

datatype processor_class = GenericProcessor | NVProcessor

text \<open>
  What the processors of a node are built with. The quantum hardware, the branch conditions and
  the instantiation of subroutines belong to other packages and are parameters, and so is what
  the arrival of half an entangled pair at a position does to the quantum state; the fuel bounds
  the number of instructions of one routine.
\<close>

record 'q qpu_env =
  qe_class :: processor_class
  qe_hardware :: "'q hardware"
  qe_branch :: branch_semantics
  qe_instantiate :: "int \<Rightarrow> prog_input \<Rightarrow> subroutine \<Rightarrow> subroutine res"
  qe_instr_time :: real
  qe_node_id :: int
  qe_put :: "int \<Rightarrow> 'q \<Rightarrow> 'q"
  qe_fuel :: nat

text \<open>\<open>EntDistRequest\<close>: the requests a node sends to the entanglement distributor.\<close>

record entdist_request =
  er_local_node_id :: int
  er_remote_node_id :: int
  er_local_qubit_id :: "int option"
  er_local_pid :: int
  er_remote_pid :: int

text \<open>
  The state the quantum processors work on: the process, the memory manager with the device, the
  inbox of the network stack, whose clock is the simulation time, and the requests it has sent.
\<close>

record 'q qpu =
  qs_process :: qoala_process
  qs_mm :: "'q memory_manager"
  qs_inbox :: "int option inbox"
  qs_sent :: "entdist_request message list"

abbreviation qs_pid :: "'q qpu \<Rightarrow> int" where
  "qs_pid s \<equiv> pc_pid (qs_process s)"

definition qs_wait :: "real \<Rightarrow> 'q qpu \<Rightarrow> 'q qpu" where
  "qs_wait d s = s\<lparr>qs_inbox := ib_wait d (qs_inbox s)\<rparr>"

definition qs_get_reg :: "register \<Rightarrow> 'q qpu \<Rightarrow> int res" where
  "qs_get_reg r s = get_reg_value r (pc_qnos_mem (qs_process s))"

definition qs_set_reg :: "register \<Rightarrow> int \<Rightarrow> 'q qpu \<Rightarrow> 'q qpu" where
  "qs_set_reg r v s =
     s\<lparr>qs_process := set_qnos_mem (set_reg_value r v (pc_qnos_mem (qs_process s))) (qs_process s)\<rparr>"

definition qs_set_shared :: "shared_memory \<Rightarrow> 'q qpu \<Rightarrow> 'q qpu" where
  "qs_set_shared m s = s\<lparr>qs_process := set_shared_mem m (qs_process s)\<rparr>"

text \<open>\<open>yield from self.qdevice.execute_commands(commands)\<close>\<close>

definition run_commands :: "'q qpu_env \<Rightarrow> qdevice_command list \<Rightarrow> 'q qpu \<Rightarrow> (int option \<times> 'q qpu) res" where
  "run_commands env cmds s =
     rbind (execute_commands (qe_hardware env) cmds (mm_qdevice (qs_mm s))) (\<lambda>(outcome, duration, dev).
     Inr (outcome, qs_wait duration (s\<lparr>qs_mm := (qs_mm s)\<lparr>mm_qdevice := dev\<rparr>\<rparr>)))"

definition cmd :: "ns_instr \<Rightarrow> int list \<Rightarrow> qdevice_command" where
  "cmd i qs = \<lparr>cmd_instr = i, cmd_indices = qs, cmd_angle = None\<rparr>"

definition cmd_at :: "ns_instr \<Rightarrow> int list \<Rightarrow> real \<Rightarrow> qdevice_command" where
  "cmd_at i qs a = \<lparr>cmd_instr = i, cmd_indices = qs, cmd_angle = Some a\<rparr>"

text \<open>The physical qubit of a virtual one, which must be mapped.\<close>

definition mapped_phys :: "int \<Rightarrow> 'q qpu \<Rightarrow> int res" where
  "mapped_phys virt_id s =
     rbind (phys_id_for (qs_pid s) virt_id (qs_mm s)) (\<lambda>p.
     case p of None \<Rightarrow> Inl NotAllocatedError | Some phys_id \<Rightarrow> Inr phys_id)"

definition reg_phys :: "register \<Rightarrow> 'q qpu \<Rightarrow> int res" where
  "reg_phys r s = rbind (qs_get_reg r s) (\<lambda>virt_id. mapped_phys virt_id s)"

section \<open>Classical instructions\<close>

definition interpret_set :: "'q qpu_env \<Rightarrow> register \<Rightarrow> immediate \<Rightarrow> 'q qpu \<Rightarrow> 'q qpu res" where
  "interpret_set env r i s =
     (case i of
        Imm v \<Rightarrow> Inr (qs_set_reg r v (qs_wait (qe_instr_time env) s))
      | ImmTemplate t \<Rightarrow> Inl AttributeError)"

text \<open>The index register of an array entry with the given address name.\<close>

definition entry_register :: "string \<Rightarrow> array_entry \<Rightarrow> register res" where
  "entry_register name e =
     rbind (py_assert (entry_address e = AddrName name)) (\<lambda>_.
     case entry_idx e of IndexReg r \<Rightarrow> Inr r | IndexImm i \<Rightarrow> Inl AssertionError)"

definition interpret_store :: "'q qpu_env \<Rightarrow> mem_addr \<Rightarrow> register \<Rightarrow> array_entry \<Rightarrow> 'q qpu \<Rightarrow> 'q qpu res" where
  "interpret_store env result_addr r e s =
     rbind (qs_get_reg r s) (\<lambda>value.
     rbind (entry_register ''output'' e) (\<lambda>ir.
     rbind (qs_get_reg ir s) (\<lambda>index.
     let s1 = qs_wait (qe_instr_time env) s in
     rbind (write_lr_out result_addr [value] index (pc_shared_mem (qs_process s1))) (\<lambda>m.
     Inr (qs_set_shared m s1)))))"

text \<open>\<open>[value] = xs\<close>\<close>

fun unpack1 :: "'a list \<Rightarrow> 'a res" where
  "unpack1 [v] = Inr v"
| "unpack1 vs = Inl ValueError"

definition interpret_load :: "'q qpu_env \<Rightarrow> mem_addr \<Rightarrow> register \<Rightarrow> array_entry \<Rightarrow> 'q qpu \<Rightarrow> 'q qpu res" where
  "interpret_load env input_addr r e s =
     rbind (entry_register ''input'' e) (\<lambda>ir.
     rbind (qs_get_reg ir s) (\<lambda>index.
     rbind (read_lr_in input_addr 1 index (pc_shared_mem (qs_process s))) (\<lambda>vs.
     rbind (unpack1 vs) (\<lambda>value.
     Inr (qs_set_reg r value (qs_wait (qe_instr_time env) s))))))"

text \<open>
  Registers hold integers. The source would put the name of an array into the register; no
  instruction can use it there, and the model stops with an error instead.
\<close>

definition interpret_lea :: "'q qpu_env \<Rightarrow> register \<Rightarrow> array_address \<Rightarrow> 'q qpu \<Rightarrow> 'q qpu res" where
  "interpret_lea env r a s =
     (case a of
        AddrNum n \<Rightarrow> Inr (qs_set_reg r n (qs_wait (qe_instr_time env) s))
      | AddrName n \<Rightarrow> Inl TypeError)"

text \<open>The line to jump to, or none.\<close>

definition interpret_branch_instr :: "'q qpu_env \<Rightarrow> nq_instr \<Rightarrow> 'q qpu \<Rightarrow> (int option \<times> 'q qpu) res" where
  "interpret_branch_instr env instr s =
     rbind (case instr of
        BranchUnaryInstr c r line \<Rightarrow> rbind (qs_get_reg r s) (\<lambda>a.
          Inr (line, check_unary (qe_branch env) c a))
      | BranchBinaryInstr c r0 r1 line \<Rightarrow> rbind (qs_get_reg r0 s) (\<lambda>a. rbind (qs_get_reg r1 s) (\<lambda>b.
          Inr (line, check_binary (qe_branch env) c a b)))
      | JmpInstr line \<Rightarrow> Inr (line, True)
      | _ \<Rightarrow> Inr (0, False)) (\<lambda>(line, condition).
     let s1 = qs_wait (qe_instr_time env) s in
     Inr (if condition then Some line else None, s1))"

text \<open>Floor division and its remainder, as Python's operators on integers.\<close>

definition compute_classical :: "classical_op \<Rightarrow> int \<Rightarrow> int \<Rightarrow> int res" where
  "compute_classical f a b =
     (case f of
        AddOp \<Rightarrow> Inr (a + b)
      | SubOp \<Rightarrow> Inr (a - b)
      | MulOp \<Rightarrow> Inr (a * b)
      | DivOp \<Rightarrow> if b = 0 then Inl ZeroDivisionError else Inr (a div b)
      | RemOp \<Rightarrow> if b = 0 then Inl ZeroDivisionError else Inr (a mod b)
      | OtherOp k \<Rightarrow> Inl ValueError)"

definition compute_classical_mod :: "classical_mod_op \<Rightarrow> int \<Rightarrow> int \<Rightarrow> int \<Rightarrow> int res" where
  "compute_classical_mod f a b md =
     (case f of
        AddmOp \<Rightarrow> Inr ((a + b) mod md)
      | SubmOp \<Rightarrow> Inr ((a - b) mod md)
      | OtherModOp k \<Rightarrow> Inl ValueError)"

definition interpret_classical ::
    "'q qpu_env \<Rightarrow> classical_op \<Rightarrow> register \<Rightarrow> register \<Rightarrow> register \<Rightarrow> 'q qpu \<Rightarrow> 'q qpu res" where
  "interpret_classical env f regout r0 r1 s =
     rbind (qs_get_reg r0 s) (\<lambda>a.
     rbind (qs_get_reg r1 s) (\<lambda>b.
     rbind (compute_classical f a b) (\<lambda>value.
     Inr (qs_set_reg regout value (qs_wait (qe_instr_time env) s)))))"

definition interpret_classical_mod ::
    "'q qpu_env \<Rightarrow> classical_mod_op \<Rightarrow> register \<Rightarrow> register \<Rightarrow> register \<Rightarrow> register \<Rightarrow> 'q qpu \<Rightarrow> 'q qpu res" where
  "interpret_classical_mod env f regout r0 r1 rm s =
     rbind (qs_get_reg rm s) (\<lambda>md.
     rbind (ensure (\<not> md < 1) RuntimeError) (\<lambda>_.
     rbind (qs_get_reg r0 s) (\<lambda>a.
     rbind (qs_get_reg r1 s) (\<lambda>b.
     rbind (compute_classical_mod f a b md) (\<lambda>value.
     Inr (qs_set_reg regout value (qs_wait (qe_instr_time env) s)))))))"

definition interpret_breakpoint :: "int \<Rightarrow> 'q qpu \<Rightarrow> 'q qpu res" where
  "interpret_breakpoint action s =
     (if action = 0 then Inr s
      else if action = 1 then Inl NotImplementedError
      else if action = 2 then Inl NotImplementedError
      else Inl ValueError)"

section \<open>Quantum instructions\<close>

text \<open>Run commands that give no outcome, or ignore it.\<close>

definition apply_commands :: "'q qpu_env \<Rightarrow> qdevice_command list \<Rightarrow> 'q qpu \<Rightarrow> 'q qpu res" where
  "apply_commands env cmds s = rbind (run_commands env cmds s) (\<lambda>(outcome, s1). Inr s1)"

definition generic_init :: "'q qpu_env \<Rightarrow> register \<Rightarrow> 'q qpu \<Rightarrow> 'q qpu res" where
  "generic_init env r s = rbind (reg_phys r s) (\<lambda>phys_id. apply_commands env [cmd INSTR_INIT [phys_id]] s)"

text \<open>
  On NV hardware an initialisation of a memory qubit also initialises position 0 when the process
  has a qubit there.
\<close>

definition nv_init :: "'q qpu_env \<Rightarrow> register \<Rightarrow> 'q qpu \<Rightarrow> 'q qpu res" where
  "nv_init env r s =
     rbind (reg_phys r s) (\<lambda>phys_id.
     rbind (if phys_id \<noteq> 0 then virt_id_for (qs_pid s) 0 (qs_mm s) else Inr None) (\<lambda>electron.
     apply_commands env (cmd INSTR_INIT [phys_id] #
       (if electron \<noteq> None then [cmd INSTR_INIT [0]] else [])) s))"

definition interpret_init :: "'q qpu_env \<Rightarrow> register \<Rightarrow> 'q qpu \<Rightarrow> 'q qpu res" where
  "interpret_init env = (case qe_class env of GenericProcessor \<Rightarrow> generic_init env | NVProcessor \<Rightarrow> nv_init env)"

text \<open>A measurement, whose outcome goes to a register.\<close>

definition measure_into :: "'q qpu_env \<Rightarrow> int \<Rightarrow> register \<Rightarrow> 'q qpu \<Rightarrow> 'q qpu res" where
  "measure_into env phys_id creg s =
     rbind (run_commands env [cmd INSTR_MEASURE [phys_id]] s) (\<lambda>(outcome, s1).
     case outcome of None \<Rightarrow> Inl AssertionError | Some m \<Rightarrow> Inr (qs_set_reg creg m s1))"

definition carbon_to_electron :: "int \<Rightarrow> qdevice_command list" where
  "carbon_to_electron carbon_id =
     [cmd INSTR_INIT [0],
      cmd_at INSTR_ROT_Y [0] (pi / 2),
      cmd_at INSTR_CYDIR [0, carbon_id] (- (pi / 2)),
      cmd_at INSTR_ROT_X [0] (- (pi / 2)),
      cmd_at INSTR_CXDIR [0, carbon_id] (pi / 2),
      cmd_at INSTR_ROT_Y [0] (- (pi / 2))]"

definition electron_to_carbon :: "int \<Rightarrow> qdevice_command list" where
  "electron_to_carbon carbon_id =
     [cmd INSTR_INIT [carbon_id],
      cmd_at INSTR_ROT_Y [0] (pi / 2),
      cmd_at INSTR_CYDIR [0, carbon_id] (- (pi / 2)),
      cmd_at INSTR_ROT_X [0] (- (pi / 2)),
      cmd_at INSTR_CXDIR [0, carbon_id] (pi / 2)]"

definition generic_meas :: "'q qpu_env \<Rightarrow> register \<Rightarrow> register \<Rightarrow> 'q qpu \<Rightarrow> 'q qpu res" where
  "generic_meas env qreg creg s = rbind (reg_phys qreg s) (\<lambda>phys_id. measure_into env phys_id creg s)"

text \<open>On NV hardware only position 0 is measured; other qubits are moved there first.\<close>

definition nv_meas :: "'q qpu_env \<Rightarrow> register \<Rightarrow> register \<Rightarrow> 'q qpu \<Rightarrow> 'q qpu res" where
  "nv_meas env qreg creg s =
     rbind (reg_phys qreg s) (\<lambda>phys_id.
     if phys_id = 0 then measure_into env 0 creg s
     else rbind (apply_commands env (carbon_to_electron phys_id) s) (measure_into env 0 creg))"

definition interpret_meas :: "'q qpu_env \<Rightarrow> register \<Rightarrow> register \<Rightarrow> 'q qpu \<Rightarrow> 'q qpu res" where
  "interpret_meas env = (case qe_class env of GenericProcessor \<Rightarrow> generic_meas env | NVProcessor \<Rightarrow> nv_meas env)"

definition interpret_single_qubit :: "'q qpu_env \<Rightarrow> single_gate \<Rightarrow> register \<Rightarrow> 'q qpu \<Rightarrow> 'q qpu res" where
  "interpret_single_qubit env g r s =
     (case qe_class env of
        NVProcessor \<Rightarrow> Inl NotImplementedError
      | GenericProcessor \<Rightarrow>
          rbind (reg_phys r s) (\<lambda>phys_id.
          case g of
            GateX \<Rightarrow> apply_commands env [cmd INSTR_X [phys_id]] s
          | GateY \<Rightarrow> apply_commands env [cmd INSTR_Y [phys_id]] s
          | GateZ \<Rightarrow> apply_commands env [cmd INSTR_Z [phys_id]] s
          | GateH \<Rightarrow> apply_commands env [cmd INSTR_H [phys_id]] s
          | OtherSingle k \<Rightarrow> Inl UnsupportedNetqasmInstructionError))"

definition interpret_two_qubit :: "'q qpu_env \<Rightarrow> two_gate \<Rightarrow> register \<Rightarrow> register \<Rightarrow> 'q qpu \<Rightarrow> 'q qpu res" where
  "interpret_two_qubit env g r0 r1 s =
     (case qe_class env of
        NVProcessor \<Rightarrow> Inl NotImplementedError
      | GenericProcessor \<Rightarrow>
          rbind (reg_phys r0 s) (\<lambda>phys_id0.
          rbind (reg_phys r1 s) (\<lambda>phys_id1.
          case g of
            Cnot \<Rightarrow> apply_commands env [cmd INSTR_CNOT [phys_id0, phys_id1]] s
          | Cphase \<Rightarrow> apply_commands env [cmd INSTR_CZ [phys_id0, phys_id1]] s
          | OtherTwo k \<Rightarrow> Inl UnsupportedNetqasmInstructionError)))"

definition rotation_angle :: "int \<Rightarrow> int \<Rightarrow> real" where
  "rotation_angle n d = real_of_int n * pi / (2 powr real_of_int d)"

fun angle_value :: "angle_operand \<Rightarrow> 'q qpu \<Rightarrow> int res" where
  "angle_value (AngleReg r) s = qs_get_reg r s"
| "angle_value (AngleImm n) s = Inr n"
| "angle_value (AngleTemplate t) s = Inl AttributeError"

definition do_single_rotation ::
    "'q qpu_env \<Rightarrow> ns_instr \<Rightarrow> register \<Rightarrow> angle_operand \<Rightarrow> angle_operand \<Rightarrow> 'q qpu \<Rightarrow> 'q qpu res" where
  "do_single_rotation env i r num denom s =
     rbind (reg_phys r s) (\<lambda>phys_id.
     rbind (angle_value num s) (\<lambda>n.
     rbind (angle_value denom s) (\<lambda>d.
     apply_commands env [cmd_at i [phys_id] (rotation_angle n d)] s)))"

text \<open>The hardware instruction of a rotation class on either kind of processor.\<close>

fun generic_rotation :: "rotation_gate \<Rightarrow> ns_instr option" where
  "generic_rotation VanillaRotX = Some INSTR_ROT_X"
| "generic_rotation VanillaRotY = Some INSTR_ROT_Y"
| "generic_rotation VanillaRotZ = Some INSTR_ROT_Z"
| "generic_rotation g = None"

fun nv_rotation :: "rotation_gate \<Rightarrow> ns_instr option" where
  "nv_rotation NvRotX = Some INSTR_ROT_X"
| "nv_rotation NvRotY = Some INSTR_ROT_Y"
| "nv_rotation NvRotZ = Some INSTR_ROT_Z"
| "nv_rotation g = None"

definition rotation_instr :: "processor_class \<Rightarrow> rotation_gate \<Rightarrow> ns_instr option" where
  "rotation_instr c = (case c of GenericProcessor \<Rightarrow> generic_rotation | NVProcessor \<Rightarrow> nv_rotation)"

definition interpret_single_rotation ::
    "'q qpu_env \<Rightarrow> rotation_gate \<Rightarrow> register \<Rightarrow> angle_operand \<Rightarrow> angle_operand \<Rightarrow> 'q qpu \<Rightarrow> 'q qpu res" where
  "interpret_single_rotation env g r num denom s =
     (case rotation_instr (qe_class env) g of
        None \<Rightarrow> Inl UnsupportedNetqasmInstructionError
      | Some i \<Rightarrow> do_single_rotation env i r num denom s)"

fun immediate_angle :: "angle_operand \<Rightarrow> int res" where
  "immediate_angle (AngleImm n) = Inr n"
| "immediate_angle a = Inl AttributeError"

definition do_controlled_rotation ::
    "'q qpu_env \<Rightarrow> ns_instr \<Rightarrow> register \<Rightarrow> register \<Rightarrow> angle_operand \<Rightarrow> angle_operand \<Rightarrow> 'q qpu \<Rightarrow> 'q qpu res" where
  "do_controlled_rotation env i r0 r1 num denom s =
     rbind (reg_phys r0 s) (\<lambda>phys_id0.
     rbind (reg_phys r1 s) (\<lambda>phys_id1.
     rbind (immediate_angle num) (\<lambda>n.
     rbind (immediate_angle denom) (\<lambda>d.
     apply_commands env [cmd_at i [phys_id0, phys_id1] (rotation_angle n d)] s))))"

definition interpret_controlled_rotation ::
    "'q qpu_env \<Rightarrow> controlled_gate \<Rightarrow> register \<Rightarrow> register \<Rightarrow> angle_operand \<Rightarrow> angle_operand \<Rightarrow> 'q qpu \<Rightarrow> 'q qpu res" where
  "interpret_controlled_rotation env g r0 r1 num denom s =
     (case qe_class env of
        GenericProcessor \<Rightarrow> Inl UnsupportedNetqasmInstructionError
      | NVProcessor \<Rightarrow> (case g of
          NvControlledRotX \<Rightarrow> do_controlled_rotation env INSTR_CXDIR r0 r1 num denom s
        | NvControlledRotY \<Rightarrow> do_controlled_rotation env INSTR_CYDIR r0 r1 num denom s
        | OtherControlled k \<Rightarrow> Inl UnsupportedNetqasmInstructionError))"

section \<open>Running a routine\<close>

definition interpret_instruction ::
    "'q qpu_env \<Rightarrow> mem_addr \<Rightarrow> mem_addr \<Rightarrow> nq_instr \<Rightarrow> 'q qpu \<Rightarrow> 'q qpu res" where
  "interpret_instruction env input_addr result_addr instr s =
     (case instr of
        SetInstr r i \<Rightarrow> interpret_set env r i s
      | StoreInstr r e \<Rightarrow> interpret_store env result_addr r e s
      | LoadInstr r e \<Rightarrow> interpret_load env input_addr r e s
      | LeaInstr r a \<Rightarrow> interpret_lea env r a s
      | InitInstr r \<Rightarrow> interpret_init env r s
      | MeasInstr q c \<Rightarrow> interpret_meas env q c s
      | SingleQubitInstr g r \<Rightarrow> interpret_single_qubit env g r s
      | TwoQubitInstr g r0 r1 \<Rightarrow> interpret_two_qubit env g r0 r1 s
      | RotationInstr g r n d \<Rightarrow> interpret_single_rotation env g r n d s
      | ControlledRotationInstr g r0 r1 n d \<Rightarrow> interpret_controlled_rotation env g r0 r1 n d s
      | ClassicalOpInstr f x a b \<Rightarrow> interpret_classical env f x a b s
      | ClassicalOpModInstr f x a b m \<Rightarrow> interpret_classical_mod env f x a b m s
      | BreakpointInstr a r \<Rightarrow> interpret_breakpoint a s
      | _ \<Rightarrow> Inl RuntimeError)"

fun is_branch :: "nq_instr \<Rightarrow> bool" where
  "is_branch (JmpInstr l) = True"
| "is_branch (BranchUnaryInstr c r l) = True"
| "is_branch (BranchBinaryInstr c r0 r1 l) = True"
| "is_branch i = False"

text \<open>A relative jump by 0 lines counts as no jump.\<close>

definition assign_routine_instr :: "'q qpu_env \<Rightarrow> string \<Rightarrow> int \<Rightarrow> 'q qpu \<Rightarrow> (int \<times> 'q qpu) res" where
  "assign_routine_instr env name instr_idx s =
     rbind (get_running_local_routine name (pc_qnos_mem (qs_process s))) (\<lambda>running.
     rbind (py_nth (sub_instructions (lr_subroutine (rl_routine running))) instr_idx) (\<lambda>instr.
     if is_branch instr
     then rbind (interpret_branch_instr env instr s) (\<lambda>(target, s1).
          Inr (case target of
                 None \<Rightarrow> instr_idx + 1
               | Some line \<Rightarrow> if line = 0 then instr_idx + 1 else instr_idx + line, s1))
     else rbind (interpret_instruction env (rl_params_addr running) (rl_result_addr running) instr s) (\<lambda>s1.
          Inr (instr_idx + 1, s1))))"

text \<open>\<open>while instr_idx < len(netqasm_instrs)\<close>, at most \<open>fuel\<close> rounds.\<close>

fun run_routine :: "nat \<Rightarrow> 'q qpu_env \<Rightarrow> string \<Rightarrow> int \<Rightarrow> int \<Rightarrow> 'q qpu \<Rightarrow> 'q qpu res" where
  "run_routine 0 env name len i s = (if i < len then Inl OutOfFuel else Inr s)"
| "run_routine (Suc n) env name len i s =
     (if i < len
      then rbind (assign_routine_instr env name i s) (\<lambda>(j, s1). run_routine n env name len j s1)
      else Inr s)"

definition qnos_instantiate ::
    "'q qpu_env \<Rightarrow> local_routine \<Rightarrow> prog_input \<Rightarrow> mem_addr \<Rightarrow> mem_addr \<Rightarrow> 'q qpu \<Rightarrow> 'q qpu res" where
  "qnos_instantiate env routine args input_addr result_addr s =
     rbind (qe_instantiate env (qs_pid s) args (lr_subroutine routine)) (\<lambda>sub.
     let running = \<lparr>rl_routine = routine\<lparr>lr_subroutine := sub\<rparr>, rl_params_addr = input_addr,
                    rl_result_addr = result_addr\<rparr> in
     Inr (s\<lparr>qs_process := set_qnos_mem
       (add_running_local_routine running (pc_qnos_mem (qs_process s))) (qs_process s)\<rparr>))"

definition assign_local_routine ::
    "'q qpu_env \<Rightarrow> string \<Rightarrow> mem_addr \<Rightarrow> mem_addr \<Rightarrow> 'q qpu \<Rightarrow> 'q qpu res" where
  "assign_local_routine env name input_addr result_addr s =
     rbind (get_local_routine (qs_process s) name) (\<lambda>routine.
     rbind (rmap (\<lambda>q. mapped_phys q s) (qubit_use (lr_metadata routine))) (\<lambda>_.
     rbind (qnos_instantiate env routine (pc_inputs (qs_process s)) input_addr result_addr s) (\<lambda>s1.
     run_routine (qe_fuel env) env name
       (int (length (sub_instructions (lr_subroutine routine)))) 0 s1)))"

end
