(* ===== verification/QnosExec.thy ===== *)
theory QnosExec
  imports QnosProc
begin

text \<open>
  What running a local routine does: what it can change, that routines without backward jumps
  end, which physical qubits it touches, and the abstract machine that classical routines
  implement.
\<close>

section \<open>Isolation\<close>

text \<open>
  A step leaves everything alone but the registers, the array at the result address, the quantum
  state and the clock.
\<close>

definition qnos_frame :: "mem_addr \<Rightarrow> 'q qpu \<Rightarrow> 'q qpu \<Rightarrow> bool" where
  "qnos_frame out s s' \<longleftrightarrow>
     (let p = qs_process s; p' = qs_process s'; m = pc_shared_mem p; m' = pc_shared_mem p' in
      pc_instance p' = pc_instance p \<and> pc_host_mem p' = pc_host_mem p \<and> pc_result p' = pc_result p \<and>
      pc_csockets p' = pc_csockets p \<and> pc_epr_sockets p' = pc_epr_sockets p \<and>
      qm_running_local (pc_qnos_mem p') = qm_running_local (pc_qnos_mem p) \<and>
      qm_running_request (pc_qnos_mem p') = qm_running_request (pc_qnos_mem p) \<and>
      (sm_inv m \<longrightarrow> sm_inv m') \<and> (\<forall>a. a \<noteq> out \<longrightarrow> cells m' a = cells m a) \<and>
      all_regions m' = all_regions m \<and> lr_in_addrs m' = lr_in_addrs m \<and> lr_out_addrs m' = lr_out_addrs m \<and>
      mm_processes (qs_mm s') = mm_processes (qs_mm s) \<and>
      mm_process_mappings (qs_mm s') = mm_process_mappings (qs_mm s) \<and>
      mm_physical_mapping (qs_mm s') = mm_physical_mapping (qs_mm s) \<and>
      qd_topology (mm_qdevice (qs_mm s')) = qd_topology (mm_qdevice (qs_mm s)) \<and>
      qd_in_use (mm_qdevice (qs_mm s')) = qd_in_use (mm_qdevice (qs_mm s)) \<and>
      qs_sent s' = qs_sent s)"

lemma qnos_frame_refl [simp]: "qnos_frame out s s"
  by (simp add: qnos_frame_def)

lemma qnos_frame_trans: "qnos_frame out s s1 \<Longrightarrow> qnos_frame out s1 s2 \<Longrightarrow> qnos_frame out s s2"
  by (simp add: qnos_frame_def Let_def)

lemma frame_wait [simp]: "qnos_frame out s (qs_wait d s)"
  by (simp add: qnos_frame_def qs_wait_def)

lemma frame_set_reg [simp]: "qnos_frame out s (qs_set_reg r v s)"
  by (simp add: qnos_frame_def qs_set_reg_def set_reg_value_def Let_def)

lemma frame_wait_set_reg [simp]: "qnos_frame out s (qs_set_reg r v (qs_wait d s))"
  by (rule qnos_frame_trans [OF frame_wait frame_set_reg])

lemma frame_write:
  assumes "write_lr_out out data off (pc_shared_mem (qs_process s)) = Inr m"
  shows "qnos_frame out s (qs_set_shared m s)"
proof -
  have w: "guarded_write lr_out_addrs out data off (pc_shared_mem (qs_process s)) = Inr m"
    using assms by (simp add: write_lr_out_def)
  from guarded_write_cells [OF w] have "\<forall>a. a \<noteq> out \<longrightarrow> cells m a = cells (pc_shared_mem (qs_process s)) a" by auto
  with guarded_write_inv [OF w] guarded_write_regions [OF w] show ?thesis
    by (auto simp: qnos_frame_def qs_set_shared_def Let_def all_regions_def)
qed

lemma frame_commands: "run_commands env cmds s = Inr (r, s') \<Longrightarrow> qnos_frame out s s'"
  by (auto simp: run_commands_def qnos_frame_def qs_wait_def dest: execute_commands_frame)

lemma frame_apply: "apply_commands env cmds s = Inr s' \<Longrightarrow> qnos_frame out s s'"
  by (auto simp: apply_commands_def dest: frame_commands)

lemma frame_measure: "measure_into env q r s = Inr s' \<Longrightarrow> qnos_frame out s s'"
  by (auto simp: measure_into_def split: option.splits intro: qnos_frame_trans [OF frame_commands frame_set_reg])

lemmas quantum_defs = interpret_init_def generic_init_def nv_init_def interpret_meas_def
  generic_meas_def nv_meas_def interpret_single_qubit_def
  interpret_two_qubit_def interpret_single_rotation_def do_single_rotation_def
  interpret_controlled_rotation_def do_controlled_rotation_def

lemma frame_quantum:
  "interpret_init env r s = Inr s' \<Longrightarrow> qnos_frame out s s'"
  "interpret_meas env r c s = Inr s' \<Longrightarrow> qnos_frame out s s'"
  "interpret_single_qubit env g r s = Inr s' \<Longrightarrow> qnos_frame out s s'"
  "interpret_two_qubit env h r r1 s = Inr s' \<Longrightarrow> qnos_frame out s s'"
  "interpret_single_rotation env k r n d s = Inr s' \<Longrightarrow> qnos_frame out s s'"
  "interpret_controlled_rotation env l r r1 n d s = Inr s' \<Longrightarrow> qnos_frame out s s'"
  by (cases "qe_class env"; cases g; cases h; cases l; cases "rotation_instr (qe_class env) k";
      auto simp: quantum_defs split: if_splits
      intro: frame_apply frame_measure qnos_frame_trans [OF frame_apply frame_measure])+

lemmas classical_defs = interpret_set_def interpret_load_def interpret_lea_def interpret_classical_def
  interpret_classical_mod_def interpret_breakpoint_def

lemma frame_classical:
  "interpret_set env r i s = Inr s' \<Longrightarrow> qnos_frame out s s'"
  "interpret_load env a r e s = Inr s' \<Longrightarrow> qnos_frame out s s'"
  "interpret_lea env r ad s = Inr s' \<Longrightarrow> qnos_frame out s s'"
  "interpret_classical env f r r0 r1 s = Inr s' \<Longrightarrow> qnos_frame out s s'"
  "interpret_classical_mod env fm r r0 r1 rm s = Inr s' \<Longrightarrow> qnos_frame out s s'"
  "interpret_breakpoint b s = Inr s' \<Longrightarrow> qnos_frame out s s'"
  by (auto simp: classical_defs split: immediate.splits array_address.splits if_splits)

lemma frame_store: "interpret_store env out r e s = Inr s' \<Longrightarrow> qnos_frame out s s'"
  by (auto simp: interpret_store_def Let_def intro: qnos_frame_trans [OF frame_wait frame_write])

lemma frame_instruction: "interpret_instruction env a out instr s = Inr s' \<Longrightarrow> qnos_frame out s s'"
  by (cases instr) (auto simp: interpret_instruction_def dest: frame_classical frame_quantum frame_store)

lemma frame_branch: "interpret_branch_instr env instr s = Inr (t, s') \<Longrightarrow> qnos_frame out s s'"
  by (auto simp: interpret_branch_instr_def Let_def)

lemma frame_step:
  assumes "assign_routine_instr env name i s = Inr (j, s')"
    and "get_running_local_routine name (pc_qnos_mem (qs_process s)) = Inr running" "rl_result_addr running = out"
  shows "qnos_frame out s s'"
  using assms by (auto simp: assign_routine_instr_def split: if_splits dest: frame_branch frame_instruction)

lemma frame_running:
  "qnos_frame out s s' \<Longrightarrow> get_running_local_routine name (pc_qnos_mem (qs_process s')) =
     get_running_local_routine name (pc_qnos_mem (qs_process s))"
  by (simp add: qnos_frame_def get_running_local_routine_def Let_def)

lemma frame_run:
  assumes "run_routine n env name len i s = Inr s'"
    and "get_running_local_routine name (pc_qnos_mem (qs_process s)) = Inr running" "rl_result_addr running = out"
  shows "qnos_frame out s s'"
  using assms
proof (induction n arbitrary: i s)
  case (Suc n)
  show ?case
  proof (cases "i < len")
    case True
    with Suc.prems(1) obtain j s1 where s1: "assign_routine_instr env name i s = Inr (j, s1)"
      "run_routine n env name len j s1 = Inr s'" by auto
    note f = frame_step [OF s1(1) Suc.prems(2,3)]
    from Suc.IH [OF s1(2)] Suc.prems(2,3) frame_running [OF f] have "qnos_frame out s1 s'" by simp
    with f show ?thesis by (rule qnos_frame_trans)
  qed (use Suc.prems in auto)
qed (auto split: if_splits)

section \<open>Which physical qubits are touched\<close>

text \<open>
  What the model needs to know of the hardware to speak about single qubits: running commands
  leaves what can be seen of a position alone that no command names.
\<close>

definition touched :: "qdevice_command list \<Rightarrow> int set" where
  "touched cmds = (\<Union>c \<in> set cmds. set (cmd_indices c))"

definition local_hardware :: "'q hardware \<Rightarrow> (int \<Rightarrow> 'q \<Rightarrow> 'v) \<Rightarrow> bool" where
  "local_hardware hw view \<longleftrightarrow>
     (\<forall>cmds q i. i \<notin> touched cmds \<longrightarrow> view i (snd (snd (hw_execute hw cmds q))) = view i q)"

abbreviation qs_quantum :: "'q qpu \<Rightarrow> 'q" where
  "qs_quantum s \<equiv> qd_state (mm_qdevice (qs_mm s))"

text \<open>The positions a process may touch: its own, and on NV hardware the electron.\<close>

definition may_touch :: "'q qpu_env \<Rightarrow> 'q qpu \<Rightarrow> int set" where
  "may_touch env s = {i. \<exists>v. phys_of (qs_mm s) (qs_pid s, v) = Some i} \<union>
     (if qe_class env = NVProcessor then {0} else {})"

definition spares :: "(int \<Rightarrow> 'q \<Rightarrow> 'v) \<Rightarrow> 'q qpu_env \<Rightarrow> 'q qpu \<Rightarrow> 'q qpu \<Rightarrow> bool" where
  "spares view env s s' \<longleftrightarrow> may_touch env s' = may_touch env s \<and>
     (\<forall>i. i \<notin> may_touch env s \<longrightarrow> view i (qs_quantum s') = view i (qs_quantum s))"

lemma spares_refl [simp]: "spares view env s s"
  by (simp add: spares_def)

lemma spares_trans: "spares view env s s1 \<Longrightarrow> spares view env s1 s2 \<Longrightarrow> spares view env s s2"
  by (simp add: spares_def)

lemma spares_no_device [simp]:
  "spares view env s (qs_wait d s)" "spares view env s (qs_set_reg r v s)" "spares view env s (qs_set_shared m s)"
  by (simp_all add: spares_def may_touch_def qs_wait_def qs_set_reg_def qs_set_shared_def)

lemma spares_wait_set [simp]:
  "spares view env s (qs_set_reg r v (qs_wait d s))" "spares view env s (qs_set_shared m (qs_wait d s))"
  by (rule spares_trans [OF spares_no_device(1) spares_no_device(2)],
      rule spares_trans [OF spares_no_device(1) spares_no_device(3)])

lemma spares_commands:
  assumes "local_hardware (qe_hardware env) view" "touched cmds \<subseteq> may_touch env s"
    and "run_commands env cmds s = Inr (r, s')"
  shows "spares view env s s'"
proof -
  from assms(3) obtain t dev where d: "execute_commands (qe_hardware env) cmds (mm_qdevice (qs_mm s)) = Inr (r, t, dev)"
    and s': "s' = qs_wait t (s\<lparr>qs_mm := (qs_mm s)\<lparr>mm_qdevice := dev\<rparr>\<rparr>)"
    by (auto simp: run_commands_def)
  from d have "qd_state dev = snd (snd (hw_execute (qe_hardware env) cmds (qs_quantum s)))"
    by (auto simp: execute_commands_def split: prod.splits)
  moreover have "may_touch env s' = may_touch env s"
    by (simp add: may_touch_def s' qs_wait_def phys_of_def)
  moreover have "i \<notin> may_touch env s \<Longrightarrow> i \<notin> touched cmds" for i using assms(2) by blast
  ultimately show ?thesis using assms(1)
    by (simp add: spares_def s' qs_wait_def local_hardware_def)
qed

lemma spares_apply:
  "\<lbrakk>local_hardware (qe_hardware env) view; touched cmds \<subseteq> may_touch env s; apply_commands env cmds s = Inr s'\<rbrakk> \<Longrightarrow>
     spares view env s s'"
  by (auto simp: apply_commands_def dest: spares_commands)

lemma mapped_may_touch:
  assumes "mapped_phys v s = Inr i"
  shows "i \<in> may_touch env s"
proof -
  from assms have "phys_of (qs_mm s) (qs_pid s, v) = Some i"
    by (auto simp: mapped_phys_def phys_id_for_def phys_of_def dget_eq_Inr split: option.splits)
  then show ?thesis by (auto simp: may_touch_def)
qed

lemma reg_may_touch: "reg_phys r s = Inr i \<Longrightarrow> i \<in> may_touch env s"
  by (auto simp: reg_phys_def intro: mapped_may_touch)

lemma nv_may_touch: "qe_class env = NVProcessor \<Longrightarrow> 0 \<in> may_touch env s"
  by (simp add: may_touch_def)

lemma touched_simps [simp]:
  "touched [] = {}" "touched (c # cs) = set (cmd_indices c) \<union> touched cs"
  "cmd_indices (cmd i qs) = qs" "cmd_indices (cmd_at i qs a) = qs"
  "touched (carbon_to_electron k) = {0, k}"
  by (auto simp: touched_def cmd_def cmd_at_def carbon_to_electron_def)

lemma spares_measure:
  assumes "local_hardware (qe_hardware env) view" "i \<in> may_touch env s" "measure_into env i r s = Inr s'"
  shows "spares view env s s'"
proof -
  from assms(3) obtain m s1 where m: "run_commands env [cmd INSTR_MEASURE [i]] s = Inr (Some m, s1)"
    "s' = qs_set_reg r m s1" by (auto simp: measure_into_def split: option.splits)
  from spares_commands [OF assms(1) _ m(1)] assms(2) have "spares view env s s1" by simp
  then show ?thesis unfolding m(2) by (rule spares_trans) simp
qed

lemma spares_quantum:
  assumes "local_hardware (qe_hardware env) view"
  shows
  "interpret_init env r s = Inr s' \<Longrightarrow> spares view env s s'"
  "interpret_single_qubit env g r s = Inr s' \<Longrightarrow> spares view env s s'"
  "interpret_two_qubit env h r r1 s = Inr s' \<Longrightarrow> spares view env s s'"
  "interpret_single_rotation env k r n d s = Inr s' \<Longrightarrow> spares view env s s'"
  "interpret_controlled_rotation env l r r1 n d s = Inr s' \<Longrightarrow> spares view env s s'"
  using assms
  by (cases "qe_class env"; cases g; cases h; cases l; cases "rotation_instr (qe_class env) k";
      auto simp: quantum_defs reg_may_touch nv_may_touch split: if_splits elim!: spares_apply [rotated 2])+

lemma spares_meas:
  assumes "local_hardware (qe_hardware env) view" "interpret_meas env q c s = Inr s'"
  shows "spares view env s s'"
proof (cases "qe_class env")
  case GenericProcessor
  with assms show ?thesis by (auto simp: quantum_defs intro: spares_measure reg_may_touch)
next
  case NVProcessor
  note z = nv_may_touch [OF NVProcessor]
  from assms(2) NVProcessor obtain i where i: "reg_phys q s = Inr i"
    "if i = 0 then measure_into env 0 c s = Inr s'
     else \<exists>s1. apply_commands env (carbon_to_electron i) s = Inr s1 \<and> measure_into env 0 c s1 = Inr s'"
    by (auto simp: quantum_defs split: if_splits)
  have "spares view env s s1" if "apply_commands env (carbon_to_electron i) s = Inr s1" for s1
    using spares_apply [OF assms(1) _ that] reg_may_touch [OF i(1)] z by simp
  with i show ?thesis
    by (auto split: if_splits intro: spares_measure [OF assms(1) z] spares_trans)
qed

lemma spares_classical:
  "interpret_set env r i s = Inr s' \<Longrightarrow> spares view env s s'"
  "interpret_load env a r e s = Inr s' \<Longrightarrow> spares view env s s'"
  "interpret_store env a r e s = Inr s' \<Longrightarrow> spares view env s s'"
  "interpret_lea env r ad s = Inr s' \<Longrightarrow> spares view env s s'"
  "interpret_classical env f r r0 r1 s = Inr s' \<Longrightarrow> spares view env s s'"
  "interpret_classical_mod env fm r r0 r1 rm s = Inr s' \<Longrightarrow> spares view env s s'"
  "interpret_breakpoint b s = Inr s' \<Longrightarrow> spares view env s s'"
  by (auto simp: classical_defs interpret_store_def Let_def
      split: immediate.splits array_address.splits if_splits)

lemma spares_step:
  assumes "local_hardware (qe_hardware env) view" "assign_routine_instr env name i s = Inr (j, s')"
  shows "spares view env s s'"
proof -
  have instr: "spares view env s s'" if "interpret_instruction env a out x s = Inr s'" for a out x
    using that by (cases x) (auto simp: interpret_instruction_def
        dest: spares_classical spares_quantum [OF assms(1)] spares_meas [OF assms(1)])
  have branch: "spares view env s s'" if "interpret_branch_instr env x s = Inr (t, s')" for x t
    using that by (auto simp: interpret_branch_instr_def Let_def)
  from assms(2) instr branch show ?thesis by (auto simp: assign_routine_instr_def split: if_splits)
qed

lemma spares_run:
  assumes "local_hardware (qe_hardware env) view" "run_routine n env name len i s = Inr s'"
  shows "spares view env s s'"
  using assms(2)
proof (induction n arbitrary: i s)
  case (Suc n)
  then show ?case
    by (auto split: if_splits intro: spares_trans [OF spares_step [OF assms(1)]])
qed (auto split: if_splits)

end
