(* ===== verification/QnosRun.thy ===== *)
theory QnosRun
  imports QnosExec
begin

text \<open>
  The properties of running a local routine: it changes nothing but what the routine may change,
  it touches only the qubits of its process (and on NV hardware the electron, whoever owns it),
  and it ends when it has no backward jumps.
\<close>

section \<open>Routines without backward jumps end\<close>

fun jump_line :: "nq_instr \<Rightarrow> int" where
  "jump_line (JmpInstr l) = l"
| "jump_line (BranchUnaryInstr c r l) = l"
| "jump_line (BranchBinaryInstr c r0 r1 l) = l"
| "jump_line i = 1"

definition forward_only :: "nq_instr list \<Rightarrow> bool" where
  "forward_only is \<longleftrightarrow> (\<forall>i \<in> set is. 0 \<le> jump_line i)"

text \<open>No operation of the model but the loop itself reports that the rounds are used up.\<close>

named_theorems fuel_free

declare rbind_eq_Inl [where e = OutOfFuel, fuel_free]

lemma fuel_free_basic [fuel_free]:
  "dget d k \<noteq> Inl OutOfFuel" "py_index xs i \<noteq> Inl OutOfFuel"
  "py_nth xs i \<noteq> Inl OutOfFuel" "py_setitem xs i v \<noteq> Inl OutOfFuel"
proof -
  show i: "py_index xs i \<noteq> Inl OutOfFuel" for xs :: "'x list" and i by (simp add: py_index_def Let_def)
  show "dget d k \<noteq> Inl OutOfFuel" by (simp add: dget_def split: option.splits)
  show "py_nth xs i \<noteq> Inl OutOfFuel" "py_setitem xs i v \<noteq> Inl OutOfFuel"
    by (simp_all add: py_nth_def py_setitem_def rbind_eq_Inl i)
qed

lemma fuel_free_rmap: "(\<And>x. f x \<noteq> Inl OutOfFuel) \<Longrightarrow> rmap f xs \<noteq> Inl OutOfFuel"
  by (induction xs) (auto simp: rbind_eq_Inl)

lemma fuel_free_shared [fuel_free]:
  "write_lr_out a data off m \<noteq> Inl OutOfFuel" "read_lr_in a sz off m \<noteq> Inl OutOfFuel"
proof -
  have "store_items data off xs \<noteq> Inl OutOfFuel" for xs
    by (induction data arbitrary: off xs) (auto simp: fuel_free)
  then show "write_lr_out a data off m \<noteq> Inl OutOfFuel"
    by (auto simp: write_lr_out_def guarded_write_def arrays_write_def fuel_free split: option.splits)
  show "read_lr_in a sz off m \<noteq> Inl OutOfFuel"
    by (auto simp: read_lr_in_def guarded_read_def arrays_read_def load_items_def fuel_free Let_def
        split: option.splits)
qed

lemma fuel_free_device [fuel_free]:
  "matches_allow ms ids \<noteq> Inl OutOfFuel" "check_initialized peek cmds \<noteq> Inl OutOfFuel"
  "execute_commands hw cmds d \<noteq> Inl OutOfFuel"
proof -
  show m: "matches_allow ms ids \<noteq> Inl OutOfFuel" for ms ids
    by (induction ms ids rule: matches_allow.induct) (auto simp: fuel_free)
  show c: "check_initialized peek cmds \<noteq> Inl OutOfFuel"
    for peek cmds
    by (induction cmds) (auto simp: fuel_free)
  have "rmap (\<lambda>c. rbind (is_allowed d c) (\<lambda>ok. ensure ok UnsupportedQDeviceCommandError)) cmds \<noteq> Inl OutOfFuel"
    by (rule fuel_free_rmap) (auto simp: is_allowed_def fuel_free m)
  then show "execute_commands hw cmds d \<noteq> Inl OutOfFuel"
    by (auto simp: execute_commands_def fuel_free Let_def c split: prod.splits)
qed

lemma fuel_free_qpu [fuel_free]:
  "qs_get_reg r s \<noteq> Inl OutOfFuel" "run_commands env cmds s \<noteq> Inl OutOfFuel"
  "mapped_phys v s \<noteq> Inl OutOfFuel" "entry_register n e \<noteq> Inl OutOfFuel"
  by (auto simp: qs_get_reg_def get_reg_value_def run_commands_def mapped_phys_def phys_id_for_def
      entry_register_def fuel_free split: option.splits entry_index.splits)

lemma fuel_free_unpack [fuel_free]: "unpack1 vs \<noteq> Inl OutOfFuel"
  by (cases vs rule: unpack1.cases) auto

lemma fuel_free_reg [fuel_free]: "reg_phys r s \<noteq> Inl OutOfFuel"
  by (auto simp: reg_phys_def fuel_free)

lemma fuel_free_apply [fuel_free]:
  "apply_commands env cmds s \<noteq> Inl OutOfFuel" "measure_into env i r s \<noteq> Inl OutOfFuel"
  by (auto simp: apply_commands_def measure_into_def fuel_free split: option.splits)

lemma fuel_free_angle [fuel_free]: "angle_value a s \<noteq> Inl OutOfFuel" "immediate_angle a \<noteq> Inl OutOfFuel"
  by (cases a; auto simp: fuel_free)+

lemma fuel_free_quantum [fuel_free]:
  "interpret_init env r s \<noteq> Inl OutOfFuel"
  "interpret_meas env r c s \<noteq> Inl OutOfFuel"
  "interpret_single_qubit env g r s \<noteq> Inl OutOfFuel"
  "interpret_two_qubit env h r r1 s \<noteq> Inl OutOfFuel"
  "interpret_single_rotation env k r n d s \<noteq> Inl OutOfFuel"
  "interpret_controlled_rotation env l r r1 n d s \<noteq> Inl OutOfFuel"
  by (cases "qe_class env"; cases g; cases h; cases l; cases "rotation_instr (qe_class env) k";
      auto simp: quantum_defs virt_id_for_def fuel_free split: if_splits)+

lemma fuel_free_classical [fuel_free]:
  "interpret_set env r i s \<noteq> Inl OutOfFuel"
  "interpret_load env a r e s \<noteq> Inl OutOfFuel"
  "interpret_store env a r e s \<noteq> Inl OutOfFuel"
  "interpret_lea env r ad s \<noteq> Inl OutOfFuel"
  "interpret_classical env f r r0 r1 s \<noteq> Inl OutOfFuel"
  "interpret_classical_mod env fm r r0 r1 rm s \<noteq> Inl OutOfFuel"
  "interpret_breakpoint b s \<noteq> Inl OutOfFuel"
  by (cases i; cases ad; cases f; cases fm;
      auto simp: classical_defs interpret_store_def compute_classical_def compute_classical_mod_def
        Let_def fuel_free)+

lemma fuel_free_step: "assign_routine_instr env name i s \<noteq> Inl OutOfFuel"
proof -
  have "interpret_instruction env a out x s \<noteq> Inl OutOfFuel" for a out x
    by (cases x) (simp_all add: interpret_instruction_def fuel_free)
  moreover have "interpret_branch_instr env x s \<noteq> Inl OutOfFuel" for x
    by (cases x) (auto simp: interpret_branch_instr_def fuel_free Let_def)
  ultimately show ?thesis
    by (auto simp: assign_routine_instr_def get_running_local_routine_def fuel_free)
qed

text \<open>An instruction of such a routine moves on, and leaves the routine as it is.\<close>

lemma forward_step:
  assumes "get_running_local_routine name (pc_qnos_mem (qs_process s)) = Inr running"
    and "forward_only (sub_instructions (lr_subroutine (rl_routine running)))"
    and "assign_routine_instr env name i s = Inr (j, s')" "0 \<le> i"
  shows "i < j"
proof -
  from assms obtain x where x: "py_nth (sub_instructions (lr_subroutine (rl_routine running))) i = Inr x"
    and step: "(if is_branch x
     then rbind (interpret_branch_instr env x s) (\<lambda>(target, s1).
          Inr (case target of None \<Rightarrow> i + 1 | Some line \<Rightarrow> if line = 0 then i + 1 else i + line, s1))
     else rbind (interpret_instruction env (rl_params_addr running) (rl_result_addr running) x s) (\<lambda>s1.
          Inr (i + 1, s1))) = Inr (j, s')"
    by (auto simp: assign_routine_instr_def)
  from x have "x \<in> set (sub_instructions (lr_subroutine (rl_routine running)))"
    by (auto simp: py_nth_def py_index_def Let_def split: if_splits)
  with assms(2) have "0 \<le> jump_line x" by (simp add: forward_only_def)
  with step show ?thesis
    by (cases x) (auto simp: interpret_branch_instr_def Let_def split: if_splits)
qed

lemma forward_run:
  assumes "get_running_local_routine name (pc_qnos_mem (qs_process s)) = Inr running"
    and "forward_only (sub_instructions (lr_subroutine (rl_routine running)))"
    and "0 \<le> i" "len - i \<le> int n"
  shows "run_routine n env name len i s \<noteq> Inl OutOfFuel"
  using assms
proof (induction n arbitrary: i s)
  case (Suc n)
  have "run_routine n env name len j s1 \<noteq> Inl OutOfFuel"
    if "assign_routine_instr env name i s = Inr (j, s1)" for j s1
  proof (rule Suc.IH)
    show "get_running_local_routine name (pc_qnos_mem (qs_process s1)) = Inr running"
      using frame_running [OF frame_step [OF that Suc.prems(1) refl]] Suc.prems(1) by simp
    from forward_step [OF Suc.prems(1,2) that Suc.prems(3)] Suc.prems(3,4)
    show "0 \<le> j" "len - j \<le> int n" by simp_all
  qed (rule Suc.prems(2))
  with fuel_free_step [of env name i s] show ?case by (auto simp: rbind_eq_Inl)
qed simp

section \<open>Properties\<close>

text \<open>Running a local routine that is registered under its own name changes, of the process, only
the registers, the shared-memory array at the result address and the entry of the running routine;
the Host memory, the results, the other running routines, all other arrays and the division of the
shared memory stay as they were. Of the node it changes only the quantum state and the clock: which
physical qubit belongs to which process, and the messages sent, stay as they were.\<close>

theorem routine_isolation:
  assumes "get_local_routine (qs_process s) name = Inr r" "lr_name r = name"
    and "assign_local_routine env name input_addr result_addr s = Inr s'"
  shows "pc_instance (qs_process s') = pc_instance (qs_process s) \<and>
    pc_host_mem (qs_process s') = pc_host_mem (qs_process s) \<and>
    pc_result (qs_process s') = pc_result (qs_process s) \<and>
    qm_running_request (pc_qnos_mem (qs_process s')) = qm_running_request (pc_qnos_mem (qs_process s)) \<and>
    (\<forall>n. n \<noteq> name \<longrightarrow> get_running_local_routine n (pc_qnos_mem (qs_process s')) =
       get_running_local_routine n (pc_qnos_mem (qs_process s))) \<and>
    (\<forall>a. a \<noteq> result_addr \<longrightarrow>
       cells (pc_shared_mem (qs_process s')) a = cells (pc_shared_mem (qs_process s)) a) \<and>
    all_regions (pc_shared_mem (qs_process s')) = all_regions (pc_shared_mem (qs_process s)) \<and>
    mm_process_mappings (qs_mm s') = mm_process_mappings (qs_mm s) \<and>
    mm_physical_mapping (qs_mm s') = mm_physical_mapping (qs_mm s) \<and>
    mm_processes (qs_mm s') = mm_processes (qs_mm s) \<and> qs_sent s' = qs_sent s"
proof -
  from assms obtain sub s1 running where s1: "run_routine (qe_fuel env) env name
       (int (length (sub_instructions (lr_subroutine r)))) 0 s1 = Inr s'"
    and running: "running = \<lparr>rl_routine = r\<lparr>lr_subroutine := sub\<rparr>, rl_params_addr = input_addr,
       rl_result_addr = result_addr\<rparr>"
    and init: "s1 = s\<lparr>qs_process := set_qnos_mem
       (add_running_local_routine running (pc_qnos_mem (qs_process s))) (qs_process s)\<rparr>"
    by (auto simp: assign_local_routine_def qnos_instantiate_def)
  have "get_running_local_routine name (pc_qnos_mem (qs_process s1)) = Inr running"
    using assms(2) by (simp add: init running get_add_running_local)
  from frame_run [OF s1 this] have "qnos_frame result_addr s1 s'" by (simp add: running)
  then show ?thesis using assms(2)
    by (auto simp: qnos_frame_def Let_def init get_running_local_routine_def
        add_running_local_routine_def running dget_dset)
qed

text \<open>C33: On hardware whose commands act on the positions they name, a local routine leaves the qubits of the
other processes alone: what can be seen at a physical position that belongs to another process is the
same before and after. On NV hardware this holds for all positions but 0, which a measurement of a memory
qubit initialises whoever owns it (\<open>nv_measurement_resets_electron\<close>).\<close>

theorem routine_spares_other_processes:
  assumes "local_hardware (qe_hardware env) view" "mm_inv (qs_mm s)"
    and "assign_local_routine env name input_addr result_addr s = Inr s'"
    and "owner (qs_mm s) i = Some (pid, v)" "pid \<noteq> qs_pid s"
    and "qe_class env = GenericProcessor \<or> i \<noteq> 0"
  shows "view i (qs_quantum s') = view i (qs_quantum s)"
proof -
  from assms(3) obtain r sub s1 where s1: "run_routine (qe_fuel env) env name
       (int (length (sub_instructions (lr_subroutine r)))) 0 s1 = Inr s'"
    and init: "s1 = s\<lparr>qs_process := set_qnos_mem
       (add_running_local_routine \<lparr>rl_routine = r\<lparr>lr_subroutine := sub\<rparr>, rl_params_addr = input_addr,
       rl_result_addr = result_addr\<rparr> (pc_qnos_mem (qs_process s))) (qs_process s)\<rparr>"
    by (auto simp: assign_local_routine_def qnos_instantiate_def)
  have "phys_of (qs_mm s) (qs_pid s, w) \<noteq> Some i" for w
    using assms(4,5) mm_inv_bij [OF assms(2)] by simp
  with assms(6) have "i \<notin> may_touch env s1" by (auto simp: may_touch_def init)
  with spares_run [OF assms(1) s1] show ?thesis by (simp add: spares_def init)
qed

text \<open>On NV hardware the exception is real: measuring a memory qubit first initialises position
0, also when another process owns it, and that process still owns it afterwards. The comment in the
source says that the electron has to be freed up first, which no code does.\<close>

theorem nv_measurement_resets_electron:
  assumes "qe_class env = NVProcessor" "owner (qs_mm s) 0 = Some (pid, v)" "pid \<noteq> qs_pid s"
    and "reg_phys qreg s = Inr carbon" "carbon \<noteq> 0" "interpret_meas env qreg creg s = Inr s'"
  shows "\<exists>rest q1. q1 = snd (snd (hw_execute (qe_hardware env) (cmd INSTR_INIT [0] # rest) (qs_quantum s))) \<and>
    qs_quantum s' = snd (snd (hw_execute (qe_hardware env) [cmd INSTR_MEASURE [0]] q1)) \<and>
    owner (qs_mm s') 0 = Some (pid, v)"
proof -
  have state: "qs_quantum t = snd (snd (hw_execute (qe_hardware env) cmds (qs_quantum s)))"
    if "run_commands env cmds s = Inr (r, t)" for cmds r and s t :: "'a qpu"
    using that by (auto simp: run_commands_def execute_commands_def qs_wait_def split: prod.splits)
  from assms obtain r m s1 where s1: "run_commands env (carbon_to_electron carbon) s = Inr (r, s1)"
    and s2: "\<exists>s2. run_commands env [cmd INSTR_MEASURE [0]] s1 = Inr (Some m, s2) \<and> s' = qs_set_reg creg m s2"
    by (auto simp: interpret_meas_def nv_meas_def apply_commands_def measure_into_def split: option.splits)
  have "qnos_frame (MemAddr 0) s s'" using assms(6) by (rule frame_quantum)
  then have "owner (qs_mm s') 0 = Some (pid, v)" using assms(2) by (simp add: qnos_frame_def owner_def Let_def)
  moreover obtain rest where "carbon_to_electron carbon = cmd INSTR_INIT [0] # rest"
    by (simp add: carbon_to_electron_def)
  ultimately show ?thesis using s2 state [OF s1] state
    by (force simp: qs_set_reg_def)
qed

text \<open>C34: A routine whose jumps all go forward ends: given as many rounds as it has instructions, the
interpreter either finishes or stops with an error of an instruction, and never runs out of rounds.
The instantiation of the subroutine, which belongs to NetQASM, is assumed to keep jump targets.\<close>

theorem forward_routine_ends:
  assumes "get_local_routine (qs_process s) name = Inr r" "lr_name r = name"
    and "forward_only (sub_instructions (lr_subroutine r))"
    and "length (sub_instructions (lr_subroutine r)) \<le> qe_fuel env"
    and "\<And>sub. qe_instantiate env (qs_pid s) (pc_inputs (qs_process s)) (lr_subroutine r) = Inr sub \<Longrightarrow>
      map jump_line (sub_instructions sub) = map jump_line (sub_instructions (lr_subroutine r))"
    and "qe_instantiate env (qs_pid s) (pc_inputs (qs_process s)) (lr_subroutine r) \<noteq> Inl OutOfFuel"
  shows "assign_local_routine env name input_addr result_addr s \<noteq> Inl OutOfFuel"
proof -
  have run: "run_routine (qe_fuel env) env name (int (length (sub_instructions (lr_subroutine r)))) 0 s1 \<noteq> Inl OutOfFuel"
    if "qnos_instantiate env r (pc_inputs (qs_process s)) input_addr result_addr s = Inr s1" for s1
  proof -
    from that obtain sub where sub: "qe_instantiate env (qs_pid s) (pc_inputs (qs_process s)) (lr_subroutine r) = Inr sub"
      and s1: "get_running_local_routine name (pc_qnos_mem (qs_process s1)) =
        Inr \<lparr>rl_routine = r\<lparr>lr_subroutine := sub\<rparr>, rl_params_addr = input_addr, rl_result_addr = result_addr\<rparr>"
      using assms(2) by (auto simp: qnos_instantiate_def get_add_running_local)
    have "set (map jump_line (sub_instructions sub)) = set (map jump_line (sub_instructions (lr_subroutine r)))"
      using assms(5) [OF sub] by simp
    with assms(3) have "forward_only (sub_instructions sub)"
      by (auto simp: forward_only_def) (metis image_iff)
    with forward_run [OF s1] assms(4) show ?thesis by simp
  qed
  have "rmap (\<lambda>q. mapped_phys q s) qs \<noteq> Inl OutOfFuel" for qs by (rule fuel_free_rmap) (simp add: fuel_free)
  with assms(1,6) run show ?thesis
    by (auto simp: assign_local_routine_def rbind_eq_Inl qnos_instantiate_def)
qed

section \<open>Examples and witnesses\<close>

text \<open>A device that supports every instruction and records the commands it is given.\<close>

definition sample_recorder :: "qdevice_command list hardware" where
  "sample_recorder = \<lparr>hw_peek = \<lambda>q i. True, hw_execute = \<lambda>cmds q. (Some 1, 7, q @ cmds)\<rparr>"

definition sample_qpu_device :: "qdevice_command list qdevice" where
  "sample_qpu_device = \<lparr>qd_topology = lhi_perfect_star 3 [] 0 [] 0 [] 0,
     qd_phys_instrs = [(INSTR_INIT, None), (INSTR_MEASURE, None), (INSTR_ROT_X, None), (INSTR_ROT_Y, None),
       (INSTR_CXDIR, None), (INSTR_CYDIR, None)],
     qd_in_use = [False, False, False], qd_state = []\<rparr>"

text \<open>Process 0 has physical qubit 1 and process 1 has physical qubit 0.\<close>

definition sample_shared_qpu_mm :: "qdevice_command list memory_manager" where
  "sample_shared_qpu_mm = snd (projr (allocate 1 0 (snd (projr (allocate 0 1
     (add_process (sample_process 1) (add_process (sample_process 0) (init_memmgr sample_qpu_device None))))))))"

lemmas sample_mm_eval = allocate_def sample_defs add_process_def init_memmgr_def dget_def
      get_all_qubit_ids_def is_communication_def get_free_mem_phys_id_def qd_non_comm_qubit_ids_def
      get_free_comm_phys_id_def qd_comm_qubit_ids_def ensure_def sample_qpu_device_def
      qd_all_qubit_ids_def dupdate_def perfect_qubit_def decoherence_qubit_def lhi_perfect_qubit_def
      t1t2_qubit_def

lemma sample_shared_reachable: "mm_reachable sample_qpu_device None sample_shared_qpu_mm"
proof -
  let ?m0 = "add_process (sample_process 1) (add_process (sample_process 0) (init_memmgr sample_qpu_device None))"
  let ?m1 = "snd (projr (allocate 0 1 ?m0))"
  have "mm_reachable sample_qpu_device None ?m0"
    by (intro mm_add mm_init) (simp_all add: sample_mm_eval unit_module_ok_def)
  moreover have a: "allocate 0 1 ?m0 = Inr (1, ?m1)" by (simp add: sample_mm_eval)
  ultimately have r: "mm_reachable sample_qpu_device None ?m1" by (rule mm_alloc)
  have "allocate 1 0 ?m1 = Inr (0, sample_shared_qpu_mm)"
    by (simp add: sample_shared_qpu_mm_def) (simp add: sample_mm_eval)
  with r show ?thesis by (rule mm_alloc)
qed

lemma sample_shared_mm:
  "mm_inv sample_shared_qpu_mm" "owner sample_shared_qpu_mm 0 = Some (1, 0)"
  "phys_id_for 0 1 sample_shared_qpu_mm = Inr (Some 1)"
proof -
  have "device_ok sample_qpu_device"
    by (auto simp: sample_mm_eval device_ok_def)
  with sample_shared_reachable show "mm_inv sample_shared_qpu_mm" by (rule mm_reachable_inv)
  show "owner sample_shared_qpu_mm 0 = Some (1, 0)"
    by (simp add: sample_shared_qpu_mm_def owner_def sample_mm_eval)
  show "phys_id_for 0 1 sample_shared_qpu_mm = Inr (Some 1)"
    by (simp add: sample_shared_qpu_mm_def phys_id_for_def sample_mm_eval)
qed

definition sample_measure :: local_routine where
  "sample_measure = \<lparr>lr_name = ''m'',
     lr_subroutine = \<lparr>sub_instructions = [SetInstr (Register RegQ 0) (Imm 1), MeasInstr (Register RegQ 0) (Register RegM 0)],
       sub_arguments = []\<rparr>,
     lr_return_vars = [], lr_metadata = \<lparr>qubit_use = [1], qubit_keep = []\<rparr>, lr_request_name = None\<rparr>"

definition sample_qpu_env :: "processor_class \<Rightarrow> qdevice_command list qpu_env" where
  "sample_qpu_env c = \<lparr>qe_class = c, qe_hardware = sample_recorder,
     qe_branch = \<lparr>check_unary = \<lambda>k a. a = 0, check_binary = \<lambda>k a b. a = b\<rparr>,
     qe_instantiate = \<lambda>pid args sub. Inr sub, qe_instr_time = 5, qe_node_id = 0, qe_put = \<lambda>i q. q, qe_fuel = Suc (Suc (Suc 0))\<rparr>"

definition sample_qpu :: "qdevice_command list qpu" where
  "sample_qpu = \<lparr>qs_process = (sample_process 0)\<lparr>pc_instance := (pc_instance (sample_process 0))
       \<lparr>pi_program := mk_program (meta_empty ''p'') [] (Some [(''m'', sample_measure)]) None\<rparr>,
       pc_memory := init_program_memory\<lparr>pm_qnos_mem := init_qnos_memory\<lparr>qm_registers := [(Register RegQ 0, 1)]\<rparr>\<rparr>\<rparr>,
     qs_mm = sample_shared_qpu_mm,
     qs_inbox = \<lparr>ib_listeners = [], ib_arrivals = [], ib_now = 0\<rparr>, qs_sent = []\<rparr>"

lemma sample_qpu_simps [simp]:
  "qs_pid sample_qpu = 0" "qs_mm sample_qpu = sample_shared_qpu_mm"
  "get_local_routine (qs_process sample_qpu) ''m'' = Inr sample_measure"
  "pc_inputs (qs_process sample_qpu) = []"
  by (simp_all add: sample_qpu_def sample_process_def get_local_routine_def mk_program_def dget_def)

lemma sample_local: "local_hardware sample_recorder (\<lambda>i. filter (\<lambda>c. i \<in> set (cmd_indices c)))"
  by (auto simp: local_hardware_def sample_recorder_def touched_def filter_empty_conv)

lemma sample_electron: "reg_phys (Register RegQ 0) sample_qpu = Inr 1"
proof -
  have "qs_get_reg (Register RegQ 0) sample_qpu = Inr 1"
    by (simp add: sample_qpu_def qs_get_reg_def get_reg_value_def dget_def)
  then show ?thesis by (simp add: reg_phys_def mapped_phys_def sample_shared_mm)
qed

lemma sample_quantum: "mm_qdevice sample_shared_qpu_mm = sample_qpu_device"
  by (simp add: sample_shared_qpu_mm_def) (simp add: sample_mm_eval)

lemmas sample_commands = run_commands_def execute_commands_def is_allowed_def cmd_def cmd_at_def
  sample_quantum sample_qpu_device_def sample_recorder_def ensure_def

lemma sample_nv_runs:
  "\<exists>s'. interpret_meas (sample_qpu_env NVProcessor) (Register RegQ 0) (Register RegM 0) sample_qpu = Inr s'"
  by (simp add: interpret_meas_def nv_meas_def sample_electron apply_commands_def measure_into_def
      carbon_to_electron_def sample_commands sample_qpu_env_def qs_wait_def)

theorem nv_measurement_resets_electron_witness:
  "\<exists>s' rest. interpret_meas (sample_qpu_env NVProcessor) (Register RegQ 0) (Register RegM 0) sample_qpu = Inr s' \<and>
     qs_quantum s' = cmd INSTR_INIT [0] # rest \<and> owner (qs_mm s') 0 = Some (1, 0)"
proof -
  obtain s' where r: "interpret_meas (sample_qpu_env NVProcessor) (Register RegQ 0) (Register RegM 0) sample_qpu = Inr s'"
    using sample_nv_runs by blast
  have h: "qe_class (sample_qpu_env NVProcessor) = NVProcessor" "(1 :: int) \<noteq> qs_pid sample_qpu"
    "owner (qs_mm sample_qpu) 0 = Some (1, 0)" by (simp_all add: sample_qpu_env_def sample_shared_mm)
  from nv_measurement_resets_electron [OF h(1,3,2) sample_electron _ r] r show ?thesis
    by (auto simp: sample_qpu_env_def sample_recorder_def sample_quantum sample_qpu_device_def)
qed

lemma plain_step:
  assumes "get_running_local_routine name (pc_qnos_mem (qs_process s)) = Inr running"
    and "py_nth (sub_instructions (lr_subroutine (rl_routine running))) i = Inr x" "\<not> is_branch x"
    and "interpret_instruction env (rl_params_addr running) (rl_result_addr running) x s = Inr s'"
  shows "assign_routine_instr env name i s = Inr (i + 1, s')"
  using assms by (simp add: assign_routine_instr_def)

definition sample_started :: "qdevice_command list qpu" where
  "sample_started = sample_qpu\<lparr>qs_process := set_qnos_mem (add_running_local_routine
     \<lparr>rl_routine = sample_measure, rl_params_addr = MemAddr 0, rl_result_addr = MemAddr 1\<rparr>
     (pc_qnos_mem (qs_process sample_qpu))) (qs_process sample_qpu)\<rparr>"

lemma sample_start:
  "qnos_instantiate (sample_qpu_env c) sample_measure [] (MemAddr 0) (MemAddr 1) sample_qpu = Inr sample_started"
  by (simp add: qnos_instantiate_def sample_qpu_env_def sample_started_def)

lemma sample_routine_runs:
  "\<exists>s'. assign_local_routine (sample_qpu_env GenericProcessor) ''m'' (MemAddr 0) (MemAddr 1) sample_qpu = Inr s'"
proof -
  let ?env = "sample_qpu_env GenericProcessor"
  let ?run = "\<lparr>rl_routine = sample_measure, rl_params_addr = MemAddr 0, rl_result_addr = MemAddr 1\<rparr>"
  define s1 where "s1 = qs_set_reg (Register RegQ 0) 1 (qs_wait 5 sample_started)"
  have r0: "get_running_local_routine ''m'' (pc_qnos_mem (qs_process sample_started)) = Inr ?run"
    by (simp add: sample_started_def get_add_running_local sample_measure_def)
  then have r1: "get_running_local_routine ''m'' (pc_qnos_mem (qs_process s1)) = Inr ?run"
    by (simp add: s1_def qs_set_reg_def qs_wait_def)
  have 0: "assign_routine_instr ?env ''m'' 0 sample_started = Inr (0 + 1, s1)"
    by (rule plain_step [OF r0, where x = "SetInstr (Register RegQ 0) (Imm 1)"])
       (simp_all add: sample_measure_def py_nth_def py_index_def
      interpret_instruction_def interpret_set_def s1_def sample_qpu_env_def)
  have mm: "qs_mm s1 = sample_shared_qpu_mm" "qs_pid s1 = 0"
    by (simp_all add: s1_def sample_started_def qs_set_reg_def qs_wait_def)
  have "reg_phys (Register RegQ 0) s1 = Inr 1"
    by (simp add: reg_phys_def qs_get_reg_def mapped_phys_def mm sample_shared_mm)
       (simp add: s1_def qs_set_reg_def regs.get_put sample_shared_mm)
  then have "\<exists>s2. interpret_meas ?env (Register RegQ 0) (Register RegM 0) s1 = Inr s2"
    by (simp add: interpret_meas_def generic_meas_def measure_into_def sample_commands mm sample_qpu_env_def)
  then obtain s2 where 2: "interpret_meas ?env (Register RegQ 0) (Register RegM 0) s1 = Inr s2" by blast
  have 1: "assign_routine_instr ?env ''m'' 1 s1 = Inr (1 + 1, s2)"
    by (rule plain_step [OF r1, where x = "MeasInstr (Register RegQ 0) (Register RegM 0)"])
       (simp_all add: 2 sample_measure_def py_nth_def py_index_def
      interpret_instruction_def)
  have "mapped_phys 1 sample_qpu = Inr 1" "qubit_use (lr_metadata sample_measure) = [1]"
    "length (sub_instructions (lr_subroutine sample_measure)) = 2" "qe_fuel ?env = Suc (Suc (Suc 0))"
    by (simp_all add: mapped_phys_def sample_shared_mm sample_measure_def sample_qpu_env_def)
  then have "assign_local_routine ?env ''m'' (MemAddr 0) (MemAddr 1) sample_qpu =
      run_routine (Suc (Suc (Suc 0))) ?env ''m'' 2 0 sample_started"
    by (simp add: assign_local_routine_def sample_start del: run_routine.simps)
  also have "\<dots> = Inr s2" using 0 1 by simp
  finally show ?thesis by blast
qed

theorem routine_isolation_witness:
  "\<exists>s'. assign_local_routine (sample_qpu_env GenericProcessor) ''m'' (MemAddr 0) (MemAddr 1) sample_qpu = Inr s' \<and>
     pc_host_mem (qs_process s') = pc_host_mem (qs_process sample_qpu) \<and>
     mm_physical_mapping (qs_mm s') = mm_physical_mapping sample_shared_qpu_mm"
proof -
  obtain s' where r: "assign_local_routine (sample_qpu_env GenericProcessor) ''m'' (MemAddr 0) (MemAddr 1) sample_qpu = Inr s'"
    using sample_routine_runs by blast
  have "lr_name sample_measure = ''m''" by (simp add: sample_measure_def)
  from routine_isolation [OF sample_qpu_simps(3) this r] r show ?thesis by simp
qed

theorem routine_spares_other_processes_witness:
  "\<exists>s'. assign_local_routine (sample_qpu_env GenericProcessor) ''m'' (MemAddr 0) (MemAddr 1) sample_qpu = Inr s' \<and>
     filter (\<lambda>c. 0 \<in> set (cmd_indices c)) (qs_quantum s') = []"
proof -
  obtain s' where r: "assign_local_routine (sample_qpu_env GenericProcessor) ''m'' (MemAddr 0) (MemAddr 1) sample_qpu = Inr s'"
    using sample_routine_runs by blast
  have "local_hardware (qe_hardware (sample_qpu_env GenericProcessor)) (\<lambda>i. filter (\<lambda>c. i \<in> set (cmd_indices c)))"
    using sample_local by (simp add: sample_qpu_env_def)
  from routine_spares_other_processes [OF this _ r, of 0 1 0] r show ?thesis
    by (simp add: sample_shared_mm sample_qpu_env_def sample_quantum sample_qpu_device_def)
qed

theorem forward_routine_ends_witness:
  "assign_local_routine (sample_qpu_env NVProcessor) ''m'' (MemAddr 0) (MemAddr 1) sample_qpu \<noteq> Inl OutOfFuel"
proof (rule forward_routine_ends)
  show "get_local_routine (qs_process sample_qpu) ''m'' = Inr sample_measure" by simp
qed (auto simp: sample_measure_def forward_only_def sample_qpu_env_def)

end
