(* ===== verification/NetstackProc.thy ===== *)
theory NetstackProc
  imports QnosProc
begin

text \<open>
  The processor of the network stack (\<open>qoala/sim/netstack/netstackprocessor.py\<close>): for each pair of
  a request it allocates a virtual qubit, asks the entanglement distributor for the pair, waits
  for the answer, and frees the qubit when the answer is negative. It works on the same state as
  the Qnos processor; the answers arrive at the listener \<open>entdist\<close> of its inbox.
\<close>

section \<open>Asking for a pair\<close>

text \<open>
  With a positive answer half of the pair has arrived at the qubit of the request: the distributor
  has marked the memory position as used and has put the qubit there.
\<close>

definition received_half :: "'q qpu_env \<Rightarrow> int option \<Rightarrow> 'q qdevice \<Rightarrow> 'q qdevice" where
  "received_half env q d =
     (case q of
        None \<Rightarrow> d
      | Some i \<Rightarrow> d\<lparr>qd_in_use := (qd_in_use d)[nat i := True], qd_state := qe_put env i (qd_state d)\<rparr>)"

definition send_entdist_msg :: "entdist_request \<Rightarrow> 'q qpu \<Rightarrow> 'q qpu" where
  "send_entdist_msg req s =
     s\<lparr>qs_sent := qs_sent s @ [\<lparr>src_pid = - 1, dst_pid = - 1, content = req\<rparr>]\<rparr>"

definition receive_entdist_msg :: "'q qpu \<Rightarrow> (int option message \<times> 'q qpu) res" where
  "receive_entdist_msg s =
     rbind (wait_for_msg ''entdist'' (qs_inbox s)) (\<lambda>ib.
     rbind (ib_pop_any_msg ''entdist'' ib) (\<lambda>(m, ib').
     Inr (m, s\<lparr>qs_inbox := ib'\<rparr>)))"

definition execute_entdist_request :: "'q qpu_env \<Rightarrow> entdist_request \<Rightarrow> 'q qpu \<Rightarrow> (bool \<times> 'q qpu) res" where
  "execute_entdist_request env req s =
     rbind (receive_entdist_msg (send_entdist_msg req s)) (\<lambda>(result, s1).
     if content result \<noteq> None
     then Inr (True, s1\<lparr>qs_mm := (qs_mm s1)\<lparr>mm_qdevice :=
            received_half env (er_local_qubit_id req) (mm_qdevice (qs_mm s1))\<rparr>\<rparr>)
     else Inr (False, s1))"

definition allocate_for_pair :: "qoala_request \<Rightarrow> int \<Rightarrow> 'q qpu \<Rightarrow> (int \<times> 'q qpu) res" where
  "allocate_for_pair request i s =
     rbind (get_id (rq_virt_ids request) i) (\<lambda>virt_id.
     rbind (allocate (qs_pid s) virt_id (qs_mm s)) (\<lambda>(p, mm).
     Inr (virt_id, s\<lparr>qs_mm := mm\<rparr>)))"

text \<open>The fields of a running request have been instantiated; a template would fit no integer.\<close>

fun request_int :: "py_error \<Rightarrow> int_or_template \<Rightarrow> int res" where
  "request_int e (IntNum i) = Inr i"
| "request_int e (IntTemplate n) = Inl e"

definition create_entdist_request :: "'q qpu_env \<Rightarrow> qoala_request \<Rightarrow> int \<Rightarrow> 'q qpu \<Rightarrow> entdist_request res" where
  "create_entdist_request env request virt_id s =
     rbind (phys_id_for (qs_pid s) virt_id (qs_mm s)) (\<lambda>phys_id.
     rbind (request_int KeyError (rq_epr_socket_id request)) (\<lambda>sock_id.
     rbind (dget (pc_epr_sockets (qs_process s)) sock_id) (\<lambda>epr_sck.
     rbind (request_int TypeError (rq_remote_id request)) (\<lambda>remote_id.
     Inr \<lparr>er_local_node_id = qe_node_id env, er_remote_node_id = remote_id,
          er_local_qubit_id = phys_id, er_local_pid = es_local_pid epr_sck,
          er_remote_pid = es_remote_pid epr_sck\<rparr>))))"

definition qs_free :: "int \<Rightarrow> 'q qpu \<Rightarrow> 'q qpu res" where
  "qs_free virt_id s = rbind (mm_free (qs_pid s) virt_id (qs_mm s)) (\<lambda>mm. Inr (s\<lparr>qs_mm := mm\<rparr>))"

definition measure_epr_qubit :: "'q qpu_env \<Rightarrow> int \<Rightarrow> 'q qpu \<Rightarrow> (int \<times> 'q qpu) res" where
  "measure_epr_qubit env virt_id s =
     rbind (phys_id_for (qs_pid s) virt_id (qs_mm s)) (\<lambda>p.
     case p of
       None \<Rightarrow> Inl AssertionError
     | Some phys_id \<Rightarrow>
         rbind (run_commands env [cmd INSTR_MEASURE_INSTANT [phys_id]] s) (\<lambda>(outcome, s1).
         case outcome of None \<Rightarrow> Inl AssertionError | Some m \<Rightarrow> Inr (m, s1)))"

section \<open>Multi-pair and single-pair requests\<close>

definition running_request :: "string \<Rightarrow> 'q qpu \<Rightarrow> running_request_routine res" where
  "running_request name s = get_running_request_routine name (pc_qnos_mem (qs_process s))"

text \<open>Allocate a qubit and ask for a pair: the virtual ID, and whether the pair arrived.\<close>

definition request_pair :: "'q qpu_env \<Rightarrow> qoala_request \<Rightarrow> int \<Rightarrow> 'q qpu \<Rightarrow> (int \<times> bool \<times> 'q qpu) res" where
  "request_pair env request i s =
     rbind (allocate_for_pair request i s) (\<lambda>(virt_id, s1).
     rbind (create_entdist_request env request virt_id s1) (\<lambda>req.
     rbind (execute_entdist_request env req s1) (\<lambda>(result, s2).
     Inr (virt_id, result, s2))))"

text \<open>One round of \<open>_handle_multi_pair_ck\<close>, and the body of \<open>handle_single_pair\<close>.\<close>

definition keep_pair :: "'q qpu_env \<Rightarrow> qoala_request \<Rightarrow> int \<Rightarrow> 'q qpu \<Rightarrow> (bool \<times> 'q qpu) res" where
  "keep_pair env request i s =
     rbind (request_pair env request i s) (\<lambda>(virt_id, result, s1).
     if result then Inr (True, s1)
     else rbind (qs_free virt_id s1) (\<lambda>s2. Inr (False, s2)))"

fun keep_pairs :: "'q qpu_env \<Rightarrow> qoala_request \<Rightarrow> int list \<Rightarrow> 'q qpu \<Rightarrow> (bool \<times> 'q qpu) res" where
  "keep_pairs env request [] s = Inr (True, s)"
| "keep_pairs env request (i # is') s =
     rbind (keep_pair env request i s) (\<lambda>(ok, s1).
     if ok then keep_pairs env request is' s1 else Inr (False, s1))"

definition handle_multi_pair_ck :: "'q qpu_env \<Rightarrow> string \<Rightarrow> 'q qpu \<Rightarrow> (bool \<times> 'q qpu) res" where
  "handle_multi_pair_ck env name s =
     rbind (running_request name s) (\<lambda>running.
     let request = rr_request (rq_routine running) in
     rbind (py_assert (rq_typ request = CREATE_KEEP)) (\<lambda>_.
     rbind (request_int TypeError (rq_num_pairs request)) (\<lambda>num_pairs.
     keep_pairs env request [0..num_pairs - 1] s)))"

text \<open>One round of the measure-directly loops: a pair is measured and its qubit freed.\<close>

definition measure_pair :: "'q qpu_env \<Rightarrow> qoala_request \<Rightarrow> int \<Rightarrow> 'q qpu \<Rightarrow> (int option \<times> 'q qpu) res" where
  "measure_pair env request i s =
     rbind (request_pair env request i s) (\<lambda>(virt_id, result, s1).
     rbind (if result
            then rbind (measure_epr_qubit env virt_id s1) (\<lambda>(m, s2). Inr (Some m, s2))
            else Inr (None, s1)) (\<lambda>(m, s2).
     rbind (qs_free virt_id s2) (\<lambda>s3. Inr (m, s3))))"

text \<open>The outcomes of all pairs, or none when one of them was refused.\<close>

fun measure_pairs :: "'q qpu_env \<Rightarrow> qoala_request \<Rightarrow> int list \<Rightarrow> int list \<Rightarrow> 'q qpu \<Rightarrow> (int list option \<times> 'q qpu) res" where
  "measure_pairs env request [] outcomes s = Inr (Some outcomes, s)"
| "measure_pairs env request (i # is') outcomes s =
     rbind (measure_pair env request i s) (\<lambda>(m, s1).
     case m of
       None \<Rightarrow> Inr (None, s1)
     | Some v \<Rightarrow> measure_pairs env request is' (outcomes @ [v]) s1)"

definition write_outcomes :: "mem_addr \<Rightarrow> int list \<Rightarrow> 'q qpu \<Rightarrow> 'q qpu res" where
  "write_outcomes a outcomes s =
     rbind (write_rr_out a outcomes 0 (pc_shared_mem (qs_process s))) (\<lambda>m. Inr (qs_set_shared m s))"

definition handle_multi_pair_md :: "'q qpu_env \<Rightarrow> string \<Rightarrow> 'q qpu \<Rightarrow> (bool \<times> 'q qpu) res" where
  "handle_multi_pair_md env name s =
     rbind (running_request name s) (\<lambda>running.
     let request = rr_request (rq_routine running) in
     rbind (py_assert (rq_typ request = MEASURE_DIRECTLY)) (\<lambda>_.
     rbind (ensure (rr_callback_type (rq_routine running) \<noteq> SEQUENTIAL) NotImplementedError) (\<lambda>_.
     rbind (request_int TypeError (rq_num_pairs request)) (\<lambda>num_pairs.
     rbind (measure_pairs env request [0..num_pairs - 1] [] s) (\<lambda>(outcomes, s1).
     case outcomes of
       None \<Rightarrow> Inr (False, s1)
     | Some ms \<Rightarrow> rbind (write_outcomes (rq_result_addr running) ms s1) (\<lambda>s2. Inr (True, s2)))))))"

definition handle_multi_pair :: "'q qpu_env \<Rightarrow> string \<Rightarrow> 'q qpu \<Rightarrow> (bool \<times> 'q qpu) res" where
  "handle_multi_pair env name s =
     rbind (running_request name s) (\<lambda>running.
     case rq_typ (rr_request (rq_routine running)) of
       CREATE_KEEP \<Rightarrow> handle_multi_pair_ck env name s
     | MEASURE_DIRECTLY \<Rightarrow> handle_multi_pair_md env name s
     | _ \<Rightarrow> Inl NotImplementedError)"

definition handle_single_pair :: "'q qpu_env \<Rightarrow> string \<Rightarrow> int \<Rightarrow> 'q qpu \<Rightarrow> (bool \<times> 'q qpu) res" where
  "handle_single_pair env name i s =
     rbind (running_request name s) (\<lambda>running.
     keep_pair env (rr_request (rq_routine running)) i s)"

section \<open>Callbacks\<close>

text \<open>The qubits a callback uses are allocated unless the request has done so.\<close>

definition allocate_unmapped :: "int \<Rightarrow> 'q qpu \<Rightarrow> 'q qpu res" where
  "allocate_unmapped virt_id s =
     rbind (phys_id_for (qs_pid s) virt_id (qs_mm s)) (\<lambda>p.
     if p = None
     then rbind (allocate (qs_pid s) virt_id (qs_mm s)) (\<lambda>(q, mm). Inr (s\<lparr>qs_mm := mm\<rparr>))
     else Inr s)"

definition free_unless_kept :: "int list \<Rightarrow> int \<Rightarrow> 'q qpu \<Rightarrow> 'q qpu res" where
  "free_unless_kept keep virt_id s = (if virt_id \<notin> set keep then qs_free virt_id s else Inr s)"

definition run_callback :: "'q qpu_env \<Rightarrow> running_request_routine \<Rightarrow> int \<Rightarrow> 'q qpu \<Rightarrow> 'q qpu res" where
  "run_callback qnos running i s =
     (case rr_callback (rq_routine running) of
        None \<Rightarrow> Inl AssertionError
      | Some cb \<Rightarrow>
          rbind (get_local_routine (qs_process s) cb) (\<lambda>cb_routine.
          rbind (rfold allocate_unmapped (qubit_use (lr_metadata cb_routine)) s) (\<lambda>s1.
          rbind (py_nth (rq_cb_input_addrs running) i) (\<lambda>input_addr.
          rbind (py_nth (rq_cb_output_addrs running) i) (\<lambda>result_addr.
          rbind (assign_local_routine qnos cb input_addr result_addr s1) (\<lambda>s2.
          rfold (free_unless_kept (qubit_keep (lr_metadata cb_routine)))
            (qubit_use (lr_metadata cb_routine)) s2))))))"

text \<open>For a callback after all pairs there is one pair of addresses.\<close>

definition handle_multi_pair_callback :: "'q qpu_env \<Rightarrow> string \<Rightarrow> 'q qpu \<Rightarrow> 'q qpu res" where
  "handle_multi_pair_callback qnos name s =
     rbind (running_request name s) (\<lambda>running. run_callback qnos running 0 s)"

definition handle_single_pair_callback :: "'q qpu_env \<Rightarrow> string \<Rightarrow> int \<Rightarrow> 'q qpu \<Rightarrow> 'q qpu res" where
  "handle_single_pair_callback qnos name i s =
     rbind (running_request name s) (\<lambda>running. run_callback qnos running i s)"

section \<open>Whole request routines\<close>

definition netstack_instantiate :: "rr_call_tuple \<Rightarrow> prog_input \<Rightarrow> 'q qpu \<Rightarrow> 'q qpu res" where
  "netstack_instantiate rrcall args s =
     rbind (get_request_routine (qs_process s) (rc_routine_name rrcall)) (\<lambda>routine.
     rbind (routine_instantiate args routine) (\<lambda>inst.
     let running = \<lparr>rq_routine = inst, rq_params_addr = rc_input_addr rrcall,
       rq_result_addr = rc_result_addr rrcall, rq_cb_input_addrs = rc_cb_input_addrs rrcall,
       rq_cb_output_addrs = rc_cb_output_addrs rrcall\<rparr> in
     Inr (s\<lparr>qs_process := set_qnos_mem
       (add_running_request_routine running (pc_qnos_mem (qs_process s))) (qs_process s)\<rparr>)))"

text \<open>
  The handlers for whole routines do not look at the answer of the distributor: a refused pair
  is measured or kept like a delivered one.
\<close>

definition measure_any_pair :: "'q qpu_env \<Rightarrow> qoala_request \<Rightarrow> int \<Rightarrow> int list \<times> 'q qpu \<Rightarrow> (int list \<times> 'q qpu) res" where
  "measure_any_pair env request i st = (case st of (outcomes, s) \<Rightarrow>
     rbind (request_pair env request i s) (\<lambda>(virt_id, result, s1).
     rbind (measure_epr_qubit env virt_id s1) (\<lambda>(m, s2).
     rbind (qs_free virt_id s2) (\<lambda>s3. Inr (outcomes @ [m], s3)))))"

definition handle_req_routine_md :: "'q qpu_env \<Rightarrow> string \<Rightarrow> 'q qpu \<Rightarrow> 'q qpu res" where
  "handle_req_routine_md env name s =
     rbind (running_request name s) (\<lambda>running.
     let request = rr_request (rq_routine running) in
     rbind (py_assert (rq_typ request = MEASURE_DIRECTLY)) (\<lambda>_.
     rbind (ensure (rr_callback_type (rq_routine running) \<noteq> SEQUENTIAL) NotImplementedError) (\<lambda>_.
     rbind (request_int TypeError (rq_num_pairs request)) (\<lambda>num_pairs.
     rbind (rfold (measure_any_pair env request) [0..num_pairs - 1] ([], s)) (\<lambda>(outcomes, s1).
     write_outcomes (rq_result_addr running) outcomes s1)))))"

text \<open>A callback, when the routine has one; it needs a Qnos processor.\<close>

definition optional_callback :: "'q qpu_env option \<Rightarrow> running_request_routine \<Rightarrow> int \<Rightarrow> 'q qpu \<Rightarrow> 'q qpu res" where
  "optional_callback qnos running i s =
     (case rr_callback (rq_routine running) of
        None \<Rightarrow> Inr s
      | Some cb \<Rightarrow> (case qnos of
          Some env \<Rightarrow> run_callback env running i s
        | None \<Rightarrow>
            rbind (get_local_routine (qs_process s) cb) (\<lambda>cb_routine.
            rbind (rfold allocate_unmapped (qubit_use (lr_metadata cb_routine)) s) (\<lambda>s1.
            Inl AssertionError))))"

definition handle_req_routine_ck :: "'q qpu_env \<Rightarrow> 'q qpu_env option \<Rightarrow> string \<Rightarrow> 'q qpu \<Rightarrow> 'q qpu res" where
  "handle_req_routine_ck env qnos name s =
     rbind (running_request name s) (\<lambda>running.
     let request = rr_request (rq_routine running) in
     rbind (request_int TypeError (rq_num_pairs request)) (\<lambda>num_pairs.
     if rr_callback_type (rq_routine running) = SEQUENTIAL
     then rfold (\<lambda>i s. rbind (request_pair env request i s) (\<lambda>(v, result, s1).
            optional_callback qnos running i s1)) [0..num_pairs - 1] s
     else rbind (rfold (\<lambda>i s. rbind (request_pair env request i s) (\<lambda>(v, result, s1). Inr s1))
            [0..num_pairs - 1] s) (\<lambda>s1.
          optional_callback qnos running 0 s1)))"

definition assign_request_routine :: "'q qpu_env \<Rightarrow> 'q qpu_env option \<Rightarrow> rr_call_tuple \<Rightarrow> 'q qpu \<Rightarrow> 'q qpu res" where
  "assign_request_routine env qnos rrcall s =
     rbind (get_request_routine (qs_process s) (rc_routine_name rrcall)) (\<lambda>routine.
     rbind (netstack_instantiate rrcall (pc_inputs (qs_process s)) s) (\<lambda>s1.
     case rq_typ (rr_request routine) of
       CREATE_KEEP \<Rightarrow> handle_req_routine_ck env qnos (rc_routine_name rrcall) s1
     | MEASURE_DIRECTLY \<Rightarrow> handle_req_routine_md env (rc_routine_name rrcall) s1
     | _ \<Rightarrow> Inl NotImplementedError))"

section \<open>Messages between network stacks\<close>

text \<open>
  The part of the interface (\<open>netstackinterface.py\<close>) that talks to the network stacks of other nodes. No
  handler uses it; the type of the content is open.
\<close>

record 'c netstack_peers =
  np_peers :: "string list"
  np_inbox :: "'c inbox"
  np_sent :: "(string \<times> 'c message) list"

definition netstack_send_peer_msg :: "string \<Rightarrow> 'c message \<Rightarrow> 'c netstack_peers \<Rightarrow> 'c netstack_peers res" where
  "netstack_send_peer_msg peer m s =
     rbind (ensure (peer \<in> set (np_peers s)) KeyError) (\<lambda>_. Inr (s\<lparr>np_sent := np_sent s @ [(peer, m)]\<rparr>))"

definition netstack_receive_peer_msg :: "string \<Rightarrow> 'c netstack_peers \<Rightarrow> ('c message \<times> 'c netstack_peers) res" where
  "netstack_receive_peer_msg peer s =
     rbind (wait_for_msg (''peer_'' @ peer) (np_inbox s)) (\<lambda>ib.
     rbind (ib_pop_any_msg (''peer_'' @ peer) ib) (\<lambda>(m, ib').
     Inr (m, s\<lparr>np_inbox := ib'\<rparr>)))"

definition remote_id_to_peer_name :: "ehi_network_info \<Rightarrow> int \<Rightarrow> string res" where
  "remote_id_to_peer_name network remote_id = dget (ni_nodes network) remote_id"

end
