(* ===== verification/Driver.thy ===== *)
theory Driver
  imports NetstackProc HostProc TaskBuild
begin

text \<open>
  The drivers of a node (\<open>qoala/sim/driver.py\<close>): they execute tasks by calling the processors, the
  CPU driver the Host processor and the QPU driver the Qnos and network stack processors. The
  tasks of one call share a pointer, under which the pre-call task leaves the call tuple.
\<close>

section \<open>The state of a node\<close>

text \<open>
  The state of the Host, the memory manager with the device and the processes, the inbox of the
  network stack with the requests it has sent, and the memory the tasks share. The two inboxes
  have the clocks of the CPU and of the QPU.
\<close>

record 'q node =
  nd_host :: host
  nd_mm :: "'q memory_manager"
  nd_inbox :: "int option inbox"
  nd_sent :: "entdist_request message list"
  nd_memory :: sched_memory

definition put_process :: "qoala_process \<Rightarrow> 'q memory_manager \<Rightarrow> 'q memory_manager" where
  "put_process p mm = mm\<lparr>mm_processes := dset (pc_pid p) p (mm_processes mm)\<rparr>"

definition put_host :: "qoala_process \<times> host \<Rightarrow> 'q node \<Rightarrow> 'q node" where
  "put_host ph n = n\<lparr>nd_host := snd ph, nd_mm := put_process (fst ph) (nd_mm n)\<rparr>"

text \<open>What the quantum processors see of the node for a process, and the node after they have run.\<close>

definition qpu_view :: "qoala_process \<Rightarrow> 'q node \<Rightarrow> 'q qpu" where
  "qpu_view p n = \<lparr>qs_process = p, qs_mm = nd_mm n, qs_inbox = nd_inbox n, qs_sent = nd_sent n\<rparr>"

definition put_qpu :: "'q qpu \<Rightarrow> 'q node \<Rightarrow> 'q node" where
  "put_qpu s n = n\<lparr>nd_mm := put_process (qs_process s) (qs_mm s), nd_inbox := qs_inbox s, nd_sent := qs_sent s\<rparr>"

section \<open>The CPU driver\<close>

text \<open>The process of a task and the single instruction of its block, which must be of the class.\<close>

definition call_instr :: "int \<Rightarrow> string \<Rightarrow> op_class \<Rightarrow> 'q node \<Rightarrow> (qoala_process \<times> iqoala_op) res" where
  "call_instr pid b c n =
     rbind (get_process pid (nd_mm n)) (\<lambda>p.
     rbind (get_block (pc_program p) b) (\<lambda>block.
     rbind (sole_instruction block c) (\<lambda>instr. Inr (p, instr))))"

definition set_process :: "qoala_process \<Rightarrow> 'q node \<Rightarrow> 'q node" where
  "set_process p n = n\<lparr>nd_mm := put_process p (nd_mm n)\<rparr>"

definition handle_precall_lr :: "int \<Rightarrow> string \<Rightarrow> int \<Rightarrow> 'q node \<Rightarrow> 'q node res" where
  "handle_precall_lr pid b ptr n =
     rbind (call_instr pid b RunSubroutineOp n) (\<lambda>(p, instr).
     rbind (prepare_lr_call p instr) (\<lambda>(lrcall, p').
     Inr (set_process p' (n\<lparr>nd_memory := write_shared_lrcall ptr lrcall (nd_memory n)\<rparr>))))"

definition handle_postcall_lr :: "int \<Rightarrow> string \<Rightarrow> int \<Rightarrow> 'q node \<Rightarrow> 'q node res" where
  "handle_postcall_lr pid b ptr n =
     rbind (call_instr pid b RunSubroutineOp n) (\<lambda>(p, instr).
     rbind (read_shared_lrcall ptr (nd_memory n)) (\<lambda>lrcall.
     rbind (post_lr_call p instr lrcall) (\<lambda>p'. Inr (set_process p' n))))"

definition handle_precall_rr :: "int \<Rightarrow> string \<Rightarrow> int \<Rightarrow> 'q node \<Rightarrow> 'q node res" where
  "handle_precall_rr pid b ptr n =
     rbind (call_instr pid b RunRequestOp n) (\<lambda>(p, instr).
     rbind (prepare_rr_call p instr) (\<lambda>(rrcall, p').
     Inr (set_process p' (n\<lparr>nd_memory := write_shared_rrcall ptr rrcall (nd_memory n)\<rparr>))))"

definition handle_postcall_rr :: "int \<Rightarrow> string \<Rightarrow> int \<Rightarrow> 'q node \<Rightarrow> 'q node res" where
  "handle_postcall_rr pid b ptr n =
     rbind (call_instr pid b RunRequestOp n) (\<lambda>(p, instr).
     rbind (read_shared_rrcall ptr (nd_memory n)) (\<lambda>rrcall.
     rbind (post_rr_call p instr rrcall) (\<lambda>p'. Inr (set_process p' n))))"

text \<open>The type of the block of a call, which must be \<open>QL\<close> or \<open>QC\<close>.\<close>

definition is_local_call :: "int \<Rightarrow> string \<Rightarrow> 'q node \<Rightarrow> bool res" where
  "is_local_call pid b n =
     rbind (get_process pid (nd_mm n)) (\<lambda>p.
     rbind (get_block (pc_program p) b) (\<lambda>block.
     if block_typ block = QL then Inr True
     else rbind (py_assert (block_typ block = QC)) (\<lambda>_. Inr False)))"

text \<open>The processing time of a pre-call or post-call task.\<close>

definition call_wait :: "'q node \<Rightarrow> 'q node" where
  "call_wait n = n\<lparr>nd_host := host_wait (instr_time (nd_host n)) (nd_host n)\<rparr>"

text \<open>A pre-call or post-call task: the handler for the kind of call, and the wait.\<close>

definition call_task ::
    "(int \<Rightarrow> string \<Rightarrow> int \<Rightarrow> 'q node \<Rightarrow> 'q node res) \<Rightarrow> (int \<Rightarrow> string \<Rightarrow> int \<Rightarrow> 'q node \<Rightarrow> 'q node res) \<Rightarrow>
     int \<Rightarrow> string \<Rightarrow> int \<Rightarrow> 'q node \<Rightarrow> 'q node res" where
  "call_task lr rr pid b ptr n =
     rbind (is_local_call pid b n) (\<lambda>l.
     rbind (if l then lr pid b ptr n else rr pid b ptr n) (\<lambda>n'. Inr (call_wait n')))"

definition run_host_block :: "int \<Rightarrow> string \<Rightarrow> 'q node \<Rightarrow> 'q node res" where
  "run_host_block pid b n =
     rbind (get_process pid (nd_mm n)) (\<lambda>p.
     rbind (assign_block b p (nd_host n)) (\<lambda>ph. Inr (put_host ph n)))"

definition cpu_handle_task :: "qoala_task \<Rightarrow> 'q node \<Rightarrow> (bool \<times> 'q node) res" where
  "cpu_handle_task t n =
     rbind (case task_kind t of
         HostLocalTask b \<Rightarrow> run_host_block (task_pid t) b n
       | HostEventTask b \<Rightarrow> run_host_block (task_pid t) b n
       | PreCallTask b ptr \<Rightarrow>
           call_task handle_precall_lr handle_precall_rr (task_pid t) b ptr n
       | PostCallTask b ptr \<Rightarrow>
           call_task handle_postcall_lr handle_postcall_rr (task_pid t) b ptr n
       | _ \<Rightarrow> Inl NotImplementedError) (\<lambda>n'. Inr (True, n'))"

section \<open>The QPU driver\<close>

definition allocate_qubits_for_routine :: "string \<Rightarrow> 'q qpu \<Rightarrow> 'q qpu res" where
  "allocate_qubits_for_routine name s =
     rbind (get_local_routine (qs_process s) name) (\<lambda>routine.
     rfold allocate_unmapped (qubit_use (lr_metadata routine)) s)"

definition free_qubits_after_routine :: "string \<Rightarrow> 'q qpu \<Rightarrow> 'q qpu res" where
  "free_qubits_after_routine name s =
     rbind (get_local_routine (qs_process s) name) (\<lambda>routine.
     rfold (free_unless_kept (qubit_keep (lr_metadata routine))) (qubit_use (lr_metadata routine)) s)"

text \<open>Allocate the qubits of the routine, run it, free those that are not kept.\<close>

definition run_local_call :: "'q qpu_env \<Rightarrow> lr_call_tuple \<Rightarrow> 'q qpu \<Rightarrow> 'q qpu res" where
  "run_local_call env lrcall s =
     rbind (allocate_qubits_for_routine (lc_routine_name lrcall) s) (\<lambda>s1.
     rbind (assign_local_routine env (lc_routine_name lrcall) (lc_input_addr lrcall)
       (lc_result_addr lrcall) s1) (\<lambda>s2.
     free_qubits_after_routine (lc_routine_name lrcall) s2))"

definition handle_local_routine :: "'q qpu_env \<Rightarrow> int \<Rightarrow> string \<Rightarrow> int \<Rightarrow> 'q node \<Rightarrow> 'q node res" where
  "handle_local_routine env pid b ptr n =
     rbind (call_instr pid b RunSubroutineOp n) (\<lambda>(p, instr).
     rbind (read_shared_lrcall ptr (nd_memory n)) (\<lambda>lrcall.
     rbind (run_local_call env lrcall (qpu_view p n)) (\<lambda>s. Inr (put_qpu s n))))"

text \<open>
  Tasks for pairs instantiate the request routine and hand it to the network stack, whose answer
  they return.
\<close>

definition handle_pairs :: "(string \<Rightarrow> 'q qpu \<Rightarrow> (bool \<times> 'q qpu) res) \<Rightarrow> int \<Rightarrow> int \<Rightarrow> 'q node \<Rightarrow> (bool \<times> 'q node) res" where
  "handle_pairs handler pid ptr n =
     rbind (get_process pid (nd_mm n)) (\<lambda>p.
     rbind (read_shared_rrcall ptr (nd_memory n)) (\<lambda>rrcall.
     rbind (netstack_instantiate rrcall (pc_inputs p) (qpu_view p n)) (\<lambda>s1.
     rbind (handler (rc_routine_name rrcall) s1) (\<lambda>(result, s2). Inr (result, put_qpu s2 n)))))"

definition driver_multi_pair :: "'q qpu_env \<Rightarrow> int \<Rightarrow> int \<Rightarrow> 'q node \<Rightarrow> (bool \<times> 'q node) res" where
  "driver_multi_pair env = handle_pairs (handle_multi_pair env)"

definition driver_single_pair :: "'q qpu_env \<Rightarrow> int \<Rightarrow> int \<Rightarrow> int \<Rightarrow> 'q node \<Rightarrow> (bool \<times> 'q node) res" where
  "driver_single_pair env i = handle_pairs (\<lambda>name. handle_single_pair env name i)"

definition handle_callback :: "(string \<Rightarrow> 'q qpu \<Rightarrow> 'q qpu res) \<Rightarrow> int \<Rightarrow> int \<Rightarrow> 'q node \<Rightarrow> 'q node res" where
  "handle_callback handler pid ptr n =
     rbind (get_process pid (nd_mm n)) (\<lambda>p.
     rbind (read_shared_rrcall ptr (nd_memory n)) (\<lambda>rrcall.
     rbind (handler (rc_routine_name rrcall) (qpu_view p n)) (\<lambda>s. Inr (put_qpu s n))))"

definition driver_multi_pair_callback :: "'q qpu_env \<Rightarrow> int \<Rightarrow> int \<Rightarrow> 'q node \<Rightarrow> 'q node res" where
  "driver_multi_pair_callback env = handle_callback (handle_multi_pair_callback env)"

definition driver_single_pair_callback :: "'q qpu_env \<Rightarrow> int \<Rightarrow> int \<Rightarrow> int \<Rightarrow> 'q node \<Rightarrow> 'q node res" where
  "driver_single_pair_callback env i = handle_callback (\<lambda>name. handle_single_pair_callback env name i)"

definition qpu_handle_task :: "'q qpu_env \<Rightarrow> qoala_task \<Rightarrow> 'q node \<Rightarrow> (bool \<times> 'q node) res" where
  "qpu_handle_task env t n =
     (case task_kind t of
        LocalRoutineTask b ptr \<Rightarrow>
          rbind (handle_local_routine env (task_pid t) b ptr n) (\<lambda>n'. Inr (True, n'))
      | MultiPairTask ptr \<Rightarrow> driver_multi_pair env (task_pid t) ptr n
      | MultiPairCallbackTask c ptr \<Rightarrow>
          rbind (driver_multi_pair_callback env (task_pid t) ptr n) (\<lambda>n'. Inr (True, n'))
      | SinglePairTask i ptr \<Rightarrow> driver_single_pair env i (task_pid t) ptr n
      | SinglePairCallbackTask c i ptr \<Rightarrow>
          rbind (driver_single_pair_callback env i (task_pid t) ptr n) (\<lambda>n'. Inr (True, n'))
      | _ \<Rightarrow> Inl NotImplementedError)"

text \<open>The driver of the processor of the task.\<close>

definition node_handle_task :: "'q qpu_env \<Rightarrow> qoala_task \<Rightarrow> 'q node \<Rightarrow> (bool \<times> 'q node) res" where
  "node_handle_task env t = (case processor_type t of CPU \<Rightarrow> cpu_handle_task t | QPU \<Rightarrow> qpu_handle_task env t)"

end
