(* ===== verification/Sched.thy ===== *)
theory Sched
  imports Driver NetSchedule
begin

text \<open>
  The processor schedulers of a node (\<open>qoala/sim/scheduler.py\<close>): each keeps a task graph and
  repeatedly picks a task that is ready, earliest deadline first, and has its driver execute it.
  Waiting for events is a status; the random choice of a non-deterministic scheduler is a
  parameter.
\<close>

section \<open>The state of a processor scheduler\<close>

datatype status =
    GRAPH_EMPTY | EPR_GEN | NEXT_TASK | WAITING_OTHER_CORE | WAITING_MSG | WAITING_START_TIME
  | WAITING_RESOURCES | WAITING_TIME_BIN

text \<open>\<open>SchedulerStatus\<close>: a set of statuses and the parameters that are set.\<close>

record scheduler_status =
  st_status :: "status list"
  st_task_id :: "int option"
  st_start_time :: "real option"
  st_delta :: "real option"

definition no_status :: scheduler_status where
  "no_status = \<lparr>st_status = [], st_task_id = None, st_start_time = None, st_delta = None\<rparr>"

definition status_only :: "status \<Rightarrow> scheduler_status" where
  "status_only x = no_status\<lparr>st_status := [x]\<rparr>"

definition status_task :: "status \<Rightarrow> int \<Rightarrow> scheduler_status" where
  "status_task x tid = no_status\<lparr>st_status := [x], st_task_id := Some tid\<rparr>"

text \<open>\<open>self._status.status.add(x)\<close>, when the condition holds.\<close>

definition add_status :: "bool \<Rightarrow> status \<Rightarrow> scheduler_status \<Rightarrow> scheduler_status" where
  "add_status b x st = (if b then st\<lparr>st_status := List.insert x (st_status st)\<rparr> else st)"

record proc_scheduler =
  ps_node_id :: int
  ps_deterministic :: bool
  ps_use_deadlines :: bool
  ps_network_schedule :: "network_schedule option"
  ps_task_graph :: task_graph
  ps_finished_tasks :: "int list"
  ps_prog_start :: "(int, real) dict"
  ps_prog_end :: "(int, real) dict"
  ps_tasks_executed :: "(int, qoala_task) dict"
  ps_task_starts :: "(int, real) dict"
  ps_task_ends :: "(int, real) dict"
  ps_last_finished :: "int \<times> real"
  ps_status :: scheduler_status

definition init_scheduler :: "int \<Rightarrow> bool \<Rightarrow> bool \<Rightarrow> network_schedule option \<Rightarrow> proc_scheduler" where
  "init_scheduler node_id det dl sched =
     \<lparr>ps_node_id = node_id, ps_deterministic = det, ps_use_deadlines = dl, ps_network_schedule = sched,
      ps_task_graph = [], ps_finished_tasks = [], ps_prog_start = [], ps_prog_end = [],
      ps_tasks_executed = [], ps_task_starts = [], ps_task_ends = [], ps_last_finished = (- 1, - 1),
      ps_status = no_status\<rparr>"

definition sched_upload :: "task_graph \<Rightarrow> proc_scheduler \<Rightarrow> proc_scheduler" where
  "sched_upload g s = s\<lparr>ps_task_graph := g\<rparr>"

definition get_last_finished_task_pid_at :: "real \<Rightarrow> proc_scheduler \<Rightarrow> int" where
  "get_last_finished_task_pid_at time s =
     (if snd (ps_last_finished s) = time then fst (ps_last_finished s) else - 1)"

definition sched_task_exists :: "int \<Rightarrow> proc_scheduler \<Rightarrow> bool" where
  "sched_task_exists pid s = task_exists_for_pid pid (ps_task_graph s)"

definition sched_add_tasks :: "task_graph \<Rightarrow> proc_scheduler \<Rightarrow> proc_scheduler" where
  "sched_add_tasks tasks s = s\<lparr>ps_task_graph := dupdate (ps_task_graph s) tasks\<rparr>"

definition has_finished :: "int \<Rightarrow> proc_scheduler \<Rightarrow> bool" where
  "has_finished tid s \<longleftrightarrow> tid \<in> set (ps_finished_tasks s)"

definition record_start_timestamp :: "int \<Rightarrow> real \<Rightarrow> proc_scheduler \<Rightarrow> proc_scheduler" where
  "record_start_timestamp pid time s =
     (if \<not> dhas (ps_prog_start s) pid then s\<lparr>ps_prog_start := dset pid time (ps_prog_start s)\<rparr> else s)"

definition record_end_timestamp :: "int \<Rightarrow> real \<Rightarrow> proc_scheduler \<Rightarrow> proc_scheduler" where
  "record_end_timestamp pid time s = s\<lparr>ps_prog_end := dset pid time (ps_prog_end s)\<rparr>"

definition get_timestamps :: "int \<Rightarrow> proc_scheduler \<Rightarrow> (real \<times> real) option res" where
  "get_timestamps pid s =
     (case map_of (ps_prog_start s) pid of
        None \<Rightarrow> rbind (py_assert (\<not> dhas (ps_prog_end s) pid)) (\<lambda>_. Inr None)
      | Some start \<Rightarrow>
          (case map_of (ps_prog_end s) pid of
             None \<Rightarrow> Inl AssertionError
           | Some end_time \<Rightarrow> Inr (Some (start, end_time))))"

section \<open>Executing a task\<close>

text \<open>
  External predecessors that the other scheduler has finished are dropped from the tasks that
  have no other predecessors. Dictionary updates keep the order of the graph.
\<close>

definition drop_finished :: "proc_scheduler \<Rightarrow> task_info \<Rightarrow> task_info" where
  "drop_finished other t =
     t\<lparr>ti_ext_predecessors := filter (\<lambda>x. \<not> has_finished x other) (ti_ext_predecessors t)\<rparr>"

definition update_external_predecessors :: "proc_scheduler option \<Rightarrow> proc_scheduler \<Rightarrow> proc_scheduler" where
  "update_external_predecessors other s =
     (case other of
        None \<Rightarrow> s
      | Some o' \<Rightarrow> s\<lparr>ps_task_graph :=
          fold (\<lambda>r. upd_tinfo r (drop_finished o')) (get_roots True (ps_task_graph s)) (ps_task_graph s)\<rparr>)"

text \<open>What is recorded before and after the driver has executed the task.\<close>

definition start_task :: "qoala_task \<Rightarrow> real \<Rightarrow> proc_scheduler \<Rightarrow> proc_scheduler" where
  "start_task t before s =
     record_start_timestamp (task_pid t) before (s\<lparr>ps_task_starts := dset (task_id t) before (ps_task_starts s)\<rparr>)"

definition finish_task :: "int \<Rightarrow> qoala_task \<Rightarrow> real \<Rightarrow> real \<Rightarrow> proc_scheduler \<Rightarrow> proc_scheduler res" where
  "finish_task tid t before after s =
     (let s1 = (record_end_timestamp (task_pid t) after s)\<lparr>ps_last_finished := (task_pid t, after)\<rparr> in
      rbind (remove_task tid (decrease_deadlines (after - before) (ps_task_graph s1))) (\<lambda>g.
      Inr (s1\<lparr>ps_task_graph := g, ps_finished_tasks := ps_finished_tasks s1 @ [task_id t],
              ps_tasks_executed := dset (task_id t) t (ps_tasks_executed s1),
              ps_task_ends := dset (task_id t) after (ps_task_ends s1)\<rparr>)))"

definition sched_handle_task ::
    "(qoala_task \<Rightarrow> 'n \<Rightarrow> (bool \<times> 'n) res) \<Rightarrow> ('n \<Rightarrow> real) \<Rightarrow> int \<Rightarrow> proc_scheduler \<times> 'n \<Rightarrow>
     (proc_scheduler \<times> 'n) res" where
  "sched_handle_task drive clock tid sn = (case sn of (s, n) \<Rightarrow>
     rbind (get_tinfo (ps_task_graph s) tid) (\<lambda>tinfo.
     let t = ti_task tinfo; before = clock n; s1 = start_task t before s in
     rbind (drive t n) (\<lambda>(success, n1).
     if success then rbind (finish_task tid t before (clock n1) s1) (\<lambda>s2. Inr (s2, n1))
     else Inr (s1, n1))))"

section \<open>Choosing a task\<close>

text \<open>\<open>[x for x in xs if p(x)]\<close> where \<open>p\<close> may raise.\<close>

fun rfilter :: "('a \<Rightarrow> bool res) \<Rightarrow> 'a list \<Rightarrow> 'a list res" where
  "rfilter p [] = Inr []"
| "rfilter p (x # xs) = rbind (p x) (\<lambda>b. rbind (rfilter p xs) (\<lambda>ys. Inr (if b then x # ys else ys)))"

text \<open>The tasks of the list that have a deadline, with their deadlines.\<close>

definition deadlines_of :: "task_graph \<Rightarrow> int list \<Rightarrow> (int \<times> real) list" where
  "deadlines_of g ts =
     concat (map (\<lambda>t. case map_of g t of None \<Rightarrow> [] | Some i \<Rightarrow>
       (case ti_deadline i of None \<Rightarrow> [] | Some d \<Rightarrow> [(t, d)])) ts)"

text \<open>
  The earliest deadline, the first in the list among equal ones; without deadlines the first
  ready task, or the one at a random index between 0 and the last index.
\<close>

definition edf_choice :: "(int \<Rightarrow> int) \<Rightarrow> proc_scheduler \<Rightarrow> int list \<Rightarrow> int res" where
  "edf_choice randint s ready =
     (let with_deadline = (if ps_use_deadlines s then deadlines_of (ps_task_graph s) ready else []) in
      if with_deadline \<noteq> [] then Inr (fst (hd (sort_key snd with_deadline)))
      else if ps_deterministic s then py_nth ready 0
      else py_nth ready (randint (int (length ready) - 1)))"

subsection \<open>The CPU scheduler\<close>

definition is_message_available :: "int \<Rightarrow> proc_scheduler \<Rightarrow> 'q node \<Rightarrow> bool res" where
  "is_message_available tid s n =
     rbind (get_tinfo (ps_task_graph s) tid) (\<lambda>tinfo.
     let t = ti_task tinfo in
     case task_kind t of
       HostEventTask b \<Rightarrow>
         rbind (get_process (task_pid t) (nd_mm n)) (\<lambda>p.
         rbind (get_block (pc_program p) b) (\<lambda>block.
         rbind (py_nth (block_instructions block) 0) (\<lambda>instr.
         rbind (py_assert (op_class instr = ReceiveCMsgOp)) (\<lambda>_.
         rbind (py_nth (op_arguments instr) 0) (\<lambda>arg.
         case arg of
           IqoalaSingleton name \<Rightarrow>
             rbind (host_read name (pc_host_mem p)) (\<lambda>csck_id.
             rbind (dget (pc_csockets p) csck_id) (\<lambda>csck.
             rbind (get_available_messages (ck_remote_name csck) (nd_host n)) (\<lambda>messages.
             Inr ((task_pid t, ck_remote_pid csck) \<in> set messages))))
         | _ \<Rightarrow> Inl AssertionError)))))
     | _ \<Rightarrow> Inl AssertionError)"

text \<open>The tasks of the list whose start time lies in the future, with their start times.\<close>

definition future_starts :: "task_graph \<Rightarrow> real \<Rightarrow> int list \<Rightarrow> (int \<times> real) list" where
  "future_starts g now ts =
     concat (map (\<lambda>t. case map_of g t of None \<Rightarrow> [] | Some i \<Rightarrow>
       (case ti_start_time i of None \<Rightarrow> [] | Some st \<Rightarrow> if st > now then [(t, st)] else [])) ts)"

text \<open>What the scheduler sees: the tasks without predecessors, the receive tasks among them
without a message, the tasks to be started later, and those that are ready.\<close>

definition cpu_blocked :: "proc_scheduler \<Rightarrow> 'q node \<Rightarrow> int list res" where
  "cpu_blocked s n =
     rfilter (\<lambda>tid. rbind (is_message_available tid s n) (\<lambda>b. Inr (\<not> b)))
       (get_event_roots False (ps_task_graph s))"

definition cpu_ready :: "proc_scheduler \<Rightarrow> 'q node \<Rightarrow> int list \<Rightarrow> int list" where
  "cpu_ready s n blocked =
     (let roots = get_roots False (ps_task_graph s);
          future = future_starts (ps_task_graph s) (host_now (nd_host n)) roots in
      filter (\<lambda>tid. tid \<notin> set blocked \<and> tid \<notin> set (keys future)) roots)"

text \<open>The reasons for which the scheduler waits, when no task is ready.\<close>

definition cpu_waiting :: "proc_scheduler \<Rightarrow> 'q node \<Rightarrow> int list \<Rightarrow> scheduler_status" where
  "cpu_waiting s n blocked =
     (let g = ps_task_graph s;
          future = future_starts g (host_now (nd_host n)) (get_roots False g);
          st = add_status (blocked \<noteq> []) WAITING_MSG
            (add_status (get_tasks_blocked_only_on_external g \<noteq> []) WAITING_OTHER_CORE (ps_status s)) in
      if future \<noteq> []
      then (add_status True WAITING_START_TIME st)\<lparr>st_start_time := Some (snd (hd (sort_key snd future)))\<rparr>
      else st)"

definition cpu_update_status :: "(int \<Rightarrow> int) \<Rightarrow> 'q node \<Rightarrow> proc_scheduler \<Rightarrow> proc_scheduler res" where
  "cpu_update_status randint n s =
     (if ps_task_graph s = [] then Inr (s\<lparr>ps_status := status_only GRAPH_EMPTY\<rparr>)
      else rbind (cpu_blocked s n) (\<lambda>blocked.
      if cpu_ready s n blocked \<noteq> []
      then rbind (edf_choice randint s (cpu_ready s n blocked)) (\<lambda>tid.
        Inr (s\<lparr>ps_status := status_task NEXT_TASK tid\<rparr>))
      else rbind (ensure (st_status (cpu_waiting s n blocked) \<noteq> []) RuntimeError) (\<lambda>_.
        Inr (s\<lparr>ps_status := cpu_waiting s n blocked\<rparr>))))"

subsection \<open>The QPU scheduler\<close>

text \<open>\<open>try: allocate; free; return True; except AllocError: return False\<close>, and the loop of it.\<close>

definition probe :: "int \<Rightarrow> int \<Rightarrow> 'q memory_manager \<Rightarrow> (bool \<times> 'q memory_manager) res" where
  "probe pid virt_id mm =
     (case allocate pid virt_id mm of
        Inl e \<Rightarrow> if e = AllocError then Inr (False, mm) else Inl e
      | Inr (p, mm1) \<Rightarrow>
          (case mm_free pid virt_id mm1 of
             Inl e \<Rightarrow> if e = AllocError then Inr (False, mm1) else Inl e
           | Inr mm2 \<Rightarrow> Inr (True, mm2)))"

fun probe_all :: "int \<Rightarrow> int list \<Rightarrow> 'q memory_manager \<Rightarrow> (bool \<times> 'q memory_manager) res" where
  "probe_all pid [] mm = Inr (True, mm)"
| "probe_all pid (v # vs) mm =
     rbind (probe pid v mm) (\<lambda>(ok, mm1). if ok then probe_all pid vs mm1 else Inr (False, mm1))"

fun probe_unmapped :: "int \<Rightarrow> int list \<Rightarrow> 'q memory_manager \<Rightarrow> (bool \<times> 'q memory_manager) res" where
  "probe_unmapped pid [] mm = Inr (True, mm)"
| "probe_unmapped pid (v # vs) mm =
     rbind (phys_id_for pid v mm) (\<lambda>p.
     if p \<noteq> None then probe_unmapped pid vs mm
     else rbind (probe pid v mm) (\<lambda>(ok, mm1). if ok then probe_unmapped pid vs mm1 else Inr (False, mm1)))"

text \<open>The request routine of an entanglement task, found through the shared pointer.\<close>

definition task_request :: "int \<Rightarrow> int \<Rightarrow> 'q node \<Rightarrow> (qoala_process \<times> request_routine) res" where
  "task_request pid ptr n =
     rbind (read_shared_rrcall ptr (nd_memory n)) (\<lambda>rrcall.
     rbind (get_process pid (nd_mm n)) (\<lambda>p.
     rbind (get_request_routine p (rc_routine_name rrcall)) (\<lambda>routine. Inr (p, routine))))"

definition timebin_for_task :: "int \<Rightarrow> proc_scheduler \<Rightarrow> 'q node \<Rightarrow> network_timebin res" where
  "timebin_for_task tid s n =
     rbind (get_tinfo (ps_task_graph s) tid) (\<lambda>tinfo.
     let t = ti_task tinfo in
     rbind (case task_kind t of
         SinglePairTask i ptr \<Rightarrow> task_request (task_pid t) ptr n
       | MultiPairTask ptr \<Rightarrow> task_request (task_pid t) ptr n
       | _ \<Rightarrow> Inl AssertionError) (\<lambda>(p, routine).
     rbind (request_int KeyError (rq_epr_socket_id (rr_request routine))) (\<lambda>sock_id.
     rbind (dget (pc_epr_sockets p) sock_id) (\<lambda>epr_sck.
     Inr \<lparr>tb_nodes = {ps_node_id s, es_remote_id epr_sck},
          tb_pids = dict_of [(ps_node_id s, es_local_pid epr_sck), (es_remote_id epr_sck, es_remote_pid epr_sck)]\<rparr>))))"

definition are_resources_available ::
    "int \<Rightarrow> proc_scheduler \<Rightarrow> 'q node \<Rightarrow> (bool \<times> 'q memory_manager) res" where
  "are_resources_available tid s n =
     rbind (get_tinfo (ps_task_graph s) tid) (\<lambda>tinfo.
     let t = ti_task tinfo; pid = task_pid t in
     case task_kind t of
       SinglePairTask i ptr \<Rightarrow>
         rbind (task_request pid ptr n) (\<lambda>(p, routine).
         rbind (get_id (rq_virt_ids (rr_request routine)) i) (\<lambda>virt_id.
         probe pid virt_id (nd_mm n)))
     | MultiPairTask ptr \<Rightarrow>
         rbind (task_request pid ptr n) (\<lambda>(p, routine).
         rbind (resolve_num_pairs routine (Some (pc_inputs p))) (\<lambda>num_pairs.
         rbind (rmap (get_id (rq_virt_ids (rr_request routine))) [0..num_pairs - 1]) (\<lambda>virt_ids.
         probe_all pid virt_ids (nd_mm n))))
     | LocalRoutineTask b ptr \<Rightarrow>
         rbind (read_shared_lrcall ptr (nd_memory n)) (\<lambda>lrcall.
         rbind (get_process pid (nd_mm n)) (\<lambda>p.
         rbind (get_local_routine p (lc_routine_name lrcall)) (\<lambda>routine.
         probe_unmapped pid (qubit_use (lr_metadata routine)) (nd_mm n))))
     | _ \<Rightarrow> Inr (True, nd_mm n))"

text \<open>The tasks without predecessors that are blocked on resources; probing works on the manager.\<close>

fun blocked_on_resources ::
    "proc_scheduler \<Rightarrow> int list \<Rightarrow> 'q node \<Rightarrow> (int list \<times> 'q node) res" where
  "blocked_on_resources s [] n = Inr ([], n)"
| "blocked_on_resources s (tid # tids) n =
     rbind (are_resources_available tid s n) (\<lambda>(ok, mm).
     rbind (blocked_on_resources s tids (n\<lparr>nd_mm := mm\<rparr>)) (\<lambda>(bs, n').
     Inr (if ok then bs else tid # bs, n')))"

text \<open>The time until the next bin of each entanglement task; without a schedule none waits.\<close>

definition bin_delays :: "proc_scheduler \<Rightarrow> 'q node \<Rightarrow> int list \<Rightarrow> (int \<times> real) list res" where
  "bin_delays s n tids =
     (case ps_network_schedule s of
        None \<Rightarrow> Inr (map (\<lambda>e. (e, 0)) tids)
      | Some sched \<Rightarrow> rmap (\<lambda>e. rbind (timebin_for_task e s n) (\<lambda>b.
          rbind (next_specific_bin sched (ib_now (nd_inbox n)) b) (\<lambda>delta. Inr (e, delta)))) tids)"

definition epr_unblocked :: "proc_scheduler \<Rightarrow> int list \<Rightarrow> int list" where
  "epr_unblocked s blocked = filter (\<lambda>t. t \<notin> set blocked) (get_epr_roots False (ps_task_graph s))"

definition non_epr_ready :: "proc_scheduler \<Rightarrow> int list \<Rightarrow> int list" where
  "non_epr_ready s blocked =
     filter (\<lambda>t. t \<notin> set (get_epr_roots False (ps_task_graph s)) \<and> t \<notin> set blocked)
       (get_roots False (ps_task_graph s))"

definition qpu_waiting :: "proc_scheduler \<Rightarrow> int list \<Rightarrow> (int \<times> real) list \<Rightarrow> scheduler_status" where
  "qpu_waiting s blocked delays =
     (let waiting = filter (\<lambda>(e, d). d > 0) delays;
          st = add_status (blocked \<noteq> []) WAITING_RESOURCES
            (add_status (get_tasks_blocked_only_on_external (ps_task_graph s) \<noteq> []) WAITING_OTHER_CORE (ps_status s)) in
      if waiting \<noteq> []
      then (add_status True WAITING_TIME_BIN st)\<lparr>st_delta := Some (snd (hd (sort_key snd waiting)))\<rparr>
      else st)"

text \<open>An entanglement task whose bin starts now, otherwise another task, otherwise waiting.\<close>

definition qpu_choice ::
    "(int \<Rightarrow> int) \<Rightarrow> proc_scheduler \<Rightarrow> int list \<Rightarrow> (int \<times> real) list \<Rightarrow> scheduler_status res" where
  "qpu_choice randint s blocked delays =
     (let epr_ready = map fst (filter (\<lambda>(e, d). d = 0) delays) in
      if epr_ready \<noteq> [] then Inr (status_task EPR_GEN (hd epr_ready))
      else if non_epr_ready s blocked \<noteq> []
      then rbind (edf_choice randint s (non_epr_ready s blocked)) (\<lambda>tid. Inr (status_task NEXT_TASK tid))
      else rbind (ensure (st_status (qpu_waiting s blocked delays) \<noteq> []) RuntimeError) (\<lambda>_.
        Inr (qpu_waiting s blocked delays)))"

definition qpu_update_status ::
    "(int \<Rightarrow> int) \<Rightarrow> 'q node \<Rightarrow> proc_scheduler \<Rightarrow> (proc_scheduler \<times> 'q node) res" where
  "qpu_update_status randint n s =
     (if ps_task_graph s = [] then Inr (s\<lparr>ps_status := status_only GRAPH_EMPTY\<rparr>, n)
      else
        rbind (blocked_on_resources s (get_roots False (ps_task_graph s)) n) (\<lambda>(blocked, n1).
        rbind (bin_delays s n1 (epr_unblocked s blocked)) (\<lambda>delays.
        rbind (qpu_choice randint s blocked delays) (\<lambda>st. Inr (s\<lparr>ps_status := st\<rparr>, n1)))))"

subsection \<open>One round of a scheduler\<close>

text \<open>
  The body of the loops \<open>run\<close> up to the next \<open>yield\<close>: a fresh status, the external predecessors,
  the choice, and the chosen task. Without one the scheduler waits for one of the events of its
  status.
\<close>

definition cpu_round ::
    "(int \<Rightarrow> int) \<Rightarrow> proc_scheduler option \<Rightarrow> proc_scheduler \<times> 'q node \<Rightarrow> (proc_scheduler \<times> 'q node) res" where
  "cpu_round randint other sn = (case sn of (s, n) \<Rightarrow>
     rbind (cpu_update_status randint n (update_external_predecessors other (s\<lparr>ps_status := no_status\<rparr>))) (\<lambda>s1.
     if NEXT_TASK \<in> set (st_status (ps_status s1))
     then sched_handle_task cpu_handle_task (\<lambda>m. host_now (nd_host m)) (the (st_task_id (ps_status s1))) (s1, n)
     else Inr (s1, n)))"

definition qpu_round ::
    "'q qpu_env \<Rightarrow> (int \<Rightarrow> int) \<Rightarrow> proc_scheduler option \<Rightarrow> proc_scheduler \<times> 'q node \<Rightarrow>
     (proc_scheduler \<times> 'q node) res" where
  "qpu_round env randint other sn = (case sn of (s, n) \<Rightarrow>
     rbind (qpu_update_status randint n (update_external_predecessors other (s\<lparr>ps_status := no_status\<rparr>))) (\<lambda>(s1, n1).
     if EPR_GEN \<in> set (st_status (ps_status s1)) \<or> NEXT_TASK \<in> set (st_status (ps_status s1))
     then sched_handle_task (qpu_handle_task env) (\<lambda>m. ib_now (nd_inbox m)) (the (st_task_id (ps_status s1))) (s1, n1)
     else Inr (s1, n1)))"

end
