(* ===== verification/Wake.thy ===== *)
theory Wake
  imports Sched
begin

text \<open>
  What a scheduler waits for when it has no task to start: the loops \<open>run\<close> of the two processor
  schedulers (\<open>qoala/sim/scheduler.py\<close>) and the event expressions of the listeners
  (\<open>qoala/sim/componentprot.py\<close>). An event expression, a union of events one of which resumes the
  protocol, is the list of these events.
\<close>

datatype wakeup = PortInput | TaskCompleted | MemoryFreed | TimerAfter real | SignalOf string

section \<open>Event expressions of listeners\<close>

fun any_listener_has :: "string list \<Rightarrow> 'c inbox \<Rightarrow> bool res" where
  "any_listener_has [] ib = Inr False"
| "any_listener_has (name # names) ib =
     rbind (dget (ib_listeners ib) name) (\<lambda>b. if has_any b then Inr True else any_listener_has names ib)"

text \<open>Nothing when there is a message already, otherwise the listeners whose signals are awaited.\<close>

definition get_evexpr_for_any_msg :: "string list \<Rightarrow> 'c inbox \<Rightarrow> string list option res" where
  "get_evexpr_for_any_msg names ib =
     rbind (any_listener_has names ib) (\<lambda>has.
     if has then Inr None else rbind (py_assert (names \<noteq> [])) (\<lambda>_. Inr (Some names)))"

text \<open>How often the expression has to be awaited again, once for every further listener that has a
message.\<close>

definition handle_msg_evexpr :: "string list \<Rightarrow> 'c inbox \<Rightarrow> nat res" where
  "handle_msg_evexpr names ib =
     rbind (rmap (dget (ib_listeners ib)) names) (\<lambda>bs.
     let ev_count = length (filter has_any bs) in
     rbind (py_assert (ev_count > 0)) (\<lambda>_. Inr (ev_count - 1)))"

text \<open>\<open>yield evexpr\<close>: until the first arrival at one of the listeners.\<close>

definition await_any :: "string list \<Rightarrow> 'c inbox \<Rightarrow> 'c inbox res" where
  "await_any names ib =
     (case List.find (\<lambda>(t, n, m). n \<in> set names) (ib_arrivals ib) of
        None \<Rightarrow> Inl NeverResumed
      | Some (t, _) \<Rightarrow> Inr (advance t ib))"

definition wait_for_msg_any_source :: "string list \<Rightarrow> 'c inbox \<Rightarrow> 'c inbox res" where
  "wait_for_msg_any_source names ib =
     rbind (get_evexpr_for_any_msg names ib) (\<lambda>evexpr.
     case evexpr of
       None \<Rightarrow> Inr ib
     | Some ls \<Rightarrow> rbind (await_any ls ib) (\<lambda>ib'. rbind (handle_msg_evexpr names ib') (\<lambda>_. Inr ib')))"

text \<open>The listeners of the Host for its peers, in the order in which they were added.\<close>

definition listener_names :: "host \<Rightarrow> string list" where
  "listener_names h = filter (\<lambda>n. take 5 n = ''peer_'') (keys (ib_listeners (hs_inbox h)))"

section \<open>The loops of the schedulers\<close>

text \<open>
  The events that a CPU scheduler waits for. \<open>|\<close> combines two event expressions, so that the value
  \<open>None\<close> of \<open>get_evexpr_for_any_msg\<close> cannot be combined with one.
\<close>

definition cpu_wakeups :: "host \<Rightarrow> scheduler_status \<Rightarrow> wakeup list res" where
  "cpu_wakeups h st =
     (let ev_expr = [PortInput] @
            (if WAITING_OTHER_CORE \<in> set (st_status st) then [TaskCompleted] else []) @
            (if WAITING_START_TIME \<in> set (st_status st) then [TimerAfter (the (st_start_time st) - host_now h)] else []) in
      if WAITING_MSG \<in> set (st_status st)
      then rbind (get_evexpr_for_any_msg (listener_names h) (hs_inbox h)) (\<lambda>ev_msg_arrived.
        case ev_msg_arrived of
          None \<Rightarrow> Inl TypeError
        | Some ls \<Rightarrow> Inr (map SignalOf ls @ ev_expr))
      else Inr ev_expr)"

definition qpu_wakeups :: "scheduler_status \<Rightarrow> wakeup list" where
  "qpu_wakeups st =
     [PortInput] @
     (if WAITING_OTHER_CORE \<in> set (st_status st) then [TaskCompleted] else []) @
     (if WAITING_RESOURCES \<in> set (st_status st) then [MemoryFreed] else []) @
     (if WAITING_TIME_BIN \<in> set (st_status st) then [TimerAfter (the (st_delta st))] else [])"

text \<open>One turn of the loop: a task, or the events that the scheduler waits for before the next turn.\<close>

definition cpu_turn ::
    "(int \<Rightarrow> int) \<Rightarrow> proc_scheduler option \<Rightarrow> proc_scheduler \<times> 'q node \<Rightarrow>
     ((proc_scheduler \<times> 'q node) \<times> wakeup list) res" where
  "cpu_turn randint other sn =
     rbind (cpu_round randint other sn) (\<lambda>(s, n).
     if NEXT_TASK \<in> set (st_status (ps_status s)) then Inr ((s, n), [])
     else rbind (cpu_wakeups (nd_host n) (ps_status s)) (\<lambda>ws. Inr ((s, n), ws)))"

definition qpu_turn ::
    "'q qpu_env \<Rightarrow> (int \<Rightarrow> int) \<Rightarrow> proc_scheduler option \<Rightarrow> proc_scheduler \<times> 'q node \<Rightarrow>
     ((proc_scheduler \<times> 'q node) \<times> wakeup list) res" where
  "qpu_turn env randint other sn =
     rbind (qpu_round env randint other sn) (\<lambda>(s, n).
     Inr ((s, n), if EPR_GEN \<in> set (st_status (ps_status s)) \<or> NEXT_TASK \<in> set (st_status (ps_status s)) then []
       else qpu_wakeups (ps_status s)))"

end
