(* ===== verification/NodeSched.thy ===== *)
theory NodeSched
  imports Sched
begin

text \<open>
  The scheduler of a node (\<open>NodeScheduler\<close> in \<open>qoala/sim/scheduler.py\<close>): it creates processes for
  submitted programs, turns the next block of a program into tasks when the tasks of its previous
  block are finished, hands them to the two processor schedulers, and collects the results.
\<close>

section \<open>Batches and state\<close>

text \<open>\<open>BatchInfo\<close>, \<open>ProgramBatch\<close> and \<open>BatchResult\<close> (\<open>qoala/runtime/program.py\<close>).\<close>

record batch_info =
  bi_program :: qoala_program
  bi_unit_module :: unit_module
  bi_inputs :: "prog_input list"
  bi_num_iterations :: int
  bi_deadline :: real

record program_batch =
  ba_batch_id :: int
  ba_info :: batch_info
  ba_instances :: "program_instance list"

record batch_result =
  br_batch_id :: int
  br_results :: "(string, prog_value) dict list"
  br_timestamps :: "(real \<times> real) option list"

text \<open>\<open>BatchResult.durations\<close>\<close>

definition durations :: "batch_result \<Rightarrow> real list res" where
  "durations r =
     rbind (py_assert (list_all (\<lambda>e. e \<noteq> None) (br_timestamps r))) (\<lambda>_.
     Inr (map (\<lambda>e. snd (the e) - fst (the e)) (br_timestamps r)))"

text \<open>
  The messages to the processor schedulers wake them up; the model counts them. \<open>sd_task_counter\<close>
  is the counter of the task builder.
\<close>

record 'q node_scheduler =
  sd_network :: ehi_network_info
  sd_prog_counter :: int
  sd_batch_counter :: int
  sd_batches :: "(int, program_batch) dict"
  sd_batch_results :: "(int, batch_result) dict"
  sd_block_index :: "(int, int) dict"
  sd_dependency :: "(int, int) dict"
  sd_task_counter :: int
  sd_last_cpu :: int
  sd_last_qpu :: int
  sd_cpu :: proc_scheduler
  sd_qpu :: proc_scheduler
  sd_cpu_messages :: nat
  sd_qpu_messages :: nat
  sd_node :: "'q node"

definition init_node_scheduler ::
    "int \<Rightarrow> bool \<Rightarrow> bool \<Rightarrow> network_schedule option \<Rightarrow> ehi_network_info \<Rightarrow> 'q node \<Rightarrow> 'q node_scheduler" where
  "init_node_scheduler node_id deterministic use_deadlines netschedule network n =
     \<lparr>sd_network = network, sd_prog_counter = 0, sd_batch_counter = 0, sd_batches = [],
      sd_batch_results = [], sd_block_index = [], sd_dependency = [], sd_task_counter = 0,
      sd_last_cpu = - 1, sd_last_qpu = - 1,
      sd_cpu = init_scheduler node_id deterministic use_deadlines None,
      sd_qpu = init_scheduler node_id deterministic use_deadlines netschedule,
      sd_cpu_messages = 0, sd_qpu_messages = 0, sd_node = n\<rparr>"

definition send_cpu_scheduler_message :: "'q node_scheduler \<Rightarrow> 'q node_scheduler" where
  "send_cpu_scheduler_message sd = sd\<lparr>sd_cpu_messages := Suc (sd_cpu_messages sd)\<rparr>"

definition send_qpu_scheduler_message :: "'q node_scheduler \<Rightarrow> 'q node_scheduler" where
  "send_qpu_scheduler_message sd = sd\<lparr>sd_qpu_messages := Suc (sd_qpu_messages sd)\<rparr>"

section \<open>Submitting programs\<close>

definition submit_batch :: "batch_info \<Rightarrow> 'q node_scheduler \<Rightarrow> (program_batch \<times> 'q node_scheduler) res" where
  "submit_batch info sd =
     rbind (rmap (\<lambda>i. rbind (py_nth (bi_inputs info) i) (\<lambda>inp.
       Inr \<lparr>pi_pid = sd_prog_counter sd + i, pi_program = bi_program info, pi_inputs = inp,
            pi_unit_module = bi_unit_module info\<rparr>)) [0..bi_num_iterations info - 1]) (\<lambda>instances.
     let batch = \<lparr>ba_batch_id = sd_batch_counter sd, ba_info = info, ba_instances = instances\<rparr> in
     Inr (batch, sd\<lparr>sd_prog_counter := sd_prog_counter sd + int (length instances),
       sd_batches := dset (ba_batch_id batch) batch (sd_batches sd),
       sd_batch_counter := sd_batch_counter sd + 1\<rparr>))"

definition create_process ::
    "program_instance \<Rightarrow> int option \<Rightarrow> 'q node_scheduler \<Rightarrow> qoala_process res" where
  "create_process inst remote_pid sd =
     (let meta = pr_meta (pi_program inst) in
      rbind (rmap (\<lambda>(i, remote_name). case remote_pid of
          None \<Rightarrow> Inl AssertionError
        | Some r \<Rightarrow> Inr (i, \<lparr>ck_remote_name = remote_name, ck_pid = pi_pid inst, ck_remote_pid = r\<rparr>))
        (pm_csockets meta)) (\<lambda>csockets.
      rbind (rmap (\<lambda>(i, remote_name). case remote_pid of
          None \<Rightarrow> Inl AssertionError
        | Some r \<Rightarrow> rbind (get_node_id (sd_network sd) remote_name) (\<lambda>remote_id.
            Inr (i, \<lparr>es_socket_id = i, es_remote_id = remote_id, es_local_pid = pi_pid inst,
                     es_remote_pid = r, es_fidelity = 1\<rparr>)))
        (pm_epr_sockets meta)) (\<lambda>epr_sockets.
      Inr \<lparr>pc_instance = inst, pc_memory = init_program_memory, pc_result = [],
           pc_csockets = csockets, pc_epr_sockets = epr_sockets\<rparr>)))"

text \<open>\<open>add_process\<close>, \<open>initialize_process\<close> and the entries of the program; the process object that
the memory manager holds is the one that is initialised.\<close>

definition install_process ::
    "program_instance \<Rightarrow> int option \<Rightarrow> int \<Rightarrow> 'q node_scheduler \<Rightarrow> 'q node_scheduler res" where
  "install_process inst remote_pid dependency sd =
     rbind (create_process inst remote_pid sd) (\<lambda>p.
     Inr (sd\<lparr>sd_node := (sd_node sd)\<lparr>nd_mm := put_process (initialize p) (add_process p (nd_mm (sd_node sd)))\<rparr>,
             sd_block_index := dset (pi_pid inst) 0 (sd_block_index sd),
             sd_dependency := dset (pi_pid inst) dependency (sd_dependency sd)\<rparr>))"

definition submit_program_instance ::
    "program_instance \<Rightarrow> int option \<Rightarrow> 'q node_scheduler \<Rightarrow> 'q node_scheduler res" where
  "submit_program_instance inst remote_pid = install_process inst remote_pid (- 1)"

text \<open>The instances of all batches with the PID of their partner.\<close>

definition remote_pid_of :: "(int, int list) dict option \<Rightarrow> int \<Rightarrow> int \<Rightarrow> int option res" where
  "remote_pid_of remote_pids batch_id i =
     (case remote_pids of
        None \<Rightarrow> Inr None
      | Some d \<Rightarrow> rbind (dget d batch_id) (\<lambda>pids. rbind (py_nth pids i) (\<lambda>r. Inr (Some r))))"

definition create_process_for ::
    "(int, int list) dict option \<Rightarrow> bool \<Rightarrow> int \<times> int \<times> program_instance \<Rightarrow>
     int \<times> 'q node_scheduler \<Rightarrow> (int \<times> 'q node_scheduler) res" where
  "create_process_for remote_pids lin x st = (case x of (batch_id, i, inst) \<Rightarrow> case st of (prev, sd) \<Rightarrow>
     rbind (remote_pid_of remote_pids batch_id i) (\<lambda>remote_pid.
     rbind (install_process inst remote_pid (if lin then prev else - 1) sd) (\<lambda>sd'.
     Inr (if lin then pi_pid inst else prev, sd'))))"

definition create_processes_for_batches ::
    "(int, int list) dict option \<Rightarrow> bool \<Rightarrow> 'q node_scheduler \<Rightarrow> 'q node_scheduler res" where
  "create_processes_for_batches remote_pids lin sd =
     rbind (rfold (create_process_for remote_pids lin)
       (concat (map (\<lambda>(batch_id, batch). map (\<lambda>(i, inst). (batch_id, int i, inst))
          (enumerate 0 (ba_instances batch))) (sd_batches sd))) (- 1, sd)) (\<lambda>(prev, sd'). Inr sd')"

section \<open>The next block of a program\<close>

text \<open>A jump requested by the Host replaces the index of the next block and is withdrawn.\<close>

definition take_jump :: "int \<Rightarrow> 'q node_scheduler \<Rightarrow> 'q node_scheduler" where
  "take_jump pid sd =
     (case map_of (hs_jumps (nd_host (sd_node sd))) pid of
        None \<Rightarrow> sd
      | Some j \<Rightarrow>
          if j \<noteq> - 1
          then sd\<lparr>sd_block_index := dset pid j (sd_block_index sd),
                  sd_node := (sd_node sd)\<lparr>nd_host := set_jump pid (- 1) (nd_host (sd_node sd))\<rparr>\<rparr>
          else sd)"

definition advance_block :: "int \<Rightarrow> int \<Rightarrow> int \<Rightarrow> 'q node_scheduler \<Rightarrow> 'q node_scheduler" where
  "advance_block pid index counter sd =
     sd\<lparr>sd_block_index := dset pid (index + 1) (sd_block_index sd), sd_task_counter := counter\<rparr>"

definition find_next_tasks_for ::
    "int \<Rightarrow> 'q node_scheduler \<Rightarrow> ((task_graph option \<times> task_graph option) \<times> 'q node_scheduler) res" where
  "find_next_tasks_for pid sd0 =
     (let sd = take_jump pid sd0 in
      rbind (dget (sd_block_index sd) pid) (\<lambda>index.
      rbind (get_process pid (nd_mm (sd_node sd))) (\<lambda>p.
      let blocks = pr_blocks (pc_program p) in
      if index \<ge> int (length blocks) \<or> sched_task_exists pid (sd_cpu sd) then Inr ((None, None), sd)
      else
        rbind (py_nth blocks index) (\<lambda>block.
        if block_typ block \<in> {CL, CC}
        then rbind (block_build (pc_instance p) index (Some (sd_network sd)) (sd_task_counter sd)) (\<lambda>(graph, counter).
          Inr ((Some graph, None), send_cpu_scheduler_message (advance_block pid index counter sd)))
        else if \<not> sched_task_exists pid (sd_qpu sd)
        then rbind (block_build (pc_instance p) index (Some (sd_network sd)) (sd_task_counter sd)) (\<lambda>(graph, counter).
          rbind (partial_graph CPU graph) (\<lambda>cpu_tasks.
          rbind (partial_graph QPU graph) (\<lambda>qpu_tasks.
          Inr ((Some cpu_tasks, Some qpu_tasks), advance_block pid index counter sd))))
        else Inr ((Some [], Some []), sd)))))"

text \<open>\<open>None\<close> and an empty dictionary are both false.\<close>

definition new_tasks :: "task_graph option \<Rightarrow> task_graph" where
  "new_tasks x = (case x of None \<Rightarrow> [] | Some g \<Rightarrow> g)"

definition give_tasks :: "task_graph \<Rightarrow> task_graph \<Rightarrow> 'q node_scheduler \<Rightarrow> 'q node_scheduler" where
  "give_tasks cpu_tasks qpu_tasks sd =
     (let sd1 = (if cpu_tasks \<noteq> []
                 then send_cpu_scheduler_message (sd\<lparr>sd_cpu := sched_add_tasks cpu_tasks (sd_cpu sd)\<rparr>) else sd) in
      if qpu_tasks \<noteq> []
      then send_qpu_scheduler_message (sd1\<lparr>sd_qpu := sched_add_tasks qpu_tasks (sd_qpu sd1)\<rparr>) else sd1)"

definition schedule_next_for :: "int \<Rightarrow> 'q node_scheduler \<Rightarrow> 'q node_scheduler res" where
  "schedule_next_for pid sd =
     rbind (find_next_tasks_for pid sd) (\<lambda>((cpu_tasks, qpu_tasks), sd1).
     Inr (give_tasks (new_tasks cpu_tasks) (new_tasks qpu_tasks) sd1))"

text \<open>A program that depends on another one waits until that one is at its end.\<close>

definition dependency_finished :: "int \<Rightarrow> 'q node_scheduler \<Rightarrow> bool res" where
  "dependency_finished pid sd =
     rbind (dget (sd_dependency sd) pid) (\<lambda>dep.
     if dep \<noteq> - 1
     then rbind (dget (sd_block_index sd) dep) (\<lambda>index.
       rbind (get_process dep (nd_mm (sd_node sd))) (\<lambda>p.
       Inr (index \<ge> int (length (pr_blocks (pc_program p))))))
     else Inr True)"

definition collect_tasks_for ::
    "int \<Rightarrow> task_graph \<times> task_graph \<times> 'q node_scheduler \<Rightarrow> (task_graph \<times> task_graph \<times> 'q node_scheduler) res" where
  "collect_tasks_for pid st = (case st of (cpu_tasks, qpu_tasks, sd) \<Rightarrow>
     rbind (dependency_finished pid sd) (\<lambda>ok.
     if \<not> ok then Inr (cpu_tasks, qpu_tasks, sd)
     else rbind (find_next_tasks_for pid sd) (\<lambda>((new_cpu, new_qpu), sd1).
       Inr (dupdate cpu_tasks (new_tasks new_cpu), dupdate qpu_tasks (new_tasks new_qpu), sd1))))"

definition schedule_all :: "'q node_scheduler \<Rightarrow> 'q node_scheduler res" where
  "schedule_all sd =
     rbind (rfold collect_tasks_for (get_all_program_ids (nd_mm (sd_node sd))) ([], [], sd))
       (\<lambda>(cpu_tasks, qpu_tasks, sd1). Inr (give_tasks cpu_tasks qpu_tasks sd1))"

definition sd_upload_task_graph :: "task_graph \<Rightarrow> 'q node_scheduler \<Rightarrow> 'q node_scheduler res" where
  "sd_upload_task_graph graph sd =
     rbind (partial_graph CPU graph) (\<lambda>cpu_graph.
     rbind (partial_graph QPU graph) (\<lambda>qpu_graph.
     Inr (sd\<lparr>sd_cpu := sched_upload cpu_graph (sd_cpu sd), sd_qpu := sched_upload qpu_graph (sd_qpu sd)\<rparr>)))"

definition is_program_instance_finished :: "int \<Rightarrow> 'q node_scheduler \<Rightarrow> bool res" where
  "is_program_instance_finished pid sd =
     rbind (dget (sd_block_index sd) pid) (\<lambda>index.
     rbind (get_process pid (nd_mm (sd_node sd))) (\<lambda>p.
     Inr (index \<ge> int (length (pr_blocks (pc_program p))))))"

section \<open>The loop of the node scheduler\<close>

text \<open>
  The round after a completed task at time \<open>now\<close>: the next block of the program whose CPU task has
  just finished, and of the program whose QPU task has; then, when one of them is at its end, the
  next blocks of all programs.
\<close>

definition just_finished :: "int \<Rightarrow> 'q node_scheduler \<Rightarrow> bool res" where
  "just_finished pid sd = (if pid \<noteq> - 1 then is_program_instance_finished pid sd else Inr False)"

definition schedule_finished :: "'q node_scheduler \<Rightarrow> 'q node_scheduler res" where
  "schedule_finished sd =
     rbind (just_finished (sd_last_cpu sd) sd) (\<lambda>c.
     rbind (if c then Inr True else just_finished (sd_last_qpu sd) sd) (\<lambda>b.
     if b then schedule_all sd else Inr sd))"

definition node_round :: "real \<Rightarrow> 'q node_scheduler \<Rightarrow> 'q node_scheduler res" where
  "node_round now sd =
     (let sd1 = sd\<lparr>sd_last_cpu := get_last_finished_task_pid_at now (sd_cpu sd)\<rparr> in
      rbind (if sd_last_cpu sd1 \<noteq> - 1 then schedule_next_for (sd_last_cpu sd1) sd1 else Inr sd1) (\<lambda>sd2.
      let sd3 = sd2\<lparr>sd_last_qpu := get_last_finished_task_pid_at now (sd_qpu sd2)\<rparr> in
      rbind (if sd_last_qpu sd3 \<noteq> - 1 \<and> sd_last_qpu sd3 \<noteq> sd_last_cpu sd3
             then schedule_next_for (sd_last_qpu sd3) sd3 else Inr sd3) schedule_finished))"

text \<open>A round of one of the processor schedulers, which sees the other one.\<close>

definition sd_cpu_round :: "(int \<Rightarrow> int) \<Rightarrow> 'q node_scheduler \<Rightarrow> 'q node_scheduler res" where
  "sd_cpu_round randint sd =
     rbind (cpu_round randint (Some (sd_qpu sd)) (sd_cpu sd, sd_node sd)) (\<lambda>(s, n).
     Inr (sd\<lparr>sd_cpu := s, sd_node := n\<rparr>))"

definition sd_qpu_round :: "'q qpu_env \<Rightarrow> (int \<Rightarrow> int) \<Rightarrow> 'q node_scheduler \<Rightarrow> 'q node_scheduler res" where
  "sd_qpu_round env randint sd =
     rbind (qpu_round env randint (Some (sd_cpu sd)) (sd_qpu sd, sd_node sd)) (\<lambda>(s, n).
     Inr (sd\<lparr>sd_qpu := s, sd_node := n\<rparr>))"

section \<open>Results\<close>

definition instance_timestamps :: "'q node_scheduler \<Rightarrow> program_instance \<Rightarrow> (real \<times> real) option res" where
  "instance_timestamps sd inst =
     rbind (get_process (pi_pid inst) (nd_mm (sd_node sd))) (\<lambda>p.
     rbind (get_timestamps (pc_pid p) (sd_cpu sd)) (\<lambda>cpu_start_end.
     case cpu_start_end of
       None \<Rightarrow> Inr None
     | Some (cpu_start, cpu_end) \<Rightarrow>
         rbind (get_timestamps (pc_pid p) (sd_qpu sd)) (\<lambda>qpu_start_end.
         Inr (case qpu_start_end of
             Some (qpu_start, qpu_end) \<Rightarrow> Some (min cpu_start qpu_start, max cpu_end qpu_end)
           | None \<Rightarrow> Some (cpu_start, cpu_end)))))"

definition collect_timestamps :: "int \<Rightarrow> 'q node_scheduler \<Rightarrow> (real \<times> real) option list res" where
  "collect_timestamps batch_id sd =
     rbind (dget (sd_batches sd) batch_id) (\<lambda>batch. rmap (instance_timestamps sd) (ba_instances batch))"

definition collect_batch_result :: "int \<times> program_batch \<Rightarrow> 'q node_scheduler \<Rightarrow> 'q node_scheduler res" where
  "collect_batch_result x sd = (case x of (batch_id, batch) \<Rightarrow>
     rbind (rmap (\<lambda>inst. rbind (get_process (pi_pid inst) (nd_mm (sd_node sd))) (\<lambda>p. Inr (pc_result p)))
       (ba_instances batch)) (\<lambda>results.
     rbind (collect_timestamps batch_id sd) (\<lambda>timestamps.
     Inr (sd\<lparr>sd_batch_results := dset batch_id
       \<lparr>br_batch_id = batch_id, br_results = results, br_timestamps = timestamps\<rparr> (sd_batch_results sd)\<rparr>))))"

definition collect_batch_results :: "'q node_scheduler \<Rightarrow> 'q node_scheduler res" where
  "collect_batch_results sd = rfold collect_batch_result (sd_batches sd) sd"

definition get_batch_results :: "'q node_scheduler \<Rightarrow> ((int, batch_result) dict \<times> 'q node_scheduler) res" where
  "get_batch_results sd = rbind (collect_batch_results sd) (\<lambda>sd'. Inr (sd_batch_results sd', sd'))"

text \<open>\<open>SchedulerStatistics\<close> (\<open>qoala/runtime/statistics.py\<close>).\<close>

record scheduler_statistics =
  ss_cpu_tasks_executed :: "(int, qoala_task) dict"
  ss_qpu_tasks_executed :: "(int, qoala_task) dict"
  ss_cpu_task_starts :: "(int, real) dict"
  ss_qpu_task_starts :: "(int, real) dict"
  ss_cpu_task_ends :: "(int, real) dict"
  ss_qpu_task_ends :: "(int, real) dict"

definition get_statistics :: "'q node_scheduler \<Rightarrow> scheduler_statistics" where
  "get_statistics sd =
     \<lparr>ss_cpu_tasks_executed = ps_tasks_executed (sd_cpu sd), ss_qpu_tasks_executed = ps_tasks_executed (sd_qpu sd),
      ss_cpu_task_starts = ps_task_starts (sd_cpu sd), ss_qpu_task_starts = ps_task_starts (sd_qpu sd),
      ss_cpu_task_ends = ps_task_ends (sd_cpu sd), ss_qpu_task_ends = ps_task_ends (sd_qpu sd)\<rparr>"

definition stat_pids :: "scheduler_statistics \<Rightarrow> int list" where
  "stat_pids st = remdups (map (task_pid \<circ> snd) (ss_cpu_tasks_executed st) @ map (task_pid \<circ> snd) (ss_qpu_tasks_executed st))"

definition num_cpu_tasks_executed :: "scheduler_statistics \<Rightarrow> int" where
  "num_cpu_tasks_executed st = int (length (ss_cpu_tasks_executed st))"

definition num_qpu_tasks_executed :: "scheduler_statistics \<Rightarrow> int" where
  "num_qpu_tasks_executed st = int (length (ss_qpu_tasks_executed st))"

definition num_tasks_executed :: "scheduler_statistics \<Rightarrow> int" where
  "num_tasks_executed st = num_cpu_tasks_executed st + num_qpu_tasks_executed st"

end
