(* ===== verification/NetstackExec.thy ===== *)
theory NetstackExec
  imports NetstackProc QnosExec
begin

text \<open>
  What the network stack does to the qubits of a node: which qubits a request for pairs leaves
  allocated, that the bookkeeping of the memory manager stays consistent through every handler,
  and that other processes keep their qubits.
\<close>

section \<open>Effect of the steps on the mapping of qubits\<close>

lemma mm_inv_cong:
  assumes "mm_process_mappings mm' = mm_process_mappings mm"
    "mm_physical_mapping mm' = mm_physical_mapping mm"
    "qd_topology (mm_qdevice mm') = qd_topology (mm_qdevice mm)"
    "length (qd_in_use (mm_qdevice mm')) = length (qd_in_use (mm_qdevice mm))"
  shows "phys_of mm' = phys_of mm" "owner mm' = owner mm" "mm_inv mm' = mm_inv mm"
proof -
  show p: "phys_of mm' = phys_of mm" and o: "owner mm' = owner mm"
    using assms by (simp_all add: phys_of_def owner_def fun_eq_iff)
  have "device_ok (mm_qdevice mm') = device_ok (mm_qdevice mm)"
    "vmap_ok (mm_qdevice mm') = vmap_ok (mm_qdevice mm)"
    "qd_all_qubit_ids (mm_qdevice mm') = qd_all_qubit_ids (mm_qdevice mm)"
    using assms(3,4) by (simp_all add: device_ok_def vmap_ok_def same_kind_def qd_all_qubit_ids_def
        qd_comm_qubit_ids_def qd_non_comm_qubit_ids_def fun_eq_iff)
  with assms p o show "mm_inv mm' = mm_inv mm" by (simp add: mm_inv_def)
qed

text \<open>Two states of a node whose processes have the same qubits.\<close>

definition same_qubits :: "'q qpu \<Rightarrow> 'q qpu \<Rightarrow> bool" where
  "same_qubits s s' \<longleftrightarrow> qs_pid s' = qs_pid s \<and> mm_processes (qs_mm s') = mm_processes (qs_mm s) \<and>
     phys_of (qs_mm s') = phys_of (qs_mm s) \<and> owner (qs_mm s') = owner (qs_mm s) \<and>
     mm_inv (qs_mm s') = mm_inv (qs_mm s)"

lemma same_qubits_refl [simp]: "same_qubits s s"
  by (simp add: same_qubits_def)

lemma same_qubits_trans: "same_qubits s s1 \<Longrightarrow> same_qubits s1 s2 \<Longrightarrow> same_qubits s s2"
  by (simp add: same_qubits_def)

lemma qnos_frame_same_qubits: "qnos_frame out s s' \<Longrightarrow> same_qubits s s'"
  unfolding same_qubits_def qnos_frame_def Let_def
  using mm_inv_cong [of "qs_mm s'" "qs_mm s"] by simp

lemma local_routine_same_qubits:
  assumes "assign_local_routine env name ain aout s = Inr s'"
  shows "same_qubits s s'"
proof -
  from assms obtain running len s1 where
    s1: "s1 = s\<lparr>qs_process := set_qnos_mem (add_running_local_routine running (pc_qnos_mem (qs_process s)))
      (qs_process s)\<rparr>" and run: "run_routine (qe_fuel env) env name len 0 s1 = Inr s'"
    by (auto simp: assign_local_routine_def qnos_instantiate_def)
  have "same_qubits s s1" by (simp add: same_qubits_def s1)
  moreover have "same_qubits s1 s'"
  proof (cases "get_running_local_routine name (pc_qnos_mem (qs_process s1))")
    case (Inl e)
    with run have "s' = s1"
      by (cases "qe_fuel env") (auto simp: assign_routine_instr_def split: if_splits)
    then show ?thesis by simp
  next
    case (Inr r)
    from frame_run [OF run Inr refl] show ?thesis by (rule qnos_frame_same_qubits)
  qed
  ultimately show ?thesis by (rule same_qubits_trans)
qed

lemma commands_same_qubits: "run_commands env cmds s = Inr (r, s') \<Longrightarrow> same_qubits s s'"
  by (rule qnos_frame_same_qubits) (rule frame_commands)

lemma measure_same_qubits: "measure_epr_qubit env v s = Inr (m, s') \<Longrightarrow> same_qubits s s'"
  by (auto simp: measure_epr_qubit_def split: option.splits dest: commands_same_qubits)

lemma commands_process: "run_commands env cmds s = Inr (r, s') \<Longrightarrow> qs_process s' = qs_process s"
  by (auto simp: run_commands_def qs_wait_def)

lemma measure_process: "measure_epr_qubit env v s = Inr (m, s') \<Longrightarrow> qs_process s' = qs_process s"
  by (auto simp: measure_epr_qubit_def split: option.splits dest: commands_process)

lemma write_same_qubits: "write_outcomes a ms s = Inr s' \<Longrightarrow> same_qubits s s'"
  by (auto simp: write_outcomes_def same_qubits_def qs_set_shared_def)

lemma execute_request:
  assumes "execute_entdist_request env req s = Inr (result, s')"
  shows "same_qubits s s'" "qs_process s' = qs_process s"
    "qs_sent s' = qs_sent s @ [\<lparr>src_pid = - 1, dst_pid = - 1, content = req\<rparr>]"
proof -
  from assms obtain m s1 where s1: "receive_entdist_msg (send_entdist_msg req s) = Inr (m, s1)"
    and s': "s' = (if content m \<noteq> None then s1\<lparr>qs_mm := (qs_mm s1)\<lparr>mm_qdevice :=
        received_half env (er_local_qubit_id req) (mm_qdevice (qs_mm s1))\<rparr>\<rparr> else s1)"
    by (auto simp: execute_entdist_request_def split: if_splits)
  from s1 obtain ib where ib: "s1 = (send_entdist_msg req s)\<lparr>qs_inbox := ib\<rparr>"
    by (auto simp: receive_entdist_msg_def)
  have "qd_topology (received_half env q d) = qd_topology d"
    "length (qd_in_use (received_half env q d)) = length (qd_in_use d)" for q d
    by (simp_all add: received_half_def split: option.split)
  then have mm: "mm_process_mappings (qs_mm s') = mm_process_mappings (qs_mm s)"
    "mm_physical_mapping (qs_mm s') = mm_physical_mapping (qs_mm s)"
    "qd_topology (mm_qdevice (qs_mm s')) = qd_topology (mm_qdevice (qs_mm s))"
    "length (qd_in_use (mm_qdevice (qs_mm s'))) = length (qd_in_use (mm_qdevice (qs_mm s)))"
    by (simp_all add: s' ib send_entdist_msg_def)
  have pr: "mm_processes (qs_mm s') = mm_processes (qs_mm s)"
    by (simp add: s' ib send_entdist_msg_def)
  show p: "qs_process s' = qs_process s"
    "qs_sent s' = qs_sent s @ [\<lparr>src_pid = - 1, dst_pid = - 1, content = req\<rparr>]"
    by (simp_all add: s' ib send_entdist_msg_def)
  show "same_qubits s s'" using mm_inv_cong [OF mm] p pr by (simp add: same_qubits_def)
qed

text \<open>
  A request for one pair: a free physical qubit becomes the process's, and one message goes out
  that names this qubit.
\<close>

lemma allocate_processes: "allocate pid v mm = Inr (p, mm') \<Longrightarrow> mm_processes mm' = mm_processes mm"
  by (erule allocate_Inr) (simp add: assign_phys_def)

lemma free_processes: "mm_free pid v mm = Inr mm' \<Longrightarrow> mm_processes mm' = mm_processes mm"
  by (erule free_Inr) (simp add: clear_phys_def)

lemma request_pair_effect:
  assumes "request_pair env request i s = Inr (v, result, s')"
  obtains p m where "get_id (rq_virt_ids request) i = Inr v" "phys_of (qs_mm s) (qs_pid s, v) = None"
    "owner (qs_mm s) p = None" "phys_of (qs_mm s') = (phys_of (qs_mm s))((qs_pid s, v) \<mapsto> p)"
    "mm_inv (qs_mm s) \<Longrightarrow> mm_inv (qs_mm s')" "qs_process s' = qs_process s"
    "qs_sent s' = qs_sent s @ [m]" "er_local_qubit_id (content m) = Some p"
    "er_local_node_id (content m) = qe_node_id env" "mm_processes (qs_mm s') = mm_processes (qs_mm s)"
proof -
  from assms obtain p mm req where a: "get_id (rq_virt_ids request) i = Inr v"
    "allocate (qs_pid s) v (qs_mm s) = Inr (p, mm)"
    "create_entdist_request env request v (s\<lparr>qs_mm := mm\<rparr>) = Inr req"
    "execute_entdist_request env req (s\<lparr>qs_mm := mm\<rparr>) = Inr (result, s')"
    by (auto simp: request_pair_def allocate_for_pair_def)
  note al = allocate_phys_of [OF a(2)]
  note ex = execute_request [OF a(4)]
  have "er_local_qubit_id req = Some p" "er_local_node_id req = qe_node_id env"
    using a(3) al(3) phys_id_for_Some [of "qs_pid s" v mm p] by (auto simp: create_entdist_request_def)
  with that [of p "\<lparr>src_pid = - 1, dst_pid = - 1, content = req\<rparr>"] a(1) al ex allocate_inv [OF _ a(2)]
    allocate_processes [OF a(2)]
  show thesis by (auto simp: same_qubits_def)
qed

lemma free_effect:
  assumes "mm_inv (qs_mm s)" "qs_free v s = Inr s'"
  shows "phys_of (qs_mm s') = (phys_of (qs_mm s))((qs_pid s, v) := None)" "mm_inv (qs_mm s')"
    "qs_process s' = qs_process s" "qs_sent s' = qs_sent s"
proof -
  from assms(2) obtain mm where mm: "mm_free (qs_pid s) v (qs_mm s) = Inr mm" "s' = s\<lparr>qs_mm := mm\<rparr>"
    by (auto simp: qs_free_def)
  with free_phys_of [OF assms(1) mm(1)] free_inv [OF assms(1) mm(1)]
  show "phys_of (qs_mm s') = (phys_of (qs_mm s))((qs_pid s, v) := None)" "mm_inv (qs_mm s')"
    "qs_process s' = qs_process s" "qs_sent s' = qs_sent s" by auto
qed

text \<open>One round of a request that keeps its pairs.\<close>

lemma keep_pair_effect:
  assumes "mm_inv (qs_mm s)" "keep_pair env request i s = Inr (ok, s')"
  obtains v p m where "get_id (rq_virt_ids request) i = Inr v" "phys_of (qs_mm s) (qs_pid s, v) = None"
    "phys_of (qs_mm s') = (if ok then (phys_of (qs_mm s))((qs_pid s, v) \<mapsto> p) else phys_of (qs_mm s))"
    "mm_inv (qs_mm s')" "qs_process s' = qs_process s"
    "qs_sent s' = qs_sent s @ [m]" "er_local_qubit_id (content m) = Some p"
proof -
  from assms(2) obtain v s1 where r: "request_pair env request i s = Inr (v, ok, s1)"
    and f: "if ok then s' = s1 else qs_free v s1 = Inr s'"
    by (auto simp: keep_pair_def split: if_splits)
  obtain p m where e: "get_id (rq_virt_ids request) i = Inr v" "phys_of (qs_mm s) (qs_pid s, v) = None"
    "phys_of (qs_mm s1) = (phys_of (qs_mm s))((qs_pid s, v) \<mapsto> p)" "mm_inv (qs_mm s1)"
    "qs_process s1 = qs_process s" "qs_sent s1 = qs_sent s @ [m]" "er_local_qubit_id (content m) = Some p"
    using request_pair_effect [OF r] assms(1) by metis
  show thesis
  proof (cases ok)
    case True
    with e f that show thesis by simp
  next
    case False
    with free_effect [OF e(4)] f e that show thesis by (simp add: fun_upd_idem)
  qed
qed

lemma keep_pairs_effect:
  assumes "mm_inv (qs_mm s)" "keep_pairs env request is s = Inr (ok, s')"
  shows "\<exists>vs ps rest. rmap (get_id (rq_virt_ids request)) (take (length vs) is) = Inr vs \<and> distinct vs \<and>
    (\<forall>v \<in> set vs. phys_of (qs_mm s) (qs_pid s, v) = None) \<and> length ps = length vs \<and>
    phys_of (qs_mm s') = phys_of (qs_mm s) ++ map_of (zip (map (Pair (qs_pid s)) vs) ps) \<and>
    mm_inv (qs_mm s') \<and> qs_process s' = qs_process s \<and>
    map (\<lambda>m. er_local_qubit_id (content m)) (qs_sent s') =
      map (\<lambda>m. er_local_qubit_id (content m)) (qs_sent s) @ map Some (ps @ rest) \<and>
    (if ok then length vs = length is \<and> rest = [] else length vs < length is \<and> length rest = 1)"
  using assms
proof (induction "is" arbitrary: s)
  case Nil
  then show ?case by (intro exI [of _ "[]"]) auto
next
  case (Cons i "is")
  from Cons.prems(2) obtain ok1 s1 where r: "keep_pair env request i s = Inr (ok1, s1)"
    and l: "if ok1 then keep_pairs env request is s1 = Inr (ok, s') else \<not> ok \<and> s' = s1"
    by (auto split: if_splits)
  from keep_pair_effect [OF Cons.prems(1) r] obtain v p m where
    e: "get_id (rq_virt_ids request) i = Inr v" "phys_of (qs_mm s) (qs_pid s, v) = None"
    "phys_of (qs_mm s1) = (if ok1 then (phys_of (qs_mm s))((qs_pid s, v) \<mapsto> p) else phys_of (qs_mm s))"
    "mm_inv (qs_mm s1)" "qs_process s1 = qs_process s"
    "qs_sent s1 = qs_sent s @ [m]" "er_local_qubit_id (content m) = Some p" by metis
  show ?case
  proof (cases ok1)
    case False
    with l e show ?thesis by (intro exI [of _ "[]"] exI [of _ "[p]"]) auto
  next
    case True
    with Cons.IH [OF e(4)] l obtain vs ps rest where
      t: "rmap (get_id (rq_virt_ids request)) (take (length vs) is) = Inr vs" "distinct vs"
      "\<forall>w \<in> set vs. phys_of (qs_mm s1) (qs_pid s, w) = None" "length ps = length vs"
      "phys_of (qs_mm s') = phys_of (qs_mm s1) ++ map_of (zip (map (Pair (qs_pid s)) vs) ps)"
      "mm_inv (qs_mm s')" "qs_process s' = qs_process s"
      "map (\<lambda>m. er_local_qubit_id (content m)) (qs_sent s') =
        map (\<lambda>m. er_local_qubit_id (content m)) (qs_sent s1) @ map Some (ps @ rest)"
      "if ok then length vs = length is \<and> rest = [] else length vs < length is \<and> length rest = 1"
      using e(5) by auto
    have new: "v \<notin> set vs" using t(3) e(3) True by auto
    then have "(qs_pid s, v) \<notin> dom (map_of (zip (map (Pair (qs_pid s)) vs) ps))"
      using t(4) by auto
    then have ph: "phys_of (qs_mm s') = phys_of (qs_mm s) ++ map_of (zip (map (Pair (qs_pid s)) (v # vs)) (p # ps))"
      using t(5) e(3) True by (simp add: map_add_upd_left)
    have ids: "rmap (get_id (rq_virt_ids request)) (take (length (v # vs)) (i # is)) = Inr (v # vs)"
      using t(1) e(1) by simp
    have free: "\<forall>w \<in> set (v # vs). phys_of (qs_mm s) (qs_pid s, w) = None"
      using t(3) e(2,3) new True by (auto split: if_splits)
    have sent: "map (\<lambda>m. er_local_qubit_id (content m)) (qs_sent s') =
        map (\<lambda>m. er_local_qubit_id (content m)) (qs_sent s) @ map Some ((p # ps) @ rest)"
      unfolding t(8) e(6) by (simp add: e(7))
    have "if ok then length (v # vs) = length (i # is) \<and> rest = []
        else length (v # vs) < length (i # is) \<and> length rest = 1" using t(9) by simp
    moreover have "distinct (v # vs)" "length (p # ps) = length (v # vs)" using t(2,4) new by simp_all
    ultimately show ?thesis using ids free ph t(6,7) sent by blast
  qed
qed

text \<open>One round of a request that measures its pairs.\<close>

lemma measure_pair_effect:
  assumes "mm_inv (qs_mm s)" "measure_pair env request i s = Inr (m, s')"
  shows "phys_of (qs_mm s') = phys_of (qs_mm s)" "mm_inv (qs_mm s')"
    "pc_shared_mem (qs_process s') = pc_shared_mem (qs_process s)" "qs_pid s' = qs_pid s"
proof -
  from assms(2) obtain v result s1 where r: "request_pair env request i s = Inr (v, result, s1)"
    and "\<exists>s2. (s2 = s1 \<or> (\<exists>k. measure_epr_qubit env v s1 = Inr (k, s2))) \<and> qs_free v s2 = Inr s'"
    by (fastforce simp: measure_pair_def split: if_splits)
  then obtain s2 where m: "s2 = s1 \<or> (\<exists>k. measure_epr_qubit env v s1 = Inr (k, s2))"
    and f: "qs_free v s2 = Inr s'" by blast
  obtain p where e: "phys_of (qs_mm s) (qs_pid s, v) = None" "mm_inv (qs_mm s1)"
    "phys_of (qs_mm s1) = (phys_of (qs_mm s))((qs_pid s, v) \<mapsto> p)" "qs_process s1 = qs_process s"
    using request_pair_effect [OF r] assms(1) by metis
  from m have q: "same_qubits s1 s2" by (auto dest: measure_same_qubits)
  from m have sh: "qs_process s2 = qs_process s1"
    using measure_process by blast
  have i2: "mm_inv (qs_mm s2)" using e(2) q by (simp add: same_qubits_def)
  note fr = free_effect [OF i2 f]
  have "phys_of (qs_mm s2) = phys_of (qs_mm s1)" using q by (simp add: same_qubits_def)
  then have "phys_of (qs_mm s2) = (phys_of (qs_mm s))((qs_pid s, v) \<mapsto> p)" by (simp only: e(3))
  moreover have "qs_pid s2 = qs_pid s" by (simp only: sh e(4))
  ultimately show "phys_of (qs_mm s') = phys_of (qs_mm s)"
    using fr(1) e(1) by (simp add: fun_upd_idem)
  show "mm_inv (qs_mm s')" by (rule fr(2))
  show "pc_shared_mem (qs_process s') = pc_shared_mem (qs_process s)" "qs_pid s' = qs_pid s"
    by (simp_all only: fr(3) sh e(4))
qed

lemma measure_pairs_effect:
  assumes "mm_inv (qs_mm s)" "measure_pairs env request is acc s = Inr (outcomes, s')"
  shows "phys_of (qs_mm s') = phys_of (qs_mm s) \<and> mm_inv (qs_mm s') \<and>
    pc_shared_mem (qs_process s') = pc_shared_mem (qs_process s) \<and> qs_pid s' = qs_pid s \<and>
    (\<forall>ms. outcomes = Some ms \<longrightarrow> length ms = length acc + length is)"
  using assms
proof (induction "is" arbitrary: acc s)
  case (Cons i "is")
  then obtain m s1 where r: "measure_pair env request i s = Inr (m, s1)"
    and l: "case m of None \<Rightarrow> outcomes = None \<and> s' = s1
      | Some v \<Rightarrow> measure_pairs env request is (acc @ [v]) s1 = Inr (outcomes, s')"
    by (auto split: option.splits)
  note e = measure_pair_effect [OF Cons.prems(1) r]
  show ?case
  proof (cases m)
    case None
    with l e show ?thesis by simp
  next
    case (Some v)
    with l have "measure_pairs env request is (acc @ [v]) s1 = Inr (outcomes, s')" by simp
    from Cons.IH [OF e(2) this] e show ?thesis by simp
  qed
qed auto

section \<open>Other processes keep their qubits\<close>

definition keeps_others :: "'q qpu \<Rightarrow> 'q qpu \<Rightarrow> bool" where
  "keeps_others s s' \<longleftrightarrow> qs_pid s' = qs_pid s \<and> mm_processes (qs_mm s') = mm_processes (qs_mm s) \<and> (mm_inv (qs_mm s) \<longrightarrow> mm_inv (qs_mm s') \<and>
     (\<forall>k. fst k \<noteq> qs_pid s \<longrightarrow> phys_of (qs_mm s') k = phys_of (qs_mm s) k))"

lemma keeps_others_refl [simp]: "keeps_others s s"
  by (simp add: keeps_others_def)

lemma keeps_others_trans [trans]: "keeps_others s s1 \<Longrightarrow> keeps_others s1 s2 \<Longrightarrow> keeps_others s s2"
  by (simp add: keeps_others_def)

lemma same_keeps_others: "same_qubits s s' \<Longrightarrow> keeps_others s s'"
  by (simp add: same_qubits_def keeps_others_def)

lemma keeps_others_rfold:
  assumes "rfold f xs s = Inr s'" "\<And>x s s'. f x s = Inr s' \<Longrightarrow> keeps_others s s'"
  shows "keeps_others s s'"
  by (rule rfold_invariant [OF assms(1)]) (auto intro: keeps_others_trans [OF _ assms(2)])

named_theorems keeps

lemma keeps_request [keeps]: "request_pair env request i s = Inr (v, result, s') \<Longrightarrow> keeps_others s s'"
  by (erule request_pair_effect) (auto simp: keeps_others_def)

lemma keeps_free [keeps]: "qs_free v s = Inr s' \<Longrightarrow> keeps_others s s'"
proof -
  assume f: "qs_free v s = Inr s'"
  then have "qs_pid s' = qs_pid s" "mm_processes (qs_mm s') = mm_processes (qs_mm s)"
    by (auto simp: qs_free_def free_processes)
  with free_effect [OF _ f] show ?thesis by (auto simp: keeps_others_def)
qed

lemma keeps_measure [keeps]: "measure_epr_qubit env v s = Inr (m, s') \<Longrightarrow> keeps_others s s'"
  by (rule same_keeps_others) (rule measure_same_qubits)

lemma keeps_write [keeps]: "write_outcomes a ms s = Inr s' \<Longrightarrow> keeps_others s s'"
  by (rule same_keeps_others) (rule write_same_qubits)

lemma keeps_local [keeps]: "assign_local_routine env name ain aout s = Inr s' \<Longrightarrow> keeps_others s s'"
  by (rule same_keeps_others) (rule local_routine_same_qubits)

lemma keeps_allocate_unmapped [keeps]: "allocate_unmapped v s = Inr s' \<Longrightarrow> keeps_others s s'"
  by (auto simp: allocate_unmapped_def keeps_others_def allocate_phys_of(3) allocate_processes
      split: if_splits dest: allocate_inv)

lemma keeps_free_unless_kept [keeps]: "free_unless_kept keep v s = Inr s' \<Longrightarrow> keeps_others s s'"
  by (auto simp: free_unless_kept_def split: if_splits intro: keeps)

lemma keeps_callback [keeps]:
  assumes "run_callback qnos running i s = Inr s'"
  shows "keeps_others s s'"
proof -
  from assms obtain r :: local_routine and s1 s2 cb ain aout where
    "rfold allocate_unmapped (qubit_use (lr_metadata r)) s = Inr s1"
    "assign_local_routine qnos cb ain aout s1 = Inr s2"
    "rfold (free_unless_kept (qubit_keep (lr_metadata r))) (qubit_use (lr_metadata r)) s2 = Inr s'"
    by (auto simp: run_callback_def split: option.splits)
  then have "keeps_others s s1" "keeps_others s1 s2" "keeps_others s2 s'"
    by (auto intro: keeps keeps_others_rfold)
  then show ?thesis by (blast intro: keeps_others_trans)
qed

lemma keeps_optional_callback [keeps]: "optional_callback qnos running i s = Inr s' \<Longrightarrow> keeps_others s s'"
  by (auto simp: optional_callback_def split: option.splits intro: keeps)

lemma keeps_pair [keeps]: "keep_pair env request i s = Inr (ok, s') \<Longrightarrow> keeps_others s s'"
  by (auto simp: keep_pair_def split: if_splits intro: keeps keeps_others_trans)

lemma keeps_pairs [keeps]: "keep_pairs env request is s = Inr (ok, s') \<Longrightarrow> keeps_others s s'"
  by (induction "is" arbitrary: s) (auto split: if_splits intro: keeps keeps_others_trans)

lemma keeps_measure_pair [keeps]:
  assumes "measure_pair env request i s = Inr (m, s')"
  shows "keeps_others s s'"
proof -
  from assms obtain v result s1 where r: "request_pair env request i s = Inr (v, result, s1)"
    and "\<exists>s2. (s2 = s1 \<or> (\<exists>k. measure_epr_qubit env v s1 = Inr (k, s2))) \<and> qs_free v s2 = Inr s'"
    by (fastforce simp: measure_pair_def split: if_splits)
  then obtain s2 where "s2 = s1 \<or> (\<exists>k. measure_epr_qubit env v s1 = Inr (k, s2))"
    and f: "qs_free v s2 = Inr s'" by blast
  then have "keeps_others s1 s2" by (auto intro: keeps)
  with f keeps_request [OF r] show ?thesis by (blast intro: keeps keeps_others_trans)
qed

lemma keeps_measure_pairs [keeps]:
  "measure_pairs env request is acc s = Inr (ms, s') \<Longrightarrow> keeps_others s s'"
proof (induction "is" arbitrary: acc s)
  case (Cons i "is")
  then obtain m s1 where "measure_pair env request i s = Inr (m, s1)" "keeps_others s1 s'"
    by (auto split: option.splits)
  then show ?case by (blast intro: keeps keeps_others_trans)
qed simp

lemma keeps_handle [keeps]:
  "handle_multi_pair env name s = Inr (ok, s') \<Longrightarrow> keeps_others s s'"
  by (auto simp: handle_multi_pair_def handle_multi_pair_ck_def handle_multi_pair_md_def Let_def
      split: epr_type.splits option.splits intro: keeps keeps_others_trans) (metis epr_type.exhaust)

lemma keeps_measure_any:
  assumes "rfold (measure_any_pair env request) is (ms, s) = Inr (ms', s')"
  shows "keeps_others s s'"
proof -
  have step: "keeps_others s (snd st2)" if "measure_any_pair env request i st = Inr st2" "keeps_others s (snd st)"
    for i st st2
  proof -
    obtain ms s0 where st: "st = (ms, s0)" by (cases st)
    with that(1) obtain v result s1 m s2 where "request_pair env request i s0 = Inr (v, result, s1)"
      "measure_epr_qubit env v s1 = Inr (m, s2)" "qs_free v s2 = Inr (snd st2)"
      by (auto simp: measure_any_pair_def)
    then have "keeps_others s0 s1" "keeps_others s1 s2" "keeps_others s2 (snd st2)" by (auto intro: keeps)
    with that(2) st show ?thesis by (auto intro: keeps_others_trans)
  qed
  from rfold_invariant [OF assms, of "\<lambda>st. keeps_others s (snd st)"] step show ?thesis by auto
qed

lemma keeps_req_md [keeps]: "handle_req_routine_md env name s = Inr s' \<Longrightarrow> keeps_others s s'"
  by (auto simp: handle_req_routine_md_def Let_def intro: keeps keeps_others_trans [OF keeps_measure_any])

lemma keeps_req_ck [keeps]:
  assumes "handle_req_routine_ck env qnos name s = Inr s'"
  shows "keeps_others s s'"
proof -
  from assms obtain running request "is" where
    "(rfold (\<lambda>i s. rbind (request_pair env request i s) (\<lambda>(v, result, s1).
        optional_callback qnos running i s1)) is s = Inr s') \<or>
     (\<exists>s1. rfold (\<lambda>i s. rbind (request_pair env request i s) (\<lambda>(v, result, s1). Inr s1)) is s = Inr s1 \<and>
        optional_callback qnos running 0 s1 = Inr s')"
    by (auto simp: handle_req_routine_ck_def Let_def split: if_splits)
  then show ?thesis
  proof (elim disjE exE conjE)
    assume "rfold (\<lambda>i s. rbind (request_pair env request i s) (\<lambda>(v, result, s1).
        optional_callback qnos running i s1)) is s = Inr s'"
    then show ?thesis
      by (rule keeps_others_rfold) (auto intro: keeps_others_trans [OF keeps_request keeps_optional_callback])
  next
    fix s1
    assume "rfold (\<lambda>i s. rbind (request_pair env request i s) (\<lambda>(v, result, s1). Inr s1)) is s = Inr s1"
      and "optional_callback qnos running 0 s1 = Inr s'"
    then have "keeps_others s s1" "keeps_others s1 s'"
      by (auto elim!: keeps_others_rfold intro: keeps)
    then show ?thesis by (rule keeps_others_trans)
  qed
qed

lemma keeps_assign [keeps]: "assign_request_routine env qnos rrcall s = Inr s' \<Longrightarrow> keeps_others s s'"
proof -
  assume a: "assign_request_routine env qnos rrcall s = Inr s'"
  then obtain s1 where s1: "netstack_instantiate rrcall (pc_inputs (qs_process s)) s = Inr s1"
    and r: "handle_req_routine_ck env qnos (rc_routine_name rrcall) s1 = Inr s' \<or>
      handle_req_routine_md env (rc_routine_name rrcall) s1 = Inr s'"
    by (cases "rq_typ (rr_request (projr (get_request_routine (qs_process s) (rc_routine_name rrcall))))")
      (auto simp: assign_request_routine_def)
  have "keeps_others s s1" using s1 by (auto simp: netstack_instantiate_def Let_def keeps_others_def)
  with r show ?thesis by (blast intro: keeps keeps_others_trans)
qed

end
