(* ===== verification/NetstackRun.thy ===== *)
theory NetstackRun
  imports NetstackExec
begin

text \<open>The properties of the network stack and the examples they are applied to.\<close>

section \<open>Properties\<close>

text \<open>C36: No handler of the network stack breaks the bookkeeping of the memory manager or moves a
qubit of another process: multi-pair requests, single-pair requests, both kinds of callbacks
(which run a local routine) and whole request routines preserve the invariant of the manager, and
every virtual qubit of another process stays where it is.\<close>

theorem netstack_keeps_other_processes:
  assumes "mm_inv (qs_mm s)"
    and "handle_multi_pair env name s = Inr (ok, s') \<or> handle_single_pair env name i s = Inr (ok, s') \<or>
      handle_multi_pair_callback qnos name s = Inr s' \<or>
      handle_single_pair_callback qnos name i s = Inr s' \<or>
      assign_request_routine env opt rrcall s = Inr s'"
  shows "mm_inv (qs_mm s') \<and> (\<forall>pid v. pid \<noteq> qs_pid s \<longrightarrow>
    phys_of (qs_mm s') (pid, v) = phys_of (qs_mm s) (pid, v))"
proof -
  have "keeps_others s s'"
    using assms(2) by (auto simp: handle_single_pair_def handle_multi_pair_callback_def
        handle_single_pair_callback_def intro: keeps)
  with assms(1) show ?thesis by (auto simp: keeps_others_def)
qed

text \<open>C35: A create-and-keep request for n pairs either answers yes, and then exactly the virtual qubits
that its ID mapping names for the indices 0 to n - 1 have been added to the qubits of the process,
or answers no at some pair, and then exactly the qubits of the pairs before it stay allocated. In
both cases one message per attempted pair has gone to the entanglement distributor, in order, each
naming the physical qubit allocated for the pair.\<close>

theorem keep_request_outcome:
  assumes "mm_inv (qs_mm s)" "running_request name s = Inr running"
    and "request = rr_request (rq_routine running)" "rq_num_pairs request = IntNum n"
    and "handle_multi_pair_ck env name s = Inr (ok, s')"
  shows "\<exists>vs ps rest. rmap (get_id (rq_virt_ids request)) [0..int (length vs) - 1] = Inr vs \<and>
    length ps = length vs \<and>
    phys_of (qs_mm s') = phys_of (qs_mm s) ++ map_of (zip (map (Pair (qs_pid s)) vs) ps) \<and>
    (\<forall>v \<in> set vs. phys_of (qs_mm s) (qs_pid s, v) = None) \<and>
    map (\<lambda>m. er_local_qubit_id (content m)) (qs_sent s') =
      map (\<lambda>m. er_local_qubit_id (content m)) (qs_sent s) @ map Some (ps @ rest) \<and>
    (if ok then int (length vs) = max 0 n \<and> rest = [] else int (length vs) < n \<and> length rest = 1)"
proof -
  from assms have "keep_pairs env request [0..n - 1] s = Inr (ok, s')"
    by (auto simp: handle_multi_pair_ck_def Let_def)
  from keep_pairs_effect [OF assms(1) this] obtain vs ps rest where
    r: "rmap (get_id (rq_virt_ids request)) (take (length vs) [0..n - 1]) = Inr vs"
    "\<forall>v \<in> set vs. phys_of (qs_mm s) (qs_pid s, v) = None" "length ps = length vs"
    "phys_of (qs_mm s') = phys_of (qs_mm s) ++ map_of (zip (map (Pair (qs_pid s)) vs) ps)"
    "map (\<lambda>m. er_local_qubit_id (content m)) (qs_sent s') =
      map (\<lambda>m. er_local_qubit_id (content m)) (qs_sent s) @ map Some (ps @ rest)"
    "if ok then length vs = length [0..n - 1] \<and> rest = [] else length vs < length [0..n - 1] \<and> length rest = 1"
    by blast
  have len: "length vs \<le> nat n" using r(6) by (auto split: if_splits)
  have "take (length vs) [0..n - 1] = [0..int (length vs) - 1]"
    using len by (auto intro!: nth_equalityI)
  moreover have "if ok then int (length vs) = max 0 n \<and> rest = [] else int (length vs) < n \<and> length rest = 1"
    using r(6) by (auto split: if_splits)
  ultimately show ?thesis using r by metis
qed

text \<open>A measure-directly request leaves no qubit behind: whatever the answers of the distributor,
afterwards the qubits of all processes are where they were. If all pairs were delivered, the
shared memory has the outcomes, one per pair, in the result array of the request; if a pair was
refused, the shared memory is unchanged.\<close>

theorem measure_request_outcome:
  assumes "mm_inv (qs_mm s)" "running_request name s = Inr running"
    and "rq_num_pairs (rr_request (rq_routine running)) = IntNum n"
    and "handle_multi_pair_md env name s = Inr (ok, s')"
  shows "phys_of (qs_mm s') = phys_of (qs_mm s) \<and> mm_inv (qs_mm s') \<and>
    (if ok then \<exists>ms. int (length ms) = max 0 n \<and>
       write_rr_out (rq_result_addr running) ms 0 (pc_shared_mem (qs_process s)) =
         Inr (pc_shared_mem (qs_process s'))
     else pc_shared_mem (qs_process s') = pc_shared_mem (qs_process s))"
proof -
  from assms obtain outcomes s1 where
    r: "measure_pairs env (rr_request (rq_routine running)) [0..n - 1] [] s = Inr (outcomes, s1)"
    and w: "case outcomes of None \<Rightarrow> \<not> ok \<and> s' = s1
      | Some ms \<Rightarrow> ok \<and> write_outcomes (rq_result_addr running) ms s1 = Inr s'"
    by (auto simp: handle_multi_pair_md_def Let_def split: option.splits)
  note e = measure_pairs_effect [OF assms(1) r]
  show ?thesis
  proof (cases outcomes)
    case None
    with e w show ?thesis by simp
  next
    case (Some ms)
    with w have "ok" "write_outcomes (rq_result_addr running) ms s1 = Inr s'" by simp_all
    moreover from this have "same_qubits s1 s'" "write_rr_out (rq_result_addr running) ms 0 (pc_shared_mem (qs_process s1)) =
        Inr (pc_shared_mem (qs_process s'))"
      by (auto simp: write_outcomes_def qs_set_shared_def same_qubits_def)
    moreover have "int (length ms) = max 0 n" using e Some by simp
    ultimately show ?thesis using e by (auto simp: same_qubits_def)
  qed
qed

text \<open>The handler of whole request routines does not look at the answer of the distributor: when a
pair is refused, it goes on as if the pair had arrived, and the qubit that was allocated for it
stays mapped although nothing is in it; the multi-pair handler frees the qubit and says no.\<close>

theorem whole_routine_ignores_refusal:
  assumes "mm_inv (qs_mm s)" "running_request name s = Inr running"
    and "rq_num_pairs (rr_request (rq_routine running)) = IntNum 1"
    and "rq_typ (rr_request (rq_routine running)) = CREATE_KEEP" "rr_callback (rq_routine running) = None"
    and "request_pair env (rr_request (rq_routine running)) 0 s = Inr (v, False, s1)"
  shows "handle_req_routine_ck env qnos name s = Inr s1 \<and> phys_of (qs_mm s1) (qs_pid s, v) \<noteq> None \<and>
    (\<exists>s2. handle_multi_pair_ck env name s = Inr (False, s2) \<and> phys_of (qs_mm s2) (qs_pid s, v) = None)"
proof -
  obtain p where p: "phys_of (qs_mm s1) = (phys_of (qs_mm s))((qs_pid s, v) \<mapsto> p)"
    "mm_inv (qs_mm s1)" "qs_process s1 = qs_process s"
    using request_pair_effect [OF assms(6)] assms(1) by metis
  from free_total [OF p(2), of "qs_pid s" v p] p(1,3) obtain mm where
    "mm_free (qs_pid s1) v (qs_mm s1) = Inr mm" by auto
  then have f: "qs_free v s1 = Inr (s1\<lparr>qs_mm := mm\<rparr>)" by (simp add: qs_free_def)
  have "handle_multi_pair_ck env name s = Inr (False, s1\<lparr>qs_mm := mm\<rparr>)"
    using assms f by (simp add: handle_multi_pair_ck_def Let_def upto.simps keep_pair_def)
  moreover have "handle_req_routine_ck env qnos name s = Inr s1"
    using assms by (simp add: handle_req_routine_ck_def Let_def upto.simps optional_callback_def)
  ultimately show ?thesis using p free_effect(1) [OF p(2) f] by auto
qed

section \<open>Examples and witnesses\<close>

text \<open>A node with two processes; process 0 runs a request for pairs whose answers are given.\<close>

definition sample_net_env :: "unit qpu_env" where
  "sample_net_env = \<lparr>qe_class = GenericProcessor,
     qe_hardware = \<lparr>hw_peek = \<lambda>q i. True, hw_execute = \<lambda>cmds q. (Some 1, 0, q)\<rparr>,
     qe_branch = \<lparr>check_unary = \<lambda>k a. a = 0, check_binary = \<lambda>k a b. a = b\<rparr>,
     qe_instantiate = \<lambda>pid args sub. Inr sub, qe_instr_time = 0, qe_node_id = 7, qe_put = \<lambda>i q. q, qe_fuel = 0\<rparr>"

definition sample_pairs :: "epr_type \<Rightarrow> int \<Rightarrow> request_routine" where
  "sample_pairs t n = \<lparr>rr_name = ''req'',
     rr_request = \<lparr>rq_name = ''req'', rq_remote_id = IntNum 8, rq_epr_socket_id = IntNum 0, rq_num_pairs = IntNum n,
       rq_virt_ids = \<lparr>vim_typ = INCREMENT, vim_single_value = Some (IntNum 0), vim_custom_values = None\<rparr>,
       rq_timeout = FloatNum 0, rq_fidelity = FloatNum 1, rq_typ = t, rq_role = CREATE\<rparr>,
     rr_return_vars = [], rr_callback_type = WAIT_ALL, rr_callback = None\<rparr>"

definition sample_request_running :: "epr_type \<Rightarrow> int \<Rightarrow> running_request_routine" where
  "sample_request_running t n = \<lparr>rq_routine = sample_pairs t n, rq_params_addr = MemAddr 0, rq_result_addr = MemAddr 0,
     rq_cb_input_addrs = [], rq_cb_output_addrs = []\<rparr>"

definition sample_net :: "epr_type \<Rightarrow> int \<Rightarrow> int option list \<Rightarrow> unit qpu" where
  "sample_net t n answers = \<lparr>qs_process = (sample_process 0)\<lparr>pc_memory := init_program_memory\<lparr>pm_qnos_mem :=
       add_running_request_routine (sample_request_running t n) init_qnos_memory\<rparr>,
       pc_epr_sockets := [(0, \<lparr>es_socket_id = 0, es_remote_id = 8, es_local_pid = 0, es_remote_pid = 5, es_fidelity = 1\<rparr>)]\<rparr>,
     qs_mm = sample_memmgr\<lparr>mm_qdevice := sample_device\<lparr>qd_phys_instrs := [(INSTR_MEASURE_INSTANT, None)]\<rparr>\<rparr>,
     qs_inbox = \<lparr>ib_listeners = [(''entdist'', [])],
       ib_arrivals = map (\<lambda>a. (1, ''entdist'', \<lparr>src_pid = - 1, dst_pid = - 1, content = a\<rparr>)) answers, ib_now = 0\<rparr>,
     qs_sent = []\<rparr>"

lemma sample_net_inv: "mm_inv (qs_mm (sample_net t n answers))"
proof -
  have "mm_inv sample_memmgr" by (rule mm_reachable_inv [OF sample_reachable sample_device_ok])
  moreover have "mm_qdevice sample_memmgr = sample_device"
    by (simp add: sample_memmgr_def add_process_def init_memmgr_def Let_def)
  ultimately show ?thesis
    using mm_inv_cong(3) [of "qs_mm (sample_net t n answers)" sample_memmgr] by (simp add: sample_net_def)
qed

lemma sample_net_running: "running_request ''req'' (sample_net t n answers) = Inr (sample_request_running t n)"
  by (simp add: running_request_def sample_net_def get_add_running_request sample_request_running_def sample_pairs_def)

lemma sample_net_request:
  "rr_request (rq_routine (sample_request_running t n)) = rr_request (sample_pairs t n)"
  "rq_num_pairs (rr_request (sample_pairs t n)) = IntNum n" "rq_typ (rr_request (sample_pairs t n)) = t"
  "rr_callback (sample_pairs t n) = None" "rq_routine (sample_request_running t n) = sample_pairs t n"
  by (simp_all add: sample_request_running_def sample_pairs_def)

lemma sample_keep_runs:
  "case handle_multi_pair_ck sample_net_env ''req'' (sample_net CREATE_KEEP 2 [Some 0, None]) of
     Inr (ok, s') \<Rightarrow> \<not> ok \<and> phys_of (qs_mm s') (0, 0) = Some 0 | Inl e \<Rightarrow> False"
  by code_simp

lemma sample_measure_runs:
  "case handle_multi_pair_md sample_net_env ''req'' (sample_net MEASURE_DIRECTLY 1 [None]) of
     Inr (ok, s') \<Rightarrow> \<not> ok | Inl e \<Rightarrow> False"
  by code_simp

lemma sample_refused:
  "case request_pair sample_net_env (rr_request (sample_pairs CREATE_KEEP 1)) 0 (sample_net CREATE_KEEP 1 [None]) of
     Inr (v, result, s') \<Rightarrow> v = 0 \<and> \<not> result | Inl e \<Rightarrow> False"
  by code_simp

theorem netstack_keeps_other_processes_witness:
  "\<exists>s'. handle_multi_pair_ck sample_net_env ''req'' (sample_net CREATE_KEEP 2 [Some 0, None]) = Inr (False, s') \<and>
     mm_inv (qs_mm s') \<and> phys_of (qs_mm s') (1, 0) = phys_of sample_memmgr (1, 0)"
proof -
  let ?s = "sample_net CREATE_KEEP 2 [Some 0, None]"
  obtain s' where r: "handle_multi_pair_ck sample_net_env ''req'' ?s = Inr (False, s')"
    using sample_keep_runs by (auto split: sum.splits)
  then have "handle_multi_pair sample_net_env ''req'' ?s = Inr (False, s')"
    by (simp add: handle_multi_pair_def sample_net_running sample_net_request)
  from netstack_keeps_other_processes [OF sample_net_inv disjI1 [OF this]]
  have "mm_inv (qs_mm s') \<and> phys_of (qs_mm s') (1, 0) = phys_of (qs_mm ?s) (1, 0)"
    by (simp add: sample_net_def sample_process_def)
  with r show ?thesis by (simp add: sample_net_def phys_of_def)
qed

theorem keep_request_outcome_witness:
  "\<exists>s' (vs :: int list). handle_multi_pair_ck sample_net_env ''req'' (sample_net CREATE_KEEP 2 [Some 0, None]) = Inr (False, s') \<and>
     int (length vs) < 2 \<and> length (qs_sent s') = length vs + 1 \<and> phys_of (qs_mm s') (0, 0) = Some 0"
proof -
  let ?s = "sample_net CREATE_KEEP 2 [Some 0, None]"
  obtain s' where r: "handle_multi_pair_ck sample_net_env ''req'' ?s = Inr (False, s')"
    "phys_of (qs_mm s') (0, 0) = Some 0"
    using sample_keep_runs by (auto split: sum.splits)
  obtain vs :: "int list" and ps rest :: "int list" where v:
    "length ps = length vs" "int (length vs) < 2" "length rest = 1"
    "map (\<lambda>m. er_local_qubit_id (content m)) (qs_sent s') =
      map (\<lambda>m. er_local_qubit_id (content m)) (qs_sent ?s) @ map Some (ps @ rest)"
    using keep_request_outcome [OF sample_net_inv sample_net_running refl _ r(1), of 2]
    by (auto simp: sample_net_request)
  have "length (qs_sent s') = length (qs_sent ?s) + length vs + 1"
    using arg_cong [OF v(4), of length] v(1,3) by simp
  then have "length (qs_sent s') = length vs + 1" by (simp add: sample_net_def)
  with v(2) r show ?thesis by blast
qed

theorem measure_request_outcome_witness:
  "\<exists>s'. handle_multi_pair_md sample_net_env ''req'' (sample_net MEASURE_DIRECTLY 1 [None]) = Inr (False, s') \<and>
     phys_of (qs_mm s') = phys_of (qs_mm (sample_net MEASURE_DIRECTLY 1 [None])) \<and>
     pc_shared_mem (qs_process s') = init_shared"
proof -
  obtain s' where r: "handle_multi_pair_md sample_net_env ''req'' (sample_net MEASURE_DIRECTLY 1 [None]) = Inr (False, s')"
    using sample_measure_runs by (auto split: sum.splits)
  from measure_request_outcome [OF sample_net_inv sample_net_running _ r, of 1] r show ?thesis
    by (simp add: sample_net_request) (simp add: sample_net_def init_program_memory_def)
qed

theorem whole_routine_ignores_refusal_witness:
  "\<exists>s1. handle_req_routine_ck sample_net_env None ''req'' (sample_net CREATE_KEEP 1 [None]) = Inr s1 \<and>
     phys_of (qs_mm s1) (0, 0) \<noteq> None"
proof -
  let ?s = "sample_net CREATE_KEEP 1 [None]"
  obtain s1 where "request_pair sample_net_env (rr_request (sample_pairs CREATE_KEEP 1)) 0 ?s = Inr (0, False, s1)"
    using sample_refused by (auto split: sum.splits)
  then have "request_pair sample_net_env (rr_request (rq_routine (sample_request_running CREATE_KEEP 1))) 0 ?s =
      Inr (0, False, s1)" by (simp add: sample_net_request)
  from whole_routine_ignores_refusal [OF sample_net_inv sample_net_running _ _ _ this, of None]
  have "handle_req_routine_ck sample_net_env None ''req'' ?s = Inr s1 \<and> phys_of (qs_mm s1) (qs_pid ?s, 0) \<noteq> None"
    by (simp add: sample_net_request)
  moreover have "qs_pid ?s = 0" by (simp add: sample_net_def sample_process_def)
  ultimately show ?thesis by auto
qed

end
