(* ===== verification/DriverRun.thy ===== *)
theory DriverRun
  imports Driver NetstackRun HostExec
begin

text \<open>
  What executing a task does to a node: it works on the process of the task only, keeps the
  bookkeeping of the qubits consistent, and finds the call tuple that the pre-call task of its
  call has left.
\<close>

section \<open>Tasks stay in their process\<close>

text \<open>Every process is stored under its own PID, and the qubits are accounted for.\<close>

definition node_ok :: "'q node \<Rightarrow> bool" where
  "node_ok n \<longleftrightarrow> mm_inv (nd_mm n) \<and> (\<forall>pid p. get_process pid (nd_mm n) = Inr p \<longrightarrow> pc_pid p = pid)"

definition stays_in :: "int \<Rightarrow> 'q node \<Rightarrow> 'q node \<Rightarrow> bool" where
  "stays_in pid n n' \<longleftrightarrow> node_ok n' \<and>
     (\<forall>q. q \<noteq> pid \<longrightarrow> get_process q (nd_mm n') = get_process q (nd_mm n)) \<and>
     (\<forall>k. fst k \<noteq> pid \<longrightarrow> phys_of (nd_mm n') k = phys_of (nd_mm n) k)"

lemma get_put_process: "get_process pid (put_process p mm) = (if pid = pc_pid p then Inr p else get_process pid mm)"
  by (simp add: get_process_def put_process_def dget_dset)

lemma put_process_qubits [simp]:
  "phys_of (put_process p mm) = phys_of mm" "owner (put_process p mm) = owner mm"
  "mm_inv (put_process p mm) = mm_inv mm" "mm_qdevice (put_process p mm) = mm_qdevice mm"
  using mm_inv_cong [of "put_process p mm" mm] by (simp_all add: put_process_def)

lemma stays_in_put:
  assumes "node_ok n" "pc_pid p = pid" "mm_processes mm = mm_processes (nd_mm n)" "mm_inv mm"
    and "\<And>k. fst k \<noteq> pid \<Longrightarrow> phys_of mm k = phys_of (nd_mm n) k"
    and "nd_mm n' = put_process p mm"
  shows "stays_in pid n n'"
proof -
  have "get_process q mm = get_process q (nd_mm n)" for q by (simp add: get_process_def assms(3))
  with assms show ?thesis by (auto simp: stays_in_def node_ok_def get_put_process)
qed

text \<open>The steps on the Host keep the identity of the process.\<close>

lemma write_vars_instance [simp]: "pc_instance (write_vars names vs p) = pc_instance p"
proof -
  have "pc_instance (fold (\<lambda>(v, n). write_var n v) xs p) = pc_instance p" for xs
    by (induction xs arbitrary: p) (auto simp: write_var_def)
  then show ?thesis by (simp add: write_vars_def)
qed

lemma call_instance:
  "prepare_lr_call p x = Inr (c, p') \<Longrightarrow> pc_instance p' = pc_instance p"
  "prepare_rr_call p x = Inr (d, p') \<Longrightarrow> pc_instance p' = pc_instance p"
  "post_lr_call p x c = Inr p' \<Longrightarrow> pc_instance p' = pc_instance p"
  "post_rr_call p x d = Inr p' \<Longrightarrow> pc_instance p' = pc_instance p"
proof -
  show "prepare_lr_call p x = Inr (c, p') \<Longrightarrow> pc_instance p' = pc_instance p"
    "prepare_rr_call p x = Inr (d, p') \<Longrightarrow> pc_instance p' = pc_instance p"
    by (auto simp: prepare_lr_call_def prepare_rr_call_def)
  show "post_lr_call p x c = Inr p' \<Longrightarrow> pc_instance p' = pc_instance p"
    by (cases "op_results x"; cases "the (op_results x)") (auto simp: post_lr_call_def write_vec_def)
  show "post_rr_call p x d = Inr p' \<Longrightarrow> pc_instance p' = pc_instance p"
    by (cases "op_results x"; cases "the (op_results x)")
      (auto simp: post_rr_call_def Let_def write_var_def write_vec_def)
qed

lemma host_block_stays:
  assumes "node_ok n" "run_host_block pid b n = Inr n'"
  shows "stays_in pid n n' \<and> phys_of (nd_mm n') = phys_of (nd_mm n) \<and> mm_qdevice (nd_mm n') = mm_qdevice (nd_mm n)"
proof -
  from assms(2) obtain p p' h' where p: "get_process pid (nd_mm n) = Inr p"
    "assign_block b p (nd_host n) = Inr (p', h')" "n' = put_host (p', h') n"
    by (auto simp: run_host_block_def)
  have "pc_instance p' = pc_instance p" using p(2) by (auto simp: assign_block_def host_frame_def dest!: run_instrs_effects)
  with assms(1) p have "pc_pid p' = pid" by (simp add: node_ok_def)
  then have "stays_in pid n n'"
    using assms(1) p(3) by (intro stays_in_put [of n p' pid "nd_mm n"]) (simp_all add: put_host_def node_ok_def)
  then show ?thesis by (simp add: p(3) put_host_def)
qed

lemma call_handler_stays:
  assumes "node_ok n"
    and "handle_precall_lr pid b ptr n = Inr n' \<or> handle_precall_rr pid b ptr n = Inr n' \<or>
      handle_postcall_lr pid b ptr n = Inr n' \<or> handle_postcall_rr pid b ptr n = Inr n'"
  shows "stays_in pid n (call_wait n') \<and> phys_of (nd_mm (call_wait n')) = phys_of (nd_mm n) \<and>
    mm_qdevice (nd_mm (call_wait n')) = mm_qdevice (nd_mm n)"
proof -
  from assms(2) obtain p p' where p: "get_process pid (nd_mm n) = Inr p"
    "pc_instance p' = pc_instance p" "nd_mm n' = put_process p' (nd_mm n)"
    by (elim disjE) (force simp: handle_precall_lr_def handle_precall_rr_def handle_postcall_lr_def
        handle_postcall_rr_def call_instr_def set_process_def dest: call_instance)+
  with assms(1) have "pc_pid p' = pid" by (simp add: node_ok_def)
  then have "stays_in pid n (call_wait n')"
    using assms(1) p(3)
    by (intro stays_in_put [of n p' pid "nd_mm n"]) (simp_all add: call_wait_def node_ok_def)
  then show ?thesis by (simp add: p(3) call_wait_def)
qed

lemma call_task_stays:
  assumes "node_ok n"
    and "call_task handle_precall_lr handle_precall_rr pid b ptr n = Inr n' \<or>
      call_task handle_postcall_lr handle_postcall_rr pid b ptr n = Inr n'"
  shows "stays_in pid n n' \<and> phys_of (nd_mm n') = phys_of (nd_mm n) \<and> mm_qdevice (nd_mm n') = mm_qdevice (nd_mm n)"
proof -
  from assms(2) obtain n1 where n1: "n' = call_wait n1"
    "handle_precall_lr pid b ptr n = Inr n1 \<or> handle_precall_rr pid b ptr n = Inr n1 \<or>
      handle_postcall_lr pid b ptr n = Inr n1 \<or> handle_postcall_rr pid b ptr n = Inr n1"
    by (elim disjE) (force simp: call_task_def split: if_splits)+
  from call_handler_stays [OF assms(1) n1(2)] show ?thesis by (simp add: n1(1))
qed

text \<open>The steps of the quantum processors.\<close>

lemma qpu_stays:
  assumes "node_ok n" "get_process pid (nd_mm n) = Inr p" "keeps_others (qpu_view p n) s"
  shows "stays_in pid n (put_qpu s n)"
proof (rule stays_in_put [OF assms(1)])
  have pid: "qs_pid (qpu_view p n) = pid" using assms(1,2) by (simp add: qpu_view_def node_ok_def)
  have mm: "qs_mm (qpu_view p n) = nd_mm n" by (simp add: qpu_view_def)
  show "pc_pid (qs_process s) = pid" "mm_processes (qs_mm s) = mm_processes (nd_mm n)" "mm_inv (qs_mm s)"
    using assms(1,3) pid mm by (auto simp: keeps_others_def node_ok_def)
  show "phys_of (qs_mm s) k = phys_of (nd_mm n) k" if "fst k \<noteq> pid" for k
    using assms(1,3) pid mm that by (cases k) (auto simp: keeps_others_def node_ok_def)
  show "nd_mm (put_qpu s n) = put_process (qs_process s) (qs_mm s)" by (simp add: put_qpu_def)
qed

lemma keeps_instantiate [keeps]: "netstack_instantiate c args s = Inr s' \<Longrightarrow> keeps_others s s'"
  by (auto simp: netstack_instantiate_def Let_def keeps_others_def)

lemma keeps_local_call [keeps]:
  assumes "run_local_call env c s = Inr s'"
  shows "keeps_others s s'"
proof -
  from assms obtain s1 s2 where s: "allocate_qubits_for_routine (lc_routine_name c) s = Inr s1"
    "assign_local_routine env (lc_routine_name c) (lc_input_addr c) (lc_result_addr c) s1 = Inr s2"
    "free_qubits_after_routine (lc_routine_name c) s2 = Inr s'"
    by (auto simp: run_local_call_def)
  have "keeps_others s s1" using s(1)
    by (auto simp: allocate_qubits_for_routine_def elim!: keeps_others_rfold intro: keeps)
  moreover have "keeps_others s1 s2" using s(2) by (rule keeps)
  moreover have "keeps_others s2 s'" using s(3)
    by (auto simp: free_qubits_after_routine_def elim!: keeps_others_rfold intro: keeps)
  ultimately show ?thesis by (blast intro: keeps_others_trans)
qed

lemma local_routine_stays:
  assumes "node_ok n" "handle_local_routine env pid b ptr n = Inr n'"
  shows "stays_in pid n n'"
  using assms(2)
  by (auto simp: handle_local_routine_def call_instr_def intro!: qpu_stays [OF assms(1)] keeps)

lemma pairs_stay:
  assumes "node_ok n" "handle_pairs handler pid ptr n = Inr (ok, n')"
    and "\<And>name s ok s'. handler name s = Inr (ok, s') \<Longrightarrow> keeps_others s s'"
  shows "stays_in pid n n'"
  using assms(2)
  by (auto simp: handle_pairs_def intro!: qpu_stays [OF assms(1)]
      intro: keeps_others_trans [OF keeps_instantiate assms(3)])

lemma callback_stays:
  assumes "node_ok n" "handle_callback handler pid ptr n = Inr n'"
    and "\<And>name s s'. handler name s = Inr s' \<Longrightarrow> keeps_others s s'"
  shows "stays_in pid n n'"
  using assms(2)
  by (auto simp: handle_callback_def intro!: qpu_stays [OF assms(1)] assms(3))

lemma keeps_handlers [keeps]:
  "handle_single_pair env name i s = Inr (ok, s') \<Longrightarrow> keeps_others s s'"
  "handle_multi_pair_callback env name s = Inr s' \<Longrightarrow> keeps_others s s'"
  "handle_single_pair_callback env name i s = Inr s' \<Longrightarrow> keeps_others s s'"
  by (auto simp: handle_single_pair_def handle_multi_pair_callback_def handle_single_pair_callback_def
      intro: keeps)

lemma qpu_task_stays:
  assumes "node_ok n" "qpu_handle_task env t n = Inr (ok, n')"
  shows "stays_in (task_pid t) n n'"
  using assms(2)
  by (auto simp: qpu_handle_task_def driver_multi_pair_def driver_single_pair_def
      driver_multi_pair_callback_def driver_single_pair_callback_def split: task_kind.splits
      intro: local_routine_stays [OF assms(1)] pairs_stay [OF assms(1)] callback_stays [OF assms(1)] keeps)

lemma cpu_task_stays:
  assumes "node_ok n" "cpu_handle_task t n = Inr (ok, n')"
  shows "ok \<and> stays_in (task_pid t) n n' \<and> phys_of (nd_mm n') = phys_of (nd_mm n) \<and>
    mm_qdevice (nd_mm n') = mm_qdevice (nd_mm n)"
  using assms(2)
  by (auto simp: cpu_handle_task_def split: task_kind.splits if_splits
      dest: host_block_stays [OF assms(1)] call_task_stays [OF assms(1) disjI1]
      call_task_stays [OF assms(1) disjI2])

text \<open>A sequence of tasks, in the order the schedulers start them.\<close>

definition run_tasks :: "'q qpu_env \<Rightarrow> qoala_task list \<Rightarrow> 'q node \<Rightarrow> 'q node res" where
  "run_tasks env = rfold (\<lambda>t n. rbind (node_handle_task env t n) (\<lambda>(ok, n'). Inr n'))"

lemma node_task_stays:
  "node_ok n \<Longrightarrow> node_handle_task env t n = Inr (ok, n') \<Longrightarrow> stays_in (task_pid t) n n'"
  by (cases "processor_type t") (auto simp: node_handle_task_def dest: qpu_task_stays cpu_task_stays)

section \<open>The memory tasks share\<close>

text \<open>Only a pre-call task with the pointer writes under it.\<close>

lemma call_task_memory:
  assumes "call_task lr rr pid b ptr n = Inr n'"
    and "\<And>n n'. lr pid b ptr n = Inr n' \<Longrightarrow> P n (nd_memory n')"
    and "\<And>n n'. rr pid b ptr n = Inr n' \<Longrightarrow> P n (nd_memory n')"
  shows "P n (nd_memory n')"
  using assms by (auto simp: call_task_def call_wait_def split: if_splits)

lemma precall_memory:
  assumes "call_task handle_precall_lr handle_precall_rr pid b ptr' n = Inr n'"
  shows "(\<exists>c. nd_memory n' = write_shared_lrcall ptr' c (nd_memory n)) \<or>
    (\<exists>c. nd_memory n' = write_shared_rrcall ptr' c (nd_memory n))"
  by (rule call_task_memory [OF assms])
    (auto simp: handle_precall_lr_def handle_precall_rr_def set_process_def)

lemma postcall_memory:
  assumes "call_task handle_postcall_lr handle_postcall_rr pid b ptr' n = Inr n'"
  shows "nd_memory n' = nd_memory n"
  by (rule call_task_memory [OF assms])
    (auto simp: handle_postcall_lr_def handle_postcall_rr_def set_process_def)

lemma qpu_task_memory: "qpu_handle_task env t n = Inr (ok, n') \<Longrightarrow> nd_memory n' = nd_memory n"
  by (auto simp: qpu_handle_task_def driver_multi_pair_def driver_single_pair_def handle_local_routine_def
      driver_multi_pair_callback_def driver_single_pair_callback_def handle_pairs_def handle_callback_def
      put_qpu_def split: task_kind.splits)

lemma host_block_memory: "run_host_block pid b n = Inr n' \<Longrightarrow> nd_memory n' = nd_memory n"
  by (auto simp: run_host_block_def put_host_def)

definition same_call :: "int \<Rightarrow> 'q node \<Rightarrow> 'q node \<Rightarrow> bool" where
  "same_call ptr n n' \<longleftrightarrow> read_shared_lrcall ptr (nd_memory n') = read_shared_lrcall ptr (nd_memory n) \<and>
     read_shared_rrcall ptr (nd_memory n') = read_shared_rrcall ptr (nd_memory n)"

lemma task_memory:
  assumes "node_handle_task env t n = Inr (ok, n')" "\<forall>b. task_kind t \<noteq> PreCallTask b ptr"
  shows "same_call ptr n n'"
proof (cases "processor_type t")
  case QPU
  with assms(1) show ?thesis by (auto simp: node_handle_task_def same_call_def dest: qpu_task_memory)
next
  case CPU
  with assms show ?thesis
    by (auto simp: node_handle_task_def cpu_handle_task_def same_call_def lrcalls.get_put rrcalls.get_put
        split: task_kind.splits dest!: host_block_memory postcall_memory precall_memory)
qed

lemma tasks_memory:
  assumes "run_tasks env ts n = Inr n'" "\<forall>t \<in> set ts. \<forall>b. task_kind t \<noteq> PreCallTask b ptr"
  shows "same_call ptr n n'"
  using assms
proof (induction ts arbitrary: n)
  case (Cons t ts)
  then obtain ok n1 where "node_handle_task env t n = Inr (ok, n1)" "run_tasks env ts n1 = Inr n'"
    by (auto simp: run_tasks_def)
  with Cons task_memory [of env t n ok n1 ptr] show ?case by (auto simp: same_call_def)
qed (simp add: run_tasks_def same_call_def)

section \<open>The qubits of a local routine\<close>

lemma allocate_unmapped_effect:
  assumes "rfold allocate_unmapped vs s = Inr s'"
  shows "qs_process s' = qs_process s \<and> (mm_inv (qs_mm s) \<longrightarrow> mm_inv (qs_mm s')) \<and>
    (\<forall>k. phys_of (qs_mm s) k \<noteq> None \<or> k \<notin> Pair (qs_pid s) ` set vs \<longrightarrow> phys_of (qs_mm s') k = phys_of (qs_mm s) k) \<and>
    (\<forall>v \<in> set vs. phys_of (qs_mm s') (qs_pid s, v) \<noteq> None)"
  using assms
proof (induction vs arbitrary: s)
  case (Cons v vs)
  then obtain s1 where s1: "allocate_unmapped v s = Inr s1" "rfold allocate_unmapped vs s1 = Inr s'" by auto
  note IH = Cons.IH [OF s1(2)]
  from s1(1) obtain p where p: "phys_id_for (qs_pid s) v (qs_mm s) = Inr p"
    "if p = None then \<exists>q mm. allocate (qs_pid s) v (qs_mm s) = Inr (q, mm) \<and> s1 = s\<lparr>qs_mm := mm\<rparr> else s1 = s"
    by (auto simp: allocate_unmapped_def split: if_splits)
  have ph: "phys_of (qs_mm s) (qs_pid s, v) = p"
    using p(1) by (auto simp: phys_id_for_def phys_of_def dget_eq_Inr split: option.splits)
  show ?case
  proof (cases p)
    case None
    with p(2) obtain q mm where a: "allocate (qs_pid s) v (qs_mm s) = Inr (q, mm)" "s1 = s\<lparr>qs_mm := mm\<rparr>" by auto
    with IH allocate_phys_of(3) [OF a(1)] allocate_inv [OF _ a(1)] ph None show ?thesis
      by (auto simp: image_iff)
  next
    case (Some q)
    with IH p(2) ph show ?thesis by (auto simp: image_iff)
  qed
qed simp

lemma free_unless_kept_effect:
  assumes "rfold (free_unless_kept keep) vs s = Inr s'" "mm_inv (qs_mm s)"
  shows "mm_inv (qs_mm s') \<and> qs_process s' = qs_process s \<and> phys_of (qs_mm s') =
    (\<lambda>k. if k \<in> Pair (qs_pid s) ` (set vs - set keep) then None else phys_of (qs_mm s) k)"
  using assms
proof (induction vs arbitrary: s)
  case (Cons v vs)
  then obtain s1 where s1: "free_unless_kept keep v s = Inr s1" "rfold (free_unless_kept keep) vs s1 = Inr s'" by auto
  show ?case
  proof (cases "v \<in> set keep")
    case True
    with s1(1) have "s1 = s" by (simp add: free_unless_kept_def)
    with Cons.IH [OF s1(2)] Cons.prems True show ?thesis by (auto simp: fun_eq_iff)
  next
    case False
    with s1(1) have "qs_free v s = Inr s1" by (simp add: free_unless_kept_def)
    note f = free_effect [OF Cons.prems(2) this]
    from Cons.IH [OF s1(2) f(2)] f False show ?thesis by (auto simp: fun_eq_iff)
  qed
qed simp

lemma local_routine_program:
  assumes "assign_local_routine env name ain aout s = Inr s'"
  shows "pc_program (qs_process s') = pc_program (qs_process s)"
proof -
  from assms obtain running len s1 where
    s1: "s1 = s\<lparr>qs_process := set_qnos_mem (add_running_local_routine running (pc_qnos_mem (qs_process s)))
      (qs_process s)\<rparr>" and run: "run_routine (qe_fuel env) env name len 0 s1 = Inr s'"
    by (auto simp: assign_local_routine_def qnos_instantiate_def)
  have "pc_program (qs_process s') = pc_program (qs_process s1)"
  proof (cases "get_running_local_routine name (pc_qnos_mem (qs_process s1))")
    case (Inl e)
    with run have "s' = s1"
      by (cases "qe_fuel env") (auto simp: assign_routine_instr_def split: if_splits)
    then show ?thesis by simp
  next
    case (Inr r)
    from frame_run [OF run Inr refl] show ?thesis by (simp add: qnos_frame_def Let_def)
  qed
  then show ?thesis by (simp add: s1)
qed

section \<open>Properties\<close>

text \<open>C37: Executing tasks stays in the processes of the tasks: whatever tasks the two drivers execute,
in any interleaving, the bookkeeping of qubits stays consistent, and every process that none of
the tasks belongs to keeps its whole state (variables, memory, sockets, results) and its qubits;
a single task of the CPU moves no qubit at all and always reports success.\<close>

theorem tasks_stay_in_their_process:
  assumes "node_ok n" "run_tasks env ts n = Inr n'"
  shows "node_ok n' \<and>
    (\<forall>pid. pid \<notin> task_pid ` set ts \<longrightarrow> get_process pid (nd_mm n') = get_process pid (nd_mm n) \<and>
       (\<forall>v. phys_of (nd_mm n') (pid, v) = phys_of (nd_mm n) (pid, v))) \<and>
    (\<forall>t m ok m'. node_ok m \<longrightarrow> processor_type t = CPU \<longrightarrow> node_handle_task env t m = Inr (ok, m') \<longrightarrow>
       ok \<and> phys_of (nd_mm m') = phys_of (nd_mm m))"
proof -
  have "node_ok n' \<and> (\<forall>pid. pid \<notin> task_pid ` set ts \<longrightarrow> get_process pid (nd_mm n') = get_process pid (nd_mm n) \<and>
       (\<forall>v. phys_of (nd_mm n') (pid, v) = phys_of (nd_mm n) (pid, v)))"
    using assms
  proof (induction ts arbitrary: n)
    case (Cons t ts)
    then obtain ok n1 where n1: "node_handle_task env t n = Inr (ok, n1)" "run_tasks env ts n1 = Inr n'"
      by (auto simp: run_tasks_def)
    note st = node_task_stays [OF Cons.prems(1) n1(1)]
    then have "node_ok n1" by (simp add: stays_in_def)
    from Cons.IH [OF this n1(2)] st show ?case by (auto simp: stays_in_def)
  qed (simp add: run_tasks_def)
  then show ?thesis by (auto simp: node_handle_task_def dest: cpu_task_stays)
qed

text \<open>The call tuple a pre-call task makes reaches the tasks of its call: after any further tasks
none of which is a pre-call task with the same pointer, that pointer holds exactly the tuple that
the Host prepared from the instruction of the block, a local call tuple for a \<open>QL\<close> block and a
request tuple for a \<open>QC\<close> block.\<close>

theorem call_tuple_reaches_tasks:
  assumes "task_kind t = PreCallTask b ptr" "cpu_handle_task t n = Inr (ok, n1)"
    and "run_tasks env ts n1 = Inr n2" "\<forall>u \<in> set ts. \<forall>b'. task_kind u \<noteq> PreCallTask b' ptr"
  shows "\<exists>p block instr. get_process (task_pid t) (nd_mm n) = Inr p \<and> get_block (pc_program p) b = Inr block \<and>
    block_instructions block = [instr] \<and>
    (if block_typ block = QL
     then \<exists>c p'. prepare_lr_call p instr = Inr (c, p') \<and> read_shared_lrcall ptr (nd_memory n2) = Inr c
     else block_typ block = QC \<and>
       (\<exists>c p'. prepare_rr_call p instr = Inr (c, p') \<and> read_shared_rrcall ptr (nd_memory n2) = Inr c))"
proof -
  from assms(1,2) have c: "call_task handle_precall_lr handle_precall_rr (task_pid t) b ptr n = Inr n1"
    by (simp add: cpu_handle_task_def rbind_eq_Inr)
  note m = tasks_memory [OF assms(3,4)]
  from c obtain p block where p: "get_process (task_pid t) (nd_mm n) = Inr p" "get_block (pc_program p) b = Inr block"
    by (auto simp: call_task_def is_local_call_def)
  have sole: "block_instructions block = [i]" if "sole_instruction block k = Inr i" for k i
    using that by (cases "block_instructions block") (auto simp: sole_instruction_def Let_def)
  show ?thesis
  proof (cases "block_typ block = QL")
    case True
    with c p obtain i d p' where "sole_instruction block RunSubroutineOp = Inr i"
      "prepare_lr_call p i = Inr (d, p')" "nd_memory n1 = write_shared_lrcall ptr d (nd_memory n)"
      by (auto simp: call_task_def is_local_call_def handle_precall_lr_def call_instr_def set_process_def call_wait_def)
    with m p True show ?thesis by (auto simp: same_call_def dest: sole)
  next
    case False
    with c p have k: "block_typ block = QC" by (auto simp: call_task_def is_local_call_def)
    with c p obtain i d p' where "sole_instruction block RunRequestOp = Inr i"
      "prepare_rr_call p i = Inr (d, p')" "nd_memory n1 = write_shared_rrcall ptr d (nd_memory n)"
      by (auto simp: call_task_def is_local_call_def handle_precall_rr_def call_instr_def set_process_def call_wait_def)
    with m p k show ?thesis by (auto simp: same_call_def dest: sole)
  qed
qed

text \<open>C38: A local routine task leaves exactly the qubits allocated that it should: afterwards the
virtual qubits the routine uses but does not keep are free, those it uses and keeps are mapped,
where a qubit that was mapped before stays in its physical position, and all other qubits of all
processes are where they were.\<close>

theorem local_routine_task_qubits:
  assumes "node_ok n" "handle_local_routine env pid b ptr n = Inr n'"
    and "get_process pid (nd_mm n) = Inr p" "read_shared_lrcall ptr (nd_memory n) = Inr c"
    and "get_local_routine p (lc_routine_name c) = Inr r"
  shows "(\<forall>v \<in> set (qubit_use (lr_metadata r)).
      phys_of (nd_mm n') (pid, v) = None \<longleftrightarrow> v \<notin> set (qubit_keep (lr_metadata r))) \<and>
    (\<forall>q v. q \<noteq> pid \<or> v \<notin> set (qubit_use (lr_metadata r)) \<or>
       (v \<in> set (qubit_keep (lr_metadata r)) \<and> phys_of (nd_mm n) (q, v) \<noteq> None) \<longrightarrow>
       phys_of (nd_mm n') (q, v) = phys_of (nd_mm n) (q, v))"
proof -
  let ?use = "qubit_use (lr_metadata r)" and ?keep = "qubit_keep (lr_metadata r)"
  let ?s = "qpu_view p n" and ?name = "lc_routine_name c"
  have pid: "qs_pid ?s = pid" "qs_process ?s = p" "qs_mm ?s = nd_mm n" "pc_pid p = pid"
    using assms(1,3) by (simp_all add: qpu_view_def node_ok_def)
  from assms(2-4) obtain s' where s': "run_local_call env c ?s = Inr s'" "n' = put_qpu s' n"
    by (auto simp: handle_local_routine_def call_instr_def)
  then obtain s1 s2 where a: "allocate_qubits_for_routine ?name ?s = Inr s1"
    and l: "assign_local_routine env ?name (lc_input_addr c) (lc_result_addr c) s1 = Inr s2"
    and f: "free_qubits_after_routine ?name s2 = Inr s'" by (auto simp: run_local_call_def)
  have r: "get_local_routine (qs_process ?s) ?name = Inr r" using assms(5) pid by simp
  with a have "rfold allocate_unmapped ?use ?s = Inr s1" by (simp add: allocate_qubits_for_routine_def)
  from allocate_unmapped_effect [OF this] have A: "qs_process s1 = p" "mm_inv (nd_mm n) \<longrightarrow> mm_inv (qs_mm s1)"
    "phys_of (nd_mm n) k \<noteq> None \<or> k \<notin> Pair pid ` set ?use \<Longrightarrow> phys_of (qs_mm s1) k = phys_of (nd_mm n) k"
    "\<forall>v \<in> set ?use. phys_of (qs_mm s1) (pid, v) \<noteq> None" for k
    unfolding pid(2-4) by blast+
  have inv1: "mm_inv (qs_mm s1)" using A(2) assms(1) by (simp add: node_ok_def)
  from local_routine_same_qubits [OF l] inv1 have L: "phys_of (qs_mm s2) = phys_of (qs_mm s1)"
    "mm_inv (qs_mm s2)" "qs_pid s2 = pid" using A(1) assms(1,3) by (simp_all add: same_qubits_def node_ok_def)
  have "get_local_routine (qs_process s2) ?name = Inr r"
    using local_routine_program [OF l] A(1) r pid by (simp add: get_local_routine_def)
  with f have "rfold (free_unless_kept ?keep) ?use s2 = Inr s'" by (simp add: free_qubits_after_routine_def)
  note F = free_unless_kept_effect [OF this L(2), unfolded L(1,3)]
  have e: "phys_of (nd_mm n') k =
      (if k \<in> Pair pid ` (set ?use - set ?keep) then None else phys_of (qs_mm s1) k)" for k
    using F by (simp add: s'(2) put_qpu_def)
  have same: "phys_of (qs_mm s1) (q, v) = phys_of (nd_mm n) (q, v)"
    if "q \<noteq> pid \<or> v \<notin> set ?use \<or> phys_of (nd_mm n) (q, v) \<noteq> None" for q v
    using A(3) [of "(q, v)"] that by auto
  have e': "phys_of (nd_mm n') (q, v) =
      (if q = pid \<and> v \<in> set ?use \<and> v \<notin> set ?keep then None else phys_of (qs_mm s1) (q, v))" for q v
    by (auto simp: e)
  show ?thesis using A(4) same by (auto simp: e')
qed

section \<open>Witnesses\<close>

text \<open>Process 0 of the sample node calls a routine that uses the virtual qubits 1 and 2 and keeps
qubit 2.\<close>

definition sample_keeper :: local_routine where
  "sample_keeper = \<lparr>lr_name = ''m'', lr_subroutine = \<lparr>sub_instructions = [], sub_arguments = []\<rparr>,
     lr_return_vars = [], lr_metadata = \<lparr>qubit_use = [1, 2], qubit_keep = [2]\<rparr>, lr_request_name = None\<rparr>"

definition sample_caller :: qoala_process where
  "sample_caller = (sample_process 0)\<lparr>pc_instance := (pc_instance (sample_process 0))
     \<lparr>pi_program := mk_program (meta_empty ''p'')
        [sample_block ''q'' QL [mk_op RunSubroutineOp [IqoalaTuple []] None [StrV ''m'']]]
        (Some [(''m'', sample_keeper)]) None\<rparr>\<rparr>"

definition sample_node :: "sched_memory \<Rightarrow> unit node" where
  "sample_node m = \<lparr>nd_host = sample_host [] [], nd_mm = put_process sample_caller sample_memmgr,
     nd_inbox = \<lparr>ib_listeners = [], ib_arrivals = [], ib_now = 0\<rparr>, nd_sent = [], nd_memory = m\<rparr>"

definition sample_precall :: "int \<Rightarrow> qoala_task" where
  "sample_precall ptr = mk_task ptr 0 (PreCallTask ''q'' ptr) None"

definition sample_tuple :: lr_call_tuple where
  "sample_tuple = \<lparr>lc_routine_name = ''m'', lc_input_addr = MemAddr 0, lc_result_addr = MemAddr 1\<rparr>"

lemma sample_node_ok: "node_ok (sample_node m)"
proof -
  have "mm_inv sample_memmgr" by (rule mm_reachable_inv [OF sample_reachable sample_device_ok])
  moreover have "get_process pid sample_memmgr = Inr p \<Longrightarrow> pc_pid p = pid" for pid p
    by (auto simp: get_process_def sample_memmgr_def add_process_def init_memmgr_def Let_def
        sample_process_def dget_dset dget_def split: if_splits)
  ultimately show ?thesis
    by (auto simp: node_ok_def sample_node_def get_put_process split: if_splits)
qed

lemma sample_node_process: "get_process 0 (nd_mm (sample_node m)) = Inr sample_caller"
  "get_local_routine sample_caller ''m'' = Inr sample_keeper" "pc_pid sample_caller = 0"
  by (simp_all add: sample_node_def get_put_process sample_caller_def sample_process_def
      get_local_routine_def mk_program_def dget_def)

lemma sample_node_memory: "read_shared_lrcall p (nd_memory (sample_node (write_shared_lrcall p c m))) = Inr c"
  by (simp add: sample_node_def)

lemma sample_block_facts:
  "get_block (pc_program sample_caller) ''q'' =
     Inr (sample_block ''q'' QL [mk_op RunSubroutineOp [IqoalaTuple []] None [StrV ''m'']])"
  "sole_instruction (sample_block ''q'' QL [x]) RunSubroutineOp =
     rbind (py_assert (op_class x = RunSubroutineOp)) (\<lambda>_. Inr x)"
  by (simp_all add: sample_caller_def mk_program_def get_block_def sample_block_def sole_instruction_def Let_def)

lemma sample_view: "get_local_routine (qs_process (qpu_view sample_caller n)) ''m'' = Inr sample_keeper"
  by (simp add: qpu_view_def sample_node_process)

lemma sample_precalls_run:
  "case cpu_handle_task (sample_precall 0) (sample_node init_sched_memory) of
     Inr (ok, n) \<Rightarrow> (case cpu_handle_task (sample_precall 1) n of Inr (ok', n') \<Rightarrow> ok' | Inl e \<Rightarrow> False)
   | Inl e \<Rightarrow> False"
  by code_simp

lemma sample_precalls:
  obtains n1 n2 where "cpu_handle_task (sample_precall 0) (sample_node init_sched_memory) = Inr (True, n1)"
    "cpu_handle_task (sample_precall 1) n1 = Inr (True, n2)"
proof -
  obtain ok n1 where r1: "cpu_handle_task (sample_precall 0) (sample_node init_sched_memory) = Inr (ok, n1)"
    using sample_precalls_run by (auto split: sum.splits)
  then obtain ok' n2 where r2: "cpu_handle_task (sample_precall 1) n1 = Inr (ok', n2)"
    using sample_precalls_run by (cases "cpu_handle_task (sample_precall 1) n1") auto
  have "node_ok n1" "ok" using cpu_task_stays [OF sample_node_ok r1] by (simp_all add: stays_in_def)
  with cpu_task_stays [OF _ r2] r1 r2 that show thesis by auto
qed

text \<open>A routine without instructions.\<close>

lemma empty_routine:
  assumes "get_local_routine (qs_process s) name = Inr r" "sub_instructions (lr_subroutine r) = []"
    and "\<forall>v \<in> set (qubit_use (lr_metadata r)). phys_of (qs_mm s) (qs_pid s, v) \<noteq> None"
    and "0 < qe_fuel env" "qe_instantiate env (qs_pid s) (pc_inputs (qs_process s)) (lr_subroutine r) = Inr sub"
  obtains s' where "assign_local_routine env name ain aout s = Inr s'"
proof -
  have m: "\<exists>q. mapped_phys v s = Inr q" if "phys_of (qs_mm s) (qs_pid s, v) \<noteq> None" for v
  proof -
    from that obtain q where "phys_of (qs_mm s) (qs_pid s, v) = Some q" by blast
    then have "phys_id_for (qs_pid s) v (qs_mm s) = Inr (Some q)" by (simp add: phys_id_for_Some)
    then show ?thesis by (simp add: mapped_phys_def)
  qed
  have "\<exists>qs. rmap (\<lambda>q. mapped_phys q s) vs = Inr qs"
    if "\<forall>v \<in> set vs. phys_of (qs_mm s) (qs_pid s, v) \<noteq> None" for vs
    using that by (induction vs) (use m in fastforce)+
  with assms(3) obtain qs where q: "rmap (\<lambda>q. mapped_phys q s) (qubit_use (lr_metadata r)) = Inr qs" by blast
  obtain k where "qe_fuel env = Suc k" using assms(4) by (cases "qe_fuel env") auto
  with assms(1,2,5) q that show thesis
    by (auto simp: assign_local_routine_def qnos_instantiate_def)
qed

lemma sample_precall_cpu: "node_handle_task env (sample_precall i) = cpu_handle_task (sample_precall i)"
  by (simp add: fun_eq_iff node_handle_task_def processor_type_def sample_precall_def mk_task_def)

theorem tasks_stay_in_their_process_witness:
  "\<exists>n'. run_tasks sample_net_env [sample_precall 0, sample_precall 1] (sample_node init_sched_memory) = Inr n' \<and>
     node_ok n' \<and> get_process 1 (nd_mm n') = get_process 1 (nd_mm (sample_node init_sched_memory))"
proof -
  obtain n' where r: "run_tasks sample_net_env [sample_precall 0, sample_precall 1] (sample_node init_sched_memory) = Inr n'"
    by (rule sample_precalls) (simp add: run_tasks_def sample_precall_cpu)
  from tasks_stay_in_their_process [OF sample_node_ok r]
  show ?thesis using r by (simp add: sample_precall_def mk_task_def)
qed

theorem call_tuple_reaches_tasks_witness:
  "\<exists>n1 n2 c p'. cpu_handle_task (sample_precall 0) (sample_node init_sched_memory) = Inr (True, n1) \<and>
     run_tasks sample_net_env [sample_precall 1] n1 = Inr n2 \<and>
     prepare_lr_call sample_caller (mk_op RunSubroutineOp [IqoalaTuple []] None [StrV ''m'']) = Inr (c, p') \<and>
     read_shared_lrcall 0 (nd_memory n2) = Inr c"
proof -
  obtain n1 n2 where r: "cpu_handle_task (sample_precall 0) (sample_node init_sched_memory) = Inr (True, n1)"
    "cpu_handle_task (sample_precall 1) n1 = Inr (True, n2)" by (rule sample_precalls)
  have t: "run_tasks sample_net_env [sample_precall 1] n1 = Inr n2"
    by (simp add: run_tasks_def sample_precall_cpu r(2))
  have k: "task_kind (sample_precall i) = PreCallTask ''q'' i" "task_pid (sample_precall i) = 0" for i
    by (simp_all add: sample_precall_def mk_task_def)
  have "\<forall>u \<in> set [sample_precall 1]. \<forall>b'. task_kind u \<noteq> PreCallTask b' 0" by (simp add: k)
  from call_tuple_reaches_tasks [OF k(1) r(1) t this] r(1) t show ?thesis
    by (auto simp: k sample_node_process sample_block_facts) (auto simp: sample_block_def)
qed

lemma sample_allocation:
  "case rfold allocate_unmapped [1, 2] (qpu_view sample_caller (sample_node m)) of Inr s \<Rightarrow> True | Inl e \<Rightarrow> False"
  by code_simp

lemma sample_keeper_runs:
  "\<exists>n'. handle_local_routine (sample_net_env\<lparr>qe_fuel := 1\<rparr>) 0 ''q'' 0
     (sample_node (write_shared_lrcall 0 sample_tuple init_sched_memory)) = Inr n'"
proof -
  let ?n = "sample_node (write_shared_lrcall 0 sample_tuple init_sched_memory)"
  let ?env = "sample_net_env\<lparr>qe_fuel := 1\<rparr>"
  obtain s1 where s1: "rfold allocate_unmapped [1, 2] (qpu_view sample_caller ?n) = Inr s1"
    using sample_allocation [of "write_shared_lrcall 0 sample_tuple init_sched_memory"] by (auto split: sum.splits)
  have inv: "mm_inv (qs_mm (qpu_view sample_caller ?n))"
    using sample_node_ok [of "write_shared_lrcall 0 sample_tuple init_sched_memory"]
    by (simp add: qpu_view_def node_ok_def)
  note e = allocate_unmapped_effect [OF s1]
  have p: "qs_process s1 = sample_caller" using e by (simp add: qpu_view_def)
  obtain s2 where s2: "assign_local_routine ?env ''m'' (MemAddr 0) (MemAddr 1) s1 = Inr s2"
    by (rule empty_routine [where s = s1 and name = "''m''" and env = ?env and r = sample_keeper
          and sub = "lr_subroutine sample_keeper"])
      (use e in \<open>auto simp: p sample_node_process sample_keeper_def sample_net_env_def qpu_view_def\<close>)
  from local_routine_same_qubits [OF s2] e inv have "mm_inv (qs_mm s2)" "phys_of (qs_mm s2) (qs_pid s2, 1) \<noteq> None"
    by (auto simp: same_qubits_def p qpu_view_def)
  with free_total obtain mm where "mm_free (qs_pid s2) 1 (qs_mm s2) = Inr mm" by blast
  then have f: "rfold (free_unless_kept [2]) [1, 2] s2 = Inr (s2\<lparr>qs_mm := mm\<rparr>)"
    by (simp add: free_unless_kept_def qs_free_def)
  have "get_local_routine (qs_process s2) ''m'' = Inr sample_keeper"
    using local_routine_program [OF s2] sample_node_process(2) by (simp add: p get_local_routine_def)
  with s1 s2 f show ?thesis
    by (auto simp: handle_local_routine_def call_instr_def sample_node_process sample_block_facts sample_node_memory
        run_local_call_def allocate_qubits_for_routine_def free_qubits_after_routine_def sample_tuple_def
        sample_view sample_keeper_def mk_op_def)
qed

theorem local_routine_task_qubits_witness:
  "\<exists>n'. handle_local_routine (sample_net_env\<lparr>qe_fuel := 1\<rparr>) 0 ''q'' 0
       (sample_node (write_shared_lrcall 0 sample_tuple init_sched_memory)) = Inr n' \<and>
     phys_of (nd_mm n') (0, 1) = None \<and> phys_of (nd_mm n') (0, 2) \<noteq> None"
proof -
  let ?n = "sample_node (write_shared_lrcall 0 sample_tuple init_sched_memory)"
  obtain n' where r: "handle_local_routine (sample_net_env\<lparr>qe_fuel := 1\<rparr>) 0 ''q'' 0 ?n = Inr n'"
    using sample_keeper_runs by blast
  have "get_local_routine sample_caller (lc_routine_name sample_tuple) = Inr sample_keeper"
    by (simp add: sample_tuple_def sample_node_process)
  from local_routine_task_qubits [OF sample_node_ok r sample_node_process(1) sample_node_memory this] r
  show ?thesis by (auto simp: sample_keeper_def)
qed

end
