(* ===== verification/SchedExec.thy ===== *)
theory SchedExec
  imports Sched DriverRun
begin

text \<open>
  What the rounds of the processor schedulers do: they finish tasks in the order of the graph,
  whatever else happens on the node, and probing for resources leaves the qubits alone. The
  first part is proved once for any scheduler with the contract of locale \<open>task_scheduler\<close>.
\<close>

section \<open>The order of a graph\<close>

text \<open>A graph without deadlines and external predecessors; both change while tasks are executed.\<close>

definition bare :: "task_info \<Rightarrow> task_info" where
  "bare t = t\<lparr>ti_ext_predecessors := [], ti_deadline := None, ti_rel_deadlines := [], ti_ext_rel_deadlines := []\<rparr>"

definition skeleton :: "task_graph \<Rightarrow> task_graph" where
  "skeleton = dmap (\<lambda>_. bare)"

lemma bare_fields [simp]:
  "ti_task (bare t) = ti_task t" "ti_predecessors (bare t) = ti_predecessors t"
  "ti_successors (bare t) = ti_successors t" "bare (drop_pred i t) = drop_pred i (bare t)"
  "bare (resolve_deadline i t) = bare t" "resolve_deadline i (bare t) = bare t"
  "bare (drop_finished o' t) = bare t"
  by (simp_all add: bare_def drop_pred_def resolve_deadline_def drop_finished_def split: option.split)

lemma map_of_skeleton: "map_of (skeleton g) i = map_option bare (map_of g i)"
  by (simp add: skeleton_def)

lemma skeleton_order: "preds (skeleton g) = preds g" "succs (skeleton g) = succs g"
    "edges (skeleton g) = edges g" "keys (skeleton g) = keys g"
  by (auto simp: preds_def succs_def edges_def map_of_skeleton fun_eq_iff skeleton_def split: option.splits)

lemma skeleton_ok: "graph_ok (skeleton g) = graph_ok g"
proof -
  have "(\<forall>i t. map_of (skeleton g) i = Some t \<longrightarrow> distinct (ti_predecessors t) \<and> distinct (ti_successors t)) \<longleftrightarrow>
      (\<forall>i t. map_of g i = Some t \<longrightarrow> distinct (ti_predecessors t) \<and> distinct (ti_successors t))"
    by (simp add: map_of_skeleton) (metis bare_fields(2,3) option.inject)
  then show ?thesis by (simp only: graph_ok_def skeleton_order)
qed

lemma skeleton_inv: "graph_inv (skeleton g) = graph_inv g"
  by (simp only: graph_inv_def skeleton_ok skeleton_order)

lemma skeleton_upd: "(\<And>t. bare (f t) = bare t) \<Longrightarrow> skeleton (upd_tinfo i f g) = skeleton g"
  by (auto simp: upd_tinfo_def skeleton_def dmap_dset intro!: dset_same split: option.splits)

lemma skeleton_decrease: "skeleton (decrease_deadlines a g) = skeleton g"
proof -
  have "bare (t\<lparr>ti_deadline := d\<rparr>) = bare t" for t d by (simp add: bare_def)
  then show ?thesis by (simp add: skeleton_def decrease_deadlines_def dmap_dmap)
qed

lemma skeleton_external: "skeleton (ps_task_graph (update_external_predecessors other s)) = skeleton (ps_task_graph s)"
proof -
  have "skeleton (fold (\<lambda>r. upd_tinfo r (drop_finished o')) rs g) = skeleton g" for o' rs g
    by (induction rs arbitrary: g) (simp_all add: skeleton_upd)
  then show ?thesis by (simp add: update_external_predecessors_def split: option.split)
qed

lemma skeleton_remove:
  assumes "remove_task i g = Inr g'"
  shows "remove_task i (skeleton g) = Inr (skeleton g')"
proof -
  let ?step = "\<lambda>s g'. rbind (get_tinfo g' s) (\<lambda>sinfo.
       rbind (py_assert (i \<in> set (ti_predecessors sinfo))) (\<lambda>_. Inr (dset s (drop_pred i sinfo) g')))"
  have loop: "rfold ?step ss (skeleton h) = Inr (skeleton h')" if "rfold ?step ss h = Inr h'" for ss h h'
    using that
  proof (induction ss arbitrary: h)
    case (Cons s ss)
    from Cons.prems obtain t where t: "map_of h s = Some t" "i \<in> set (ti_predecessors t)"
      "rfold ?step ss (dset s (drop_pred i t) h) = Inr h'"
      by (auto simp: get_tinfo_def split: option.splits)
    have "skeleton (dset s (drop_pred i t) h) = dset s (drop_pred i (bare t)) (skeleton h)"
      by (simp add: skeleton_def dmap_dset)
    with Cons.IH [OF t(3)] t(1,2) show ?case by (simp add: get_tinfo_def map_of_skeleton)
  qed simp
  from assms obtain t h where r: "i \<in> set (get_roots True g)" "map_of g i = Some t"
    "rfold ?step (ti_successors t) (ddel i g) = Inr h" "g' = dmap (\<lambda>_. resolve_deadline i) h"
    by (auto simp: remove_task_def)
  have "get_roots True (skeleton g) = get_roots True g"
    by (induction g) (auto simp: get_roots_def skeleton_def dmap_def)
  moreover have "skeleton (ddel i g) = ddel i (skeleton g)" by (simp add: skeleton_def dmap_ddel)
  moreover have "dmap (\<lambda>_. resolve_deadline i) (skeleton h) = skeleton g'"
    by (simp add: skeleton_def r(4) dmap_dmap)
  ultimately show ?thesis using loop [OF r(3)] r(1,2)
    by (simp add: remove_task_def map_of_skeleton dget_Some)
qed

text \<open>What has been executed is the beginning of a topological order.\<close>

lemma execute_prefix:
  assumes "graph_inv g" "execute order g = Inr g'"
  shows "distinct order" "set (keys g') = set (keys g) - set order" "set order \<subseteq> set (keys g)"
    "order = as @ y # bs \<Longrightarrow> preds g y \<subseteq> set as"
proof -
  obtain rest where "execute rest g' = Inr []" using execute_complete [OF execute_inv [OF assms]] by blast
  with assms(2) have "execute (order @ rest) g = Inr []" by (simp add: execute_append)
  then have t: "topological (edges g) (set (keys g)) (order @ rest)"
    using execute_topological assms(1) unfolding graph_inv_def by blast
  have rest: "topological (edges g') (set (keys g')) rest"
    using execute_topological \<open>execute rest g' = Inr []\<close> execute_inv [OF assms] unfolding graph_inv_def by blast
  have d: "distinct (order @ rest)" "set (order @ rest) = set (keys g)" "set rest = set (keys g')"
    using t rest unfolding topological_def by blast+
  then show "distinct order" "set order \<subseteq> set (keys g)" "set (keys g') = set (keys g) - set order" by auto
  show "preds g y \<subseteq> set as" if "order = as @ y # bs"
    using t that unfolding topological_def edges_def by (metis (no_types, lifting) append_Cons append_assoc mem_Collect_eq case_prod_conv subset_iff)
qed

section \<open>External predecessors\<close>

definition ext_preds :: "task_graph \<Rightarrow> int \<Rightarrow> int set" where
  "ext_preds g i = (case map_of g i of None \<Rightarrow> {} | Some t \<Rightarrow> set (ti_ext_predecessors t))"

lemma ext_preds_upd: "(\<And>t. set (ti_ext_predecessors (f t)) \<subseteq> set (ti_ext_predecessors t)) \<Longrightarrow>
    ext_preds (upd_tinfo i f g) j \<subseteq> ext_preds g j"
  by (auto simp: ext_preds_def upd_tinfo_def split: option.splits)

lemma ext_preds_external: "ext_preds (ps_task_graph (update_external_predecessors other s)) j \<subseteq> ext_preds (ps_task_graph s) j"
proof -
  have "ext_preds (fold (\<lambda>r. upd_tinfo r (drop_finished o')) rs g) j \<subseteq> ext_preds g j" for o' rs g
  proof (induction rs arbitrary: g)
    case (Cons r rs)
    have "ext_preds (upd_tinfo r (drop_finished o') g) j \<subseteq> ext_preds g j"
      by (rule ext_preds_upd) (auto simp: drop_finished_def)
    with Cons.IH show ?case by fastforce
  qed simp
  then show ?thesis by (simp add: update_external_predecessors_def split: option.split)
qed

lemma ext_preds_remove:
  assumes "remove_task i g = Inr g'"
  shows "ext_preds g' j \<subseteq> ext_preds g j"
proof -
  from assms obtain t h where r: "rfold (\<lambda>s g'. rbind (get_tinfo g' s) (\<lambda>sinfo.
       rbind (py_assert (i \<in> set (ti_predecessors sinfo))) (\<lambda>_. Inr (dset s (drop_pred i sinfo) g'))))
       (ti_successors t) (ddel i g) = Inr h" "g' = dmap (\<lambda>_. resolve_deadline i) h" "map_of g i = Some t"
    by (auto simp: remove_task_def)
  have "ext_preds h j \<subseteq> ext_preds g j"
  proof (rule rfold_invariant [OF r(1)])
    show "ext_preds (ddel i g) j \<subseteq> ext_preds g j" by (auto simp: ext_preds_def delete_conv')
  next
    show "ext_preds h2 j \<subseteq> ext_preds g j" if "ext_preds h1 j \<subseteq> ext_preds g j"
      "rbind (get_tinfo h1 x) (\<lambda>sinfo. rbind (py_assert (i \<in> set (ti_predecessors sinfo))) (\<lambda>_.
         Inr (dset x (drop_pred i sinfo) h1))) = Inr h2" for x h1 h2
    proof -
      from that(2) obtain u where "map_of h1 x = Some u" "h2 = dset x (drop_pred i u) h1"
        by (auto simp: get_tinfo_def split: option.splits)
      then have "ext_preds h2 j = ext_preds h1 j" by (simp add: ext_preds_def drop_pred_def)
      with that(1) show ?thesis by simp
    qed
  qed
  moreover have "ext_preds g' j = ext_preds h j"
    by (simp add: r(2) ext_preds_def resolve_deadline_def split: option.split)
  ultimately show ?thesis by simp
qed

lemma ext_preds_decrease: "ext_preds (decrease_deadlines a g) j = ext_preds g j"
  by (simp add: ext_preds_def decrease_deadlines_def split: option.split)

section \<open>The contract of a scheduler\<close>

text \<open>
  What one round does to the scheduler: either it finishes no task and leaves the order of its
  graph alone, or it finishes one task that no unfinished task precedes, here or on the other
  processor, and removes it from the graph. Tasks never get new external predecessors.
\<close>

inductive sched_step :: "proc_scheduler option \<Rightarrow> proc_scheduler \<Rightarrow> proc_scheduler \<Rightarrow> bool" for other s s' where
  idle: "skeleton (ps_task_graph s') = skeleton (ps_task_graph s) \<Longrightarrow>
     \<forall>j. ext_preds (ps_task_graph s') j \<subseteq> ext_preds (ps_task_graph s) j \<Longrightarrow>
     ps_finished_tasks s' = ps_finished_tasks s \<Longrightarrow> sched_step other s s'"
| finish: "map_of (ps_task_graph s) tid = Some t \<Longrightarrow> ti_predecessors t = [] \<Longrightarrow>
     \<forall>x \<in> set (ti_ext_predecessors t). \<exists>o'. other = Some o' \<and> has_finished x o' \<Longrightarrow>
     remove_task tid (skeleton (ps_task_graph s)) = Inr (skeleton (ps_task_graph s')) \<Longrightarrow>
     \<forall>j. ext_preds (ps_task_graph s') j \<subseteq> ext_preds (ps_task_graph s) j \<Longrightarrow>
     ps_finished_tasks s' = ps_finished_tasks s @ [task_id (ti_task t)] \<Longrightarrow> sched_step other s s'"

text \<open>Rounds in which the node and the other scheduler change in any way in between.\<close>

inductive sched_rounds ::
    "(proc_scheduler option \<Rightarrow> proc_scheduler \<times> 'n \<Rightarrow> (proc_scheduler \<times> 'n) res) \<Rightarrow>
     proc_scheduler \<Rightarrow> proc_scheduler \<Rightarrow> bool" for round s where
  no_round: "sched_rounds round s s"
| next_round: "sched_rounds round s s1 \<Longrightarrow> round other (s1, n) = Inr (s2, n') \<Longrightarrow> sched_rounds round s s2"

definition keyed :: "task_graph \<Rightarrow> bool" where
  "keyed g \<longleftrightarrow> (\<forall>i t. map_of g i = Some t \<longrightarrow> task_id (ti_task t) = i)"

lemma keyed_skeleton: "keyed (skeleton g) = keyed g"
  by (simp add: keyed_def map_of_skeleton) (metis bare_fields(1) option.inject)

lemma keyed_remove:
  assumes "keyed g" "graph_ok g" "remove_task i g = Inr g'"
  shows "keyed g'"
  using assms(1) remove_task_Inr(4) [OF assms(2,3)] by (auto simp: keyed_def)

locale task_scheduler =
  fixes round :: "proc_scheduler option \<Rightarrow> proc_scheduler \<times> 'n \<Rightarrow> (proc_scheduler \<times> 'n) res"
  assumes round_step: "dict_ok (ps_task_graph s) \<Longrightarrow> round other (s, n) = Inr (s', n') \<Longrightarrow> sched_step other s s'"
begin

lemma rounds_execute:
  assumes "sched_rounds round s s'" "keyed (ps_task_graph s)" "graph_inv (ps_task_graph s)"
  shows "\<exists>order. ps_finished_tasks s' = ps_finished_tasks s @ order \<and> keyed (ps_task_graph s') \<and>
    execute order (skeleton (ps_task_graph s)) = Inr (skeleton (ps_task_graph s'))"
  using assms
proof induction
  case no_round
  then show ?case by auto
next
  case (next_round s1 other n s2 n')
  then obtain order where o: "ps_finished_tasks s1 = ps_finished_tasks s @ order" "keyed (ps_task_graph s1)"
    "execute order (skeleton (ps_task_graph s)) = Inr (skeleton (ps_task_graph s1))" by blast
  have ok: "graph_ok (skeleton (ps_task_graph s1))"
  proof -
    have "graph_inv (skeleton (ps_task_graph s1))"
      by (rule execute_inv [OF _ o(3)]) (simp only: skeleton_inv next_round.prems(2))
    then show ?thesis by (simp add: graph_inv_def)
  qed
  then have "dict_ok (ps_task_graph s1)" using graph_ok_dict skeleton_order(4) by metis
  from round_step [OF this next_round.hyps(2)] show ?case
  proof cases
    case idle
    with o have "keyed (ps_task_graph s2)" using keyed_skeleton by metis
    with o idle show ?thesis by auto
  next
    case (finish tid t)
    have k: "keyed (ps_task_graph s2)"
      using keyed_remove [OF _ ok finish(4)] o(2) by (simp add: keyed_skeleton)
    have "task_id (ti_task t) = tid" using o(2) finish(1) by (simp add: keyed_def)
    with finish o(1,3) k show ?thesis
      by (intro exI [of _ "order @ [tid]"]) (simp add: execute_append)
  qed
qed

text \<open>No task finishes twice, every task finishes after its predecessors, and the tasks that are
left are the others.\<close>

lemma rounds_in_order:
  assumes "sched_rounds round s s'" "keyed (ps_task_graph s)" "graph_inv (ps_task_graph s)"
  obtains order where "ps_finished_tasks s' = ps_finished_tasks s @ order" "distinct order"
    "set (keys (ps_task_graph s')) = set (keys (ps_task_graph s)) - set order"
    "set order \<subseteq> set (keys (ps_task_graph s))"
    "\<And>as y bs. order = as @ y # bs \<Longrightarrow> preds (ps_task_graph s) y \<subseteq> set as"
proof -
  from rounds_execute [OF assms] obtain order where o: "ps_finished_tasks s' = ps_finished_tasks s @ order"
    "execute order (skeleton (ps_task_graph s)) = Inr (skeleton (ps_task_graph s'))" by blast
  note e = execute_prefix [OF _ o(2), unfolded skeleton_inv skeleton_order, OF assms(3)]
  show thesis by (rule that [OF o(1) e(1,2,3)]) (rule e(4))
qed

end

section \<open>The two processor schedulers\<close>

lemma start_task_fields [simp]:
  "ps_task_graph (start_task t b s) = ps_task_graph s" "ps_finished_tasks (start_task t b s) = ps_finished_tasks s"
  "ps_task_graph (record_end_timestamp p b s) = ps_task_graph s"
  "ps_finished_tasks (record_end_timestamp p b s) = ps_finished_tasks s"
  by (simp_all add: start_task_def record_start_timestamp_def record_end_timestamp_def)

lemma external_fields [simp]:
  "ps_finished_tasks (update_external_predecessors other s) = ps_finished_tasks s"
  "ps_status (update_external_predecessors other s) = ps_status s"
  by (simp_all add: update_external_predecessors_def split: option.split)

text \<open>A task that is left without external predecessors after the update had only finished ones.\<close>

lemma external_finished:
  assumes "map_of (ps_task_graph (update_external_predecessors other s)) tid = Some u"
    "ti_ext_predecessors u = []"
  obtains t where "map_of (ps_task_graph s) tid = Some t" "ti_task t = ti_task u" "ti_predecessors t = ti_predecessors u"
    "\<forall>x \<in> set (ti_ext_predecessors t). \<exists>o'. other = Some o' \<and> has_finished x o'"
proof -
  have f: "\<exists>t. map_of g i = Some t \<and> ti_task t = ti_task u \<and> ti_predecessors t = ti_predecessors u \<and>
      (\<forall>x \<in> set (ti_ext_predecessors t). x \<in> set (ti_ext_predecessors u) \<or> has_finished x o')"
    if "map_of (fold (\<lambda>r. upd_tinfo r (drop_finished o')) rs g) i = Some u" for o' rs g i u
    using that
  proof (induction rs arbitrary: g)
    case (Cons r rs)
    then obtain t where t: "map_of (upd_tinfo r (drop_finished o') g) i = Some t" "ti_task t = ti_task u"
      "ti_predecessors t = ti_predecessors u"
      "\<forall>x \<in> set (ti_ext_predecessors t). x \<in> set (ti_ext_predecessors u) \<or> has_finished x o'" by auto
    then show ?case
      by (auto simp: upd_tinfo_def drop_finished_def split: option.splits if_splits)
  qed auto
  show thesis
  proof (cases other)
    case None
    with assms that show thesis by (auto simp: update_external_predecessors_def)
  next
    case (Some o')
    with assms(1) f [of o' "get_roots True (ps_task_graph s)" "ps_task_graph s" tid u] obtain t where
      "map_of (ps_task_graph s) tid = Some t" "ti_task t = ti_task u" "ti_predecessors t = ti_predecessors u"
      "\<forall>x \<in> set (ti_ext_predecessors t). x \<in> set (ti_ext_predecessors u) \<or> has_finished x o'"
      by (auto simp: update_external_predecessors_def)
    with assms(2) Some that show thesis by auto
  qed
qed

text \<open>Executing a root of the graph.\<close>

lemma handle_task_step:
  assumes "sched_handle_task drive clock tid (s1, n1) = Inr (s2, n2)" "tid \<in> set (get_roots False (ps_task_graph s1))"
    and "dict_ok (ps_task_graph s1)"
    and "ps_task_graph s1 = ps_task_graph (update_external_predecessors other s)"
    and "ps_finished_tasks s1 = ps_finished_tasks s"
  shows "sched_step other s s2"
proof -
  from assms(2) obtain u where u: "(tid, u) \<in> set (ps_task_graph s1)" "ti_predecessors u = []" "ti_ext_predecessors u = []"
    by (auto simp: get_roots_def)
  then have m: "map_of (ps_task_graph s1) tid = Some u" using assms(3) by simp
  from external_finished [of other s tid u] u m assms(4) obtain t where
    t: "map_of (ps_task_graph s) tid = Some t" "ti_task t = ti_task u" "ti_predecessors t = []"
    "\<forall>x \<in> set (ti_ext_predecessors t). \<exists>o'. other = Some o' \<and> has_finished x o'" by (metis (no_types))
  have sk: "skeleton (ps_task_graph s1) = skeleton (ps_task_graph s)" using assms(4) by (simp add: skeleton_external)
  have ext: "ext_preds (ps_task_graph s1) j \<subseteq> ext_preds (ps_task_graph s) j" for j
    using assms(4) ext_preds_external by simp
  let ?s = "start_task (ti_task u) (clock n1) s1"
  from assms(1) m obtain ok n where r: "drive (ti_task u) n1 = Inr (ok, n)"
    "if ok then finish_task tid (ti_task u) (clock n1) (clock n) ?s = Inr s2 else s2 = ?s"
    by (fastforce simp: sched_handle_task_def get_tinfo_def Let_def split: if_splits)
  show ?thesis
  proof (cases ok)
    case True
    with r(2) obtain b a where "finish_task tid (ti_task u) b a (start_task (ti_task u) b s1) = Inr s2" by auto
    then obtain g where g: "remove_task tid (decrease_deadlines (a - b) (ps_task_graph s1)) = Inr g"
      "ps_task_graph s2 = g" "ps_finished_tasks s2 = ps_finished_tasks s1 @ [task_id (ti_task u)]"
      by (auto simp: finish_task_def Let_def)
    from skeleton_remove [OF g(1)] have "remove_task tid (skeleton (ps_task_graph s)) = Inr (skeleton (ps_task_graph s2))"
      by (simp add: skeleton_decrease sk g(2))
    moreover have "ext_preds (ps_task_graph s2) j \<subseteq> ext_preds (ps_task_graph s) j" for j
      using ext_preds_remove [OF g(1), of j] ext [of j] g(2) by (auto simp: ext_preds_decrease)
    ultimately show ?thesis using t g(3) assms(5) by (intro sched_step.finish [of s tid t]) auto
  next
    case False
    with r(2) assms(5) sk ext show ?thesis by (simp add: sched_step.idle)
  qed
qed

subsection \<open>Earliest deadline first\<close>

lemma py_nth_in: "py_nth xs i = Inr x \<Longrightarrow> x \<in> set xs"
  by (auto simp: py_nth_def py_index_def Let_def split: if_splits)

lemma in_deadlines_of:
  "(t, d) \<in> set (deadlines_of g ts) \<longleftrightarrow> t \<in> set ts \<and> (\<exists>i. map_of g t = Some i \<and> ti_deadline i = Some d)"
  by (force simp: deadlines_of_def split: option.splits)

lemma sorted_hd_le:
  assumes "x \<in> set (xs :: ('a \<times> 'b :: linorder) list)"
  shows "hd (sort_key snd xs) \<in> set xs" "snd (hd (sort_key snd xs)) \<le> snd x"
proof -
  obtain y ys where s: "sort_key snd xs = y # ys" using assms by (cases "sort_key snd xs") (auto dest: arg_cong [where f = set])
  have "sorted (map snd (sort_key snd xs))" by simp
  with s assms show "snd (hd (sort_key snd xs)) \<le> snd x"
    by (metis list.sel(1) list.simps(9) set_ConsD set_sort sorted_simps(2) image_eqI list.set_map order_refl)
  show "hd (sort_key snd xs) \<in> set xs" using s by (metis list.sel(1) list.set_intros(1) set_sort)
qed

lemma edf_choice_in:
  assumes "edf_choice randint s ready = Inr t"
  shows "t \<in> set ready"
proof (cases "(if ps_use_deadlines s then deadlines_of (ps_task_graph s) ready else []) = []")
  case True
  with assms show ?thesis by (auto simp: edf_choice_def Let_def split: if_splits dest: py_nth_in)
next
  case False
  then have d: "deadlines_of (ps_task_graph s) ready \<noteq> []" "ps_use_deadlines s" by (auto split: if_splits)
  from d(1) obtain x where "x \<in> set (deadlines_of (ps_task_graph s) ready)" by (cases "deadlines_of (ps_task_graph s) ready") auto
  from sorted_hd_le(1) [OF this] assms d show ?thesis
    by (auto simp: edf_choice_def in_deadlines_of prod_eq_iff)
      (metis in_deadlines_of prod.collapse)
qed

lemma edf_choice_earliest:
  assumes "edf_choice randint s ready = Inr t" "ps_use_deadlines s"
    and "u \<in> set ready" "map_of (ps_task_graph s) u = Some j" "ti_deadline j = Some e"
  shows "\<exists>i d. map_of (ps_task_graph s) t = Some i \<and> ti_deadline i = Some d \<and> d \<le> e"
proof -
  let ?ds = "deadlines_of (ps_task_graph s) ready"
  have u: "(u, e) \<in> set ?ds" using assms(3-5) by (auto simp: in_deadlines_of)
  then have "t = fst (hd (sort_key snd ?ds))" using assms(1,2) by (auto simp: edf_choice_def Let_def split: if_splits)
  then have "(t, snd (hd (sort_key snd ?ds))) \<in> set ?ds" using sorted_hd_le(1) [OF u] by simp
  with sorted_hd_le(2) [OF u] show ?thesis by (auto simp: in_deadlines_of)
qed

subsection \<open>Rounds\<close>

lemma add_status_set [simp]:
  "set (st_status (add_status b x st)) = (if b then insert x (set (st_status st)) else set (st_status st))"
  "st_task_id (add_status b x st) = st_task_id st"
  by (simp_all add: add_status_def)

lemma status_sets [simp]:
  "st_status no_status = []" "st_task_id no_status = None"
  "st_status (status_only x) = [x]" "st_status (status_task x t) = [x]" "st_task_id (status_task x t) = Some t"
  by (simp_all add: no_status_def status_only_def status_task_def)

lemma cpu_waiting_statuses:
  "ps_status s = no_status \<Longrightarrow> set (st_status (cpu_waiting s n blocked)) \<subseteq> {WAITING_OTHER_CORE, WAITING_MSG, WAITING_START_TIME}"
  by (auto simp: cpu_waiting_def Let_def split: if_splits)

lemma qpu_waiting_statuses:
  "ps_status s = no_status \<Longrightarrow>
     set (st_status (qpu_waiting s blocked delays)) \<subseteq> {WAITING_OTHER_CORE, WAITING_RESOURCES, WAITING_TIME_BIN}"
  by (auto simp: qpu_waiting_def Let_def split: if_splits)

lemma cpu_status_task:
  assumes "cpu_update_status randint n s = Inr s'" "ps_status s = no_status"
  shows "\<exists>st. s' = s\<lparr>ps_status := st\<rparr>"
    "NEXT_TASK \<in> set (st_status (ps_status s')) \<Longrightarrow> \<exists>blocked t. cpu_blocked s n = Inr blocked \<and>
       edf_choice randint s (cpu_ready s n blocked) = Inr t \<and> ps_status s' = status_task NEXT_TASK t"
proof -
  show "\<exists>st. s' = s\<lparr>ps_status := st\<rparr>" using assms(1) by (auto simp: cpu_update_status_def split: if_splits)
  show "\<exists>blocked t. cpu_blocked s n = Inr blocked \<and>
       edf_choice randint s (cpu_ready s n blocked) = Inr t \<and> ps_status s' = status_task NEXT_TASK t"
    if "NEXT_TASK \<in> set (st_status (ps_status s'))"
  proof (cases "ps_task_graph s = []")
    case True
    with assms(1) that show ?thesis by (simp add: cpu_update_status_def) auto
  next
    case False
    with assms(1) obtain blocked where b: "cpu_blocked s n = Inr blocked" by (auto simp: cpu_update_status_def)
    show ?thesis
    proof (cases "cpu_ready s n blocked = []")
      case True
      with assms(1) False b have "ps_status s' = cpu_waiting s n blocked" by (auto simp: cpu_update_status_def)
      with that cpu_waiting_statuses [OF assms(2), of n blocked] show ?thesis by auto
    next
      case F: False
      with assms(1) False b show ?thesis by (auto simp: cpu_update_status_def)
    qed
  qed
qed

lemma cpu_round_step:
  assumes "dict_ok (ps_task_graph s)" "cpu_round randint other (s, n) = Inr (s', n')"
  shows "sched_step other s s'"
proof -
  let ?s0 = "update_external_predecessors other (s\<lparr>ps_status := no_status\<rparr>)"
  have g0: "ps_task_graph ?s0 = ps_task_graph (update_external_predecessors other s)"
    by (simp add: update_external_predecessors_def split: option.split)
  from assms(2) obtain s1 where s1: "cpu_update_status randint n ?s0 = Inr s1"
    and r: "if NEXT_TASK \<in> set (st_status (ps_status s1))
      then sched_handle_task cpu_handle_task (\<lambda>m. host_now (nd_host m)) (the (st_task_id (ps_status s1))) (s1, n) = Inr (s', n')
      else s' = s1"
    by (fastforce simp: cpu_round_def split: if_splits)
  note st = cpu_status_task [OF s1]
  from st(1) have s1g: "ps_task_graph s1 = ps_task_graph ?s0" "ps_finished_tasks s1 = ps_finished_tasks s" by auto
  show ?thesis
  proof (cases "NEXT_TASK \<in> set (st_status (ps_status s1))")
    case False
    with r s1g g0 have "ps_task_graph s' = ps_task_graph (update_external_predecessors other s)"
      "ps_finished_tasks s' = ps_finished_tasks s" by auto
    then show ?thesis by (intro sched_step.idle) (simp_all add: skeleton_external ext_preds_external)
  next
    case True
    with st(2) obtain blocked t where t: "edf_choice randint ?s0 (cpu_ready ?s0 n blocked) = Inr t"
      "ps_status s1 = status_task NEXT_TASK t" by auto
    have "t \<in> set (get_roots False (ps_task_graph s1))"
      using edf_choice_in [OF t(1)] by (auto simp: cpu_ready_def Let_def s1g)
    moreover have "keys (ps_task_graph ?s0) = keys (ps_task_graph s)"
      unfolding g0 using skeleton_external [of other s] skeleton_order(4) by metis
    then have "dict_ok (ps_task_graph s1)" using assms(1) s1g(1) by simp
    ultimately show ?thesis using r True s1g g0 t(2)
      by (intro handle_task_step [of cpu_handle_task _ t s1 n s' n']) (auto simp: status_task_def)
  qed
qed

interpretation cpu: task_scheduler "cpu_round randint" for randint
  by unfold_locales (rule cpu_round_step)

lemma bin_delays_tasks: "bin_delays s n tids = Inr delays \<Longrightarrow> map fst delays = tids"
proof -
  have "map fst ds = tids" if "rmap (\<lambda>e. rbind (f e) (\<lambda>b. rbind (h b) (\<lambda>d. Inr (e, d)))) tids = Inr ds"
    for f h and ds :: "(int \<times> real) list"
    using that by (induction tids arbitrary: ds) auto
  then show "bin_delays s n tids = Inr delays \<Longrightarrow> map fst delays = tids"
    by (auto simp: bin_delays_def comp_def split: option.splits)
qed

lemma qpu_status_task:
  assumes "qpu_update_status randint n s = Inr (s', n')" "ps_status s = no_status"
  shows "\<exists>st. s' = s\<lparr>ps_status := st\<rparr>"
    "NEXT_TASK \<in> set (st_status (ps_status s')) \<or> EPR_GEN \<in> set (st_status (ps_status s')) \<Longrightarrow>
       \<exists>blocked t. blocked_on_resources s (get_roots False (ps_task_graph s)) n = Inr (blocked, n') \<and>
         t \<in> set (get_roots False (ps_task_graph s)) \<and> t \<notin> set blocked \<and> st_task_id (ps_status s') = Some t"
proof -
  show "\<exists>st. s' = s\<lparr>ps_status := st\<rparr>" using assms(1) by (auto simp: qpu_update_status_def split: if_splits)
  assume picked: "NEXT_TASK \<in> set (st_status (ps_status s')) \<or> EPR_GEN \<in> set (st_status (ps_status s'))"
  with assms(1) obtain blocked delays st where b: "blocked_on_resources s (get_roots False (ps_task_graph s)) n = Inr (blocked, n')"
    "bin_delays s n' (epr_unblocked s blocked) = Inr delays" "qpu_choice randint s blocked delays = Inr st"
    "s' = s\<lparr>ps_status := st\<rparr>"
    by (auto simp: qpu_update_status_def split: if_splits)
  have epr: "set (get_epr_roots False g) \<subseteq> set (get_roots False g)" for g by (auto simp: get_epr_roots_def)
  have "\<exists>t. st_task_id st = Some t \<and> t \<in> set (get_roots False (ps_task_graph s)) \<and> t \<notin> set blocked"
  proof (cases "map fst (filter (\<lambda>(e, d). d = 0) delays) = []")
    case True
    with b(3,4) picked qpu_waiting_statuses [OF assms(2), of blocked delays] show ?thesis
      by (auto simp: qpu_choice_def non_epr_ready_def dest!: edf_choice_in split: if_splits)
  next
    case False
    then have "st = status_task EPR_GEN (hd (map fst (filter (\<lambda>(e, d). d = 0) delays)))"
      using b(3) by (simp add: qpu_choice_def Let_def)
    moreover have "hd (map fst (filter (\<lambda>(e, d). d = 0) delays)) \<in> set (epr_unblocked s blocked)"
    proof -
      have "set (map fst (filter (\<lambda>(e, d). d = 0) delays)) \<subseteq> set (map fst delays)" by auto
      with hd_in_set [OF False] show ?thesis unfolding bin_delays_tasks [OF b(2)] by blast
    qed
    ultimately show ?thesis using epr by (auto simp: epr_unblocked_def)
  qed
  with b show "\<exists>blocked t. blocked_on_resources s (get_roots False (ps_task_graph s)) n = Inr (blocked, n') \<and>
         t \<in> set (get_roots False (ps_task_graph s)) \<and> t \<notin> set blocked \<and> st_task_id (ps_status s') = Some t"
    by auto
qed

lemma qpu_round_step:
  assumes "dict_ok (ps_task_graph s)" "qpu_round env randint other (s, n) = Inr (s', n')"
  shows "sched_step other s s'"
proof -
  let ?s0 = "update_external_predecessors other (s\<lparr>ps_status := no_status\<rparr>)"
  have g0: "ps_task_graph ?s0 = ps_task_graph (update_external_predecessors other s)"
    by (simp add: update_external_predecessors_def split: option.split)
  let ?picked = "\<lambda>s1. EPR_GEN \<in> set (st_status (ps_status s1)) \<or> NEXT_TASK \<in> set (st_status (ps_status s1))"
  from assms(2) obtain s1 n1 where s1: "qpu_update_status randint n ?s0 = Inr (s1, n1)"
    and r: "if ?picked s1
      then sched_handle_task (qpu_handle_task env) (\<lambda>m. ib_now (nd_inbox m)) (the (st_task_id (ps_status s1))) (s1, n1) = Inr (s', n')
      else s' = s1"
    by (fastforce simp: qpu_round_def split: if_splits)
  note st = qpu_status_task [OF s1]
  from st(1) have s1g: "ps_task_graph s1 = ps_task_graph ?s0" "ps_finished_tasks s1 = ps_finished_tasks s" by auto
  show ?thesis
  proof (cases "?picked s1")
    case False
    with r s1g g0 have "ps_task_graph s' = ps_task_graph (update_external_predecessors other s)"
      "ps_finished_tasks s' = ps_finished_tasks s" by auto
    then show ?thesis by (intro sched_step.idle) (simp_all add: skeleton_external ext_preds_external)
  next
    case True
    with st(2) obtain t where t: "t \<in> set (get_roots False (ps_task_graph ?s0))" "st_task_id (ps_status s1) = Some t" by auto
    have "keys (ps_task_graph ?s0) = keys (ps_task_graph s)"
      unfolding g0 using skeleton_external [of other s] skeleton_order(4) by metis
    then have "dict_ok (ps_task_graph s1)" using assms(1) s1g(1) by simp
    with r True s1g g0 t show ?thesis
      by (intro handle_task_step [of "qpu_handle_task env" _ t s1 n1 s' n']) auto
  qed
qed

interpretation qpu: task_scheduler "qpu_round env randint" for env randint
  by unfold_locales (rule qpu_round_step)

end
