(* ===== verification/NodeExec.thy ===== *)
theory NodeExec
  imports NodeSched SchedExec
begin

text \<open>
  The tasks that the node scheduler hands to the two processor schedulers: their IDs are fresh, each
  goes to its own processor, and the two graphs together never wait for each other in a circle.
\<close>

section \<open>Two graphs that wait for each other\<close>

text \<open>The precedences within the graphs and between them.\<close>

definition waits :: "task_graph \<Rightarrow> task_graph \<Rightarrow> (int \<times> int) set" where
  "waits C Q = edges C \<union> edges Q \<union> {(x, y). x \<in> ext_preds C y} \<union> {(x, y). x \<in> ext_preds Q y}"

text \<open>
  Two graphs whose IDs, and the IDs of the tasks that have been finished, are all different and lie
  between two bounds; a task of one graph waits in the other one only for tasks that are there or
  have been finished there; and there is no circle.
\<close>

definition both_ok :: "int \<Rightarrow> int \<Rightarrow> int set \<Rightarrow> int set \<Rightarrow> task_graph \<Rightarrow> task_graph \<Rightarrow> bool" where
  "both_ok lo hi fc fq C Q \<longleftrightarrow> graph_ok C \<and> graph_ok Q \<and> keyed C \<and> keyed Q \<and>
     set (keys C) \<inter> set (keys Q) = {} \<and> (set (keys C) \<union> set (keys Q)) \<inter> (fc \<union> fq) = {} \<and>
     set (keys C) \<union> set (keys Q) \<union> fc \<union> fq \<subseteq> {lo..<hi} \<and>
     (\<forall>j. ext_preds C j \<subseteq> set (keys Q) \<union> fq) \<and> (\<forall>j. ext_preds Q j \<subseteq> set (keys C) \<union> fc) \<and>
     acyclic (waits C Q)"

lemma waits_sym: "waits Q C = waits C Q"
  by (auto simp: waits_def)

lemma both_ok_sym: "both_ok lo hi fc fq C Q = both_ok lo hi fq fc Q C"
  unfolding both_ok_def waits_sym [of Q C] by (auto simp: Int_commute Un_commute)

lemma both_ok_empty: "both_ok lo hi {} {} [] []"
  by (simp add: both_ok_def graph_ok_def keyed_def waits_def edges_def preds_def succs_def ext_preds_def acyclic_def)

lemma ext_preds_key: "x \<in> ext_preds g j \<Longrightarrow> j \<in> set (keys g)"
  by (auto simp: ext_preds_def simp del: set_map dest: map_of_in_keys split: option.splits)

lemma both_ok_shrink:
  assumes "both_ok lo hi fc fq C Q" "graph_ok C'" "keyed C'" "edges C' \<subseteq> edges C"
    and "\<And>j. ext_preds C' j \<subseteq> ext_preds C j" "set (keys C') = set (keys C) - F" "F \<subseteq> set (keys C)"
  shows "both_ok lo hi (fc \<union> F) fq C' Q"
proof -
  have "waits C' Q \<subseteq> waits C Q" using assms(4,5) by (auto simp: waits_def)
  moreover have "acyclic (waits C Q)" using assms(1) by (simp add: both_ok_def)
  ultimately have "acyclic (waits C' Q)" by (rule acyclic_subset [rotated])
  moreover have "ext_preds C' j \<subseteq> set (keys Q) \<union> fq" for j
    using assms(1,5) unfolding both_ok_def by blast
  moreover have "ext_preds Q j \<subseteq> set (keys C') \<union> (fc \<union> F)" for j
    using assms(1) unfolding both_ok_def assms(6) by blast
  moreover have "set (keys C') \<inter> set (keys Q) = {}" "(set (keys C') \<union> set (keys Q)) \<inter> ((fc \<union> F) \<union> fq) = {}"
    "set (keys C') \<union> set (keys Q) \<union> (fc \<union> F) \<union> fq \<subseteq> {lo..<hi}"
    using assms(1,7) unfolding both_ok_def assms(6) by blast+
  ultimately show ?thesis using assms(1-3) unfolding both_ok_def by blast
qed

text \<open>A round of a processor scheduler.\<close>

lemma both_ok_step:
  assumes "both_ok lo hi (set (ps_finished_tasks s)) fq (ps_task_graph s) Q" "sched_step other s s'"
  shows "both_ok lo hi (set (ps_finished_tasks s')) fq (ps_task_graph s') Q"
  using assms(2)
proof cases
  case idle
  let ?C = "ps_task_graph s" and ?C' = "ps_task_graph s'"
  have "graph_ok ?C'" "keyed ?C'" "edges ?C' = edges ?C" "keys ?C' = keys ?C"
    using assms(1) idle(1) skeleton_ok keyed_skeleton skeleton_order(3,4) unfolding both_ok_def by metis+
  with both_ok_shrink [OF assms(1), of ?C' "{}"] idle show ?thesis by simp
next
  case (finish tid t)
  let ?C = "ps_task_graph s" and ?C' = "ps_task_graph s'"
  have ok: "graph_ok (skeleton ?C)" "keyed (skeleton ?C)"
    using assms(1) by (simp_all only: both_ok_def skeleton_ok keyed_skeleton)
  note r = finish(4)
  have C': "graph_ok ?C'" "keyed ?C'" "edges ?C' \<subseteq> edges ?C" "set (keys ?C') = set (keys ?C) - {tid}"
    using remove_task_graph_ok [OF ok(1) r] keyed_remove [OF ok(2,1) r] remove_task_edges [OF ok(1) r]
      remove_task_Inr(3) [OF ok(1) r]
    by (auto simp: skeleton_ok keyed_skeleton skeleton_order simp del: set_map)
  have "task_id (ti_task t) = tid" using ok(2) finish(1) by (simp add: keyed_skeleton) (simp add: keyed_def)
  moreover have "tid \<in> set (keys ?C)" using finish(1) by (rule map_of_in_keys)
  ultimately show ?thesis using both_ok_shrink [OF assms(1) C'(1-3) _ C'(4)] finish by simp
qed

subsection \<open>Adding tasks\<close>

lemma append_order:
  assumes "distinct (keys (C @ D))"
  shows "preds (C @ D) i = preds C i \<union> preds D i" "succs (C @ D) i = succs C i \<union> succs D i"
    "ext_preds (C @ D) i = ext_preds C i \<union> ext_preds D i"
proof -
  have "map_of C i = None \<or> map_of D i = None" using assms by (auto simp: map_of_eq_None_iff)
  then show "preds (C @ D) i = preds C i \<union> preds D i" "succs (C @ D) i = succs C i \<union> succs D i"
    "ext_preds (C @ D) i = ext_preds C i \<union> ext_preds D i"
    by (auto simp: preds_def succs_def ext_preds_def map_add_def split: option.splits)
qed

lemma append_graph:
  assumes "graph_ok C" "graph_ok D" "set (keys C) \<inter> set (keys D) = {}"
  shows "dupdate C D = C @ D" "graph_ok (C @ D)" "keyed C \<Longrightarrow> keyed D \<Longrightarrow> keyed (C @ D)"
    "edges (C @ D) = edges C \<union> edges D" "ext_preds (C @ D) j = ext_preds C j \<union> ext_preds D j"
proof -
  have d: "distinct (keys (C @ D))" using assms by (simp add: graph_ok_def)
  note a = append_order [OF d]
  show "dupdate C D = C @ D" by (rule dupdate_fresh [OF d])
  show "edges (C @ D) = edges C \<union> edges D" "ext_preds (C @ D) j = ext_preds C j \<union> ext_preds D j"
    by (auto simp: edges_def a)
  show "keyed (C @ D)" if "keyed C" "keyed D"
    using that by (auto simp: keyed_def map_add_def split: option.splits)
  show "graph_ok (C @ D)"
  proof (rule graph_okI [OF d])
    show "distinct (ti_predecessors t) \<and> distinct (ti_successors t)" if "map_of (C @ D) i = Some t" for i t
      using that graph_ok_distinct [OF assms(1), of i t] graph_ok_distinct [OF assms(2), of i t]
      by (auto simp: map_add_def split: option.splits)
    show "i \<in> preds (C @ D) j \<longleftrightarrow> j \<in> succs (C @ D) i" for i j
      unfolding a using graph_ok_dual [OF assms(1)] graph_ok_dual [OF assms(2)] by simp
  qed
qed

lemma both_ok_append:
  assumes "both_ok lo mid fc fq C Q" "both_ok mid hi {} {} C' Q'" "lo \<le> mid" "mid \<le> hi"
  shows "both_ok lo hi fc fq (dupdate C C') (dupdate Q Q')"
proof -
  note b = assms(1,2) [unfolded both_ok_def]
  have k: "set (keys C) \<union> set (keys Q) \<union> fc \<union> fq \<subseteq> {lo..<mid}" "set (keys C') \<union> set (keys Q') \<subseteq> {mid..<hi}"
    using b by blast+
  have dis: "x \<notin> {mid..<hi}" if "x \<in> {lo..<mid}" for x using that by simp
  have "set (keys C) \<inter> set (keys C') = {}" "set (keys Q) \<inter> set (keys Q') = {}" using k dis by blast+
  with b have c: "graph_ok C" "graph_ok C'" "set (keys C) \<inter> set (keys C') = {}" "graph_ok Q" "graph_ok Q'"
    "set (keys Q) \<inter> set (keys Q') = {}" by blast+
  note ac = append_graph [OF c(1,2,3)] and aq = append_graph [OF c(4,5,6)]
  have w: "waits (C @ C') (Q @ Q') = waits C Q \<union> waits C' Q' \<union> {}"
    unfolding waits_def ac(4,5) aq(4,5) by blast
  have in_v: "waits C Q \<subseteq> {lo..<mid} \<times> {lo..<mid}"
    using k(1) b(1) edges_keys [OF c(1)] edges_keys [OF c(4)] ext_preds_key [of _ C] ext_preds_key [of _ Q]
    unfolding waits_def by blast
  have in_w: "waits C' Q' \<subseteq> {mid..<hi} \<times> {mid..<hi}"
    using k(2) b(2) edges_keys [OF c(2)] edges_keys [OF c(5)] ext_preds_key [of _ C'] ext_preds_key [of _ Q']
    unfolding waits_def by blast
  have acyc: "acyclic (waits (C @ C') (Q @ Q'))"
    unfolding w by (rule acyclic_extend [OF _ in_v _ in_w]) (use b in auto)
  have "{lo..<mid} \<subseteq> {lo..<hi}" "{mid..<hi} \<subseteq> {lo..<hi}" using assms(3,4) by auto
  with k have "set (keys (C @ C')) \<union> set (keys (Q @ Q')) \<union> fc \<union> fq \<subseteq> {lo..<hi}" by auto
  moreover have "set (keys (C @ C')) \<inter> set (keys (Q @ Q')) = {}"
    "(set (keys (C @ C')) \<union> set (keys (Q @ Q'))) \<inter> (fc \<union> fq) = {}"
  proof -
    have "set (keys C) \<inter> set (keys Q') = {}" "set (keys C') \<inter> set (keys Q) = {}"
      "(set (keys C') \<union> set (keys Q')) \<inter> (fc \<union> fq) = {}" using k dis by blast+
    moreover have "set (keys C) \<inter> set (keys Q) = {}" "set (keys C') \<inter> set (keys Q') = {}"
      "(set (keys C) \<union> set (keys Q)) \<inter> (fc \<union> fq) = {}" using b by simp_all
    ultimately show "set (keys (C @ C')) \<inter> set (keys (Q @ Q')) = {}"
      "(set (keys (C @ C')) \<union> set (keys (Q @ Q'))) \<inter> (fc \<union> fq) = {}"
      unfolding map_append set_append by blast+
  qed
  moreover have "\<forall>j. ext_preds (C @ C') j \<subseteq> set (keys (Q @ Q')) \<union> fq" "\<forall>j. ext_preds (Q @ Q') j \<subseteq> set (keys (C @ C')) \<union> fc"
    using b unfolding ac(5) aq(5) map_append set_append by blast+
  moreover have "keyed (C @ C')" "keyed (Q @ Q')" using ac(3) aq(3) b by blast+
  ultimately show ?thesis using acyc ac(2) aq(2) unfolding both_ok_def ac(1) aq(1) by blast
qed

subsection \<open>Progress\<close>

text \<open>When tasks are left, one of them waits for nothing.\<close>

lemma both_ok_progress:
  assumes "both_ok lo hi fc fq C Q" "C \<noteq> [] \<or> Q \<noteq> []"
  shows "\<exists>i. i \<in> set (keys C) \<and> preds C i = {} \<and> ext_preds C i \<subseteq> fq \<or>
    i \<in> set (keys Q) \<and> preds Q i = {} \<and> ext_preds Q i \<subseteq> fc"
proof -
  note b = assms(1) [unfolded both_ok_def]
  let ?V = "set (keys C) \<union> set (keys Q)"
  let ?E = "waits C Q \<inter> ?V \<times> ?V"
  have "acyclic ?E" using b by (auto intro: acyclic_subset)
  moreover have "finite ?E" by (rule finite_subset [OF Int_lower2]) simp
  ultimately have "wf ?E" by (rule finite_acyclic_wf [rotated])
  moreover have "?V \<noteq> {}" using assms(2) by auto
  ultimately obtain i where i: "i \<in> ?V" "\<And>x. (x, i) \<in> ?E \<Longrightarrow> x \<notin> ?V" by (meson ex_in_conv wfE_min)
  then have none: "x \<notin> ?V" if "(x, i) \<in> waits C Q" for x using that by blast
  have "preds C i = {}" "preds Q i = {}"
    using none graph_ok_closed(1) b by (fastforce simp: waits_def edges_def simp del: set_map)+
  moreover have "ext_preds C i \<inter> set (keys Q) = {}" "ext_preds Q i \<inter> set (keys C) = {}"
    using none by (auto simp: waits_def simp del: set_map)
  ultimately show ?thesis using i(1) b by (intro exI [of _ i]) blast
qed

section \<open>The tasks of a block\<close>

definition typed :: "proc_type \<Rightarrow> task_graph \<Rightarrow> bool" where
  "typed typ g \<longleftrightarrow> (\<forall>i t. map_of g i = Some t \<longrightarrow> processor_type (ti_task t) = typ)"

text \<open>Tasks for both processors, with IDs from one counter value up to another.\<close>

definition fresh_tasks :: "int \<Rightarrow> int \<Rightarrow> task_graph \<Rightarrow> task_graph \<Rightarrow> bool" where
  "fresh_tasks c c' C Q \<longleftrightarrow> c \<le> c' \<and> both_ok c c' {} {} C Q \<and> typed CPU C \<and> typed QPU Q"

lemma fresh_none: "c \<le> c' \<Longrightarrow> fresh_tasks c c' [] []"
  by (simp add: fresh_tasks_def both_ok_empty typed_def)

lemma typed_append: "typed typ g \<Longrightarrow> typed typ h \<Longrightarrow> dict_ok h \<Longrightarrow> typed typ (dupdate g h)"
  by (auto simp: typed_def map_add_def split: option.splits)

lemma both_ok_dict: "both_ok lo hi fc fq C Q \<Longrightarrow> dict_ok C \<and> dict_ok Q"
  by (simp only: both_ok_def graph_ok_dict)

lemma fresh_append:
  assumes "fresh_tasks c1 c2 C Q" "fresh_tasks c2 c3 C' Q'"
  shows "fresh_tasks c1 c3 (dupdate C C') (dupdate Q Q')"
  using assms both_ok_append [of c1 c2 "{}" "{}" C Q c3 C' Q'] both_ok_dict [of c2 c3 "{}" "{}" C' Q']
  by (simp add: fresh_tasks_def typed_append)

text \<open>The tasks of one block of a program: all IDs from the one counter value to the other are used.\<close>

definition block_tasks :: "int \<Rightarrow> int \<Rightarrow> int \<Rightarrow> task_graph \<Rightarrow> task_graph \<Rightarrow> bool" where
  "block_tasks pid c c' C Q \<longleftrightarrow> fresh_tasks c c' C Q \<and> c < c' \<and> set (keys C) \<union> set (keys Q) = {c..<c'} \<and>
     (\<forall>i t. map_of C i = Some t \<or> map_of Q i = Some t \<longrightarrow> task_pid (ti_task t) = pid)"

text \<open>One task for the CPU.\<close>

lemma single_block_tasks:
  assumes "new_task pid k d ([], c) = (g, c')" "kind_processor k = CPU"
  shows "block_tasks pid c c' g []"
proof -
  have g: "g = [(c, only_task (mk_task c pid k d))]" "c' = c + 1"
    using assms(1) by (simp_all add: new_task_def add_tasks_def mk_task_def)
  have e: "preds g i = {}" "succs g i = {}" "ext_preds g i = {}" for i
    by (simp_all add: g preds_def succs_def ext_preds_def only_task_def)
  have "waits g [] = {}" "edges g = {}" by (simp_all add: waits_def edges_def e) (simp_all add: preds_def ext_preds_def)
  moreover have "keyed g" "typed CPU g" using assms(2) by (auto simp: g keyed_def typed_def only_task_def mk_task_def processor_type_def split: if_splits)
  moreover have "graph_ok g" by (rule graph_okI) (auto simp: e, auto simp: g only_task_def split: if_splits)
  moreover have "set (keys g) = {c}" by (simp add: g)
  ultimately have "fresh_tasks c c' g []" using both_ok_empty [of c c']
    by (simp add: fresh_tasks_def both_ok_def typed_def e g(2) acyclic_def del: set_map)
  moreover have "task_pid (ti_task t) = pid" if "map_of g i = Some t" for i t
    using that by (auto simp: g only_task_def mk_task_def split: if_splits)
  ultimately show ?thesis by (auto simp: block_tasks_def g)
qed

text \<open>The tasks of a quantum block, split between the processors.\<close>

lemma grown_pred_inv:
  assumes "grown pid post ([], c) (g, c')"
  shows "pred_inv g" "set (keys g) = {c..<c'}"
    "map_of g i = Some t \<Longrightarrow> task_id (ti_task t) = i \<and> task_pid (ti_task t) = pid"
proof -
  have k: "keys g = [c..c' - 1]" using assms by (simp add: grown_def)
  then show s: "set (keys g) = {c..<c'}" unfolding k by auto
  have e: "edges g \<subseteq> block_edges c c' post" using assms by (auto simp: grown_def edges_def preds_def)
  then have "acyclic (edges g)" using block_edges_acyclic by (rule acyclic_subset [rotated])
  moreover have "edges g \<subseteq> set (keys g) \<times> set (keys g)"
    using e unfolding s by (auto simp: block_edges_def)
  moreover have "wf_b (g, c')" using assms by (simp add: grown_def)
  ultimately show "pred_inv g" by (simp add: pred_inv_def preds_ok_def wf_b_def)
  show "task_id (ti_task t) = i \<and> task_pid (ti_task t) = pid" if t: "map_of g i = Some t"
  proof -
    have "i \<in> {c..<c'}" using map_of_in_keys [OF t] unfolding s .
    then have "\<exists>u. task_at g i = Some u \<and> task_id u = i \<and> task_pid u = pid" using assms by (auto simp: grown_def)
    with t show ?thesis by (auto simp: task_at_def)
  qed
qed

lemma split_block_tasks:
  assumes "grown pid post ([], c) (g, c')" "c < c'" "partial_graph CPU g = Inr C" "partial_graph QPU g = Inr Q"
  shows "block_tasks pid c c' C Q"
proof -
  note g = grown_pred_inv [OF assms(1)]
  have ok: "preds_ok g" and ac: "acyclic (edges g)" using g(1) by (simp_all add: pred_inv_def)
  have part: "graph_ok h \<and> set (keys h) = {i \<in> {c..<c'}. ptype g i = typ} \<and>
      edges h \<subseteq> (edges g)\<^sup>+ \<and> (\<forall>i. ext_preds h i \<subseteq> {p \<in> preds g i. ptype g p \<noteq> typ}) \<and> keyed h \<and> typed typ h \<and>
      (\<forall>i t. map_of h i = Some t \<longrightarrow> task_pid (ti_task t) = pid)"
    if h: "partial_graph typ g = Inr h" for "typ" h
  proof -
    from partial_graph_ok [OF g(1), of "typ"] h have p: "graph_ok h"
      "set (keys h) = {i \<in> set (keys g). ptype g i = typ}"
      "\<And>i. i \<in> set (keys h) \<Longrightarrow> preds h i = {p \<in> preds g i. ptype g p = typ} \<union> double_cross g i"
      "\<And>i t. map_of g i = Some t \<Longrightarrow> processor_type (ti_task t) = typ \<Longrightarrow>
         \<exists>t'. map_of h i = Some t' \<and> ti_task t' = ti_task t \<and>
           set (ti_ext_predecessors t') = {p \<in> preds g i. ptype g p \<noteq> typ}"
      by (simp_all del: set_map) blast
    have entry: "\<exists>t. map_of g i = Some t \<and> processor_type (ti_task t) = typ \<and> ti_task u = ti_task t \<and>
        set (ti_ext_predecessors u) = {p \<in> preds g i. ptype g p \<noteq> typ}" if u: "map_of h i = Some u" for i u
    proof -
      have "i \<in> set (keys h)" using map_of_in_keys [OF u] .
      then have "i \<in> set (keys g)" "ptype g i = typ" unfolding p(2) by blast+
      then obtain t where "map_of g i = Some t" "processor_type (ti_task t) = typ"
        using in_keys_map_of [of i g] by (auto simp: ptype_def simp del: set_map)
      with p(4) [of i t] u show ?thesis by auto
    qed
    have "edges h \<subseteq> (edges g)\<^sup>+"
      using p(3) preds_key [of _ h] double_cross_chain [of _ g] unfolding edges_def by blast
    moreover have "ext_preds h i \<subseteq> {p \<in> preds g i. ptype g p \<noteq> typ}" for i
      using entry [of i] by (auto simp: ext_preds_def split: option.splits)
    moreover have "keyed h" "typed typ h" "\<forall>i t. map_of h i = Some t \<longrightarrow> task_pid (ti_task t) = pid"
      using entry g(3) by (fastforce simp: keyed_def typed_def)+
    ultimately show ?thesis using p(1,2) unfolding g(2) by blast
  qed
  note C = part [OF assms(3)] and Q = part [OF assms(4)]
  have "(x, y) \<in> (edges g)\<^sup>+" if "x \<in> preds g y" for x y using that by (auto simp: edges_def)
  then have "waits C Q \<subseteq> (edges g)\<^sup>+" using C Q unfolding waits_def by blast
  moreover have "acyclic ((edges g)\<^sup>+)" using ac by (simp add: acyclic_def)
  ultimately have "acyclic (waits C Q)" by (rule acyclic_subset [rotated])
  moreover have "ext_preds C j \<subseteq> set (keys Q)" "ext_preds Q j \<subseteq> set (keys C)" for j
  proof -
    have "p \<in> {c..<c'}" if "p \<in> preds g j" for p using preds_ok_closed [OF ok that] unfolding g(2) .
    moreover have "x \<noteq> CPU \<longleftrightarrow> x = QPU" "x \<noteq> QPU \<longleftrightarrow> x = CPU" for x by (cases x; simp)+
    ultimately show "ext_preds C j \<subseteq> set (keys Q)" "ext_preds Q j \<subseteq> set (keys C)"
      using C Q by blast+
  qed
  moreover have all: "set (keys C) \<union> set (keys Q) = {c..<c'}"
  proof -
    have "x = CPU \<or> x = QPU" for x by (cases x) simp_all
    then show ?thesis using C Q by blast
  qed
  moreover have "set (keys C) \<inter> set (keys Q) = {}" using C Q by auto
  ultimately have "fresh_tasks c c' C Q" using C Q assms(2) unfolding fresh_tasks_def both_ok_def by auto
  with C Q all assms(2) show ?thesis unfolding block_tasks_def by blast
qed

lemma block_build_tasks:
  assumes "block_build inst i net c = Inr (g, c')" "py_nth (pr_blocks (pi_program inst)) i = Inr block"
  shows "block_typ block \<in> {CL, CC} \<Longrightarrow> block_tasks (pi_pid inst) c c' g []"
    "block_typ block \<notin> {CL, CC} \<Longrightarrow> partial_graph CPU g = Inr C \<Longrightarrow> partial_graph QPU g = Inr Q \<Longrightarrow>
       block_tasks (pi_pid inst) c c' C Q"
proof -
  show "block_tasks (pi_pid inst) c c' g []" if "block_typ block \<in> {CL, CC}"
    using that assms by (auto simp: block_build_def Let_def intro: single_block_tasks)
  assume b: "block_typ block \<notin> {CL, CC}" and p: "partial_graph CPU g = Inr C" "partial_graph QPU g = Inr Q"
  have wf: "wf_b ([], c)" by (simp add: wf_b_def)
  from b have "block_typ block = QL \<or> block_typ block = QC" by (cases "block_typ block") auto
  then have "\<exists>post. grown (pi_pid inst) post ([], c) (g, c') \<and> c < c'"
  proof
    assume "block_typ block = QL"
    with assms obtain name cd ld pre post where
      "routine_tasks (pi_pid inst) name cd ld ([], c) = Inr (pre, post, g, c')"
      by (auto simp: block_build_def Let_def)
    with routine_tasks_grown [OF wf, of "pi_pid inst" name cd ld] show ?thesis by auto
  next
    assume "block_typ block = QC"
    with assms obtain rs ehi inp pre post where
      "request_tasks rs block (pi_pid inst) ehi net inp ([], c) = Inr (pre, post, g, c')"
      by (auto simp: block_build_def Let_def)
    from request_tasks_grown [OF wf this] show ?thesis by auto
  qed
  with split_block_tasks p show "block_tasks (pi_pid inst) c c' C Q" by blast
qed

section \<open>The node scheduler\<close>

text \<open>
  The invariant of a node scheduler: the two graphs are in order with respect to the tasks that
  each processor has finished, and the counter of the task builder is above all of their IDs.
\<close>

definition node_inv :: "'q node_scheduler \<Rightarrow> bool" where
  "node_inv sd \<longleftrightarrow> 0 \<le> sd_task_counter sd \<and>
     both_ok 0 (sd_task_counter sd) (set (ps_finished_tasks (sd_cpu sd))) (set (ps_finished_tasks (sd_qpu sd)))
       (ps_task_graph (sd_cpu sd)) (ps_task_graph (sd_qpu sd)) \<and>
     typed CPU (ps_task_graph (sd_cpu sd)) \<and> typed QPU (ps_task_graph (sd_qpu sd))"

text \<open>Changes elsewhere.\<close>

definition same_tasks :: "'q node_scheduler \<Rightarrow> 'q node_scheduler \<Rightarrow> bool" where
  "same_tasks sd sd' \<longleftrightarrow> sd_cpu sd' = sd_cpu sd \<and> sd_qpu sd' = sd_qpu sd \<and> sd_task_counter sd' = sd_task_counter sd"

lemma same_tasks_inv: "same_tasks sd sd' \<Longrightarrow> node_inv sd \<Longrightarrow> node_inv sd'"
  by (simp add: same_tasks_def node_inv_def)

lemma same_tasks_refl [simp]: "same_tasks sd sd"
  by (simp add: same_tasks_def)

lemma same_tasks_trans: "same_tasks sd sd1 \<Longrightarrow> same_tasks sd1 sd2 \<Longrightarrow> same_tasks sd sd2"
  by (simp add: same_tasks_def)

lemma submit_batch_same: "submit_batch info sd = Inr (b, sd') \<Longrightarrow> same_tasks sd sd'"
  by (auto simp: submit_batch_def Let_def same_tasks_def)

lemma install_process_same: "install_process inst r d sd = Inr sd' \<Longrightarrow> same_tasks sd sd'"
  by (auto simp: install_process_def same_tasks_def)

lemma create_processes_same:
  assumes "create_processes_for_batches remote_pids lin sd = Inr sd'"
  shows "same_tasks sd sd'"
proof -
  from assms obtain xs prev where r: "rfold (create_process_for remote_pids lin) xs (- 1, sd) = Inr (prev, sd')"
    by (auto simp: create_processes_for_batches_def)
  have "same_tasks sd (snd (prev, sd'))"
    by (rule rfold_invariant [OF r]) (auto simp: create_process_for_def dest!: install_process_same intro: same_tasks_trans)
  then show ?thesis by simp
qed

lemma collect_results_same:
  assumes "collect_batch_results sd = Inr sd'"
  shows "same_tasks sd sd'"
  using assms unfolding collect_batch_results_def
  by (rule rfold_invariant) (auto simp: collect_batch_result_def same_tasks_def)

lemma take_jump_same [simp]: "same_tasks sd (take_jump pid sd)"
  by (simp add: take_jump_def same_tasks_def split: option.split)

text \<open>Looking for the next tasks of a program leaves the graphs alone and returns fresh tasks.\<close>

lemma find_next_fresh:
  assumes "find_next_tasks_for pid sd = Inr ((x, y), sd')"
  shows "sd_cpu sd' = sd_cpu sd" "sd_qpu sd' = sd_qpu sd"
    "fresh_tasks (sd_task_counter sd) (sd_task_counter sd') (new_tasks x) (new_tasks y)"
proof -
  let ?sd = "take_jump pid sd"
  have t: "sd_cpu ?sd = sd_cpu sd" "sd_qpu ?sd = sd_qpu sd" "sd_task_counter ?sd = sd_task_counter sd"
    using take_jump_same [of sd pid] by (simp_all add: same_tasks_def)
  from assms obtain index p where p: "dget (sd_block_index ?sd) pid = Inr index"
    "get_process pid (nd_mm (sd_node ?sd)) = Inr p"
    by (auto simp: find_next_tasks_for_def Let_def)
  let ?build = "block_build (pc_instance p) index (Some (sd_network ?sd)) (sd_task_counter ?sd)"
  have "sd_cpu sd' = sd_cpu sd \<and> sd_qpu sd' = sd_qpu sd \<and>
    fresh_tasks (sd_task_counter sd) (sd_task_counter sd') (new_tasks x) (new_tasks y)"
  proof (cases "index \<ge> int (length (pr_blocks (pc_program p))) \<or> sched_task_exists pid (sd_cpu ?sd)")
    case True
    with assms p t show ?thesis by (auto simp: find_next_tasks_for_def Let_def new_tasks_def fresh_none)
  next
    case False
    with assms p obtain block where b: "py_nth (pr_blocks (pc_program p)) index = Inr block"
      by (auto simp: find_next_tasks_for_def Let_def)
    show ?thesis
    proof (cases "block_typ block \<in> {CL, CC}")
      case True
      with assms p False b obtain graph counter where g: "?build = Inr (graph, counter)" "x = Some graph" "y = None"
        "sd' = send_cpu_scheduler_message (advance_block pid index counter ?sd)"
        by (auto simp: find_next_tasks_for_def Let_def)
      from block_build_tasks(1) [OF g(1) b True] g(2-) t show ?thesis
        by (simp add: new_tasks_def send_cpu_scheduler_message_def advance_block_def block_tasks_def)
    next
      case quantum: False
      show ?thesis
      proof (cases "sched_task_exists pid (sd_qpu ?sd)")
        case True
        with assms p False b quantum have "x = Some []" "y = Some []" "sd' = ?sd"
          by (auto simp: find_next_tasks_for_def Let_def)
        with t show ?thesis by (simp add: new_tasks_def fresh_none)
      next
        case no_qpu: False
        with assms p False b quantum obtain graph counter C Q where g: "?build = Inr (graph, counter)"
          "partial_graph CPU graph = Inr C" "partial_graph QPU graph = Inr Q" "x = Some C" "y = Some Q"
          "sd' = advance_block pid index counter ?sd"
          by (auto simp: find_next_tasks_for_def Let_def)
        from block_build_tasks(2) [OF g(1) b quantum g(2,3)] g(4-) t show ?thesis
          by (simp add: new_tasks_def advance_block_def block_tasks_def)
      qed
    qed
  qed
  then show "sd_cpu sd' = sd_cpu sd" "sd_qpu sd' = sd_qpu sd"
    "fresh_tasks (sd_task_counter sd) (sd_task_counter sd') (new_tasks x) (new_tasks y)" by auto
qed

lemma dupdate_Nil [simp]: "dupdate g [] = g"
  by (simp add: dupdate_def)

lemma give_tasks_fields:
  "ps_task_graph (sd_cpu (give_tasks C Q sd)) = dupdate (ps_task_graph (sd_cpu sd)) C"
  "ps_task_graph (sd_qpu (give_tasks C Q sd)) = dupdate (ps_task_graph (sd_qpu sd)) Q"
  "ps_finished_tasks (sd_cpu (give_tasks C Q sd)) = ps_finished_tasks (sd_cpu sd)"
  "ps_finished_tasks (sd_qpu (give_tasks C Q sd)) = ps_finished_tasks (sd_qpu sd)"
  "sd_task_counter (give_tasks C Q sd) = sd_task_counter sd"
  by (simp_all add: give_tasks_def Let_def send_cpu_scheduler_message_def send_qpu_scheduler_message_def sched_add_tasks_def)

lemma give_tasks_inv:
  assumes "node_inv sd" "sd_cpu sd' = sd_cpu sd" "sd_qpu sd' = sd_qpu sd"
    and "fresh_tasks (sd_task_counter sd) (sd_task_counter sd') C Q"
  shows "node_inv (give_tasks C Q sd')"
proof -
  have "both_ok 0 (sd_task_counter sd') (set (ps_finished_tasks (sd_cpu sd))) (set (ps_finished_tasks (sd_qpu sd)))
       (dupdate (ps_task_graph (sd_cpu sd)) C) (dupdate (ps_task_graph (sd_qpu sd)) Q)"
    using assms(1,4) by (intro both_ok_append [where mid = "sd_task_counter sd"]) (auto simp: node_inv_def fresh_tasks_def)
  moreover have "dict_ok C \<and> dict_ok Q" using assms(4) both_ok_dict by (auto simp: fresh_tasks_def)
  ultimately show ?thesis using assms by (simp add: node_inv_def give_tasks_fields fresh_tasks_def typed_append)
qed

lemma schedule_next_inv:
  assumes "node_inv sd" "schedule_next_for pid sd = Inr sd'"
  shows "node_inv sd'"
proof -
  from assms(2) obtain x y sd1 where f: "find_next_tasks_for pid sd = Inr ((x, y), sd1)"
    "sd' = give_tasks (new_tasks x) (new_tasks y) sd1" by (auto simp: schedule_next_for_def)
  from give_tasks_inv [OF assms(1) find_next_fresh [OF f(1)]] f(2) show ?thesis by simp
qed

lemma schedule_all_inv:
  assumes "node_inv sd" "schedule_all sd = Inr sd'"
  shows "node_inv sd'"
proof -
  let ?P = "\<lambda>st. case st of (C, Q, sd1) \<Rightarrow> sd_cpu sd1 = sd_cpu sd \<and> sd_qpu sd1 = sd_qpu sd \<and>
    fresh_tasks (sd_task_counter sd) (sd_task_counter sd1) C Q"
  from assms(2) obtain C Q sd1 where r: "rfold collect_tasks_for (get_all_program_ids (nd_mm (sd_node sd))) ([], [], sd) = Inr (C, Q, sd1)"
    "sd' = give_tasks C Q sd1" by (auto simp: schedule_all_def)
  have "?P (C, Q, sd1)"
  proof (rule rfold_invariant [OF r(1)])
    show "?P ([], [], sd)" by (simp add: fresh_none)
    show "?P st'" if P: "?P st" and step: "collect_tasks_for pid st = Inr st'" for pid st st'
    proof -
      obtain C1 Q1 sd1 where st: "st = (C1, Q1, sd1)" by (cases st) auto
      from step consider "st' = st"
        | x y sd2 where "find_next_tasks_for pid sd1 = Inr ((x, y), sd2)"
          "st' = (dupdate C1 (new_tasks x), dupdate Q1 (new_tasks y), sd2)"
        by (auto simp: collect_tasks_for_def st split: if_splits)
      then show ?thesis
      proof cases
        case 2
        from find_next_fresh [OF 2(1)] P 2(2) show ?thesis by (auto simp: st intro: fresh_append)
      qed (use P in simp)
    qed
  qed
  with give_tasks_inv [OF assms(1), of sd1 C Q] r(2) show ?thesis by simp
qed

lemma node_round_inv:
  assumes "node_inv sd" "node_round now sd = Inr sd'"
  shows "node_inv sd'"
proof -
  define sd1 where "sd1 = sd\<lparr>sd_last_cpu := get_last_finished_task_pid_at now (sd_cpu sd)\<rparr>"
  have last: "node_inv (sd\<lparr>sd_last_cpu := l\<rparr>) = node_inv sd" "node_inv (sd\<lparr>sd_last_qpu := l\<rparr>) = node_inv sd"
    for l and sd :: "'a node_scheduler" by (simp_all add: node_inv_def)
  have step: "node_inv s'" if "node_inv s" "(if b then schedule_next_for p s else Inr s) = Inr s'" for b p s s'
    using that schedule_next_inv by (auto split: if_splits)
  from assms(2) obtain sd2 where sd2: "(if sd_last_cpu sd1 \<noteq> - 1 then schedule_next_for (sd_last_cpu sd1) sd1 else Inr sd1) = Inr sd2"
    and r: "rbind (let sd3 = sd2\<lparr>sd_last_qpu := get_last_finished_task_pid_at now (sd_qpu sd2)\<rparr> in
      if sd_last_qpu sd3 \<noteq> - 1 \<and> sd_last_qpu sd3 \<noteq> sd_last_cpu sd3
      then schedule_next_for (sd_last_qpu sd3) sd3 else Inr sd3) schedule_finished = Inr sd'"
    unfolding node_round_def Let_def sd1_def [symmetric] rbind_eq_Inr by blast
  have "node_inv sd1" using assms(1) unfolding sd1_def last .
  then have i2: "node_inv sd2" using sd2 by (rule step)
  from r obtain sd4 where sd4: "(let sd3 = sd2\<lparr>sd_last_qpu := get_last_finished_task_pid_at now (sd_qpu sd2)\<rparr> in
      if sd_last_qpu sd3 \<noteq> - 1 \<and> sd_last_qpu sd3 \<noteq> sd_last_cpu sd3
      then schedule_next_for (sd_last_qpu sd3) sd3 else Inr sd3) = Inr sd4" "schedule_finished sd4 = Inr sd'"
    unfolding rbind_eq_Inr by blast
  have "node_inv sd4" by (rule step [OF _ sd4(1) [unfolded Let_def]]) (simp only: last i2)
  with sd4(2) schedule_all_inv show ?thesis by (auto simp: schedule_finished_def split: if_splits)
qed

text \<open>The rounds of the processors.\<close>

lemma keyed_typed_step:
  assumes "sched_step other s s'" "graph_ok (ps_task_graph s)" "typed typ (ps_task_graph s)"
  shows "typed typ (ps_task_graph s')"
proof -
  have sk: "typed typ (skeleton g) = typed typ g" for g
    by (simp add: typed_def map_of_skeleton) (metis bare_fields(1) option.inject)
  from assms(1) show ?thesis
  proof cases
    case idle
    with assms(3) sk show ?thesis by metis
  next
    case (finish tid t)
    have ok: "graph_ok (skeleton (ps_task_graph s))" using assms(2) by (simp only: skeleton_ok)
    have "typed typ (skeleton (ps_task_graph s'))"
      using assms(3) remove_task_Inr(4) [OF ok finish(4)]
      by (auto simp: typed_def map_of_skeleton)
    then show ?thesis by (simp only: sk)
  qed
qed

lemma cpu_round_inv:
  assumes "node_inv sd" "sd_cpu_round randint sd = Inr sd'"
  shows "node_inv sd'"
proof -
  from assms(2) obtain s n where r: "cpu_round randint (Some (sd_qpu sd)) (sd_cpu sd, sd_node sd) = Inr (s, n)"
    "sd' = sd\<lparr>sd_cpu := s, sd_node := n\<rparr>" by (auto simp: sd_cpu_round_def)
  have ok: "graph_ok (ps_task_graph (sd_cpu sd))" using assms(1) by (simp add: node_inv_def both_ok_def)
  from cpu.round_step [OF graph_ok_dict [OF ok] r(1)] have st: "sched_step (Some (sd_qpu sd)) (sd_cpu sd) s" .
  from keyed_typed_step [OF st ok] both_ok_step [OF _ st] assms(1) show ?thesis
    by (simp add: node_inv_def r(2))
qed

lemma qpu_round_inv:
  assumes "node_inv sd" "sd_qpu_round env randint sd = Inr sd'"
  shows "node_inv sd'"
proof -
  from assms(2) obtain s n where r: "qpu_round env randint (Some (sd_cpu sd)) (sd_qpu sd, sd_node sd) = Inr (s, n)"
    "sd' = sd\<lparr>sd_qpu := s, sd_node := n\<rparr>" by (auto simp: sd_qpu_round_def)
  have ok: "graph_ok (ps_task_graph (sd_qpu sd))" using assms(1) by (simp add: node_inv_def both_ok_def)
  from qpu.round_step [OF graph_ok_dict [OF ok] r(1)] have st: "sched_step (Some (sd_cpu sd)) (sd_qpu sd) s" .
  have "both_ok 0 (sd_task_counter sd) (set (ps_finished_tasks s)) (set (ps_finished_tasks (sd_cpu sd)))
      (ps_task_graph s) (ps_task_graph (sd_cpu sd))"
    using assms(1) by (intro both_ok_step [OF _ st]) (simp add: node_inv_def both_ok_sym [of 0 _ "set (ps_finished_tasks (sd_qpu sd))"])
  with keyed_typed_step [OF st ok] assms(1) show ?thesis
    by (simp add: node_inv_def r(2) both_ok_sym [of 0 _ "set (ps_finished_tasks s)"])
qed

end
