(* ===== verification/SchedRun.thy ===== *)
theory SchedRun
  imports SchedExec
begin

text \<open>
  The properties of the processor schedulers: the order in which tasks finish, the choice of the
  next task, and the check for free qubits, with the examples they are applied to.
\<close>

section \<open>Probing for qubits\<close>

text \<open>Two managers that differ at most in the flags of qubits nobody owns and in the signals sent.\<close>

definition probed :: "'q memory_manager \<Rightarrow> 'q memory_manager \<Rightarrow> bool" where
  "probed mm mm' \<longleftrightarrow> mm_processes mm' = mm_processes mm \<and> mm_ehi mm' = mm_ehi mm \<and>
     mm_process_mappings mm' = mm_process_mappings mm \<and> mm_physical_mapping mm' = mm_physical_mapping mm \<and>
     qd_topology (mm_qdevice mm') = qd_topology (mm_qdevice mm) \<and>
     qd_state (mm_qdevice mm') = qd_state (mm_qdevice mm) \<and>
     length (qd_in_use (mm_qdevice mm')) = length (qd_in_use (mm_qdevice mm)) \<and>
     (\<forall>p. 0 \<le> p \<longrightarrow> owner mm p \<noteq> None \<longrightarrow> qd_in_use (mm_qdevice mm') ! nat p = qd_in_use (mm_qdevice mm) ! nat p)"

lemma probed_refl [simp]: "probed mm mm"
  by (simp add: probed_def)
















section \<open>Which tasks are ready\<close>

lemma rfilter_spec:
  "rfilter p xs = Inr ys \<Longrightarrow> set ys = {x \<in> set xs. p x = Inr True} \<and> (\<forall>x \<in> set xs. \<exists>b. p x = Inr b)"
proof (induction xs arbitrary: ys)
  case (Cons x xs)
  then obtain b zs where "p x = Inr b" "rfilter p xs = Inr zs" "ys = (if b then x # zs else zs)" by auto
  with Cons.IH [of zs] show ?case by auto
qed auto

lemma in_get_roots:
  assumes "dict_ok g"
  shows "t \<in> set (get_roots False g) \<longleftrightarrow>
    (\<exists>i. map_of g t = Some i \<and> ti_predecessors i = [] \<and> ti_ext_predecessors i = [])"
  unfolding items_map_of [OF assms, symmetric] by (force simp: get_roots_def)

text \<open>A task of the CPU that can be started: nothing precedes it, its message is there if it is a
receive task, and its start time is not in the future.\<close>

definition cpu_startable :: "proc_scheduler \<Rightarrow> 'q node \<Rightarrow> int \<Rightarrow> bool" where
  "cpu_startable s n t \<longleftrightarrow>
     (\<exists>i. map_of (ps_task_graph s) t = Some i \<and> ti_predecessors i = [] \<and> ti_ext_predecessors i = [] \<and>
        (is_event_task (ti_task i) \<longrightarrow> is_message_available t s n = Inr True) \<and>
        (\<forall>st. ti_start_time i = Some st \<longrightarrow> st \<le> host_now (nd_host n)))"

lemma cpu_ready_startable:
  assumes "dict_ok (ps_task_graph s)" "cpu_blocked s n = Inr blocked"
  shows "set (cpu_ready s n blocked) = {t. cpu_startable s n t}"
proof -
  let ?g = "ps_task_graph s"
  have e: "t \<in> set (get_event_roots False ?g) \<longleftrightarrow> t \<in> set (get_roots False ?g) \<and> is_event_task (ti_task (the (map_of ?g t)))" for t
    by (auto simp: get_event_roots_def)
  have "rfilter (\<lambda>tid. rbind (is_message_available tid s n) (\<lambda>b. Inr (\<not> b))) (get_event_roots False ?g) = Inr blocked"
    using assms(2) by (simp add: cpu_blocked_def)
  from rfilter_spec [OF this] have b: "set blocked = {t \<in> set (get_event_roots False ?g). is_message_available t s n = Inr False}"
    "\<forall>t \<in> set (get_event_roots False ?g). \<exists>b. is_message_available t s n = Inr b" by auto
  have f: "t \<in> fst ` set (future_starts ?g now ts) \<longleftrightarrow> t \<in> set ts \<and>
      (\<exists>i st. map_of ?g t = Some i \<and> ti_start_time i = Some st \<and> st > now)" for t now ts
    by (force simp: future_starts_def split: option.splits if_splits)
  show ?thesis
  proof (intro set_eqI)
    fix t
    show "t \<in> set (cpu_ready s n blocked) \<longleftrightarrow> t \<in> {t. cpu_startable s n t}"
    proof (cases "t \<in> set (get_roots False ?g)")
      case True
      then obtain i where i: "map_of ?g t = Some i" "ti_predecessors i = []" "ti_ext_predecessors i = []"
        using in_get_roots [OF assms(1)] by blast
      have "t \<in> set blocked \<longleftrightarrow> is_event_task (ti_task i) \<and> is_message_available t s n \<noteq> Inr True"
        using b True e [of t] i(1) by auto
      with True i show ?thesis by (auto simp: cpu_ready_def Let_def cpu_startable_def f not_less)
    next
      case False
      then show ?thesis using in_get_roots [OF assms(1), of t] by (auto simp: cpu_ready_def Let_def cpu_startable_def)
    qed
  qed
qed


section \<open>Properties\<close>

text \<open>C3: The processor schedulers finish tasks in the order of the graph. However the rounds of the
CPU or of the QPU scheduler are interleaved with anything else that happens to the node, to the
hardware or to the other scheduler, no task finishes twice, every task finishes after all its
predecessors, and the tasks left in the graph are exactly those that have not finished.\<close>

theorem tasks_finish_in_order:
  assumes "sched_rounds (cpu_round randint) s s' \<or> sched_rounds (qpu_round env randint) s s'"
    and "keyed (ps_task_graph s)" "graph_inv (ps_task_graph s)"
  shows "\<exists>order. ps_finished_tasks s' = ps_finished_tasks s @ order \<and> distinct order \<and>
    set order \<subseteq> set (keys (ps_task_graph s)) \<and>
    set (keys (ps_task_graph s')) = set (keys (ps_task_graph s)) - set order \<and>
    (\<forall>as y bs. order = as @ y # bs \<longrightarrow> preds (ps_task_graph s) y \<subseteq> set as)"
  using assms(1)
proof
  assume "sched_rounds (cpu_round randint) s s'"
  from cpu.rounds_in_order [OF this assms(2,3)] show ?thesis by metis
next
  assume "sched_rounds (qpu_round env randint) s s'"
  from qpu.rounds_in_order [OF this assms(2,3)] show ?thesis by metis
qed

text \<open>C4: A round executes a task only if nothing precedes it on either processor: when a round of one
of the schedulers finishes a task, the task had no predecessors left in the scheduler's own graph,
and each of its external predecessors was among the tasks the other scheduler had finished.\<close>

theorem finished_task_waited_for_other_core:
  assumes "cpu_round randint other (s, n) = Inr (s', n') \<or> qpu_round env randint other (s, n) = Inr (s', n')"
    and "keyed (ps_task_graph s)" "dict_ok (ps_task_graph s)"
    and "ps_finished_tasks s' \<noteq> ps_finished_tasks s"
  shows "\<exists>tid t. ps_finished_tasks s' = ps_finished_tasks s @ [tid] \<and> map_of (ps_task_graph s) tid = Some t \<and>
    ti_predecessors t = [] \<and>
    (\<forall>x \<in> set (ti_ext_predecessors t). \<exists>o'. other = Some o' \<and> x \<in> set (ps_finished_tasks o'))"
proof -
  from assms(1,3) have "sched_step other s s'" by (auto intro: cpu.round_step qpu.round_step)
  then show ?thesis using assms(2,4)
    by cases (auto simp: keyed_def has_finished_def)
qed

text \<open>C5: The CPU scheduler starts a task exactly when one can be started, and it picks the one with the
earliest deadline: the status after the update of a round is \<open>NEXT_TASK\<close> if and only if some task
has no predecessors, has its message if it is a receive task, and is not to be started later; the
task of the status is such a task; and when deadlines are used and any such task has one, the task
of the status has a deadline that is no later.\<close>

theorem cpu_picks_earliest_deadline:
  assumes "dict_ok (ps_task_graph s)" "ps_status s = no_status" "cpu_update_status randint n s = Inr s'"
  shows "(NEXT_TASK \<in> set (st_status (ps_status s')) \<longleftrightarrow> (\<exists>t. cpu_startable s n t)) \<and>
    (\<forall>t. st_task_id (ps_status s') = Some t \<longrightarrow> cpu_startable s n t \<and>
       (ps_use_deadlines s \<longrightarrow> (\<forall>u j e. cpu_startable s n u \<longrightarrow> map_of (ps_task_graph s) u = Some j \<longrightarrow>
          ti_deadline j = Some e \<longrightarrow>
          (\<exists>i d. map_of (ps_task_graph s) t = Some i \<and> ti_deadline i = Some d \<and> d \<le> e))))"
proof (cases "ps_task_graph s = []")
  case True
  with assms(3) show ?thesis by (auto simp: cpu_update_status_def cpu_startable_def status_only_def)
next
  case False
  with assms(3) obtain blocked where b: "cpu_blocked s n = Inr blocked" by (auto simp: cpu_update_status_def)
  note r = cpu_ready_startable [OF assms(1) b]
  show ?thesis
  proof (cases "cpu_ready s n blocked = []")
    case True
    with assms(3) False b have st: "ps_status s' = cpu_waiting s n blocked" by (auto simp: cpu_update_status_def)
    have "st_task_id (cpu_waiting s n blocked) = None"
      using assms(2) by (simp add: cpu_waiting_def Let_def)
    moreover have "NEXT_TASK \<notin> set (st_status (ps_status s'))"
      using cpu_waiting_statuses [OF assms(2), of n blocked] st by auto
    ultimately show ?thesis using r True st by auto
  next
    case F: False
    with assms(3) False b obtain t where t: "edf_choice randint s (cpu_ready s n blocked) = Inr t"
      "ps_status s' = status_task NEXT_TASK t" by (auto simp: cpu_update_status_def)
    have "cpu_startable s n t" using edf_choice_in [OF t(1)] r by simp
    with t r edf_choice_earliest [OF t(1)] show ?thesis by auto
  qed
qed


section \<open>Examples and witnesses\<close>

text \<open>Two pre-call tasks, the second after the first or independent of it, with deadlines.\<close>

definition sample_sched :: "bool \<Rightarrow> proc_scheduler" where
  "sample_sched chained = (init_scheduler 7 True True None)\<lparr>ps_task_graph :=
     [(0, (only_task (sample_precall 0))\<lparr>ti_deadline := Some 50, ti_successors := if chained then [1] else []\<rparr>),
      (1, (only_task (sample_precall 1))\<lparr>ti_deadline := Some 20, ti_predecessors := if chained then [0] else []\<rparr>)]\<rparr>"

lemma sample_sched_graph: "keyed (ps_task_graph (sample_sched c))" "dict_ok (ps_task_graph (sample_sched c))"
    "graph_inv (ps_task_graph (sample_sched c))"
proof -
  have e: "edges (ps_task_graph (sample_sched c)) \<subseteq> {(0, 1)}"
    by (auto simp: sample_sched_def edges_def preds_def only_task_def split: if_splits option.splits)
  have "acyclic {(0 :: int, 1 :: int)}" by (simp add: acyclic_insert) (simp add: acyclic_def)
  from this e have "acyclic (edges (ps_task_graph (sample_sched c)))" by (rule acyclic_subset)
  then show "graph_inv (ps_task_graph (sample_sched c))"
    by (auto simp: graph_inv_def graph_ok_def sample_sched_def preds_def succs_def only_task_def
        split: if_splits option.splits)
  show "keyed (ps_task_graph (sample_sched c))" "dict_ok (ps_task_graph (sample_sched c))"
    by (auto simp: sample_sched_def keyed_def only_task_def sample_precall_def mk_task_def split: if_splits)
qed

lemma sample_round:
  "case cpu_round (\<lambda>_. 0) None (sample_sched True, sample_node init_sched_memory) of
     Inr (s, n) \<Rightarrow> ps_finished_tasks s = [0] | Inl e \<Rightarrow> False"
  by code_simp

lemma sample_choice:
  "case cpu_update_status (\<lambda>_. 0) (sample_node init_sched_memory) (sample_sched False) of
     Inr s \<Rightarrow> st_task_id (ps_status s) = Some 1 | Inl e \<Rightarrow> False"
  by code_simp

lemma sample_cpu_round:
  obtains s n where "cpu_round (\<lambda>_. 0) None (sample_sched True, sample_node init_sched_memory) = Inr (s, n)"
    "ps_finished_tasks s = [0]"
  using sample_round by (cases "cpu_round (\<lambda>_. 0) None (sample_sched True, sample_node init_sched_memory)") auto





theorem tasks_finish_in_order_witness:
  "\<exists>s'. sched_rounds (cpu_round (\<lambda>_. 0) :: _ \<Rightarrow> _ \<times> unit node \<Rightarrow> _) (sample_sched True) s' \<and>
     ps_finished_tasks s' = [0] \<and> set (keys (ps_task_graph s')) = {1}"
proof -
  obtain s n where r: "cpu_round (\<lambda>_. 0) None (sample_sched True, sample_node init_sched_memory) = Inr (s, n)"
    "ps_finished_tasks s = [0]" by (rule sample_cpu_round)
  have "sched_rounds (cpu_round (\<lambda>_. 0) :: _ \<Rightarrow> _ \<times> unit node \<Rightarrow> _) (sample_sched True) s"
    using sched_rounds.next_round [where round = "cpu_round (\<lambda>_. 0)" and other = None, OF sched_rounds.no_round] r(1)
    by blast
  moreover have "ps_finished_tasks (sample_sched True) = []" "set (keys (ps_task_graph (sample_sched True))) = {0, 1}"
    by (simp_all add: sample_sched_def init_scheduler_def)
  ultimately show ?thesis
    using tasks_finish_in_order [OF disjI1 sample_sched_graph(1,3), of "\<lambda>_. 0" True s] r(2)
    by (intro exI [of _ s]) auto
qed

theorem finished_task_waited_for_other_core_witness:
  "\<exists>s' n'. cpu_round (\<lambda>_. 0) None (sample_sched True, sample_node init_sched_memory) = Inr (s', n') \<and>
     (\<exists>t. map_of (ps_task_graph (sample_sched True)) 0 = Some t \<and> ti_predecessors t = [])"
proof -
  obtain s n where r: "cpu_round (\<lambda>_. 0) None (sample_sched True, sample_node init_sched_memory) = Inr (s, n)"
    "ps_finished_tasks s = [0]" by (rule sample_cpu_round)
  have "ps_finished_tasks (sample_sched True) = []" by (simp add: sample_sched_def init_scheduler_def)
  with finished_task_waited_for_other_core [OF disjI1 [OF r(1)] sample_sched_graph(1,2)] r show ?thesis by auto
qed

theorem cpu_picks_earliest_deadline_witness:
  "\<exists>s'. cpu_update_status (\<lambda>_. 0) (sample_node init_sched_memory) (sample_sched False) = Inr s' \<and>
     st_task_id (ps_status s') = Some 1 \<and> cpu_startable (sample_sched False) (sample_node init_sched_memory) 1"
proof -
  obtain s' where r: "cpu_update_status (\<lambda>_. 0) (sample_node init_sched_memory) (sample_sched False) = Inr s'"
    "st_task_id (ps_status s') = Some 1"
    using sample_choice by (auto split: sum.splits)
  have "ps_status (sample_sched False) = no_status" by (simp add: sample_sched_def init_scheduler_def)
  from cpu_picks_earliest_deadline [OF sample_sched_graph(2) this r(1)] r show ?thesis by blast
qed


end
