(* ===== verification/NodeRun.thy ===== *)
theory NodeRun
  imports NodeExec SchedRun
begin

text \<open>
  What a node does as a whole: in every state that its schedulers can reach, task IDs are unique,
  each processor holds its own tasks, some task can start whenever tasks are left, and the blocks
  of a program are scheduled one at a time.
\<close>

section \<open>Reachable states\<close>

text \<open>
  The states reached from \<open>sd0\<close> by submitting programs, the rounds of the three schedulers in any
  order and at any times, collecting results, and whatever the rest of the node does in between.
\<close>

inductive sd_reachable :: "'q node_scheduler \<Rightarrow> 'q node_scheduler \<Rightarrow> bool" for sd0 where
  initial: "sd_reachable sd0 sd0"
| submitted: "sd_reachable sd0 sd \<Longrightarrow> submit_batch info sd = Inr (batch, sd') \<Longrightarrow> sd_reachable sd0 sd'"
| created: "sd_reachable sd0 sd \<Longrightarrow> create_processes_for_batches remote_pids lin sd = Inr sd' \<Longrightarrow> sd_reachable sd0 sd'"
| instance_submitted: "sd_reachable sd0 sd \<Longrightarrow> submit_program_instance inst remote_pid sd = Inr sd' \<Longrightarrow> sd_reachable sd0 sd'"
| scheduled: "sd_reachable sd0 sd \<Longrightarrow> schedule_all sd = Inr sd' \<Longrightarrow> sd_reachable sd0 sd'"
| node_step: "sd_reachable sd0 sd \<Longrightarrow> node_round now sd = Inr sd' \<Longrightarrow> sd_reachable sd0 sd'"
| cpu_step: "sd_reachable sd0 sd \<Longrightarrow> sd_cpu_round randint sd = Inr sd' \<Longrightarrow> sd_reachable sd0 sd'"
| qpu_step: "sd_reachable sd0 sd \<Longrightarrow> sd_qpu_round env randint sd = Inr sd' \<Longrightarrow> sd_reachable sd0 sd'"
| collected: "sd_reachable sd0 sd \<Longrightarrow> collect_batch_results sd = Inr sd' \<Longrightarrow> sd_reachable sd0 sd'"
| elsewhere: "sd_reachable sd0 sd \<Longrightarrow> sd_reachable sd0 (sd\<lparr>sd_node := n\<rparr>)"

lemma sd_reachable_inv: "sd_reachable sd0 sd \<Longrightarrow> node_inv sd0 \<Longrightarrow> node_inv sd"
proof (induction rule: sd_reachable.induct)
  case (elsewhere sd n)
  then show ?case by (simp add: node_inv_def)
next
  case (instance_submitted sd inst remote_pid sd')
  then show ?case using same_tasks_inv install_process_same by (fastforce simp: submit_program_instance_def)
qed (auto intro: same_tasks_inv submit_batch_same create_processes_same schedule_all_inv node_round_inv
    cpu_round_inv qpu_round_inv collect_results_same)

lemma init_node_inv: "node_inv (init_node_scheduler node_id det dl sched network n)"
  by (simp add: node_inv_def init_node_scheduler_def init_scheduler_def both_ok_empty typed_def)

text \<open>A task whose predecessors in the other graph have been finished is a root after the update.\<close>

lemma drop_finished_twice: "drop_finished o' (drop_finished o' t) = drop_finished o' t"
  by (simp add: drop_finished_def)

lemma map_of_external:
  assumes "i \<in> set (get_roots True (ps_task_graph s))" "map_of (ps_task_graph s) i = Some t"
  shows "map_of (ps_task_graph (update_external_predecessors (Some o') s)) i = Some (drop_finished o' t)"
proof -
  have "map_of (fold (\<lambda>r. upd_tinfo r (drop_finished o')) rs g) i =
      (if i \<in> set rs then map_option (drop_finished o') (map_of g i) else map_of g i)" for rs g
  proof (induction rs arbitrary: g)
    case (Cons r rs)
    show ?case by (cases "map_of g i"; simp add: Cons.IH map_of_upd_tinfo drop_finished_twice) (auto simp: drop_finished_twice)
  qed simp
  with assms show ?thesis by (simp add: update_external_predecessors_def)
qed

lemma root_after_update:
  assumes "graph_ok (ps_task_graph s)" "i \<in> set (keys (ps_task_graph s))" "preds (ps_task_graph s) i = {}"
    and "ext_preds (ps_task_graph s) i \<subseteq> set (ps_finished_tasks o')"
  shows "i \<in> set (get_roots False (ps_task_graph (update_external_predecessors (Some o') s)))"
proof -
  let ?g = "ps_task_graph (update_external_predecessors (Some o') s)"
  from assms(2) obtain t where t: "map_of (ps_task_graph s) i = Some t" using in_keys_map_of by metis
  have "i \<in> set (get_roots True (ps_task_graph s))"
    using roots_iff [OF graph_ok_dict [OF assms(1)]] assms(2,3) by blast
  from map_of_external [OF this t] have m: "map_of ?g i = Some (drop_finished o' t)" .
  have "ti_predecessors (drop_finished o' t) = []" "ti_ext_predecessors (drop_finished o' t) = []"
    using assms(3,4) t by (auto simp: preds_def ext_preds_def drop_finished_def has_finished_def filter_empty_conv)
  with map_of_SomeD [OF m] show ?thesis by (force simp: get_roots_def)
qed

section \<open>Properties\<close>

text \<open>C7: The two processors of a node never wait for each other in a circle: in every state that the
schedulers reach from the initial one, whatever is submitted, in whatever order and at whatever
times they run, and whatever the drivers do with the rest of the node, as long as a task is left on
one of the processors there is a task that has no unfinished predecessors on either of them, so
that its scheduler finds it among the roots of its graph in its next round.\<close>

theorem node_never_deadlocks:
  assumes "sd_reachable (init_node_scheduler node_id det dl sched network n) sd"
    and "ps_task_graph (sd_cpu sd) \<noteq> [] \<or> ps_task_graph (sd_qpu sd) \<noteq> []"
  shows "get_roots False (ps_task_graph (update_external_predecessors (Some (sd_qpu sd)) (sd_cpu sd))) \<noteq> [] \<or>
    get_roots False (ps_task_graph (update_external_predecessors (Some (sd_cpu sd)) (sd_qpu sd))) \<noteq> []"
proof -
  have inv: "node_inv sd" by (rule sd_reachable_inv [OF assms(1) init_node_inv])
  then have b: "both_ok 0 (sd_task_counter sd) (set (ps_finished_tasks (sd_cpu sd))) (set (ps_finished_tasks (sd_qpu sd)))
       (ps_task_graph (sd_cpu sd)) (ps_task_graph (sd_qpu sd))" by (simp add: node_inv_def)
  have ok: "graph_ok (ps_task_graph (sd_cpu sd))" "graph_ok (ps_task_graph (sd_qpu sd))" using b by (simp_all only: both_ok_def)
  from both_ok_progress [OF b assms(2)] obtain i where
    "i \<in> set (get_roots False (ps_task_graph (update_external_predecessors (Some (sd_qpu sd)) (sd_cpu sd)))) \<or>
     i \<in> set (get_roots False (ps_task_graph (update_external_predecessors (Some (sd_cpu sd)) (sd_qpu sd))))"
    using root_after_update [OF ok(1)] root_after_update [OF ok(2)] by blast
  then show ?thesis by auto
qed

text \<open>C9: In every state that the schedulers reach, the CPU scheduler holds CPU tasks only and the QPU
scheduler QPU tasks only, each under its own ID; no ID occurs twice, none is the ID of a finished
task, and all of them lie between 0 and the counter of the task builder; and a task waits on the
other processor only for tasks that this processor still holds or has finished.\<close>

theorem node_tasks_well_formed:
  assumes "sd_reachable (init_node_scheduler node_id det dl sched network n) sd"
  shows "distinct (keys (ps_task_graph (sd_cpu sd)) @ keys (ps_task_graph (sd_qpu sd))) \<and>
    (\<forall>i t. map_of (ps_task_graph (sd_cpu sd)) i = Some t \<longrightarrow> task_id (ti_task t) = i \<and>
       processor_type (ti_task t) = CPU \<and> 0 \<le> i \<and> i < sd_task_counter sd \<and>
       i \<notin> set (ps_finished_tasks (sd_cpu sd)) \<union> set (ps_finished_tasks (sd_qpu sd)) \<and>
       set (ti_predecessors t) \<subseteq> set (keys (ps_task_graph (sd_cpu sd))) \<and>
       set (ti_ext_predecessors t) \<subseteq> set (keys (ps_task_graph (sd_qpu sd))) \<union> set (ps_finished_tasks (sd_qpu sd))) \<and>
    (\<forall>i t. map_of (ps_task_graph (sd_qpu sd)) i = Some t \<longrightarrow> task_id (ti_task t) = i \<and>
       processor_type (ti_task t) = QPU \<and> 0 \<le> i \<and> i < sd_task_counter sd \<and>
       i \<notin> set (ps_finished_tasks (sd_cpu sd)) \<union> set (ps_finished_tasks (sd_qpu sd)) \<and>
       set (ti_predecessors t) \<subseteq> set (keys (ps_task_graph (sd_qpu sd))) \<and>
       set (ti_ext_predecessors t) \<subseteq> set (keys (ps_task_graph (sd_cpu sd))) \<union> set (ps_finished_tasks (sd_cpu sd)))"
proof -
  have inv: "node_inv sd" by (rule sd_reachable_inv [OF assms init_node_inv])
  let ?fc = "set (ps_finished_tasks (sd_cpu sd))" and ?fq = "set (ps_finished_tasks (sd_qpu sd))"
  let ?C = "ps_task_graph (sd_cpu sd)" and ?Q = "ps_task_graph (sd_qpu sd)"
  have entry: "task_id (ti_task t) = i \<and> processor_type (ti_task t) = typ \<and> 0 \<le> i \<and> i < hi \<and> i \<notin> f1 \<union> f2 \<and>
      set (ti_predecessors t) \<subseteq> set (keys g) \<and> set (ti_ext_predecessors t) \<subseteq> set (keys h) \<union> f2"
    if b: "both_ok 0 hi f1 f2 g h" "typed typ g" and t: "map_of g i = Some t" for hi f1 f2 g h "typ" i t
  proof -
    have "graph_ok g" using b(1) by (simp only: both_ok_def)
    moreover have "preds g i = set (ti_predecessors t)" "ext_preds g i = set (ti_ext_predecessors t)"
      using t by (simp_all add: preds_def ext_preds_def)
    ultimately have "set (ti_predecessors t) \<subseteq> set (keys g)" using graph_ok_closed(1) [of g _ i] by blast
    moreover have "set (ti_ext_predecessors t) \<subseteq> set (keys h) \<union> f2"
      using b(1) \<open>ext_preds g i = _\<close> unfolding both_ok_def by blast
    moreover have "i \<in> set (keys g)" using t by (rule map_of_in_keys)
    then have "i \<in> {0..<hi}" "i \<notin> f1 \<union> f2" using b(1) unfolding both_ok_def by blast+
    moreover have "task_id (ti_task t) = i" using b(1) t by (simp add: both_ok_def keyed_def)
    moreover have "processor_type (ti_task t) = typ" using b(2) t by (simp add: typed_def)
    ultimately show ?thesis by auto
  qed
  have b: "both_ok 0 (sd_task_counter sd) ?fc ?fq ?C ?Q" "typed CPU ?C" "typed QPU ?Q" using inv by (simp_all add: node_inv_def)
  then have "distinct (keys ?C @ keys ?Q)" by (simp add: both_ok_def graph_ok_def)
  with entry [OF b(1,2)] entry [OF b(1) [unfolded both_ok_sym [of _ _ ?fc]] b(3)] show ?thesis by auto
qed

text \<open>The block that a program wants to run next: the target of a jump, or the block after the last one.\<close>

definition requested_block :: "int \<Rightarrow> 'q node_scheduler \<Rightarrow> int option" where
  "requested_block pid sd =
     (case map_of (hs_jumps (nd_host (sd_node sd))) pid of
        Some j \<Rightarrow> if j \<noteq> - 1 then Some j else map_of (sd_block_index sd) pid
      | None \<Rightarrow> map_of (sd_block_index sd) pid)"

lemma take_jump_facts:
  "map_of (sd_block_index (take_jump pid sd)) pid = requested_block pid sd"
  "q \<noteq> pid \<Longrightarrow> map_of (sd_block_index (take_jump pid sd)) q = map_of (sd_block_index sd) q"
  "nd_mm (sd_node (take_jump pid sd)) = nd_mm (sd_node sd)"
  "map_of (hs_jumps (nd_host (sd_node (take_jump pid sd)))) pid \<in> {None, Some (- 1)}"
  "sd_cpu (take_jump pid sd) = sd_cpu sd" "sd_qpu (take_jump pid sd) = sd_qpu sd"
  "sd_task_counter (take_jump pid sd) = sd_task_counter sd"
  by (auto simp: take_jump_def requested_block_def set_jump_def split: option.split)

text \<open>C10: The node scheduler runs the blocks of a program one at a time and follows its jumps: the next
block is the target of the jump the Host has asked for, which is thereby done, or else the one after
the last block. A program gets no tasks while it has tasks on the CPU, and no tasks of a quantum
block while it has tasks on the QPU; otherwise it gets all tasks of that block, with fresh
consecutive IDs and its PID, the CPU ones for the CPU and the QPU ones for the QPU (none for a
classical block), and the block counts as done. Other programs stay where they are.\<close>

theorem next_block_of_program:
  assumes "find_next_tasks_for pid sd = Inr ((x, y), sd')"
  shows "\<exists>p index. get_process pid (nd_mm (sd_node sd)) = Inr p \<and> requested_block pid sd = Some index \<and>
    map_of (hs_jumps (nd_host (sd_node sd'))) pid \<in> {None, Some (- 1)} \<and>
    (\<forall>q. q \<noteq> pid \<longrightarrow> map_of (sd_block_index sd') q = map_of (sd_block_index sd) q) \<and>
    (if int (length (pr_blocks (pc_program p))) \<le> index \<or> sched_task_exists pid (sd_cpu sd)
     then x = None \<and> y = None \<and> map_of (sd_block_index sd') pid = Some index \<and> sd_task_counter sd' = sd_task_counter sd
     else \<exists>block. py_nth (pr_blocks (pc_program p)) index = Inr block \<and>
       (if block_typ block \<notin> {CL, CC} \<and> sched_task_exists pid (sd_qpu sd)
        then x = Some [] \<and> y = Some [] \<and> map_of (sd_block_index sd') pid = Some index \<and> sd_task_counter sd' = sd_task_counter sd
        else map_of (sd_block_index sd') pid = Some (index + 1) \<and> (block_typ block \<in> {CL, CC} \<longrightarrow> y = None) \<and>
          block_tasks (pc_pid p) (sd_task_counter sd) (sd_task_counter sd') (new_tasks x) (new_tasks y)))"
proof -
  let ?sd = "take_jump pid sd"
  note t = take_jump_facts [where pid = pid and sd = sd]
  from assms obtain index p where p: "dget (sd_block_index ?sd) pid = Inr index"
    "get_process pid (nd_mm (sd_node ?sd)) = Inr p"
    by (auto simp: find_next_tasks_for_def Let_def)
  then have i: "requested_block pid sd = Some index" using t(1) by (simp add: dget_def split: option.splits)
  let ?build = "block_build (pc_instance p) index (Some (sd_network ?sd)) (sd_task_counter ?sd)"
  have adv: "map_of (sd_block_index (advance_block pid index c ?sd)) pid = Some (index + 1)"
    "q \<noteq> pid \<Longrightarrow> map_of (sd_block_index (advance_block pid index c ?sd)) q = map_of (sd_block_index sd) q"
    "sd_node (advance_block pid index c ?sd) = sd_node ?sd" "sd_task_counter (advance_block pid index c ?sd) = c" for q c
    using t(2) by (simp_all add: advance_block_def)
  have msg: "sd_block_index (send_cpu_scheduler_message s) = sd_block_index s"
    "sd_node (send_cpu_scheduler_message s) = sd_node s" "sd_task_counter (send_cpu_scheduler_message s) = sd_task_counter s"
    for s :: "'a node_scheduler" by (simp_all add: send_cpu_scheduler_message_def)
  note find = assms [unfolded find_next_tasks_for_def Let_def p]
  show ?thesis
  proof (cases "int (length (pr_blocks (pc_program p))) \<le> index \<or> sched_task_exists pid (sd_cpu sd)")
    case True
    with find have "x = None" "y = None" "sd' = ?sd" by (auto simp: t(5))
    with True p(2) i t(1-4,7) show ?thesis by (intro exI [of _ p] exI [of _ index]) auto
  next
    case False
    with find obtain block where b: "py_nth (pr_blocks (pc_program p)) index = Inr block" by (auto simp: t(5))
    consider (idle) "block_typ block \<notin> {CL, CC} \<and> sched_task_exists pid (sd_qpu sd)"
      | (classical) "block_typ block \<in> {CL, CC}" | (quantum) "block_typ block \<notin> {CL, CC}" "\<not> sched_task_exists pid (sd_qpu sd)"
      by blast
    then show ?thesis
    proof cases
      case idle
      with find False b have "x = Some []" "y = Some []" "sd' = ?sd" by (auto simp: t(5,6))
      with idle False p(2) i b t(1-4,7) show ?thesis by (intro exI [of _ p] exI [of _ index]) auto
    next
      case classical
      with find False b obtain graph counter where g: "?build = Inr (graph, counter)" "x = Some graph" "y = None"
        "sd' = send_cpu_scheduler_message (advance_block pid index counter ?sd)"
        by (auto simp: t(5))
      from block_build_tasks(1) [OF g(1) b classical] classical False p(2) i b t(3,4,7) show ?thesis
        by (intro exI [of _ p] exI [of _ index]) (auto simp: g(2-) msg adv new_tasks_def)
    next
      case quantum
      with find False b obtain graph counter C Q where g: "?build = Inr (graph, counter)"
        "partial_graph CPU graph = Inr C" "partial_graph QPU graph = Inr Q" "x = Some C" "y = Some Q"
        "sd' = advance_block pid index counter ?sd"
        by (auto simp: t(5,6))
      from block_build_tasks(2) [OF g(1) b quantum(1) g(2,3)] quantum False p(2) i b t(3,4,7) show ?thesis
        by (intro exI [of _ p] exI [of _ index]) (simp add: g(4-) adv new_tasks_def)
    qed
  qed
qed

section \<open>Examples and witnesses\<close>

text \<open>Two instances of a program with one quantum block.\<close>

definition sample_start :: "unit node_scheduler" where
  "sample_start = init_node_scheduler 7 True True None (only_nodes [])
     ((sample_node init_sched_memory)\<lparr>nd_mm := init_memmgr sample_device None\<rparr>)"

definition sample_batch :: batch_info where
  "sample_batch = \<lparr>bi_program = sample_program [sample_block ''b1'' QL [mk_op RunSubroutineOp [] None [StrV ''sub'']]] 1,
     bi_unit_module = sample_unit_module, bi_inputs = [[], []], bi_num_iterations = 2, bi_deadline = 0\<rparr>"

definition sample_created :: "unit node_scheduler res" where
  "sample_created = rbind (submit_batch sample_batch sample_start) (\<lambda>(b, sd). create_processes_for_batches None False sd)"

lemma sample_schedule_all:
  "case rbind sample_created schedule_all of
     Inr sd \<Rightarrow> keys (ps_task_graph (sd_cpu sd)) = [0, 2, 3, 5] \<and> keys (ps_task_graph (sd_qpu sd)) = [1, 4] \<and>
       get_roots False (ps_task_graph (update_external_predecessors (Some (sd_qpu sd)) (sd_cpu sd))) = [0, 3]
   | Inl e \<Rightarrow> False"
  by code_simp

lemma sample_next_tasks:
  "case rbind sample_created (find_next_tasks_for 1) of
     Inr ((x, y), sd) \<Rightarrow> keys (new_tasks x) = [0, 2] \<and> keys (new_tasks y) = [1] \<and> sd_task_counter sd = 3
   | Inl e \<Rightarrow> False"
  by code_simp

lemma sample_created_reachable: "sample_created = Inr sd \<Longrightarrow> sd_reachable sample_start sd"
  using sd_reachable.created [OF sd_reachable.submitted [OF sd_reachable.initial]] by (auto simp: sample_created_def)

lemma sample_scheduled:
  obtains sd where "sd_reachable sample_start sd" "keys (ps_task_graph (sd_cpu sd)) = [0, 2, 3, 5]"
    "keys (ps_task_graph (sd_qpu sd)) = [1, 4]"
proof (cases "rbind sample_created schedule_all")
  case (Inr sd)
  then have "sd_reachable sample_start sd" by (auto intro: sd_reachable.scheduled sample_created_reachable)
  with sample_schedule_all Inr that show thesis by simp
qed (use sample_schedule_all in simp)

theorem node_never_deadlocks_witness:
  "\<exists>sd. sd_reachable sample_start sd \<and> keys (ps_task_graph (sd_cpu sd)) = [0, 2, 3, 5] \<and>
     (get_roots False (ps_task_graph (update_external_predecessors (Some (sd_qpu sd)) (sd_cpu sd))) \<noteq> [] \<or>
      get_roots False (ps_task_graph (update_external_predecessors (Some (sd_cpu sd)) (sd_qpu sd))) \<noteq> [])"
proof -
  obtain sd where sd: "sd_reachable sample_start sd" "keys (ps_task_graph (sd_cpu sd)) = [0, 2, 3, 5]"
    by (rule sample_scheduled)
  have "ps_task_graph (sd_cpu sd) \<noteq> []" using sd(2) by auto
  from node_never_deadlocks [OF sd(1) [unfolded sample_start_def] disjI1 [OF this]] show ?thesis
    by (intro exI [of _ sd] conjI sd)
qed

theorem node_tasks_well_formed_witness:
  "\<exists>sd. sd_reachable sample_start sd \<and> keys (ps_task_graph (sd_qpu sd)) = [1, 4] \<and>
     (\<forall>t. map_of (ps_task_graph (sd_qpu sd)) 4 = Some t \<longrightarrow> processor_type (ti_task t) = QPU)"
proof -
  obtain sd where sd: "sd_reachable sample_start sd" "keys (ps_task_graph (sd_qpu sd)) = [1, 4]"
    by (rule sample_scheduled)
  from node_tasks_well_formed [OF sd(1) [unfolded sample_start_def]]
  have "\<forall>t. map_of (ps_task_graph (sd_qpu sd)) 4 = Some t \<longrightarrow> processor_type (ti_task t) = QPU" by simp
  with sd show ?thesis by auto
qed

theorem next_block_of_program_witness:
  "\<exists>sd0 x y sd. sample_created = Inr sd0 \<and> find_next_tasks_for 1 sd0 = Inr ((x, y), sd) \<and>
     requested_block 1 sd0 = Some 0 \<and> map_of (sd_block_index sd) 1 = Some 1"
proof -
  have "case sample_created of Inr sd \<Rightarrow> requested_block 1 sd = Some 0 \<and> \<not> sched_task_exists 1 (sd_cpu sd) \<and>
      \<not> sched_task_exists 1 (sd_qpu sd) \<and>
      (case get_process 1 (nd_mm (sd_node sd)) of Inr p \<Rightarrow> length (pr_blocks (pc_program p)) = 1 | Inl e \<Rightarrow> False)
    | Inl e \<Rightarrow> False" by code_simp
  then obtain sd0 p where s: "sample_created = Inr sd0" "requested_block 1 sd0 = Some 0" "\<not> sched_task_exists 1 (sd_cpu sd0)"
    "\<not> sched_task_exists 1 (sd_qpu sd0)" "get_process 1 (nd_mm (sd_node sd0)) = Inr p" "length (pr_blocks (pc_program p)) = 1"
    by (auto split: sum.splits)
  obtain x y sd where r: "find_next_tasks_for 1 sd0 = Inr ((x, y), sd)"
    using sample_next_tasks unfolding s(1) by (cases "find_next_tasks_for 1 sd0") auto
  have "pr_blocks (pc_program p) \<noteq> []" using s(6) by auto
  with next_block_of_program [OF r] s(2-6) have "map_of (sd_block_index sd) 1 = Some 1" by (auto split: if_splits)
  with s r show ?thesis by blast
qed

end
