(* ===== verification/WakeRun.thy ===== *)
theory WakeRun
  imports Wake NodeRun
begin

text \<open>
  No wake-up is lost: a scheduler that waits has an event for every task that it could start next,
  and a node with tasks left does not wait for itself only.
\<close>

section \<open>Listeners\<close>

lemma any_listener_has_spec:
  assumes "any_listener_has names ib = Inr has"
  shows "has \<longleftrightarrow> (\<exists>n \<in> set names. \<exists>b. map_of (ib_listeners ib) n = Some b \<and> has_any b)"
  using assms by (induction names) (auto simp: dget_def split: option.splits if_splits)

lemma any_listener_has_total:
  assumes "set names \<subseteq> set (keys (ib_listeners ib))"
  shows "any_listener_has names ib = Inr (\<exists>n \<in> set names. \<exists>b. map_of (ib_listeners ib) n = Some b \<and> has_any b)"
  using assms
proof (induction names)
  case (Cons n ns)
  then obtain b where "map_of (ib_listeners ib) n = Some b" using in_keys_map_of [of n] by fastforce
  with Cons show ?case by (auto simp: dget_Some)
qed simp

lemma listener_names_known: "set (listener_names h) \<subseteq> set (keys (ib_listeners (hs_inbox h)))"
  by (auto simp: listener_names_def)

lemma peer_listener_name: "peer_listener p \<in> set (listener_names h) \<longleftrightarrow> dhas (ib_listeners (hs_inbox h)) (peer_listener p)"
  by (simp add: listener_names_def peer_listener_def dhas_iff)

text \<open>The assertion that an event has fired never fails: awaiting the expression and handling it does what
waiting for a message from any of the listeners does.\<close>

lemma await_any_delivers:
  assumes "await_any names ib = Inr ib'" "inbox_inv ib" "set names \<subseteq> set (keys (ib_listeners ib))"
  shows "\<exists>n \<in> set names. \<exists>b. map_of (ib_listeners ib') n = Some b \<and> has_any b"
proof -
  from assms(1) obtain t n m where f: "List.find (\<lambda>(t, n, m). n \<in> set names) (ib_arrivals ib) = Some (t, n, m)"
    and ib': "ib' = advance t ib" by (auto simp: await_any_def split: option.splits)
  have a: "(t, n, m) \<in> set (takeWhile (\<lambda>(u, _). u \<le> t) (ib_arrivals ib))" "n \<in> set names"
    using find_sorted_takeWhile [OF f] assms(2) by (auto simp: inbox_inv_def)
  then obtain b where b: "map_of (ib_listeners ib) n = Some b" using assms(3) in_keys_map_of [of n] by fastforce
  let ?ms = "map (snd \<circ> snd) (filter (\<lambda>(t, n', m). n' = n) (takeWhile (\<lambda>(u, _). u \<le> t) (ib_arrivals ib)))"
  have "m \<in> set ?ms" using a(1) by force
  moreover have "buffer_inv b" using assms(2) b by (auto simp: inbox_inv_def)
  ultimately have "has_any (fold add_msg ?ms b)" by (intro fold_add_has_any)
  moreover have "map_of (ib_listeners ib') n = Some (fold add_msg ?ms b)"
    using b by (simp add: ib' advance_def map_of_delivers)
  ultimately show ?thesis using a(2) by blast
qed

lemma rmap_listeners:
  "set names \<subseteq> set (keys (ib_listeners ib)) \<Longrightarrow>
     rmap (dget (ib_listeners ib)) names = Inr (map (the \<circ> map_of (ib_listeners ib)) names)"
proof (induction names)
  case (Cons n ns)
  then obtain b where "map_of (ib_listeners ib) n = Some b" using in_keys_map_of [of n] by fastforce
  with Cons show ?case by (simp add: dget_Some)
qed simp

lemma handle_msg_evexpr_total:
  assumes "set names \<subseteq> set (keys (ib_listeners ib))" "n \<in> set names" "map_of (ib_listeners ib) n = Some b" "has_any b"
  shows "handle_msg_evexpr names ib = Inr (length (filter (has_any \<circ> the \<circ> map_of (ib_listeners ib)) names) - 1)"
proof -
  have "n \<in> set (filter (has_any \<circ> the \<circ> map_of (ib_listeners ib)) names)" using assms(2-4) by simp
  then have "length (filter (has_any \<circ> the \<circ> map_of (ib_listeners ib)) names) > 0" by (metis length_pos_if_in_set)
  then show ?thesis
    by (simp add: handle_msg_evexpr_def rmap_listeners [OF assms(1)] filter_map comp_assoc)
qed

lemma advance_keys: "keys (ib_listeners (advance t ib)) = keys (ib_listeners ib)"
proof -
  have "keys (deliver a ls) = keys ls" for a and ls :: "(string, 'a msg_buffer) dict"
    by (cases a) (auto simp: deliver_def keys_dset_present dhas_iff split: option.splits dest: map_of_in_keys)
  then have "keys (fold deliver as ls) = keys ls" for as and ls :: "(string, 'a msg_buffer) dict"
    by (induction as arbitrary: ls) simp_all
  then show ?thesis by (simp add: advance_def)
qed

theorem wait_for_any_source_is_wait_for_any:
  assumes "inbox_inv ib" "set names \<subseteq> set (keys (ib_listeners ib))"
  shows "wait_for_msg_any_source names ib = wait_for_any names ib"
proof -
  define has where "has \<longleftrightarrow> (\<exists>n \<in> set names. \<exists>b. map_of (ib_listeners ib) n = Some b \<and> has_any b)"
  have known: "n \<in> set names \<Longrightarrow> \<exists>b. map_of (ib_listeners ib) n = Some b" for n
    using assms(2) in_keys_map_of [of n] by fastforce
  have list_ex: "list_ex has_any (map (the \<circ> map_of (ib_listeners ib)) names) \<longleftrightarrow> has"
  proof -
    have "has_any (the (map_of (ib_listeners ib) n)) \<longleftrightarrow> (\<exists>b. map_of (ib_listeners ib) n = Some b \<and> has_any b)" if "n \<in> set names" for n
      using known [OF that] by auto
    then show ?thesis by (simp add: list_ex_iff has_def)
  qed
  have any: "wait_for_any names ib = (if has then Inr ib else rbind (py_assert (names \<noteq> [])) (\<lambda>_. await_any names ib))"
    using list_ex rmap_listeners [OF assms(2)] by (simp add: wait_for_any_def await_any_def)
  have "rbind (await_any names ib) (\<lambda>ib'. rbind (handle_msg_evexpr names ib') (\<lambda>_. Inr ib')) = await_any names ib"
  proof (cases "await_any names ib")
    case (Inr ib')
    then obtain n b where n: "n \<in> set names" "map_of (ib_listeners ib') n = Some b" "has_any b"
      using await_any_delivers assms by blast
    obtain t where "ib' = advance t ib" using Inr by (auto simp: await_any_def split: option.splits)
    then have "set names \<subseteq> set (keys (ib_listeners ib'))" using assms(2) by (simp only: advance_keys)
    from handle_msg_evexpr_total [OF this n] Inr show ?thesis by simp
  qed simp
  then show ?thesis
    by (simp add: any wait_for_msg_any_source_def get_evexpr_for_any_msg_def any_listener_has_total [OF assms(2), folded has_def] rbind_ensure)
qed

section \<open>The CPU scheduler\<close>

lemma in_future_starts:
  "(t, st) \<in> set (future_starts g now ts) \<longleftrightarrow>
     t \<in> set ts \<and> (\<exists>i. map_of g t = Some i \<and> ti_start_time i = Some st \<and> now < st)"
  by (force simp: future_starts_def split: option.splits if_splits)

lemma in_blocked_external:
  assumes "dict_ok g"
  shows "t \<in> set (get_tasks_blocked_only_on_external g) \<longleftrightarrow>
    (\<exists>i. map_of g t = Some i \<and> ti_predecessors i = [] \<and> ti_ext_predecessors i \<noteq> [])"
  unfolding items_map_of [OF assms, symmetric] by (force simp: get_tasks_blocked_only_on_external_def)

text \<open>The status of a CPU scheduler that has found no task.\<close>

lemma cpu_no_task:
  assumes "cpu_update_status randint n s = Inr s'" "NEXT_TASK \<notin> set (st_status (ps_status s'))" "ps_task_graph s \<noteq> []"
  obtains blocked where "cpu_blocked s n = Inr blocked" "cpu_ready s n blocked = []" "ps_status s' = cpu_waiting s n blocked"
proof -
  from assms(1,3) obtain blocked where b: "cpu_blocked s n = Inr blocked" by (auto simp: cpu_update_status_def)
  moreover have "cpu_ready s n blocked = []"
  proof (rule ccontr)
    assume "cpu_ready s n blocked \<noteq> []"
    with assms(1,3) b have "NEXT_TASK \<in> set (st_status (ps_status s'))" by (auto simp: cpu_update_status_def)
    with assms(2) show False by simp
  qed
  ultimately show thesis using that assms(1,3) by (auto simp: cpu_update_status_def)
qed

lemma cpu_waiting_status:
  assumes "ps_status s = no_status"
  shows "WAITING_OTHER_CORE \<in> set (st_status (cpu_waiting s n blocked)) \<longleftrightarrow> get_tasks_blocked_only_on_external (ps_task_graph s) \<noteq> []"
    and "WAITING_MSG \<in> set (st_status (cpu_waiting s n blocked)) \<longleftrightarrow> blocked \<noteq> []"
    and "WAITING_START_TIME \<in> set (st_status (cpu_waiting s n blocked)) \<longleftrightarrow>
      future_starts (ps_task_graph s) (host_now (nd_host n)) (get_roots False (ps_task_graph s)) \<noteq> []"
    and "future_starts (ps_task_graph s) (host_now (nd_host n)) (get_roots False (ps_task_graph s)) \<noteq> [] \<Longrightarrow>
      st_start_time (cpu_waiting s n blocked) =
        Some (snd (hd (sort_key snd (future_starts (ps_task_graph s) (host_now (nd_host n)) (get_roots False (ps_task_graph s))))))"
  using assms by (auto simp: cpu_waiting_def Let_def)

lemma cpu_blocked_spec:
  assumes "cpu_blocked s n = Inr blocked"
  shows "set blocked = {t \<in> set (get_event_roots False (ps_task_graph s)). is_message_available t s n = Inr False}"
    and "t \<in> set (get_event_roots False (ps_task_graph s)) \<Longrightarrow> \<exists>b. is_message_available t s n = Inr b"
  using rfilter_spec [OF assms [unfolded cpu_blocked_def]] by auto

text \<open>A CPU scheduler that waits is woken for every task it could start next: for a task that only waits for
the other processor when that one completes a task, for a receive task without its message when a
message arrives from any peer, and for a task to be started later by a timer that ends no later than
its start time.\<close>

theorem cpu_wakes_for_every_task:
  assumes "dict_ok (ps_task_graph s)" "ps_status s = no_status" "cpu_update_status randint n s = Inr s'"
    and "NEXT_TASK \<notin> set (st_status (ps_status s'))" "cpu_wakeups (nd_host n) (ps_status s') = Inr ws"
    and "map_of (ps_task_graph s) tid = Some t" "ti_predecessors t = []"
  shows "if ti_ext_predecessors t \<noteq> [] then TaskCompleted \<in> set ws
    else is_event_task (ti_task t) \<and> is_message_available tid s n = Inr False \<and>
        listener_names (nd_host n) \<noteq> [] \<and> (\<forall>l \<in> set (listener_names (nd_host n)). SignalOf l \<in> set ws) \<or>
      (\<exists>st d. ti_start_time t = Some st \<and> TimerAfter d \<in> set ws \<and> 0 < d \<and> host_now (nd_host n) + d \<le> st)"
proof -
  let ?now = "host_now (nd_host n)"
  let ?future = "future_starts (ps_task_graph s) ?now (get_roots False (ps_task_graph s))"
  have "ps_task_graph s \<noteq> []" using assms(6) by auto
  then obtain blocked where b: "cpu_blocked s n = Inr blocked" "cpu_ready s n blocked = []" "ps_status s' = cpu_waiting s n blocked"
    by (rule cpu_no_task [OF assms(3,4)])
  note status = cpu_waiting_status [OF assms(2), of n blocked, folded b(3)]
  show ?thesis
  proof (cases "ti_ext_predecessors t = []")
    case False
    then have "tid \<in> set (get_tasks_blocked_only_on_external (ps_task_graph s))"
      unfolding in_blocked_external [OF assms(1)] using assms(6,7) by blast
    then have "WAITING_OTHER_CORE \<in> set (st_status (ps_status s'))" using status(1) by auto
    with False assms(5) show ?thesis by (auto simp: cpu_wakeups_def Let_def split: if_splits option.splits)
  next
    case True
    then have root: "tid \<in> set (get_roots False (ps_task_graph s))" using in_get_roots [OF assms(1)] assms(6,7) by blast
    have "\<not> cpu_startable s n tid" using cpu_ready_startable [OF assms(1) b(1)] b(2) by auto
    then consider "is_event_task (ti_task t)" "is_message_available tid s n \<noteq> Inr True"
      | st where "ti_start_time t = Some st" "?now < st"
      using assms(6,7) True by (auto simp: cpu_startable_def not_le)
    then show ?thesis
    proof cases
      case 1
      then have ev: "tid \<in> set (get_event_roots False (ps_task_graph s))" using root assms(6) by (simp add: get_event_roots_def)
      with cpu_blocked_spec(2) [OF b(1) ev] 1 have av: "is_message_available tid s n = Inr False" by auto
      with ev cpu_blocked_spec(1) [OF b(1)] have "blocked \<noteq> []" by auto
      then have "WAITING_MSG \<in> set (st_status (ps_status s'))" using status(2) by simp
      with assms(5) have "listener_names (nd_host n) \<noteq> [] \<and> (\<forall>l \<in> set (listener_names (nd_host n)). SignalOf l \<in> set ws)"
        by (auto simp: cpu_wakeups_def Let_def get_evexpr_for_any_msg_def rbind_ensure split: if_splits option.splits)
      with 1 av True show ?thesis by simp
    next
      case 2
      then have mem: "(tid, st) \<in> set ?future" using root assms(6) by (auto simp: in_future_starts)
      obtain e u where first: "hd (sort_key snd ?future) = (e, u)" by (cases "hd (sort_key snd ?future)")
      then have "(e, u) \<in> set ?future" using sorted_hd_le(1) [OF mem] by simp
      then have u: "?now < u" unfolding in_future_starts by blast
      have "u \<le> st" using sorted_hd_le(2) [OF mem] by (simp add: first)
      have "?future \<noteq> []" using mem by auto
      then have "WAITING_START_TIME \<in> set (st_status (ps_status s'))" "the (st_start_time (ps_status s')) = u"
        using status(3,4) by (auto simp: first)
      then have "TimerAfter (u - ?now) \<in> set ws" using assms(5) by (auto simp: cpu_wakeups_def Let_def split: if_splits option.splits)
      with u \<open>u \<le> st\<close> show ?thesis using True 2 by (auto intro!: exI [of _ "u - ?now"])
    qed
  qed
qed

section \<open>The QPU scheduler\<close>

lemma next_specific_bin_nonneg:
  assumes "wf_schedule s" "0 \<le> ns_first_bin s" "next_specific_bin s t b = Inr d"
  shows "0 \<le> d"
proof -
  let ?R = "ns_repeat_period s" and ?F = "real_of_int (ns_first_bin s)"
  define q where "q = \<lfloor>(t - ?F) / real_of_int ?R\<rfloor>"
  have pos: "0 < ?R" using assms(1) by (simp add: wf_schedule_def)
  from assms(3) obtain j where j: "last_bin_index b (ns_bin_pattern s) 0 None = Some j"
    by (auto simp: next_specific_bin_def split: option.splits)
  have "0 \<le> j" using last_bin_index_range [OF j] by auto
  then have rel: "0 \<le> real_of_int (j * ns_bin_length s)" using assms(1) by (simp add: wf_schedule_def)
  have since: "t - ?F - real_of_int (q * ?R) < real_of_int ?R" using floor_period(2) [OF pos, of "t - ?F"] by (simp add: q_def)
  define since where "since = t - ?F - real_of_int (q * ?R + ns_first_bin s)"
  have "since < real_of_int ?R" using since assms(2) by (simp add: since_def)
  moreover have "d = (if since \<le> real_of_int (j * ns_bin_length s) then real_of_int (j * ns_bin_length s) - since
      else real_of_int ?R - since + real_of_int (j * ns_bin_length s))"
    using assms(3) j pos by (auto simp: next_specific_bin_def floor_div_def Let_def since_def q_def)
  ultimately show ?thesis using rel by (simp split: if_splits)
qed

lemma bin_delays_mem:
  assumes "bin_delays s n tids = Inr delays" "tid \<in> set tids"
  obtains "ps_network_schedule s = None" "(tid, 0) \<in> set delays"
    | sched b d where "ps_network_schedule s = Some sched" "(tid, d) \<in> set delays"
      "timebin_for_task tid s n = Inr b" "next_specific_bin sched (ib_now (nd_inbox n)) b = Inr d"
proof (cases "ps_network_schedule s")
  case None
  with assms that(1) show ?thesis by (auto simp: bin_delays_def)
next
  case (Some sched)
  have found: "\<exists>d b. (tid, d) \<in> set ds \<and> f tid = Inr b \<and> h b = Inr d"
    if "rmap (\<lambda>e. rbind (f e) (\<lambda>b. rbind (h b) (\<lambda>d. Inr (e, d)))) xs = Inr ds" "tid \<in> set xs"
    for f :: "int \<Rightarrow> network_timebin res" and h and ds :: "(int \<times> real) list" and xs
    using that by (induction xs arbitrary: ds) auto
  have "rmap (\<lambda>e. rbind (timebin_for_task e s n) (\<lambda>b.
      rbind (next_specific_bin sched (ib_now (nd_inbox n)) b) (\<lambda>d. Inr (e, d)))) tids = Inr delays"
    using assms(1) Some by (simp add: bin_delays_def)
  from found [OF this assms(2)] Some that(2) show ?thesis by blast
qed

text \<open>The status of a QPU scheduler that has found no task.\<close>

lemma qpu_no_task:
  assumes "qpu_update_status randint n s = Inr (s', n')" "EPR_GEN \<notin> set (st_status (ps_status s'))"
    and "NEXT_TASK \<notin> set (st_status (ps_status s'))" "ps_task_graph s \<noteq> []"
  obtains blocked delays where "bin_delays s n' (epr_unblocked s blocked) = Inr delays" "\<forall>(e, d) \<in> set delays. d \<noteq> 0"
    and "non_epr_ready s blocked = []" "ps_status s' = qpu_waiting s blocked delays"
proof -
  from assms(1,4) obtain blocked delays st where b: "bin_delays s n' (epr_unblocked s blocked) = Inr delays"
      "qpu_choice randint s blocked delays = Inr st" "ps_status s' = st"
    by (auto simp: qpu_update_status_def)
  have no_epr: "filter (\<lambda>(e, d). d = 0) delays = []"
  proof (rule ccontr)
    assume "filter (\<lambda>(e, d). d = 0) delays \<noteq> []"
    with b(2,3) have "EPR_GEN \<in> set (st_status (ps_status s'))" by (auto simp: qpu_choice_def)
    with assms(2) show False by simp
  qed
  have no_other: "non_epr_ready s blocked = []"
  proof (rule ccontr)
    assume "non_epr_ready s blocked \<noteq> []"
    with b(2) no_epr obtain x where "st = status_task NEXT_TASK x" by (auto simp: qpu_choice_def)
    with b(3) assms(3) show False by simp
  qed
  have "ps_status s' = qpu_waiting s blocked delays" using b(2,3) no_epr no_other by (auto simp: qpu_choice_def)
  moreover have "\<forall>(e, d) \<in> set delays. d \<noteq> 0" using no_epr by (auto simp: filter_empty_conv)
  ultimately show thesis using that [OF b(1) _ no_other] by blast
qed

lemma qpu_waiting_status:
  assumes "ps_status s = no_status"
  shows "WAITING_OTHER_CORE \<in> set (st_status (qpu_waiting s blocked delays)) \<longleftrightarrow> get_tasks_blocked_only_on_external (ps_task_graph s) \<noteq> []"
    and "WAITING_RESOURCES \<in> set (st_status (qpu_waiting s blocked delays)) \<longleftrightarrow> blocked \<noteq> []"
    and "WAITING_TIME_BIN \<in> set (st_status (qpu_waiting s blocked delays)) \<longleftrightarrow> filter (\<lambda>(e, d). d > 0) delays \<noteq> []"
    and "filter (\<lambda>(e, d). d > 0) delays \<noteq> [] \<Longrightarrow>
      st_delta (qpu_waiting s blocked delays) = Some (snd (hd (sort_key snd (filter (\<lambda>(e, d). d > 0) delays))))"
  using assms by (auto simp: qpu_waiting_def Let_def)

text \<open>A QPU scheduler that waits is woken for every task it could start next: for a task that only waits for
the other processor when that one completes a task, for a task without its qubits when memory is
freed, and for an entanglement task by a timer that ends no later than the next time bin of its
node pair.\<close>

theorem qpu_wakes_for_every_task:
  assumes "dict_ok (ps_task_graph s)" "ps_status s = no_status" "qpu_update_status randint n s = Inr (s', n')"
    and "EPR_GEN \<notin> set (st_status (ps_status s'))" "NEXT_TASK \<notin> set (st_status (ps_status s'))"
    and "\<forall>sched. ps_network_schedule s = Some sched \<longrightarrow> wf_schedule sched \<and> 0 \<le> ns_first_bin sched"
    and "map_of (ps_task_graph s) tid = Some t" "ti_predecessors t = []"
  shows "if ti_ext_predecessors t \<noteq> [] then TaskCompleted \<in> set (qpu_wakeups (ps_status s'))
    else MemoryFreed \<in> set (qpu_wakeups (ps_status s')) \<or>
      (\<exists>sched b delta d. is_epr_task (ti_task t) \<and> ps_network_schedule s = Some sched \<and>
        timebin_for_task tid s n' = Inr b \<and> next_specific_bin sched (ib_now (nd_inbox n')) b = Inr delta \<and>
        TimerAfter d \<in> set (qpu_wakeups (ps_status s')) \<and> 0 < d \<and> d \<le> delta)"
proof -
  have "ps_task_graph s \<noteq> []" using assms(7) by auto
  then obtain blocked delays where b: "bin_delays s n' (epr_unblocked s blocked) = Inr delays" "\<forall>(e, d) \<in> set delays. d \<noteq> 0"
      "non_epr_ready s blocked = []" "ps_status s' = qpu_waiting s blocked delays"
    by (rule qpu_no_task [OF assms(3-5)])
  let ?waiting = "filter (\<lambda>(e, d). d > 0) delays"
  note status = qpu_waiting_status [OF assms(2), where blocked = blocked and delays = delays, folded b(4)]
  show ?thesis
  proof (cases "ti_ext_predecessors t = []")
    case False
    then have "tid \<in> set (get_tasks_blocked_only_on_external (ps_task_graph s))"
      unfolding in_blocked_external [OF assms(1)] using assms(7,8) by blast
    then have "WAITING_OTHER_CORE \<in> set (st_status (ps_status s'))" using status(1) by auto
    with False show ?thesis by (simp add: qpu_wakeups_def)
  next
    case True
    then have root: "tid \<in> set (get_roots False (ps_task_graph s))" using in_get_roots [OF assms(1)] assms(7,8) by blast
    show ?thesis
    proof (cases "blocked = []")
      case False
      then have "WAITING_RESOURCES \<in> set (st_status (ps_status s'))" using status(2) by simp
      with True show ?thesis by (simp add: qpu_wakeups_def)
    next
      case no_block: True
      with root b(3) have "tid \<in> set (get_epr_roots False (ps_task_graph s))" by (auto simp: non_epr_ready_def filter_empty_conv)
      then have epr: "is_epr_task (ti_task t)" "tid \<in> set (epr_unblocked s blocked)"
        using assms(7) no_block by (auto simp: get_epr_roots_def epr_unblocked_def)
      from b(1) epr(2) obtain sched bin delta where bin: "ps_network_schedule s = Some sched" "(tid, delta) \<in> set delays"
          "timebin_for_task tid s n' = Inr bin" "next_specific_bin sched (ib_now (nd_inbox n')) bin = Inr delta"
        by (rule bin_delays_mem) (use b(2) in auto)
      have "0 \<le> delta" using next_specific_bin_nonneg [OF _ _ bin(4)] assms(6) bin(1) by simp
      then have mem: "(tid, delta) \<in> set ?waiting" using bin(2) b(2) by fastforce
      obtain e d where first: "hd (sort_key snd ?waiting) = (e, d)" by (cases "hd (sort_key snd ?waiting)")
      have d: "0 < d" "d \<le> delta" using sorted_hd_le [OF mem] by (simp_all add: first)
      have "?waiting \<noteq> []" using mem by (metis empty_iff empty_set)
      then have "TimerAfter d \<in> set (qpu_wakeups (ps_status s'))"
        using status(3,4) by (simp add: qpu_wakeups_def first)
      with True epr(1) bin d show ?thesis by auto
    qed
  qed
qed

section \<open>The node\<close>

lemma handle_task_status:
  "sched_handle_task drive clock tid (s, n) = Inr (s', n') \<Longrightarrow> ps_status s' = ps_status s"
  by (auto simp: sched_handle_task_def Let_def finish_task_def start_task_def record_start_timestamp_def
      record_end_timestamp_def split: if_splits)

lemma cpu_turn_waits:
  assumes "cpu_turn randint other (s, n) = Inr ((s', n'), ws)" "NEXT_TASK \<notin> set (st_status (ps_status s'))"
  shows "cpu_update_status randint n (update_external_predecessors other (s\<lparr>ps_status := no_status\<rparr>)) = Inr s' \<and>
    cpu_wakeups (nd_host n) (ps_status s') = Inr ws"
proof -
  from assms have r: "cpu_round randint other (s, n) = Inr (s', n')" and w: "cpu_wakeups (nd_host n') (ps_status s') = Inr ws"
    by (auto simp: cpu_turn_def split: if_splits)
  from r obtain s1 where s1: "cpu_update_status randint n (update_external_predecessors other (s\<lparr>ps_status := no_status\<rparr>)) = Inr s1"
    and h: "if NEXT_TASK \<in> set (st_status (ps_status s1))
      then sched_handle_task cpu_handle_task (\<lambda>m. host_now (nd_host m)) (the (st_task_id (ps_status s1))) (s1, n) = Inr (s', n')
      else s' = s1 \<and> n' = n"
    by (fastforce simp: cpu_round_def split: if_splits)
  show ?thesis
  proof (cases "NEXT_TASK \<in> set (st_status (ps_status s1))")
    case True
    with h have "ps_status s' = ps_status s1" by (simp add: handle_task_status)
    with True assms(2) show ?thesis by simp
  next
    case False
    with h s1 w show ?thesis by simp
  qed
qed

lemma qpu_turn_waits:
  assumes "qpu_turn env randint other (s, n) = Inr ((s', n'), ws)"
    and "EPR_GEN \<notin> set (st_status (ps_status s'))" "NEXT_TASK \<notin> set (st_status (ps_status s'))"
  shows "qpu_update_status randint n (update_external_predecessors other (s\<lparr>ps_status := no_status\<rparr>)) = Inr (s', n') \<and>
    ws = qpu_wakeups (ps_status s')"
proof -
  let ?picked = "\<lambda>s1. EPR_GEN \<in> set (st_status (ps_status s1)) \<or> NEXT_TASK \<in> set (st_status (ps_status s1))"
  from assms have r: "qpu_round env randint other (s, n) = Inr (s', n')" and w: "ws = qpu_wakeups (ps_status s')"
    by (auto simp: qpu_turn_def split: if_splits)
  from r obtain s1 n1 where s1: "qpu_update_status randint n (update_external_predecessors other (s\<lparr>ps_status := no_status\<rparr>)) = Inr (s1, n1)"
    and h: "if ?picked s1
      then sched_handle_task (qpu_handle_task env) (\<lambda>m. ib_now (nd_inbox m)) (the (st_task_id (ps_status s1))) (s1, n1) = Inr (s', n')
      else s' = s1 \<and> n' = n1"
    by (fastforce simp: qpu_round_def split: if_splits)
  show ?thesis
  proof (cases "?picked s1")
    case True
    with h have "ps_status s' = ps_status s1" by (simp add: handle_task_status)
    with True assms(2,3) show ?thesis by simp
  next
    case False
    with h s1 w show ?thesis by simp
  qed
qed

text \<open>C8: A node does not wait for itself: when tasks are left in a state that the schedulers reach and neither
scheduler finds one to start, at least one of the two waits for something other than the other one,
a message from another node, freed memory or a timer that ends in the future.\<close>

theorem node_waits_for_the_world:
  assumes "sd_reachable (init_node_scheduler node_id det dl sched network m) sd"
    and "ps_task_graph (sd_cpu sd) \<noteq> [] \<or> ps_task_graph (sd_qpu sd) \<noteq> []"
    and "\<forall>x. ps_network_schedule (sd_qpu sd) = Some x \<longrightarrow> wf_schedule x \<and> 0 \<le> ns_first_bin x"
    and "cpu_turn randint (Some (sd_qpu sd)) (sd_cpu sd, n) = Inr ((c, n1), ws)"
    and "qpu_turn env randint' (Some (sd_cpu sd)) (sd_qpu sd, n) = Inr ((q, n2), ws')"
    and "NEXT_TASK \<notin> set (st_status (ps_status c))"
    and "EPR_GEN \<notin> set (st_status (ps_status q))" "NEXT_TASK \<notin> set (st_status (ps_status q))"
  shows "(\<exists>l \<in> set (listener_names (nd_host n)). SignalOf l \<in> set ws) \<or> MemoryFreed \<in> set ws' \<or>
    (\<exists>d > 0. TimerAfter d \<in> set ws \<union> set ws')"
proof -
  let ?c = "update_external_predecessors (Some (sd_qpu sd)) ((sd_cpu sd)\<lparr>ps_status := no_status\<rparr>)"
  let ?q = "update_external_predecessors (Some (sd_cpu sd)) ((sd_qpu sd)\<lparr>ps_status := no_status\<rparr>)"
  have inv: "node_inv sd" by (rule sd_reachable_inv [OF assms(1) init_node_inv])
  then have b: "both_ok 0 (sd_task_counter sd) (set (ps_finished_tasks (sd_cpu sd))) (set (ps_finished_tasks (sd_qpu sd)))
       (ps_task_graph (sd_cpu sd)) (ps_task_graph (sd_qpu sd))" by (simp add: node_inv_def)
  have ok: "graph_ok (ps_task_graph (sd_cpu sd))" "graph_ok (ps_task_graph (sd_qpu sd))" using b by (simp_all only: both_ok_def)
  have graphs: "ps_task_graph ?c = ps_task_graph (update_external_predecessors (Some (sd_qpu sd)) (sd_cpu sd))"
      "ps_task_graph ?q = ps_task_graph (update_external_predecessors (Some (sd_cpu sd)) (sd_qpu sd))"
    by (simp_all add: update_external_predecessors_def)
  have dicts: "dict_ok (ps_task_graph ?c)" "dict_ok (ps_task_graph ?q)"
    using graph_ok_dict [OF ok(1)] graph_ok_dict [OF ok(2)] skeleton_external skeleton_order(4) unfolding graphs by metis+
  have none: "ps_status ?c = no_status" "ps_status ?q = no_status" by simp_all
  have cpu: "cpu_update_status randint n ?c = Inr c" "cpu_wakeups (nd_host n) (ps_status c) = Inr ws"
    using cpu_turn_waits [OF assms(4,6)] by simp_all
  have qpu: "qpu_update_status randint' n ?q = Inr (q, n2)" "ws' = qpu_wakeups (ps_status q)"
    using qpu_turn_waits [OF assms(5,7,8)] by simp_all
  have sched: "\<forall>x. ps_network_schedule ?q = Some x \<longrightarrow> wf_schedule x \<and> 0 \<le> ns_first_bin x"
    using assms(3) by (simp add: update_external_predecessors_def)
  from both_ok_progress [OF b assms(2)] obtain i where
    "i \<in> set (get_roots False (ps_task_graph ?c)) \<or> i \<in> set (get_roots False (ps_task_graph ?q))"
    using root_after_update [OF ok(1)] root_after_update [OF ok(2)] unfolding graphs by blast
  then show ?thesis
  proof
    assume "i \<in> set (get_roots False (ps_task_graph ?c))"
    then obtain t where t: "map_of (ps_task_graph ?c) i = Some t" "ti_predecessors t = []" "ti_ext_predecessors t = []"
      unfolding in_get_roots [OF dicts(1)] by blast
    from cpu_wakes_for_every_task [OF dicts(1) none(1) cpu(1) assms(6) cpu(2) t(1,2)] t(3)
    consider "listener_names (nd_host n) \<noteq> []" "\<forall>l \<in> set (listener_names (nd_host n)). SignalOf l \<in> set ws"
      | d where "TimerAfter d \<in> set ws" "0 < d" by auto
    then show ?thesis by cases (use list.set_sel(1) in blast)+
  next
    assume "i \<in> set (get_roots False (ps_task_graph ?q))"
    then obtain t where t: "map_of (ps_task_graph ?q) i = Some t" "ti_predecessors t = []" "ti_ext_predecessors t = []"
      unfolding in_get_roots [OF dicts(2)] by blast
    from qpu_wakes_for_every_task [OF dicts(2) none(2) qpu(1) assms(7,8) sched t(1,2), folded qpu(2)] t(3)
    show ?thesis by auto
  qed
qed

text \<open>While a receive task waits, any message in a buffer of the Host stops the CPU scheduler: there is no event
expression then, and it cannot be combined with the others. The message may be for another process, or
for the same one when the two process IDs of the socket differ.\<close>

theorem buffered_message_stops_waiting_cpu:
  assumes "cpu_round randint other (s, n) = Inr (s', n')" "NEXT_TASK \<notin> set (st_status (ps_status s'))"
    and "WAITING_MSG \<in> set (st_status (ps_status s'))"
    and "map_of (ib_listeners (hs_inbox (nd_host n'))) (peer_listener peer) = Some b" "has_any b"
  shows "cpu_turn randint other (s, n) = Inl TypeError"
proof -
  have "peer_listener peer \<in> set (listener_names (nd_host n'))"
    using assms(4) by (simp add: peer_listener_name dhas_def)
  then have "any_listener_has (listener_names (nd_host n')) (hs_inbox (nd_host n')) = Inr True"
    using any_listener_has_total [OF listener_names_known] assms(4,5) by auto
  then have "cpu_wakeups (nd_host n') (ps_status s') = Inl TypeError"
    using assms(3) by (simp add: cpu_wakeups_def get_evexpr_for_any_msg_def Let_def)
  with assms(1,2) show ?thesis by (simp add: cpu_turn_def)
qed

section \<open>Examples and witnesses\<close>

text \<open>A program that receives a message, on a node that is connected to one other node.\<close>

definition sample_receiver_start :: "unit node_scheduler" where
  "sample_receiver_start = init_node_scheduler 7 True True None (only_nodes [(7, ''alice''), (8, ''bob'')])
     ((sample_node init_sched_memory)\<lparr>nd_mm := init_memmgr sample_device None\<rparr>)"

definition sample_receiver :: batch_info where
  "sample_receiver = \<lparr>bi_program = mk_program ((meta_empty ''recv'')\<lparr>pm_parameters := [''sock''], pm_csockets := [(0, ''bob'')]\<rparr>)
       [sample_block ''b0'' CC [mk_op ReceiveCMsgOp [IqoalaSingleton ''sock''] (Some (IqoalaSingleton ''x'')) []]] None None,
     bi_unit_module = sample_unit_module, bi_inputs = [[(''sock'', 0)]], bi_num_iterations = 1, bi_deadline = 0\<rparr>"

definition sample_receiving :: "unit node_scheduler res" where
  "sample_receiving = rbind (submit_batch sample_receiver sample_receiver_start) (\<lambda>(b, sd).
     rbind (create_processes_for_batches (Some [(0, [0])]) False sd) schedule_all)"

lemma sample_receiving_waits:
  "case sample_receiving of
     Inr sd \<Rightarrow> ps_task_graph (sd_cpu sd) \<noteq> [] \<and> ps_task_graph (sd_qpu sd) = [] \<and> ps_network_schedule (sd_qpu sd) = None \<and>
       (case cpu_turn (\<lambda>_. 0) (Some (sd_qpu sd)) (sd_cpu sd, sd_node sd) of
          Inr ((c, n), ws) \<Rightarrow> NEXT_TASK \<notin> set (st_status (ps_status c)) \<and> ws = [SignalOf ''peer_bob'', PortInput]
        | Inl e \<Rightarrow> False)
   | Inl e \<Rightarrow> False"
  by code_simp

lemma qpu_turn_empty:
  assumes "ps_task_graph s = []"
  shows "\<exists>q. qpu_turn env randint other (s, n) = Inr ((q, n), [PortInput]) \<and>
    EPR_GEN \<notin> set (st_status (ps_status q)) \<and> NEXT_TASK \<notin> set (st_status (ps_status q))"
  using assms by (auto simp: qpu_turn_def qpu_round_def qpu_update_status_def update_external_predecessors_def get_roots_def
      qpu_wakeups_def split: option.splits)

theorem node_waits_for_the_world_witness:
  "\<exists>sd c n1 ws. sample_receiving = Inr sd \<and> ps_task_graph (sd_cpu sd) \<noteq> [] \<and>
     cpu_turn (\<lambda>_. 0) (Some (sd_qpu sd)) (sd_cpu sd, sd_node sd) = Inr ((c, n1), ws) \<and>
     (\<exists>l. SignalOf l \<in> set ws)"
proof -
  obtain sd c n1 ws where sd: "sample_receiving = Inr sd" "ps_task_graph (sd_cpu sd) \<noteq> []" "ps_task_graph (sd_qpu sd) = []"
      "ps_network_schedule (sd_qpu sd) = None"
    and cpu: "cpu_turn (\<lambda>_. 0) (Some (sd_qpu sd)) (sd_cpu sd, sd_node sd) = Inr ((c, n1), ws)"
      "NEXT_TASK \<notin> set (st_status (ps_status c))" "ws = [SignalOf ''peer_bob'', PortInput]"
    using sample_receiving_waits by (auto split: sum.splits)
  have "sd_reachable sample_receiver_start sd"
    using sd(1) sd_reachable.scheduled [OF sd_reachable.created [OF sd_reachable.submitted [OF sd_reachable.initial]]]
    by (auto simp: sample_receiving_def)
  note reach = this [unfolded sample_receiver_start_def]
  obtain q where qpu: "qpu_turn sample_net_env (\<lambda>_. 0) (Some (sd_cpu sd)) (sd_qpu sd, sd_node sd) = Inr ((q, sd_node sd), [PortInput])"
      "EPR_GEN \<notin> set (st_status (ps_status q))" "NEXT_TASK \<notin> set (st_status (ps_status q))"
    using qpu_turn_empty [OF sd(3)] by blast
  from node_waits_for_the_world [OF reach disjI1 [OF sd(2)] _ cpu(1) qpu(1) cpu(2) qpu(2,3)] sd(4) cpu(3)
  have "\<exists>l. SignalOf l \<in> set ws" by auto
  with sd(1,2) cpu(1) show ?thesis by blast
qed

text \<open>The same node with a message for another process in the buffer.\<close>

lemma sample_buffered_message:
  "case sample_receiving of
     Inr sd \<Rightarrow> (case cpu_turn (\<lambda>_. 0) (Some (sd_qpu sd)) (sd_cpu sd, (sd_node sd)\<lparr>nd_host := sample_host []
         [((3, 4), [\<lparr>src_pid = 3, dst_pid = 4, content = IntMsg 1\<rparr>])]\<rparr>) of
          Inr x \<Rightarrow> False
        | Inl e \<Rightarrow> e = TypeError)
   | Inl e \<Rightarrow> False"
  by code_simp

end
