(* ===== verification/LhiToEhi.thy ===== *)
theory LhiToEhi
  imports Lhi
begin

text \<open>
  The conversion of the low-level hardware description to the exposed one (\<open>LhiConverter\<close> in
  \<open>qoala/runtime/lhi_to_ehi.py\<close>), with the fidelity formulas of \<open>qoala/util/math.py\<close>. The
  lemmas show that the conversion commutes with the builders of the two descriptions.
\<close>

section \<open>Fidelities\<close>

definition fidelity_to_prob_max_mixed :: "int \<Rightarrow> real \<Rightarrow> real res" where
  "fidelity_to_prob_max_mixed n fid =
     (if n = 1 then Inr ((1 - fid) * 2)
      else if n = 2 then Inr ((1 - fid) * 4 / 3)
      else Inl ValueError)"

definition prob_max_mixed_to_fidelity :: "int \<Rightarrow> real \<Rightarrow> real res" where
  "prob_max_mixed_to_fidelity n prob =
     (if n = 1 then Inr (1 - 1 / 2 * prob)
      else if n = 2 then Inr (1 - 3 / 4 * prob)
      else Inl ValueError)"

text \<open>
  Comparisons of quantum states: the fidelity of qubits with a state, the norm of a difference of density
  matrices and the density matrix of qubits are computed by NetSquid and numpy and are parameters. \<open>py_isclose\<close>
  is \<open>math.isclose\<close> with its default relative tolerance.
\<close>

definition py_isclose :: "real \<Rightarrow> real \<Rightarrow> real \<Rightarrow> bool" where
  "py_isclose a b abs_tol \<longleftrightarrow> \<bar>a - b\<bar> \<le> max (1 / 10 ^ 9 * max \<bar>a\<bar> \<bar>b\<bar>) abs_tol"

definition has_state :: "('p \<Rightarrow> 's \<Rightarrow> real) \<Rightarrow> 'p \<Rightarrow> 's \<Rightarrow> real \<Rightarrow> bool" where
  "has_state squared_fidelity qubit state margin = py_isclose 1 (squared_fidelity qubit state) margin"

definition has_multi_state :: "('p list \<Rightarrow> 's \<Rightarrow> real) \<Rightarrow> 'p list \<Rightarrow> 's \<Rightarrow> real \<Rightarrow> bool" where
  "has_multi_state squared_fidelity qubits state margin = py_isclose 1 (squared_fidelity qubits state) margin"

type_synonym matrix = "complex list list"

definition one_max_mixed :: matrix where
  "one_max_mixed = [[1 / 2, 0], [0, 1 / 2]]"

definition two_max_mixed :: matrix where
  "two_max_mixed = [[1 / 4, 0, 0, 0], [0, 1 / 4, 0, 0], [0, 0, 1 / 4, 0], [0, 0, 0, 1 / 4]]"

definition density_matrices_equal :: "('s \<Rightarrow> 's \<Rightarrow> real) \<Rightarrow> 's \<Rightarrow> 's \<Rightarrow> real \<Rightarrow> bool" where
  "density_matrices_equal norm1_of_difference state1 state2 margin =
     py_isclose 0 (norm1_of_difference state1 state2 / 2) margin"

definition has_max_mixed_state ::
    "(matrix \<Rightarrow> matrix \<Rightarrow> real) \<Rightarrow> ('p \<Rightarrow> matrix) \<Rightarrow> 'p \<Rightarrow> real \<Rightarrow> bool" where
  "has_max_mixed_state norm1_of_difference reduced_dm qubit margin =
     density_matrices_equal norm1_of_difference (reduced_dm qubit) one_max_mixed margin"

definition has_max_mixed_two_qubit_state ::
    "(matrix \<Rightarrow> matrix \<Rightarrow> real) \<Rightarrow> ('p list \<Rightarrow> matrix) \<Rightarrow> 'p \<Rightarrow> 'p \<Rightarrow> real \<Rightarrow> bool" where
  "has_max_mixed_two_qubit_state norm1_of_difference reduced_dm q0 q1 margin =
     density_matrices_equal norm1_of_difference (reduced_dm [q0, q1]) two_max_mixed margin"

section \<open>Nodes\<close>

definition error_model_to_rate :: "error_model \<Rightarrow> (string, real) dict \<Rightarrow> real res" where
  "error_model_to_rate model kwargs =
     (if model = DepolarNoiseModel then dget kwargs ''depolar_rate''
      else if model = T1T2NoiseModel then dget kwargs ''T1''
      else Inl RuntimeError)"

definition qubit_info_to_ehi :: "lhi_qubit_info \<Rightarrow> ehi_qubit_info res" where
  "qubit_info_to_ehi info =
     rbind (error_model_to_rate (lq_error_model info) (lq_error_model_kwargs info)) (\<lambda>rate.
     Inr \<lparr>eq_is_communication = lq_is_communication info, eq_decoherence_rate = rate\<rparr>)"

definition gate_info_to_ehi :: "ntf_interface \<Rightarrow> lhi_gate_info \<Rightarrow> ehi_gate_info res" where
  "gate_info_to_ehi ntf info =
     rbind (native_to_netqasm ntf (lg_instruction info)) (\<lambda>instrs.
     rbind (py_nth instrs 0) (\<lambda>instr.
     rbind (error_model_to_rate (lg_error_model info) (lg_error_model_kwargs info)) (\<lambda>decoherence.
     Inr \<lparr>eg_instruction = instr, eg_duration = lg_duration info, eg_decoherence = decoherence\<rparr>)))"

text \<open>\<open>{k: f(v) for (k, v) in d.items()}\<close>\<close>

definition rdmap :: "('v \<Rightarrow> 'w res) \<Rightarrow> ('k, 'v) dict \<Rightarrow> ('k, 'w) dict res" where
  "rdmap f d = rmap (\<lambda>(k, v). rbind (f v) (\<lambda>w. Inr (k, w))) d"

definition latencies_to_ehi :: "lhi_latencies \<Rightarrow> ehi_latencies" where
  "latencies_to_ehi l =
     \<lparr>host_instr_time = ll_host_instr_time l, qnos_instr_time = ll_qnos_instr_time l,
      host_peer_latency = ll_host_peer_latency l,
      internal_sched_latency = ll_internal_sched_latency l\<rparr>"

definition to_ehi :: "lhi_topology \<Rightarrow> ntf_interface \<Rightarrow> lhi_latencies option \<Rightarrow> ehi_node_info res" where
  "to_ehi topology ntf lat =
     (let latencies = (case lat of None \<Rightarrow> lhi_latencies_zero | Some l \<Rightarrow> l) in
      rbind (rdmap qubit_info_to_ehi (lt_qubit_infos topology)) (\<lambda>qubit_infos.
      rbind (rdmap (rmap (gate_info_to_ehi ntf)) (lt_single_gate_infos topology)) (\<lambda>single.
      rbind (rdmap (rmap (gate_info_to_ehi ntf)) (lt_multi_gate_infos topology)) (\<lambda>multi.
      Inr \<lparr>en_qubit_infos = qubit_infos, en_flavour = ntf_flavour ntf,
           en_single_gate_infos = single, en_multi_gate_infos = multi,
           en_latencies = latencies_to_ehi latencies\<rparr>))))"

section \<open>Links and networks\<close>

definition link_info_to_ehi :: "lhi_link_info \<Rightarrow> ehi_link_info res" where
  "link_info_to_ehi info =
     (if lk_sampler_factory info = PerfectStateSamplerFactory then
        Inr \<lparr>el_duration = lk_state_delay info, el_fidelity = 1\<rparr>
      else if lk_sampler_factory info = DepolariseWithFailureStateSamplerFactory then
        rbind (dget (lk_sampler_kwargs info) ''cycle_time'') (\<lambda>cycle_time.
        rbind (dget (lk_sampler_kwargs info) ''prob_success'') (\<lambda>prob_success.
        rbind (ensure (prob_success \<noteq> 0) ZeroDivisionError) (\<lambda>_.
        rbind (dget (lk_sampler_kwargs info) ''prob_max_mixed'') (\<lambda>prob_max_mixed.
        rbind (prob_max_mixed_to_fidelity 2 prob_max_mixed) (\<lambda>fidelity.
        Inr \<lparr>el_duration = cycle_time / prob_success + lk_state_delay info,
             el_fidelity = fidelity\<rparr>)))))
      else Inl NotImplementedError)"

definition network_to_ehi :: "lhi_network_info \<Rightarrow> ehi_network_info res" where
  "network_to_ehi info =
     rbind (rmap (\<lambda>(nodes, link).
       rbind (ensure (card nodes = 2) ValueError) (\<lambda>_.
       rbind (link_info_to_ehi link) (\<lambda>l. Inr (nodes, l)))) (ln_links info)) (\<lambda>links.
     Inr \<lparr>ni_nodes = ln_nodes info, ni_links = dict_of links\<rparr>)"

definition timebin_to_ehi :: "lhi_network_timebin \<Rightarrow> network_timebin" where
  "timebin_to_ehi b = \<lparr>tb_nodes = lb_nodes b, tb_pids = lb_pids b\<rparr>"

definition netschedule_to_ehi :: "lhi_network_schedule \<Rightarrow> network_schedule" where
  "netschedule_to_ehi s =
     \<lparr>ns_bin_length = lhs_bin_length s, ns_first_bin = lhs_first_bin s,
      ns_bin_pattern = map timebin_to_ehi (lhs_bin_pattern s),
      ns_repeat_period = lhs_repeat_period s\<rparr>"

section \<open>The conversion commutes with the builders\<close>

lemma rdmap_keys: "rdmap f d = Inr e \<Longrightarrow> keys e = keys d"
  unfolding rdmap_def by (induction d arbitrary: e) auto

lemma rdmap_map_of:
  "rdmap f d = Inr e \<Longrightarrow> map_of d k = Some v \<Longrightarrow> \<exists>w. f v = Inr w \<and> map_of e k = Some w"
  unfolding rdmap_def by (induction d arbitrary: e) (auto split: if_splits)

lemma rdmap_const:
  "f x = Inr y \<Longrightarrow> rdmap f (map (\<lambda>i. (g i, x)) is') = Inr (map (\<lambda>i. (g i, y)) is')"
  unfolding rdmap_def by (induction is') auto

lemma rdmap_star:
  "f c = Inr c' \<Longrightarrow> f m = Inr m' \<Longrightarrow> rdmap f (star_dict n c m) = Inr (star_dict n c' m')"
  using rdmap_const [of f m m' "\<lambda>i. i" "[1..n - 1]"] by (simp add: star_dict_def rdmap_def)

lemma rdmap_uniform: "f x = Inr y \<Longrightarrow> rdmap f (uniform_dict n x) = Inr (uniform_dict n y)"
  by (simp add: uniform_dict_def rdmap_const)

lemma rdmap_spokes: "f x = Inr y \<Longrightarrow> rdmap f (spokes_dict n x) = Inr (spokes_dict n y)"
  by (simp add: spokes_dict_def rdmap_const)

lemma rdmap_pairs: "f x = Inr y \<Longrightarrow> rdmap f (pairs_dict n x) = Inr (pairs_dict n y)"
  using rdmap_const [of f x y "\<lambda>(i, j). MultiQubit [i, j]" "all_pairs n"]
  by (simp add: pairs_dict_def split_def)

lemma t1t2_to_ehi: "qubit_info_to_ehi (t1t2_qubit c t1 t2) = Inr (decoherence_qubit c t1)"
  by (simp add: qubit_info_to_ehi_def t1t2_qubit_def error_model_to_rate_def dget_def
      decoherence_qubit_def)

lemma depolar_to_ehi:
  assumes "rmap (\<lambda>i. rbind (native_to_netqasm ntf i) (\<lambda>ts. py_nth ts 0)) instrs = Inr ts"
  shows "rmap (gate_info_to_ehi ntf) (depolar_gates d instrs r) = Inr (decoherence_gates d ts r)"
  using assms
  by (induction instrs arbitrary: ts)
    (auto simp: depolar_gates_def decoherence_gates_def gate_info_to_ehi_def
      error_model_to_rate_def dget_Some)

text \<open>The NetQASM instructions a list of native ones translates to.\<close>

definition translated :: "ntf_interface \<Rightarrow> ns_instr list \<Rightarrow> nq_type list res" where
  "translated ntf instrs = rmap (\<lambda>i. rbind (native_to_netqasm ntf i) (\<lambda>ts. py_nth ts 0)) instrs"

lemmas gates_to_ehi = depolar_to_ehi [folded translated_def]

text \<open>C30: Converting the low-level description of a star-shaped node gives the exposed description
of a star-shaped node with the same qubits, communication flags and durations, each native
instruction translated and each gate's depolarising rate kept; this holds for the star with noise
and for the perfect star. As the code has it, the T1 of a qubit, which is a time, ends up in the field
that the exposed description calls a decoherence rate, and its T2 is dropped.\<close>

theorem star_to_ehi:
  assumes "translated ntf comm_instrs = Inr cs" "translated ntf mem_instrs = Inr ms"
    and "translated ntf two_instrs = Inr ts"
  shows "to_ehi (lhi_generic_t1t2_star n comm_t1 comm_t2 mem_t1 mem_t2 comm_instrs comm_dur comm_depolar
         mem_instrs mem_dur mem_depolar two_instrs two_dur two_depolar) ntf (Some lat) =
       Inr (generic_t1t2_star n (ntf_flavour ntf) comm_t1 mem_t1 cs comm_dur comm_depolar
         ms mem_dur mem_depolar ts two_dur two_depolar (Some (latencies_to_ehi lat))) \<and>
    to_ehi (lhi_perfect_star n comm_instrs comm_dur mem_instrs mem_dur two_instrs two_dur) ntf (Some lat) =
       Inr (perfect_star n (ntf_flavour ntf) cs comm_dur ms mem_dur ts two_dur (Some (latencies_to_ehi lat)))"
  using assms
  by (simp add: to_ehi_def lhi_generic_t1t2_star_def generic_t1t2_star_def default_latencies_def
      lhi_perfect_star_def perfect_star_def lhi_perfect_qubit_def perfect_qubit_def lhi_perfect_gates_def
      perfect_gates_def rdmap_star rdmap_spokes t1t2_to_ehi gates_to_ehi)

lemma generic_translated:
  "translated generic_ntf [INSTR_INIT, INSTR_ROT_X, INSTR_MEASURE] =
     Inr [TInit, TRotation VanillaRotX, TMeas]"
  "translated generic_ntf [INSTR_CNOT] = Inr [TTwo Cnot]"
  by (simp_all add: translated_def generic_ntf_def generic_maps_eval dget_def py_nth_def py_index_def)

theorem star_to_ehi_witness:
  "to_ehi (lhi_generic_t1t2_star 3 5 4 9 8 [INSTR_INIT, INSTR_ROT_X, INSTR_MEASURE] 10 0
       [INSTR_INIT, INSTR_ROT_X, INSTR_MEASURE] 20 0 [INSTR_CNOT] 30 0) generic_ntf (Some lhi_latencies_zero) =
    Inr (generic_t1t2_star 3 VanillaFlavour 5 9 [TInit, TRotation VanillaRotX, TMeas] 10 0
       [TInit, TRotation VanillaRotX, TMeas] 20 0 [TTwo Cnot] 30 0
       (Some (latencies_to_ehi lhi_latencies_zero))) \<and>
   to_ehi (lhi_perfect_star 3 [INSTR_INIT, INSTR_ROT_X, INSTR_MEASURE] 10
       [INSTR_INIT, INSTR_ROT_X, INSTR_MEASURE] 20 [INSTR_CNOT] 30) generic_ntf (Some lhi_latencies_zero) =
    Inr (perfect_star 3 VanillaFlavour [TInit, TRotation VanillaRotX, TMeas] 10
       [TInit, TRotation VanillaRotX, TMeas] 20 [TTwo Cnot] 30 (Some (latencies_to_ehi lhi_latencies_zero)))"
  using star_to_ehi [OF generic_translated(1,1,2), of 3 5 4 9 8 10 0 20 0 30 0 lhi_latencies_zero]
  by (simp add: generic_ntf_def)

text \<open>Every conversion keeps the qubits: the exposed node has the same qubit IDs in the same
order, its unit module says of each qubit what the low-level description says, and the gates of
each qubit are the translated gates in the same order, with their durations.\<close>

theorem to_ehi_faithful:
  assumes "to_ehi topology ntf lat = Inr e"
  shows "get_all_qubit_ids (from_full_ehi e) = keys (lt_qubit_infos topology) \<and>
    (\<forall>q info. map_of (lt_qubit_infos topology) q = Some info \<longrightarrow>
       is_communication (from_full_ehi e) q = Inr (lq_is_communication info)) \<and>
    (\<forall>q gates. map_of (lt_single_gate_infos topology) q = Some gates \<longrightarrow>
       (\<exists>gs. map_of (en_single_gate_infos e) q = Some gs \<and>
          map eg_duration gs = map lg_duration gates \<and>
          translated ntf (map lg_instruction gates) = Inr (map eg_instruction gs)))"
proof -
  from assms obtain qs ss ms where qs: "rdmap qubit_info_to_ehi (lt_qubit_infos topology) = Inr qs"
    and ss: "rdmap (rmap (gate_info_to_ehi ntf)) (lt_single_gate_infos topology) = Inr ss"
    and e: "en_qubit_infos e = qs" "en_single_gate_infos e = ss"
    by (auto simp: to_ehi_def Let_def)
  have "is_communication (from_full_ehi e) q = Inr (lq_is_communication info)"
    if q: "map_of (lt_qubit_infos topology) q = Some info" for q info
  proof -
    from rdmap_map_of [OF qs q] obtain w where "qubit_info_to_ehi info = Inr w" "map_of qs q = Some w"
      by blast
    then show ?thesis
      by (auto simp: is_communication_def from_full_ehi_def e qubit_info_to_ehi_def dget_Some)
  qed
  moreover have g: "map eg_duration gs = map lg_duration gates \<and>
      translated ntf (map lg_instruction gates) = Inr (map eg_instruction gs)"
    if "rmap (gate_info_to_ehi ntf) gates = Inr gs" for gates gs
    using that by (induction gates arbitrary: gs) (auto simp: translated_def gate_info_to_ehi_def)
  moreover have "\<exists>gs. map_of ss q = Some gs \<and> map eg_duration gs = map lg_duration gates \<and>
      translated ntf (map lg_instruction gates) = Inr (map eg_instruction gs)"
    if "map_of (lt_single_gate_infos topology) q = Some gates" for q gates
    using rdmap_map_of [OF ss that] g by blast
  ultimately show ?thesis
    using rdmap_keys [OF qs] by (simp add: get_all_qubit_ids_def from_full_ehi_def e)
qed

theorem to_ehi_faithful_witness:
  "\<exists>e. to_ehi (perfect_uniform_default_gates 2) generic_ntf None = Inr e \<and>
     get_all_qubit_ids (from_full_ehi e) = [0, 1]"
proof -
  let ?t = "perfect_uniform_default_gates 2"
  have "translated generic_ntf [INSTR_INIT, INSTR_X, INSTR_Y, INSTR_Z, INSTR_H, INSTR_ROT_X,
      INSTR_ROT_Y, INSTR_ROT_Z, INSTR_MEASURE, INSTR_MEASURE_INSTANT] =
    Inr [TInit, TSingle GateX, TSingle GateY, TSingle GateZ, TSingle GateH, TRotation VanillaRotX,
      TRotation VanillaRotY, TRotation VanillaRotZ, TMeas, TMeas]"
    "translated generic_ntf [INSTR_CNOT, INSTR_CZ] = Inr [TTwo Cnot, TTwo Cphase]"
    by (simp_all add: translated_def generic_ntf_def generic_maps_eval dget_def py_nth_def py_index_def)
  then obtain e where e: "to_ehi ?t generic_ntf None = Inr e"
    by (simp add: to_ehi_def perfect_uniform_default_gates_def lhi_perfect_uniform_def
        lhi_fully_uniform_def lhi_perfect_gates_def lhi_perfect_qubit_def rdmap_uniform rdmap_pairs
        t1t2_to_ehi gates_to_ehi)
  moreover have "keys (lt_qubit_infos ?t) = [0, 1]"
    by (simp add: perfect_uniform_default_gates_def lhi_perfect_uniform_def lhi_fully_uniform_def
        uniform_dict_def upto.simps)
  ultimately show ?thesis using to_ehi_faithful [OF e] by metis
qed

lemma fidelity_inverse:
  "fidelity_to_prob_max_mixed n f = Inr p \<longleftrightarrow> prob_max_mixed_to_fidelity n p = Inr f"
  by (auto simp: fidelity_to_prob_max_mixed_def prob_max_mixed_to_fidelity_def field_simps)

end
