(* ===== verification/EntDist.thy ===== *)
theory EntDist
  imports QnosProc NetSchedule LhiToEhi
begin

text \<open>
  The entanglement distributor (\<open>qoala/sim/entdist/entdist.py\<close>,
  \<open>qoala/sim/entdist/entdistinterface.py\<close>): it collects the requests of the nodes in one queue
  per node, matches two opposite requests to a joint request, and serves it by putting the two
  halves of an entangled pair into the memories of both nodes and answering both.
\<close>

section \<open>State\<close>

text \<open>
  What the distributor takes from other packages: the samplers that produce states and durations,
  and the effect of putting the two qubits of a state into two memory positions. All randomness
  and all quantum states are in the world \<open>'w\<close>.
\<close>

record 'st delivery_sample =
  ds_state :: 'st
  ds_num_qubits :: nat
  ds_duration :: real

record ('s, 'st, 'w) physics =
  ph_create :: "sampler_factory \<Rightarrow> (string, real) dict \<Rightarrow> 's"
  ph_sample :: "'s \<Rightarrow> 'w \<Rightarrow> 'st delivery_sample \<times> 'w"
  ph_put :: "'st \<Rightarrow> int \<times> int \<Rightarrow> int \<times> int \<Rightarrow> 'w \<Rightarrow> 'w"

record joint_request =
  jr_node1_id :: int
  jr_node2_id :: int
  jr_node1_qubit_id :: "int option"
  jr_node2_qubit_id :: "int option"
  jr_node1_pid :: int
  jr_node2_pid :: int

record 's delayed_sampler =
  dl_sampler :: 's
  dl_delay :: real

text \<open>\<open>ed_memories\<close> has the \<open>in_use\<close> flag of every memory position of every node.\<close>

record ('s, 'w) entdist =
  ed_network :: ehi_network_info
  ed_netschedule :: "network_schedule option"
  ed_memories :: "(int, bool list) dict"
  ed_samplers :: "(int set, 's delayed_sampler) dict"
  ed_requests :: "(int, entdist_request list) dict"
  ed_inbox :: "entdist_request inbox"
  ed_sent :: "(string \<times> int option message) list"
  ed_world :: 'w

section \<open>Requests\<close>

definition is_opposite :: "entdist_request \<Rightarrow> entdist_request \<Rightarrow> bool" where
  "is_opposite r q \<longleftrightarrow> er_local_node_id r = er_remote_node_id q \<and>
     er_remote_node_id r = er_local_node_id q \<and>
     er_local_pid r = er_remote_pid q \<and> er_remote_pid r = er_local_pid q"

definition matches_timebin :: "entdist_request \<Rightarrow> network_timebin \<Rightarrow> bool res" where
  "matches_timebin r b =
     (if {er_local_node_id r, er_remote_node_id r} \<noteq> tb_nodes b then Inr False
      else rbind (dget (tb_pids b) (er_local_node_id r)) (\<lambda>p.
           if p \<noteq> er_local_pid r then Inr False
           else rbind (dget (tb_pids b) (er_remote_node_id r)) (\<lambda>q. Inr (q = er_remote_pid r))))"

definition clear_requests :: "('s, 'w) entdist \<Rightarrow> ('s, 'w) entdist" where
  "clear_requests e = e\<lparr>ed_requests := map (\<lambda>n. (n, [])) (keys (ed_memories e))\<rparr>"

definition put_request :: "entdist_request \<Rightarrow> ('s, 'w) entdist \<Rightarrow> ('s, 'w) entdist res" where
  "put_request r e =
     rbind (ensure (dhas (ed_memories e) (er_local_node_id r)) ValueError) (\<lambda>_.
     rbind (ensure (dhas (ed_memories e) (er_remote_node_id r)) ValueError) (\<lambda>_.
     rbind (ensure (er_remote_node_id r \<noteq> er_local_node_id r) ValueError) (\<lambda>_.
     rbind (dget (ed_requests e) (er_local_node_id r)) (\<lambda>rs.
     Inr (e\<lparr>ed_requests := dset (er_local_node_id r) (rs @ [r]) (ed_requests e)\<rparr>)))))"

definition get_requests :: "int \<Rightarrow> ('s, 'w) entdist \<Rightarrow> entdist_request list res" where
  "get_requests n e = dget (ed_requests e) n"

text \<open>\<open>xs.pop(i)\<close>\<close>

definition list_pop :: "'a list \<Rightarrow> int \<Rightarrow> ('a \<times> 'a list) res" where
  "list_pop xs i = rbind (py_index xs i) (\<lambda>j. Inr (xs ! j, take j xs @ drop (Suc j) xs))"

definition pop_request :: "int \<Rightarrow> int \<Rightarrow> ('s, 'w) entdist \<Rightarrow> (entdist_request \<times> ('s, 'w) entdist) res" where
  "pop_request n i e =
     rbind (dget (ed_requests e) n) (\<lambda>rs.
     rbind (list_pop rs i) (\<lambda>(r, rs').
     Inr (r, e\<lparr>ed_requests := dset n rs' (ed_requests e)\<rparr>)))"

text \<open>The index of the first opposite request in the queue of the remote node.\<close>

definition get_remote_request_for ::
    "entdist_request \<Rightarrow> (int, entdist_request list) dict \<Rightarrow> int option res" where
  "get_remote_request_for r reqs =
     (case map_of reqs (er_remote_node_id r) of
        None \<Rightarrow> Inl ValueError
      | Some qs \<Rightarrow> Inr (map_option int (find_index (is_opposite r) qs)))"

definition joint_of :: "entdist_request \<Rightarrow> entdist_request \<Rightarrow> joint_request" where
  "joint_of r q = \<lparr>jr_node1_id = er_local_node_id r, jr_node2_id = er_local_node_id q,
     jr_node1_qubit_id = er_local_qubit_id r, jr_node2_qubit_id = er_local_qubit_id q,
     jr_node1_pid = er_local_pid r, jr_node2_pid = er_remote_pid r\<rparr>"

text \<open>The loop over the queues: the first request of a queue, taken out and put back.\<close>

fun next_joint ::
    "int list \<Rightarrow> (int, entdist_request list) dict \<Rightarrow> (joint_request option \<times> (int, entdist_request list) dict) res" where
  "next_joint [] reqs = Inr (None, reqs)"
| "next_joint (n # ns) reqs =
     rbind (dget reqs n) (\<lambda>local_requests.
     case local_requests of
       [] \<Rightarrow> next_joint ns reqs
     | r # rest \<Rightarrow>
         let reqs1 = dset n rest reqs in
         rbind (get_remote_request_for r reqs1) (\<lambda>remote.
         case remote of
           None \<Rightarrow> next_joint ns (dset n (r # rest) reqs1)
         | Some i \<Rightarrow>
             rbind (dget reqs1 (er_remote_node_id r)) (\<lambda>qs.
             rbind (list_pop qs i) (\<lambda>(q, qs').
             Inr (Some (joint_of r q), dset (er_remote_node_id r) qs' reqs1)))))"

definition get_next_joint_request ::
    "('s, 'w) entdist \<Rightarrow> (joint_request option \<times> ('s, 'w) entdist) res" where
  "get_next_joint_request e =
     rbind (next_joint (keys (ed_requests e)) (ed_requests e)) (\<lambda>(j, reqs).
     Inr (j, e\<lparr>ed_requests := reqs\<rparr>))"

section \<open>Samplers and delivery\<close>

definition add_sampler_kw ::
    "('s, 'st, 'w) physics \<Rightarrow> int \<Rightarrow> int \<Rightarrow> sampler_factory \<Rightarrow> (string, real) dict \<Rightarrow> real \<Rightarrow>
     ('s, 'w) entdist \<Rightarrow> ('s, 'w) entdist res" where
  "add_sampler_kw ph n1 n2 factory kwargs delay e =
     rbind (ensure (\<not> dhas (ed_samplers e) {n1, n2}) ValueError) (\<lambda>_.
     Inr (e\<lparr>ed_samplers := dset {n1, n2} \<lparr>dl_sampler = ph_create ph factory kwargs, dl_delay = delay\<rparr>
       (ed_samplers e)\<rparr>))"

definition add_sampler ::
    "('s, 'st, 'w) physics \<Rightarrow> int \<Rightarrow> int \<Rightarrow> lhi_link_info \<Rightarrow> ('s, 'w) entdist \<Rightarrow> ('s, 'w) entdist res" where
  "add_sampler ph n1 n2 info =
     add_sampler_kw ph n1 n2 (lk_sampler_factory info) (lk_sampler_kwargs info) (lk_state_delay info)"

definition get_sampler :: "int \<Rightarrow> int \<Rightarrow> ('s, 'w) entdist \<Rightarrow> 's delayed_sampler res" where
  "get_sampler n1 n2 e =
     (case map_of (ed_samplers e) {n1, n2} of None \<Rightarrow> Inl ValueError | Some d \<Rightarrow> Inr d)"

text \<open>\<open>sample_state\<close> and \<open>from_ns_magic_delivery_sample\<close>\<close>

definition sample_state ::
    "('s, 'st, 'w) physics \<Rightarrow> 's \<Rightarrow> 'w \<Rightarrow> ('st delivery_sample \<times> 'w) res" where
  "sample_state ph smp w =
     (let (d, w') = ph_sample ph smp w in
      rbind (py_assert (ds_num_qubits d = 2)) (\<lambda>_. Inr (d, w')))"

text \<open>The check that a memory position exists; without a position the comparison raises.\<close>

definition check_position :: "int option \<Rightarrow> bool list \<Rightarrow> int res" where
  "check_position q mem =
     (case q of
        None \<Rightarrow> Inl TypeError
      | Some i \<Rightarrow> rbind (ensure (0 \<le> i \<and> i < int (length mem)) ValueError) (\<lambda>_. Inr i))"

definition set_in_use :: "int \<Rightarrow> int \<Rightarrow> ('s, 'w) entdist \<Rightarrow> ('s, 'w) entdist" where
  "set_in_use n i e = (case map_of (ed_memories e) n of
     None \<Rightarrow> e | Some mem \<Rightarrow> e\<lparr>ed_memories := dset n (mem[nat i := True]) (ed_memories e)\<rparr>)"

definition ed_wait :: "real \<Rightarrow> ('s, 'w) entdist \<Rightarrow> ('s, 'w) entdist" where
  "ed_wait d e = e\<lparr>ed_inbox := ib_wait d (ed_inbox e)\<rparr>"

text \<open>\<open>remote_id_to_peer_name\<close> and \<open>send_node_msg\<close>; the ports are those of the listeners.\<close>

definition ed_peer_name :: "int \<Rightarrow> ('s, 'w) entdist \<Rightarrow> string res" where
  "ed_peer_name n e = dget (ni_nodes (ed_network e)) n"

definition node_listener :: "string \<Rightarrow> string" where
  "node_listener name = ''node_'' @ name"

definition send_node_msg :: "string \<Rightarrow> int option \<Rightarrow> ('s, 'w) entdist \<Rightarrow> ('s, 'w) entdist res" where
  "send_node_msg name c e =
     rbind (ensure (dhas (ib_listeners (ed_inbox e)) (node_listener name)) KeyError) (\<lambda>_.
     Inr (e\<lparr>ed_sent := ed_sent e @ [(name, \<lparr>src_pid = - 1, dst_pid = - 1, content = c\<rparr>)]\<rparr>))"

definition ed_deliver :: "('s, 'st, 'w) physics \<Rightarrow> joint_request \<Rightarrow> ('s, 'w) entdist \<Rightarrow> ('s, 'w) entdist res" where
  "ed_deliver ph j e =
     rbind (get_sampler (jr_node1_id j) (jr_node2_id j) e) (\<lambda>timed.
     rbind (sample_state ph (dl_sampler timed) (ed_world e)) (\<lambda>(sample, w).
     let e0 = e\<lparr>ed_world := w\<rparr>; total_delay = ds_duration sample + dl_delay timed in
     rbind (dget (ed_memories e0) (jr_node1_id j)) (\<lambda>mem1.
     rbind (dget (ed_memories e0) (jr_node2_id j)) (\<lambda>mem2.
     rbind (check_position (jr_node1_qubit_id j) mem1) (\<lambda>q1.
     rbind (check_position (jr_node2_qubit_id j) mem2) (\<lambda>q2.
     let e1 = set_in_use (jr_node2_id j) q2 (set_in_use (jr_node1_id j) q1 e0);
         e2 = ed_wait total_delay e1;
         e3 = e2\<lparr>ed_world := ph_put ph (ds_state sample) (jr_node1_id j, q1) (jr_node2_id j, q2) (ed_world e2)\<rparr> in
     rbind (ed_peer_name (jr_node1_id j) e3) (\<lambda>node1.
     rbind (ed_peer_name (jr_node2_id j) e3) (\<lambda>node2.
     rbind (send_node_msg node1 (Some (jr_node1_pid j)) e3) (\<lambda>e4.
     send_node_msg node2 (Some (jr_node2_pid j)) e4)))))))))"

definition serve_request :: "('s, 'st, 'w) physics \<Rightarrow> joint_request \<Rightarrow> ('s, 'w) entdist \<Rightarrow> ('s, 'w) entdist res" where
  "serve_request ph j e = ed_deliver ph j e"

section \<open>The loops\<close>

definition total_requests :: "(int, entdist_request list) dict \<Rightarrow> nat" where
  "total_requests reqs = sum_list (map (length \<circ> snd) reqs)"

lemma total_requests_dset:
  "map_of reqs n = Some rs \<Longrightarrow> total_requests (dset n qs reqs) + length rs = total_requests reqs + length qs"
  by (induction reqs) (auto simp: total_requests_def split: if_splits)

lemma list_pop_length: "list_pop xs i = Inr (x, ys) \<Longrightarrow> length xs = Suc (length ys)"
  by (auto simp: list_pop_def py_index_def Let_def split: if_splits)

lemma next_joint_total:
  assumes "next_joint ns reqs = Inr (j, reqs')"
  shows "total_requests reqs' + (case j of None \<Rightarrow> 0 | Some _ \<Rightarrow> 2) = total_requests reqs"
  using assms
proof (induction ns reqs rule: next_joint.induct)
  case (2 n ns reqs)
  then obtain rs where rs: "map_of reqs n = Some rs" by (auto simp: dget_eq_Inr)
  show ?case
  proof (cases rs)
    case Nil
    with 2 rs show ?thesis by (simp add: dget_Some)
  next
    case (Cons r rest)
    let ?reqs1 = "dset n rest reqs"
    note t1 = total_requests_dset [OF rs, of rest]
    from 2(3) rs Cons obtain remote where rem: "get_remote_request_for r ?reqs1 = Inr remote"
      by (auto simp: dget_Some Let_def)
    show ?thesis
    proof (cases remote)
      case None
      with 2(2) [OF _ Cons refl rem None] 2(3) rs Cons rem
        total_requests_dset [of ?reqs1 n rest "r # rest"] t1
      show ?thesis by (simp add: dget_Some Let_def)
    next
      case (Some i)
      with 2(3) rs Cons rem obtain qs q qs' where q: "map_of ?reqs1 (er_remote_node_id r) = Some qs"
        "list_pop qs i = Inr (q, qs')" "j = Some (joint_of r q)" "reqs' = dset (er_remote_node_id r) qs' ?reqs1"
        by (auto simp: dget_Some dget_eq_Inr Let_def)
      with total_requests_dset [OF q(1), of qs'] list_pop_length [OF q(2)] t1 Cons show ?thesis by simp
    qed
  qed
qed auto

lemma get_next_joint_total:
  "get_next_joint_request e = Inr (Some j, e1) \<Longrightarrow> total_requests (ed_requests e1) < total_requests (ed_requests e)"
  by (auto simp: get_next_joint_request_def dest!: next_joint_total)

lemma set_in_use_frame [simp]:
  "ed_requests (set_in_use n i e) = ed_requests e" "ed_sent (set_in_use n i e) = ed_sent e"
  "ed_inbox (set_in_use n i e) = ed_inbox e" "ed_network (set_in_use n i e) = ed_network e"
  "ed_samplers (set_in_use n i e) = ed_samplers e" "ed_netschedule (set_in_use n i e) = ed_netschedule e"
  "keys (ed_memories (set_in_use n i e)) = keys (ed_memories e)"
  by (auto simp: set_in_use_def keys_dset_present split: option.split)

lemma ed_deliver_frame:
  assumes "ed_deliver ph j e = Inr e'"
  shows "ed_requests e' = ed_requests e" "ed_network e' = ed_network e" "ed_netschedule e' = ed_netschedule e"
    "keys (ed_memories e') = keys (ed_memories e)"
  using assms by (auto simp: ed_deliver_def Let_def send_node_msg_def ed_wait_def simp del: set_map)

text \<open>\<open>while (request := self.get_next_joint_request()) is not None\<close>: each round uses up two requests.\<close>

function serve_all_requests :: "('s, 'st, 'w) physics \<Rightarrow> ('s, 'w) entdist \<Rightarrow> ('s, 'w) entdist res" where
  "serve_all_requests ph e =
     rbind (get_next_joint_request e) (\<lambda>(j, e1).
     case j of
       None \<Rightarrow> Inr e1
     | Some request \<Rightarrow> rbind (serve_request ph request e1) (\<lambda>e2. serve_all_requests ph e2))"
  by pat_completeness auto
termination
  by (relation "measure (\<lambda>(ph, e). total_requests (ed_requests e))")
    (auto simp: serve_request_def ed_deliver_frame dest: get_next_joint_total)

declare serve_all_requests.simps [simp del]

abbreviation node_listeners :: "('s, 'w) entdist \<Rightarrow> string list" where
  "node_listeners e \<equiv> map node_listener (get_all_node_names (ed_network e))"

definition receive_msg :: "('s, 'w) entdist \<Rightarrow> (entdist_request message \<times> ('s, 'w) entdist) res" where
  "receive_msg e =
     rbind (wait_for_any (node_listeners e) (ed_inbox e)) (\<lambda>ib.
     rbind (ib_pop_any_source (node_listeners e) ib) (\<lambda>(m, ib').
     Inr (m, e\<lparr>ed_inbox := ib'\<rparr>)))"

definition ed_pop_all :: "('s, 'w) entdist \<Rightarrow> (entdist_request message list \<times> ('s, 'w) entdist) res" where
  "ed_pop_all e =
     rbind (ib_pop_all (node_listeners e) (ed_inbox e)) (\<lambda>(ms, ib). Inr (ms, e\<lparr>ed_inbox := ib\<rparr>))"

text \<open>One round of \<open>_run_without_netschedule\<close>.\<close>

definition plain_round :: "('s, 'st, 'w) physics \<Rightarrow> ('s, 'w) entdist \<Rightarrow> ('s, 'w) entdist res" where
  "plain_round ph e =
     rbind (receive_msg e) (\<lambda>(m, e1).
     rbind (put_request (content m) e1) (\<lambda>e2.
     serve_all_requests ph e2))"

text \<open>Queue the requests that fit the time slot; the nodes that have asked, in order.\<close>

definition queue_if_matching :: "network_timebin \<Rightarrow> entdist_request \<Rightarrow> ('s, 'w) entdist \<Rightarrow> ('s, 'w) entdist res" where
  "queue_if_matching slot r e =
     rbind (matches_timebin r slot) (\<lambda>ok. if ok then put_request r e else Inr e)"

text \<open>A negative answer to every node that has asked.\<close>

definition refuse :: "int \<Rightarrow> ('s, 'w) entdist \<Rightarrow> ('s, 'w) entdist res" where
  "refuse n e = rbind (ed_peer_name n e) (\<lambda>name. send_node_msg name None e)"

text \<open>The wait until the time slot; a slot in the past is an error.\<close>

definition wait_for_slot :: "real \<Rightarrow> real \<Rightarrow> ('s, 'w) entdist \<Rightarrow> ('s, 'w) entdist res" where
  "wait_for_slot next_slot_time now e =
     (if next_slot_time - now > 0 then Inr (ed_wait (next_slot_time - now + 1) e)
      else if next_slot_time - now < 0 then Inl RuntimeError
      else Inr e)"

text \<open>One round of \<open>_run_with_netschedule\<close>.\<close>

definition slot_round :: "('s, 'st, 'w) physics \<Rightarrow> ('s, 'w) entdist \<Rightarrow> ('s, 'w) entdist res" where
  "slot_round ph e =
     rbind (case ed_netschedule e of None \<Rightarrow> Inl AssertionError | Some sch \<Rightarrow> Inr sch) (\<lambda>sch.
     rbind (wait_for_any (node_listeners e) (ed_inbox e)) (\<lambda>ib.
     let e1 = e\<lparr>ed_inbox := ib\<rparr>; now = ib_now ib in
     rbind (next_bin sch now) (\<lambda>(next_slot_time, next_slot).
     rbind (wait_for_slot next_slot_time now e1) (\<lambda>e2.
     rbind (ed_pop_all e2) (\<lambda>(messages, e3).
     rbind (rfold (\<lambda>m. queue_if_matching next_slot (content m)) messages e3) (\<lambda>e4.
     let requesting_nodes = map (\<lambda>m. er_local_node_id (content m)) messages in
     rbind (get_next_joint_request e4) (\<lambda>(joint, e5).
     rbind (case joint of
              Some j \<Rightarrow> serve_request ph j e5
            | None \<Rightarrow> rfold refuse requesting_nodes e5) (\<lambda>e6.
     Inr (ed_wait 1 (clear_requests e6))))))))))"

text \<open>The first rounds of \<open>run\<close>, which never ends by itself.\<close>

fun run_rounds :: "nat \<Rightarrow> ('s, 'st, 'w) physics \<Rightarrow> ('s, 'w) entdist \<Rightarrow> ('s, 'w) entdist res" where
  "run_rounds 0 ph e = Inr e"
| "run_rounds (Suc n) ph e =
     rbind (if ed_netschedule e = None then plain_round ph e else slot_round ph e) (run_rounds n ph)"

end
