(* ===== verification/EntDistRun.thy ===== *)
theory EntDistRun
  imports EntDist "HOL-Library.Multiset"
begin

text \<open>
  What the distributor promises: requests are matched with opposite ones only, in the order of
  the queues; serving all requests ends, answers exactly the matched ones, and leaves no pair that
  could be matched; and what a time slot does to the requests it does not serve.
\<close>

section \<open>The queues\<close>

definition queues_ok :: "(int, entdist_request list) dict \<Rightarrow> bool" where
  "queues_ok reqs \<longleftrightarrow> (\<forall>n qs r. map_of reqs n = Some qs \<and> r \<in> set qs \<longrightarrow>
     er_local_node_id r = n \<and> er_remote_node_id r \<noteq> n \<and> er_remote_node_id r \<in> set (keys reqs))"

lemma queues_ok_put:
  assumes "queues_ok reqs" "map_of reqs n = Some qs" "set qs' \<subseteq> set qs"
  shows "queues_ok (dset n qs' reqs)"
  using assms by (fastforce simp: queues_ok_def keys_dset_present simp del: set_map)

text \<open>The head of a queue has nobody to be matched with.\<close>

definition unmatched_head :: "(int, entdist_request list) dict \<Rightarrow> int \<Rightarrow> bool" where
  "unmatched_head reqs n \<longleftrightarrow> (\<forall>r rest. map_of reqs n = Some (r # rest) \<longrightarrow>
     (\<forall>q \<in> set (the (map_of reqs (er_remote_node_id r))). \<not> is_opposite r q))"

lemma find_index_split:
  assumes "find_index P qs = Some i"
  shows "qs = take i qs @ qs ! i # drop (Suc i) qs" "P (qs ! i)" "\<forall>q \<in> set (take i qs). \<not> P q"
    "list_pop qs (int i) = Inr (qs ! i, take i qs @ drop (Suc i) qs)"
  using find_index_Some [OF assms]
  by (auto simp: id_take_nth_drop [symmetric] in_set_conv_nth list_pop_def py_index_nonneg)

text \<open>The outcome of the search, as the specification: the queues before and after.\<close>

definition matched :: "(int, entdist_request list) dict \<Rightarrow> entdist_request \<Rightarrow> entdist_request \<Rightarrow>
    (int, entdist_request list) dict \<Rightarrow> bool" where
  "matched reqs r q reqs' \<longleftrightarrow> (\<exists>rest pre post.
     map_of reqs (er_local_node_id r) = Some (r # rest) \<and>
     map_of reqs (er_remote_node_id r) = Some (pre @ q # post) \<and>
     is_opposite r q \<and> (\<forall>p \<in> set pre. \<not> is_opposite r p) \<and>
     reqs' = dset (er_remote_node_id r) (pre @ post) (dset (er_local_node_id r) rest reqs))"

lemma next_joint_spec:
  assumes "queues_ok reqs" "set ns \<subseteq> set (keys reqs)"
  shows "(next_joint ns reqs = Inr (None, reqs) \<and> (\<forall>n \<in> set ns. unmatched_head reqs n)) \<or>
    (\<exists>r q reqs'. next_joint ns reqs = Inr (Some (joint_of r q), reqs') \<and> matched reqs r q reqs' \<and>
       er_local_node_id r \<in> set ns)"
  using assms
proof (induction ns)
  case (Cons n ns)
  then obtain qs where qs: "map_of reqs n = Some qs" using in_keys_map_of [of n reqs] by auto
  show ?case
  proof (cases qs)
    case Nil
    then have "unmatched_head reqs n" using qs by (simp add: unmatched_head_def)
    with Cons qs Nil show ?thesis by (auto simp: dget_Some)
  next
    case r: (Cons r rest)
    have local: "er_local_node_id r = n" "er_remote_node_id r \<noteq> n" "er_remote_node_id r \<in> set (keys reqs)"
      using Cons.prems(1) qs r unfolding queues_ok_def by (metis list.set_intros(1))+
    then obtain rs where rs: "map_of reqs (er_remote_node_id r) = Some rs" using in_keys_map_of by metis
    then have rem: "get_remote_request_for r (dset n rest reqs) =
        Inr (map_option int (find_index (is_opposite r) rs))"
      using local by (simp add: get_remote_request_for_def)
    show ?thesis
    proof (cases "find_index (is_opposite r) rs")
      case None
      then have "unmatched_head reqs n" using qs r rs find_index_None [of "is_opposite r" rs]
        by (auto simp: unmatched_head_def)
      moreover have "next_joint (n # ns) reqs = next_joint ns reqs"
        using qs r rem None by (simp add: dget_Some Let_def dset_dset dset_same)
      ultimately show ?thesis using Cons by auto
    next
      case (Some i)
      note sp = find_index_split [OF Some]
      let ?q = "rs ! i" and ?rs' = "take i rs @ drop (Suc i) rs"
      have "next_joint (n # ns) reqs = Inr (Some (joint_of r ?q),
          dset (er_remote_node_id r) ?rs' (dset n rest reqs))"
        using qs r rem Some rs sp(4) local by (simp add: dget_Some Let_def)
      moreover have "matched reqs r ?q (dset (er_remote_node_id r) ?rs' (dset n rest reqs))"
        unfolding matched_def local(1)
      proof (intro exI conjI)
        show "map_of reqs n = Some (r # rest)" using qs r by simp
        show "map_of reqs (er_remote_node_id r) = Some (take i rs @ ?q # drop (Suc i) rs)"
          by (subst sp(1) [symmetric]) (rule rs)
      qed (rule sp refl)+
      ultimately show ?thesis using local(1) by (metis list.set_intros(1))
    qed
  qed
qed simp

lemma matched_facts:
  assumes "matched reqs r q reqs'" "queues_ok reqs"
  shows "is_opposite r q" "queues_ok reqs'" "keys reqs' = keys reqs"
    "er_local_node_id q = er_remote_node_id r"
proof -
  from assms(1) obtain rest pre post where m:
    "map_of reqs (er_local_node_id r) = Some (r # rest)"
    "map_of reqs (er_remote_node_id r) = Some (pre @ q # post)" "is_opposite r q"
    "reqs' = dset (er_remote_node_id r) (pre @ post) (dset (er_local_node_id r) rest reqs)"
    by (auto simp: matched_def)
  show "is_opposite r q" by (rule m(3))
  then show "er_local_node_id q = er_remote_node_id r" by (simp add: is_opposite_def)
  have ne: "er_remote_node_id r \<noteq> er_local_node_id r"
    using assms(2) m(1) unfolding queues_ok_def by (metis list.set_intros(1))
  then have rem: "map_of (dset (er_local_node_id r) rest reqs) (er_remote_node_id r) = Some (pre @ q # post)"
    using m(2) by simp
  show "keys reqs' = keys reqs"
    using keys_dset_present [OF rem] keys_dset_present [OF m(1)] by (simp only: m(4))
  have "queues_ok (dset (er_local_node_id r) rest reqs)"
    by (rule queues_ok_put [OF assms(2) m(1)]) auto
  then show "queues_ok reqs'" unfolding m(4) by (rule queues_ok_put [OF _ rem]) auto
qed

text \<open>All requests of all queues, as a multiset.\<close>

definition all_requests :: "(int, entdist_request list) dict \<Rightarrow> entdist_request multiset" where
  "all_requests reqs = mset (concat (map snd reqs))"

lemma all_requests_dset:
  "map_of reqs n = Some qs \<Longrightarrow> all_requests (dset n qs' reqs) + mset qs = all_requests reqs + mset qs'"
  by (induction reqs) (auto simp: all_requests_def split: if_splits)

lemma matched_all:
  assumes "matched reqs r q reqs'" "queues_ok reqs"
  shows "all_requests reqs = all_requests reqs' + {#r, q#}"
proof -
  from assms(1) obtain rest pre post where m:
    "map_of reqs (er_local_node_id r) = Some (r # rest)"
    "map_of reqs (er_remote_node_id r) = Some (pre @ q # post)"
    "reqs' = dset (er_remote_node_id r) (pre @ post) (dset (er_local_node_id r) rest reqs)"
    by (auto simp: matched_def)
  have "er_remote_node_id r \<noteq> er_local_node_id r"
    using assms(2) m(1) unfolding queues_ok_def by (metis list.set_intros(1))
  then have "map_of (dset (er_local_node_id r) rest reqs) (er_remote_node_id r) = Some (pre @ q # post)"
    using m(2) by simp
  from all_requests_dset [OF this, of "pre @ post"] all_requests_dset [OF m(1), of rest]
  show ?thesis by (simp add: m(3))
qed

section \<open>Serving\<close>

text \<open>The answers for a matched pair: each node gets the process ID of its side.\<close>

definition answers :: "('s, 'w) entdist \<Rightarrow> entdist_request \<times> entdist_request \<Rightarrow> (string \<times> int option message) list" where
  "answers e p = (case p of (r, q) \<Rightarrow>
     [(the (map_of (ni_nodes (ed_network e)) (er_local_node_id r)),
       \<lparr>src_pid = - 1, dst_pid = - 1, content = Some (er_local_pid r)\<rparr>),
      (the (map_of (ni_nodes (ed_network e)) (er_local_node_id q)),
       \<lparr>src_pid = - 1, dst_pid = - 1, content = Some (er_local_pid q)\<rparr>)])"

lemma deliver_sent:
  assumes "serve_request ph (joint_of r q) e = Inr e'" "is_opposite r q"
  shows "ed_sent e' = ed_sent e @ answers e (r, q)"
  using assms
  by (auto simp: serve_request_def ed_deliver_def Let_def send_node_msg_def ed_wait_def ed_peer_name_def
      answers_def joint_of_def is_opposite_def)

lemma serve_frame:
  assumes "serve_request ph j e = Inr e'"
  shows "ed_requests e' = ed_requests e" "ed_network e' = ed_network e" "ed_netschedule e' = ed_netschedule e"
    "keys (ed_memories e') = keys (ed_memories e)"
  using ed_deliver_frame [of ph j e e'] assms by (simp_all add: serve_request_def del: set_map)

lemma get_next_joint_spec:
  assumes "queues_ok (ed_requests e)"
  obtains (none) "get_next_joint_request e = Inr (None, e)"
      "\<forall>n \<in> set (keys (ed_requests e)). unmatched_head (ed_requests e) n"
  | (some) r q reqs' where "get_next_joint_request e = Inr (Some (joint_of r q), e\<lparr>ed_requests := reqs'\<rparr>)"
      "matched (ed_requests e) r q reqs'"
  using next_joint_spec [OF assms order.refl]
  by (auto simp: get_next_joint_request_def)

lemma serve_all_effect:
  assumes "queues_ok (ed_requests e)" "serve_all_requests ph e = Inr e'"
  shows "\<exists>pairs. (\<forall>(r, q) \<in> set pairs. is_opposite r q) \<and>
    all_requests (ed_requests e) = all_requests (ed_requests e') + mset (map fst pairs) + mset (map snd pairs) \<and>
    ed_sent e' = ed_sent e @ concat (map (answers e) pairs) \<and>
    queues_ok (ed_requests e') \<and> ed_network e' = ed_network e \<and> ed_netschedule e' = ed_netschedule e \<and>
    keys (ed_requests e') = keys (ed_requests e) \<and> keys (ed_memories e') = keys (ed_memories e) \<and>
    (\<forall>n \<in> set (keys (ed_requests e')). unmatched_head (ed_requests e') n)"
  using assms
proof (induction ph e rule: serve_all_requests.induct)
  case (1 ph e)
  from "1.prems"(1) show ?case
  proof (cases rule: get_next_joint_spec)
    case none
    with "1.prems" have "e' = e" by (simp add: serve_all_requests.simps [of ph e])
    with none "1.prems" show ?thesis by (intro exI [of _ "[]"]) (simp del: set_map)
  next
    case (some r q reqs')
    let ?e1 = "e\<lparr>ed_requests := reqs'\<rparr>"
    note m = matched_facts [OF some(2) "1.prems"(1)]
    from "1.prems"(2) some(1) obtain e2 where e2: "serve_request ph (joint_of r q) ?e1 = Inr e2"
      and run: "serve_all_requests ph e2 = Inr e'" by (auto simp: serve_all_requests.simps [of ph e])
    note f = serve_frame [OF e2]
    have "queues_ok (ed_requests e2)" using m(2) f(1) by simp
    from "1.IH" [OF some(1) refl refl e2 this run] obtain pairs where
      p: "\<forall>(r, q) \<in> set pairs. is_opposite r q"
        "all_requests (ed_requests e2) = all_requests (ed_requests e') + mset (map fst pairs) + mset (map snd pairs)"
        "ed_sent e' = ed_sent e2 @ concat (map (answers e2) pairs)" "queues_ok (ed_requests e')"
        "ed_network e' = ed_network e2" "ed_netschedule e' = ed_netschedule e2"
        "keys (ed_requests e') = keys (ed_requests e2)" "keys (ed_memories e') = keys (ed_memories e2)"
        "\<forall>n \<in> set (keys (ed_requests e')). unmatched_head (ed_requests e') n" by blast
    have ans: "answers e2 = answers e" "answers ?e1 = answers e" using f(2) by (simp_all add: answers_def fun_eq_iff)
    have "ed_sent e' = ed_sent e @ concat (map (answers e) ((r, q) # pairs))"
      using deliver_sent [OF e2 m(1)] p(3) by (simp add: ans)
    moreover have "all_requests (ed_requests e) =
        all_requests (ed_requests e') + mset (map fst ((r, q) # pairs)) + mset (map snd ((r, q) # pairs))"
      using matched_all [OF some(2) "1.prems"(1)] p(2) f(1) by simp
    moreover have "\<forall>(r, q) \<in> set ((r, q) # pairs). is_opposite r q" using p(1) m(1) by auto
    moreover have "keys (ed_requests e') = keys (ed_requests e)" using p(7) f(1) m(3) by simp
    moreover have "ed_network e' = ed_network e" "ed_netschedule e' = ed_netschedule e"
      "keys (ed_memories e') = keys (ed_memories e)" using p(5,6,8) f by simp_all
    ultimately show ?thesis using p(4,9) by blast
  qed
qed

section \<open>Rounds\<close>

definition ed_inv :: "('s, 'w) entdist \<Rightarrow> bool" where
  "ed_inv e \<longleftrightarrow> queues_ok (ed_requests e) \<and> set (keys (ed_requests e)) = set (keys (ed_memories e))"

lemma put_request_effect:
  assumes "ed_inv e" "put_request r e = Inr e'"
  shows "ed_inv e'" "all_requests (ed_requests e') = all_requests (ed_requests e) + {#r#}"
    "ed_sent e' = ed_sent e" "ed_network e' = ed_network e" "ed_netschedule e' = ed_netschedule e"
    "ed_memories e' = ed_memories e"
proof -
  from assms(2) obtain rs where rs: "map_of (ed_requests e) (er_local_node_id r) = Some rs"
    and e': "e' = e\<lparr>ed_requests := dset (er_local_node_id r) (rs @ [r]) (ed_requests e)\<rparr>"
    and ok: "er_remote_node_id r \<noteq> er_local_node_id r" "er_remote_node_id r \<in> set (keys (ed_memories e))"
    by (auto simp: put_request_def dhas_iff)
  note k = keys_dset_present [OF rs, of "rs @ [r]"]
  have q: "queues_ok (ed_requests e)" and kk: "set (keys (ed_requests e)) = set (keys (ed_memories e))"
    using assms(1) unfolding ed_inv_def by blast+
  have "queues_ok (ed_requests e')"
    unfolding queues_ok_def e'
  proof (intro allI impI)
    fix n qs x
    assume a: "map_of (ed_requests (e\<lparr>ed_requests := dset (er_local_node_id r) (rs @ [r]) (ed_requests e)\<rparr>)) n = Some qs \<and> x \<in> set qs"
    then have "x = r \<and> n = er_local_node_id r \<or> (\<exists>qs. map_of (ed_requests e) n = Some qs \<and> x \<in> set qs)"
      using rs by (auto split: if_splits)
    then show "er_local_node_id x = n \<and> er_remote_node_id x \<noteq> n \<and> er_remote_node_id x \<in>
        set (keys (ed_requests (e\<lparr>ed_requests := dset (er_local_node_id r) (rs @ [r]) (ed_requests e)\<rparr>)))"
      using q ok kk k unfolding queues_ok_def by (auto simp del: set_map)
  qed
  then show "ed_inv e'" using k kk by (simp add: ed_inv_def e' del: set_map)
  show "all_requests (ed_requests e') = all_requests (ed_requests e) + {#r#}"
    using all_requests_dset [OF rs, of "rs @ [r]"] by (simp add: e')
  show "ed_sent e' = ed_sent e" "ed_network e' = ed_network e" "ed_netschedule e' = ed_netschedule e"
    "ed_memories e' = ed_memories e" by (simp_all add: e')
qed

lemma plain_round_inv:
  assumes "ed_inv e" "plain_round ph e = Inr e'"
  shows "ed_inv e'" "ed_netschedule e' = ed_netschedule e" "ed_network e' = ed_network e"
proof -
  from assms(2) obtain ib e2 and m :: "entdist_request message" where r: "put_request (content m) (e\<lparr>ed_inbox := ib\<rparr>) = Inr e2"
    "serve_all_requests ph e2 = Inr e'" by (auto simp: plain_round_def receive_msg_def)
  have "ed_inv (e\<lparr>ed_inbox := ib\<rparr>)" using assms(1) by (simp add: ed_inv_def del: set_map)
  note p = put_request_effect [OF this r(1)]
  then have q: "queues_ok (ed_requests e2)" by (simp add: ed_inv_def del: set_map)
  from serve_all_effect [OF this r(2)] p
  show "ed_inv e'" "ed_netschedule e' = ed_netschedule e" "ed_network e' = ed_network e"
    by (auto simp: ed_inv_def simp del: set_map)
qed

text \<open>The requests a time slot works on, and the ones among them that fit it.\<close>

definition slot_requests :: "('s, 'w) entdist \<Rightarrow> (entdist_request list \<times> network_timebin) res" where
  "slot_requests e =
     rbind (case ed_netschedule e of None \<Rightarrow> Inl AssertionError | Some sch \<Rightarrow> Inr sch) (\<lambda>sch.
     rbind (wait_for_any (node_listeners e) (ed_inbox e)) (\<lambda>ib.
     rbind (next_bin sch (ib_now ib)) (\<lambda>(next_slot_time, next_slot).
     rbind (wait_for_slot next_slot_time (ib_now ib) (e\<lparr>ed_inbox := ib\<rparr>)) (\<lambda>e2.
     rbind (ed_pop_all e2) (\<lambda>(messages, e3). Inr (map content messages, next_slot))))))"

lemma queue_effect:
  assumes "ed_inv e" "rfold (\<lambda>m. queue_if_matching slot (content m)) ms e = Inr e'"
  shows "ed_inv e' \<and> all_requests (ed_requests e') = all_requests (ed_requests e) +
      mset (filter (\<lambda>r. matches_timebin r slot = Inr True) (map content ms)) \<and>
    ed_sent e' = ed_sent e \<and> ed_network e' = ed_network e \<and> ed_netschedule e' = ed_netschedule e \<and>
    ed_memories e' = ed_memories e"
  using assms
proof (induction ms arbitrary: e)
  case (Cons m ms)
  from Cons.prems(2) obtain e1 where "queue_if_matching slot (content m) e = Inr e1"
    and fold: "rfold (\<lambda>m. queue_if_matching slot (content m)) ms e1 = Inr e'" by auto
  then obtain ok where m: "matches_timebin (content m) slot = Inr ok"
    "(if ok then put_request (content m) e else Inr e) = Inr e1" by (auto simp: queue_if_matching_def)
  note m = m fold
  show ?case
  proof (cases ok)
    case True
    with m have "put_request (content m) e = Inr e1" by simp
    note p = put_request_effect [OF Cons.prems(1) this]
    from Cons.IH [OF p(1) m(3)] p m(1) True show ?thesis by simp
  next
    case False
    with m Cons.IH [OF _ m(3)] Cons.prems(1) show ?thesis by simp
  qed
qed simp

lemma refuse_all:
  assumes "rfold refuse ns e = Inr e'"
  shows "ed_sent e' = ed_sent e @ map (\<lambda>n. (the (map_of (ni_nodes (ed_network e)) n),
      \<lparr>src_pid = - 1, dst_pid = - 1, content = None\<rparr>)) ns \<and>
    ed_requests e' = ed_requests e \<and> ed_network e' = ed_network e \<and> ed_netschedule e' = ed_netschedule e \<and>
    ed_memories e' = ed_memories e"
  using assms
proof (induction ns arbitrary: e)
  case (Cons n ns)
  then obtain e1 where "refuse n e = Inr e1" and fold: "rfold refuse ns e1 = Inr e'" by auto
  then obtain name where "map_of (ni_nodes (ed_network e)) n = Some name"
    "e1 = e\<lparr>ed_sent := ed_sent e @ [(name, \<lparr>src_pid = - 1, dst_pid = - 1, content = None\<rparr>)]\<rparr>"
    by (auto simp: refuse_def send_node_msg_def ed_peer_name_def)
  with fold Cons.IH [of e1] show ?case by simp
qed simp

lemma clear_requests_inv:
  "ed_inv (clear_requests e)" "map_of (ed_requests (clear_requests e)) n = Some qs \<Longrightarrow> qs = []"
proof -
  show empty: "qs = []" if "map_of (ed_requests (clear_requests e)) n = Some qs" for n qs
    using map_of_SomeD [OF that] by (auto simp: clear_requests_def)
  then show "ed_inv (clear_requests e)"
    by (fastforce simp: ed_inv_def queues_ok_def clear_requests_def comp_def)
qed

lemma slot_round_effect:
  assumes "ed_inv e" "all_requests (ed_requests e) = {#}" "slot_round ph e = Inr e'"
  shows "\<exists>reqs slot. slot_requests e = Inr (reqs, slot) \<and> ed_inv e' \<and> all_requests (ed_requests e') = {#} \<and>
    ed_network e' = ed_network e \<and> ed_netschedule e' = ed_netschedule e \<and>
    ((\<exists>r \<in> set reqs. \<exists>q \<in> set reqs. is_opposite r q \<and> matches_timebin r slot = Inr True \<and>
        matches_timebin q slot = Inr True \<and> ed_sent e' = ed_sent e @ answers e (r, q)) \<or>
     ed_sent e' = ed_sent e @ map (\<lambda>r. (the (map_of (ni_nodes (ed_network e)) (er_local_node_id r)),
        \<lparr>src_pid = - 1, dst_pid = - 1, content = None\<rparr>)) reqs)"
proof -
  obtain sch where sch: "ed_netschedule e = Some sch"
    using assms(3) by (cases "ed_netschedule e") (auto simp: slot_round_def)
  with assms(3) obtain ib t slot e2 e3 e4 joint e5 e6 and ms :: "entdist_request message list" where
    s: "wait_for_any (node_listeners e) (ed_inbox e) = Inr ib"
      "next_bin sch (ib_now ib) = Inr (t, slot)"
      "wait_for_slot t (ib_now ib) (e\<lparr>ed_inbox := ib\<rparr>) = Inr e2" "ed_pop_all e2 = Inr (ms, e3)"
    and queue: "rfold (\<lambda>m. queue_if_matching slot (content m)) ms e3 = Inr e4"
    and joint: "get_next_joint_request e4 = Inr (joint, e5)"
    and ans: "(case joint of Some j \<Rightarrow> serve_request ph j e5
       | None \<Rightarrow> rfold refuse (map (\<lambda>m. er_local_node_id (content m)) ms) e5) = Inr e6"
    and e': "e' = ed_wait 1 (clear_requests e6)"
    by (auto simp: slot_round_def Let_def)
  have reqs: "slot_requests e = Inr (map content ms, slot)"
    using s sch by (simp add: slot_requests_def)
  have e3: "ed_requests e3 = ed_requests e" "ed_sent e3 = ed_sent e" "ed_network e3 = ed_network e"
    "ed_netschedule e3 = ed_netschedule e" "ed_memories e3 = ed_memories e"
    using s(3,4) by (auto simp: wait_for_slot_def ed_pop_all_def ed_wait_def split: if_splits)
  have "ed_inv e3" using assms(1) by (simp add: ed_inv_def e3 del: set_map)
  note q = queue_effect [OF this queue]
  have q4: "queues_ok (ed_requests e4)" using q by (simp add: ed_inv_def del: set_map)
  have fin: "ed_inv e'" "all_requests (ed_requests e') = {#}" "ed_sent e' = ed_sent e6"
    "ed_network e' = ed_network e6" "ed_netschedule e' = ed_netschedule e6"
    using clear_requests_inv(1) [of e6]
    by (auto simp: e' ed_wait_def ed_inv_def all_requests_def clear_requests_def comp_def)
  from q4 show ?thesis
  proof (cases rule: get_next_joint_spec)
    case none
    with joint ans have "rfold refuse (map (\<lambda>m. er_local_node_id (content m)) ms) e4 = Inr e6" by simp
    from refuse_all [OF this] have "ed_sent e6 = ed_sent e @ map (\<lambda>r. (the (map_of (ni_nodes (ed_network e)) (er_local_node_id r)),
        \<lparr>src_pid = - 1, dst_pid = - 1, content = None\<rparr>)) (map content ms)" "ed_network e6 = ed_network e"
      "ed_netschedule e6 = ed_netschedule e" using q e3 by (simp_all add: comp_def)
    with reqs fin show ?thesis by auto
  next
    case (some r p reqs')
    with joint ans have serve: "serve_request ph (joint_of r p) (e4\<lparr>ed_requests := reqs'\<rparr>) = Inr e6" by auto
    note opp = matched_facts(1) [OF some(2) q4]
    have "r \<in># all_requests (ed_requests e4)" "p \<in># all_requests (ed_requests e4)"
      using matched_all [OF some(2) q4] by simp_all
    then have fit: "r \<in> set (map content ms)" "p \<in> set (map content ms)"
      "matches_timebin r slot = Inr True" "matches_timebin p slot = Inr True"
      using q assms(2) e3(1) by auto
    have "ed_sent e6 = ed_sent e @ answers e (r, p)"
      using deliver_sent [OF serve opp] q e3 by (simp add: answers_def)
    moreover have "ed_network e6 = ed_network e" "ed_netschedule e6 = ed_netschedule e"
      using serve_frame [OF serve] q e3 by simp_all
    ultimately show ?thesis using reqs fin fit opp by metis
  qed
qed

section \<open>Properties\<close>

text \<open>The distributor matches two requests only if they are opposite: each names the other's node,
and the process IDs agree crosswise. It takes the head of the first queue that has a partner, and
the first such partner in the other node's queue, removes exactly these two, and reports their
nodes, qubits and process IDs; if it reports none, the queues are unchanged and no head of a queue
has a partner.\<close>

theorem joint_request_is_a_match:
  assumes "ed_inv e"
  shows "(get_next_joint_request e = Inr (None, e) \<and>
      (\<forall>n \<in> set (keys (ed_requests e)). unmatched_head (ed_requests e) n)) \<or>
    (\<exists>r q reqs'. get_next_joint_request e = Inr (Some (joint_of r q), e\<lparr>ed_requests := reqs'\<rparr>) \<and>
      is_opposite r q \<and> matched (ed_requests e) r q reqs' \<and>
      all_requests (ed_requests e) = all_requests reqs' + {#r, q#})"
proof -
  from assms have q: "queues_ok (ed_requests e)" by (simp add: ed_inv_def)
  then show ?thesis
    by (cases rule: get_next_joint_spec) (use matched_facts(1) [OF _ q] matched_all [OF _ q] in blast)+
qed

text \<open>C39: Serving all requests, when no delivery raises, answers every matched request exactly once:
the requests in the queues before are the ones left over together with opposite pairs, and the
messages sent are one pair of answers per opposite pair, in order, each with the process ID of
its receiver. Afterwards no head of a queue has a partner.\<close>

theorem serve_all_answers_matches:
  assumes "ed_inv e" "serve_all_requests ph e = Inr e'"
  shows "\<exists>pairs. (\<forall>(r, q) \<in> set pairs. is_opposite r q) \<and>
    all_requests (ed_requests e) = all_requests (ed_requests e') + mset (map fst pairs) + mset (map snd pairs) \<and>
    ed_sent e' = ed_sent e @ concat (map (answers e) pairs) \<and>
    (\<forall>n \<in> set (keys (ed_requests e')). unmatched_head (ed_requests e') n)"
  using serve_all_effect [OF _ assms(2)] assms(1) unfolding ed_inv_def by blast

text \<open>In the mode with a network schedule, one round answers either the two sides of one opposite
pair of requests that fit the time slot, or, when there is none, every node that has asked with a
refusal. When a pair is served, nobody else is answered, although all requests are dropped: the
queues are empty after every round.\<close>

theorem slot_round_outcome:
  assumes "ed_inv e" "all_requests (ed_requests e) = {#}" "slot_round ph e = Inr e'"
  shows "\<exists>reqs slot. slot_requests e = Inr (reqs, slot) \<and> ed_inv e' \<and> all_requests (ed_requests e') = {#} \<and>
    ((\<exists>r \<in> set reqs. \<exists>q \<in> set reqs. is_opposite r q \<and> matches_timebin r slot = Inr True \<and>
        matches_timebin q slot = Inr True \<and> ed_sent e' = ed_sent e @ answers e (r, q)) \<or>
     ed_sent e' = ed_sent e @ map (\<lambda>r. (the (map_of (ni_nodes (ed_network e)) (er_local_node_id r)),
        \<lparr>src_pid = - 1, dst_pid = - 1, content = None\<rparr>)) reqs)"
  using slot_round_effect [OF assms] by blast

text \<open>C40: Whatever number of rounds the distributor runs, with or without a schedule, its queues stay
well-formed: the queue of a node holds only requests of that node, to another registered node.\<close>

theorem run_rounds_invariant:
  assumes "ed_inv e" "all_requests (ed_requests e) = {#}" "run_rounds n ph e = Inr e'"
  shows "ed_inv e' \<and> (ed_netschedule e \<noteq> None \<longrightarrow> all_requests (ed_requests e') = {#})"
proof -
  have "ed_inv e' \<and> (ed_netschedule e \<noteq> None \<longrightarrow> all_requests (ed_requests e') = {#})"
    if "ed_inv e" "ed_netschedule e \<noteq> None \<longrightarrow> all_requests (ed_requests e) = {#}" "run_rounds n ph e = Inr e'"
    for e
    using that
  proof (induction n arbitrary: e)
    case (Suc n)
    show ?case
    proof (cases "ed_netschedule e")
      case None
      with Suc.prems(3) obtain e1 where "plain_round ph e = Inr e1" "run_rounds n ph e1 = Inr e'" by auto
      from plain_round_inv [OF Suc.prems(1) this(1)] None have "ed_inv e1" "ed_netschedule e1 = None" by simp_all
      with Suc.IH [of e1] \<open>run_rounds n ph e1 = Inr e'\<close> None show ?thesis by simp
    next
      case (Some sch)
      with Suc.prems(3) obtain e1 where r: "slot_round ph e = Inr e1" "run_rounds n ph e1 = Inr e'" by auto
      have "ed_inv e1" "ed_netschedule e1 = Some sch" "all_requests (ed_requests e1) = {#}"
        using slot_round_effect [OF Suc.prems(1) _ r(1)] Suc.prems(2) Some by auto
      with Suc.IH [of e1] r(2) Some show ?thesis by simp
    qed
  qed simp
  with assms show ?thesis by blast
qed

text \<open>Only the heads of the queues are considered. Two opposite requests that both stand behind
heads without a partner are not matched, and no amount of serving changes that: such a state is
left as it is.\<close>

theorem match_behind_heads_is_missed:
  assumes "ed_inv e" "\<forall>n \<in> set (keys (ed_requests e)). unmatched_head (ed_requests e) n"
    and "map_of (ed_requests e) a = Some (h # xs)" "r \<in> set xs"
    and "map_of (ed_requests e) b = Some (k # ys)" "q \<in> set ys" "is_opposite r q"
  shows "get_next_joint_request e = Inr (None, e) \<and> serve_all_requests ph e = Inr e"
proof -
  from assms(1) have qs: "queues_ok (ed_requests e)" by (simp add: ed_inv_def)
  then have "get_next_joint_request e = Inr (None, e)"
  proof (cases rule: get_next_joint_spec)
    case (some x y reqs')
    then obtain rest pre post where m: "map_of (ed_requests e) (er_local_node_id x) = Some (x # rest)"
      "map_of (ed_requests e) (er_remote_node_id x) = Some (pre @ y # post)" "is_opposite x y"
      by (auto simp: matched_def)
    have "unmatched_head (ed_requests e) (er_local_node_id x)"
      using assms(2) map_of_in_keys [OF m(1)] by blast
    with m show ?thesis by (auto simp: unmatched_head_def)
  qed
  then show ?thesis by (simp add: serve_all_requests.simps [of ph e])
qed

text \<open>A request that arrives while the schedule computes a slot in the past stops the distributor:
with a first bin at a positive time, and a time at which \<open>next_bin\<close> returns the very first bin, the
round ends with a \<open>RuntimeError\<close> instead of waiting for a slot.\<close>

theorem past_slot_stops_distributor:
  assumes "ed_netschedule e = Some s" "wait_for_any (node_listeners e) (ed_inbox e) = Inr ib"
    and "wf_schedule s" "real_of_int (ns_first_bin s) < ib_now ib"
    and "ib_now ib < real_of_int (2 * ns_first_bin s)"
    and "real_of_int (2 * ns_first_bin s) < ib_now ib + real_of_int (ns_bin_length s)"
    and "ib_now ib < real_of_int (ns_first_bin s + ns_repeat_period s)"
  shows "slot_round ph e = Inl RuntimeError"
  using next_bin_returns_past [OF assms(3-7)] assms(1,2)
  by (simp add: slot_round_def wait_for_slot_def)

section \<open>Examples and witnesses\<close>

definition sample_physics :: "(unit, unit, nat) physics" where
  "sample_physics = \<lparr>ph_create = \<lambda>f kw. (),
     ph_sample = \<lambda>s w. (\<lparr>ds_state = (), ds_num_qubits = 2, ds_duration = 10\<rparr>, w), ph_put = \<lambda>st a b w. Suc w\<rparr>"

definition sample_ask :: "int \<Rightarrow> int \<Rightarrow> entdist_request" where
  "sample_ask a b = \<lparr>er_local_node_id = a, er_remote_node_id = b, er_local_qubit_id = Some 0,
     er_local_pid = 0, er_remote_pid = 0\<rparr>"

definition sample_entdist :: "network_schedule option \<Rightarrow> (int \<times> int) list \<Rightarrow> (unit, nat) entdist" where
  "sample_entdist sch asks =
     \<lparr>ed_network = only_nodes [(0, ''A''), (1, ''B''), (2, ''C'')], ed_netschedule = sch,
      ed_memories = [(0, [False]), (1, [False]), (2, [False])],
      ed_samplers = [({0, 1}, \<lparr>dl_sampler = (), dl_delay = 5\<rparr>)],
      ed_requests = [(0, []), (1, []), (2, [])],
      ed_inbox = \<lparr>ib_listeners = [(''node_A'', []), (''node_B'', []), (''node_C'', [])],
        ib_arrivals = map (\<lambda>(a, b). (1, (if a = 0 then ''node_A'' else if a = 1 then ''node_B'' else ''node_C''),
          \<lparr>src_pid = - 1, dst_pid = - 1, content = sample_ask a b\<rparr>)) asks, ib_now = 0\<rparr>,
      ed_sent = [], ed_world = 0\<rparr>"

definition sample_slots :: network_schedule where
  "sample_slots = \<lparr>ns_bin_length = 100, ns_first_bin = 0,
     ns_bin_pattern = [\<lparr>tb_nodes = {0, 1}, tb_pids = [(0, 0), (1, 0)]\<rparr>], ns_repeat_period = 100\<rparr>"

definition sample_queued :: "(unit, nat) entdist" where
  "sample_queued = (sample_entdist None [])\<lparr>ed_requests :=
     [(0, [sample_ask 0 2, sample_ask 0 1]), (1, [sample_ask 1 2, sample_ask 1 0]), (2, [])]\<rparr>"

definition sample_matched :: "(unit, nat) entdist" where
  "sample_matched = (sample_entdist None [])\<lparr>ed_requests :=
     [(0, [sample_ask 0 1, sample_ask 0 2]), (1, [sample_ask 1 0]), (2, [])]\<rparr>"

lemma sample_serve_all:
  "case serve_all_requests sample_physics sample_matched of
     Inr e' \<Rightarrow> length (ed_sent e') = 2 \<and> ed_requests e' = [(0, [sample_ask 0 2]), (1, []), (2, [])] | Inl x \<Rightarrow> False"
  by code_simp

lemma sample_slot_round:
  "case slot_round sample_physics (sample_entdist (Some sample_slots) [(0, 1), (1, 0), (2, 1)]) of
     Inr e' \<Rightarrow> map fst (ed_sent e') = [''A'', ''B''] | Inl x \<Rightarrow> False"
  by code_simp

lemma sample_inv: "ed_inv (sample_entdist sch asks)" "all_requests (ed_requests (sample_entdist sch asks)) = {#}"
  "ed_inv sample_matched" "ed_inv sample_queued"
  by (auto simp: ed_inv_def queues_ok_def sample_matched_def sample_queued_def sample_entdist_def sample_ask_def
      all_requests_def split: if_splits)

theorem joint_request_is_a_match_witness:
  "\<exists>r q reqs'. get_next_joint_request sample_matched = Inr (Some (joint_of r q), sample_matched\<lparr>ed_requests := reqs'\<rparr>) \<and>
     is_opposite r q"
proof -
  have "case get_next_joint_request sample_matched of Inr (j, e) \<Rightarrow> j \<noteq> None | Inl x \<Rightarrow> False" by code_simp
  with joint_request_is_a_match [OF sample_inv(3)] show ?thesis by auto
qed

theorem serve_all_answers_matches_witness:
  "\<exists>e' pairs. serve_all_requests sample_physics sample_matched = Inr e' \<and> length (ed_sent e') = 2 \<and>
     (\<forall>(r, q) \<in> set pairs. is_opposite r q) \<and> ed_sent e' = concat (map (answers sample_matched) pairs)"
proof -
  obtain e' where r: "serve_all_requests sample_physics sample_matched = Inr e'" "length (ed_sent e') = 2"
    using sample_serve_all by (auto split: sum.splits)
  have "ed_sent sample_matched = []" by (simp add: sample_matched_def sample_entdist_def)
  with serve_all_answers_matches [OF sample_inv(3) r(1)] r show ?thesis by auto
qed

theorem slot_round_outcome_witness:
  "\<exists>e' r q. slot_round sample_physics (sample_entdist (Some sample_slots) [(0, 1), (1, 0), (2, 1)]) = Inr e' \<and>
     is_opposite r q \<and> ed_sent e' = answers (sample_entdist (Some sample_slots) []) (r, q)"
proof -
  let ?e = "sample_entdist (Some sample_slots) [(0, 1), (1, 0), (2, 1)]"
  obtain e' where r: "slot_round sample_physics ?e = Inr e'" "map fst (ed_sent e') = [''A'', ''B'']"
    using sample_slot_round by (auto split: sum.splits)
  have a: "answers ?e = answers (sample_entdist (Some sample_slots) [])" "ed_sent ?e = []"
    by (simp_all add: answers_def fun_eq_iff sample_entdist_def)
  have "case slot_requests ?e of Inr (reqs, slot) \<Rightarrow> length reqs = 3 | Inl x \<Rightarrow> False" by code_simp
  with slot_round_outcome [OF sample_inv(1,2) r(1)] have "\<exists>r q. is_opposite r q \<and> ed_sent e' = answers ?e (r, q)"
    using arg_cong [OF r(2), of length] by (auto simp: a(2))
  with r(1) a(1) show ?thesis by auto
qed

theorem run_rounds_invariant_witness:
  "\<exists>e'. run_rounds 1 sample_physics (sample_entdist (Some sample_slots) [(0, 1), (1, 0), (2, 1)]) = Inr e' \<and> ed_inv e'"
proof -
  let ?e = "sample_entdist (Some sample_slots) [(0, 1), (1, 0), (2, 1)]"
  obtain e' where "slot_round sample_physics ?e = Inr e'" using sample_slot_round by (auto split: sum.splits)
  then have "run_rounds 1 sample_physics ?e = Inr e'" by (simp add: sample_entdist_def)
  with run_rounds_invariant [OF sample_inv(1,2) this] show ?thesis by blast
qed

theorem match_behind_heads_is_missed_witness:
  "is_opposite (sample_ask 0 1) (sample_ask 1 0) \<and> serve_all_requests sample_physics sample_queued = Inr sample_queued"
proof -
  have o: "is_opposite (sample_ask 0 1) (sample_ask 1 0)" by (simp add: is_opposite_def sample_ask_def)
  have "\<forall>n \<in> set (keys (ed_requests sample_queued)). unmatched_head (ed_requests sample_queued) n"
    by (auto simp: sample_queued_def unmatched_head_def sample_ask_def)
  from match_behind_heads_is_missed [OF sample_inv(4) this, of 0 "sample_ask 0 2" "[sample_ask 0 1]" "sample_ask 0 1"
      1 "sample_ask 1 2" "[sample_ask 1 0]" "sample_ask 1 0" sample_physics] o show ?thesis
    by (simp add: sample_queued_def)
qed

theorem past_slot_stops_distributor_witness:
  "slot_round sample_physics ((sample_entdist (Some (sample_slots\<lparr>ns_first_bin := 50\<rparr>)) [])
     \<lparr>ed_inbox := \<lparr>ib_listeners = [(''node_A'', [((0, 0), [\<lparr>src_pid = 0, dst_pid = 0, content = sample_ask 0 1\<rparr>])]),
       (''node_B'', []), (''node_C'', [])], ib_arrivals = [], ib_now = 95\<rparr>\<rparr>) = Inl RuntimeError"
proof (rule past_slot_stops_distributor)
  let ?ib = "\<lparr>ib_listeners = [(''node_A'', [((0, 0), [\<lparr>src_pid = 0, dst_pid = 0, content = sample_ask 0 1\<rparr>])]),
       (''node_B'', []), (''node_C'', [])], ib_arrivals = [], ib_now = 95 :: real\<rparr>"
  show "wait_for_any (node_listeners ((sample_entdist (Some (sample_slots\<lparr>ns_first_bin := 50\<rparr>)) [])\<lparr>ed_inbox := ?ib\<rparr>))
     (ed_inbox ((sample_entdist (Some (sample_slots\<lparr>ns_first_bin := 50\<rparr>)) [])\<lparr>ed_inbox := ?ib\<rparr>)) = Inr ?ib"
    by (simp add: wait_for_any_def sample_entdist_def only_nodes_def get_all_node_names_def node_listener_def
        dget_def has_any_def)
qed (auto simp: sample_entdist_def sample_slots_def wf_schedule_def)

end
