(* ===== verification/PyText.thy ===== *)
theory PyText
  imports PyStr
begin

text \<open>
  The string methods of Python that the parser and the printers use: splitting and joining,
  searching, prefixes and suffixes, letters and identifiers, and numbers with a fraction. Texts
  are ASCII.
\<close>

section \<open>Parts of a string\<close>

abbreviation newline :: char where
  "newline \<equiv> CHR 0x0A"

definition py_startswith :: "string \<Rightarrow> string \<Rightarrow> bool" where
  "py_startswith p s \<longleftrightarrow> take (length p) s = p"

definition py_endswith :: "string \<Rightarrow> string \<Rightarrow> bool" where
  "py_endswith p s \<longleftrightarrow> drop (length s - length p) s = p"

text \<open>\<open>sub in s\<close>\<close>

fun py_contains :: "string \<Rightarrow> string \<Rightarrow> bool" where
  "py_contains sub [] \<longleftrightarrow> sub = []"
| "py_contains sub (c # cs) \<longleftrightarrow> py_startswith sub (c # cs) \<or> py_contains sub cs"

text \<open>\<open>s.find(c)\<close> for a character; \<open>None\<close> stands for \<open>-1\<close>.\<close>

fun py_find :: "char \<Rightarrow> string \<Rightarrow> nat option" where
  "py_find c [] = None"
| "py_find c (x # xs) = (if x = c then Some 0 else map_option Suc (py_find c xs))"

text \<open>\<open>s.split(sep)\<close> for a separator that is not empty, and \<open>sep.join(xs)\<close>.\<close>

fun py_split :: "string \<Rightarrow> string \<Rightarrow> string list" where
  "py_split sep [] = [[]]"
| "py_split sep (c # cs) =
     (if py_startswith sep (c # cs) then [] # py_split sep (drop (length sep - 1) cs)
      else case py_split sep cs of [] \<Rightarrow> [[c]] | y # ys \<Rightarrow> (c # y) # ys)"

fun py_join :: "string \<Rightarrow> string list \<Rightarrow> string" where
  "py_join sep [] = []"
| "py_join sep [x] = x"
| "py_join sep (x # y # ys) = x @ sep @ py_join sep (y # ys)"

text \<open>\<open>s.count(c)\<close> for a character, and for a longer separator.\<close>

abbreviation py_count :: "char \<Rightarrow> string \<Rightarrow> nat" where
  "py_count c s \<equiv> count_list s c"

definition py_count_str :: "string \<Rightarrow> string \<Rightarrow> nat" where
  "py_count_str sep s = length (py_split sep s) - 1"

text \<open>\<open>s.strip(chars)\<close>, \<open>s.rstrip(chars)\<close>, \<open>s.upper()\<close>, \<open>s[a:b]\<close> for indices that are not negative.\<close>

definition py_rstrip_chars :: "char list \<Rightarrow> string \<Rightarrow> string" where
  "py_rstrip_chars chars s = rev (dropWhile (\<lambda>c. c \<in> set chars) (rev s))"

definition py_strip_chars :: "char list \<Rightarrow> string \<Rightarrow> string" where
  "py_strip_chars chars s = py_rstrip_chars chars (dropWhile (\<lambda>c. c \<in> set chars) s)"

definition char_upper :: "char \<Rightarrow> char" where
  "char_upper c = (let n = of_char c :: nat in if 97 \<le> n \<and> n \<le> 122 then char_of (n - 32) else c)"

definition py_upper :: "string \<Rightarrow> string" where
  "py_upper s = map char_upper s"

definition str_slice :: "nat \<Rightarrow> nat \<Rightarrow> string \<Rightarrow> string" where
  "str_slice a b s = take (b - a) (drop a s)"

section \<open>Names and numbers\<close>

definition is_alpha :: "char \<Rightarrow> bool" where
  "is_alpha c \<longleftrightarrow> (let n = of_char c :: nat in (65 \<le> n \<and> n \<le> 90) \<or> (97 \<le> n \<and> n \<le> 122))"

definition is_word :: "char \<Rightarrow> bool" where
  "is_word c \<longleftrightarrow> is_alpha c \<or> is_digit c \<or> c = CHR ''_''"

definition py_isidentifier :: "string \<Rightarrow> bool" where
  "py_isidentifier s \<longleftrightarrow> s \<noteq> [] \<and> \<not> is_digit (hd s) \<and> list_all is_word s"

text \<open>
  \<open>float(s)\<close>: an optional sign, digits that single underscores may separate, an optional fraction
  and an optional exponent. Infinities and NaN, which are not real numbers, are not in the model.
\<close>

fun read_digits :: "string \<Rightarrow> string \<times> string" where
  "read_digits [] = ([], [])"
| "read_digits [c] = (if is_digit c then ([c], []) else ([], [c]))"
| "read_digits (c # d # s) =
     (if \<not> is_digit c then ([], c # d # s)
      else if d = CHR ''_'' \<and> s \<noteq> [] \<and> is_digit (hd s)
      then (case read_digits s of (ds, r) \<Rightarrow> (c # ds, r))
      else (case read_digits (d # s) of (ds, r) \<Rightarrow> (c # ds, r)))"

definition split_sign :: "string \<Rightarrow> bool \<times> string" where
  "split_sign s = (case s of [] \<Rightarrow> (False, []) | c # cs \<Rightarrow>
     if c = CHR ''-'' then (True, cs) else if c = CHR ''+'' then (False, cs) else (False, s))"

definition digits_value :: "string \<Rightarrow> int" where
  "digits_value ds = fold (\<lambda>c a. a * 10 + digit_val c) ds 0"

definition read_fraction :: "string \<Rightarrow> string \<times> string" where
  "read_fraction r = (case r of [] \<Rightarrow> ([], []) | c # cs \<Rightarrow> if c = CHR ''.'' then read_digits cs else ([], r))"

definition read_exponent :: "string \<Rightarrow> int res" where
  "read_exponent r =
     (case r of
        [] \<Rightarrow> Inr 0
      | c # cs \<Rightarrow>
          (case split_sign cs of (neg, ds) \<Rightarrow>
             if (c = CHR ''e'' \<or> c = CHR ''E'') \<and> ds \<noteq> [] \<and> snd (read_digits ds) = []
             then Inr ((if neg then - 1 else 1) * digits_value (fst (read_digits ds)))
             else Inl ValueError))"

definition py_float :: "string \<Rightarrow> real res" where
  "py_float s =
     (case split_sign (py_strip s) of (neg, t) \<Rightarrow>
      case read_digits t of (a, r) \<Rightarrow>
      case read_fraction r of (b, r') \<Rightarrow>
      rbind (ensure (a @ b \<noteq> []) ValueError) (\<lambda>_.
      rbind (read_exponent r') (\<lambda>e.
      Inr ((if neg then - 1 else 1) * real_of_int (digits_value (a @ b)) * 10 powi (e - int (length b))))))"

end
