(* ===== verification/Serialize.thy ===== *)
theory Serialize
  imports Lang PyText
begin

text \<open>
  Printing programs: \<open>__str__\<close> of variables, operations and blocks (\<open>qoala/lang/hostlang.py\<close>), and
  \<open>serialize\<close> of metadata, routines and requests (\<open>qoala/lang/program.py\<close>, \<open>routine.py\<close>,
  \<open>request.py\<close>). The text of a NetQASM template and of the instructions of a NetQASM subroutine
  come from the NetQASM package and are parameters.
\<close>

section \<open>Host code\<close>

definition str_value :: "(string \<Rightarrow> string) \<Rightarrow> iqoala_value \<Rightarrow> string" where
  "str_value templ v = (case v of IntV i \<Rightarrow> show_int i | TemplV t \<Rightarrow> templ t | StrV s \<Rightarrow> s)"

fun str_var :: "(string \<Rightarrow> string) \<Rightarrow> iqoala_var \<Rightarrow> string" where
  "str_var templ (IqoalaSingleton n) = n"
| "str_var templ (IqoalaTuple vs) = ''tuple<'' @ py_join '','' vs @ ''>''"
| "str_var templ (IqoalaVector n k) = n @ ''<'' @ str_value templ k @ ''>''"
| "str_var templ (IqoalaVectorElement n i) = n @ ''['' @ show_int i @ '']''"

text \<open>\<open>ClassicalIqoalaOp.__str__\<close>\<close>

definition str_op :: "(string \<Rightarrow> string) \<Rightarrow> iqoala_op \<Rightarrow> string" where
  "str_op templ op =
     (let results = (case op_results op of None \<Rightarrow> [] | Some r \<Rightarrow> str_var templ r);
          args = (if op_arguments op = [IqoalaTuple []] then []
                  else py_join '', '' (map (str_var templ) (op_arguments op)));
          attrs = py_join '', '' (map (str_value templ) (op_attributes op)) in
      (if results \<noteq> [] then results @ '' = '' else []) @ op_name (op_class op) @ ''('' @ args @ '')'' @
      (if attrs \<noteq> [] then '' : '' @ attrs else []))"

definition str_block_type :: "block_type \<Rightarrow> string" where
  "str_block_type t = (case t of CL \<Rightarrow> ''CL'' | CC \<Rightarrow> ''CC'' | QL \<Rightarrow> ''QL'' | QC \<Rightarrow> ''QC'')"

text \<open>\<open>str(d)\<close> of a dictionary from names to numbers; names are quoted.\<close>

definition str_deadlines :: "(string, int) dict \<Rightarrow> string" where
  "str_deadlines d =
     ''{'' @ py_join '', '' (map (\<lambda>(k, v). [CHR 0x27] @ k @ [CHR 0x27] @ '': '' @ show_int v) d) @ ''}''"

definition str_block :: "(string \<Rightarrow> string) \<Rightarrow> basic_block \<Rightarrow> string" where
  "str_block templ b =
     (let annotations = ''type = '' @ str_block_type (block_typ b) @
        (case block_deadlines b of None \<Rightarrow> [] | Some d \<Rightarrow> '', deadlines: '' @ str_deadlines d) in
      ''^'' @ block_name b @ '' {'' @ annotations @ ''}:'' @ [newline] @
      py_join [newline] (map (\<lambda>i. ''    '' @ str_op templ i) (block_instructions b)))"

section \<open>Metadata\<close>

definition str_mapping :: "(int, string) dict \<Rightarrow> string" where
  "str_mapping d = py_join '', '' (map (\<lambda>(k, v). show_int k @ '' -> '' @ v) d)"

definition meta_serialize :: "program_meta \<Rightarrow> string" where
  "meta_serialize m =
     ''META_START'' @
     [newline] @ ''name: '' @ pm_name m @
     [newline] @ ''parameters: '' @ py_join '', '' (pm_parameters m) @
     [newline] @ ''csockets: '' @ str_mapping (pm_csockets m) @
     [newline] @ ''epr_sockets: '' @ str_mapping (pm_epr_sockets m) @
     [newline] @ ''META_END''"

section \<open>Routines and requests\<close>

definition str_return_var :: "(string \<Rightarrow> string) \<Rightarrow> return_var \<Rightarrow> string" where
  "str_return_var templ v = (case v of RetName n \<Rightarrow> n | RetVector n k \<Rightarrow> str_var templ (IqoalaVector n k))"

definition lr_serialize :: "(string \<Rightarrow> string) \<Rightarrow> (subroutine \<Rightarrow> string) \<Rightarrow> local_routine \<Rightarrow> string" where
  "lr_serialize templ print_instructions r =
     ''SUBROUTINE '' @ lr_name r @
     [newline] @ ''params: '' @ py_join '', '' (sub_arguments (lr_subroutine r)) @
     [newline] @ ''returns: '' @ py_join '', '' (map (str_return_var templ) (lr_return_vars r)) @
     [newline] @ ''uses: '' @ py_join '', '' (map show_int (qubit_use (lr_metadata r))) @
     [newline] @ ''keeps: '' @ py_join '', '' (map show_int (qubit_keep (lr_metadata r))) @
     [newline] @ ''NETQASM_START'' @ [newline] @
     print_instructions (lr_subroutine r) @
     [newline] @ ''NETQASM_END''"

text \<open>\<open>LocalRoutine.__str__\<close>\<close>

definition str_routine :: "(string \<Rightarrow> string) \<Rightarrow> (subroutine \<Rightarrow> string) \<Rightarrow> local_routine \<Rightarrow> string" where
  "str_routine templ print_instructions r =
     [newline] @ concat (map (\<lambda>v. ''return '' @ str_return_var templ v @ [newline]) (lr_return_vars r)) @
     ''NETQASM_START'' @ [newline] @ print_instructions (lr_subroutine r) @ [newline] @ ''NETQASM_END''"

definition str_int_or_template :: "(string \<Rightarrow> string) \<Rightarrow> int_or_template \<Rightarrow> string" where
  "str_int_or_template templ v = (case v of IntNum i \<Rightarrow> show_int i | IntTemplate t \<Rightarrow> templ t)"

text \<open>\<open>RequestVirtIdMapping.__str__\<close>; the text of a missing value is \<open>None\<close>.\<close>

definition str_virt_ids :: "(string \<Rightarrow> string) \<Rightarrow> virt_id_mapping \<Rightarrow> string res" where
  "str_virt_ids templ m =
     (let single = (case vim_single_value m of None \<Rightarrow> ''None'' | Some v \<Rightarrow> str_int_or_template templ v) in
      case vim_typ m of
        EQUAL \<Rightarrow> Inr (''all '' @ single)
      | INCREMENT \<Rightarrow> Inr (''increment '' @ single)
      | CUSTOM \<Rightarrow> (case vim_custom_values m of
            None \<Rightarrow> Inl AssertionError
          | Some vs \<Rightarrow> Inr (''custom '' @ py_join '', '' (map show_int vs))))"

text \<open>
  \<open>QoalaRequest.serialize\<close>: one line, with the role as Python prints the member of an enumeration. The
  text of a floating-point number is a parameter.
\<close>

definition str_float_or_template :: "(string \<Rightarrow> string) \<Rightarrow> (real \<Rightarrow> string) \<Rightarrow> float_or_template \<Rightarrow> string" where
  "str_float_or_template templ show_float v = (case v of FloatNum x \<Rightarrow> show_float x | FloatTemplate t \<Rightarrow> templ t)"

definition str_epr_type :: "epr_type \<Rightarrow> string" where
  "str_epr_type t = (case t of CREATE_KEEP \<Rightarrow> ''CREATE_KEEP'' | MEASURE_DIRECTLY \<Rightarrow> ''MEASURE_DIRECTLY''
     | REMOTE_STATE_PREP \<Rightarrow> ''REMOTE_STATE_PREP'')"

definition str_epr_role :: "epr_role \<Rightarrow> string" where
  "str_epr_role r = (case r of CREATE \<Rightarrow> ''EprRole.CREATE'' | RECEIVE \<Rightarrow> ''EprRole.RECEIVE'')"

definition request_serialize :: "(string \<Rightarrow> string) \<Rightarrow> (real \<Rightarrow> string) \<Rightarrow> qoala_request \<Rightarrow> string res" where
  "request_serialize templ show_float r =
     rbind (str_virt_ids templ (rq_virt_ids r)) (\<lambda>virt_ids.
     Inr (''REQUEST '' @ rq_name r @
       ''remote_id: '' @ str_int_or_template templ (rq_remote_id r) @
       ''epr_socket_id: '' @ str_int_or_template templ (rq_epr_socket_id r) @
       ''num_pairs: '' @ str_int_or_template templ (rq_num_pairs r) @
       ''virt_ids: '' @ virt_ids @
       ''timeout: '' @ str_float_or_template templ show_float (rq_timeout r) @
       ''fidelity: '' @ str_float_or_template templ show_float (rq_fidelity r) @
       ''typ: '' @ str_epr_type (rq_typ r) @
       ''role: '' @ str_epr_role (rq_role r)))"

section \<open>Programs\<close>

definition str_program :: "(string \<Rightarrow> string) \<Rightarrow> qoala_program \<Rightarrow> string" where
  "str_program templ p = py_join [newline] (map (\<lambda>i. ''  '' @ str_op templ i) (program_instructions p))"

definition serialize_host_code :: "(string \<Rightarrow> string) \<Rightarrow> qoala_program \<Rightarrow> string" where
  "serialize_host_code templ p = py_join [newline, newline] (map (str_block templ) (pr_blocks p))"

definition serialize_subroutines :: "(string \<Rightarrow> string) \<Rightarrow> (subroutine \<Rightarrow> string) \<Rightarrow> qoala_program \<Rightarrow> string" where
  "serialize_subroutines templ print_instructions p =
     py_join [newline] (map (lr_serialize templ print_instructions \<circ> snd) (pr_local_routines p))"

definition program_serialize :: "(string \<Rightarrow> string) \<Rightarrow> (subroutine \<Rightarrow> string) \<Rightarrow> qoala_program \<Rightarrow> string" where
  "program_serialize templ print_instructions p =
     meta_serialize (pr_meta p) @ [newline] @ serialize_host_code templ p @ [newline] @
     serialize_subroutines templ print_instructions p"

text \<open>\<open>QoalaProgramBuilder.single_routine\<close>: a program of one block that calls the routine.\<close>

definition single_routine :: "local_routine \<Rightarrow> int list \<Rightarrow> qoala_program res" where
  "single_routine r args =
     (let names = map (\<lambda>i. ''arg_'' @ show_nat i) [0..<length args];
          prepare = map (\<lambda>(n, a). mk_op AssignCValueOp [] (Some (IqoalaSingleton n)) [IntV a]) (zip names args) in
      rbind (lr_get_return_size r) (\<lambda>size.
      let call = mk_op RunSubroutineOp [IqoalaTuple names] (Some (IqoalaVector ''result'' (IntV size))) [StrV (lr_name r)];
          ret = mk_op ReturnResultOp [IqoalaSingleton ''result''] None [] in
      Inr (mk_program (meta_empty ''name'')
        [\<lparr>block_name = ''b0'', block_typ = QL, block_instructions = prepare @ [call, ret], block_deadlines = None\<rparr>]
        (Some [(lr_name r, r)]) None)))"

end
