(* ===== verification/Parse.thy ===== *)
theory Parse
  imports Serialize
begin

text \<open>
  The parser of Qoala programs (\<open>qoala/lang/parse.py\<close>). The state of a parser object, its list of
  lines and the number of the next one, is the list of the lines that are still to be read. The
  parser of NetQASM subroutines, which comes from the NetQASM package, is a parameter.
\<close>

section \<open>Lines\<close>

text \<open>The lines of a text without surrounding white space, empty ones left out.\<close>

definition parse_lines :: "string \<Rightarrow> string list" where
  "parse_lines text = filter (\<lambda>l. l \<noteq> []) (map py_strip (py_split [newline] text))"

definition read_line :: "string list \<Rightarrow> (string \<times> string list) res" where
  "read_line ls = (case ls of [] \<Rightarrow> Inl EndOfTextException | l # rest \<Rightarrow> Inr (l, rest))"

definition is_valid_name :: "string \<Rightarrow> bool" where
  "is_valid_name name \<longleftrightarrow> py_isidentifier name \<and> is_alpha (name ! 0) \<and> name \<notin> set (keys lhr_op_names)"

abbreviation parse_ensure :: "bool \<Rightarrow> unit res" where
  "parse_ensure b \<equiv> ensure b QoalaParseError"

lemma pred_option_code [code]: "pred_option P None \<longleftrightarrow> True" "pred_option P (Some x) \<longleftrightarrow> P x"
  by simp_all

text \<open>\<open>except e: raise e'\<close>\<close>

definition on_error :: "py_error \<Rightarrow> py_error \<Rightarrow> 'a res \<Rightarrow> 'a res" where
  "on_error e e' m = (if m = Inl e then Inl e' else m)"

text \<open>The text after the colon of a line \<open>key: ...\<close>, and the values that commas separate there.\<close>

definition after_key :: "string \<Rightarrow> string \<Rightarrow> string res" where
  "after_key key line =
     rbind (parse_ensure (py_count CHR '':'' line = 1)) (\<lambda>_.
     let split = py_split '':'' line in
     rbind (parse_ensure (split ! 0 = key)) (\<lambda>_. Inr (split ! 1)))"

definition split_values :: "string \<Rightarrow> string list" where
  "split_values s = (if s = [] then [] else map py_strip (py_split '','' s))"

definition parse_meta_line :: "string \<Rightarrow> string \<Rightarrow> string list res" where
  "parse_meta_line key line = rbind (after_key key line) (\<lambda>s. Inr (split_values s))"

section \<open>Metadata\<close>

definition parse_mapping_entry :: "string \<Rightarrow> (int \<times> string) res" where
  "parse_mapping_entry v =
     rbind (parse_ensure (py_count_str ''->'' v = 1)) (\<lambda>_.
     let key_value = map py_strip (py_split ''->'' v) in
     rbind (on_error ValueError QoalaParseError (py_int (key_value ! 0))) (\<lambda>socket_id.
     Inr (socket_id, key_value ! 1)))"

definition parse_meta_mapping :: "string list \<Rightarrow> (int, string) dict res" where
  "parse_meta_mapping values = rbind (rmap parse_mapping_entry values) (\<lambda>kvs. Inr (dict_of kvs))"

definition parse_meta_body :: "string list \<Rightarrow> program_meta res" where
  "parse_meta_body ls0 =
     rbind (read_line ls0) (\<lambda>(start_line, ls1).
     rbind (parse_ensure (start_line = ''META_START'')) (\<lambda>_.
     rbind (read_line ls1) (\<lambda>(line, ls2).
     rbind (parse_meta_line ''name'' line) (\<lambda>name_values.
     rbind (parse_ensure (length name_values = 1)) (\<lambda>_.
     let name = py_strip (name_values ! 0) in
     rbind (parse_ensure (is_valid_name name)) (\<lambda>_.
     rbind (read_line ls2) (\<lambda>(line, ls3).
     rbind (parse_meta_line ''parameters'' line) (\<lambda>parameters.
     rbind (parse_ensure (list_all is_valid_name parameters)) (\<lambda>_.
     rbind (read_line ls3) (\<lambda>(line, ls4).
     rbind (parse_meta_line ''csockets'' line) (\<lambda>csockets_map.
     rbind (parse_meta_mapping csockets_map) (\<lambda>csockets.
     rbind (parse_ensure (list_all is_valid_name (map snd csockets))) (\<lambda>_.
     rbind (read_line ls4) (\<lambda>(line, ls5).
     rbind (parse_meta_line ''epr_sockets'' line) (\<lambda>epr_sockets_map.
     rbind (parse_meta_mapping epr_sockets_map) (\<lambda>epr_sockets.
     rbind (parse_ensure (list_all is_valid_name (map snd epr_sockets))) (\<lambda>_.
     rbind (read_line ls5) (\<lambda>(end_line, ls6).
     rbind (parse_ensure (end_line = ''META_END'')) (\<lambda>_.
     Inr \<lparr>pm_name = name, pm_parameters = parameters, pm_csockets = csockets, pm_epr_sockets = epr_sockets\<rparr>)))))))))))))))))))"

definition parse_meta :: "string \<Rightarrow> program_meta res" where
  "parse_meta text = on_error EndOfTextException QoalaParseError (parse_meta_body (parse_lines text))"

section \<open>Instructions\<close>

text \<open>The vectors that have been defined so far.\<close>

type_synonym defined_vectors = "(string, iqoala_var) dict"

text \<open>\<open>tuple<...>\<close>; a text of five characters has no sixth one.\<close>

definition parse_tuple :: "string \<Rightarrow> iqoala_var res" where
  "parse_tuple s =
     rbind (ensure (5 < length s) IndexError) (\<lambda>_.
     rbind (parse_ensure (s ! 5 = CHR ''<'' \<and> py_endswith ''>'' s)) (\<lambda>_.
     rbind (parse_ensure (py_count CHR ''<'' s \<le> 1 \<and> py_count CHR ''>'' s \<le> 1)) (\<lambda>_.
     let values_str = str_slice 6 (length s - 1) s;
         values = (if values_str = [] then [] else map py_strip (py_split '';'' values_str)) in
     rbind (parse_ensure (list_all is_valid_name values)) (\<lambda>_.
     Inr (IqoalaTuple values)))))"

text \<open>The checks that vectors with a size and vector elements share: a name, an opening and a closing
bracket, once each and the latter at the end.\<close>

definition parse_bracketed :: "char \<Rightarrow> char \<Rightarrow> string \<Rightarrow> (string \<times> string) res" where
  "parse_bracketed op cl s =
     rbind (parse_ensure (\<not> py_startswith [op] s)) (\<lambda>_.
     rbind (parse_ensure (py_endswith [cl] s)) (\<lambda>_.
     rbind (parse_ensure (py_count op s = 1 \<and> py_count cl s = 1)) (\<lambda>_.
     let split = py_split [op] s in
     rbind (parse_ensure (is_valid_name (split ! 0))) (\<lambda>_.
     Inr (split ! 0, butlast (split ! 1))))))"

definition parse_vector :: "bool \<Rightarrow> string \<Rightarrow> iqoala_var res" where
  "parse_vector is_result s =
     rbind (parse_ensure is_result) (\<lambda>_.
     rbind (parse_bracketed CHR ''<'' CHR ''>'' s) (\<lambda>(name, size_str).
     case py_int size_str of
       Inr k \<Rightarrow> Inr (IqoalaVector name (IntV k))
     | Inl e \<Rightarrow>
         rbind (parse_ensure (is_valid_name size_str)) (\<lambda>_.
         Inr (IqoalaVector name (StrV size_str)))))"

definition parse_vector_element :: "defined_vectors \<Rightarrow> string \<Rightarrow> iqoala_var res" where
  "parse_vector_element vecs s =
     rbind (parse_bracketed CHR ''['' CHR '']'' s) (\<lambda>(name, index_str).
     rbind (parse_ensure (dhas vecs name)) (\<lambda>_.
     rbind (on_error ValueError QoalaParseError (py_int index_str)) (\<lambda>index.
     Inr (IqoalaVectorElement name index))))"

definition parse_plain_var :: "defined_vectors \<Rightarrow> string \<Rightarrow> iqoala_var res" where
  "parse_plain_var vecs s =
     rbind (parse_ensure (is_valid_name s)) (\<lambda>_.
     case map_of vecs s of Some v \<Rightarrow> Inr v | None \<Rightarrow> Inr (IqoalaSingleton s))"

definition parse_var :: "defined_vectors \<Rightarrow> bool \<Rightarrow> string \<Rightarrow> iqoala_var res" where
  "parse_var vecs is_result s =
     (if py_startswith ''tuple'' s then parse_tuple s
      else if CHR ''<'' \<in> set s then parse_vector is_result s
      else if CHR ''['' \<in> set s then parse_vector_element vecs s
      else parse_plain_var vecs s)"

text \<open>The result in front of the equals sign, and the vectors that are defined after it.\<close>

definition define_vector :: "iqoala_var \<Rightarrow> defined_vectors \<Rightarrow> defined_vectors" where
  "define_vector v vecs = (case v of IqoalaVector n k \<Rightarrow> dset n v vecs | _ \<Rightarrow> vecs)"

definition parse_result ::
    "defined_vectors \<Rightarrow> string \<Rightarrow> (iqoala_var option \<times> string \<times> defined_vectors) res" where
  "parse_result vecs line =
     (let assign_parts = map py_strip (py_split ''='' line) in
      rbind (parse_ensure (length assign_parts \<le> 2)) (\<lambda>_.
      if length assign_parts = 1 then Inr (None, assign_parts ! 0, vecs)
      else rbind (parse_var vecs True (assign_parts ! 0)) (\<lambda>result.
        Inr (Some result, assign_parts ! 1, define_vector result vecs))))"

text \<open>The attribute behind the colon, an integer if it reads as one.\<close>

definition read_attr :: "string \<Rightarrow> iqoala_value" where
  "read_attr s = (case py_int s of Inr i \<Rightarrow> IntV i | Inl e \<Rightarrow> StrV s)"

definition parse_attr :: "string \<Rightarrow> (string \<times> iqoala_value option) res" where
  "parse_attr value =
     (let value_parts = map py_strip (py_split '':'' value) in
      rbind (parse_ensure (length value_parts \<le> 2)) (\<lambda>_.
      if length value_parts = 2 then Inr (py_strip (value_parts ! 0), Some (read_attr (py_strip (value_parts ! 1))))
      else Inr (value_parts ! 0, None)))"

text \<open>The name of the operation and its arguments.\<close>

definition parse_call :: "string \<Rightarrow> (string \<times> string list) res" where
  "parse_call value =
     (let op_parts = map py_strip (py_split ''('' value) in
      rbind (parse_ensure (\<not> py_startswith ''('' value)) (\<lambda>_.
      rbind (parse_ensure (py_count CHR ''('' value = 1 \<and> py_count CHR '')'' value = 1)) (\<lambda>_.
      rbind (parse_ensure (py_endswith '')'' value)) (\<lambda>_.
      Inr (op_parts ! 0, split_values (py_rstrip_chars '')'' (op_parts ! 1)))))))"

definition parse_lhr :: "defined_vectors \<Rightarrow> string \<Rightarrow> (iqoala_op \<times> defined_vectors) res" where
  "parse_lhr vecs line =
     rbind (parse_result vecs line) (\<lambda>(result, value, vecs').
     rbind (parse_attr value) (\<lambda>(value, attr).
     rbind (parse_call value) (\<lambda>(op, raw_args).
     rbind (rmap (parse_var vecs' False) raw_args) (\<lambda>args.
     rbind (dget lhr_op_names op) (\<lambda>c.
     rbind (from_generic_args c result args attr) (\<lambda>lhr_op.
     Inr (lhr_op, vecs')))))))"

fun parse_instrs :: "defined_vectors \<Rightarrow> string list \<Rightarrow> (iqoala_op list \<times> defined_vectors) res" where
  "parse_instrs vecs [] = Inr ([], vecs)"
| "parse_instrs vecs (l # ls) =
     rbind (parse_lhr vecs l) (\<lambda>(instr, vecs').
     rbind (parse_instrs vecs' ls) (\<lambda>(instrs, vecs''). Inr (instr # instrs, vecs'')))"

section \<open>Blocks\<close>

text \<open>
  The lines from one block header up to the next; the first component has the lines before the
  first header, which belong to no block.
\<close>

fun group_blocks :: "string list \<Rightarrow> string list \<times> string list list" where
  "group_blocks [] = ([], [])"
| "group_blocks (l # ls) =
     (case group_blocks ls of (pre, groups) \<Rightarrow>
        if py_startswith ''^'' l then ([], (l # pre) # groups) else (l # pre, groups))"

definition get_block_texts :: "string list \<Rightarrow> string list res" where
  "get_block_texts ls =
     (let groups = snd (group_blocks ls) in
      rbind (parse_ensure (groups \<noteq> [])) (\<lambda>_. Inr (map (py_join [newline]) groups)))"

text \<open>\<open>blk, dl = [i.strip() for i in item.split(":")]\<close> needs exactly two parts.\<close>

definition parse_deadline :: "string \<Rightarrow> (string \<times> int) res" where
  "parse_deadline item =
     (case map py_strip (py_split '':'' item) of
        [blk, dl] \<Rightarrow> rbind (py_int dl) (\<lambda>d. Inr (blk, d))
      | _ \<Rightarrow> Inl ValueError)"

definition parse_deadlines :: "string \<Rightarrow> (string, int) dict res" where
  "parse_deadlines text =
     (case (py_find CHR ''['' text, py_find CHR '']'' text) of
        (Some op, Some cl) \<Rightarrow>
          rbind (rmap parse_deadline (py_split '','' (str_slice (op + 1) cl text))) (\<lambda>kvs. Inr (dict_of kvs))
      | _ \<Rightarrow> Inl AssertionError)"

definition block_type_names :: "(string, block_type) dict" where
  "block_type_names = [(''CL'', CL), (''CC'', CC), (''QL'', QL), (''QC'', QC)]"

definition parse_block_annotations :: "string \<Rightarrow> (block_type \<times> (string, int) dict option) res" where
  "parse_block_annotations annotations =
     (let parts = py_split '','' annotations in
      rbind (parse_ensure (py_count CHR ''='' (parts ! 0) = 1)) (\<lambda>_.
      let type_parts = map py_strip (py_split ''='' (parts ! 0)) in
      rbind (parse_ensure (type_parts ! 0 = ''type'')) (\<lambda>_.
      let raw_typ = drop (length (type_parts ! 1) - 2) (type_parts ! 1) in
      rbind (on_error KeyError QoalaParseError (dget block_type_names (py_upper raw_typ))) (\<lambda>typ.
      if length parts = 1 then Inr (typ, None)
      else rbind (parse_deadlines (drop 12 (py_strip (parts ! 1)))) (\<lambda>d. Inr (typ, Some d))))))"

definition parse_block_header :: "string \<Rightarrow> (string \<times> block_type \<times> (string, int) dict option) res" where
  "parse_block_header line =
     rbind (parse_ensure (py_startswith ''^'' line)) (\<lambda>_.
     rbind (parse_ensure (py_count CHR ''{'' line = 1 \<and> py_count CHR ''}'' line = 1)) (\<lambda>_.
     let parts = map py_strip (py_split ''{'' line); name = py_strip (drop 1 (parts ! 0)) in
     rbind (parse_ensure (is_valid_name name)) (\<lambda>_.
     case py_find CHR ''}'' (parts ! 1) of
       None \<Rightarrow> Inl QoalaParseError
     | Some close_brace \<Rightarrow>
         rbind (parse_ensure (drop (close_brace + 1) (parts ! 1) = '':'')) (\<lambda>_.
         rbind (parse_block_annotations (take close_brace (parts ! 1))) (\<lambda>(typ, deadline).
         Inr (name, typ, deadline))))))"

definition parse_block :: "defined_vectors \<Rightarrow> string \<Rightarrow> (basic_block \<times> defined_vectors) res" where
  "parse_block vecs text =
     (let lines = parse_lines text in
      rbind (py_nth lines 0) (\<lambda>header.
      rbind (parse_block_header header) (\<lambda>(name, typ, deadline).
      rbind (parse_instrs vecs (parse_lines (py_join [newline] (drop 1 lines)))) (\<lambda>(instrs, vecs').
      Inr (\<lparr>block_name = name, block_typ = typ, block_instructions = instrs, block_deadlines = deadline\<rparr>, vecs')))))"

fun parse_blocks :: "defined_vectors \<Rightarrow> string list \<Rightarrow> basic_block list res" where
  "parse_blocks vecs [] = Inr []"
| "parse_blocks vecs (t # ts) =
     rbind (parse_block vecs t) (\<lambda>(b, vecs'). rbind (parse_blocks vecs' ts) (\<lambda>bs. Inr (b # bs)))"

definition parse_host_code :: "string \<Rightarrow> basic_block list res" where
  "parse_host_code text = rbind (get_block_texts (parse_lines text)) (parse_blocks [])"

section \<open>Local routines\<close>

definition parse_subrt_meta_line :: "string \<Rightarrow> string \<Rightarrow> string list res" where
  "parse_subrt_meta_line = parse_meta_line"

text \<open>A template in braces, or the text itself.\<close>

definition in_braces :: "string \<Rightarrow> bool" where
  "in_braces s \<longleftrightarrow> py_startswith ''{'' s \<and> py_endswith ''}'' s"

definition template_name :: "string \<Rightarrow> string" where
  "template_name s = py_strip (py_strip_chars ''{}'' s)"

definition parse_return_var :: "string \<Rightarrow> return_var res" where
  "parse_return_var v =
     (if CHR ''<'' \<in> set v then
        rbind (parse_bracketed CHR ''<'' CHR ''>'' v) (\<lambda>(name, raw).
        let size_str = py_strip raw in
        if in_braces size_str then
          rbind (parse_ensure (is_valid_name (template_name size_str))) (\<lambda>_.
          Inr (RetVector name (TemplV (template_name size_str))))
        else rbind (on_error ValueError QoalaParseError (py_int size_str)) (\<lambda>k. Inr (RetVector name (IntV k))))
      else rbind (parse_ensure (is_valid_name v)) (\<lambda>_. Inr (RetName v)))"

definition parse_subrt_meta_line_with_vecs :: "string \<Rightarrow> string \<Rightarrow> return_var list res" where
  "parse_subrt_meta_line_with_vecs key line =
     rbind (after_key key line) (\<lambda>s. rmap parse_return_var (split_values s))"

text \<open>The lines up to \<open>NETQASM_END\<close> and those behind it.\<close>

fun netqasm_lines :: "string list \<Rightarrow> (string list \<times> string list) res" where
  "netqasm_lines [] = Inl QoalaParseError"
| "netqasm_lines (l # ls) =
     (if l = ''NETQASM_END'' then Inr ([], ls)
      else rbind (netqasm_lines ls) (\<lambda>(body, rest). Inr (l # body, rest)))"

text \<open>The lines of the header, in their order.\<close>

definition parse_qubit_list :: "string \<Rightarrow> string list \<Rightarrow> (int list \<times> string list) res" where
  "parse_qubit_list key ls =
     rbind (read_line ls) (\<lambda>(line, ls').
     rbind (parse_subrt_meta_line key line) (\<lambda>values.
     rbind (on_error ValueError QoalaParseError (rmap py_int values)) (\<lambda>ids. Inr (ids, ls'))))"

definition parse_request_name :: "string list \<Rightarrow> (string option \<times> string list) res" where
  "parse_request_name ls =
     rbind (read_line ls) (\<lambda>(line, ls').
     rbind (parse_subrt_meta_line ''request'' line) (\<lambda>names.
     rbind (parse_ensure (length names \<le> 1)) (\<lambda>_.
     rbind (parse_ensure (list_all is_valid_name names)) (\<lambda>_.
     Inr (case names of [] \<Rightarrow> None | n # _ \<Rightarrow> Some n, ls')))))"

definition parse_routine_name :: "string \<Rightarrow> string list \<Rightarrow> (string \<times> string list) res" where
  "parse_routine_name keyword ls =
     rbind (read_line ls) (\<lambda>(line, ls').
     rbind (parse_ensure (py_startswith (keyword @ '' '') line)) (\<lambda>_.
     let name = py_strip (drop (length keyword + 1) line) in
     rbind (parse_ensure (is_valid_name name)) (\<lambda>_. Inr (name, ls'))))"

definition has_space :: "return_var \<Rightarrow> bool" where
  "has_space v = (case v of RetName n \<Rightarrow> CHR '' '' \<in> set n | RetVector n k \<Rightarrow> False)"

definition parse_subroutine ::
    "(string \<Rightarrow> subroutine res) \<Rightarrow> string list \<Rightarrow> (local_routine \<times> string list) res" where
  "parse_subroutine parse_netqasm ls0 =
     rbind (parse_routine_name ''SUBROUTINE'' ls0) (\<lambda>(name, ls1).
     rbind (read_line ls1) (\<lambda>(line, ls2).
     rbind (parse_subrt_meta_line ''params'' line) (\<lambda>params.
     rbind (parse_ensure (list_all is_valid_name params)) (\<lambda>_.
     rbind (read_line ls2) (\<lambda>(line, ls3).
     rbind (parse_subrt_meta_line_with_vecs ''returns'' line) (\<lambda>return_vars.
     rbind (py_assert (\<not> list_ex has_space return_vars)) (\<lambda>_.
     rbind (parse_qubit_list ''uses'' ls3) (\<lambda>(uses, ls4).
     rbind (parse_qubit_list ''keeps'' ls4) (\<lambda>(keeps, ls5).
     rbind (parse_request_name ls5) (\<lambda>(request_name, ls6).
     rbind (read_line ls6) (\<lambda>(start_line, ls7).
     rbind (parse_ensure (start_line = ''NETQASM_START'')) (\<lambda>_.
     rbind (netqasm_lines ls7) (\<lambda>(body, rest).
     rbind (parse_netqasm (py_join [newline] body)) (\<lambda>subrt.
     rbind (parse_ensure (list_all (\<lambda>arg. arg \<in> set params) (sub_arguments subrt))) (\<lambda>_.
     Inr (\<lparr>lr_name = name, lr_subroutine = subrt, lr_return_vars = return_vars,
           lr_metadata = \<lparr>qubit_use = uses, qubit_keep = keeps\<rparr>, lr_request_name = request_name\<rparr>, rest))))))))))))))))"

text \<open>
  \<open>parse\<close> of the two parsers of routines: routines are read until the text ends. Every routine
  takes at least one line, so that the number of lines is enough fuel.
\<close>

fun parse_all_routines ::
    "(string list \<Rightarrow> ('r \<times> string list) res) \<Rightarrow> ('r \<Rightarrow> string) \<Rightarrow> nat \<Rightarrow> string list \<Rightarrow> (string, 'r) dict \<Rightarrow>
     (string, 'r) dict res" where
  "parse_all_routines one name_of 0 ls d = Inl OutOfFuel"
| "parse_all_routines one name_of (Suc fuel) ls d =
     (case one ls of
        Inl e \<Rightarrow> if e = EndOfTextException then Inr d else Inl e
      | Inr (r, rest) \<Rightarrow> parse_all_routines one name_of fuel rest (dset (name_of r) r d))"

definition parse_subroutines ::
    "(string \<Rightarrow> subroutine res) \<Rightarrow> string \<Rightarrow> (string, local_routine) dict res" where
  "parse_subroutines parse_netqasm text =
     (let ls = parse_lines text in
      parse_all_routines (\<lambda>ls. on_error AssertionError QoalaParseError (parse_subroutine parse_netqasm ls))
        lr_name (Suc (length ls)) ls [])"

section \<open>Request routines\<close>

definition parse_request_line :: "string \<Rightarrow> string \<Rightarrow> string list res" where
  "parse_request_line = parse_meta_line"

definition parse_request_line_with_vecs :: "string \<Rightarrow> string \<Rightarrow> return_var list res" where
  "parse_request_line_with_vecs = parse_subrt_meta_line_with_vecs"

text \<open>The single value of a line.\<close>

definition parse_single_value :: "string \<Rightarrow> string \<Rightarrow> string res" where
  "parse_single_value key line =
     rbind (parse_request_line key line) (\<lambda>strings.
     rbind (parse_ensure (length strings = 1)) (\<lambda>_. Inr (strings ! 0)))"

definition parse_single_int_value :: "string \<Rightarrow> string \<Rightarrow> int_or_template res" where
  "parse_single_int_value key line =
     rbind (parse_single_value key line) (\<lambda>value.
     if in_braces value then
       rbind (parse_ensure (is_valid_name (template_name value))) (\<lambda>_. Inr (IntTemplate (template_name value)))
     else rbind (on_error ValueError QoalaParseError (py_int value)) (\<lambda>i. Inr (IntNum i)))"

definition parse_optional_str_value :: "string \<Rightarrow> string \<Rightarrow> string option res" where
  "parse_optional_str_value key line =
     rbind (parse_request_line key line) (\<lambda>strings.
     if strings = [] then Inr None
     else rbind (parse_ensure (length strings = 1)) (\<lambda>_. Inr (Some (strings ! 0))))"

definition parse_single_float_value :: "string \<Rightarrow> string \<Rightarrow> float_or_template res" where
  "parse_single_float_value key line =
     rbind (parse_single_value key line) (\<lambda>value.
     if in_braces value then
       rbind (parse_ensure (is_valid_name (template_name value))) (\<lambda>_. Inr (FloatTemplate (template_name value)))
     else rbind (on_error ValueError QoalaParseError (py_float value)) (\<lambda>x. Inr (FloatNum x)))"

definition epr_role_names :: "(string, epr_role) dict" where
  "epr_role_names = [(''CREATE'', CREATE), (''RECEIVE'', RECEIVE)]"

definition epr_type_names :: "(string, epr_type) dict" where
  "epr_type_names = [(''CREATE_KEEP'', CREATE_KEEP), (''MEASURE_DIRECTLY'', MEASURE_DIRECTLY),
     (''REMOTE_STATE_PREP'', REMOTE_STATE_PREP)]"

definition callback_type_names :: "(string, callback_type) dict" where
  "callback_type_names = [(''SEQUENTIAL'', SEQUENTIAL), (''WAIT_ALL'', WAIT_ALL)]"

definition parse_epr_create_role_value :: "string \<Rightarrow> string \<Rightarrow> epr_role res" where
  "parse_epr_create_role_value key line =
     rbind (parse_single_value key line) (\<lambda>value.
     on_error KeyError QoalaParseError (dget epr_role_names (py_upper value)))"

definition parse_epr_create_type_value :: "string \<Rightarrow> string \<Rightarrow> epr_type res" where
  "parse_epr_create_type_value key line =
     rbind (parse_single_value key line) (\<lambda>value.
     on_error KeyError QoalaParseError (dget epr_type_names (py_upper value)))"

text \<open>\<open>RequestVirtIdMapping.from_str\<close> (\<open>qoala/lang/request.py\<close>)\<close>

definition virt_id_value :: "string \<Rightarrow> int_or_template res" where
  "virt_id_value s =
     (if in_braces s then Inr (IntTemplate (template_name s))
      else rbind (py_int s) (\<lambda>i. Inr (IntNum i)))"

definition virt_ids_from_str :: "string \<Rightarrow> virt_id_mapping res" where
  "virt_ids_from_str text =
     (if py_startswith ''all '' text then
        rbind (virt_id_value (drop 4 text)) (\<lambda>v.
        Inr \<lparr>vim_typ = EQUAL, vim_single_value = Some v, vim_custom_values = None\<rparr>)
      else if py_startswith ''increment '' text then
        rbind (virt_id_value (drop 10 text)) (\<lambda>v.
        Inr \<lparr>vim_typ = INCREMENT, vim_single_value = Some v, vim_custom_values = None\<rparr>)
      else if py_startswith ''custom '' text then
        rbind (rmap py_int (py_split '', '' (drop 7 text))) (\<lambda>ints.
        Inr \<lparr>vim_typ = CUSTOM, vim_single_value = None, vim_custom_values = Some ints\<rparr>)
      else Inl ValueError)"

definition parse_virt_ids :: "string \<Rightarrow> string \<Rightarrow> virt_id_mapping res" where
  "parse_virt_ids key line = rbind (after_key key line) (\<lambda>s. virt_ids_from_str (py_strip s))"

definition parse_callback_type :: "string \<Rightarrow> string \<Rightarrow> callback_type option res" where
  "parse_callback_type key line =
     rbind (parse_request_line key line) (\<lambda>values.
     if values = [] then Inr None
     else rbind (parse_ensure (length values = 1)) (\<lambda>_.
       rbind (on_error KeyError QoalaParseError (dget callback_type_names (py_upper (values ! 0)))) (\<lambda>t.
       Inr (Some t))))"

text \<open>The next line, read by one of the functions above.\<close>

definition next_field ::
    "(string \<Rightarrow> string \<Rightarrow> 'a res) \<Rightarrow> string \<Rightarrow> string list \<Rightarrow> ('a \<times> string list) res" where
  "next_field parse key ls = rbind (read_line ls) (\<lambda>(line, ls'). rbind (parse key line) (\<lambda>v. Inr (v, ls')))"

definition as_float :: "int_or_template \<Rightarrow> float_or_template" where
  "as_float v = (case v of IntNum i \<Rightarrow> FloatNum (real_of_int i) | IntTemplate t \<Rightarrow> FloatTemplate t)"

definition parse_request :: "string list \<Rightarrow> (request_routine \<times> string list) res" where
  "parse_request ls0 =
     rbind (parse_routine_name ''REQUEST'' ls0) (\<lambda>(name, ls1).
     rbind (next_field parse_callback_type ''callback_type'' ls1) (\<lambda>(callback_type, ls2).
     rbind (next_field parse_optional_str_value ''callback'' ls2) (\<lambda>(callback, ls3).
     rbind (parse_ensure (pred_option is_valid_name callback)) (\<lambda>_.
     rbind (parse_ensure (callback = None \<or> callback_type \<noteq> None)) (\<lambda>_.
     rbind (next_field parse_request_line_with_vecs ''return_vars'' ls3) (\<lambda>(return_vars, ls4).
     rbind (next_field parse_single_int_value ''remote_id'' ls4) (\<lambda>(remote_id, ls5).
     rbind (next_field parse_single_int_value ''epr_socket_id'' ls5) (\<lambda>(epr_socket_id, ls6).
     rbind (next_field parse_single_int_value ''num_pairs'' ls6) (\<lambda>(num_pairs, ls7).
     rbind (next_field parse_virt_ids ''virt_ids'' ls7) (\<lambda>(virt_ids, ls8).
     rbind (next_field parse_single_int_value ''timeout'' ls8) (\<lambda>(timeout, ls9).
     rbind (next_field parse_single_float_value ''fidelity'' ls9) (\<lambda>(fidelity, ls10).
     rbind (next_field parse_epr_create_type_value ''typ'' ls10) (\<lambda>(typ, ls11).
     rbind (next_field parse_epr_create_role_value ''role'' ls11) (\<lambda>(role, ls12).
     Inr (\<lparr>rr_name = name,
       rr_request = \<lparr>rq_name = name, rq_remote_id = remote_id, rq_epr_socket_id = epr_socket_id,
         rq_num_pairs = num_pairs, rq_virt_ids = virt_ids, rq_timeout = as_float timeout,
         rq_fidelity = fidelity, rq_typ = typ, rq_role = role\<rparr>,
       rr_return_vars = return_vars,
       rr_callback_type = (case callback_type of None \<Rightarrow> WAIT_ALL | Some t \<Rightarrow> t),
       rr_callback = callback\<rparr>, ls12)))))))))))))))"

definition parse_requests :: "string \<Rightarrow> (string, request_routine) dict res" where
  "parse_requests text =
     (let ls = parse_lines text in parse_all_routines parse_request rr_name (Suc (length ls)) ls [])"

section \<open>Programs\<close>

text \<open>The first line that contains the keyword.\<close>

definition first_line_with :: "string \<Rightarrow> string list \<Rightarrow> nat option" where
  "first_line_with keyword ls = find_index (py_contains keyword) ls"

text \<open>\<open>_split_text\<close>: without \<open>META_END\<close> a local variable is read that has no value.\<close>

definition split_text :: "string \<Rightarrow> (string \<times> string \<times> string \<times> string) res" where
  "split_text text =
     (let lines = map py_strip (py_split [newline] text);
          lines_text = (\<lambda>a b. py_join [newline] (take (b - a) (drop a lines))) in
      case first_line_with ''META_END'' lines of
        None \<Rightarrow> Inl UnboundLocalError
      | Some meta_end \<Rightarrow>
          let meta_text = lines_text 0 (meta_end + 1);
              end_line = length lines in
          (case (first_line_with ''SUBROUTINE'' lines, first_line_with ''REQUEST'' lines) of
             (None, None) \<Rightarrow> Inr (meta_text, lines_text (meta_end + 1) end_line, [], [])
           | (Some s, None) \<Rightarrow> Inr (meta_text, lines_text (meta_end + 1) s, lines_text s end_line, [])
           | (None, Some r) \<Rightarrow> Inr (meta_text, lines_text (meta_end + 1) r, [], lines_text r end_line)
           | (Some s, Some r) \<Rightarrow>
               Inr (meta_text, lines_text (meta_end + 1) s, lines_text s r, lines_text r end_line)))"

text \<open>\<open>QoalaParser.__init__\<close>: either the whole text or the texts of the four sections.\<close>

definition parser_texts ::
    "string option \<Rightarrow> string option \<Rightarrow> string option \<Rightarrow> string option \<Rightarrow> string option \<Rightarrow>
     (string \<times> string \<times> string \<times> string) res" where
  "parser_texts text meta host subrt req =
     (case text of
        Some t \<Rightarrow>
          rbind (parse_ensure (meta = None \<and> host = None \<and> subrt = None \<and> req = None)) (\<lambda>_. split_text t)
      | None \<Rightarrow>
          (case (meta, host, subrt, req) of
             (Some m, Some h, Some s, Some r) \<Rightarrow> Inr (m, h, s, r)
           | _ \<Rightarrow> Inl QoalaParseError))"

text \<open>\<open>instr.subroutine\<close> and \<open>instr.req_routine\<close> are asserted to be strings.\<close>

definition attr_name :: "iqoala_op \<Rightarrow> string res" where
  "attr_name instr =
     rbind (py_nth (op_attributes instr) 0) (\<lambda>v. case v of StrV s \<Rightarrow> Inr s | _ \<Rightarrow> Inl AssertionError)"

definition check_reference ::
    "(string, local_routine) dict \<Rightarrow> (string, request_routine) dict \<Rightarrow> iqoala_op \<Rightarrow> unit res" where
  "check_reference subroutines requests instr =
     (if op_class instr = RunSubroutineOp
      then rbind (attr_name instr) (\<lambda>n. parse_ensure (dhas subroutines n))
      else if op_class instr = RunRequestOp
      then rbind (attr_name instr) (\<lambda>n. parse_ensure (dhas requests n))
      else Inr ())"

definition parse_sections ::
    "(string \<Rightarrow> subroutine res) \<Rightarrow> string \<times> string \<times> string \<times> string \<Rightarrow> qoala_program res" where
  "parse_sections parse_netqasm texts = (case texts of (meta_text, host_text, subrt_text, req_text) \<Rightarrow>
     rbind (parse_host_code host_text) (\<lambda>blocks.
     rbind (parse_subroutines parse_netqasm subrt_text) (\<lambda>subroutines.
     rbind (parse_requests req_text) (\<lambda>requests.
     rbind (parse_meta meta_text) (\<lambda>meta.
     rbind (rmap (check_reference subroutines requests) (concat (map block_instructions blocks))) (\<lambda>_.
     Inr (mk_program meta blocks (Some subroutines) (Some requests))))))))"

definition parse_program :: "(string \<Rightarrow> subroutine res) \<Rightarrow> string \<Rightarrow> qoala_program res" where
  "parse_program parse_netqasm text =
     rbind (parser_texts (Some text) None None None None) (parse_sections parse_netqasm)"

end
