(* ===== verification/PyTextExec.thy ===== *)
theory PyTextExec
  imports PyText
begin

text \<open>
  What the string methods do with texts that a printer has put together: stripping keeps what has
  no white space at its ends, splitting undoes joining, and printed numbers and names contain no
  punctuation.
\<close>

section \<open>Stripping\<close>

definition tidy :: "string \<Rightarrow> bool" where
  "tidy s \<longleftrightarrow> s \<noteq> [] \<and> \<not> is_space (hd s) \<and> \<not> is_space (last s)"

lemma rev_nonempty: "s \<noteq> [] \<Longrightarrow> \<exists>t. rev s = last s # t"
  by (cases s rule: rev_cases) auto

lemma strip_tidy: "tidy s \<Longrightarrow> py_strip s = s"
proof -
  assume s: "tidy s"
  then obtain t where t: "rev s = last s # t" using rev_nonempty tidy_def by blast
  have "py_lstrip s = s" using s by (cases s) (auto simp: tidy_def py_lstrip_def)
  moreover have "dropWhile is_space (rev s) = rev s" using s unfolding t by (simp add: tidy_def)
  ultimately show ?thesis by (simp add: py_strip_def py_rstrip_def)
qed

lemma strip_Nil [simp]: "py_strip [] = []"
  by (simp add: py_strip_def py_lstrip_def py_rstrip_def)

lemma strip_Cons: "is_space c \<Longrightarrow> py_strip (c # s) = py_strip s"
  by (simp add: py_strip_def py_lstrip_def)

lemma rstrip_snoc: "is_space c \<Longrightarrow> py_rstrip (s @ [c]) = py_rstrip s"
  by (simp add: py_rstrip_def)

lemma strip_snoc:
  assumes "is_space c"
  shows "py_strip (s @ [c]) = py_strip s"
proof (cases "\<forall>x \<in> set s. is_space x")
  case True
  then have "py_lstrip s = []" "py_lstrip (s @ [c]) = []" using assms by (auto simp: py_lstrip_def)
  then show ?thesis by (simp add: py_strip_def)
next
  case False
  then have "py_lstrip (s @ [c]) = py_lstrip s @ [c]" by (auto simp: py_lstrip_def)
  then show ?thesis using assms by (simp add: py_strip_def rstrip_snoc)
qed

lemma space_chars [simp]: "is_space CHR '' ''" "is_space newline"
  by (simp_all add: is_space_def)

lemma tidyI: "s \<noteq> [] \<Longrightarrow> \<forall>c \<in> set s. \<not> is_space c \<Longrightarrow> tidy s"
  by (simp add: tidy_def)

lemma tidy_append: "tidy s \<Longrightarrow> tidy t \<Longrightarrow> tidy (s @ m @ t)" "tidy s \<Longrightarrow> tidy t \<Longrightarrow> tidy (s @ t)"
  by (auto simp: tidy_def)

section \<open>Splitting\<close>

lemma startswith_single [simp]: "py_startswith [c] (x # xs) \<longleftrightarrow> x = c" "\<not> py_startswith [c] []"
  by (auto simp: py_startswith_def)

lemma split_nonempty: "py_split sep s \<noteq> []"
  by (induction sep s rule: py_split.induct) (auto split: list.split)

lemma split_Cons_same [simp]: "py_split [c] (c # s) = [] # py_split [c] s"
  by simp

lemma split_app: "c \<notin> set s \<Longrightarrow> py_split [c] (s @ c # t) = s # py_split [c] t"
  by (induction s) auto

lemma split_none: "c \<notin> set s \<Longrightarrow> py_split [c] s = [s]"
  by (induction s) auto

lemma startswith_two: "py_startswith [a, b] (x # y # s) \<longleftrightarrow> x = a \<and> y = b" "\<not> py_startswith [a, b] [x]"
  "\<not> py_startswith [a, b] []"
  by (auto simp: py_startswith_def)

text \<open>A separator of two characters, the second of which does not occur before it.\<close>

lemma split_app_two:
  assumes "b \<notin> set s" "a \<noteq> b"
  shows "py_split [a, b] (s @ a # b # t) = s # py_split [a, b] t"
  using assms(1)
proof (induction s)
  case (Cons x s)
  have "\<not> py_startswith [a, b] (x # s @ a # b # t)"
    using Cons.prems assms(2) by (cases s) (auto simp: startswith_two)
  with Cons show ?case by simp
qed (simp add: startswith_two)

lemma split_none_two:
  assumes "b \<notin> set s"
  shows "py_split [a, b] s = [s]"
  using assms
proof (induction s)
  case (Cons x s)
  then have "\<not> py_startswith [a, b] (x # s)" by (cases s) (auto simp: startswith_two)
  with Cons show ?case by simp
qed simp

lemma split_join: "xs \<noteq> [] \<Longrightarrow> \<forall>x \<in> set xs. c \<notin> set x \<Longrightarrow> py_split [c] (py_join [c] xs) = xs"
proof (induction "[c]" xs rule: py_join.induct)
  case (3 x y ys)
  then show ?case by (simp add: split_app)
qed (auto simp: split_none)

lemma split_join_two:
  "xs \<noteq> [] \<Longrightarrow> \<forall>x \<in> set xs. b \<notin> set x \<Longrightarrow> a \<noteq> b \<Longrightarrow> py_split [a, b] (py_join [a, b] xs) = xs"
proof (induction "[a, b]" xs rule: py_join.induct)
  case (3 x y ys)
  then show ?case by (simp add: split_app_two)
qed (auto simp: split_none_two)

text \<open>Joining with a separator and a space, splitting at the separator and stripping.\<close>

lemma split_strip_join:
  assumes "xs \<noteq> []" "\<forall>x \<in> set xs. c \<notin> set x \<and> tidy x" "c \<noteq> CHR '' ''"
  shows "map py_strip (py_split [c] (py_join [c, CHR '' ''] xs)) = xs"
    "map py_strip (py_split [c] (CHR '' '' # py_join [c, CHR '' ''] xs)) = xs"
proof -
  have sp: "py_split [c] (CHR '' '' # s) = (case py_split [c] s of [] \<Rightarrow> [] | y # ys \<Rightarrow> (CHR '' '' # y) # ys)" for s
  proof -
    have n: "CHR '' '' \<noteq> c" using assms(3) by blast
    show ?thesis unfolding py_split.simps startswith_single if_not_P [OF n]
      using split_nonempty [of "[c]" s] by (cases "py_split [c] s") simp_all
  qed
  have strip_sp: "map py_strip (py_split [c] (CHR '' '' # s)) = map py_strip (py_split [c] s)" for s
    unfolding sp using split_nonempty [of "[c]" s] by (cases "py_split [c] s") (auto simp: strip_Cons)
  show "map py_strip (py_split [c] (py_join [c, CHR '' ''] xs)) = xs"
    using assms(1,2)
  proof (induction "[c, CHR '' '']" xs rule: py_join.induct)
    case (2 x)
    then show ?case by (simp add: split_none strip_tidy)
  next
    case (3 x y ys)
    then have "map py_strip (py_split [c] (CHR '' '' # py_join [c, CHR '' ''] (y # ys))) = y # ys"
      unfolding strip_sp by simp
    with 3 show ?case by (simp add: split_app strip_tidy del: py_split.simps)
  qed simp
  then show "map py_strip (py_split [c] (CHR '' '' # py_join [c, CHR '' ''] xs)) = xs" by (simp only: strip_sp)
qed

lemma set_join: "set (py_join sep xs) \<subseteq> set sep \<union> (\<Union>x \<in> set xs. set x)"
  by (induction sep xs rule: py_join.induct) auto

lemma not_in_join: "c \<notin> set sep \<Longrightarrow> \<forall>x \<in> set xs. c \<notin> set x \<Longrightarrow> c \<notin> set (py_join sep xs)"
  using set_join [of sep xs] by blast

lemma tidy_join: "xs \<noteq> [] \<Longrightarrow> \<forall>x \<in> set xs. tidy x \<Longrightarrow> tidy (py_join sep xs)"
proof (induction sep xs rule: py_join.induct)
  case (3 sep x y ys)
  then have "tidy x" "tidy (py_join sep (y # ys))" by auto
  then show ?case using tidy_append(1) by simp
qed auto

section \<open>Numbers and names\<close>

lemma show_int_chars: "c \<in> set (show_int i) \<Longrightarrow> is_digit c \<or> c = CHR ''-''"
  using show_nat_digits [of "nat i"] show_nat_digits [of "nat (- i)"] digit_char_props(1)
  by (auto simp: show_int_def split: if_splits)

lemma digit_no_space: "is_digit c \<Longrightarrow> \<not> is_space c"
  by (auto simp: is_digit_def is_space_def Let_def)

lemma show_int_nonempty: "show_int i \<noteq> []"
  using show_nat_nonempty by (simp add: show_int_def)

lemma tidy_show_int: "tidy (show_int i)"
proof (rule tidyI [OF show_int_nonempty])
  have "\<not> is_space CHR ''-''" by (simp add: is_space_def)
  then show "\<forall>c \<in> set (show_int i). \<not> is_space c" using show_int_chars digit_no_space by blast
qed

lemma word_no_space: "is_word c \<Longrightarrow> \<not> is_space c"
  by (auto simp: is_word_def is_alpha_def is_digit_def is_space_def Let_def)

lemma alpha_no_digit: "is_alpha c \<Longrightarrow> \<not> is_digit c \<and> c \<noteq> CHR ''-'' \<and> c \<noteq> CHR ''+'' \<and> c \<noteq> CHR ''_''"
  by (auto simp: is_alpha_def is_digit_def Let_def)

lemma py_int_name: "tidy s \<Longrightarrow> is_alpha (hd s) \<Longrightarrow> py_int s = Inl ValueError"
  using alpha_no_digit [of "hd s"] by (cases s) (auto simp: py_int_def strip_tidy)

end
