(* ===== verification/ParseExec.thy ===== *)
theory ParseExec
  imports Parse PyTextExec
begin

text \<open>
  What the parser makes of printed texts, line by line: names, fields, variables, operations and
  block headers.
\<close>

section \<open>Names and lines\<close>

lemma special_chars [simp]:
  "\<not> is_word CHR '',''" "\<not> is_word CHR '':''" "\<not> is_word CHR '';''" "\<not> is_word CHR ''=''" "\<not> is_word CHR ''(''"
  "\<not> is_word CHR '')''" "\<not> is_word CHR ''<''" "\<not> is_word CHR ''>''" "\<not> is_word CHR ''[''" "\<not> is_word CHR '']''"
  "\<not> is_word CHR ''{''" "\<not> is_word CHR ''}''" "\<not> is_word CHR ''^''" "\<not> is_word CHR '' ''" "\<not> is_word newline"
  "\<not> is_word CHR ''-''"
  by (simp_all add: is_word_def is_alpha_def is_digit_def)

lemma valid_name_word: "is_valid_name n \<Longrightarrow> c \<in> set n \<Longrightarrow> is_word c"
  by (auto simp: is_valid_name_def py_isidentifier_def list_all_iff)

lemma valid_name_char: "is_valid_name n \<Longrightarrow> \<not> is_word c \<Longrightarrow> c \<notin> set n"
  using valid_name_word by blast

lemma valid_name_nonempty: "is_valid_name n \<Longrightarrow> n \<noteq> []"
  by (simp add: is_valid_name_def py_isidentifier_def)

lemma valid_name_tidy: "is_valid_name n \<Longrightarrow> tidy n"
  using valid_name_word word_no_space valid_name_nonempty by (intro tidyI) blast+

lemma valid_name_alpha: "is_valid_name n \<Longrightarrow> is_alpha (hd n)"
  using valid_name_nonempty by (cases n) (auto simp: is_valid_name_def)

lemma valid_name_int: "is_valid_name n \<Longrightarrow> py_int n = Inl ValueError"
  by (simp add: py_int_name valid_name_tidy valid_name_alpha)

lemma show_int_word: "c \<in> set (show_int i) \<Longrightarrow> is_word c \<or> c = CHR ''-''"
  using show_int_chars by (auto simp: is_word_def)

lemma show_int_char: "\<not> is_word c \<Longrightarrow> c \<noteq> CHR ''-'' \<Longrightarrow> c \<notin> set (show_int i)"
  using show_int_word by blast

lemma tidy_const: "tidy ''tuple<''" "tidy ''META_START''" "tidy ''META_END''" "tidy ''NETQASM_START''" "tidy ''NETQASM_END''"
  by (simp_all add: tidy_def is_space_def)

text \<open>The lines of a joined text.\<close>

lemma parse_lines_join:
  assumes "\<forall>l \<in> set ls. newline \<notin> set l"
  shows "parse_lines (py_join [newline] ls) = filter (\<lambda>l. l \<noteq> []) (map py_strip ls)"
proof (cases "ls = []")
  case False
  then show ?thesis by (simp add: parse_lines_def split_join assms)
qed (simp add: parse_lines_def)

lemma filter_nonempty: "\<forall>l \<in> set ls. l \<noteq> [] \<Longrightarrow> filter (\<lambda>l. l \<noteq> []) ls = ls"
  by (simp add: filter_id_conv)

lemma parse_lines_tidy:
  assumes "\<forall>l \<in> set ls. newline \<notin> set l \<and> tidy l"
  shows "parse_lines (py_join [newline] ls) = ls"
proof -
  have "map py_strip ls = ls" using assms by (induction ls) (auto simp: strip_tidy)
  moreover have "\<forall>l \<in> set ls. l \<noteq> []" using assms by (auto simp: tidy_def)
  ultimately show ?thesis using assms by (simp add: parse_lines_join filter_nonempty)
qed

text \<open>A field \<open>key: values\<close>.\<close>

definition key_ok :: "string \<Rightarrow> bool" where
  "key_ok key \<longleftrightarrow> tidy key \<and> CHR '':'' \<notin> set key \<and> newline \<notin> set key"

definition value_ok :: "string \<Rightarrow> bool" where
  "value_ok v \<longleftrightarrow> tidy v \<and> CHR '':'' \<notin> set v \<and> CHR '','' \<notin> set v \<and> newline \<notin> set v"

definition field :: "string \<Rightarrow> string list \<Rightarrow> string" where
  "field key vs = key @ '': '' @ py_join '', '' vs"

lemma colon_no_space: "\<not> is_space CHR '':''"
  by (simp add: is_space_def)

lemma strip_field:
  assumes "key_ok key" "\<forall>v \<in> set vs. value_ok v"
  shows "py_strip (field key vs) = (if vs = [] then key @ '':'' else field key vs)"
proof (cases "vs = []")
  case True
  have "tidy (key @ '':'')" using assms(1) by (simp add: key_ok_def tidy_def colon_no_space)
  then have "py_strip ((key @ '':'') @ [CHR '' '']) = key @ '':''"
    by (simp only: strip_snoc [OF space_chars(1)] strip_tidy)
  with True show ?thesis by (simp add: field_def)
next
  case False
  then have "tidy (py_join '', '' vs)" using assms(2) by (intro tidy_join) (auto simp: value_ok_def)
  then have "tidy (field key vs)" using assms(1) tidy_append(1) [of key "py_join '', '' vs" "'': ''"]
    by (simp add: field_def key_ok_def)
  with False show ?thesis by (simp add: strip_tidy)
qed

lemma after_key_printed:
  assumes "key_ok key" "CHR '':'' \<notin> set s"
  shows "after_key key (key @ CHR '':'' # s) = Inr s"
proof -
  have "py_split '':'' (key @ CHR '':'' # s) = [key, s]"
    using assms by (simp add: key_ok_def split_app split_none del: py_split.simps)
  moreover have "py_count CHR '':'' (key @ CHR '':'' # s) = 1" using assms by (simp add: key_ok_def count_list_0_iff)
  ultimately show ?thesis by (simp add: after_key_def)
qed

lemma field_values:
  assumes "key_ok key" "\<forall>v \<in> set vs. value_ok v"
  shows "parse_meta_line key (py_strip (field key vs)) = Inr vs"
proof (cases "vs = []")
  case True
  with strip_field [OF assms] after_key_printed [OF assms(1), of "[]"] show ?thesis
    by (simp add: parse_meta_line_def split_values_def)
next
  case False
  let ?s = "CHR '' '' # py_join '', '' vs"
  have "CHR '':'' \<notin> set (py_join '', '' vs)" using assms(2) by (intro not_in_join) (auto simp: value_ok_def)
  then have "after_key key (field key vs) = Inr ?s"
    using after_key_printed [OF assms(1), of ?s] by (simp add: field_def)
  moreover have "split_values ?s = vs"
    using split_strip_join(2) [OF False, of "CHR '',''"] assms(2) by (simp add: split_values_def value_ok_def del: py_split.simps)
  ultimately show ?thesis using False by (simp add: strip_field [OF assms] parse_meta_line_def)
qed

lemma valid_name_value: "is_valid_name n \<Longrightarrow> value_ok n"
  by (simp add: value_ok_def valid_name_tidy valid_name_char)

text \<open>An entry of a mapping.\<close>

definition mapping_text :: "int \<times> string \<Rightarrow> string" where
  "mapping_text x = (case x of (k, v) \<Rightarrow> show_int k @ '' -> '' @ v)"

lemma mapping_entry_printed:
  assumes "is_valid_name v"
  shows "value_ok (mapping_text (k, v))" "parse_mapping_entry (mapping_text (k, v)) = Inr (k, v)"
proof -
  have t: "tidy (show_int k @ '' -> '' @ v)"
    using tidy_append(1) [OF tidy_show_int valid_name_tidy [OF assms]] .
  then show "value_ok (mapping_text (k, v))"
    using assms by (simp add: mapping_text_def value_ok_def valid_name_char show_int_char)
  have "py_split ''->'' ((show_int k @ '' '') @ CHR ''-'' # CHR ''>'' # (CHR '' '' # v)) = [show_int k @ '' '', CHR '' '' # v]"
    using assms by (subst split_app_two) (simp_all add: show_int_char valid_name_char split_none_two del: py_split.simps)
  then have s: "py_split ''->'' (mapping_text (k, v)) = [show_int k @ '' '', CHR '' '' # v]" by (simp add: mapping_text_def)
  have "py_strip (show_int k @ '' '') = show_int k" by (simp only: strip_snoc [OF space_chars(1)] strip_tidy [OF tidy_show_int])
  moreover have "py_strip (CHR '' '' # v) = v" by (simp only: strip_Cons [OF space_chars(1)] strip_tidy [OF valid_name_tidy [OF assms]])
  ultimately show "parse_mapping_entry (mapping_text (k, v)) = Inr (k, v)"
    unfolding parse_mapping_entry_def s py_count_str_def by (simp add: py_int_show on_error_def)
qed

lemma mapping_printed:
  assumes "dict_ok d" "list_all is_valid_name (map snd d)"
  shows "parse_meta_mapping (map mapping_text d) = Inr d"
proof -
  have "rmap parse_mapping_entry (map mapping_text d) = Inr d"
    using assms(2) by (induction d) (auto simp: mapping_entry_printed(2))
  moreover have "dict_of d = d" by (rule dict_of_distinct [OF assms(1)])
  ultimately show ?thesis by (simp add: parse_meta_mapping_def)
qed

text \<open>The metadata of a program.\<close>

definition wf_meta :: "program_meta \<Rightarrow> bool" where
  "wf_meta m \<longleftrightarrow> is_valid_name (pm_name m) \<and> list_all is_valid_name (pm_parameters m) \<and>
     dict_ok (pm_csockets m) \<and> list_all is_valid_name (map snd (pm_csockets m)) \<and>
     dict_ok (pm_epr_sockets m) \<and> list_all is_valid_name (map snd (pm_epr_sockets m))"

lemma field_no_newline: "key_ok key \<Longrightarrow> \<forall>v \<in> set vs. value_ok v \<Longrightarrow> newline \<notin> set (field key vs)"
  using not_in_join [of newline "'', ''" vs] by (simp add: field_def key_ok_def value_ok_def)

lemma strip_field_nonempty: "key_ok key \<Longrightarrow> \<forall>v \<in> set vs. value_ok v \<Longrightarrow> py_strip (field key vs) \<noteq> []"
  by (simp add: strip_field) (simp add: field_def)

lemma meta_keys: "key_ok ''name''" "key_ok ''parameters''" "key_ok ''csockets''" "key_ok ''epr_sockets''"
  by (simp_all add: key_ok_def tidy_def is_space_def)

lemma parse_meta_printed:
  assumes "wf_meta m"
  shows "parse_meta (meta_serialize m) = Inr m"
proof -
  let ?cs = "map mapping_text (pm_csockets m)" and ?es = "map mapping_text (pm_epr_sockets m)"
  let ?ls = "[''META_START'', field ''name'' [pm_name m], field ''parameters'' (pm_parameters m),
    field ''csockets'' ?cs, field ''epr_sockets'' ?es, ''META_END'']"
  have whole: "meta_serialize m = py_join [newline] ?ls"
    by (simp add: meta_serialize_def field_def str_mapping_def mapping_text_def [abs_def])
  have mp: "\<forall>v \<in> set (map mapping_text d). value_ok v" if "list_all is_valid_name (map snd d)" for d
    using that mapping_entry_printed(1) by (auto simp: list_all_iff)
  have v: "\<forall>v \<in> set [pm_name m]. value_ok v" "\<forall>v \<in> set (pm_parameters m). value_ok v"
    "\<forall>v \<in> set ?cs. value_ok v" "\<forall>v \<in> set ?es. value_ok v"
  proof -
    show "\<forall>v \<in> set [pm_name m]. value_ok v" "\<forall>v \<in> set (pm_parameters m). value_ok v"
      using assms valid_name_value by (auto simp: wf_meta_def list_all_iff)
    show "\<forall>v \<in> set ?cs. value_ok v" "\<forall>v \<in> set ?es. value_ok v"
      using assms mp [of "pm_csockets m"] mp [of "pm_epr_sockets m"] unfolding wf_meta_def by blast+
  qed
  have nl: "\<forall>l \<in> set ?ls. newline \<notin> set l"
    using field_no_newline [OF meta_keys(1) v(1)] field_no_newline [OF meta_keys(2) v(2)]
      field_no_newline [OF meta_keys(3) v(3)] field_no_newline [OF meta_keys(4) v(4)] by simp
  then have lines: "parse_lines (meta_serialize m) = [''META_START'', py_strip (field ''name'' [pm_name m]),
      py_strip (field ''parameters'' (pm_parameters m)), py_strip (field ''csockets'' ?cs),
      py_strip (field ''epr_sockets'' ?es), ''META_END'']"
    unfolding whole parse_lines_join [OF nl]
    using strip_field_nonempty [OF meta_keys(1) v(1)] strip_field_nonempty [OF meta_keys(2) v(2)]
      strip_field_nonempty [OF meta_keys(3) v(3)] strip_field_nonempty [OF meta_keys(4) v(4)]
      strip_tidy [OF tidy_const(2)] strip_tidy [OF tidy_const(3)] by simp
  note f = field_values [OF meta_keys(1) v(1)] field_values [OF meta_keys(2) v(2)]
    field_values [OF meta_keys(3) v(3)] field_values [OF meta_keys(4) v(4)]
  have "py_strip (pm_name m) = pm_name m" using assms by (simp add: wf_meta_def strip_tidy valid_name_tidy)
  moreover have "parse_meta_mapping ?cs = Inr (pm_csockets m)" "parse_meta_mapping ?es = Inr (pm_epr_sockets m)"
    using assms mapping_printed by (auto simp: wf_meta_def)
  ultimately show ?thesis
    using assms by (simp add: parse_meta_def lines parse_meta_body_def read_line_def f wf_meta_def on_error_def del: split_paired_All)
qed

section \<open>Variables\<close>

lemma startswith_const: "py_startswith p (p @ s)"
  by (simp add: py_startswith_def)

lemma endswith_snoc [simp]: "py_endswith [c] (s @ [c])"
  by (simp add: py_endswith_def)

text \<open>A name that the parser does not take for the beginning of a tuple.\<close>

definition plain_name :: "string \<Rightarrow> bool" where
  "plain_name n \<longleftrightarrow> is_valid_name n \<and> \<not> py_startswith ''tuple'' n"

lemma startswith_name:
  assumes "is_valid_name n" "\<not> is_word c"
  shows "py_startswith ''tuple'' (n @ c # s) = py_startswith ''tuple'' n"
proof -
  let ?k = "length ''tuple''"
  have "take ?k (n @ c # s) = ''tuple'' \<longleftrightarrow> take ?k n = ''tuple''"
  proof (cases "?k \<le> length n")
    case False
    have "is_word x" if "x \<in> set ''tuple''" for x using that by (auto simp: is_word_def is_alpha_def)
    moreover have "c \<in> set (take ?k (n @ c # s))" using False by (simp add: take_Cons' del: list.size)
    ultimately have "take ?k (n @ c # s) \<noteq> ''tuple''" using assms(2) by metis
    moreover have "take ?k n \<noteq> ''tuple''" using False arg_cong [of "take ?k n" "''tuple''" length] by auto
    ultimately show ?thesis by blast
  qed simp
  then show ?thesis by (simp only: py_startswith_def)
qed

lemma bracketed_printed:
  assumes "is_valid_name n" "\<not> is_word op" "\<not> is_word cl" "op \<noteq> cl" "op \<notin> set s" "cl \<notin> set s"
  shows "parse_bracketed op cl (n @ op # s @ [cl]) = Inr (n, s)"
proof -
  have n: "op \<notin> set n" "cl \<notin> set n" "n \<noteq> []"
    using assms(1-3) by (simp_all add: valid_name_char valid_name_nonempty)
  have "py_split [op] (n @ op # s @ [cl]) = [n, s @ [cl]]"
    using n assms(4,5) by (simp add: split_app split_none del: py_split.simps)
  moreover have "\<not> py_startswith [op] (n @ op # s @ [cl])" using n by (cases n) auto
  moreover have "py_endswith [cl] (n @ op # s @ [cl])" using endswith_snoc [of cl "n @ op # s"] by simp
  moreover have "py_count op (n @ op # s @ [cl]) = 1" "py_count cl (n @ op # s @ [cl]) = 1"
    using n assms(4-6) by (simp_all add: count_list_0_iff)
  ultimately show ?thesis using assms(1) by (simp add: parse_bracketed_def)
qed

text \<open>Variables that the parser reads back from their text: as the result in front of the equals sign,
and as arguments, where vectors are not printed and elements need a vector that has been defined.\<close>

fun result_ok :: "defined_vectors \<Rightarrow> iqoala_var \<Rightarrow> bool" where
  "result_ok vecs (IqoalaSingleton n) \<longleftrightarrow> plain_name n \<and> map_of vecs n = None"
| "result_ok vecs (IqoalaTuple vs) \<longleftrightarrow> list_all is_valid_name vs \<and> length vs \<le> 1"
| "result_ok vecs (IqoalaVector n k) \<longleftrightarrow> plain_name n \<and>
     (case k of IntV i \<Rightarrow> True | StrV s \<Rightarrow> is_valid_name s | TemplV t \<Rightarrow> False)"
| "result_ok vecs (IqoalaVectorElement n i) \<longleftrightarrow> False"

fun arg_ok :: "defined_vectors \<Rightarrow> iqoala_var \<Rightarrow> bool" where
  "arg_ok vecs (IqoalaSingleton n) \<longleftrightarrow> plain_name n \<and> map_of vecs n = None"
| "arg_ok vecs (IqoalaTuple vs) \<longleftrightarrow> list_all is_valid_name vs \<and> length vs \<le> 1"
| "arg_ok vecs (IqoalaVector n k) \<longleftrightarrow> False"
| "arg_ok vecs (IqoalaVectorElement n i) \<longleftrightarrow> plain_name n \<and> dhas vecs n"

lemma parse_singleton_printed:
  assumes "plain_name n" "map_of vecs n = None"
  shows "parse_var vecs b n = Inr (IqoalaSingleton n)"
  using assms by (simp add: parse_var_def plain_name_def parse_plain_var_def valid_name_char)

lemma str_slice_middle: "str_slice (length p) (length p + length v) (p @ v @ q) = v"
  by (simp add: str_slice_def)

lemma parse_tuple_printed:
  assumes "list_all is_valid_name vs" "length vs \<le> 1"
  shows "parse_var vecs b (''tuple<'' @ py_join '','' vs @ ''>'') = Inr (IqoalaTuple vs)"
proof -
  obtain v where v: "py_join '','' vs = v" "vs = [] \<and> v = [] \<or> vs = [v] \<and> is_valid_name v"
    using assms by (cases vs) auto
  have c: "CHR ''<'' \<notin> set v" "CHR ''>'' \<notin> set v" "CHR '';'' \<notin> set v" using v(2) by (auto simp: valid_name_char)
  have "py_endswith ''>'' (''tuple<'' @ v @ ''>'')" using endswith_snoc [of "CHR ''>''" "''tuple<'' @ v"] by simp
  moreover have "py_startswith ''tuple'' (''tuple<'' @ v @ ''>'')" by (simp add: py_startswith_def)
  moreover have "str_slice 6 (length (''tuple<'' @ v @ ''>'') - 1) (''tuple<'' @ v @ ''>'') = v"
    using str_slice_middle [of "''tuple<''" v "''>''"] by (simp add: numeral_eq_Suc)
  ultimately show ?thesis using c v(2) unfolding v(1)
    by (auto simp: parse_var_def parse_tuple_def count_list_0_iff split_none strip_tidy valid_name_tidy valid_name_nonempty
        simp del: py_split.simps dest: valid_name_nonempty)
qed

lemma parse_vector_printed:
  assumes "result_ok vecs (IqoalaVector n k)"
  shows "parse_var vecs True (str_var templ (IqoalaVector n k)) = Inr (IqoalaVector n k)"
proof -
  have n: "plain_name n" using assms by simp
  obtain s where s: "str_value templ k = s" "CHR ''<'' \<notin> set s" "CHR ''>'' \<notin> set s"
    "(case py_int s of Inr i \<Rightarrow> Inr (IqoalaVector n (IntV i)) | Inl e \<Rightarrow>
         rbind (parse_ensure (is_valid_name s)) (\<lambda>_. Inr (IqoalaVector n (StrV s)))) = Inr (IqoalaVector n k)"
    using assms
    by (cases k) (simp_all add: str_value_def py_int_show valid_name_int valid_name_char show_int_char)
  have b: "parse_bracketed CHR ''<'' CHR ''>'' (n @ CHR ''<'' # s @ ''>'') = Inr (n, s)"
    using n s(2,3) by (intro bracketed_printed) (auto simp: plain_name_def)
  have "\<not> py_startswith ''tuple'' (n @ CHR ''<'' # s @ ''>'')" using n by (simp add: plain_name_def startswith_name)
  with b s(4) show ?thesis by (simp add: parse_var_def parse_vector_def s(1))
qed

lemma parse_element_printed:
  assumes "plain_name n" "dhas vecs n"
  shows "parse_var vecs b (str_var templ (IqoalaVectorElement n i)) = Inr (IqoalaVectorElement n i)"
proof -
  have p: "parse_bracketed CHR ''['' CHR '']'' (n @ CHR ''['' # show_int i @ '']'') = Inr (n, show_int i)"
    using assms(1) by (intro bracketed_printed) (auto simp: plain_name_def show_int_char)
  have "CHR ''<'' \<notin> set n" "CHR ''<'' \<notin> set (show_int i)" using assms(1) by (simp_all add: plain_name_def valid_name_char show_int_char)
  moreover have "\<not> py_startswith ''tuple'' (n @ CHR ''['' # show_int i @ '']'')" using assms(1) by (simp add: plain_name_def startswith_name)
  ultimately show ?thesis using p assms(2)
    by (simp add: parse_var_def parse_vector_element_def py_int_show on_error_def)
qed

lemma parse_result_printed: "result_ok vecs v \<Longrightarrow> parse_var vecs True (str_var templ v) = Inr v"
  using parse_singleton_printed parse_tuple_printed parse_vector_printed by (cases v) auto

lemma parse_arg_printed: "arg_ok vecs v \<Longrightarrow> parse_var vecs False (str_var templ v) = Inr v"
  using parse_singleton_printed parse_tuple_printed parse_element_printed by (cases v) auto

section \<open>Operations\<close>

text \<open>Texts without white space and without the punctuation of an operation.\<close>

definition plain_text :: "string \<Rightarrow> bool" where
  "plain_text s \<longleftrightarrow> s \<noteq> [] \<and> (\<forall>c \<in> set s. is_word c \<or> c \<in> {CHR ''-'', CHR ''<'', CHR ''>'', CHR ''['', CHR '']''})"

lemma plain_text_tidy: "plain_text s \<Longrightarrow> tidy s"
proof -
  assume s: "plain_text s"
  have "\<not> is_space CHR ''-''" "\<not> is_space CHR ''<''" "\<not> is_space CHR ''>''" "\<not> is_space CHR ''[''" "\<not> is_space CHR '']''"
    by (simp_all add: is_space_def)
  then have "\<forall>c \<in> set s. \<not> is_space c" using s word_no_space unfolding plain_text_def by blast
  with s show "tidy s" by (intro tidyI) (simp_all add: plain_text_def)
qed

lemma plain_text_char:
  "plain_text s \<Longrightarrow> \<not> is_word c \<Longrightarrow> c \<notin> {CHR ''-'', CHR ''<'', CHR ''>'', CHR ''['', CHR '']''} \<Longrightarrow> c \<notin> set s"
  by (auto simp: plain_text_def)

lemma plain_text_punct:
  assumes "plain_text s"
  shows "CHR ''('' \<notin> set s" "CHR '')'' \<notin> set s" "CHR '','' \<notin> set s" "CHR '':'' \<notin> set s"
    "CHR ''='' \<notin> set s" "newline \<notin> set s" "CHR ''^'' \<notin> set s"
  using plain_text_char [OF assms] by (simp_all add: is_word_def is_alpha_def is_digit_def)

lemma valid_name_plain: "is_valid_name n \<Longrightarrow> plain_text n"
  using valid_name_word valid_name_nonempty by (auto simp: plain_text_def)

lemma show_int_plain: "plain_text (show_int i)"
  using show_int_word show_int_nonempty by (auto simp: plain_text_def)

lemma plain_text_append: "plain_text s \<Longrightarrow> plain_text t \<Longrightarrow> plain_text (s @ t)"
  by (auto simp: plain_text_def)

lemma plain_const: "plain_text ''tuple<''" "plain_text ''<''" "plain_text ''>''" "plain_text ''[''" "plain_text '']''"
  by (simp_all add: plain_text_def is_word_def is_alpha_def)

lemma op_name_plain: "plain_text (op_name c)"
  by (cases c) (simp_all add: plain_text_def is_word_def is_alpha_def)

definition attr_ok :: "iqoala_value \<Rightarrow> bool" where
  "attr_ok v = (case v of IntV i \<Rightarrow> True | StrV s \<Rightarrow> is_valid_name s | TemplV t \<Rightarrow> False)"

lemma attr_plain: "attr_ok v \<Longrightarrow> plain_text (str_value templ v)"
  by (auto simp: attr_ok_def str_value_def show_int_plain valid_name_plain split: iqoala_value.splits)

lemma attr_printed: "attr_ok v \<Longrightarrow> read_attr (str_value templ v) = v"
  by (auto simp: attr_ok_def str_value_def read_attr_def py_int_show valid_name_int split: iqoala_value.splits)

lemma tuple_plain:
  assumes "list_all is_valid_name vs" "length vs \<le> 1"
  shows "plain_text (''tuple<'' @ py_join '','' vs @ ''>'')"
proof -
  consider "vs = []" | v where "vs = [v]" "is_valid_name v" using assms by (cases vs) auto
  then show ?thesis
  proof cases
    case 1
    then show ?thesis using plain_text_append [OF plain_const(1,3)] by simp
  next
    case 2
    then show ?thesis
      using plain_text_append [OF plain_const(1) plain_text_append [OF valid_name_plain [OF 2(2)] plain_const(3)]] by simp
  qed
qed

lemma vector_plain:
  assumes "is_valid_name n" "plain_text s"
  shows "plain_text (n @ ''<'' @ s @ ''>'')" "plain_text (n @ ''['' @ s @ '']'')"
  by (intro plain_text_append valid_name_plain [OF assms(1)] plain_const assms(2))+

lemma result_plain: "result_ok vecs v \<Longrightarrow> plain_text (str_var templ v)"
proof (cases v)
  case (IqoalaVector n k)
  assume "result_ok vecs v"
  with IqoalaVector have "is_valid_name n" "attr_ok k" by (auto simp: plain_name_def attr_ok_def split: iqoala_value.splits)
  with IqoalaVector show ?thesis using vector_plain(1) [OF _ attr_plain] by simp
qed (use tuple_plain valid_name_plain plain_name_def in auto)

lemma arg_plain: "arg_ok vecs v \<Longrightarrow> plain_text (str_var templ v)"
proof (cases v)
  case (IqoalaVectorElement n i)
  assume "arg_ok vecs v"
  with IqoalaVectorElement show ?thesis using vector_plain(2) [OF _ show_int_plain] by (simp add: plain_name_def)
qed (use tuple_plain valid_name_plain plain_name_def in auto)

text \<open>Splitting at a character between two texts.\<close>

lemma split_two:
  assumes "c \<notin> set a" "c \<notin> set b" "tidy a" "tidy b" "c \<noteq> CHR '' ''"
  shows "map py_strip (py_split [c] (a @ CHR '' '' # c # CHR '' '' # b)) = [a, b]"
proof -
  have "c \<notin> set (a @ '' '')" "c \<notin> set (CHR '' '' # b)" using assms by auto
  then have "py_split [c] ((a @ '' '') @ c # (CHR '' '' # b)) = [a @ '' '', CHR '' '' # b]"
    using split_app [of c "a @ '' ''"] split_none [of c "CHR '' '' # b"] by metis
  moreover have "py_strip (a @ '' '') = a" "py_strip (CHR '' '' # b) = b"
    using assms(3,4) by (simp_all only: strip_snoc [OF space_chars(1)] strip_Cons [OF space_chars(1)] strip_tidy)
  ultimately show ?thesis by simp
qed

lemma split_one: "c \<notin> set a \<Longrightarrow> tidy a \<Longrightarrow> map py_strip (py_split [c] a) = [a]"
  by (simp add: split_none strip_tidy del: py_split.simps)

text \<open>The text of a call \<open>name(arguments)\<close>.\<close>

definition call_text :: "string \<Rightarrow> string list \<Rightarrow> string" where
  "call_text n as = n @ ''('' @ py_join '', '' as @ '')''"

lemma call_text_facts:
  assumes "plain_text n" "\<forall>a \<in> set as. plain_text a"
  shows "tidy (call_text n as)" "CHR ''='' \<notin> set (call_text n as)" "CHR '':'' \<notin> set (call_text n as)"
    "newline \<notin> set (call_text n as)"
proof -
  have "\<not> is_space CHR '')''" by (simp add: is_space_def)
  then show "tidy (call_text n as)" using plain_text_tidy [OF assms(1)] by (simp add: call_text_def tidy_def)
  have j: "c \<notin> set (py_join '', '' as)" if "c \<notin> set '', ''" "\<forall>a \<in> set as. c \<notin> set a" for c
    using that by (rule not_in_join)
  show "CHR ''='' \<notin> set (call_text n as)" "CHR '':'' \<notin> set (call_text n as)" "newline \<notin> set (call_text n as)"
    using assms(2) j plain_text_punct [OF assms(1)] plain_text_punct by (simp_all add: call_text_def)
qed

lemma call_printed:
  assumes "plain_text n" "\<forall>a \<in> set as. plain_text a"
  shows "parse_call (call_text n as) = Inr (n, as)"
proof -
  let ?a = "py_join '', '' as"
  have "\<forall>a \<in> set as. CHR ''('' \<notin> set a \<and> CHR '')'' \<notin> set a \<and> CHR '','' \<notin> set a" using assms(2) plain_text_punct by blast
  then have a: "CHR ''('' \<notin> set ?a" "CHR '')'' \<notin> set ?a"
    using not_in_join [of "CHR ''(''" "'', ''" as] not_in_join [of "CHR '')''" "'', ''" as] by simp_all
  have n: "CHR ''('' \<notin> set n" "CHR '')'' \<notin> set n" "n \<noteq> []"
    using assms(1) plain_text_punct [OF assms(1)] by (simp_all add: plain_text_def)
  have "as \<noteq> [] \<Longrightarrow> tidy ?a" using assms(2) plain_text_tidy by (intro tidy_join) auto
  then have "tidy (?a @ '')'')" by (cases "as = []") (auto simp: tidy_def is_space_def)
  then have split: "map py_strip (py_split ''('' (call_text n as)) = [n, ?a @ '')'']"
    using a n assms(1) by (simp add: call_text_def split_app split_none strip_tidy plain_text_tidy del: py_split.simps)
  have "py_rstrip_chars '')'' (?a @ '')'') = ?a"
    using a(2) by (cases "rev ?a") (auto simp: py_rstrip_chars_def)
  moreover have "split_values ?a = as"
  proof (cases "as = []")
    case False
    with assms(2) have "?a \<noteq> []" using \<open>as \<noteq> [] \<Longrightarrow> tidy ?a\<close> by (auto simp: tidy_def)
    moreover have "map py_strip (py_split '','' ?a) = as"
      using split_strip_join(1) [OF False, of "CHR '',''"] assms(2) plain_text_tidy plain_text_char
      by auto
    ultimately show ?thesis by (simp add: split_values_def)
  qed (simp add: split_values_def)
  moreover have "\<not> py_startswith ''('' (call_text n as)" using n by (cases n) (auto simp: call_text_def)
  moreover have "py_endswith '')'' (call_text n as)" using endswith_snoc [of "CHR '')''" "n @ ''('' @ ?a"] by (simp add: call_text_def)
  moreover have "py_count CHR ''('' (call_text n as) = 1" "py_count CHR '')'' (call_text n as) = 1"
    using a n by (simp_all add: call_text_def count_list_0_iff)
  ultimately show ?thesis unfolding parse_call_def split by simp
qed

text \<open>Operations that the parser reads back: well-shaped, with variables and attributes as above.\<close>

definition after_op :: "iqoala_op \<Rightarrow> defined_vectors \<Rightarrow> defined_vectors" where
  "after_op op vecs = (case op_results op of None \<Rightarrow> vecs | Some v \<Rightarrow> define_vector v vecs)"

definition printable_op :: "defined_vectors \<Rightarrow> iqoala_op \<Rightarrow> bool" where
  "printable_op vecs op \<longleftrightarrow> wf_op op \<and> pred_option (result_ok vecs) (op_results op) \<and>
     list_all (arg_ok (after_op op vecs)) (op_arguments op) \<and> list_all attr_ok (op_attributes op)"

lemma wf_op_attr: "wf_op op \<Longrightarrow> op_attributes op = [] \<or> (\<exists>t. op_attributes op = [t])"
  by (cases "op_class op") (auto simp: wf_op_def)

lemma run_without_arguments:
  assumes "wf_op op" "op_arguments op = [IqoalaTuple []]"
  shows "from_generic_args (op_class op) r [] t = from_generic_args (op_class op) r [IqoalaTuple []] t"
  using assms by (cases "op_class op") (auto simp: wf_op_def run_subroutine_from_args_def run_request_from_args_def)

definition printed_args :: "(string \<Rightarrow> string) \<Rightarrow> iqoala_op \<Rightarrow> string list" where
  "printed_args templ op = (if op_arguments op = [IqoalaTuple []] then [] else map (str_var templ) (op_arguments op))"

definition attr_text :: "(string \<Rightarrow> string) \<Rightarrow> iqoala_op \<Rightarrow> string" where
  "attr_text templ op = (case op_attributes op of [] \<Rightarrow> [] | t # ts \<Rightarrow> '' : '' @ str_value templ t)"

lemma str_op_text:
  assumes "printable_op vecs op"
  shows "str_op templ op = (case op_results op of None \<Rightarrow> [] | Some r \<Rightarrow> str_var templ r @ '' = '') @
    call_text (op_name (op_class op)) (printed_args templ op) @ attr_text templ op"
proof -
  have "str_var templ r \<noteq> []" if "op_results op = Some r" for r
    using assms that result_plain [of vecs r templ] by (auto simp: printable_op_def plain_text_def)
  moreover have "str_value templ t \<noteq> []" if "op_attributes op = [t]" for t
    using assms that attr_plain [of t templ] by (auto simp: printable_op_def plain_text_def)
  moreover have "op_attributes op = [] \<or> (\<exists>t. op_attributes op = [t])"
    using assms wf_op_attr by (simp add: printable_op_def)
  ultimately show ?thesis
    by (auto simp: str_op_def call_text_def printed_args_def attr_text_def Let_def split: option.split)
qed

lemma printed_args_plain:
  assumes "printable_op vecs op"
  shows "\<forall>a \<in> set (printed_args templ op). plain_text a"
  using assms arg_plain by (auto simp: printed_args_def printable_op_def list_all_iff)

lemma call_attr_facts:
  fixes templ :: "string \<Rightarrow> string"
  assumes "printable_op vecs op"
  defines "call \<equiv> call_text (op_name (op_class op)) (printed_args templ op)"
  shows "tidy (call @ attr_text templ op)" "CHR ''='' \<notin> set (call @ attr_text templ op)"
    "newline \<notin> set (call @ attr_text templ op)"
    "parse_attr (call @ attr_text templ op) =
       Inr (call, if op_attributes op = [] then None else Some (hd (op_attributes op)))"
proof -
  note c = call_text_facts [OF op_name_plain printed_args_plain [OF assms(1)],
      of "op_class op" templ, folded call_def]
  have "(op_attributes op = [] \<and> attr_text templ op = []) \<or>
    (\<exists>t. op_attributes op = [t] \<and> attr_ok t \<and> attr_text templ op = '' : '' @ str_value templ t)"
    using assms(1) wf_op_attr by (force simp: printable_op_def attr_text_def)
  then have "tidy (call @ attr_text templ op) \<and> CHR ''='' \<notin> set (call @ attr_text templ op) \<and>
    newline \<notin> set (call @ attr_text templ op) \<and> parse_attr (call @ attr_text templ op) =
       Inr (call, if op_attributes op = [] then None else Some (hd (op_attributes op)))"
  proof
    assume "op_attributes op = [] \<and> attr_text templ op = []"
    then show ?thesis using c by (simp add: parse_attr_def split_one split_none strip_tidy del: py_split.simps)
  next
    assume "\<exists>t. op_attributes op = [t] \<and> attr_ok t \<and> attr_text templ op = '' : '' @ str_value templ t"
    then obtain t where t: "op_attributes op = [t]" "attr_ok t" "attr_text templ op = '' : '' @ str_value templ t" by blast
    let ?s = "str_value templ t"
    have p: "plain_text ?s" using t(2) by (rule attr_plain)
    have s: "tidy ?s" "CHR '':'' \<notin> set ?s" "CHR ''='' \<notin> set ?s" "newline \<notin> set ?s"
      using plain_text_tidy [OF p] plain_text_char [OF p] by simp_all
    have "map py_strip (py_split '':'' (call @ '' : '' @ ?s)) = [call, ?s]" using split_two [of "CHR '':''" call ?s] c s by simp
    with c s t show ?thesis using tidy_append(1) [OF c(1) s(1), of "'' : ''"]
      by (simp add: parse_attr_def strip_tidy attr_printed)
  qed
  then show "tidy (call @ attr_text templ op)" "CHR ''='' \<notin> set (call @ attr_text templ op)"
    "newline \<notin> set (call @ attr_text templ op)"
    "parse_attr (call @ attr_text templ op) =
       Inr (call, if op_attributes op = [] then None else Some (hd (op_attributes op)))" by auto
qed

lemma op_printed:
  assumes "printable_op vecs op"
  shows "parse_lhr vecs (str_op templ op) = Inr (op, after_op op vecs)" "tidy (str_op templ op)"
    "newline \<notin> set (str_op templ op)"
proof -
  let ?call = "call_text (op_name (op_class op)) (printed_args templ op)"
  let ?rest = "?call @ attr_text templ op"
  note c = call_attr_facts [OF assms, of templ]
  note shape = str_op_text [OF assms, of templ]
  have res: "parse_result vecs (str_op templ op) = Inr (op_results op, ?rest, after_op op vecs) \<and> tidy (str_op templ op) \<and>
      newline \<notin> set (str_op templ op)"
  proof (cases "op_results op")
    case None
    with c show ?thesis by (simp add: shape parse_result_def split_one after_op_def del: py_split.simps)
  next
    case (Some r)
    then have r: "result_ok vecs r" using assms by (simp add: printable_op_def)
    note p = result_plain [OF r, of templ]
    have "map py_strip (py_split ''='' (str_op templ op)) = [str_var templ r, ?rest]"
      using split_two [of "CHR ''=''" "str_var templ r" ?rest] c(1,2) plain_text_tidy [OF p] plain_text_char [OF p]
      by (simp add: shape Some)
    moreover have "tidy (str_op templ op)" "newline \<notin> set (str_op templ op)"
      using tidy_append(1) [OF plain_text_tidy [OF p] c(1), of "'' = ''"] c(3) plain_text_char [OF p, of newline]
      by (simp_all add: shape Some)
    ultimately show ?thesis using parse_result_printed [OF r] Some by (simp add: parse_result_def after_op_def)
  qed
  then show "tidy (str_op templ op)" "newline \<notin> set (str_op templ op)" by auto
  have args: "rmap (parse_var (after_op op vecs) False) (printed_args templ op) =
      Inr (if op_arguments op = [IqoalaTuple []] then [] else op_arguments op)"
  proof -
    have "rmap (parse_var (after_op op vecs) False) (map (str_var templ) as) = Inr as" if "list_all (arg_ok (after_op op vecs)) as" for as
      using that by (induction as) (auto simp: parse_arg_printed)
    with assms show ?thesis by (auto simp: printed_args_def printable_op_def)
  qed
  have "from_generic_args (op_class op) (op_results op) (if op_arguments op = [IqoalaTuple []] then [] else op_arguments op)
      (if op_attributes op = [] then None else Some (hd (op_attributes op))) = Inr op"
    using assms from_generic_args_complete [of op] run_without_arguments [of op] by (auto simp: printable_op_def)
  moreover have "dget lhr_op_names (op_name (op_class op)) = Inr (op_class op)"
    by (simp add: dget_def lhr_op_names_lookup)
  ultimately show "parse_lhr vecs (str_op templ op) = Inr (op, after_op op vecs)"
    using res c(4) call_printed [OF op_name_plain printed_args_plain [OF assms]] args
    by (simp add: parse_lhr_def)
qed

section \<open>Requests\<close>

text \<open>A line break in a printed request comes from one of its names or numbers, so that it is never read back
as the lines of a request.\<close>

lemma request_serialize_one_line:
  assumes "request_serialize templ show_float r = Inr s" "newline \<notin> set (rq_name r)"
    and "\<And>t. newline \<notin> set (templ t)" "\<And>x. newline \<notin> set (show_float x)"
  shows "newline \<notin> set s"
proof -
  have show_int: "newline \<notin> set (show_int i)" for i using show_int_chars [of newline i] by (auto simp: is_digit_def)
  have i: "newline \<notin> set (str_int_or_template templ v)" for v
    using assms(3) show_int by (simp add: str_int_or_template_def split: int_or_template.split)
  have f: "newline \<notin> set (str_float_or_template templ show_float v)" for v
    using assms(3,4) by (simp add: str_float_or_template_def split: float_or_template.split)
  have join: "newline \<notin> set (py_join '', '' (map show_int vs))" for vs
  proof (induction vs rule: induct_list012)
    case (2 x)
    then show ?case using show_int by simp
  next
    case (3 x y zs)
    then show ?case using show_int by simp
  qed simp
  obtain v where v: "str_virt_ids templ (rq_virt_ids r) = Inr v" using assms(1) by (auto simp: request_serialize_def)
  then have "newline \<notin> set v" using i join
    by (auto simp: str_virt_ids_def Let_def split: virt_id_mapping_type.splits option.splits)
  with assms(1,2) v i f show ?thesis
    by (auto simp: request_serialize_def str_epr_type_def str_epr_role_def split: epr_type.splits epr_role.splits)
qed

end
