(* ===== verification/ParseBlocks.thy ===== *)
theory ParseBlocks
  imports ParseExec
begin

text \<open>
  Blocks and whole host code: the parser reads back what the printers of blocks write, block after
  block, with the vectors that one block defines known in the next.
\<close>

section \<open>Lines of printed blocks\<close>

lemma split_append: "py_split [c] (a @ c # b) = py_split [c] a @ py_split [c] b"
proof (induction a)
  case (Cons x a)
  then show ?case using split_nonempty [of "[c]" a] by (cases "py_split [c] a") auto
qed simp

lemma parse_lines_append: "parse_lines (a @ newline # b) = parse_lines a @ parse_lines b"
  by (simp add: parse_lines_def split_append)

lemma parse_lines_Nil [simp]: "parse_lines [] = []"
  by (simp add: parse_lines_def)

lemma parse_lines_one: "newline \<notin> set l \<Longrightarrow> parse_lines l = filter (\<lambda>l. l \<noteq> []) [py_strip l]"
  by (simp add: parse_lines_def split_none)

lemma parse_lines_paragraphs:
  "parse_lines (py_join [newline, newline] ts) = concat (map parse_lines ts)"
  by (induction "[newline, newline]" ts rule: py_join.induct)
    (use parse_lines_append [of _ "newline # _"] parse_lines_append [of "[]"] in \<open>simp_all\<close>)

text \<open>An operation is printed as one line that begins with a plain text.\<close>

lemma op_text_start:
  assumes "printable_op vecs op"
  shows "\<exists>s t. str_op templ op = s @ t \<and> plain_text s"
proof (cases "op_results op")
  case None
  have "str_op templ op = op_name (op_class op) @ ''('' @ py_join '', '' (printed_args templ op) @ '')'' @ attr_text templ op"
    by (simp add: str_op_text [OF assms] None call_text_def)
  then show ?thesis using op_name_plain by blast
next
  case (Some r)
  then have "plain_text (str_var templ r)"
    using assms result_plain [of vecs r templ] by (simp add: printable_op_def)
  moreover have "\<exists>t. str_op templ op = str_var templ r @ t" using str_op_text [OF assms, of templ] Some by simp
  ultimately show ?thesis by blast
qed

lemma op_no_header:
  assumes "printable_op vecs op"
  shows "\<not> py_startswith ''^'' (str_op templ op)"
proof -
  obtain s t where s: "str_op templ op = s @ t" "plain_text s" using op_text_start [OF assms] by blast
  then have "s \<noteq> []" "CHR ''^'' \<notin> set s" using plain_text_punct(7) by (auto simp: plain_text_def)
  with s(1) show ?thesis by (cases s) auto
qed

text \<open>A list of operations, each read with the vectors that are defined before it.\<close>

fun printable_ops :: "defined_vectors \<Rightarrow> iqoala_op list \<Rightarrow> bool" where
  "printable_ops vecs [] \<longleftrightarrow> True"
| "printable_ops vecs (op # ops) \<longleftrightarrow> printable_op vecs op \<and> printable_ops (after_op op vecs) ops"

lemma instrs_printed:
  "printable_ops vecs ops \<Longrightarrow> parse_instrs vecs (map (str_op templ) ops) = Inr (ops, fold after_op ops vecs)"
  by (induction vecs ops rule: printable_ops.induct) (simp_all add: op_printed)

lemma instr_lines:
  assumes "printable_ops vecs ops"
  shows "\<forall>l \<in> set (map (str_op templ) ops). newline \<notin> set l \<and> tidy l \<and> \<not> py_startswith ''^'' l"
  using assms by (induction vecs ops rule: printable_ops.induct) (use op_printed op_no_header in auto)

lemma indented_lines:
  assumes "\<forall>l \<in> set ls. newline \<notin> set l \<and> tidy l"
  shows "parse_lines (py_join [newline] (map ((@) ''    '') ls)) = ls"
proof -
  have "map py_strip (map ((@) ''    '') ls) = ls"
    using assms by (induction ls) (auto simp: strip_Cons strip_tidy)
  moreover have "\<forall>l \<in> set ls. l \<noteq> []" using assms by (auto simp: tidy_def)
  moreover have "\<forall>l \<in> set (map ((@) ''    '') ls). newline \<notin> set l" using assms by auto
  ultimately show ?thesis by (simp only: parse_lines_join filter_nonempty)
qed

section \<open>Headers\<close>

definition block_header :: "basic_block \<Rightarrow> string" where
  "block_header b = ''^'' @ block_name b @ '' {type = '' @ str_block_type (block_typ b) @ ''}:''"

definition printable_block :: "defined_vectors \<Rightarrow> basic_block \<Rightarrow> bool" where
  "printable_block vecs b \<longleftrightarrow>
     is_valid_name (block_name b) \<and> block_deadlines b = None \<and> printable_ops vecs (block_instructions b)"

lemma header_tidy: "tidy (block_header b)" "py_startswith ''^'' (block_header b)"
  by (simp_all add: block_header_def tidy_def is_space_def)

lemma header_newline: "is_valid_name (block_name b) \<Longrightarrow> newline \<notin> set (block_header b)"
  using plain_text_punct(6) [OF valid_name_plain, of "block_name b"]
  by (cases "block_typ b") (auto simp: block_header_def str_block_type_def)

lemma name_braces: "is_valid_name n \<Longrightarrow> CHR ''{'' \<notin> set n \<and> CHR ''}'' \<notin> set n"
  using plain_text_char [OF valid_name_plain] by (simp add: is_word_def is_alpha_def is_digit_def)

lemma annotations_printed: "parse_block_annotations (''type = '' @ str_block_type t) = Inr (t, None)"
proof -
  have "\<forall>t \<in> set [CL, CC, QL, QC]. parse_block_annotations (''type = '' @ str_block_type t) = Inr (t, None)"
    by code_simp
  then show ?thesis by (cases t) simp_all
qed

lemma header_printed:
  assumes "is_valid_name (block_name b)"
  shows "parse_block_header (block_header b) = Inr (block_name b, block_typ b, None)"
proof -
  let ?n = "block_name b" and ?a = "''type = '' @ str_block_type (block_typ b)"
  note n = name_braces [OF assms] valid_name_tidy [OF assms]
  have a: "CHR ''{'' \<notin> set ?a" "CHR ''}'' \<notin> set ?a" "tidy (?a @ ''}:'')"
    "py_find CHR ''}'' (?a @ ''}:'') = Some (length ?a)"
    by (cases "block_typ b", simp_all add: str_block_type_def tidy_def is_space_def)+
  have h: "block_header b = (CHR ''^'' # ?n @ '' '') @ CHR ''{'' # ?a @ ''}:''" by (simp add: block_header_def)
  have "CHR ''{'' \<notin> set (CHR ''^'' # ?n @ '' '')" "CHR ''{'' \<notin> set (?a @ ''}:'')" using n a by auto
  then have "py_split ''{'' (block_header b) = [CHR ''^'' # ?n @ '' '', ?a @ ''}:'']"
    unfolding h using split_app split_none by metis
  moreover have "py_strip (CHR ''^'' # ?n @ '' '') = CHR ''^'' # ?n"
  proof -
    have "tidy (CHR ''^'' # ?n)" using n(2) by (auto simp: tidy_def is_space_def)
    then show ?thesis using strip_snoc [OF space_chars(1), of "CHR ''^'' # ?n"] by (simp add: strip_tidy)
  qed
  ultimately have parts: "map py_strip (py_split ''{'' (block_header b)) = [CHR ''^'' # ?n, ?a @ ''}:'']"
    using strip_tidy [OF a(3)] by simp
  have count: "py_count CHR ''{'' (block_header b) = 1" "py_count CHR ''}'' (block_header b) = 1"
    using n(1) a(1,2) by (simp_all add: h count_list_0_iff)
  show ?thesis
    unfolding parse_block_header_def count parts Let_def using assms n(2) a(4) header_tidy(2) [of b] annotations_printed [of "block_typ b"]
    by (simp add: strip_tidy)
qed

section \<open>Blocks\<close>

lemma block_lines:
  assumes "printable_block vecs b"
  shows "parse_lines (str_block templ b) = block_header b # map (str_op templ) (block_instructions b)"
proof -
  let ?ls = "map (str_op templ) (block_instructions b)"
  have ls: "\<forall>l \<in> set ?ls. newline \<notin> set l \<and> tidy l"
    using assms instr_lines by (fastforce simp: printable_block_def)
  have "str_block templ b = block_header b @ newline # py_join [newline] (map ((@) ''    '') ?ls)"
    using assms by (simp add: str_block_def block_header_def printable_block_def Let_def comp_def)
  moreover have "parse_lines (block_header b) = [block_header b]"
    using parse_lines_one [OF header_newline] assms header_tidy(1) [of b] strip_tidy [OF header_tidy(1)]
    by (simp add: printable_block_def tidy_def)
  ultimately show ?thesis by (simp only: parse_lines_append indented_lines [OF ls]) simp
qed

lemma block_printed:
  assumes "printable_block vecs b"
  shows "parse_block vecs (py_join [newline] (block_header b # map (str_op templ) (block_instructions b))) =
    Inr (b, fold after_op (block_instructions b) vecs)"
proof -
  let ?ls = "map (str_op templ) (block_instructions b)"
  have b: "is_valid_name (block_name b)" "block_deadlines b = None" "printable_ops vecs (block_instructions b)"
    using assms by (simp_all add: printable_block_def)
  have ls: "\<forall>l \<in> set ?ls. newline \<notin> set l \<and> tidy l" using instr_lines [OF b(3)] by blast
  then have "parse_lines (py_join [newline] (block_header b # ?ls)) = block_header b # ?ls"
    using header_tidy(1) header_newline [OF b(1)] by (intro parse_lines_tidy) simp
  moreover have "parse_lines (py_join [newline] ?ls) = ?ls" using ls by (rule parse_lines_tidy)
  ultimately show ?thesis
    using b(2) by (simp add: parse_block_def header_printed [OF b(1)] instrs_printed [OF b(3)] py_nth_def py_index_def Let_def del: py_join.simps)
qed

text \<open>Blocks follow each other, so that only headers begin with a caret.\<close>

fun printable_blocks :: "defined_vectors \<Rightarrow> basic_block list \<Rightarrow> bool" where
  "printable_blocks vecs [] \<longleftrightarrow> True"
| "printable_blocks vecs (b # bs) \<longleftrightarrow>
     printable_block vecs b \<and> printable_blocks (fold after_op (block_instructions b) vecs) bs"

lemma group_blocks_one:
  "\<forall>l \<in> set ls. \<not> py_startswith ''^'' l \<Longrightarrow>
   group_blocks (ls @ rest) = (case group_blocks rest of (pre, groups) \<Rightarrow> (ls @ pre, groups))"
  by (induction ls) (auto split: prod.splits)

lemma host_code_groups:
  "printable_blocks vecs bs \<Longrightarrow> group_blocks (concat (map (parse_lines \<circ> str_block templ) bs)) =
     ([], map (\<lambda>b. block_header b # map (str_op templ) (block_instructions b)) bs)"
proof (induction vecs bs rule: printable_blocks.induct)
  case (2 vecs b bs)
  have "\<forall>l \<in> set (map (str_op templ) (block_instructions b)). \<not> py_startswith ''^'' l"
    using 2(2) instr_lines [of vecs "block_instructions b" templ] by (auto simp: printable_block_def)
  with 2 show ?case by (simp add: block_lines [of vecs b] group_blocks_one header_tidy)
qed simp

lemma blocks_printed:
  "printable_blocks vecs bs \<Longrightarrow>
   parse_blocks vecs (map (\<lambda>b. py_join [newline] (block_header b # map (str_op templ) (block_instructions b))) bs) = Inr bs"
proof (induction vecs bs rule: printable_blocks.induct)
  case (2 vecs b bs)
  then show ?case by (simp add: block_printed del: py_join.simps)
qed simp

lemma host_code_printed:
  assumes "printable_blocks [] (pr_blocks p)" "pr_blocks p \<noteq> []"
  shows "parse_host_code (serialize_host_code templ p) = Inr (pr_blocks p)"
  using assms host_code_groups [OF assms(1), of templ] blocks_printed [OF assms(1), of templ]
  by (simp add: parse_host_code_def serialize_host_code_def parse_lines_paragraphs get_block_texts_def comp_def del: py_join.simps)

section \<open>What the printer writes and the parser refuses\<close>

lemma header_two_braces:
  assumes "2 \<le> py_count CHR ''{'' h"
  shows "parse_block_header h = Inl QoalaParseError"
proof -
  have "\<not> (py_count CHR ''{'' h = 1 \<and> py_count CHR ''}'' h = 1)" using assms by simp
  then show ?thesis unfolding parse_block_header_def by (cases "py_startswith ''^'' h") (auto simp: ensure_def)
qed

lemma block_header_error:
  "parse_lines t = h # ls \<Longrightarrow> parse_block_header h = Inl e \<Longrightarrow> parse_block vecs t = Inl e"
  by (simp add: parse_block_def py_nth_def py_index_def Let_def)

lemma deadlines_refused:
  assumes "block_deadlines b = Some d" "is_valid_name (block_name b)" "\<forall>(k, v) \<in> set d. is_valid_name k"
  shows "parse_block vecs (str_block templ b) = Inl QoalaParseError"
proof -
  let ?h = "''^'' @ block_name b @ '' {type = '' @ str_block_type (block_typ b) @ '', deadlines: '' @ str_deadlines d @ ''}:''"
  let ?rest = "py_join [newline] (map (\<lambda>i. ''    '' @ str_op templ i) (block_instructions b))"
  let ?item = "\<lambda>(k, v). [CHR 0x27] @ k @ [CHR 0x27] @ '': '' @ show_int v"
  have item: "newline \<notin> set (?item x)" if "x \<in> set d" for x
    using that assms(3) plain_text_punct(6) [OF valid_name_plain] plain_text_punct(6) [OF show_int_plain] by fastforce
  then have "newline \<notin> set (str_deadlines d)"
    unfolding str_deadlines_def using not_in_join [of newline "'', ''" "map ?item d"] by auto
  then have nl: "newline \<notin> set ?h"
    using plain_text_punct(6) [OF valid_name_plain [OF assms(2)]] by (cases "block_typ b") (auto simp: str_block_type_def)
  have shape: "str_block templ b = ?h @ newline # ?rest" using assms(1) by (simp add: str_block_def Let_def)
  have "tidy ?h" by (simp add: tidy_def is_space_def)
  then have "parse_lines ?h = [?h]" using parse_lines_one [OF nl] strip_tidy [of ?h] by simp
  then have lines: "parse_lines (str_block templ b) = ?h # parse_lines ?rest"
    unfolding shape parse_lines_append by simp
  have "2 \<le> py_count CHR ''{'' ?h" by (simp add: str_deadlines_def)
  then have "parse_block_header ?h = Inl QoalaParseError" by (rule header_two_braces)
  with lines show ?thesis by (rule block_header_error)
qed

end
