(* ===== verification/ParseErr.thy ===== *)
theory ParseErr
  imports Parse
begin

text \<open>
  The exceptions that the parsers may raise, and what holds of every program that they accept.
\<close>

section \<open>Exceptions\<close>

text \<open>All exceptions of a computation are in a set.\<close>

definition raises :: "py_error set \<Rightarrow> 'a res \<Rightarrow> bool" where
  "raises E m \<longleftrightarrow> (\<forall>e. m = Inl e \<longrightarrow> e \<in> E)"

named_theorems raise_rules

lemma raises_Inr [raise_rules]: "raises E (Inr x)"
  by (simp add: raises_def)

lemma raises_Inl [raise_rules]: "e \<in> E \<Longrightarrow> raises E (Inl e)"
  by (simp add: raises_def)

lemma raises_bind [raise_rules]: "raises E m \<Longrightarrow> (\<And>x. m = Inr x \<Longrightarrow> raises E (f x)) \<Longrightarrow> raises E (rbind m f)"
  by (cases m) (auto simp: raises_def)

lemma raises_ensure [raise_rules]: "e \<in> E \<Longrightarrow> raises E (ensure b e)"
  by (simp add: raises_def)

lemma raises_prod [raise_rules]: "(\<And>a b. p = (a, b) \<Longrightarrow> raises E (f a b)) \<Longrightarrow> raises E (case p of (a, b) \<Rightarrow> f a b)"
  by (cases p) simp

lemma raises_Let [raise_rules]: "raises E (f x) \<Longrightarrow> raises E (Let x f)"
  by simp

lemma raises_if [raise_rules]: "(b \<Longrightarrow> raises E m) \<Longrightarrow> (\<not> b \<Longrightarrow> raises E m') \<Longrightarrow> raises E (if b then m else m')"
  by simp

lemma raises_option [raise_rules]:
  "(x = None \<Longrightarrow> raises E m) \<Longrightarrow> (\<And>v. x = Some v \<Longrightarrow> raises E (f v)) \<Longrightarrow>
   raises E (case x of None \<Rightarrow> m | Some v \<Rightarrow> f v)"
  by (cases x) simp_all

lemma raises_on_error [raise_rules]: "raises (insert e E) m \<Longrightarrow> e' \<in> E \<Longrightarrow> raises E (on_error e e' m)"
  by (auto simp: raises_def on_error_def)

lemma raises_dget [raise_rules]: "KeyError \<in> E \<Longrightarrow> raises E (dget d k)"
  by (auto simp: raises_def dget_def split: option.splits)

lemma raises_rmap [raise_rules]: "(\<And>x. raises E (f x)) \<Longrightarrow> raises E (rmap f xs)"
  by (induction xs) (auto intro: raise_rules)

lemma raises_digits: "raises {ValueError} (py_digits a b s)"
  by (induction a b s rule: py_digits.induct) (auto intro: raise_rules split: list.splits)

lemma raises_mono: "raises E m \<Longrightarrow> E \<subseteq> F \<Longrightarrow> raises F m"
  by (auto simp: raises_def)

lemma raises_int [raise_rules]: "ValueError \<in> E \<Longrightarrow> raises E (py_int s)"
  by (rule raises_mono [of "{ValueError}"])
    (auto simp: py_int_def intro!: raise_rules raises_digits split: list.splits)

lemma raises_read [raise_rules]: "EndOfTextException \<in> E \<Longrightarrow> raises E (read_line ls)"
  by (auto simp: raises_def read_line_def split: list.splits)

lemma raises_float [raise_rules]: "ValueError \<in> E \<Longrightarrow> raises E (py_float s)"
  unfolding py_float_def read_exponent_def by (auto intro!: raise_rules split: list.splits prod.splits)

section \<open>Fields\<close>

lemma raises_field [raise_rules]:
  assumes "QoalaParseError \<in> E"
  shows "raises E (after_key k l)" "raises E (parse_meta_line k l)" "raises E (parse_subrt_meta_line k l)"
    "raises E (parse_request_line k l)" "raises E (parse_single_value k l)" "raises E (parse_single_int_value k l)"
    "raises E (parse_single_float_value k l)" "raises E (parse_optional_str_value k l)"
    "raises E (parse_epr_create_role_value k l)" "raises E (parse_epr_create_type_value k l)"
    "raises E (parse_callback_type k l)"
proof -
  show a: "raises E (after_key k l)" for k l unfolding after_key_def using assms by (intro raise_rules)
  show m: "raises E (parse_meta_line k l)" for k l unfolding parse_meta_line_def by (intro raise_rules a)
  show "raises E (parse_subrt_meta_line k l)" by (simp add: parse_subrt_meta_line_def m)
  show r: "raises E (parse_request_line k l)" for k l by (simp add: parse_request_line_def m)
  show s: "raises E (parse_single_value k l)" for k l
    unfolding parse_single_value_def using assms by (intro raise_rules r)
  show "raises E (parse_single_int_value k l)"
    unfolding parse_single_int_value_def using assms by (intro raise_rules s) auto
  show "raises E (parse_single_float_value k l)"
    unfolding parse_single_float_value_def using assms by (intro raise_rules s) auto
  show "raises E (parse_optional_str_value k l)"
    unfolding parse_optional_str_value_def using assms by (intro raise_rules r)
  show "raises E (parse_epr_create_role_value k l)"
    unfolding parse_epr_create_role_value_def using assms by (intro raise_rules s) auto
  show "raises E (parse_epr_create_type_value k l)"
    unfolding parse_epr_create_type_value_def using assms by (intro raise_rules s) auto
  show "raises E (parse_callback_type k l)"
    unfolding parse_callback_type_def using assms by (intro raise_rules r) auto
qed

lemma raises_return_vars [raise_rules]:
  assumes "QoalaParseError \<in> E"
  shows "raises E (parse_subrt_meta_line_with_vecs k l)" "raises E (parse_request_line_with_vecs k l)"
proof -
  have "raises E (parse_bracketed a b s)" for a b s
    unfolding parse_bracketed_def using assms by (intro raise_rules)
  then have "raises E (parse_return_var v)" for v
    unfolding parse_return_var_def using assms by (intro raise_rules) auto
  then show "raises E (parse_subrt_meta_line_with_vecs k l)" for k l
    unfolding parse_subrt_meta_line_with_vecs_def using assms by (intro raise_rules)
  then show "raises E (parse_request_line_with_vecs k l)" by (simp add: parse_request_line_with_vecs_def)
qed

lemma meta_errors: "raises {QoalaParseError} (parse_meta t)"
proof -
  have "raises {EndOfTextException, QoalaParseError} (parse_meta_mapping vs)" for vs
    unfolding parse_meta_mapping_def parse_mapping_entry_def by (intro raise_rules) auto
  then show ?thesis unfolding parse_meta_def parse_meta_body_def by (intro raise_rules) auto
qed

section \<open>Routines\<close>

lemma raises_next [raise_rules]:
  assumes "EndOfTextException \<in> E" "\<And>k l. raises E (f k l)"
  shows "raises E (next_field f key ls)"
  unfolding next_field_def using assms by (intro raise_rules) auto

lemma raises_routine_name [raise_rules]:
  "QoalaParseError \<in> E \<Longrightarrow> EndOfTextException \<in> E \<Longrightarrow> raises E (parse_routine_name w ls)"
  unfolding parse_routine_name_def by (intro raise_rules) auto

lemma raises_virt_ids [raise_rules]:
  assumes "QoalaParseError \<in> E" "ValueError \<in> E"
  shows "raises E (parse_virt_ids k l)"
proof -
  have "raises E (virt_ids_from_str t)" for t
    unfolding virt_ids_from_str_def virt_id_value_def using assms by (intro raise_rules)
  then show ?thesis unfolding parse_virt_ids_def using assms by (intro raise_rules) auto
qed

lemma request_errors: "raises {EndOfTextException, QoalaParseError, ValueError} (parse_request ls)"
  unfolding parse_request_def by (intro raise_rules) auto

lemma raises_netqasm_lines [raise_rules]: "QoalaParseError \<in> E \<Longrightarrow> raises E (netqasm_lines ls)"
  by (induction ls) (auto intro!: raise_rules)

lemma subroutine_errors:
  assumes "\<And>t. raises E (parse_netqasm t)"
  shows "raises ({EndOfTextException, QoalaParseError, AssertionError} \<union> E) (parse_subroutine parse_netqasm ls)"
proof -
  let ?E = "{EndOfTextException, QoalaParseError, AssertionError} \<union> E"
  have q: "raises ?E (parse_qubit_list k l)" for k l unfolding parse_qubit_list_def by (intro raise_rules) auto
  have r: "raises ?E (parse_request_name l)" for l unfolding parse_request_name_def by (intro raise_rules) auto
  have n: "raises ?E (parse_netqasm t)" for t by (rule raises_mono [OF assms]) blast
  show ?thesis unfolding parse_subroutine_def by (intro raise_rules q r n) auto
qed

text \<open>Every routine takes at least one line.\<close>

lemma read_shorter: "read_line ls = Inr (l, rest) \<Longrightarrow> length rest < length ls"
  by (auto simp: read_line_def split: list.splits)

lemma next_shorter: "next_field f k ls = Inr (v, rest) \<Longrightarrow> length rest < length ls"
  by (auto simp: next_field_def dest: read_shorter)

lemma name_shorter: "parse_routine_name w ls = Inr (n, rest) \<Longrightarrow> length rest < length ls \<and> is_valid_name n"
  by (auto simp: parse_routine_name_def Let_def dest: read_shorter)

lemma netqasm_shorter: "netqasm_lines ls = Inr (b, rest) \<Longrightarrow> length rest < length ls"
  by (induction ls arbitrary: b) (fastforce split: if_splits)+

lemma request_shorter: "parse_request ls = Inr (r, rest) \<Longrightarrow> length rest < length ls"
  unfolding parse_request_def by (auto dest!: name_shorter next_shorter)

lemma subroutine_shorter: "parse_subroutine pn ls = Inr (r, rest) \<Longrightarrow> length rest < length ls"
  unfolding parse_subroutine_def parse_qubit_list_def parse_request_name_def
  by (auto dest!: name_shorter read_shorter netqasm_shorter)

lemma all_routines_errors:
  assumes "\<And>ls. raises E (one ls)" "\<And>ls r rest. one ls = Inr (r, rest) \<Longrightarrow> length rest < length ls"
  shows "length ls < fuel \<Longrightarrow> raises (E - {EndOfTextException}) (parse_all_routines one name_of fuel ls d)"
proof (induction fuel arbitrary: ls d)
  case (Suc fuel)
  show ?case
  proof (cases "one ls")
    case (Inl e)
    with assms(1) [of ls] show ?thesis by (auto simp: raises_def)
  next
    case (Inr p)
    with assms(2) [of ls] Suc show ?thesis by (cases p) fastforce
  qed
qed simp

lemma requests_errors: "raises {QoalaParseError, ValueError} (parse_requests t)"
proof -
  have "raises ({EndOfTextException, QoalaParseError, ValueError} - {EndOfTextException}) (parse_requests t)"
    unfolding parse_requests_def Let_def
    by (rule all_routines_errors) (use request_errors request_shorter in auto)
  then show ?thesis by (rule raises_mono) blast
qed

lemma subroutines_errors:
  assumes "\<And>t. raises E (parse_netqasm t)"
  shows "raises ({QoalaParseError} \<union> E) (parse_subroutines parse_netqasm t)"
proof -
  let ?E = "{EndOfTextException, QoalaParseError} \<union> E"
  have "raises ?E (on_error AssertionError QoalaParseError (parse_subroutine parse_netqasm ls))" for ls
    by (intro raise_rules raises_mono [OF subroutine_errors [of E parse_netqasm ls, OF assms]]) auto
  then have "raises (?E - {EndOfTextException}) (parse_subroutines parse_netqasm t)"
    unfolding parse_subroutines_def Let_def
    by (intro all_routines_errors) (auto simp: on_error_def dest: subroutine_shorter split: if_splits)
  then show ?thesis by (rule raises_mono) blast
qed

section \<open>Host code\<close>

text \<open>What a line or a header of host code may raise: the checks of the parser and of the constructors,
\<open>KeyError\<close> for an unknown operation, \<open>IndexError\<close> for the bare word \<open>tuple\<close>, and what deadlines raise.\<close>

abbreviation host_code_exceptions :: "py_error set" where
  "host_code_exceptions \<equiv>
     {QoalaParseError, HostLanguageSyntaxError, KeyError, IndexError, ValueError, AssertionError}"

lemma raises_py_nth [raise_rules]: "IndexError \<in> E \<Longrightarrow> raises E (py_nth xs i)"
  by (auto simp: raises_def py_nth_def py_index_def rbind_eq_Inl Let_def split: if_splits)

lemma from_generic_args_errors: "raises {HostLanguageSyntaxError} (from_generic_args c result args attr)"
  by (cases c) (auto simp: from_args_defs Let_def intro!: raise_rules)

lemma parse_var_errors: "raises {QoalaParseError, IndexError} (parse_var vecs b s)"
proof -
  have br: "raises {QoalaParseError, IndexError} (parse_bracketed a c t)" for a c t
    unfolding parse_bracketed_def by (intro raise_rules) auto
  have "raises {QoalaParseError, IndexError} (parse_vector b s)"
    unfolding parse_vector_def by (intro raise_rules br) (auto split: sum.splits intro!: raise_rules)
  moreover have "raises {QoalaParseError, IndexError} (parse_vector_element vecs s)"
    unfolding parse_vector_element_def by (intro raise_rules br) auto
  moreover have "raises {QoalaParseError, IndexError} (parse_tuple s)"
    unfolding parse_tuple_def by (intro raise_rules) auto
  moreover have "raises {QoalaParseError, IndexError} (parse_plain_var vecs s)"
    unfolding parse_plain_var_def by (intro raise_rules) auto
  ultimately show ?thesis by (simp add: parse_var_def)
qed

lemma lhr_errors: "raises {QoalaParseError, HostLanguageSyntaxError, KeyError, IndexError} (parse_lhr vecs l)"
proof -
  let ?E = "{QoalaParseError, HostLanguageSyntaxError, KeyError, IndexError}"
  have v: "raises ?E (parse_var ws b s)" for ws b s by (rule raises_mono [OF parse_var_errors]) simp
  have a: "raises ?E (from_generic_args c r xs t)" for c r xs t by (rule raises_mono [OF from_generic_args_errors]) simp
  have "raises ?E (parse_result vecs l)" unfolding parse_result_def by (intro raise_rules v) auto
  moreover have "raises ?E (parse_attr s)" for s unfolding parse_attr_def by (intro raise_rules) auto
  moreover have "raises ?E (parse_call s)" for s unfolding parse_call_def by (intro raise_rules) auto
  ultimately show ?thesis unfolding parse_lhr_def by (intro raise_rules v a) auto
qed

lemma instrs_errors: "raises {QoalaParseError, HostLanguageSyntaxError, KeyError, IndexError} (parse_instrs vecs ls)"
  by (induction vecs ls rule: parse_instrs.induct) (auto intro!: raise_rules lhr_errors)

lemma header_errors: "raises {QoalaParseError, ValueError, AssertionError} (parse_block_header l)"
proof -
  let ?E = "{QoalaParseError, ValueError, AssertionError}"
  have "raises ?E (parse_deadline i)" for i
    unfolding parse_deadline_def by (auto split: list.splits intro!: raise_rules)
  then have d: "raises ?E (parse_deadlines t)" for t
    unfolding parse_deadlines_def by (auto split: option.splits intro!: raise_rules)
  have "raises ?E (parse_block_annotations a)" for a
    unfolding parse_block_annotations_def by (intro raise_rules d) auto
  then show ?thesis unfolding parse_block_header_def by (intro raise_rules) auto
qed

lemma block_errors: "raises host_code_exceptions (parse_block vecs t)"
  unfolding parse_block_def
  by (intro raise_rules raises_mono [OF header_errors] raises_mono [OF instrs_errors]) auto

lemma host_code_errors: "raises host_code_exceptions (parse_host_code t)"
proof -
  have "raises host_code_exceptions (parse_blocks vecs ts)" for vecs ts
    by (induction vecs ts rule: parse_blocks.induct) (auto intro!: raise_rules block_errors)
  then show ?thesis unfolding parse_host_code_def get_block_texts_def by (intro raise_rules) auto
qed

text \<open>Each of the six exceptions is raised by some text.\<close>

lemma host_code_exceptions_occur:
  "parse_host_code ''x = assign_cval() : 1'' = Inl QoalaParseError"
  "parse_host_code (''^b {type = CL}:'' @ newline # ''assign_cval() : 1'') = Inl HostLanguageSyntaxError"
  "parse_host_code (''^b {type = CL}:'' @ newline # ''x = no_such_op()'') = Inl KeyError"
  "parse_host_code (''^b {type = CL}:'' @ newline # ''tuple = assign_cval() : 1'') = Inl IndexError"
  "parse_host_code ''^b {type = CL, deadlines = [a]}:'' = Inl ValueError"
  "parse_host_code ''^b {type = CL, deadlines = a}:'' = Inl AssertionError"
  by code_simp+

section \<open>Accepted programs\<close>

text \<open>
  What holds of a program once it has been parsed: blocks and operations are well-formed, routines
  are found under their own names, and the routines that the host code calls exist.
\<close>

definition calls_ok :: "(string, local_routine) dict \<Rightarrow> (string, request_routine) dict \<Rightarrow> iqoala_op \<Rightarrow> bool" where
  "calls_ok lrs rrs op \<longleftrightarrow>
     (op_class op = RunSubroutineOp \<longrightarrow> (\<exists>n. op_attributes op = [StrV n] \<and> n \<in> set (keys lrs))) \<and>
     (op_class op = RunRequestOp \<longrightarrow> (\<exists>n. op_attributes op = [StrV n] \<and> n \<in> set (keys rrs)))"

definition wf_block :: "basic_block \<Rightarrow> bool" where
  "wf_block b \<longleftrightarrow> is_valid_name (block_name b) \<and> list_all wf_op (block_instructions b)"

definition wf_routine :: "string \<times> local_routine \<Rightarrow> bool" where
  "wf_routine kr \<longleftrightarrow> lr_name (snd kr) = fst kr \<and> is_valid_name (fst kr) \<and>
     pred_option is_valid_name (lr_request_name (snd kr))"

definition wf_request :: "string \<times> request_routine \<Rightarrow> bool" where
  "wf_request kr \<longleftrightarrow> rr_name (snd kr) = fst kr \<and> rq_name (rr_request (snd kr)) = fst kr \<and> is_valid_name (fst kr) \<and>
     pred_option is_valid_name (rr_callback (snd kr))"

definition wf_parsed :: "qoala_program \<Rightarrow> bool" where
  "wf_parsed p \<longleftrightarrow>
     pr_blocks p \<noteq> [] \<and> list_all wf_block (pr_blocks p) \<and>
     list_all wf_routine (pr_local_routines p) \<and> distinct (keys (pr_local_routines p)) \<and>
     list_all wf_request (pr_request_routines p) \<and> distinct (keys (pr_request_routines p)) \<and>
     list_all (calls_ok (pr_local_routines p) (pr_request_routines p)) (program_instructions p) \<and>
     is_valid_name (pm_name (pr_meta p)) \<and> list_all is_valid_name (pm_parameters (pr_meta p))"

lemma lhr_wf: "parse_lhr vecs l = Inr (op, vecs') \<Longrightarrow> wf_op op"
  by (auto simp: parse_lhr_def dest: from_generic_args_shape)

lemma instrs_wf: "parse_instrs vecs ls = Inr (ops, vecs') \<Longrightarrow> list_all wf_op ops"
  by (induction vecs ls arbitrary: ops rule: parse_instrs.induct) (auto dest: lhr_wf)

lemma header_name: "parse_block_header l = Inr (n, t, d) \<Longrightarrow> is_valid_name n"
  by (auto simp: parse_block_header_def Let_def split: option.splits)

lemma block_wf: "parse_block vecs t = Inr (b, vecs') \<Longrightarrow> wf_block b"
  by (auto simp: parse_block_def wf_block_def Let_def dest: header_name instrs_wf)

lemma blocks_wf: "parse_blocks vecs ts = Inr bs \<Longrightarrow> list_all wf_block bs \<and> length bs = length ts"
  by (induction vecs ts arbitrary: bs rule: parse_blocks.induct) (auto dest: block_wf)

lemma host_code_wf: "parse_host_code t = Inr bs \<Longrightarrow> list_all wf_block bs \<and> bs \<noteq> []"
  by (auto simp: parse_host_code_def get_block_texts_def Let_def dest: blocks_wf)

lemma set_dset_subset: "set (dset k v d) \<subseteq> insert (k, v) (set d)"
  by (induction d) auto

lemma all_routines_keep:
  assumes "\<And>ls r rest. one ls = Inr (r, rest) \<Longrightarrow> P (name_of r, r)"
  shows "parse_all_routines one name_of fuel ls d = Inr d' \<Longrightarrow> list_all P d \<Longrightarrow> distinct (keys d) \<Longrightarrow>
    list_all P d' \<and> distinct (keys d')"
proof (induction fuel arbitrary: ls d)
  case (Suc fuel)
  show ?case
  proof (cases "one ls")
    case (Inl e)
    with Suc.prems show ?thesis by (auto split: if_splits)
  next
    case (Inr p)
    then obtain r rest where p: "one ls = Inr (r, rest)" by (cases p) auto
    have "list_all P (dset (name_of r) r d)"
      using set_dset_subset [of "name_of r" r d] assms [OF p] Suc.prems(2) by (auto simp: list_all_iff)
    with Suc.IH [of rest "dset (name_of r) r d"] Suc.prems p show ?thesis by simp
  qed
qed simp

lemma request_name_wf:
  assumes "parse_request_name ls = Inr (n, rest)"
  shows "pred_option is_valid_name n"
proof -
  obtain names :: "string list" where "list_all is_valid_name names" "n = (case names of [] \<Rightarrow> None | x # _ \<Rightarrow> Some x)"
    using assms by (fastforce simp: parse_request_name_def)
  then show ?thesis by (cases names) auto
qed

lemma subroutine_wf: "parse_subroutine pn ls = Inr (r, rest) \<Longrightarrow> wf_routine (lr_name r, r)"
  unfolding parse_subroutine_def by (auto simp: wf_routine_def dest: name_shorter request_name_wf)

lemma request_wf: "parse_request ls = Inr (r, rest) \<Longrightarrow> wf_request (rr_name r, r)"
  unfolding parse_request_def by (auto simp: wf_request_def dest: name_shorter)

lemma attr_name_wf:
  assumes "attr_name op = Inr n" "wf_op op"
  shows "op_attributes op = [StrV n]"
proof -
  have "op_attributes op = [] \<or> (\<exists>t. op_attributes op = [t])"
    using assms(2) by (cases "op_class op") (auto simp: wf_op_def)
  then show ?thesis
  proof
    assume "op_attributes op = []"
    with assms(1) show ?thesis by (simp add: attr_name_def py_nth_def py_index_def)
  next
    assume "\<exists>t. op_attributes op = [t]"
    then obtain t where t: "op_attributes op = [t]" by blast
    with assms(1) show ?thesis by (cases t) (simp_all add: attr_name_def py_nth_def py_index_def)
  qed
qed

lemma reference_ok: "check_reference lrs rrs op = Inr u \<Longrightarrow> wf_op op \<Longrightarrow> calls_ok lrs rrs op"
  by (auto simp: check_reference_def calls_ok_def dhas_iff dest: attr_name_wf split: if_splits)

lemma references_ok:
  "rmap (check_reference lrs rrs) ops = Inr us \<Longrightarrow> list_all wf_op ops \<Longrightarrow> list_all (calls_ok lrs rrs) ops"
  by (induction ops arbitrary: us) (auto dest: reference_ok)

lemma meta_wf:
  "parse_meta t = Inr m \<Longrightarrow> is_valid_name (pm_name m) \<and> list_all is_valid_name (pm_parameters m)"
  by (auto simp: parse_meta_def parse_meta_body_def on_error_def Let_def split: if_splits)

lemma subroutines_wf: "parse_subroutines pn t = Inr d \<Longrightarrow> list_all wf_routine d \<and> distinct (keys d)"
  unfolding parse_subroutines_def Let_def
  by (erule all_routines_keep [where P = wf_routine, rotated]) (auto simp: on_error_def dest: subroutine_wf split: if_splits)

lemma requests_wf: "parse_requests t = Inr d \<Longrightarrow> list_all wf_request d \<and> distinct (keys d)"
  unfolding parse_requests_def Let_def by (erule all_routines_keep [where P = wf_request, rotated]) (auto dest: request_wf)

lemma sections_wf:
  assumes "parse_sections pn texts = Inr p"
  shows "wf_parsed p"
proof -
  obtain mt ht st rt where texts: "texts = (mt, ht, st, rt)" by (cases texts)
  from assms obtain bs lrs rrs m us where p: "parse_host_code ht = Inr bs" "parse_subroutines pn st = Inr lrs"
      "parse_requests rt = Inr rrs" "parse_meta mt = Inr m"
      "rmap (check_reference lrs rrs) (concat (map block_instructions bs)) = Inr us"
      "p = mk_program m bs (Some lrs) (Some rrs)"
    by (auto simp: parse_sections_def texts)
  note wf = host_code_wf [OF p(1)] subroutines_wf [OF p(2)] requests_wf [OF p(3)] meta_wf [OF p(4)]
  have "list_all wf_op (concat (map block_instructions bs))"
    using wf(1) by (auto simp: list_all_iff wf_block_def)
  from references_ok [OF p(5) this] wf show ?thesis
    by (simp add: p(6) wf_parsed_def mk_program_def program_instructions_def)
qed

end
