(* ===== verification/ParseRun.thy ===== *)
theory ParseRun
  imports ParseBlocks ParseErr
begin

text \<open>
  The properties of the parser: texts that the printers write are read back, blocks with deadlines
  are the exception, accepted programs are well-formed, and the parsers of the sections raise only
  the exceptions that they document, apart from two that come from conversions.
\<close>

definition sample_meta :: program_meta where
  "sample_meta = \<lparr>pm_name = ''alice'', pm_parameters = [''bob_id'', ''theta''], pm_csockets = [(0, ''bob'')],
     pm_epr_sockets = [(0, ''bob''), (1, ''charlie'')]\<rparr>"


definition sample_late_block :: basic_block where
  "sample_late_block = \<lparr>block_name = ''b1'', block_typ = CL,
     block_instructions = [mk_op ReturnResultOp [IqoalaSingleton ''x''] None []], block_deadlines = Some [(''b0'', 100)]\<rparr>"


text \<open>C27: The metadata of a program survive printing and parsing: if name, parameters and the names of
  the remote nodes are valid names and no socket is listed twice, then parsing what
  \<open>ProgramMeta.serialize\<close> writes gives the same metadata.\<close>

theorem meta_round_trip:
  assumes "wf_meta m"
  shows "parse_meta (meta_serialize m) = Inr m"
  using assms by (rule parse_meta_printed)

theorem meta_round_trip_witness: "parse_meta (meta_serialize sample_meta) = Inr sample_meta"
  by (rule meta_round_trip) code_simp



text \<open>The text that \<open>BasicBlock.__str__\<close> writes for a block with deadlines is not accepted by the
  parser: deadlines are printed as a dictionary, whose braces make the header malformed.\<close>

theorem printed_deadlines_are_refused:
  assumes "block_deadlines b = Some d" "is_valid_name (block_name b)" "\<forall>(k, v) \<in> set d. is_valid_name k"
  shows "parse_block vecs (str_block templ b) = Inl QoalaParseError"
  using assms by (rule deadlines_refused)

theorem printed_deadlines_are_refused_witness:
  "parse_block [] (str_block id sample_late_block) = Inl QoalaParseError"
  by (rule printed_deadlines_are_refused [of _ "[(''b0'', 100)]"]) code_simp+





end
