(* ===== verification/Config.thy ===== *)
theory Config
  imports LhiToEhi PyText
begin

text \<open>
  Configurations (\<open>qoala/runtime/config.py\<close>): what is read from YAML files, the classes that hold
  it, and the default descriptions of hardware. The validation that pydantic applies to the fields
  of a class is a parameter; an object that is only used through its interface, such as a noise
  model, is the record of what the methods of the interface return.
\<close>

section \<open>Values and validation\<close>

text \<open>What a YAML file contains; integers and floats are both numbers.\<close>

datatype pyval =
    PyNone | PyBool bool | PyNum real | PyStr string | PyList "pyval list" | PyDict "(string \<times> pyval) list"

abbreviation py_of_int :: "int \<Rightarrow> pyval" where
  "py_of_int i \<equiv> PyNum (real_of_int i)"

text \<open>\<open>d[k]\<close>, \<open>k in d\<close> and \<open>for x in v\<close>.\<close>

fun py_item :: "string \<Rightarrow> pyval \<Rightarrow> pyval res" where
  "py_item k (PyDict d) = dget d k"
| "py_item k v = Inl TypeError"

fun py_has :: "string \<Rightarrow> pyval \<Rightarrow> bool res" where
  "py_has k (PyDict d) = Inr (dhas d k)"
| "py_has k (PyList vs) = Inr (PyStr k \<in> set vs)"
| "py_has k (PyStr s) = Inr (py_contains k s)"
| "py_has k v = Inl TypeError"

fun py_elements :: "pyval \<Rightarrow> pyval list res" where
  "py_elements (PyList vs) = Inr vs"
| "py_elements (PyDict d) = Inr (map PyStr (keys d))"
| "py_elements (PyStr s) = Inr (map (\<lambda>c. PyStr [c]) s)"
| "py_elements v = Inl TypeError"

text \<open>\<open>[f(x) for x in d[k]]\<close>\<close>

definition item_list :: "(pyval \<Rightarrow> 'a res) \<Rightarrow> string \<Rightarrow> pyval \<Rightarrow> 'a list res" where
  "item_list f k v = rbind (py_item k v) (\<lambda>l. rbind (py_elements l) (rmap f))"

text \<open>The validation of a field of each of the types that the classes use.\<close>

record pydantic =
  pd_int :: "pyval \<Rightarrow> int res"
  pd_float :: "pyval \<Rightarrow> real res"
  pd_bool :: "pyval \<Rightarrow> bool res"
  pd_str :: "pyval \<Rightarrow> string res"
  pd_int_list :: "pyval \<Rightarrow> int list res"
  pd_bins :: "pyval \<Rightarrow> (int \<times> int \<times> int \<times> int) list res"

text \<open>Validated: a value of the type of the field is kept.\<close>

definition pydantic_ok :: "pydantic \<Rightarrow> bool" where
  "pydantic_ok pd \<longleftrightarrow>
     (\<forall>i. pd_int pd (py_of_int i) = Inr i) \<and> (\<forall>x. pd_float pd (PyNum x) = Inr x) \<and>
     (\<forall>b. pd_bool pd (PyBool b) = Inr b) \<and> (\<forall>s. pd_str pd (PyStr s) = Inr s) \<and>
     (\<forall>ids. pd_int_list pd (PyList (map py_of_int ids)) = Inr ids)"

text \<open>\<open>typ(**d)\<close>: the fields of \<open>d\<close>, a missing one is a \<open>ValidationError\<close>, a \<open>ValueError\<close>.\<close>

definition model_field :: "(pyval \<Rightarrow> 'a res) \<Rightarrow> string \<Rightarrow> pyval \<Rightarrow> 'a res" where
  "model_field validate k v =
     (case v of
        PyDict d \<Rightarrow> (case map_of d k of None \<Rightarrow> Inl ValueError | Some x \<Rightarrow> validate x)
      | _ \<Rightarrow> Inl TypeError)"

text \<open>
  The class with a name: the first of the registries of the caller that has it, else the default
  registry. Lists and dictionaries are not hashable.
\<close>

definition from_registries :: "(string, 'c) dict list option \<Rightarrow> (string, 'c) dict \<Rightarrow> pyval \<Rightarrow> 'c res" where
  "from_registries registry defaults raw_typ =
     (case raw_typ of
        PyStr name \<Rightarrow>
          (case List.find (\<lambda>reg. dhas reg name) (case registry of None \<Rightarrow> [] | Some regs \<Rightarrow> regs) of
             Some reg \<Rightarrow> dget reg name
           | None \<Rightarrow> (case map_of defaults name of None \<Rightarrow> Inl RuntimeError | Some typ \<Rightarrow> Inr typ))
      | PyList _ \<Rightarrow> Inl TypeError
      | PyDict _ \<Rightarrow> Inl TypeError
      | _ \<Rightarrow> Inl RuntimeError)"

section \<open>Qubits\<close>

record qubit_noise_config =
  qn_error_model :: error_model
  qn_error_model_kwargs :: "(string, real) dict"

definition qubit_t1t2_config :: "int \<Rightarrow> int \<Rightarrow> qubit_noise_config" where
  "qubit_t1t2_config t1 t2 =
     \<lparr>qn_error_model = T1T2NoiseModel,
      qn_error_model_kwargs = [(''T1'', real_of_int t1), (''T2'', real_of_int t2)]\<rparr>"

definition qubit_t1t2_from_dict :: "pydantic \<Rightarrow> pyval \<Rightarrow> qubit_noise_config res" where
  "qubit_t1t2_from_dict pd d =
     rbind (model_field (pd_int pd) ''T1'' d) (\<lambda>t1.
     rbind (model_field (pd_int pd) ''T2'' d) (\<lambda>t2. Inr (qubit_t1t2_config t1 t2)))"

record qubit_config =
  qc_is_communication :: bool
  qc_noise_config_cls :: string
  qc_noise_config :: qubit_noise_config

definition t1t2_config :: "pydantic \<Rightarrow> bool \<Rightarrow> real \<Rightarrow> real \<Rightarrow> qubit_config res" where
  "t1t2_config pd comm t1 t2 =
     rbind (pd_int pd (PyNum t1)) (\<lambda>i1.
     rbind (pd_int pd (PyNum t2)) (\<lambda>i2.
     rbind (pd_bool pd (PyBool comm)) (\<lambda>c.
     rbind (pd_str pd (PyStr ''T1T2NoiseModel'')) (\<lambda>s.
     Inr \<lparr>qc_is_communication = c, qc_noise_config_cls = s, qc_noise_config = qubit_t1t2_config i1 i2\<rparr>))))"

definition qubit_perfect_config :: "pydantic \<Rightarrow> bool \<Rightarrow> qubit_config res" where
  "qubit_perfect_config pd comm = t1t2_config pd comm 0 0"

definition default_qubit_registry :: "pydantic \<Rightarrow> (string, pyval \<Rightarrow> qubit_noise_config res) dict" where
  "default_qubit_registry pd = [(''QubitT1T2Config'', qubit_t1t2_from_dict pd)]"

definition qubit_config_from_dict ::
    "pydantic \<Rightarrow> (string, pyval \<Rightarrow> qubit_noise_config res) dict list option \<Rightarrow> pyval \<Rightarrow> qubit_config res" where
  "qubit_config_from_dict pd registry d =
     rbind (py_item ''is_communication'' d) (\<lambda>comm.
     rbind (py_item ''noise_config_cls'' d) (\<lambda>raw_typ.
     rbind (from_registries registry (default_qubit_registry pd) raw_typ) (\<lambda>typ.
     rbind (py_item ''noise_config'' d) (\<lambda>raw_noise_config.
     rbind (typ raw_noise_config) (\<lambda>noise_config.
     rbind (pd_bool pd comm) (\<lambda>c.
     rbind (pd_str pd raw_typ) (\<lambda>s.
     Inr \<lparr>qc_is_communication = c, qc_noise_config_cls = s, qc_noise_config = noise_config\<rparr>)))))))"

text \<open>The methods \<open>to_is_communication\<close>, \<open>to_error_model\<close> and \<open>to_error_model_kwargs\<close>.\<close>

definition qubit_interface :: "qubit_config \<Rightarrow> lhi_qubit_config" where
  "qubit_interface c =
     \<lparr>to_is_communication = qc_is_communication c,
      to_q_error_model = qn_error_model (qc_noise_config c),
      to_q_error_model_kwargs = qn_error_model_kwargs (qc_noise_config c)\<rparr>"

section \<open>Gates\<close>

record gate_noise_config =
  gn_duration :: int
  gn_error_model :: error_model
  gn_error_model_kwargs :: "(string, real) dict"

text \<open>\<open>True\<close> is the number 1.\<close>

definition gate_depolarise_config :: "int \<Rightarrow> real \<Rightarrow> gate_noise_config" where
  "gate_depolarise_config duration prob =
     \<lparr>gn_duration = duration, gn_error_model = DepolarNoiseModel,
      gn_error_model_kwargs = [(''depolar_rate'', prob), (''time_independent'', 1)]\<rparr>"

definition gate_depolarise_from_dict :: "pydantic \<Rightarrow> pyval \<Rightarrow> gate_noise_config res" where
  "gate_depolarise_from_dict pd d =
     rbind (model_field (pd_int pd) ''duration'' d) (\<lambda>duration.
     rbind (model_field (pd_float pd) ''depolarise_prob'' d) (\<lambda>prob.
     Inr (gate_depolarise_config duration prob)))"

record gate_config =
  gc_name :: string
  gc_noise_config_cls :: string
  gc_noise_config :: gate_noise_config

definition with_depolar_prob :: "pydantic \<Rightarrow> string \<Rightarrow> real \<Rightarrow> real \<Rightarrow> gate_config res" where
  "with_depolar_prob pd name duration prob =
     rbind (pd_int pd (PyNum duration)) (\<lambda>dur.
     rbind (pd_float pd (PyNum prob)) (\<lambda>p.
     rbind (pd_str pd (PyStr name)) (\<lambda>n.
     rbind (pd_str pd (PyStr ''GateDepolariseConfig'')) (\<lambda>s.
     Inr \<lparr>gc_name = n, gc_noise_config_cls = s, gc_noise_config = gate_depolarise_config dur p\<rparr>))))"

definition gate_perfect_config :: "pydantic \<Rightarrow> string \<Rightarrow> real \<Rightarrow> gate_config res" where
  "gate_perfect_config pd name duration = with_depolar_prob pd name duration 0"

definition with_single_gate_fidelity :: "pydantic \<Rightarrow> string \<Rightarrow> real \<Rightarrow> real \<Rightarrow> gate_config res" where
  "with_single_gate_fidelity pd name duration fidelity =
     rbind (fidelity_to_prob_max_mixed 1 fidelity) (\<lambda>prob. with_depolar_prob pd name duration prob)"

definition with_two_gate_fidelity :: "pydantic \<Rightarrow> string \<Rightarrow> real \<Rightarrow> real \<Rightarrow> gate_config res" where
  "with_two_gate_fidelity pd name duration fidelity =
     rbind (fidelity_to_prob_max_mixed 2 fidelity) (\<lambda>prob. with_depolar_prob pd name duration prob)"

definition default_gate_registry :: "pydantic \<Rightarrow> (string, pyval \<Rightarrow> gate_noise_config res) dict" where
  "default_gate_registry pd = [(''GateDepolariseConfig'', gate_depolarise_from_dict pd)]"

definition gate_config_from_dict ::
    "pydantic \<Rightarrow> (string, pyval \<Rightarrow> gate_noise_config res) dict list option \<Rightarrow> pyval \<Rightarrow> gate_config res" where
  "gate_config_from_dict pd registry d =
     rbind (py_item ''name'' d) (\<lambda>name.
     rbind (py_item ''noise_config_cls'' d) (\<lambda>raw_typ.
     rbind (from_registries registry (default_gate_registry pd) raw_typ) (\<lambda>typ.
     rbind (py_item ''noise_config'' d) (\<lambda>raw_noise_config.
     rbind (typ raw_noise_config) (\<lambda>noise_config.
     rbind (pd_str pd name) (\<lambda>n.
     rbind (pd_str pd raw_typ) (\<lambda>s.
     Inr \<lparr>gc_name = n, gc_noise_config_cls = s, gc_noise_config = noise_config\<rparr>)))))))"

definition default_instr_registry :: "(string, ns_instr) dict" where
  "default_instr_registry =
     [(''INSTR_INIT'', INSTR_INIT), (''INSTR_X'', INSTR_X), (''INSTR_Y'', INSTR_Y), (''INSTR_Z'', INSTR_Z),
      (''INSTR_H'', INSTR_H), (''INSTR_ROT_X'', INSTR_ROT_X), (''INSTR_ROT_Y'', INSTR_ROT_Y),
      (''INSTR_ROT_Z'', INSTR_ROT_Z), (''INSTR_CNOT'', INSTR_CNOT), (''INSTR_CZ'', INSTR_CZ),
      (''INSTR_CXDIR'', INSTR_CXDIR), (''INSTR_CYDIR'', INSTR_CYDIR), (''INSTR_MEASURE'', INSTR_MEASURE),
      (''INSTR_MEASURE_INSTANT'', INSTR_MEASURE_INSTANT)]"

definition gate_to_instruction :: "(string, ns_instr) dict list option \<Rightarrow> gate_config \<Rightarrow> ns_instr res" where
  "gate_to_instruction registry c = from_registries registry default_instr_registry (PyStr (gc_name c))"

text \<open>\<open>to_instruction()\<close>, \<open>to_duration\<close>, \<open>to_error_model\<close> and \<open>to_error_model_kwargs\<close>.\<close>

definition gate_interface :: "gate_config \<Rightarrow> lhi_gate_config res" where
  "gate_interface c =
     rbind (gate_to_instruction None c) (\<lambda>instr.
     Inr \<lparr>to_instruction = instr, to_duration = gn_duration (gc_noise_config c),
      to_g_error_model = gn_error_model (gc_noise_config c),
      to_g_error_model_kwargs = gn_error_model_kwargs (gc_noise_config c)\<rparr>)"

section \<open>Topologies\<close>

record qubit_id_config =
  qi_qubit_id :: int
  qi_qubit_config :: qubit_config

record single_gate_config =
  sg_qubit_id :: int
  sg_gate_configs :: "gate_config list"

record multi_gate_config =
  mg_qubit_ids :: "int list"
  mg_gate_configs :: "gate_config list"

record topology_config =
  tc_qubits :: "qubit_id_config list"
  tc_single_gates :: "single_gate_config list"
  tc_multi_gates :: "multi_gate_config list"

definition qubit_id_config_init :: "pydantic \<Rightarrow> pyval \<Rightarrow> qubit_config \<Rightarrow> qubit_id_config res" where
  "qubit_id_config_init pd i c =
     rbind (pd_int pd i) (\<lambda>q. Inr \<lparr>qi_qubit_id = q, qi_qubit_config = c\<rparr>)"

definition single_gate_config_init :: "pydantic \<Rightarrow> pyval \<Rightarrow> gate_config list \<Rightarrow> single_gate_config res" where
  "single_gate_config_init pd i cs =
     rbind (pd_int pd i) (\<lambda>q. Inr \<lparr>sg_qubit_id = q, sg_gate_configs = cs\<rparr>)"

definition multi_gate_config_init :: "pydantic \<Rightarrow> pyval \<Rightarrow> gate_config list \<Rightarrow> multi_gate_config res" where
  "multi_gate_config_init pd ids cs =
     rbind (pd_int_list pd ids) (\<lambda>qs. Inr \<lparr>mg_qubit_ids = qs, mg_gate_configs = cs\<rparr>)"

definition qubit_id_from_dict :: "pydantic \<Rightarrow> pyval \<Rightarrow> qubit_id_config res" where
  "qubit_id_from_dict pd d =
     rbind (py_item ''qubit_id'' d) (\<lambda>i.
     rbind (py_item ''qubit_config'' d) (\<lambda>raw.
     rbind (qubit_config_from_dict pd None raw) (\<lambda>c. qubit_id_config_init pd i c)))"

definition single_gate_from_dict :: "pydantic \<Rightarrow> pyval \<Rightarrow> single_gate_config res" where
  "single_gate_from_dict pd d =
     rbind (py_item ''qubit_id'' d) (\<lambda>i.
     rbind (item_list (gate_config_from_dict pd None) ''gate_configs'' d) (\<lambda>cs.
     single_gate_config_init pd i cs))"

definition multi_gate_from_dict :: "pydantic \<Rightarrow> pyval \<Rightarrow> multi_gate_config res" where
  "multi_gate_from_dict pd d =
     rbind (py_item ''qubit_ids'' d) (\<lambda>ids.
     rbind (item_list (gate_config_from_dict pd None) ''gate_configs'' d) (\<lambda>cs.
     multi_gate_config_init pd ids cs))"

definition topology_from_dict :: "pydantic \<Rightarrow> pyval \<Rightarrow> topology_config res" where
  "topology_from_dict pd d =
     rbind (item_list (qubit_id_from_dict pd) ''qubits'' d) (\<lambda>qubits.
     rbind (item_list (single_gate_from_dict pd) ''single_gates'' d) (\<lambda>single_gates.
     rbind (item_list (multi_gate_from_dict pd) ''multi_gates'' d) (\<lambda>multi_gates.
     Inr \<lparr>tc_qubits = qubits, tc_single_gates = single_gates, tc_multi_gates = multi_gates\<rparr>)))"

text \<open>The methods of \<open>LhiTopologyConfigInterface\<close>, with the instructions that the builder asks for.\<close>

definition qubit_configs :: "topology_config \<Rightarrow> (int, qubit_config) dict" where
  "qubit_configs t = dict_of (map (\<lambda>c. (qi_qubit_id c, qi_qubit_config c)) (tc_qubits t))"

definition single_gate_configs :: "topology_config \<Rightarrow> (int, gate_config list) dict" where
  "single_gate_configs t = dict_of (map (\<lambda>c. (sg_qubit_id c, sg_gate_configs c)) (tc_single_gates t))"

definition multi_gate_configs :: "topology_config \<Rightarrow> (multi_qubit, gate_config list) dict" where
  "multi_gate_configs t =
     dict_of (map (\<lambda>c. (MultiQubit (mg_qubit_ids c), mg_gate_configs c)) (tc_multi_gates t))"

definition topology_interface :: "topology_config \<Rightarrow> lhi_topology_config res" where
  "topology_interface t =
     rbind (rdmap (rmap gate_interface) (single_gate_configs t)) (\<lambda>single.
     rbind (rdmap (rmap gate_interface) (multi_gate_configs t)) (\<lambda>multi.
     Inr \<lparr>get_qubit_configs = dmap (\<lambda>_. qubit_interface) (qubit_configs t),
          get_single_gate_configs = single, get_multi_gate_configs = multi\<rparr>))"

text \<open>\<open>LhiTopologyBuilder.from_config\<close> on a configuration.\<close>

definition lhi_from_config :: "topology_config \<Rightarrow> lhi_topology res" where
  "lhi_from_config c = rbind (topology_interface c) (\<lambda>i. Inr (topology_from_config i))"

subsection \<open>Default topologies\<close>

text \<open>One entry of the three lists, for a qubit, for the gates of a qubit, for the gates of a pair.\<close>

definition qubit_entry :: "pydantic \<Rightarrow> bool \<Rightarrow> real \<Rightarrow> real \<Rightarrow> int \<Rightarrow> qubit_id_config res" where
  "qubit_entry pd comm t1 t2 i =
     rbind (t1t2_config pd comm t1 t2) (\<lambda>c. qubit_id_config_init pd (py_of_int i) c)"

definition gates_entry :: "pydantic \<Rightarrow> (string \<Rightarrow> gate_config res) \<Rightarrow> string list \<Rightarrow> int \<Rightarrow> single_gate_config res" where
  "gates_entry pd gate names i =
     rbind (rmap gate names) (\<lambda>cs. single_gate_config_init pd (py_of_int i) cs)"

definition pair_entry ::
    "pydantic \<Rightarrow> (string \<Rightarrow> gate_config res) \<Rightarrow> string list \<Rightarrow> int \<times> int \<Rightarrow> multi_gate_config res" where
  "pair_entry pd gate names p =
     rbind (rmap gate names) (\<lambda>cs.
     multi_gate_config_init pd (PyList [py_of_int (fst p), py_of_int (snd p)]) cs)"

definition uniform_t1t2_qubits_perfect_gates ::
    "pydantic \<Rightarrow> int \<Rightarrow> real \<Rightarrow> real \<Rightarrow> string list \<Rightarrow> real \<Rightarrow> string list \<Rightarrow> real \<Rightarrow> topology_config res" where
  "uniform_t1t2_qubits_perfect_gates pd n t1 t2 single_instrs single_dur two_instrs two_dur =
     rbind (rmap (qubit_entry pd True t1 t2) [0..n - 1]) (\<lambda>qubits.
     rbind (rmap (gates_entry pd (\<lambda>g. gate_perfect_config pd g single_dur) single_instrs) [0..n - 1]) (\<lambda>single_gates.
     rbind (rmap (pair_entry pd (\<lambda>g. gate_perfect_config pd g two_dur) two_instrs) (all_pairs n)) (\<lambda>multi_gates.
     Inr \<lparr>tc_qubits = qubits, tc_single_gates = single_gates, tc_multi_gates = multi_gates\<rparr>)))"

definition perfect_config_uniform ::
    "pydantic \<Rightarrow> int \<Rightarrow> string list \<Rightarrow> real \<Rightarrow> string list \<Rightarrow> real \<Rightarrow> topology_config res" where
  "perfect_config_uniform pd n single_instrs single_dur two_instrs two_dur =
     uniform_t1t2_qubits_perfect_gates pd n 0 0 single_instrs single_dur two_instrs two_dur"

definition generic_gates :: "string list" where
  "generic_gates =
     [''INSTR_INIT'', ''INSTR_ROT_X'', ''INSTR_ROT_Y'', ''INSTR_ROT_Z'', ''INSTR_X'', ''INSTR_Y'', ''INSTR_Z'',
      ''INSTR_H'', ''INSTR_MEASURE'', ''INSTR_MEASURE_INSTANT'']"

definition generic_two_gates :: "string list" where
  "generic_two_gates = [''INSTR_CNOT'', ''INSTR_CZ'']"

definition nv_com_gates :: "string list" where
  "nv_com_gates = [''INSTR_INIT'', ''INSTR_ROT_X'', ''INSTR_ROT_Y'', ''INSTR_MEASURE'', ''INSTR_MEASURE_INSTANT'']"

definition nv_mem_gates :: "string list" where
  "nv_mem_gates =
     [''INSTR_INIT'', ''INSTR_ROT_X'', ''INSTR_ROT_Y'', ''INSTR_ROT_Z'', ''INSTR_MEASURE'', ''INSTR_MEASURE_INSTANT'']"

definition nv_two_gates :: "string list" where
  "nv_two_gates = [''INSTR_CXDIR'', ''INSTR_CYDIR'']"

definition perfect_config_uniform_default_params :: "pydantic \<Rightarrow> int \<Rightarrow> topology_config res" where
  "perfect_config_uniform_default_params pd n =
     perfect_config_uniform pd n generic_gates 5000 generic_two_gates 200000"

definition uniform_t1t2_qubits_perfect_gates_default_params ::
    "pydantic \<Rightarrow> int \<Rightarrow> real \<Rightarrow> real \<Rightarrow> topology_config res" where
  "uniform_t1t2_qubits_perfect_gates_default_params pd n t1 t2 =
     uniform_t1t2_qubits_perfect_gates pd n t1 t2 generic_gates 5000 generic_two_gates 200000"

definition perfect_config_star ::
    "pydantic \<Rightarrow> int \<Rightarrow> string list \<Rightarrow> real \<Rightarrow> string list \<Rightarrow> real \<Rightarrow> string list \<Rightarrow> real \<Rightarrow> topology_config res" where
  "perfect_config_star pd n comm_instrs comm_dur mem_instrs mem_dur two_instrs two_dur =
     rbind (qubit_entry pd True 0 0 0) (\<lambda>comm_qubit.
     rbind (rmap (qubit_entry pd False 0 0) [1..n - 1]) (\<lambda>mem_qubits.
     rbind (gates_entry pd (\<lambda>g. gate_perfect_config pd g comm_dur) comm_instrs 0) (\<lambda>comm_gates.
     rbind (rmap (gates_entry pd (\<lambda>g. gate_perfect_config pd g mem_dur) mem_instrs) [1..n - 1]) (\<lambda>mem_gates.
     rbind (rmap (\<lambda>i. pair_entry pd (\<lambda>g. gate_perfect_config pd g two_dur) two_instrs (0, i)) [1..n - 1]) (\<lambda>multi_gates.
     Inr \<lparr>tc_qubits = comm_qubit # mem_qubits, tc_single_gates = comm_gates # mem_gates,
          tc_multi_gates = multi_gates\<rparr>)))))"

definition perfect_nv_default_params :: "pydantic \<Rightarrow> int \<Rightarrow> topology_config res" where
  "perfect_nv_default_params pd n =
     perfect_config_star pd n nv_com_gates 100000 nv_mem_gates 1000000 nv_two_gates 2000000"

end
