(* ===== verification/ConfigBuilder.thy ===== *)
theory ConfigBuilder
  imports Config
begin

text \<open>
  \<open>TopologyConfigBuilder\<close> of \<open>qoala/runtime/config.py\<close>: an object whose fields are set one by one
  and from which a topology is built. A method returns the object that it has changed.
\<close>

record topology_builder =
  tb_num_qubits :: "int option"
  tb_uniform :: "bool option"
  tb_comm_t1 :: "real option"
  tb_comm_t2 :: "real option"
  tb_mem_t1 :: "real option"
  tb_mem_t2 :: "real option"
  tb_comm_single_gates :: "string list option"
  tb_comm_single_gate_durations :: "(string, real) dict option"
  tb_comm_single_gate_fidelities :: "(string, real) dict option"
  tb_mem_single_gates :: "string list option"
  tb_mem_single_gate_durations :: "(string, real) dict option"
  tb_mem_single_gate_fidelities :: "(string, real) dict option"
  tb_two_gates :: "string list option"
  tb_two_gate_durations :: "(string, real) dict option"
  tb_two_gate_fidelities :: "(string, real) dict option"

definition init_builder :: topology_builder where
  "init_builder =
     \<lparr>tb_num_qubits = None, tb_uniform = None, tb_comm_t1 = None, tb_comm_t2 = None, tb_mem_t1 = None,
      tb_mem_t2 = None, tb_comm_single_gates = None, tb_comm_single_gate_durations = None,
      tb_comm_single_gate_fidelities = None, tb_mem_single_gates = None, tb_mem_single_gate_durations = None,
      tb_mem_single_gate_fidelities = None, tb_two_gates = None, tb_two_gate_durations = None,
      tb_two_gate_fidelities = None\<rparr>"

section \<open>Setting fields\<close>

definition num_qubits :: "int \<Rightarrow> topology_builder \<Rightarrow> topology_builder" where
  "num_qubits n b = b\<lparr>tb_num_qubits := Some n\<rparr>"

definition uniform_topology :: "topology_builder \<Rightarrow> topology_builder" where
  "uniform_topology b = b\<lparr>tb_uniform := Some True\<rparr>"

definition star_topology :: "topology_builder \<Rightarrow> topology_builder" where
  "star_topology b = b\<lparr>tb_uniform := Some False\<rparr>"

definition qubit_t1 :: "real \<Rightarrow> topology_builder \<Rightarrow> topology_builder" where
  "qubit_t1 t b = b\<lparr>tb_comm_t1 := Some t, tb_mem_t1 := Some t\<rparr>"

definition qubit_t2 :: "real \<Rightarrow> topology_builder \<Rightarrow> topology_builder" where
  "qubit_t2 t b = b\<lparr>tb_comm_t2 := Some t, tb_mem_t2 := Some t\<rparr>"

definition comm_t1 :: "real \<Rightarrow> topology_builder \<Rightarrow> topology_builder" where
  "comm_t1 t b = b\<lparr>tb_comm_t1 := Some t\<rparr>"

definition comm_t2 :: "real \<Rightarrow> topology_builder \<Rightarrow> topology_builder" where
  "comm_t2 t b = b\<lparr>tb_comm_t2 := Some t\<rparr>"

definition mem_t1 :: "real \<Rightarrow> topology_builder \<Rightarrow> topology_builder" where
  "mem_t1 t b = b\<lparr>tb_mem_t1 := Some t\<rparr>"

definition mem_t2 :: "real \<Rightarrow> topology_builder \<Rightarrow> topology_builder" where
  "mem_t2 t b = b\<lparr>tb_mem_t2 := Some t\<rparr>"

definition no_decoherence :: "topology_builder \<Rightarrow> topology_builder" where
  "no_decoherence b = b\<lparr>tb_comm_t1 := Some 0, tb_comm_t2 := Some 0, tb_mem_t1 := Some 0, tb_mem_t2 := Some 0\<rparr>"

definition default_generic_gates :: "topology_builder \<Rightarrow> topology_builder" where
  "default_generic_gates b =
     b\<lparr>tb_comm_single_gates := Some generic_gates, tb_mem_single_gates := Some generic_gates,
       tb_two_gates := Some generic_two_gates\<rparr>"

definition default_nv_gates :: "topology_builder \<Rightarrow> topology_builder" where
  "default_nv_gates b =
     b\<lparr>tb_comm_single_gates := Some nv_com_gates, tb_mem_single_gates := Some nv_mem_gates,
       tb_two_gates := Some nv_two_gates\<rparr>"

text \<open>
  The dictionary of a field, created when it is missing, with one value for every gate of a list;
  \<open>None\<close> is no list. With the name of a gate only its value is set.
\<close>

definition set_gate :: "string \<Rightarrow> real \<Rightarrow> (string, real) dict option \<Rightarrow> (string, real) dict" where
  "set_gate gate v d = dset gate v (case d of None \<Rightarrow> [] | Some x \<Rightarrow> x)"

definition set_gates :: "string list option \<Rightarrow> real \<Rightarrow> (string, real) dict option \<Rightarrow> (string, real) dict res" where
  "set_gates gates v d =
     (case gates of
        None \<Rightarrow> Inl TypeError
      | Some gs \<Rightarrow> Inr (fold (\<lambda>gate. dset gate v) gs (case d of None \<Rightarrow> [] | Some x \<Rightarrow> x)))"

definition zero_gate_durations :: "topology_builder \<Rightarrow> topology_builder res" where
  "zero_gate_durations b =
     rbind (set_gates (tb_comm_single_gates b) 0 (tb_comm_single_gate_durations b)) (\<lambda>comm.
     rbind (set_gates (tb_mem_single_gates b) 0 (tb_mem_single_gate_durations b)) (\<lambda>mem.
     rbind (set_gates (tb_two_gates b) 0 (tb_two_gate_durations b)) (\<lambda>two.
     Inr (b\<lparr>tb_comm_single_gate_durations := Some comm, tb_mem_single_gate_durations := Some mem,
            tb_two_gate_durations := Some two\<rparr>))))"

definition perfect_gate_fidelities :: "topology_builder \<Rightarrow> topology_builder res" where
  "perfect_gate_fidelities b =
     rbind (set_gates (tb_comm_single_gates b) 1 (tb_comm_single_gate_fidelities b)) (\<lambda>comm.
     rbind (set_gates (tb_mem_single_gates b) 1 (tb_mem_single_gate_fidelities b)) (\<lambda>mem.
     rbind (set_gates (tb_two_gates b) 1 (tb_two_gate_fidelities b)) (\<lambda>two.
     Inr (b\<lparr>tb_comm_single_gate_fidelities := Some comm, tb_mem_single_gate_fidelities := Some mem,
            tb_two_gate_fidelities := Some two\<rparr>))))"

definition all_comm_gates_fidelity :: "real \<Rightarrow> topology_builder \<Rightarrow> topology_builder res" where
  "all_comm_gates_fidelity f b =
     rbind (set_gates (tb_comm_single_gates b) f (tb_comm_single_gate_fidelities b)) (\<lambda>d.
     Inr (b\<lparr>tb_comm_single_gate_fidelities := Some d\<rparr>))"

definition comm_gate_fidelity :: "string \<Rightarrow> real \<Rightarrow> topology_builder \<Rightarrow> topology_builder" where
  "comm_gate_fidelity gate f b =
     b\<lparr>tb_comm_single_gate_fidelities := Some (set_gate gate f (tb_comm_single_gate_fidelities b))\<rparr>"

definition all_comm_gates_duration :: "real \<Rightarrow> topology_builder \<Rightarrow> topology_builder res" where
  "all_comm_gates_duration t b =
     rbind (set_gates (tb_comm_single_gates b) t (tb_comm_single_gate_durations b)) (\<lambda>d.
     Inr (b\<lparr>tb_comm_single_gate_durations := Some d\<rparr>))"

definition comm_gate_duration :: "string \<Rightarrow> real \<Rightarrow> topology_builder \<Rightarrow> topology_builder" where
  "comm_gate_duration gate t b =
     b\<lparr>tb_comm_single_gate_durations := Some (set_gate gate t (tb_comm_single_gate_durations b))\<rparr>"

definition all_mem_gates_fidelity :: "real \<Rightarrow> topology_builder \<Rightarrow> topology_builder res" where
  "all_mem_gates_fidelity f b =
     rbind (set_gates (tb_mem_single_gates b) f (tb_mem_single_gate_fidelities b)) (\<lambda>d.
     Inr (b\<lparr>tb_mem_single_gate_fidelities := Some d\<rparr>))"

definition mem_gate_fidelity :: "string \<Rightarrow> real \<Rightarrow> topology_builder \<Rightarrow> topology_builder" where
  "mem_gate_fidelity gate f b =
     b\<lparr>tb_mem_single_gate_fidelities := Some (set_gate gate f (tb_mem_single_gate_fidelities b))\<rparr>"

definition all_mem_gates_duration :: "real \<Rightarrow> topology_builder \<Rightarrow> topology_builder res" where
  "all_mem_gates_duration t b =
     rbind (set_gates (tb_mem_single_gates b) t (tb_mem_single_gate_durations b)) (\<lambda>d.
     Inr (b\<lparr>tb_mem_single_gate_durations := Some d\<rparr>))"

definition mem_gate_duration :: "string \<Rightarrow> real \<Rightarrow> topology_builder \<Rightarrow> topology_builder" where
  "mem_gate_duration gate t b =
     b\<lparr>tb_mem_single_gate_durations := Some (set_gate gate t (tb_mem_single_gate_durations b))\<rparr>"

definition all_two_gates_fidelity :: "real \<Rightarrow> topology_builder \<Rightarrow> topology_builder res" where
  "all_two_gates_fidelity f b =
     rbind (set_gates (tb_two_gates b) f (tb_two_gate_fidelities b)) (\<lambda>d.
     Inr (b\<lparr>tb_two_gate_fidelities := Some d\<rparr>))"

definition two_gate_fidelity :: "string \<Rightarrow> real \<Rightarrow> topology_builder \<Rightarrow> topology_builder" where
  "two_gate_fidelity gate f b =
     b\<lparr>tb_two_gate_fidelities := Some (set_gate gate f (tb_two_gate_fidelities b))\<rparr>"

definition all_two_gates_duration :: "real \<Rightarrow> topology_builder \<Rightarrow> topology_builder res" where
  "all_two_gates_duration t b =
     rbind (set_gates (tb_two_gates b) t (tb_two_gate_durations b)) (\<lambda>d.
     Inr (b\<lparr>tb_two_gate_durations := Some d\<rparr>))"

definition two_gate_duration :: "string \<Rightarrow> real \<Rightarrow> topology_builder \<Rightarrow> topology_builder" where
  "two_gate_duration gate t b =
     b\<lparr>tb_two_gate_durations := Some (set_gate gate t (tb_two_gate_durations b))\<rparr>"

section \<open>Building\<close>

text \<open>The fields after the assertions of \<open>build\<close>, which checks all of them first.\<close>

definition build_qubits :: "pydantic \<Rightarrow> topology_builder \<Rightarrow> qubit_id_config list res" where
  "build_qubits pd b =
     (if the (tb_uniform b)
      then rmap (qubit_entry pd True (the (tb_comm_t1 b)) (the (tb_comm_t2 b))) [0..the (tb_num_qubits b) - 1]
      else rbind (qubit_entry pd True (the (tb_comm_t1 b)) (the (tb_comm_t2 b)) 0) (\<lambda>comm.
           rbind (rmap (qubit_entry pd False (the (tb_mem_t1 b)) (the (tb_mem_t2 b))) [1..the (tb_num_qubits b) - 1]) (\<lambda>mem.
           Inr (comm # mem))))"

text \<open>One gate: its duration and its fidelity are looked up.\<close>

definition build_gate ::
    "(string \<Rightarrow> real \<Rightarrow> real \<Rightarrow> gate_config res) \<Rightarrow> (string, real) dict \<Rightarrow> (string, real) dict \<Rightarrow> string \<Rightarrow> gate_config res" where
  "build_gate init durations fidelities gate =
     rbind (dget durations gate) (\<lambda>dur. rbind (dget fidelities gate) (\<lambda>fid. init gate dur fid))"

definition build_single_gates :: "pydantic \<Rightarrow> topology_builder \<Rightarrow> single_gate_config list res" where
  "build_single_gates pd b =
     (let n = the (tb_num_qubits b);
          comm = gates_entry pd
            (build_gate (with_single_gate_fidelity pd) (the (tb_comm_single_gate_durations b))
              (the (tb_comm_single_gate_fidelities b))) (the (tb_comm_single_gates b));
          mem = gates_entry pd
            (build_gate (with_single_gate_fidelity pd) (the (tb_mem_single_gate_durations b))
              (the (tb_mem_single_gate_fidelities b))) (the (tb_mem_single_gates b)) in
      if the (tb_uniform b) then rmap comm [0..n - 1]
      else rbind (comm 0) (\<lambda>c. rbind (rmap mem [1..n - 1]) (\<lambda>m. Inr (c # m))))"

definition build_multi_gates :: "pydantic \<Rightarrow> topology_builder \<Rightarrow> multi_gate_config list res" where
  "build_multi_gates pd b =
     (let n = the (tb_num_qubits b);
          pair = pair_entry pd
            (build_gate (with_two_gate_fidelity pd) (the (tb_two_gate_durations b))
              (the (tb_two_gate_fidelities b))) (the (tb_two_gates b)) in
      if the (tb_uniform b) then rmap pair (all_pairs n)
      else rmap (\<lambda>i. pair (0, i)) [1..n - 1])"

definition builder_complete :: "topology_builder \<Rightarrow> bool" where
  "builder_complete b \<longleftrightarrow>
     tb_num_qubits b \<noteq> None \<and> tb_uniform b \<noteq> None \<and> tb_comm_t1 b \<noteq> None \<and> tb_comm_t2 b \<noteq> None \<and>
     tb_mem_t1 b \<noteq> None \<and> tb_mem_t2 b \<noteq> None \<and> tb_comm_single_gates b \<noteq> None \<and>
     tb_comm_single_gate_durations b \<noteq> None \<and> tb_comm_single_gate_fidelities b \<noteq> None \<and>
     tb_mem_single_gates b \<noteq> None \<and> tb_mem_single_gate_durations b \<noteq> None \<and>
     tb_mem_single_gate_fidelities b \<noteq> None \<and> tb_two_gates b \<noteq> None \<and>
     tb_two_gate_durations b \<noteq> None \<and> tb_two_gate_fidelities b \<noteq> None"

definition builder_build :: "pydantic \<Rightarrow> topology_builder \<Rightarrow> topology_config res" where
  "builder_build pd b =
     rbind (py_assert (builder_complete b)) (\<lambda>_.
     rbind (build_qubits pd b) (\<lambda>qubits.
     rbind (build_single_gates pd b) (\<lambda>single_gates.
     rbind (build_multi_gates pd b) (\<lambda>multi_gates.
     Inr \<lparr>tc_qubits = qubits, tc_single_gates = single_gates, tc_multi_gates = multi_gates\<rparr>))))"

section \<open>NV hardware\<close>

record nv_params =
  nv_comm_t1 :: real
  nv_comm_t2 :: real
  nv_comm_init_fidelity :: real
  nv_comm_meas_fidelity :: real
  nv_comm_gate_fidelity :: real
  nv_comm_init_duration :: real
  nv_comm_meas_duration :: real
  nv_comm_gate_duration :: real
  nv_mem_t1 :: real
  nv_mem_t2 :: real
  nv_mem_init_fidelity :: real
  nv_mem_meas_fidelity :: real
  nv_mem_gate_fidelity :: real
  nv_mem_init_duration :: real
  nv_mem_meas_duration :: real
  nv_mem_gate_duration :: real
  nv_two_gate_fidelity :: real
  nv_two_gate_duration :: real

definition nv_params_default :: nv_params where
  "nv_params_default =
     \<lparr>nv_comm_t1 = 0, nv_comm_t2 = 0, nv_comm_init_fidelity = 1, nv_comm_meas_fidelity = 1,
      nv_comm_gate_fidelity = 1, nv_comm_init_duration = 0, nv_comm_meas_duration = 0, nv_comm_gate_duration = 0,
      nv_mem_t1 = 0, nv_mem_t2 = 0, nv_mem_init_fidelity = 1, nv_mem_meas_fidelity = 1, nv_mem_gate_fidelity = 1,
      nv_mem_init_duration = 0, nv_mem_meas_duration = 0, nv_mem_gate_duration = 0, nv_two_gate_fidelity = 1,
      nv_two_gate_duration = 0\<rparr>"

text \<open>The special gates of a kind of qubits: initialisation and both measurements.\<close>

definition nv_comm_special :: "nv_params \<Rightarrow> topology_builder \<Rightarrow> topology_builder" where
  "nv_comm_special p =
     comm_gate_duration ''INSTR_MEASURE_INSTANT'' (nv_comm_meas_duration p) \<circ>
     comm_gate_fidelity ''INSTR_MEASURE_INSTANT'' (nv_comm_meas_fidelity p) \<circ>
     comm_gate_duration ''INSTR_MEASURE'' (nv_comm_meas_duration p) \<circ>
     comm_gate_fidelity ''INSTR_MEASURE'' (nv_comm_meas_fidelity p) \<circ>
     comm_gate_duration ''INSTR_INIT'' (nv_comm_init_duration p) \<circ>
     comm_gate_fidelity ''INSTR_INIT'' (nv_comm_init_fidelity p)"

definition nv_mem_special :: "nv_params \<Rightarrow> topology_builder \<Rightarrow> topology_builder" where
  "nv_mem_special p =
     mem_gate_duration ''INSTR_MEASURE_INSTANT'' (nv_mem_meas_duration p) \<circ>
     mem_gate_fidelity ''INSTR_MEASURE_INSTANT'' (nv_mem_meas_fidelity p) \<circ>
     mem_gate_duration ''INSTR_MEASURE'' (nv_mem_meas_duration p) \<circ>
     mem_gate_fidelity ''INSTR_MEASURE'' (nv_mem_meas_fidelity p) \<circ>
     mem_gate_duration ''INSTR_INIT'' (nv_mem_init_duration p) \<circ>
     mem_gate_fidelity ''INSTR_INIT'' (nv_mem_init_fidelity p)"

definition from_nv_params :: "pydantic \<Rightarrow> int \<Rightarrow> nv_params \<Rightarrow> topology_config res" where
  "from_nv_params pd n p =
     (let b0 = mem_t2 (nv_mem_t2 p) (mem_t1 (nv_mem_t1 p) (comm_t2 (nv_comm_t2 p) (comm_t1 (nv_comm_t1 p)
        (default_nv_gates (num_qubits n (star_topology init_builder)))))) in
      rbind (all_comm_gates_fidelity (nv_comm_gate_fidelity p) b0) (\<lambda>b1.
      rbind (all_comm_gates_duration (nv_comm_gate_duration p) b1) (\<lambda>b2.
      rbind (all_mem_gates_fidelity (nv_mem_gate_fidelity p) (nv_comm_special p b2)) (\<lambda>b3.
      rbind (all_mem_gates_duration (nv_mem_gate_duration p) b3) (\<lambda>b4.
      rbind (all_two_gates_fidelity (nv_two_gate_fidelity p) (nv_mem_special p b4)) (\<lambda>b5.
      rbind (all_two_gates_duration (nv_two_gate_duration p) b5) (\<lambda>b6.
      builder_build pd b6)))))))"

end
