(* ===== verification/ConfigNet.thy ===== *)
theory ConfigNet
  imports ConfigBuilder
begin

text \<open>
  The configurations of nodes, links, connections, schedules and networks
  (\<open>qoala/runtime/config.py\<close>).
\<close>

section \<open>Nodes\<close>

record ntf_config =
  ntf_interface_cls :: string
  ntf_config_interface :: ntf_interface

definition default_ntf_registry :: "(string, ntf_interface) dict" where
  "default_ntf_registry = [(''GenericNtf'', generic_ntf), (''NvNtf'', nv_ntf)]"

definition ntf_from_cls_name ::
    "pydantic \<Rightarrow> (string, ntf_interface) dict list option \<Rightarrow> pyval \<Rightarrow> ntf_config res" where
  "ntf_from_cls_name pd registry name =
     rbind (from_registries registry default_ntf_registry name) (\<lambda>typ.
     rbind (pd_str pd name) (\<lambda>s. Inr \<lparr>ntf_interface_cls = s, ntf_config_interface = typ\<rparr>))"

definition ntf_from_dict ::
    "pydantic \<Rightarrow> (string, ntf_interface) dict list option \<Rightarrow> pyval \<Rightarrow> ntf_config res" where
  "ntf_from_dict pd registry d = rbind (py_item ''ntf_interface_cls'' d) (ntf_from_cls_name pd registry)"

record latencies_config =
  lc_host_instr_time :: real
  lc_qnos_instr_time :: real
  lc_host_peer_latency :: real
  lc_internal_sched_latency :: real

text \<open>\<open>d[k] if k in d else old\<close>\<close>

definition item_or :: "string \<Rightarrow> pyval \<Rightarrow> pyval \<Rightarrow> pyval res" where
  "item_or k d old = rbind (py_has k d) (\<lambda>b. if b then py_item k d else Inr old)"

text \<open>The last of the four entries is stored in the variable of the third.\<close>

definition latencies_from_dict :: "pydantic \<Rightarrow> pyval \<Rightarrow> latencies_config res" where
  "latencies_from_dict pd d =
     rbind (item_or ''host_instr_time'' d (PyNum 0)) (\<lambda>host_instr_time.
     rbind (item_or ''qnos_instr_time'' d (PyNum 0)) (\<lambda>qnos_instr_time.
     rbind (item_or ''host_peer_latency'' d (PyNum 0)) (\<lambda>peer.
     rbind (item_or ''internal_sched_latency'' d peer) (\<lambda>host_peer_latency.
     rbind (pd_float pd host_instr_time) (\<lambda>a.
     rbind (pd_float pd qnos_instr_time) (\<lambda>b.
     rbind (pd_float pd host_peer_latency) (\<lambda>c.
     rbind (pd_float pd (PyNum 0)) (\<lambda>e.
     Inr \<lparr>lc_host_instr_time = a, lc_qnos_instr_time = b, lc_host_peer_latency = c,
          lc_internal_sched_latency = e\<rparr>))))))))"

record proc_node_config =
  pn_node_name :: string
  pn_node_id :: int
  pn_topology :: topology_config
  pn_latencies :: latencies_config
  pn_ntf :: ntf_config
  pn_determ_sched :: bool
  pn_use_deadlines :: bool
  pn_is_predictable :: bool

definition proc_node_from_dict :: "pydantic \<Rightarrow> pyval \<Rightarrow> proc_node_config res" where
  "proc_node_from_dict pd d =
     rbind (py_item ''node_name'' d) (\<lambda>raw_name.
     rbind (py_item ''node_id'' d) (\<lambda>raw_id.
     rbind (py_item ''topology'' d) (\<lambda>raw_topology.
     rbind (topology_from_dict pd raw_topology) (\<lambda>topology.
     rbind (py_item ''latencies'' d) (\<lambda>raw_latencies.
     rbind (latencies_from_dict pd raw_latencies) (\<lambda>latencies.
     rbind (py_item ''ntf'' d) (\<lambda>raw_ntf.
     rbind (ntf_from_dict pd None raw_ntf) (\<lambda>ntf.
     rbind (pd_str pd raw_name) (\<lambda>name.
     rbind (pd_int pd raw_id) (\<lambda>id.
     Inr \<lparr>pn_node_name = name, pn_node_id = id, pn_topology = topology, pn_latencies = latencies,
          pn_ntf = ntf, pn_determ_sched = True, pn_use_deadlines = True, pn_is_predictable = False\<rparr>))))))))))"

section \<open>Links and connections\<close>

record sampler_config =
  sc_sampler_factory :: sampler_factory
  sc_sampler_kwargs :: "(string, real) dict"

definition perfect_sampler_config :: "real \<Rightarrow> sampler_config" where
  "perfect_sampler_config cycle_time =
     \<lparr>sc_sampler_factory = PerfectStateSamplerFactory, sc_sampler_kwargs = [(''cycle_time'', cycle_time)]\<rparr>"

definition perfect_sampler_from_dict :: "pydantic \<Rightarrow> pyval \<Rightarrow> sampler_config res" where
  "perfect_sampler_from_dict pd d =
     rbind (model_field (pd_float pd) ''cycle_time'' d) (\<lambda>t. Inr (perfect_sampler_config t))"

definition depolarise_sampler_config :: "real \<Rightarrow> real \<Rightarrow> real \<Rightarrow> sampler_config" where
  "depolarise_sampler_config cycle_time prob_max_mixed prob_success =
     \<lparr>sc_sampler_factory = DepolariseWithFailureStateSamplerFactory,
      sc_sampler_kwargs = [(''cycle_time'', cycle_time), (''prob_max_mixed'', prob_max_mixed),
        (''prob_success'', prob_success)]\<rparr>"

definition depolarise_sampler_from_dict :: "pydantic \<Rightarrow> pyval \<Rightarrow> sampler_config res" where
  "depolarise_sampler_from_dict pd d =
     rbind (model_field (pd_float pd) ''cycle_time'' d) (\<lambda>t.
     rbind (model_field (pd_float pd) ''prob_max_mixed'' d) (\<lambda>m.
     rbind (model_field (pd_float pd) ''prob_success'' d) (\<lambda>s.
     Inr (depolarise_sampler_config t m s))))"

definition default_sampler_registry :: "pydantic \<Rightarrow> (string, pyval \<Rightarrow> sampler_config res) dict" where
  "default_sampler_registry pd =
     [(''PerfectSamplerConfig'', perfect_sampler_from_dict pd),
      (''DepolariseSamplerConfig'', depolarise_sampler_from_dict pd)]"

record link_config =
  li_state_delay :: real
  li_sampler_config_cls :: string
  li_sampler_config :: sampler_config

definition link_config_init :: "pydantic \<Rightarrow> pyval \<Rightarrow> pyval \<Rightarrow> sampler_config \<Rightarrow> link_config res" where
  "link_config_init pd delay cls sampler =
     rbind (pd_float pd delay) (\<lambda>d.
     rbind (pd_str pd cls) (\<lambda>c.
     Inr \<lparr>li_state_delay = d, li_sampler_config_cls = c, li_sampler_config = sampler\<rparr>))"

definition link_perfect_config :: "pydantic \<Rightarrow> real \<Rightarrow> link_config res" where
  "link_perfect_config pd delay =
     rbind (pd_float pd (PyNum 0)) (\<lambda>t.
     link_config_init pd (PyNum delay) (PyStr ''PerfectSamplerConfig'') (perfect_sampler_config t))"

definition depolarise_config :: "pydantic \<Rightarrow> real \<Rightarrow> real \<Rightarrow> real \<Rightarrow> real \<Rightarrow> link_config res" where
  "depolarise_config pd prob_max_mixed success_prob duration delay =
     rbind (pd_float pd (PyNum duration)) (\<lambda>t.
     rbind (pd_float pd (PyNum prob_max_mixed)) (\<lambda>m.
     rbind (pd_float pd (PyNum success_prob)) (\<lambda>s.
     link_config_init pd (PyNum delay) (PyStr ''DepolariseSamplerConfig'') (depolarise_sampler_config t m s))))"

definition simple_depolarise_config :: "pydantic \<Rightarrow> real \<Rightarrow> real \<Rightarrow> link_config res" where
  "simple_depolarise_config pd fidelity delay =
     rbind (fidelity_to_prob_max_mixed 2 fidelity) (\<lambda>prob. depolarise_config pd prob 1 0 delay)"

definition link_config_from_dict ::
    "pydantic \<Rightarrow> (string, pyval \<Rightarrow> sampler_config res) dict list option \<Rightarrow> pyval \<Rightarrow> link_config res" where
  "link_config_from_dict pd registry d =
     rbind (py_item ''state_delay'' d) (\<lambda>delay.
     rbind (py_item ''sampler_config_cls'' d) (\<lambda>raw_typ.
     rbind (from_registries registry (default_sampler_registry pd) raw_typ) (\<lambda>typ.
     rbind (py_item ''sampler_config'' d) (\<lambda>raw_sampler_config.
     rbind (typ raw_sampler_config) (\<lambda>sampler_config.
     link_config_init pd delay raw_typ sampler_config)))))"

text \<open>\<open>LhiLinkInfo.from_config\<close>\<close>

definition link_info_from_config :: "link_config \<Rightarrow> lhi_link_info" where
  "link_info_from_config c =
     \<lparr>lk_sampler_factory = sc_sampler_factory (li_sampler_config c),
      lk_sampler_kwargs = sc_sampler_kwargs (li_sampler_config c), lk_state_delay = li_state_delay c\<rparr>"

record link_between_nodes_config =
  lb_node_id1 :: int
  lb_node_id2 :: int
  lb_link_config :: link_config

definition link_between_nodes_init :: "pydantic \<Rightarrow> pyval \<Rightarrow> pyval \<Rightarrow> link_config \<Rightarrow> link_between_nodes_config res" where
  "link_between_nodes_init pd id1 id2 c =
     rbind (pd_int pd id1) (\<lambda>i.
     rbind (pd_int pd id2) (\<lambda>j. Inr \<lparr>lb_node_id1 = i, lb_node_id2 = j, lb_link_config = c\<rparr>))"

definition link_between_nodes_from_dict :: "pydantic \<Rightarrow> pyval \<Rightarrow> link_between_nodes_config res" where
  "link_between_nodes_from_dict pd d =
     rbind (py_item ''node_id1'' d) (\<lambda>id1.
     rbind (py_item ''node_id2'' d) (\<lambda>id2.
     rbind (py_item ''link_config'' d) (\<lambda>raw.
     rbind (link_config_from_dict pd None raw) (\<lambda>c. link_between_nodes_init pd id1 id2 c))))"

record classical_connection_config =
  cc_node_id1 :: int
  cc_node_id2 :: int
  cc_latency :: real

definition connection_init :: "pydantic \<Rightarrow> pyval \<Rightarrow> pyval \<Rightarrow> pyval \<Rightarrow> classical_connection_config res" where
  "connection_init pd id1 id2 latency =
     rbind (pd_int pd id1) (\<lambda>i.
     rbind (pd_int pd id2) (\<lambda>j.
     rbind (pd_float pd latency) (\<lambda>l. Inr \<lparr>cc_node_id1 = i, cc_node_id2 = j, cc_latency = l\<rparr>)))"

definition connection_from_nodes :: "pydantic \<Rightarrow> int \<Rightarrow> int \<Rightarrow> real \<Rightarrow> classical_connection_config res" where
  "connection_from_nodes pd id1 id2 latency =
     connection_init pd (py_of_int id1) (py_of_int id2) (PyNum latency)"

definition connection_from_dict :: "pydantic \<Rightarrow> pyval \<Rightarrow> classical_connection_config res" where
  "connection_from_dict pd d =
     rbind (py_item ''node_id1'' d) (\<lambda>id1.
     rbind (py_item ''node_id2'' d) (\<lambda>id2.
     rbind (py_item ''latency'' d) (\<lambda>latency. connection_init pd id1 id2 latency)))"

section \<open>Schedules and networks\<close>

record network_schedule_config =
  nsc_bin_length :: int
  nsc_first_bin :: int
  nsc_bin_pattern :: "(int \<times> int \<times> int \<times> int) list"
  nsc_repeat_period :: int

definition network_schedule_from_dict :: "pydantic \<Rightarrow> pyval \<Rightarrow> network_schedule_config res" where
  "network_schedule_from_dict pd d =
     rbind (py_item ''bin_length'' d) (\<lambda>a.
     rbind (py_item ''first_bin'' d) (\<lambda>b.
     rbind (py_item ''bin_pattern'' d) (\<lambda>c.
     rbind (py_item ''repeat_period'' d) (\<lambda>e.
     rbind (pd_int pd a) (\<lambda>bin_length.
     rbind (pd_int pd b) (\<lambda>first_bin.
     rbind (pd_bins pd c) (\<lambda>bin_pattern.
     rbind (pd_int pd e) (\<lambda>repeat_period.
     Inr \<lparr>nsc_bin_length = bin_length, nsc_first_bin = first_bin, nsc_bin_pattern = bin_pattern,
          nsc_repeat_period = repeat_period\<rparr>))))))))"

text \<open>The nodes of a time bin are a set, the PIDs a dictionary; a node that is listed twice has one PID.\<close>

definition to_bin_pattern :: "network_schedule_config \<Rightarrow> lhi_network_timebin list" where
  "to_bin_pattern c = map (\<lambda>(node1, pid1, node2, pid2).
     \<lparr>lb_nodes = {node1, node2}, lb_pids = dict_of [(node1, pid1), (node2, pid2)]\<rparr>) (nsc_bin_pattern c)"

text \<open>\<open>LhiNetworkSchedule.from_config\<close>\<close>

definition netschedule_from_config :: "network_schedule_config \<Rightarrow> lhi_network_schedule" where
  "netschedule_from_config c =
     \<lparr>lhs_bin_length = nsc_bin_length c, lhs_first_bin = nsc_first_bin c, lhs_bin_pattern = to_bin_pattern c,
      lhs_repeat_period = nsc_repeat_period c\<rparr>"

record network_config =
  nc_nodes :: "proc_node_config list"
  nc_links :: "link_between_nodes_config list"
  nc_netschedule :: "network_schedule_config option"
  nc_cconns :: "classical_connection_config list option"

definition from_nodes_perfect_links :: "pydantic \<Rightarrow> proc_node_config list \<Rightarrow> real \<Rightarrow> network_config res" where
  "from_nodes_perfect_links pd nodes link_duration =
     rbind (rmap (\<lambda>(node1, node2).
         rbind (link_perfect_config pd link_duration) (\<lambda>c.
         link_between_nodes_init pd (py_of_int (pn_node_id node1)) (py_of_int (pn_node_id node2)) c))
       (combinations2 nodes)) (\<lambda>links.
     Inr \<lparr>nc_nodes = nodes, nc_links = links, nc_netschedule = None, nc_cconns = None\<rparr>)"

end
