(* ===== verification/Ports.thy ===== *)
theory Ports
  imports Ehi
begin

text \<open>
  The NetSquid components of a node and of the network with their ports
  (\<open>qoala/sim/procnodecomp.py\<close>, \<open>host/hostcomp.py\<close>, \<open>qnos/qnoscomp.py\<close>, \<open>netstack/netstackcomp.py\<close>,
  \<open>entdist/entdistcomp.py\<close>, \<open>ProcNode.connect_to\<close>). They are static: the code creates ports by name
  and ties them together. A component is its name, the names of its ports and the dictionaries from
  peers to port names; the ties that are made are values. What NetSquid does with a tie is not
  modelled.
\<close>

section \<open>Components and their ports\<close>

text \<open>A channel belongs to the two objects that it joins, its ports are \<open>send\<close> and \<open>recv\<close>.\<close>

datatype component_id =
    NodeC string | HostC string | QnosC string | NetstackC string | EntDistC
  | HostChannel string string | ToEntDist string | FromEntDist string

type_synonym port = "component_id \<times> string"

datatype port_tie = Connect port port | ForwardOutput port port | ForwardInput port port

record component =
  cpt_id :: component_id
  cpt_in_ports :: "(string, string) dict"
  cpt_out_ports :: "(string, string) dict"
  cpt_ports :: "string list"

definition port_name :: "string \<Rightarrow> string \<Rightarrow> string \<Rightarrow> string" where
  "port_name pre n suf = pre @ n @ suf"

definition peer_ports :: "string \<Rightarrow> string \<Rightarrow> string list \<Rightarrow> (string, string) dict" where
  "peer_ports pre suf names = dict_of (map (\<lambda>n. (n, port_name pre n suf)) names)"

definition other_nodes :: "string \<Rightarrow> ehi_network_info \<Rightarrow> string list" where
  "other_nodes name net = filter (\<lambda>n. n \<noteq> name) (get_all_node_names net)"

definition host_component :: "string \<Rightarrow> ehi_network_info \<Rightarrow> component" where
  "host_component name net =
     (let in_ports = peer_ports ''peer_'' ''_in'' (other_nodes name net);
          out_ports = peer_ports ''peer_'' ''_out'' (other_nodes name net) in
      \<lparr>cpt_id = HostC name, cpt_in_ports = in_ports, cpt_out_ports = out_ports,
       cpt_ports = map snd in_ports @ map snd out_ports @ [''qnos_in'', ''qnos_out''] @ [''nstk_in'', ''nstk_out'']\<rparr>)"

definition qnos_component :: "string \<Rightarrow> component" where
  "qnos_component name =
     \<lparr>cpt_id = QnosC name, cpt_in_ports = [], cpt_out_ports = [],
      cpt_ports = [''host_out'', ''host_in''] @ [''nstk_out'', ''nstk_in''] @ [''nstk_mem_out'', ''nstk_mem_in'']\<rparr>"

definition netstack_component :: "string \<Rightarrow> ehi_network_info \<Rightarrow> component" where
  "netstack_component name net =
     (let in_ports = peer_ports ''peer_'' ''_in'' (other_nodes name net);
          out_ports = peer_ports ''peer_'' ''_out'' (other_nodes name net) in
      \<lparr>cpt_id = NetstackC name, cpt_in_ports = in_ports, cpt_out_ports = out_ports,
       cpt_ports = map snd in_ports @ map snd out_ports @ [''host_out'', ''host_in''] @ [''qnos_out'', ''qnos_in''] @
         [''qnos_mem_out'', ''qnos_mem_in''] @ [''entdist_out'', ''entdist_in'']\<rparr>)"

definition entdist_component :: "ehi_network_info \<Rightarrow> component" where
  "entdist_component net =
     (let in_ports = peer_ports ''node_'' ''_in'' (get_all_node_names net);
          out_ports = peer_ports ''node_'' ''_out'' (get_all_node_names net) in
      \<lparr>cpt_id = EntDistC, cpt_in_ports = in_ports, cpt_out_ports = out_ports,
       cpt_ports = map snd in_ports @ map snd out_ports\<rparr>)"

text \<open>\<open>self.ports[port_name]\<close>, and the port for a peer, whose name is looked up first.\<close>

definition port_named :: "component_id \<Rightarrow> string list \<Rightarrow> string \<Rightarrow> port res" where
  "port_named c ports p = rbind (ensure (p \<in> set ports) KeyError) (\<lambda>_. Inr (c, p))"

definition port_for :: "component_id \<Rightarrow> string list \<Rightarrow> (string, string) dict \<Rightarrow> string \<Rightarrow> port res" where
  "port_for c ports names peer = rbind (dget names peer) (port_named c ports)"

definition static_port :: "component \<Rightarrow> string \<Rightarrow> port res" where
  "static_port c = port_named (cpt_id c) (cpt_ports c)"

definition peer_in_port :: "component \<Rightarrow> string \<Rightarrow> port res" where
  "peer_in_port c = port_for (cpt_id c) (cpt_ports c) (cpt_in_ports c)"

definition peer_out_port :: "component \<Rightarrow> string \<Rightarrow> port res" where
  "peer_out_port c = port_for (cpt_id c) (cpt_ports c) (cpt_out_ports c)"

section \<open>Listeners\<close>

text \<open>
  The constructors of the interfaces (\<open>HostInterface\<close>, \<open>QnosInterface\<close>, \<open>NetstackInterface\<close>,
  \<open>EntDistInterface\<close>) attach a named listener to every port on which messages arrive.
\<close>

type_synonym listeners = "(string, port) dict"

definition add_listener :: "string \<Rightarrow> port res \<Rightarrow> listeners \<Rightarrow> listeners res" where
  "add_listener name p ls = rbind p (\<lambda>port. Inr (dset name port ls))"

definition add_peer_listeners :: "component \<Rightarrow> string \<Rightarrow> string list \<Rightarrow> listeners \<Rightarrow> listeners res" where
  "add_peer_listeners c pre = rfold (\<lambda>peer. add_listener (pre @ peer) (peer_in_port c peer))"

definition host_listeners :: "string \<Rightarrow> ehi_network_info \<Rightarrow> component \<Rightarrow> listeners res" where
  "host_listeners name net c =
     rbind (add_listener ''qnos'' (static_port c ''qnos_in'') []) (\<lambda>l1.
     rbind (add_listener ''netstack'' (static_port c ''nstk_in'') l1) (\<lambda>l2.
     add_peer_listeners c ''peer_'' (other_nodes name net) l2))"

definition qnos_listeners :: "component \<Rightarrow> listeners res" where
  "qnos_listeners c =
     rbind (add_listener ''host'' (static_port c ''host_in'') []) (\<lambda>l1.
     add_listener ''netstack'' (static_port c ''nstk_in'') l1)"

definition netstack_listeners :: "string \<Rightarrow> ehi_network_info \<Rightarrow> component \<Rightarrow> listeners res" where
  "netstack_listeners name net c =
     rbind (add_listener ''host'' (static_port c ''host_in'') []) (\<lambda>l1.
     rbind (add_listener ''qnos'' (static_port c ''qnos_in'') l1) (\<lambda>l2.
     rbind (add_listener ''qnos_mem'' (static_port c ''qnos_mem_in'') l2) (\<lambda>l3.
     rbind (add_listener ''entdist'' (static_port c ''entdist_in'') l3) (\<lambda>l4.
     add_peer_listeners c ''peer_'' (other_nodes name net) l4))))"

definition entdist_listeners :: "ehi_network_info \<Rightarrow> component \<Rightarrow> listeners res" where
  "entdist_listeners net c = add_peer_listeners c ''node_'' (get_all_node_names net) []"

section \<open>The component of a node\<close>

record node_component =
  nk_name :: string
  nk_id :: int
  nk_qnos :: component
  nk_host :: component
  nk_netstack :: component
  nk_netstack_in :: "(string, string) dict"
  nk_netstack_out :: "(string, string) dict"
  nk_host_in :: "(string, string) dict"
  nk_host_out :: "(string, string) dict"
  nk_ports :: "string list"
  nk_ties :: "port_tie list"

definition host_peer_in_port :: "node_component \<Rightarrow> string \<Rightarrow> port res" where
  "host_peer_in_port n = port_for (NodeC (nk_name n)) (nk_ports n) (nk_host_in n)"

definition host_peer_out_port :: "node_component \<Rightarrow> string \<Rightarrow> port res" where
  "host_peer_out_port n = port_for (NodeC (nk_name n)) (nk_ports n) (nk_host_out n)"

definition netstack_peer_in_port :: "node_component \<Rightarrow> string \<Rightarrow> port res" where
  "netstack_peer_in_port n = port_for (NodeC (nk_name n)) (nk_ports n) (nk_netstack_in n)"

definition netstack_peer_out_port :: "node_component \<Rightarrow> string \<Rightarrow> port res" where
  "netstack_peer_out_port n = port_for (NodeC (nk_name n)) (nk_ports n) (nk_netstack_out n)"

definition entdist_in_port :: "node_component \<Rightarrow> port res" where
  "entdist_in_port n = port_named (NodeC (nk_name n)) (nk_ports n) ''entdist_in''"

definition entdist_out_port :: "node_component \<Rightarrow> port res" where
  "entdist_out_port n = port_named (NodeC (nk_name n)) (nk_ports n) ''entdist_out''"

text \<open>The ties of one peer: its messages go through the ports of the node to Host and network stack.\<close>

definition forward_peer :: "string \<Rightarrow> node_component \<Rightarrow> node_component res" where
  "forward_peer peer n =
     rbind (peer_out_port (nk_netstack n) peer) (\<lambda>netstack_out.
     rbind (netstack_peer_out_port n peer) (\<lambda>node_netstack_out.
     rbind (netstack_peer_in_port n peer) (\<lambda>node_netstack_in.
     rbind (peer_in_port (nk_netstack n) peer) (\<lambda>netstack_in.
     rbind (peer_out_port (nk_host n) peer) (\<lambda>host_out.
     rbind (host_peer_out_port n peer) (\<lambda>node_host_out.
     rbind (host_peer_in_port n peer) (\<lambda>node_host_in.
     rbind (peer_in_port (nk_host n) peer) (\<lambda>host_in.
     Inr (n\<lparr>nk_ties := nk_ties n @
       [ForwardOutput netstack_out node_netstack_out, ForwardInput node_netstack_in netstack_in,
        ForwardOutput host_out node_host_out, ForwardInput node_host_in host_in]\<rparr>)))))))))"

definition node_component_init :: "string \<Rightarrow> int \<Rightarrow> ehi_network_info \<Rightarrow> node_component res" where
  "node_component_init name node_id net =
     (let qnos = qnos_component name; host = host_component name net; netstack = netstack_component name net;
          peers = other_nodes name net;
          netstack_in = peer_ports ''netstack_peer_'' ''_in'' peers;
          netstack_out = peer_ports ''netstack_peer_'' ''_out'' peers;
          host_in = peer_ports ''host_peer_'' ''_in'' peers;
          host_out = peer_ports ''host_peer_'' ''_out'' peers in
      rbind (static_port host ''qnos_out'') (\<lambda>host_qnos_out.
      rbind (static_port qnos ''host_in'') (\<lambda>qnos_host_in.
      rbind (static_port host ''qnos_in'') (\<lambda>host_qnos_in.
      rbind (static_port qnos ''host_out'') (\<lambda>qnos_host_out.
      rbind (static_port netstack ''entdist_out'') (\<lambda>netstack_entdist_out.
      rbind (static_port netstack ''entdist_in'') (\<lambda>netstack_entdist_in.
      rfold forward_peer peers
        \<lparr>nk_name = name, nk_id = node_id, nk_qnos = qnos, nk_host = host, nk_netstack = netstack,
         nk_netstack_in = netstack_in, nk_netstack_out = netstack_out, nk_host_in = host_in, nk_host_out = host_out,
         nk_ports = [''entdist_out'', ''entdist_in''] @ map snd netstack_in @ map snd netstack_out @
           map snd host_in @ map snd host_out,
         nk_ties = [Connect host_qnos_out qnos_host_in, Connect host_qnos_in qnos_host_out,
           ForwardOutput netstack_entdist_out (NodeC name, ''entdist_out''),
           ForwardInput (NodeC name, ''entdist_in'') netstack_entdist_in]\<rparr>)))))))"

section \<open>Nodes are tied to each other and to the distributor\<close>

text \<open>The ties outside the nodes, and the delay of every channel.\<close>

record wiring =
  wi_ties :: "port_tie list"
  wi_delays :: "(component_id \<times> real) list"

definition through_channel :: "component_id \<Rightarrow> real \<Rightarrow> port \<Rightarrow> port \<Rightarrow> wiring \<Rightarrow> wiring" where
  "through_channel c delay p q w =
     w\<lparr>wi_ties := wi_ties w @ [Connect p (c, ''send''), Connect (c, ''recv'') q],
       wi_delays := wi_delays w @ [(c, delay)]\<rparr>"

text \<open>\<open>ProcNode.connect_to\<close>\<close>

definition connect_to :: "real \<Rightarrow> node_component \<Rightarrow> node_component \<Rightarrow> wiring \<Rightarrow> wiring res" where
  "connect_to latency n other w =
     (let here = nk_name n; there = nk_name other in
      rbind (host_peer_out_port n there) (\<lambda>out.
      rbind (host_peer_in_port other here) (\<lambda>other_in.
      let w1 = through_channel (HostChannel here there) latency out other_in w in
      rbind (host_peer_out_port other here) (\<lambda>other_out.
      rbind (host_peer_in_port n there) (\<lambda>in_port.
      let w2 = through_channel (HostChannel there here) latency other_out in_port w1 in
      rbind (netstack_peer_out_port n there) (\<lambda>netstack_out.
      rbind (netstack_peer_in_port other here) (\<lambda>other_netstack_in.
      rbind (netstack_peer_in_port n there) (\<lambda>netstack_in.
      rbind (netstack_peer_out_port other here) (\<lambda>other_netstack_out.
      Inr (w2\<lparr>wi_ties := wi_ties w2 @
        [Connect netstack_out other_netstack_in, Connect netstack_in other_netstack_out]\<rparr>))))))))))"

text \<open>The two loops at the end of \<open>build_network_from_config\<close>.\<close>

definition connect_nodes :: "(int \<Rightarrow> int \<Rightarrow> real) \<Rightarrow> node_component list \<Rightarrow> wiring \<Rightarrow> wiring res" where
  "connect_nodes latency ns w =
     rfold (\<lambda>(n, other). connect_to (latency (nk_id n) (nk_id other)) n other) (combinations2 ns) w"

definition connect_entdist :: "real \<Rightarrow> component \<Rightarrow> string \<times> node_component \<Rightarrow> wiring \<Rightarrow> wiring res" where
  "connect_entdist delay entdist named w =
     (case named of (name, n) \<Rightarrow>
        rbind (entdist_out_port n) (\<lambda>out.
        rbind (peer_in_port entdist name) (\<lambda>ed_in.
        let w1 = through_channel (ToEntDist name) delay out ed_in w in
        rbind (peer_out_port entdist name) (\<lambda>ed_out.
        rbind (entdist_in_port n) (\<lambda>in_port.
        Inr (through_channel (FromEntDist name) delay ed_out in_port w1))))))"

definition connect_network ::
    "(int \<Rightarrow> int \<Rightarrow> real) \<Rightarrow> component \<Rightarrow> (string, node_component) dict \<Rightarrow> wiring res" where
  "connect_network latency entdist ns =
     rbind (connect_nodes latency (map snd ns) \<lparr>wi_ties = [], wi_delays = []\<rparr>) (\<lambda>w.
     rfold (connect_entdist 0 entdist) ns w)"

text \<open>Without channels, as \<open>build_network_from_lhi\<close> does it for the distributor.\<close>

definition attach_entdist :: "component \<Rightarrow> string \<times> node_component \<Rightarrow> wiring \<Rightarrow> wiring res" where
  "attach_entdist entdist named w =
     (case named of (name, n) \<Rightarrow>
        rbind (entdist_out_port n) (\<lambda>out.
        rbind (peer_in_port entdist name) (\<lambda>ed_in.
        rbind (entdist_in_port n) (\<lambda>in_port.
        rbind (peer_out_port entdist name) (\<lambda>ed_out.
        Inr (w\<lparr>wi_ties := wi_ties w @ [Connect out ed_in, Connect in_port ed_out]\<rparr>))))))"

definition attach_network :: "component \<Rightarrow> (string, node_component) dict \<Rightarrow> wiring res" where
  "attach_network entdist ns =
     rbind (connect_nodes (\<lambda>_ _. 0) (map snd ns) \<lparr>wi_ties = [], wi_delays = []\<rparr>) (\<lambda>w.
     rfold (attach_entdist entdist) ns w)"

end
