(* ===== verification/Build.thy ===== *)
theory Build
  imports ConfigNet Ports NodeSched EntDist
begin

text \<open>
  How nodes and networks are put together (\<open>qoala/sim/build.py\<close>, the constructors of
  \<open>procnode.py\<close>, \<open>host.py\<close>, \<open>qnos.py\<close>, \<open>netstack.py\<close> and \<open>entdist.py\<close>, \<open>qoala/util/builder.py\<close>): from
  a configuration or an LHI description to the state in which a simulation starts. The physics of a
  quantum processor is a parameter: \<open>qpu_env\<close> has it, and a node starts with a given quantum state.
\<close>

section \<open>Quantum processors\<close>

text \<open>
  The topology of a physical instruction is a list with one position, or with one tuple of
  positions. Error models are kept as their class and arguments.
\<close>

datatype position = Position int | Positions "int list"

record phys_instruction =
  ph_instruction :: ns_instr
  ph_duration :: real
  ph_position :: position
  ph_noise_model :: "error_model \<times> (string, real) dict"

record qprocessor =
  qp_num_positions :: nat
  qp_mem_noise_models :: "(error_model \<times> (string, real) dict) list"
  qp_phys_instructions :: "phys_instruction list"

definition noise_model_of :: "(int, lhi_qubit_info) dict \<Rightarrow> int \<Rightarrow> (error_model \<times> (string, real) dict) res" where
  "noise_model_of infos i =
     rbind (dget infos i) (\<lambda>info. Inr (lq_error_model info, lq_error_model_kwargs info))"

definition single_phys_instr :: "int \<Rightarrow> lhi_gate_info \<Rightarrow> phys_instruction" where
  "single_phys_instr q g =
     \<lparr>ph_instruction = lg_instruction g,
      ph_duration = (if lg_instruction g = INSTR_MEASURE_INSTANT then 0 else lg_duration g),
      ph_position = Position q, ph_noise_model = (lg_error_model g, lg_error_model_kwargs g)\<rparr>"

definition multi_phys_instr :: "multi_qubit \<Rightarrow> lhi_gate_info \<Rightarrow> phys_instruction" where
  "multi_phys_instr m g =
     \<lparr>ph_instruction = lg_instruction g, ph_duration = lg_duration g,
      ph_position = (case m of MultiQubit ids \<Rightarrow> Positions ids),
      ph_noise_model = (lg_error_model g, lg_error_model_kwargs g)\<rparr>"

definition build_qprocessor_from_topology :: "lhi_topology \<Rightarrow> qprocessor res" where
  "build_qprocessor_from_topology t =
     (let n = length (lt_qubit_infos t) in
      rbind (rmap (noise_model_of (lt_qubit_infos t)) [0..int n - 1]) (\<lambda>mem_noise_models.
      Inr \<lparr>qp_num_positions = n, qp_mem_noise_models = mem_noise_models,
           qp_phys_instructions =
             concat (map (\<lambda>(q, gs). map (single_phys_instr q) gs) (lt_single_gate_infos t)) @
             concat (map (\<lambda>(m, gs). map (multi_phys_instr m) gs) (lt_multi_gate_infos t))\<rparr>))"

text \<open>
  \<open>QDevice.__init__\<close> on a new processor, in which no position is in use. The device asks for one
  position or for a pair; a tuple of another length is equal to neither.
\<close>

definition device_positions :: "position \<Rightarrow> int list list" where
  "device_positions p =
     (case p of Position q \<Rightarrow> [[q]] | Positions ids \<Rightarrow> if length ids = 2 then [ids] else [])"

definition qdevice_init :: "qprocessor \<Rightarrow> lhi_topology \<Rightarrow> 'q \<Rightarrow> 'q qdevice" where
  "qdevice_init p t q =
     \<lparr>qd_topology = t,
      qd_phys_instrs = map (\<lambda>i. (ph_instruction i, Some (device_positions (ph_position i)))) (qp_phys_instructions p),
      qd_in_use = replicate (qp_num_positions p) False, qd_state = q\<rparr>"

section \<open>Nodes\<close>

record 'q proc_node =
  px_component :: node_component
  px_qprocessor :: qprocessor
  px_local_ehi :: ehi_node_info
  px_network_ehi :: ehi_network_info
  px_env :: "'q qpu_env"
  px_is_predictable :: bool
  px_scheduler :: "'q node_scheduler"

definition init_inbox :: "listeners \<Rightarrow> 'c inbox" where
  "init_inbox ls = \<lparr>ib_listeners = map (\<lambda>(name, port). (name, [])) ls, ib_arrivals = [], ib_now = 0\<rparr>"

text \<open>\<open>Host.__init__\<close> with its interface\<close>

definition host_init :: "string \<Rightarrow> ehi_network_info \<Rightarrow> component \<Rightarrow> host_latencies \<Rightarrow> host res" where
  "host_init name network c latencies =
     rbind (host_listeners name network c) (\<lambda>ls.
     Inr \<lparr>hs_latencies = latencies, hs_inbox = init_inbox ls, hs_jumps = [], hs_sent = []\<rparr>)"

text \<open>
  \<open>Qnos.create_processor\<close> chooses by the class of the interface; the two classes of
  \<open>runtime/ntf.py\<close> are told apart by their flavour.
\<close>

definition create_processor :: "ntf_interface \<Rightarrow> processor_class" where
  "create_processor ntf = (case ntf_flavour ntf of VanillaFlavour \<Rightarrow> GenericProcessor | NVFlavour \<Rightarrow> NVProcessor)"

definition qnos_init :: "component \<Rightarrow> real \<Rightarrow> ntf_interface \<Rightarrow> int \<Rightarrow> 'q qpu_env \<Rightarrow> 'q qpu_env res" where
  "qnos_init c t ntf node_id env =
     rbind (qnos_listeners c) (\<lambda>_.
     Inr (env\<lparr>qe_class := create_processor ntf, qe_instr_time := t, qe_node_id := node_id\<rparr>))"

text \<open>\<open>ProcNode.__init__\<close>\<close>

definition proc_node_init ::
    "'q qpu_env \<Rightarrow> 'q \<Rightarrow> string \<Rightarrow> qprocessor \<Rightarrow> lhi_topology \<Rightarrow> lhi_latencies \<Rightarrow> ntf_interface \<Rightarrow>
     ehi_network_info \<Rightarrow> network_schedule option \<Rightarrow> int \<Rightarrow> bool \<Rightarrow> bool \<Rightarrow> bool \<Rightarrow> 'q proc_node res" where
  "proc_node_init env q0 name qproc topology latencies ntf network netschedule node_id det dl predictable =
     rbind (node_component_init name node_id network) (\<lambda>comp.
     rbind (to_ehi topology ntf (Some latencies)) (\<lambda>local_ehi.
     rbind (host_init name network (nk_host comp)
       \<lparr>hl_instr_time = ll_host_instr_time latencies, hl_peer_latency = ll_host_peer_latency latencies\<rparr>) (\<lambda>host.
     let memmgr = init_memmgr (qdevice_init qproc topology q0) (Some local_ehi) in
     rbind (qnos_init (nk_qnos comp) (ll_qnos_instr_time latencies) ntf node_id env) (\<lambda>env1.
     rbind (netstack_listeners name network (nk_netstack comp)) (\<lambda>ls.
     let n = \<lparr>nd_host = host, nd_mm = memmgr, nd_inbox = init_inbox ls, nd_sent = [],
              nd_memory = init_sched_memory\<rparr> in
     Inr \<lparr>px_component = comp, px_qprocessor = qproc, px_local_ehi = local_ehi, px_network_ehi = network,
          px_env = env1, px_is_predictable = predictable,
          px_scheduler = init_node_scheduler node_id det dl netschedule network n\<rparr>)))))"

text \<open>\<open>NodeScheduler.start\<close>: a predictable scheduler does not schedule anything itself.\<close>

definition proc_node_start :: "'q proc_node \<Rightarrow> 'q proc_node res" where
  "proc_node_start n =
     (if px_is_predictable n then Inr n
      else rbind (schedule_all (px_scheduler n)) (\<lambda>sd. Inr (n\<lparr>px_scheduler := sd\<rparr>)))"

text \<open>\<open>LhiLatencies.from_config\<close>\<close>

definition latencies_from_config :: "latencies_config \<Rightarrow> lhi_latencies" where
  "latencies_from_config c =
     \<lparr>ll_host_instr_time = lc_host_instr_time c, ll_qnos_instr_time = lc_qnos_instr_time c,
      ll_host_peer_latency = lc_host_peer_latency c, ll_internal_sched_latency = lc_internal_sched_latency c\<rparr>"

text \<open>The latencies of the processors are set once more after the node has been created.\<close>

definition set_latencies :: "latencies_config \<Rightarrow> 'q proc_node \<Rightarrow> 'q proc_node" where
  "set_latencies c n =
     (let sd = px_scheduler n; nd = sd_node sd; host = nd_host nd in
      n\<lparr>px_env := (px_env n)\<lparr>qe_instr_time := lc_qnos_instr_time c\<rparr>,
        px_scheduler := sd\<lparr>sd_node := nd\<lparr>nd_host := host\<lparr>hs_latencies :=
          \<lparr>hl_instr_time = lc_host_instr_time c, hl_peer_latency = lc_host_peer_latency c\<rparr>\<rparr>\<rparr>\<rparr>\<rparr>)"

definition build_procnode_from_config ::
    "'q qpu_env \<Rightarrow> 'q \<Rightarrow> ehi_network_info \<Rightarrow> network_schedule option \<Rightarrow> proc_node_config \<Rightarrow> 'q proc_node res" where
  "build_procnode_from_config env q0 network netschedule cfg =
     rbind (lhi_from_config (pn_topology cfg)) (\<lambda>topology.
     rbind (build_qprocessor_from_topology topology) (\<lambda>qproc.
     rbind (proc_node_init env q0 (pn_node_name cfg) qproc topology (latencies_from_config (pn_latencies cfg))
       (ntf_config_interface (pn_ntf cfg)) network netschedule (pn_node_id cfg) (pn_determ_sched cfg)
       (pn_use_deadlines cfg) (pn_is_predictable cfg)) (\<lambda>n.
     Inr (set_latencies (pn_latencies cfg) n))))"

definition build_procnode_from_lhi ::
    "'q qpu_env \<Rightarrow> 'q \<Rightarrow> int \<Rightarrow> string \<Rightarrow> lhi_topology \<Rightarrow> lhi_latencies \<Rightarrow> lhi_network_info \<Rightarrow> ntf_interface \<Rightarrow>
     'q proc_node res" where
  "build_procnode_from_lhi env q0 node_id name topology latencies network ntf =
     rbind (build_qprocessor_from_topology topology) (\<lambda>qproc.
     rbind (network_to_ehi network) (\<lambda>network_ehi.
     proc_node_init env q0 name qproc topology latencies ntf network_ehi None node_id True True False))"

section \<open>Networks\<close>

record ('q, 's, 'w) proc_network =
  pw_nodes :: "(string, 'q proc_node) dict"
  pw_entdist :: "('s, 'w) entdist"
  pw_wiring :: wiring

abbreviation node_components :: "(string, 'q proc_node) dict \<Rightarrow> (string, node_component) dict" where
  "node_components ns \<equiv> map (\<lambda>(name, n). (name, px_component n)) ns"

text \<open>\<open>EntDist.__init__\<close>: its memories are those of the nodes.\<close>

definition entdist_init ::
    "ehi_network_info \<Rightarrow> network_schedule option \<Rightarrow> 'q proc_node list \<Rightarrow> 'w \<Rightarrow> ('s, 'w) entdist res" where
  "entdist_init network netschedule nodes w =
     rbind (entdist_listeners network (entdist_component network)) (\<lambda>ls.
     Inr \<lparr>ed_network = network, ed_netschedule = netschedule,
          ed_memories = dict_of (map (\<lambda>n. (nk_id (px_component n),
            replicate (qp_num_positions (px_qprocessor n)) False)) nodes),
          ed_samplers = [], ed_requests = dict_of (map (\<lambda>n. (nk_id (px_component n), [])) nodes),
          ed_inbox = init_inbox ls, ed_sent = [], ed_world = w\<rparr>)"

text \<open>The three parts of \<open>build_network_from_config\<close>: what programs know of the network, the samplers, the latencies.\<close>

definition ehi_links :: "link_between_nodes_config list \<Rightarrow> (int set, ehi_link_info) dict res" where
  "ehi_links links =
     rfold (\<lambda>l d. rbind (link_info_to_ehi (link_info_from_config (lb_link_config l))) (\<lambda>e.
       Inr (dset {lb_node_id1 l, lb_node_id2 l} e d))) links []"

definition network_ehi_from_config :: "network_config \<Rightarrow> ehi_network_info res" where
  "network_ehi_from_config cfg =
     rbind (ehi_links (nc_links cfg)) (\<lambda>links.
     Inr \<lparr>ni_nodes = dict_of (map (\<lambda>c. (pn_node_id c, pn_node_name c)) (nc_nodes cfg)), ni_links = links\<rparr>)"

definition add_samplers ::
    "('s, 'st, 'w) physics \<Rightarrow> link_between_nodes_config list \<Rightarrow> ('s, 'w) entdist \<Rightarrow> ('s, 'w) entdist res" where
  "add_samplers ph = rfold (\<lambda>l. add_sampler ph (lb_node_id1 l) (lb_node_id2 l) (link_info_from_config (lb_link_config l)))"

text \<open>Both alternatives of the condition in \<open>get_latency\<close> are the same.\<close>

definition get_latency :: "classical_connection_config list option \<Rightarrow> int \<Rightarrow> int \<Rightarrow> real" where
  "get_latency cconns node1 node2 =
     (case cconns of
        None \<Rightarrow> 0
      | Some cs \<Rightarrow>
          (case List.find (\<lambda>c. (cc_node_id1 c = node1 \<and> cc_node_id2 c = node2) \<or>
               (cc_node_id1 c = node1 \<and> cc_node_id2 c = node2)) cs of
             None \<Rightarrow> 0
           | Some c \<Rightarrow> cc_latency c))"

definition build_procnodes ::
    "'q qpu_env \<Rightarrow> 'q \<Rightarrow> ehi_network_info \<Rightarrow> network_schedule option \<Rightarrow> proc_node_config list \<Rightarrow>
     (string, 'q proc_node) dict res" where
  "build_procnodes env q0 network netschedule cfgs =
     rfold (\<lambda>c d. rbind (build_procnode_from_config env q0 network netschedule c) (\<lambda>n.
       Inr (dset (pn_node_name c) n d))) cfgs []"

definition build_network_from_config ::
    "'q qpu_env \<Rightarrow> 'q \<Rightarrow> ('s, 'st, 'w) physics \<Rightarrow> 'w \<Rightarrow> network_config \<Rightarrow> ('q, 's, 'w) proc_network res" where
  "build_network_from_config env q0 ph w cfg =
     rbind (network_ehi_from_config cfg) (\<lambda>network.
     let netschedule = map_option (\<lambda>c. netschedule_to_ehi (netschedule_from_config c)) (nc_netschedule cfg) in
     rbind (build_procnodes env q0 network netschedule (nc_nodes cfg)) (\<lambda>nodes.
     rbind (entdist_init network netschedule (map snd nodes) w) (\<lambda>entdist0.
     rbind (add_samplers ph (nc_links cfg) entdist0) (\<lambda>entdist.
     rbind (connect_network (get_latency (nc_cconns cfg)) (entdist_component network) (node_components nodes)) (\<lambda>wiring.
     Inr \<lparr>pw_nodes = nodes, pw_entdist = entdist, pw_wiring = wiring\<rparr>)))))"

text \<open>
  \<open>build_network_from_lhi\<close>. The two nodes of a link come out of a set in an order that Python leaves
  open; the sampler does not depend on it.
\<close>

definition add_link_sampler ::
    "('s, 'st, 'w) physics \<Rightarrow> int set \<times> lhi_link_info \<Rightarrow> ('s, 'w) entdist \<Rightarrow> ('s, 'w) entdist res" where
  "add_link_sampler ph l e =
     (case l of (nodes, info) \<Rightarrow>
        rbind (ensure (card nodes = 2) ValueError) (\<lambda>_. add_sampler ph (Min nodes) (Max nodes) info e))"

record lhi_proc_node_info =
  lpi_id :: int
  lpi_name :: string
  lpi_topology :: lhi_topology
  lpi_latencies :: lhi_latencies

definition build_procnodes_from_lhi ::
    "'q qpu_env \<Rightarrow> 'q \<Rightarrow> lhi_network_info \<Rightarrow> (lhi_proc_node_info \<times> ntf_interface) list \<Rightarrow>
     (string, 'q proc_node) dict res" where
  "build_procnodes_from_lhi env q0 network infos =
     rfold (\<lambda>(i, ntf) d.
       rbind (build_procnode_from_lhi env q0 (lpi_id i) (lpi_name i) (lpi_topology i) (lpi_latencies i) network ntf) (\<lambda>n.
       Inr (dset (lpi_name i) n d))) infos []"

definition build_network_from_lhi ::
    "'q qpu_env \<Rightarrow> 'q \<Rightarrow> ('s, 'st, 'w) physics \<Rightarrow> 'w \<Rightarrow> lhi_proc_node_info list \<Rightarrow> ntf_interface list \<Rightarrow>
     lhi_network_info \<Rightarrow> ('q, 's, 'w) proc_network res" where
  "build_network_from_lhi env q0 ph w infos ntfs network_lhi =
     rbind (build_procnodes_from_lhi env q0 network_lhi (zip infos ntfs)) (\<lambda>nodes.
     rbind (network_to_ehi network_lhi) (\<lambda>network.
     rbind (entdist_init network None (map snd nodes) w) (\<lambda>entdist0.
     rbind (rfold (add_link_sampler ph) (ln_links network_lhi) entdist0) (\<lambda>entdist.
     rbind (attach_network (entdist_component network) (node_components nodes)) (\<lambda>wiring.
     Inr \<lparr>pw_nodes = nodes, pw_entdist = entdist, pw_wiring = wiring\<rparr>)))))"

section \<open>Builders of simple objects\<close>

text \<open>\<open>ObjectBuilder\<close>; the ID of the node is the one that NetSquid chooses.\<close>

definition simple_procnode :: "'q qpu_env \<Rightarrow> 'q \<Rightarrow> int \<Rightarrow> string \<Rightarrow> int \<Rightarrow> 'q proc_node res" where
  "simple_procnode env q0 node_id name n =
     (let network = only_nodes [(0, name)]; topology = perfect_uniform_default_gates n in
      rbind (build_qprocessor_from_topology topology) (\<lambda>qproc.
      proc_node_init env q0 name qproc topology lhi_latencies_zero generic_ntf network None node_id True True False))"

definition simple_program_instance :: "qoala_program \<Rightarrow> int \<Rightarrow> prog_input option \<Rightarrow> program_instance res" where
  "simple_program_instance program pid inputs =
     rbind (to_ehi (perfect_uniform_default_gates 1) generic_ntf None) (\<lambda>ehi.
     Inr \<lparr>pi_pid = pid, pi_program = program, pi_inputs = (case inputs of None \<Rightarrow> [] | Some i \<Rightarrow> i),
          pi_unit_module = from_full_ehi ehi\<rparr>)"

end
