(* ===== verification/Runner.thy ===== *)
theory Runner
  imports Build
begin

text \<open>
  The functions that run applications (\<open>qoala/util/runner.py\<close>): they build the network, submit the
  programs to the nodes, create the processes, start everything, let NetSquid run, and collect the
  results. NetSquid's event loop is a parameter: a function from the network that has been started
  to the network at the end and the time. Resetting NetSquid and drawing a seed have no effect on
  the network.
\<close>

type_synonym ('q, 's, 'w) event_loop = "('q, 's, 'w) proc_network \<Rightarrow> ('q, 's, 'w) proc_network \<times> real"

record app_result =
  ar_batch_results :: "(string, batch_result) dict"
  ar_statistics :: "(string, scheduler_statistics) dict"
  ar_total_duration :: real

definition create_batch :: "qoala_program \<Rightarrow> unit_module \<Rightarrow> prog_input list \<Rightarrow> int \<Rightarrow> batch_info" where
  "create_batch program unit_module inputs num_iterations =
     \<lparr>bi_program = program, bi_unit_module = unit_module, bi_inputs = inputs,
      bi_num_iterations = num_iterations, bi_deadline = 0\<rparr>"

text \<open>A method of the scheduler of a node of the network.\<close>

definition on_node ::
    "string \<Rightarrow> ('q node_scheduler \<Rightarrow> ('a \<times> 'q node_scheduler) res) \<Rightarrow> ('q, 's, 'w) proc_network \<Rightarrow>
     ('a \<times> ('q, 's, 'w) proc_network) res" where
  "on_node name f net =
     rbind (dget (pw_nodes net) name) (\<lambda>n.
     rbind (f (px_scheduler n)) (\<lambda>(x, sd).
     Inr (x, net\<lparr>pw_nodes := dset name (n\<lparr>px_scheduler := sd\<rparr>) (pw_nodes net)\<rparr>)))"

text \<open>The batch of a node: the program for all qubits that the node has, with its inputs.\<close>

definition submit_on ::
    "qoala_program \<Rightarrow> prog_input list \<Rightarrow> int \<Rightarrow> 'q node_scheduler \<Rightarrow> (program_batch \<times> 'q node_scheduler) res" where
  "submit_on program inputs num_iterations sd =
     rbind (get_ehi (nd_mm (sd_node sd))) (\<lambda>ehi.
     submit_batch (create_batch program (from_full_ehi ehi) inputs num_iterations) sd)"

definition create_on ::
    "(int, int list) dict option \<Rightarrow> bool \<Rightarrow> 'q node_scheduler \<Rightarrow> (unit \<times> 'q node_scheduler) res" where
  "create_on remote_pids lin sd =
     rbind (create_processes_for_batches remote_pids lin sd) (\<lambda>sd'. Inr ((), sd'))"

text \<open>Starting the distributor only starts its protocol; starting a node schedules its first tasks.\<close>

definition start_network :: "('q, 's, 'w) proc_network \<Rightarrow> ('q, 's, 'w) proc_network res" where
  "start_network net =
     rbind (rfold (\<lambda>(name, n) d. rbind (proc_node_start n) (\<lambda>n'. Inr (dset name n' d))) (pw_nodes net) (pw_nodes net)) (\<lambda>nodes.
     Inr (net\<lparr>pw_nodes := nodes\<rparr>))"

text \<open>The results of batch 0 and the statistics of a node.\<close>

definition collect_on :: "'q node_scheduler \<Rightarrow> ((batch_result \<times> scheduler_statistics) \<times> 'q node_scheduler) res" where
  "collect_on sd =
     rbind (get_batch_results sd) (\<lambda>(results, sd').
     rbind (dget results 0) (\<lambda>r. Inr ((r, get_statistics sd'), sd')))"

definition collect_node ::
    "string \<Rightarrow> (string, batch_result) dict \<times> (string, scheduler_statistics) dict \<times> ('q, 's, 'w) proc_network \<Rightarrow>
     ((string, batch_result) dict \<times> (string, scheduler_statistics) dict \<times> ('q, 's, 'w) proc_network) res" where
  "collect_node name st = (case st of (results, statistics, net) \<Rightarrow>
     rbind (on_node name collect_on net) (\<lambda>((r, s), net').
     Inr (dset name r results, dset name s statistics, net')))"

section \<open>Two nodes\<close>

definition submit_two ::
    "int \<Rightarrow> (string, qoala_program) dict \<Rightarrow> (string, prog_input list) dict \<Rightarrow> string \<Rightarrow>
     (string, program_batch) dict \<times> ('q, 's, 'w) proc_network \<Rightarrow>
     ((string, program_batch) dict \<times> ('q, 's, 'w) proc_network) res" where
  "submit_two num_iterations programs program_inputs name st = (case st of (batches, net) \<Rightarrow>
     rbind (ensure (dhas (pw_nodes net) name) KeyError) (\<lambda>_.
     rbind (dget programs name) (\<lambda>program.
     rbind (dget program_inputs name) (\<lambda>inputs.
     rbind (on_node name (submit_on program inputs num_iterations) net) (\<lambda>(batch, net').
     Inr (dset name batch batches, net'))))))"

definition create_two ::
    "(string, string) dict \<Rightarrow> (string, program_batch) dict \<Rightarrow> bool \<Rightarrow> string \<Rightarrow>
     ('q, 's, 'w) proc_network \<Rightarrow> ('q, 's, 'w) proc_network res" where
  "create_two other_name batches lin name net =
     rbind (ensure (dhas (pw_nodes net) name) KeyError) (\<lambda>_.
     rbind (dget other_name name) (\<lambda>other.
     rbind (dget batches other) (\<lambda>remote_batch.
     rbind (on_node name (create_on (Some [(ba_batch_id remote_batch, map pi_pid (ba_instances remote_batch))]) lin) net) (\<lambda>(u, net').
     Inr net'))))"

text \<open>The network before it is started.\<close>

definition prepare_two ::
    "int \<Rightarrow> (string, qoala_program) dict \<Rightarrow> (string, prog_input list) dict \<Rightarrow> bool \<Rightarrow>
     ('q, 's, 'w) proc_network \<Rightarrow> ('q, 's, 'w) proc_network res" where
  "prepare_two num_iterations programs program_inputs lin net =
     rbind (py_assert (length (keys programs) = 2)) (\<lambda>_.
     let a = keys programs ! 0; b = keys programs ! 1 in
     rbind (rfold (submit_two num_iterations programs program_inputs) [a, b] ([], net)) (\<lambda>(batches, net1).
     rfold (create_two (dict_of [(a, b), (b, a)]) batches lin) [a, b] net1))"

definition run_two_node_app_separate_inputs ::
    "('q, 's, 'w) event_loop \<Rightarrow> 'q qpu_env \<Rightarrow> 'q \<Rightarrow> ('s, 'st, 'w) physics \<Rightarrow> 'w \<Rightarrow>
     int \<Rightarrow> (string, qoala_program) dict \<Rightarrow> (string, prog_input list) dict \<Rightarrow> network_config \<Rightarrow> bool \<Rightarrow> app_result res" where
  "run_two_node_app_separate_inputs loop env q0 ph w num_iterations programs program_inputs cfg lin =
     rbind (build_network_from_config env q0 ph w cfg) (\<lambda>net.
     rbind (prepare_two num_iterations programs program_inputs lin net) (\<lambda>net1.
     rbind (start_network net1) (\<lambda>net2.
     let (net3, duration) = loop net2 in
     rbind (rfold collect_node (keys programs) ([], [], net3)) (\<lambda>(results, statistics, net4).
     Inr \<lparr>ar_batch_results = results, ar_statistics = statistics, ar_total_duration = duration\<rparr>))))"

text \<open>\<open>[x for _ in range(n)]\<close>\<close>

definition py_repeat :: "int \<Rightarrow> 'a \<Rightarrow> 'a list" where
  "py_repeat n x = replicate (nat n) x"

definition run_two_node_app ::
    "('q, 's, 'w) event_loop \<Rightarrow> 'q qpu_env \<Rightarrow> 'q \<Rightarrow> ('s, 'st, 'w) physics \<Rightarrow> 'w \<Rightarrow>
     int \<Rightarrow> (string, qoala_program) dict \<Rightarrow> (string, prog_input) dict \<Rightarrow> network_config \<Rightarrow> bool \<Rightarrow> app_result res" where
  "run_two_node_app loop env q0 ph w num_iterations programs program_inputs cfg lin =
     rbind (rmap (\<lambda>name. rbind (if 0 < num_iterations then rbind (dget program_inputs name) (\<lambda>i. Inr (py_repeat num_iterations i))
       else Inr []) (\<lambda>is'. Inr (name, is'))) (keys programs)) (\<lambda>new_inputs.
     run_two_node_app_separate_inputs loop env q0 ph w num_iterations programs new_inputs cfg lin)"

section \<open>One node\<close>

definition run_single_node_app_separate_inputs ::
    "('q, 's, 'w) event_loop \<Rightarrow> 'q qpu_env \<Rightarrow> 'q \<Rightarrow> ('s, 'st, 'w) physics \<Rightarrow> 'w \<Rightarrow>
     int \<Rightarrow> string \<Rightarrow> qoala_program \<Rightarrow> prog_input list \<Rightarrow> network_config \<Rightarrow> bool \<Rightarrow> app_result res" where
  "run_single_node_app_separate_inputs loop env q0 ph w num_iterations program_name program inputs cfg lin =
     rbind (build_network_from_config env q0 ph w cfg) (\<lambda>net.
     rbind (py_nth (keys (pw_nodes net)) 0) (\<lambda>name.
     rbind (on_node name (submit_on program inputs num_iterations) net) (\<lambda>(batch, net1).
     rbind (on_node name (create_on None lin) net1) (\<lambda>(u, net2).
     rbind (start_network net2) (\<lambda>net3.
     let (net4, duration) = loop net3 in
     rbind (on_node name collect_on net4) (\<lambda>((r, s), net5).
     Inr \<lparr>ar_batch_results = [(program_name, r)], ar_statistics = [(program_name, s)], ar_total_duration = duration\<rparr>))))))"

definition run_single_node_app ::
    "('q, 's, 'w) event_loop \<Rightarrow> 'q qpu_env \<Rightarrow> 'q \<Rightarrow> ('s, 'st, 'w) physics \<Rightarrow> 'w \<Rightarrow>
     int \<Rightarrow> string \<Rightarrow> qoala_program \<Rightarrow> prog_input \<Rightarrow> network_config \<Rightarrow> bool \<Rightarrow> app_result res" where
  "run_single_node_app loop env q0 ph w num_iterations program_name program inp cfg lin =
     run_single_node_app_separate_inputs loop env q0 ph w num_iterations program_name program (py_repeat num_iterations inp) cfg lin"

section \<open>One server, several clients\<close>

text \<open>The copy of the server program for a client: its first sockets lead to the client.\<close>

definition server_copy :: "string \<Rightarrow> qoala_program \<Rightarrow> qoala_program" where
  "server_copy client program =
     (let meta = pr_meta program in
      program\<lparr>pr_meta := meta\<lparr>pm_csockets := dset 0 client (pm_csockets meta),
        pm_epr_sockets := dset 0 client (pm_epr_sockets meta)\<rparr>\<rparr>)"

definition submit_client ::
    "qoala_program \<Rightarrow> string \<Rightarrow> qoala_program \<Rightarrow> (string, prog_input list) dict \<Rightarrow> prog_input list \<Rightarrow> string \<Rightarrow>
     (string, int) dict \<times> ('q, 's, 'w) proc_network \<Rightarrow> ((string, int) dict \<times> ('q, 's, 'w) proc_network) res" where
  "submit_client client_program server server_program client_inputs server_inputs client st = (case st of (server_pids, net) \<Rightarrow>
     rbind (ensure (dhas (pw_nodes net) client) KeyError) (\<lambda>_.
     rbind (dget client_inputs client) (\<lambda>inputs.
     rbind (on_node client (submit_on client_program inputs 1) net) (\<lambda>(b, net1).
     rbind (on_node server (submit_on (server_copy client server_program) server_inputs 1) net1) (\<lambda>(batch, net2).
     rbind (py_nth (ba_instances batch) 0) (\<lambda>inst.
     Inr (dset client (pi_pid inst) server_pids, net2)))))))"

text \<open>
  In the second loop the variable \<open>procnode\<close> still holds the node of the last client; without clients
  the variable of the server is unbound.
\<close>

definition create_client ::
    "string \<Rightarrow> (string, int) dict \<Rightarrow> string \<Rightarrow> ('q, 's, 'w) proc_network \<Rightarrow> ('q, 's, 'w) proc_network res" where
  "create_client procnode server_pids client net =
     rbind (dget server_pids client) (\<lambda>pid.
     rbind (on_node procnode (create_on (Some [(0, [pid])]) False) net) (\<lambda>(u, net'). Inr net'))"

definition prepare_clients ::
    "string list \<Rightarrow> qoala_program \<Rightarrow> string \<Rightarrow> qoala_program \<Rightarrow> (string, prog_input list) dict \<Rightarrow> prog_input list \<Rightarrow>
     ('q, 's, 'w) proc_network \<Rightarrow> ('q, 's, 'w) proc_network res" where
  "prepare_clients clients client_program server server_program client_inputs server_inputs net =
     rbind (rfold (submit_client client_program server server_program client_inputs server_inputs) clients ([], net)) (\<lambda>(server_pids, net1).
     rbind (rfold (create_client (last clients) server_pids) clients net1) (\<lambda>net2.
     rbind (ensure (clients \<noteq> []) UnboundLocalError) (\<lambda>_.
     rbind (on_node server (create_on (Some (map (\<lambda>i. (i, [0])) [0..int (length clients) - 1])) False) net2) (\<lambda>(u, net3).
     Inr net3))))"

definition run_1_server_n_clients ::
    "('q, 's, 'w) event_loop \<Rightarrow> 'q qpu_env \<Rightarrow> 'q \<Rightarrow> ('s, 'st, 'w) physics \<Rightarrow> 'w \<Rightarrow>
     string list \<Rightarrow> qoala_program \<Rightarrow> string \<Rightarrow> qoala_program \<Rightarrow> (string, prog_input list) dict \<Rightarrow> prog_input list \<Rightarrow>
     network_config \<Rightarrow> app_result res" where
  "run_1_server_n_clients loop env q0 ph w clients client_program server server_program client_inputs server_inputs cfg =
     rbind (build_network_from_config env q0 ph w cfg) (\<lambda>net.
     rbind (prepare_clients clients client_program server server_program client_inputs server_inputs net) (\<lambda>net1.
     rbind (start_network net1) (\<lambda>net2.
     let (net3, duration) = loop net2 in
     rbind (rfold collect_node (clients @ [server]) ([], [], net3)) (\<lambda>(results, statistics, net4).
     Inr \<lparr>ar_batch_results = results, ar_statistics = statistics, ar_total_duration = duration\<rparr>))))"

end
