(* ===== verification/PortsRun.thy ===== *)
theory PortsRun
  imports Ports
begin

text \<open>
  The wiring of a network: building it never fails, every two nodes are tied by their Hosts and
  network stacks, every node is tied to the entanglement distributor, and no port is connected twice.
\<close>

section \<open>Ports exist\<close>

lemma map_of_peer_ports:
  "map_of (peer_ports pre suf names) n = (if n \<in> set names then Some (port_name pre n suf) else None)"
proof -
  have "map_of (rev (map (\<lambda>n. (n, port_name pre n suf)) names)) n = (if n \<in> set names then Some (port_name pre n suf) else None)"
    unfolding rev_map by (induction names rule: rev_induct) auto
  then show ?thesis by (simp add: peer_ports_def map_of_dupdate)
qed

lemma peer_port_value: "n \<in> set names \<Longrightarrow> port_name pre n suf \<in> snd ` set (peer_ports pre suf names)"
  using map_of_SomeD [of "peer_ports pre suf names" n "port_name pre n suf"] by (force simp: map_of_peer_ports)

lemma port_for_peer:
  assumes "n \<in> set names" "snd ` set (peer_ports pre suf names) \<subseteq> set ports"
  shows "port_for c ports (peer_ports pre suf names) n = Inr (c, port_name pre n suf)"
  using peer_port_value [OF assms(1), of pre suf] assms
  by (auto simp: port_for_def port_named_def ensure_def dget_def map_of_peer_ports)

lemma component_peer_ports:
  assumes "peer \<in> set (other_nodes name net)"
  shows "peer_in_port (host_component name net) peer = Inr (HostC name, port_name ''peer_'' peer ''_in'')"
    and "peer_out_port (host_component name net) peer = Inr (HostC name, port_name ''peer_'' peer ''_out'')"
    and "peer_in_port (netstack_component name net) peer = Inr (NetstackC name, port_name ''peer_'' peer ''_in'')"
    and "peer_out_port (netstack_component name net) peer = Inr (NetstackC name, port_name ''peer_'' peer ''_out'')"
  unfolding peer_in_port_def peer_out_port_def host_component_def netstack_component_def Let_def component.simps
  by (rule port_for_peer [OF assms], force)+

lemma entdist_peer_ports:
  assumes "name \<in> set (get_all_node_names net)"
  shows "peer_in_port (entdist_component net) name = Inr (EntDistC, port_name ''node_'' name ''_in'')"
    and "peer_out_port (entdist_component net) name = Inr (EntDistC, port_name ''node_'' name ''_out'')"
  unfolding peer_in_port_def peer_out_port_def entdist_component_def Let_def component.simps
  by (rule port_for_peer [OF assms], force)+

section \<open>The component of a node\<close>

text \<open>The fields of a node component, whatever ties it has.\<close>

definition ports_listed :: "node_component \<Rightarrow> bool" where
  "ports_listed n \<longleftrightarrow> {''entdist_out'', ''entdist_in''} \<subseteq> set (nk_ports n) \<and>
     (\<forall>d \<in> {nk_netstack_in n, nk_netstack_out n, nk_host_in n, nk_host_out n}. snd ` set d \<subseteq> set (nk_ports n))"

definition node_ports_ok :: "ehi_network_info \<Rightarrow> node_component \<Rightarrow> bool" where
  "node_ports_ok net n \<longleftrightarrow>
     nk_host n = host_component (nk_name n) net \<and> nk_netstack n = netstack_component (nk_name n) net \<and>
     nk_netstack_in n = peer_ports ''netstack_peer_'' ''_in'' (other_nodes (nk_name n) net) \<and>
     nk_netstack_out n = peer_ports ''netstack_peer_'' ''_out'' (other_nodes (nk_name n) net) \<and>
     nk_host_in n = peer_ports ''host_peer_'' ''_in'' (other_nodes (nk_name n) net) \<and>
     nk_host_out n = peer_ports ''host_peer_'' ''_out'' (other_nodes (nk_name n) net) \<and> ports_listed n"

lemma node_ports_ok_ties: "node_ports_ok net (n\<lparr>nk_ties := ts\<rparr>) = node_ports_ok net n"
  unfolding node_ports_ok_def ports_listed_def by simp

lemma node_peer_ports:
  assumes "node_ports_ok net n" "peer \<in> set (other_nodes (nk_name n) net)"
  shows "host_peer_in_port n peer = Inr (NodeC (nk_name n), port_name ''host_peer_'' peer ''_in'')"
    and "host_peer_out_port n peer = Inr (NodeC (nk_name n), port_name ''host_peer_'' peer ''_out'')"
    and "netstack_peer_in_port n peer = Inr (NodeC (nk_name n), port_name ''netstack_peer_'' peer ''_in'')"
    and "netstack_peer_out_port n peer = Inr (NodeC (nk_name n), port_name ''netstack_peer_'' peer ''_out'')"
proof -
  have listed: "snd ` set d \<subseteq> set (nk_ports n)"
    if "d \<in> {nk_netstack_in n, nk_netstack_out n, nk_host_in n, nk_host_out n}" for d
    using assms(1) that unfolding node_ports_ok_def ports_listed_def by blast
  have fields: "nk_host_in n = peer_ports ''host_peer_'' ''_in'' (other_nodes (nk_name n) net)"
      "nk_host_out n = peer_ports ''host_peer_'' ''_out'' (other_nodes (nk_name n) net)"
      "nk_netstack_in n = peer_ports ''netstack_peer_'' ''_in'' (other_nodes (nk_name n) net)"
      "nk_netstack_out n = peer_ports ''netstack_peer_'' ''_out'' (other_nodes (nk_name n) net)"
    using assms(1) by (simp_all add: node_ports_ok_def)
  note lookup = port_for_peer [OF assms(2) listed [unfolded fields]]
  show "host_peer_in_port n peer = Inr (NodeC (nk_name n), port_name ''host_peer_'' peer ''_in'')"
    and "host_peer_out_port n peer = Inr (NodeC (nk_name n), port_name ''host_peer_'' peer ''_out'')"
    and "netstack_peer_in_port n peer = Inr (NodeC (nk_name n), port_name ''netstack_peer_'' peer ''_in'')"
    and "netstack_peer_out_port n peer = Inr (NodeC (nk_name n), port_name ''netstack_peer_'' peer ''_out'')"
    unfolding host_peer_in_port_def host_peer_out_port_def netstack_peer_in_port_def netstack_peer_out_port_def fields
    by (rule lookup, simp)+
qed

lemma node_entdist_ports:
  assumes "node_ports_ok net n"
  shows "entdist_in_port n = Inr (NodeC (nk_name n), ''entdist_in'')"
    and "entdist_out_port n = Inr (NodeC (nk_name n), ''entdist_out'')"
  using assms by (simp_all add: entdist_in_port_def entdist_out_port_def port_named_def ensure_def node_ports_ok_def ports_listed_def)

definition peer_ties :: "string \<Rightarrow> string \<Rightarrow> port_tie list" where
  "peer_ties name peer =
     [ForwardOutput (NetstackC name, port_name ''peer_'' peer ''_out'') (NodeC name, port_name ''netstack_peer_'' peer ''_out''),
      ForwardInput (NodeC name, port_name ''netstack_peer_'' peer ''_in'') (NetstackC name, port_name ''peer_'' peer ''_in''),
      ForwardOutput (HostC name, port_name ''peer_'' peer ''_out'') (NodeC name, port_name ''host_peer_'' peer ''_out''),
      ForwardInput (NodeC name, port_name ''host_peer_'' peer ''_in'') (HostC name, port_name ''peer_'' peer ''_in'')]"

lemma forward_peer_ok:
  assumes "node_ports_ok net n" "peer \<in> set (other_nodes (nk_name n) net)"
  shows "forward_peer peer n = Inr (n\<lparr>nk_ties := nk_ties n @ peer_ties (nk_name n) peer\<rparr>)"
proof -
  have "nk_host n = host_component (nk_name n) net" "nk_netstack n = netstack_component (nk_name n) net"
    using assms(1) by (simp_all add: node_ports_ok_def)
  then show ?thesis unfolding forward_peer_def peer_ties_def
    by (simp only: component_peer_ports [OF assms(2)] node_peer_ports [OF assms] rbind.simps)
qed

lemma forward_peers_ok:
  assumes "node_ports_ok net n" "set peers \<subseteq> set (other_nodes (nk_name n) net)"
  shows "rfold forward_peer peers n = Inr (n\<lparr>nk_ties := nk_ties n @ concat (map (peer_ties (nk_name n)) peers)\<rparr>)"
  using assms
proof (induction peers arbitrary: n)
  case (Cons p ps)
  then have "node_ports_ok net (n\<lparr>nk_ties := nk_ties n @ peer_ties (nk_name n) p\<rparr>)"
    by (simp add: node_ports_ok_ties)
  from Cons.IH [OF this] Cons.prems show ?case by (simp add: forward_peer_ok)
qed simp

text \<open>The ties inside a node: between Host and Qnos, of the network stack to the outside, and of each peer.\<close>

definition inner_ties :: "string \<Rightarrow> port_tie list" where
  "inner_ties name =
     [Connect (HostC name, ''qnos_out'') (QnosC name, ''host_in''), Connect (HostC name, ''qnos_in'') (QnosC name, ''host_out''),
      ForwardOutput (NetstackC name, ''entdist_out'') (NodeC name, ''entdist_out''),
      ForwardInput (NodeC name, ''entdist_in'') (NetstackC name, ''entdist_in'')]"

lemma node_component_init_ok:
  obtains n where "node_component_init name i net = Inr n" "nk_name n = name" "nk_id n = i" "node_ports_ok net n"
    and "nk_ties n = inner_ties name @ concat (map (peer_ties name) (other_nodes name net))"
proof -
  let ?peers = "other_nodes name net"
  let ?base = "inner_ties name"
  let ?n = "\<lparr>nk_name = name, nk_id = i, nk_qnos = qnos_component name, nk_host = host_component name net,
         nk_netstack = netstack_component name net,
         nk_netstack_in = peer_ports ''netstack_peer_'' ''_in'' ?peers, nk_netstack_out = peer_ports ''netstack_peer_'' ''_out'' ?peers,
         nk_host_in = peer_ports ''host_peer_'' ''_in'' ?peers, nk_host_out = peer_ports ''host_peer_'' ''_out'' ?peers,
         nk_ports = [''entdist_out'', ''entdist_in''] @ map snd (peer_ports ''netstack_peer_'' ''_in'' ?peers) @
           map snd (peer_ports ''netstack_peer_'' ''_out'' ?peers) @
           map snd (peer_ports ''host_peer_'' ''_in'' ?peers) @ map snd (peer_ports ''host_peer_'' ''_out'' ?peers),
         nk_ties = ?base\<rparr>"
  have ok: "node_ports_ok net ?n" by (auto simp: node_ports_ok_def ports_listed_def)
  have statics: "static_port (host_component name net) ''qnos_out'' = Inr (HostC name, ''qnos_out'')"
      "static_port (host_component name net) ''qnos_in'' = Inr (HostC name, ''qnos_in'')"
      "static_port (qnos_component name) ''host_in'' = Inr (QnosC name, ''host_in'')"
      "static_port (qnos_component name) ''host_out'' = Inr (QnosC name, ''host_out'')"
      "static_port (netstack_component name net) ''entdist_in'' = Inr (NetstackC name, ''entdist_in'')"
      "static_port (netstack_component name net) ''entdist_out'' = Inr (NetstackC name, ''entdist_out'')"
    by (simp_all add: static_port_def port_named_def ensure_def host_component_def qnos_component_def
      netstack_component_def Let_def)
  let ?r = "?n\<lparr>nk_ties := ?base @ concat (map (peer_ties name) ?peers)\<rparr>"
  have init: "node_component_init name i net = Inr ?r"
    using forward_peers_ok [OF ok, of ?peers]
    by (simp only: node_component_init_def inner_ties_def Let_def statics rbind.simps node_component.simps order_refl simp_thms)
  have "node_ports_ok net ?r" using ok by (simp only: node_ports_ok_ties)
  then show ?thesis by (rule that [OF init, rotated 2]) simp_all
qed

lemma forward_peers_qnos: "rfold forward_peer ps n = Inr m \<Longrightarrow> nk_qnos m = nk_qnos n"
proof (induction ps arbitrary: n)
  case (Cons p ps)
  then obtain k where "forward_peer p n = Inr k" "rfold forward_peer ps k = Inr m" by auto
  moreover from this(1) have "nk_qnos k = nk_qnos n" unfolding forward_peer_def by auto
  ultimately show ?case using Cons.IH by simp
qed simp

lemma node_component_init_qnos: "node_component_init a i net = Inr n \<Longrightarrow> nk_qnos n = qnos_component a"
  unfolding node_component_init_def Let_def by (auto dest!: forward_peers_qnos)

section \<open>The ties between nodes\<close>

definition pair_ties :: "string \<Rightarrow> string \<Rightarrow> port_tie list" where
  "pair_ties a b =
     [Connect (NodeC a, port_name ''host_peer_'' b ''_out'') (HostChannel a b, ''send''),
      Connect (HostChannel a b, ''recv'') (NodeC b, port_name ''host_peer_'' a ''_in''),
      Connect (NodeC b, port_name ''host_peer_'' a ''_out'') (HostChannel b a, ''send''),
      Connect (HostChannel b a, ''recv'') (NodeC a, port_name ''host_peer_'' b ''_in''),
      Connect (NodeC a, port_name ''netstack_peer_'' b ''_out'') (NodeC b, port_name ''netstack_peer_'' a ''_in''),
      Connect (NodeC a, port_name ''netstack_peer_'' b ''_in'') (NodeC b, port_name ''netstack_peer_'' a ''_out'')]"

definition entdist_ties :: "string \<Rightarrow> port_tie list" where
  "entdist_ties a =
     [Connect (NodeC a, ''entdist_out'') (ToEntDist a, ''send''),
      Connect (ToEntDist a, ''recv'') (EntDistC, port_name ''node_'' a ''_in''),
      Connect (EntDistC, port_name ''node_'' a ''_out'') (FromEntDist a, ''send''),
      Connect (FromEntDist a, ''recv'') (NodeC a, ''entdist_in'')]"

definition add_ties :: "port_tie list \<Rightarrow> (component_id \<times> real) list \<Rightarrow> wiring \<Rightarrow> wiring" where
  "add_ties ts ds w = w\<lparr>wi_ties := wi_ties w @ ts, wi_delays := wi_delays w @ ds\<rparr>"

lemma add_ties_simps [simp]:
  "add_ties [] [] w = w" "add_ties ts ds (add_ties us es w) = add_ties (us @ ts) (es @ ds) w"
  "wi_ties (add_ties ts ds w) = wi_ties w @ ts" "wi_delays (add_ties ts ds w) = wi_delays w @ ds"
  by (simp_all add: add_ties_def)

lemma rfold_add_ties:
  assumes "\<And>x w. x \<in> set xs \<Longrightarrow> f x w = Inr (add_ties (g x) (h x) w)"
  shows "rfold f xs w = Inr (add_ties (concat (map g xs)) (concat (map h xs)) w)"
  using assms by (induction xs arbitrary: w) simp_all

lemma connect_to_ok:
  assumes "node_ports_ok net n" "node_ports_ok net m" "nk_name n \<noteq> nk_name m"
    and "nk_name n \<in> set (get_all_node_names net)" "nk_name m \<in> set (get_all_node_names net)"
  shows "connect_to d n m w = Inr (add_ties (pair_ties (nk_name n) (nk_name m))
    [(HostChannel (nk_name n) (nk_name m), d), (HostChannel (nk_name m) (nk_name n), d)] w)"
proof -
  have "nk_name m \<in> set (other_nodes (nk_name n) net)" "nk_name n \<in> set (other_nodes (nk_name m) net)"
    using assms(3-5) by (auto simp: other_nodes_def)
  note ports = node_peer_ports [OF assms(1) this(1)] node_peer_ports [OF assms(2) this(2)]
  show ?thesis
    unfolding connect_to_def Let_def through_channel_def add_ties_def pair_ties_def by (simp only: ports rbind.simps) simp
qed

lemma connect_entdist_ok:
  assumes "node_ports_ok net n" "nk_name n = name" "name \<in> set (get_all_node_names net)"
  shows "connect_entdist d (entdist_component net) (name, n) w =
    Inr (add_ties (entdist_ties name) [(ToEntDist name, d), (FromEntDist name, d)] w)"
  unfolding connect_entdist_def Let_def through_channel_def add_ties_def entdist_ties_def
  by (simp only: node_entdist_ports [OF assms(1)] entdist_peer_ports [OF assms(3)] rbind.simps prod.case assms(2)) simp

text \<open>The nodes of a network: components of distinct nodes that the network knows, under their names.\<close>

definition network_nodes_ok :: "ehi_network_info \<Rightarrow> (string, node_component) dict \<Rightarrow> bool" where
  "network_nodes_ok net ns \<longleftrightarrow> dict_ok ns \<and>
     (\<forall>(name, n) \<in> set ns. nk_name n = name \<and> name \<in> set (get_all_node_names net) \<and>
        node_component_init name (nk_id n) net = Inr n)"

lemma network_nodes_okD:
  assumes "network_nodes_ok net ns" "(name, n) \<in> set ns"
  shows "nk_name n = name" "name \<in> set (get_all_node_names net)" "node_ports_ok net n"
proof -
  show n: "nk_name n = name" "name \<in> set (get_all_node_names net)"
    using assms by (auto simp: network_nodes_ok_def)
  have "node_component_init name (nk_id n) net = Inr n" using assms by (auto simp: network_nodes_ok_def)
  moreover obtain m where "node_component_init name (nk_id n) net = Inr m" "node_ports_ok net m"
    by (rule node_component_init_ok)
  ultimately show "node_ports_ok net n" by simp
qed

lemma node_names:
  assumes "network_nodes_ok net ns"
  shows "map nk_name (map snd ns) = keys ns"
  using network_nodes_okD(1) [OF assms] by auto

lemma connect_network_ties:
  assumes "network_nodes_ok net ns"
  obtains w where "connect_network latency (entdist_component net) ns = Inr w"
    and "wi_ties w = concat (map (\<lambda>(n, m). pair_ties (nk_name n) (nk_name m)) (combinations2 (map snd ns))) @
      concat (map (\<lambda>(name, n). entdist_ties name) ns)"
    and "wi_delays w = concat (map (\<lambda>(n, m). let d = latency (nk_id n) (nk_id m) in
        [(HostChannel (nk_name n) (nk_name m), d), (HostChannel (nk_name m) (nk_name n), d)]) (combinations2 (map snd ns))) @
      concat (map (\<lambda>(name, n). [(ToEntDist name, 0), (FromEntDist name, 0)]) ns)"
proof -
  have pairs: "nk_name n \<noteq> nk_name m" if "(n, m) \<in> set (combinations2 (map snd ns))" for n m
  proof -
    have "distinct (map nk_name (map snd ns))"
      using assms unfolding node_names [OF assms] by (simp add: network_nodes_ok_def)
    then show ?thesis using that by (induction ns) (auto dest: combinations2_sub)
  qed
  let ?pt = "concat (map (\<lambda>(n, m). pair_ties (nk_name n) (nk_name m)) (combinations2 (map snd ns)))"
  let ?pd = "concat (map (\<lambda>(n, m). let d = latency (nk_id n) (nk_id m) in
        [(HostChannel (nk_name n) (nk_name m), d), (HostChannel (nk_name m) (nk_name n), d)]) (combinations2 (map snd ns)))"
  let ?et = "concat (map (\<lambda>(name, n). entdist_ties name) ns)"
  let ?ed = "concat (map (\<lambda>(name, n). [(ToEntDist name, 0), (FromEntDist name, 0)]) ns)"
  let ?w0 = "\<lparr>wi_ties = [], wi_delays = []\<rparr>"
  have nodes: "connect_nodes latency (map snd ns) ?w0 = Inr (add_ties ?pt ?pd ?w0)"
    unfolding connect_nodes_def
  proof (rule rfold_add_ties, goal_cases)
    case (1 x w)
    obtain n m where x: "x = (n, m)" by (cases x)
    with 1 have neq: "nk_name n \<noteq> nk_name m" and "n \<in> snd ` set ns" "m \<in> snd ` set ns"
      using combinations2_sub [of n m "map snd ns"] pairs by auto
    then obtain a b where "(a, n) \<in> set ns" "(b, m) \<in> set ns" by auto
    note ok = network_nodes_okD [OF assms this(1)] network_nodes_okD [OF assms this(2)]
    show ?case
      unfolding x prod.case Let_def by (rule connect_to_ok [OF ok(3) ok(6) neq]) (use ok in simp_all)
  qed
  have ends: "rfold (connect_entdist 0 (entdist_component net)) ns w1 = Inr (add_ties ?et ?ed w1)" for w1
  proof (rule rfold_add_ties, goal_cases)
    case (1 x w)
    obtain name n where x: "x = (name, n)" by (cases x)
    note ok = network_nodes_okD [OF assms 1 [unfolded x]]
    show ?case unfolding x prod.case by (rule connect_entdist_ok [OF ok(3) ok(1) ok(2)])
  qed
  have "connect_network latency (entdist_component net) ns = Inr (add_ties ?et ?ed (add_ties ?pt ?pd ?w0))"
    by (simp only: connect_network_def nodes ends rbind.simps)
  then show ?thesis by (rule that) (simp_all only: add_ties_simps wiring.simps append_Nil)
qed

section \<open>No port is connected twice\<close>

fun connected_ports :: "port_tie \<Rightarrow> port list" where
  "connected_ports (Connect p q) = [p, q]"
| "connected_ports (ForwardOutput p q) = []"
| "connected_ports (ForwardInput p q) = []"

lemma port_name_eq [simp]:
  "port_name pre a suf = port_name pre b suf \<longleftrightarrow> a = b"
  "port_name pre a ''_in'' \<noteq> port_name pre' b ''_out''" "port_name pre' b ''_out'' \<noteq> port_name pre a ''_in''"
  "port_name ''host_peer_'' a suf \<noteq> port_name ''netstack_peer_'' b suf'"
  "port_name ''netstack_peer_'' b suf' \<noteq> port_name ''host_peer_'' a suf"
  "port_name ''host_peer_'' a suf \<noteq> ''entdist_in''" "port_name ''host_peer_'' a suf \<noteq> ''entdist_out''"
  "port_name ''netstack_peer_'' a suf \<noteq> ''entdist_in''" "port_name ''netstack_peer_'' a suf \<noteq> ''entdist_out''"
  "''entdist_in'' \<noteq> port_name ''host_peer_'' a suf" "''entdist_out'' \<noteq> port_name ''host_peer_'' a suf"
  "''entdist_in'' \<noteq> port_name ''netstack_peer_'' a suf" "''entdist_out'' \<noteq> port_name ''netstack_peer_'' a suf"
proof -
  have "last (port_name pre a ''_in'') = CHR ''n''" "last (port_name pre' b ''_out'') = CHR ''t''"
    by (simp_all add: port_name_def)
  then show "port_name pre a ''_in'' \<noteq> port_name pre' b ''_out''" "port_name pre' b ''_out'' \<noteq> port_name pre a ''_in''"
    by fastforce+
qed (simp_all add: port_name_def)

text \<open>Every port that is connected belongs to one pair of nodes, or to one node and the distributor.\<close>

definition belongs_to :: "port \<Rightarrow> string set \<Rightarrow> bool" where
  "belongs_to p s \<longleftrightarrow> (case p of
     (NodeC a, q) \<Rightarrow> (\<exists>b pre suf. s = {a, b} \<and> a \<noteq> b \<and> q = port_name pre b suf \<and>
         pre \<in> {''host_peer_'', ''netstack_peer_''} \<and> suf \<in> {''_in'', ''_out''}) \<or>
       s = {a} \<and> q \<in> {''entdist_in'', ''entdist_out''}
   | (HostChannel a b, q) \<Rightarrow> s = {a, b}
   | (ToEntDist a, q) \<Rightarrow> s = {a}
   | (FromEntDist a, q) \<Rightarrow> s = {a}
   | (EntDistC, q) \<Rightarrow> (\<exists>a suf. s = {a} \<and> q = port_name ''node_'' a suf \<and> suf \<in> {''_in'', ''_out''})
   | _ \<Rightarrow> False)"

lemma belongs_to_unique:
  assumes "belongs_to p s" "belongs_to p t"
  shows "s = t"
proof (cases p)
  case (Pair c q)
  with assms show ?thesis by (cases c) (auto simp: belongs_to_def)
qed

lemma distinct_concat_keyed:
  assumes "\<And>x. x \<in> set xs \<Longrightarrow> distinct (f x) \<and> (\<forall>p \<in> set (f x). belongs_to p (k x))" "distinct (map k xs)"
  shows "distinct (concat (map f xs))"
  using assms
proof (induction xs)
  case (Cons x xs)
  have False if "p \<in> set (f x)" "y \<in> set xs" "p \<in> set (f y)" for p y
    using Cons.prems that belongs_to_unique [of p "k x" "k y"] by auto
  with Cons show ?case by (auto simp: disjoint_iff)
qed simp

lemma pair_ties_ports:
  assumes "a \<noteq> b"
  shows "distinct (concat (map connected_ports (pair_ties a b)))"
    and "\<forall>p \<in> set (concat (map connected_ports (pair_ties a b))). belongs_to p {a, b}"
  using assms assms [symmetric] by (auto simp: pair_ties_def belongs_to_def)

lemma entdist_ties_ports:
  "distinct (concat (map connected_ports (entdist_ties a)))"
  "\<forall>p \<in> set (concat (map connected_ports (entdist_ties a))). belongs_to p {a}"
  by (auto simp: entdist_ties_def belongs_to_def)

lemma combinations2_distinct: "distinct xs \<Longrightarrow> distinct (map (\<lambda>(a, b). {a, b}) (combinations2 xs))"
proof (induction xs)
  case (Cons x xs)
  then have "inj_on (\<lambda>y. {x, y}) (set xs)" by (auto simp: inj_on_def doubleton_eq_iff)
  with Cons show ?case
    by (auto simp: distinct_map comp_def doubleton_eq_iff dest: combinations2_sub)
qed simp

lemma combinations2_map: "combinations2 (map f xs) = map (\<lambda>(a, b). (f a, f b)) (combinations2 xs)"
  by (induction xs) (auto simp: comp_def)

lemma concat_map_concat: "concat (map f (concat xss)) = concat (map (\<lambda>xs. concat (map f xs)) xss)"
  by (induction xss) simp_all

lemma network_ports_distinct:
  assumes "network_nodes_ok net ns" "connect_network latency (entdist_component net) ns = Inr w"
  shows "distinct (concat (map connected_ports (wi_ties w)))"
proof -
  let ?pairs = "combinations2 (keys ns)"
  let ?xs = "map (\<lambda>(a, b). (pair_ties a b, {a, b})) ?pairs @ map (\<lambda>a. (entdist_ties a, {a})) (keys ns)"
  have ok: "distinct (keys ns)" using assms(1) by (simp add: network_nodes_ok_def)
  have "map (\<lambda>(n, m). pair_ties (nk_name n) (nk_name m)) (combinations2 (map snd ns)) = map (\<lambda>(a, b). pair_ties a b) ?pairs"
    unfolding node_names [OF assms(1), symmetric] combinations2_map [of nk_name] by (simp add: case_prod_unfold comp_def)
  then have "wi_ties w = concat (map fst ?xs)"
    by (rule_tac connect_network_ties [OF assms(1), of latency])
      (use assms(2) in \<open>simp add: case_prod_unfold comp_def\<close>)
  moreover have "distinct (concat (map (\<lambda>x. concat (map connected_ports (fst x))) ?xs))"
  proof (rule distinct_concat_keyed [where k = snd])
    show "distinct (concat (map connected_ports (fst x))) \<and>
        (\<forall>p \<in> set (concat (map connected_ports (fst x))). belongs_to p (snd x))" if x: "x \<in> set ?xs" for x
    proof -
      from x consider a b where "(a, b) \<in> set ?pairs" "x = (pair_ties a b, {a, b})" | a where "x = (entdist_ties a, {a})"
        by auto
      then show ?thesis
      proof cases
        case 1
        from pair_ties_ports [OF combinations2_neq [OF ok 1(1)]] show ?thesis unfolding 1(2) fst_conv snd_conv ..
      next
        case 2
        from entdist_ties_ports show ?thesis unfolding 2 fst_conv snd_conv ..
      qed
    qed
    have "map snd ?xs = map (\<lambda>(a, b). {a, b}) ?pairs @ map (\<lambda>a. {a}) (keys ns)"
      by (simp add: comp_def case_prod_unfold)
    moreover have "distinct (map (\<lambda>a. {a}) (keys ns))"
      using ok by (simp only: distinct_map [of "\<lambda>a. {a}"]) simp
    moreover have "set (map (\<lambda>(a, b). {a, b}) ?pairs) \<inter> set (map (\<lambda>a. {a}) (keys ns)) = {}"
      using combinations2_neq [OF ok] by fastforce
    ultimately show "distinct (map snd ?xs)"
      using combinations2_distinct [OF ok] by (simp only: distinct_append)
  qed
  ultimately show ?thesis by (simp only: concat_map_concat map_map comp_def)
qed

section \<open>Listeners\<close>

lemma add_peer_listeners_ok:
  assumes "\<And>peer. peer \<in> set peers \<Longrightarrow> peer_in_port c peer = Inr (f peer)"
  obtains l where "add_peer_listeners c pre peers ls = Inr l"
    and "\<And>k. map_of l k = (if \<exists>peer \<in> set peers. k = pre @ peer then Some (f (drop (length pre) k)) else map_of ls k)"
  using assms
proof (induction peers arbitrary: ls thesis)
  case Nil
  then show ?case by (simp add: add_peer_listeners_def)
next
  case (Cons p ps)
  obtain l where l: "add_peer_listeners c pre ps (dset (pre @ p) (f p) ls) = Inr l"
    "\<And>k. map_of l k = (if \<exists>peer \<in> set ps. k = pre @ peer then Some (f (drop (length pre) k))
      else map_of (dset (pre @ p) (f p) ls) k)"
    using Cons.IH [of "dset (pre @ p) (f p) ls"] Cons.prems(2) by auto
  show ?case
  proof (rule Cons.prems(1))
    show "add_peer_listeners c pre (p # ps) ls = Inr l"
      using l(1) Cons.prems(2) [of p] by (simp add: add_peer_listeners_def add_listener_def)
  qed (use l(2) in auto)
qed

lemma static_ports:
  "static_port (host_component name net) ''qnos_in'' = Inr (HostC name, ''qnos_in'')"
  "static_port (host_component name net) ''nstk_in'' = Inr (HostC name, ''nstk_in'')"
  "static_port (qnos_component name) ''host_in'' = Inr (QnosC name, ''host_in'')"
  "static_port (qnos_component name) ''nstk_in'' = Inr (QnosC name, ''nstk_in'')"
  "static_port (netstack_component name net) ''host_in'' = Inr (NetstackC name, ''host_in'')"
  "static_port (netstack_component name net) ''qnos_in'' = Inr (NetstackC name, ''qnos_in'')"
  "static_port (netstack_component name net) ''qnos_mem_in'' = Inr (NetstackC name, ''qnos_mem_in'')"
  "static_port (netstack_component name net) ''entdist_in'' = Inr (NetstackC name, ''entdist_in'')"
  by (simp_all add: static_port_def port_named_def ensure_def host_component_def qnos_component_def
    netstack_component_def Let_def)

lemma host_listeners_ok:
  obtains l where "host_listeners name net (host_component name net) = Inr l"
    and "\<And>peer. peer \<in> set (other_nodes name net) \<Longrightarrow>
      map_of l (''peer_'' @ peer) = Some (HostC name, port_name ''peer_'' peer ''_in'')"
    and "map_of l ''qnos'' = Some (HostC name, ''qnos_in'')"
proof -
  let ?f = "\<lambda>peer. (HostC name, port_name ''peer_'' peer ''_in'')"
  let ?ls = "dset ''netstack'' (HostC name, ''nstk_in'') (dset ''qnos'' (HostC name, ''qnos_in'') [])"
  obtain l where l: "add_peer_listeners (host_component name net) ''peer_'' (other_nodes name net) ?ls = Inr l"
    "\<And>k. map_of l k = (if \<exists>peer \<in> set (other_nodes name net). k = ''peer_'' @ peer
      then Some (?f (drop (length ''peer_'') k)) else map_of ?ls k)"
    by (rule add_peer_listeners_ok [where f = ?f and c = "host_component name net" and pre = "''peer_''"
      and peers = "other_nodes name net" and ls = ?ls]) (rule component_peer_ports, assumption, blast)
  show ?thesis
  proof (rule that)
    show "host_listeners name net (host_component name net) = Inr l"
      using l(1) by (simp only: host_listeners_def add_listener_def static_ports rbind.simps)
  qed (simp_all add: l(2))
qed

lemma qnos_listeners_ok:
  "qnos_listeners (qnos_component name) =
     Inr [(''host'', (QnosC name, ''host_in'')), (''netstack'', (QnosC name, ''nstk_in''))]"
  by (simp add: qnos_listeners_def add_listener_def static_ports)

lemma netstack_listeners_ok:
  obtains l where "netstack_listeners name net (netstack_component name net) = Inr l"
    and "\<And>peer. peer \<in> set (other_nodes name net) \<Longrightarrow>
      map_of l (''peer_'' @ peer) = Some (NetstackC name, port_name ''peer_'' peer ''_in'')"
    and "map_of l ''entdist'' = Some (NetstackC name, ''entdist_in'')"
proof -
  let ?f = "\<lambda>peer. (NetstackC name, port_name ''peer_'' peer ''_in'')"
  let ?ls = "dset ''entdist'' (NetstackC name, ''entdist_in'') (dset ''qnos_mem'' (NetstackC name, ''qnos_mem_in'')
    (dset ''qnos'' (NetstackC name, ''qnos_in'') (dset ''host'' (NetstackC name, ''host_in'') [])))"
  obtain l where l: "add_peer_listeners (netstack_component name net) ''peer_'' (other_nodes name net) ?ls = Inr l"
    "\<And>k. map_of l k = (if \<exists>peer \<in> set (other_nodes name net). k = ''peer_'' @ peer
      then Some (?f (drop (length ''peer_'') k)) else map_of ?ls k)"
    by (rule add_peer_listeners_ok [where f = ?f and c = "netstack_component name net" and pre = "''peer_''"
      and peers = "other_nodes name net" and ls = ?ls]) (rule component_peer_ports, assumption, blast)
  show ?thesis
  proof (rule that)
    show "netstack_listeners name net (netstack_component name net) = Inr l"
      using l(1) by (simp only: netstack_listeners_def add_listener_def static_ports rbind.simps)
  qed (simp_all add: l(2))
qed

lemma entdist_listeners_ok:
  obtains l where "entdist_listeners net (entdist_component net) = Inr l"
    and "\<And>name. name \<in> set (get_all_node_names net) \<Longrightarrow>
      map_of l (''node_'' @ name) = Some (EntDistC, port_name ''node_'' name ''_in'')"
proof -
  let ?f = "\<lambda>name. (EntDistC, port_name ''node_'' name ''_in'')"
  obtain l where l: "add_peer_listeners (entdist_component net) ''node_'' (get_all_node_names net) [] = Inr l"
    "\<And>k. map_of l k = (if \<exists>name \<in> set (get_all_node_names net). k = ''node_'' @ name
      then Some (?f (drop (length ''node_'') k)) else map_of [] k)"
    by (rule add_peer_listeners_ok [where f = ?f and c = "entdist_component net" and pre = "''node_''"
      and peers = "get_all_node_names net" and ls = "[]"]) (rule entdist_peer_ports, assumption, blast)
  show ?thesis by (rule that [of l]) (simp_all add: entdist_listeners_def l)
qed

section \<open>The wiring of a network\<close>

text \<open>The way of a message from the Host of one node to the Host of another, and to the distributor and back.\<close>

definition host_route :: "string \<Rightarrow> string \<Rightarrow> port_tie list" where
  "host_route a b =
     [ForwardOutput (HostC a, port_name ''peer_'' b ''_out'') (NodeC a, port_name ''host_peer_'' b ''_out''),
      Connect (NodeC a, port_name ''host_peer_'' b ''_out'') (HostChannel a b, ''send''),
      Connect (HostChannel a b, ''recv'') (NodeC b, port_name ''host_peer_'' a ''_in''),
      ForwardInput (NodeC b, port_name ''host_peer_'' a ''_in'') (HostC b, port_name ''peer_'' a ''_in'')]"

definition entdist_route :: "string \<Rightarrow> port_tie list" where
  "entdist_route a =
     [ForwardOutput (NetstackC a, ''entdist_out'') (NodeC a, ''entdist_out''),
      Connect (NodeC a, ''entdist_out'') (ToEntDist a, ''send''),
      Connect (ToEntDist a, ''recv'') (EntDistC, port_name ''node_'' a ''_in''),
      Connect (EntDistC, port_name ''node_'' a ''_out'') (FromEntDist a, ''send''),
      Connect (FromEntDist a, ''recv'') (NodeC a, ''entdist_in''),
      ForwardInput (NodeC a, ''entdist_in'') (NetstackC a, ''entdist_in'')]"

lemma network_node_ties:
  assumes "network_nodes_ok net ns" "(a, n) \<in> set ns"
  shows "nk_ties n = inner_ties a @ concat (map (peer_ties a) (other_nodes a net))"
    and "nk_host n = host_component a net" "nk_qnos n = qnos_component a" "nk_netstack n = netstack_component a net"
proof -
  have init: "node_component_init a (nk_id n) net = Inr n" using assms by (auto simp: network_nodes_ok_def)
  obtain m where m: "node_component_init a (nk_id n) net = Inr m" "nk_name m = a" "node_ports_ok net m"
      "nk_ties m = inner_ties a @ concat (map (peer_ties a) (other_nodes a net))"
    by (rule node_component_init_ok [of a "nk_id n" net]) blast
  from init m(1) have "m = n" by simp
  with m show "nk_ties n = inner_ties a @ concat (map (peer_ties a) (other_nodes a net))"
    and "nk_host n = host_component a net" "nk_netstack n = netstack_component a net"
    by (simp_all add: node_ports_ok_def)
  show "nk_qnos n = qnos_component a" using node_component_init_qnos [OF init] .
qed

definition host_delivery :: "ehi_network_info \<Rightarrow> wiring \<Rightarrow> string \<times> node_component \<Rightarrow> string \<times> node_component \<Rightarrow> bool" where
  "host_delivery net w x y \<longleftrightarrow> (case (x, y) of ((a, n), (b, m)) \<Rightarrow>
     set (host_route a b) \<subseteq> set (nk_ties n @ wi_ties w @ nk_ties m) \<and>
     (\<exists>ls. host_listeners b net (nk_host m) = Inr ls \<and>
        map_of ls (''peer_'' @ a) = Some (HostC b, port_name ''peer_'' a ''_in'')))"

lemma pair_in_network:
  assumes "network_nodes_ok net ns" "connect_network latency (entdist_component net) ns = Inr w"
    and "((a, n), (b, m)) \<in> set (combinations2 ns)"
  shows "set (pair_ties a b) \<subseteq> set (wi_ties w)"
    and "{(HostChannel a b, latency (nk_id n) (nk_id m)), (HostChannel b a, latency (nk_id n) (nk_id m))} \<subseteq> set (wi_delays w)"
proof -
  have "(n, m) \<in> set (combinations2 (map snd ns))" using assms(3) by (force simp: combinations2_map)
  moreover have "nk_name n = a" "nk_name m = b"
    using combinations2_sub [OF assms(3)] network_nodes_okD(1) [OF assms(1)] by auto
  moreover obtain w' where "connect_network latency (entdist_component net) ns = Inr w'"
    "wi_ties w' = concat (map (\<lambda>(n, m). pair_ties (nk_name n) (nk_name m)) (combinations2 (map snd ns))) @
      concat (map (\<lambda>(name, n). entdist_ties name) ns)"
    "wi_delays w' = concat (map (\<lambda>(n, m). let d = latency (nk_id n) (nk_id m) in
        [(HostChannel (nk_name n) (nk_name m), d), (HostChannel (nk_name m) (nk_name n), d)]) (combinations2 (map snd ns))) @
      concat (map (\<lambda>(name, n). [(ToEntDist name, 0), (FromEntDist name, 0)]) ns)"
    by (rule connect_network_ties [OF assms(1)])
  ultimately show "set (pair_ties a b) \<subseteq> set (wi_ties w)"
    and "{(HostChannel a b, latency (nk_id n) (nk_id m)), (HostChannel b a, latency (nk_id n) (nk_id m))} \<subseteq> set (wi_delays w)"
    using assms(2) by (force simp: Let_def)+
qed

lemma in_peer_ties:
  assumes "network_nodes_ok net ns" "(a, n) \<in> set ns" "peer \<in> set (other_nodes a net)"
  shows "set (peer_ties a peer) \<subseteq> set (nk_ties n)"
  using assms(3) network_node_ties(1) [OF assms(1,2)] by auto

lemma host_delivery_ok:
  assumes "network_nodes_ok net ns" "(a, n) \<in> set ns" "(b, m) \<in> set ns" "a \<noteq> b"
    and "set (pair_ties a b) \<subseteq> set (wi_ties w) \<or> set (pair_ties b a) \<subseteq> set (wi_ties w)"
  shows "host_delivery net w (a, n) (b, m)"
proof -
  have others: "b \<in> set (other_nodes a net)" "a \<in> set (other_nodes b net)"
    using network_nodes_okD(2) [OF assms(1)] assms(2-4) by (auto simp: other_nodes_def)
  have "set (host_route a b) \<subseteq> set (nk_ties n @ wi_ties w @ nk_ties m)"
    using in_peer_ties [OF assms(1,2) others(1)] in_peer_ties [OF assms(1,3) others(2)] assms(5)
    by (auto simp: host_route_def peer_ties_def pair_ties_def)
  moreover obtain ls where "host_listeners b net (nk_host m) = Inr ls"
      "map_of ls (''peer_'' @ a) = Some (HostC b, port_name ''peer_'' a ''_in'')"
    using host_listeners_ok [of b net] others(2) network_node_ties(2) [OF assms(1,3)] by metis
  ultimately show ?thesis by (simp add: host_delivery_def)
qed

text \<open>The same for the network stacks, whose ports are joined without a channel, and inside a node: the
Qnos and the Host are joined to each other and the network stack to the distributor.\<close>

definition joined :: "port_tie list \<Rightarrow> port \<Rightarrow> port \<Rightarrow> bool" where
  "joined ts p q \<longleftrightarrow> Connect p q \<in> set ts \<or> Connect q p \<in> set ts"

definition netstack_delivery :: "ehi_network_info \<Rightarrow> wiring \<Rightarrow> string \<times> node_component \<Rightarrow> string \<times> node_component \<Rightarrow> bool" where
  "netstack_delivery net w x y \<longleftrightarrow> (case (x, y) of ((a, n), (b, m)) \<Rightarrow>
     ForwardOutput (NetstackC a, port_name ''peer_'' b ''_out'') (NodeC a, port_name ''netstack_peer_'' b ''_out'') \<in> set (nk_ties n) \<and>
     joined (wi_ties w) (NodeC a, port_name ''netstack_peer_'' b ''_out'') (NodeC b, port_name ''netstack_peer_'' a ''_in'') \<and>
     ForwardInput (NodeC b, port_name ''netstack_peer_'' a ''_in'') (NetstackC b, port_name ''peer_'' a ''_in'') \<in> set (nk_ties m) \<and>
     (\<exists>ls. netstack_listeners b net (nk_netstack m) = Inr ls \<and>
        map_of ls (''peer_'' @ a) = Some (NetstackC b, port_name ''peer_'' a ''_in'')))"

definition inner_delivery :: "ehi_network_info \<Rightarrow> wiring \<Rightarrow> string \<times> node_component \<Rightarrow> bool" where
  "inner_delivery net w x \<longleftrightarrow> (case x of (a, n) \<Rightarrow>
     joined (nk_ties n) (HostC a, ''qnos_out'') (QnosC a, ''host_in'') \<and>
     joined (nk_ties n) (QnosC a, ''host_out'') (HostC a, ''qnos_in'') \<and>
     set (entdist_route a) \<subseteq> set (nk_ties n @ wi_ties w) \<and>
     (\<exists>hl ql nl el. host_listeners a net (nk_host n) = Inr hl \<and> map_of hl ''qnos'' = Some (HostC a, ''qnos_in'') \<and>
        qnos_listeners (nk_qnos n) = Inr ql \<and> map_of ql ''host'' = Some (QnosC a, ''host_in'') \<and>
        netstack_listeners a net (nk_netstack n) = Inr nl \<and> map_of nl ''entdist'' = Some (NetstackC a, ''entdist_in'') \<and>
        entdist_listeners net (entdist_component net) = Inr el \<and>
        map_of el (''node_'' @ a) = Some (EntDistC, port_name ''node_'' a ''_in'')))"

lemma netstack_delivery_ok:
  assumes "network_nodes_ok net ns" "(a, n) \<in> set ns" "(b, m) \<in> set ns" "a \<noteq> b"
    and "set (pair_ties a b) \<subseteq> set (wi_ties w) \<or> set (pair_ties b a) \<subseteq> set (wi_ties w)"
  shows "netstack_delivery net w (a, n) (b, m)"
proof -
  have others: "b \<in> set (other_nodes a net)" "a \<in> set (other_nodes b net)"
    using network_nodes_okD(2) [OF assms(1)] assms(2-4) by (auto simp: other_nodes_def)
  have "joined (wi_ties w) (NodeC a, port_name ''netstack_peer_'' b ''_out'') (NodeC b, port_name ''netstack_peer_'' a ''_in'')"
    using assms(5) by (auto simp: joined_def pair_ties_def)
  moreover obtain ls where "netstack_listeners b net (nk_netstack m) = Inr ls"
      "map_of ls (''peer_'' @ a) = Some (NetstackC b, port_name ''peer_'' a ''_in'')"
    using netstack_listeners_ok [of b net] others(2) network_node_ties(4) [OF assms(1,3)] by metis
  ultimately show ?thesis
    using in_peer_ties [OF assms(1,2) others(1)] in_peer_ties [OF assms(1,3) others(2)]
    by (simp add: netstack_delivery_def peer_ties_def)
qed

lemma inner_delivery_ok:
  assumes "network_nodes_ok net ns" "(a, n) \<in> set ns" "set (entdist_ties a) \<subseteq> set (wi_ties w)"
  shows "inner_delivery net w (a, n)"
proof -
  note ties = network_node_ties [OF assms(1,2)]
  obtain hl where "host_listeners a net (nk_host n) = Inr hl" "map_of hl ''qnos'' = Some (HostC a, ''qnos_in'')"
    unfolding ties(2) by (rule host_listeners_ok [of a net])
  moreover obtain nl where "netstack_listeners a net (nk_netstack n) = Inr nl"
      "map_of nl ''entdist'' = Some (NetstackC a, ''entdist_in'')"
    unfolding ties(4) by (rule netstack_listeners_ok [of a net])
  moreover obtain el where "entdist_listeners net (entdist_component net) = Inr el"
      "map_of el (''node_'' @ a) = Some (EntDistC, port_name ''node_'' a ''_in'')"
    using entdist_listeners_ok [of net] network_nodes_okD(2) [OF assms(1,2)] by metis
  moreover have "set (entdist_route a) \<subseteq> set (nk_ties n @ wi_ties w)"
    using assms(3) by (simp add: ties(1) inner_ties_def entdist_route_def entdist_ties_def)
  moreover have "Connect (HostC a, ''qnos_out'') (QnosC a, ''host_in'') \<in> set (nk_ties n)"
      "Connect (HostC a, ''qnos_in'') (QnosC a, ''host_out'') \<in> set (nk_ties n)"
    by (simp_all add: ties(1) inner_ties_def)
  moreover have "qnos_listeners (nk_qnos n) = Inr [(''host'', (QnosC a, ''host_in'')), (''netstack'', (QnosC a, ''nstk_in''))]"
    unfolding ties(3) by (rule qnos_listeners_ok)
  ultimately show ?thesis unfolding inner_delivery_def joined_def by simp
qed

text \<open>The remaining listeners wait at ports that the network stack shares with the Host and the Qnos of its
node; the code creates these ports and ties none of them.\<close>

fun unwired :: "port \<Rightarrow> bool" where
  "unwired (HostC a, p) = (p \<in> {''nstk_in'', ''nstk_out''})"
| "unwired (QnosC a, p) = (p \<in> {''nstk_in'', ''nstk_out'', ''nstk_mem_in'', ''nstk_mem_out''})"
| "unwired (NetstackC a, p) = (p \<in> {''host_in'', ''host_out'', ''qnos_in'', ''qnos_out'', ''qnos_mem_in'', ''qnos_mem_out''})"
| "unwired _ = False"

fun tie_ports :: "port_tie \<Rightarrow> port list" where
  "tie_ports (Connect p q) = [p, q]"
| "tie_ports (ForwardOutput p q) = [p, q]"
| "tie_ports (ForwardInput p q) = [p, q]"

definition network_ties :: "(string, node_component) dict \<Rightarrow> wiring \<Rightarrow> port_tie list" where
  "network_ties ns w = wi_ties w @ concat (map (\<lambda>(a, n). nk_ties n) ns)"

lemma wired_ports:
  "t \<in> set (inner_ties a) \<union> set (peer_ties a b) \<union> set (pair_ties a b) \<union> set (entdist_ties a) \<Longrightarrow>
   p \<in> set (tie_ports t) \<Longrightarrow> \<not> unwired p"
  by (auto simp: inner_ties_def peer_ties_def pair_ties_def entdist_ties_def port_name_def)

text \<open>C22: Tying the nodes of a network together never fails, and the ties between the nodes connect no
port twice. The messages of every Host reach the listener that every other Host has for it, through the
channel between the two, whose delay is the configured latency; those of every network stack reach the
listener that every other network stack has for it; inside a node the Host and the Qnos reach each
other's listener; and every network stack reaches the listener of the distributor for its node and is
reached by it. The ports between network stack and Host or Qnos are left out of every tie.\<close>

theorem nodes_are_wired:
  assumes "network_nodes_ok net ns"
  shows "\<exists>w. connect_network latency (entdist_component net) ns = Inr w \<and>
    distinct (concat (map connected_ports (wi_ties w))) \<and>
    (\<forall>x y. (x, y) \<in> set (combinations2 ns) \<longrightarrow>
       host_delivery net w x y \<and> host_delivery net w y x \<and>
       netstack_delivery net w x y \<and> netstack_delivery net w y x \<and>
       (let d = latency (nk_id (snd x)) (nk_id (snd y)) in
        {(HostChannel (fst x) (fst y), d), (HostChannel (fst y) (fst x), d)} \<subseteq> set (wi_delays w))) \<and>
    (\<forall>x \<in> set ns. inner_delivery net w x) \<and>
    (\<forall>t \<in> set (network_ties ns w). \<forall>p \<in> set (tie_ports t). \<not> unwired p)"
proof -
  obtain w where w: "connect_network latency (entdist_component net) ns = Inr w"
    and ties: "wi_ties w = concat (map (\<lambda>(n, m). pair_ties (nk_name n) (nk_name m)) (combinations2 (map snd ns))) @
      concat (map (\<lambda>(name, n). entdist_ties name) ns)"
    by (rule connect_network_ties [OF assms, of latency])
  have "host_delivery net w x y \<and> host_delivery net w y x \<and> netstack_delivery net w x y \<and> netstack_delivery net w y x \<and>
      (let d = latency (nk_id (snd x)) (nk_id (snd y)) in
      {(HostChannel (fst x) (fst y), d), (HostChannel (fst y) (fst x), d)} \<subseteq> set (wi_delays w))"
    if xy: "(x, y) \<in> set (combinations2 ns)" for x y
  proof -
    obtain a n b m where eq: "x = (a, n)" "y = (b, m)" by (cases x, cases y)
    note pair = pair_in_network [OF assms w xy [unfolded eq]]
    have mem: "(a, n) \<in> set ns" "(b, m) \<in> set ns" and "(a, b) \<in> set (combinations2 (keys ns))"
      using combinations2_sub [OF xy] xy by (force simp: eq combinations2_map [of fst])+
    then have neq: "a \<noteq> b" using assms combinations2_neq by (fastforce simp: network_nodes_ok_def)
    note deliveries = host_delivery_ok [OF assms mem neq] host_delivery_ok [OF assms mem(2,1) neq [symmetric]]
      netstack_delivery_ok [OF assms mem neq] netstack_delivery_ok [OF assms mem(2,1) neq [symmetric]]
    show ?thesis unfolding eq using deliveries pair by simp
  qed
  moreover have "inner_delivery net w x" if "x \<in> set ns" for x
  proof (cases x)
    case (Pair a n)
    with that have "set (entdist_ties a) \<subseteq> set (wi_ties w)" unfolding ties by fastforce
    with inner_delivery_ok [OF assms] that Pair show ?thesis by blast
  qed
  moreover have "\<not> unwired p" if t: "t \<in> set (network_ties ns w)" "p \<in> set (tie_ports t)" for t p
  proof (cases "t \<in> set (wi_ties w)")
    case True
    with wired_ports [OF _ t(2)] show ?thesis unfolding ties by fastforce
  next
    case False
    with t(1) obtain a n where n: "(a, n) \<in> set ns" "t \<in> set (nk_ties n)" by (auto simp: network_ties_def)
    with network_node_ties(1) [OF assms n(1)] wired_ports [OF _ t(2)] show ?thesis by fastforce
  qed
  ultimately show ?thesis using w network_ports_distinct [OF assms w] by blast
qed

definition sample_pair_network :: ehi_network_info where
  "sample_pair_network = only_nodes [(0, ''alice''), (1, ''bob'')]"

theorem nodes_are_wired_witness:
  "\<exists>n m w. connect_network (\<lambda>_ _. 5) (entdist_component sample_pair_network) [(''alice'', n), (''bob'', m)] = Inr w \<and>
     host_delivery sample_pair_network w (''alice'', n) (''bob'', m) \<and>
     netstack_delivery sample_pair_network w (''bob'', m) (''alice'', n) \<and>
     inner_delivery sample_pair_network w (''bob'', m) \<and>
     (HostChannel ''bob'' ''alice'', 5) \<in> set (wi_delays w)"
proof -
  obtain n where n: "node_component_init ''alice'' 0 sample_pair_network = Inr n" "nk_name n = ''alice''" "nk_id n = 0"
    by (rule node_component_init_ok)
  obtain m where m: "node_component_init ''bob'' 1 sample_pair_network = Inr m" "nk_name m = ''bob''" "nk_id m = 1"
    by (rule node_component_init_ok)
  have "network_nodes_ok sample_pair_network [(''alice'', n), (''bob'', m)]"
    using n m by (simp add: network_nodes_ok_def get_all_node_names_def sample_pair_network_def only_nodes_def)
  from nodes_are_wired [OF this, of "\<lambda>_ _. 5"] show ?thesis by auto
qed

end
