(* ===== verification/ConfigRun.thy ===== *)
theory ConfigRun
  imports ConfigNet
begin

text \<open>
  The properties of configurations: the topologies that they describe are those of the builders,
  the parameters of NV hardware reach every gate, probabilities are probabilities, and one latency
  is read into the field of another.
\<close>

section \<open>Validated entries\<close>

lemma pydantic_simps:
  assumes "pydantic_ok pd"
  shows "pd_int pd (py_of_int i) = Inr i" "pd_float pd (PyNum x) = Inr x" "pd_bool pd (PyBool b) = Inr b"
    "pd_str pd (PyStr s) = Inr s" "pd_int_list pd (PyList [py_of_int i, py_of_int j]) = Inr [i, j]"
    "pd_int pd (PyNum 0) = Inr 0"
proof -
  have l: "pd_int_list pd (PyList (map py_of_int [i, j])) = Inr [i, j]"
    using assms unfolding pydantic_ok_def by blast
  have z: "pd_int pd (py_of_int 0) = Inr 0" using assms unfolding pydantic_ok_def by blast
  show "pd_int pd (py_of_int i) = Inr i" "pd_float pd (PyNum x) = Inr x" "pd_bool pd (PyBool b) = Inr b"
    "pd_str pd (PyStr s) = Inr s"
    using assms by (simp_all add: pydantic_ok_def)
  show "pd_int_list pd (PyList [py_of_int i, py_of_int j]) = Inr [i, j]" using l by simp
  show "pd_int pd (PyNum 0) = Inr 0" using z by simp
qed

definition t1t2_entry :: "bool \<Rightarrow> int \<Rightarrow> int \<Rightarrow> qubit_config" where
  "t1t2_entry c t1 t2 = \<lparr>qc_is_communication = c, qc_noise_config_cls = ''T1T2NoiseModel'',
     qc_noise_config = qubit_t1t2_config t1 t2\<rparr>"

definition depolar_entry :: "int \<Rightarrow> real \<Rightarrow> string \<Rightarrow> gate_config" where
  "depolar_entry d p name = \<lparr>gc_name = name, gc_noise_config_cls = ''GateDepolariseConfig'',
     gc_noise_config = gate_depolarise_config d p\<rparr>"

definition depolar_info :: "real \<Rightarrow> real \<Rightarrow> ns_instr \<Rightarrow> lhi_gate_info" where
  "depolar_info d p i = \<lparr>lg_instruction = i, lg_duration = d, lg_error_model = DepolarNoiseModel,
     lg_error_model_kwargs = [(''depolar_rate'', p), (''time_independent'', 1)]\<rparr>"

lemma qubit_entry_ok:
  assumes "pydantic_ok pd"
  shows "qubit_entry pd c (real_of_int t1) (real_of_int t2) i = Inr \<lparr>qi_qubit_id = i, qi_qubit_config = t1t2_entry c t1 t2\<rparr>"
  by (simp add: qubit_entry_def t1t2_config_def qubit_id_config_init_def t1t2_entry_def pydantic_simps [OF assms])

lemma with_depolar_prob_ok:
  assumes "pydantic_ok pd"
  shows "with_depolar_prob pd name (real_of_int d) p = Inr (depolar_entry d p name)"
  by (simp add: with_depolar_prob_def depolar_entry_def pydantic_simps [OF assms])

lemma gates_entry_ok:
  assumes "pydantic_ok pd" "rmap gate names = Inr cs"
  shows "gates_entry pd gate names i = Inr \<lparr>sg_qubit_id = i, sg_gate_configs = cs\<rparr>"
  by (simp add: gates_entry_def single_gate_config_init_def pydantic_simps [OF assms(1)] assms(2))

lemma pair_entry_ok:
  assumes "pydantic_ok pd" "rmap gate names = Inr cs"
  shows "pair_entry pd gate names (i, j) = Inr \<lparr>mg_qubit_ids = [i, j], mg_gate_configs = cs\<rparr>"
  by (simp add: pair_entry_def multi_gate_config_init_def pydantic_simps [OF assms(1)] assms(2))

section \<open>From configuration to topology\<close>

lemma depolar_interface:
  assumes "map_of default_instr_registry name = Some instr"
  shows "gate_interface (depolar_entry d p name) =
    Inr \<lparr>to_instruction = instr, to_duration = d, to_g_error_model = DepolarNoiseModel,
      to_g_error_model_kwargs = [(''depolar_rate'', p), (''time_independent'', 1)]\<rparr>"
  using assms
  by (simp add: gate_interface_def gate_to_instruction_def from_registries_def depolar_entry_def gate_depolarise_config_def)

lemma qubit_interface_entry:
  "(case qubit_interface (t1t2_entry c t1 t2) of x \<Rightarrow>
     \<lparr>lq_is_communication = to_is_communication x, lq_error_model = to_q_error_model x,
      lq_error_model_kwargs = to_q_error_model_kwargs x\<rparr>) = t1t2_qubit c (real_of_int t1) (real_of_int t2)"
  by (simp add: qubit_interface_def t1t2_entry_def qubit_t1t2_config_def t1t2_qubit_def)

text \<open>The low-level description of a qubit and of a list of gates.\<close>

definition qubit_lhi :: "qubit_config \<Rightarrow> lhi_qubit_info" where
  "qubit_lhi c = (let x = qubit_interface c in
     \<lparr>lq_is_communication = to_is_communication x, lq_error_model = to_q_error_model x,
      lq_error_model_kwargs = to_q_error_model_kwargs x\<rparr>)"

definition gates_lhi :: "gate_config list \<Rightarrow> lhi_gate_info list res" where
  "gates_lhi cs = rbind (rmap gate_interface cs) (\<lambda>is'. Inr (map gate_from_config is'))"

lemma qubit_lhi_entry: "qubit_lhi (t1t2_entry c t1 t2) = t1t2_qubit c (real_of_int t1) (real_of_int t2)"
  using qubit_interface_entry by (simp add: qubit_lhi_def Let_def)

lemma gates_lhi_depolar:
  "rmap (dget default_instr_registry) names = Inr instrs \<Longrightarrow>
   gates_lhi (map (\<lambda>g. depolar_entry (d g) (p g) g) names) =
     Inr (map (\<lambda>(g, i). depolar_info (real_of_int (d g)) (p g) i) (zip names instrs))"
proof (induction names arbitrary: instrs)
  case (Cons g names)
  then obtain i is' where i: "map_of default_instr_registry g = Some i"
      "rmap (dget default_instr_registry) names = Inr is'" "instrs = i # is'" by auto
  with Cons.IH [OF i(2)] show ?case
    by (auto simp: gates_lhi_def depolar_interface gate_from_config_def depolar_info_def)
qed (simp add: gates_lhi_def)

lemma all_pairs_distinct: "distinct (map (\<lambda>(i, j). MultiQubit [i, j]) (all_pairs n))"
  by (auto simp: distinct_map inj_on_def all_pairs_def distinct_product)

lemma keys_const: "keys (map (\<lambda>i. (f i, x)) is') = map f is'"
  by (induction is') auto

lemma dict_keys:
  "distinct (keys (uniform_dict n x))" "distinct (keys (pairs_dict n x))"
  "distinct (keys (star_dict n x y))" "distinct (keys (spokes_dict n x))"
  using all_pairs_distinct [of n]
  by (simp_all add: uniform_dict_def pairs_dict_def star_dict_def spokes_dict_def keys_const comp_def split_def
      distinct_map inj_on_def)

lemma dict_of_map_snd:
  assumes "distinct (keys d)"
  shows "dict_of (map (\<lambda>(i, c). (i, f c)) d) = map (\<lambda>(i, c). (i, f c)) d"
proof -
  have "keys (map (\<lambda>(i, c). (i, f c)) d) = keys d" by (induction d) auto
  then show ?thesis using assms by (intro dict_of_distinct) (simp only:)
qed

lemma rdmap_distinct: "rdmap f d = Inr e \<Longrightarrow> distinct (keys d) \<Longrightarrow> distinct (keys e)"
  by (simp add: rdmap_keys)

text \<open>What \<open>from_config\<close> does with distinct entries, one after the other.\<close>

lemma lhi_from_config_lists:
  assumes q: "map (\<lambda>c. (qi_qubit_id c, qi_qubit_config c)) (tc_qubits c) = qs" "distinct (keys qs)"
    and s: "map (\<lambda>c. (sg_qubit_id c, sg_gate_configs c)) (tc_single_gates c) = ss" "distinct (keys ss)"
    and m: "map (\<lambda>c. (MultiQubit (mg_qubit_ids c), mg_gate_configs c)) (tc_multi_gates c) = ms" "distinct (keys ms)"
    and g: "rdmap gates_lhi ss = Inr ss'" "rdmap gates_lhi ms = Inr ms'"
  shows "lhi_from_config c = Inr \<lparr>lt_qubit_infos = map (\<lambda>(i, c). (i, qubit_lhi c)) qs,
    lt_single_gate_infos = ss', lt_multi_gate_infos = ms'\<rparr>"
proof -
  have split: "\<exists>e. rdmap (rmap gate_interface) d = Inr e \<and> d' = map (\<lambda>(i, cs). (i, map gate_from_config cs)) e \<and> keys e = keys d"
    if "rdmap gates_lhi d = Inr d'" for d :: "('k, gate_config list) dict" and d'
    using that
  proof (induction d arbitrary: d')
    case (Cons p d)
    then show ?case by (cases p) (auto simp: rdmap_def gates_lhi_def)
  qed (simp add: rdmap_def)
  from split [OF g(1)] obtain es where es: "rdmap (rmap gate_interface) ss = Inr es"
      "ss' = map (\<lambda>(i, cs). (i, map gate_from_config cs)) es" "keys es = keys ss" by blast
  from split [OF g(2)] obtain em where em: "rdmap (rmap gate_interface) ms = Inr em"
      "ms' = map (\<lambda>(i, cs). (i, map gate_from_config cs)) em" "keys em = keys ms" by blast
  have d: "distinct (keys es)" "distinct (keys em)" using es(3) em(3) s(2) m(2) by simp_all
  have qd: "qubit_configs c = qs" "single_gate_configs c = ss" "multi_gate_configs c = ms"
    using q s m by (simp_all add: qubit_configs_def single_gate_configs_def multi_gate_configs_def dict_of_distinct)
  have "distinct (keys (dmap (\<lambda>_. qubit_interface) qs))" using q(2) by simp
  then have "dict_of (map (\<lambda>(i, c). (i, \<lparr>lq_is_communication = to_is_communication c, lq_error_model = to_q_error_model c,
         lq_error_model_kwargs = to_q_error_model_kwargs c\<rparr>)) (dmap (\<lambda>_. qubit_interface) qs)) =
      map (\<lambda>(i, c). (i, qubit_lhi c)) qs"
    unfolding dict_of_map_snd [OF \<open>distinct (keys (dmap (\<lambda>_. qubit_interface) qs))\<close>]
    by (auto simp: dmap_def qubit_lhi_def Let_def)
  then show ?thesis
    by (simp add: lhi_from_config_def topology_interface_def qd es(1) em(1) topology_from_config_def
        dict_of_map_snd [OF d(1)] dict_of_map_snd [OF d(2)] es(2) em(2))
qed

section \<open>Perfect topologies\<close>

text \<open>The rate of a gate does not depend on whether its noise is time independent.\<close>

lemma depolar_info_to_ehi:
  "gate_info_to_ehi ntf (depolar_info d p i) =
   gate_info_to_ehi ntf \<lparr>lg_instruction = i, lg_duration = d, lg_error_model = DepolarNoiseModel,
     lg_error_model_kwargs = [(''depolar_rate'', p)]\<rparr>"
  by (simp add: depolar_info_def gate_info_to_ehi_def error_model_to_rate_def dget_def)

lemma depolar_infos_to_ehi:
  "rmap (gate_info_to_ehi ntf) (map (depolar_info d p) is') = rmap (gate_info_to_ehi ntf) (depolar_gates d is' p)"
  by (induction is') (simp_all add: depolar_info_to_ehi depolar_gates_def)

lemma rdmap_const_cong: "f x = f y \<Longrightarrow> rdmap f (map (\<lambda>i. (g i, x)) l) = rdmap f (map (\<lambda>i. (g i, y)) l)"
  unfolding rdmap_def by (induction l) simp_all

lemma rdmap_uniform_cong: "f x = f y \<Longrightarrow> rdmap f (uniform_dict n x) = rdmap f (uniform_dict n y)"
  unfolding uniform_dict_def by (rule rdmap_const_cong)

lemma rdmap_pairs_cong: "f x = f y \<Longrightarrow> rdmap f (pairs_dict n x) = rdmap f (pairs_dict n y)"
  unfolding pairs_dict_def split_def by (rule rdmap_const_cong)

lemma same_gates_depolar:
  "rmap (dget default_instr_registry) names = Inr instrs \<Longrightarrow>
   gates_lhi (map (depolar_entry d p) names) = Inr (map (depolar_info (real_of_int d) p) instrs)"
proof (induction names arbitrary: instrs)
  case (Cons g names)
  then obtain i is' where i: "map_of default_instr_registry g = Some i"
      "rmap (dget default_instr_registry) names = Inr is'" "instrs = i # is'" by auto
  with Cons.IH [OF i(2)] show ?case
    by (auto simp: gates_lhi_def depolar_interface gate_from_config_def depolar_info_def)
qed (simp add: gates_lhi_def)

lemma perfect_gates_ok:
  assumes "pydantic_ok pd"
  shows "rmap (\<lambda>g. gate_perfect_config pd g (real_of_int d)) names = Inr (map (depolar_entry d 0) names)"
  by (rule rmap_total) (simp add: gate_perfect_config_def with_depolar_prob_ok [OF assms])

lemma perfect_uniform_topology:
  assumes pd: "pydantic_ok pd"
    and s: "rmap (dget default_instr_registry) singles = Inr single_instrs"
    and m: "rmap (dget default_instr_registry) twos = Inr two_instrs"
  shows "rbind (uniform_t1t2_qubits_perfect_gates pd n (real_of_int t1) (real_of_int t2) singles (real_of_int sd) twos (real_of_int td))
      lhi_from_config =
    Inr (lhi_fully_uniform n (t1t2_qubit True (real_of_int t1) (real_of_int t2))
      (map (depolar_info (real_of_int sd) 0) single_instrs) (map (depolar_info (real_of_int td) 0) two_instrs))"
proof -
  let ?c = "\<lparr>tc_qubits = map (\<lambda>i. \<lparr>qi_qubit_id = i, qi_qubit_config = t1t2_entry True t1 t2\<rparr>) [0..n - 1],
    tc_single_gates = map (\<lambda>i. \<lparr>sg_qubit_id = i, sg_gate_configs = map (depolar_entry sd 0) singles\<rparr>) [0..n - 1],
    tc_multi_gates = map (\<lambda>(i, j). \<lparr>mg_qubit_ids = [i, j], mg_gate_configs = map (depolar_entry td 0) twos\<rparr>) (all_pairs n)\<rparr>"
  have "rmap (pair_entry pd (\<lambda>g. gate_perfect_config pd g (real_of_int td)) twos) (all_pairs n) =
      Inr (tc_multi_gates ?c)"
    by (simp, rule rmap_total) (auto simp: pair_entry_ok [OF pd perfect_gates_ok [OF pd]])
  then have c: "uniform_t1t2_qubits_perfect_gates pd n (real_of_int t1) (real_of_int t2) singles (real_of_int sd) twos (real_of_int td) = Inr ?c"
    by (simp add: uniform_t1t2_qubits_perfect_gates_def qubit_entry_ok [OF pd] gates_entry_ok [OF pd perfect_gates_ok [OF pd]]
        rmap_total [of "[0..n - 1]"])
  have "lhi_from_config ?c = Inr \<lparr>lt_qubit_infos = map (\<lambda>(i, c). (i, qubit_lhi c)) (uniform_dict n (t1t2_entry True t1 t2)),
      lt_single_gate_infos = uniform_dict n (map (depolar_info (real_of_int sd) 0) single_instrs),
      lt_multi_gate_infos = pairs_dict n (map (depolar_info (real_of_int td) 0) two_instrs)\<rparr>"
    by (rule lhi_from_config_lists [where ss = "uniform_dict n (map (depolar_entry sd 0) singles)"
          and ms = "pairs_dict n (map (depolar_entry td 0) twos)"])
      (simp_all add: dict_keys rdmap_uniform rdmap_pairs same_gates_depolar [OF s] same_gates_depolar [OF m],
       simp_all add: uniform_dict_def pairs_dict_def split_def)
  with c show ?thesis
    by (simp add: lhi_fully_uniform_def qubit_lhi_entry [symmetric] uniform_dict_def)
qed

text \<open>C17: A configuration and a builder that describe the same uniform hardware describe the same
  node: reading the perfect uniform configuration with the names of the instructions and converting
  it gives exactly what converting the topology of \<open>LhiTopologyBuilder.perfect_uniform\<close> gives, errors
  included.\<close>

theorem config_agrees_with_builder:
  assumes "pydantic_ok pd"
    and "rmap (dget default_instr_registry) singles = Inr single_instrs"
    and "rmap (dget default_instr_registry) twos = Inr two_instrs"
  shows "rbind (perfect_config_uniform pd n singles (real_of_int sd) twos (real_of_int td)) (\<lambda>c.
      rbind (lhi_from_config c) (\<lambda>t. to_ehi t ntf lat)) =
    to_ehi (lhi_perfect_uniform n single_instrs (real_of_int sd) two_instrs (real_of_int td)) ntf lat"
proof -
  have t: "rbind (perfect_config_uniform pd n singles (real_of_int sd) twos (real_of_int td)) lhi_from_config =
    Inr (lhi_fully_uniform n (t1t2_qubit True 0 0)
      (map (depolar_info (real_of_int sd) 0) single_instrs) (map (depolar_info (real_of_int td) 0) two_instrs))"
    using perfect_uniform_topology [OF assms, of n 0 0 sd td] by (simp add: perfect_config_uniform_def)
  have "to_ehi (lhi_fully_uniform n (t1t2_qubit True 0 0)
      (map (depolar_info (real_of_int sd) 0) single_instrs) (map (depolar_info (real_of_int td) 0) two_instrs)) ntf lat =
    to_ehi (lhi_perfect_uniform n single_instrs (real_of_int sd) two_instrs (real_of_int td)) ntf lat"
    using rdmap_uniform_cong [where f = "rmap (gate_info_to_ehi ntf)", OF depolar_infos_to_ehi [of ntf "real_of_int sd" 0 single_instrs], of n]
      rdmap_pairs_cong [where f = "rmap (gate_info_to_ehi ntf)", OF depolar_infos_to_ehi [of ntf "real_of_int td" 0 two_instrs], of n]
    by (simp add: to_ehi_def lhi_perfect_uniform_def lhi_fully_uniform_def lhi_perfect_qubit_def lhi_perfect_gates_def)
  with t show ?thesis by auto
qed

section \<open>NV hardware\<close>



text \<open>The builder after all settings.\<close>

definition nv_builder :: "int \<Rightarrow> nv_params \<Rightarrow> topology_builder" where
  "nv_builder n p =
     \<lparr>tb_num_qubits = Some n, tb_uniform = Some False, tb_comm_t1 = Some (nv_comm_t1 p), tb_comm_t2 = Some (nv_comm_t2 p),
      tb_mem_t1 = Some (nv_mem_t1 p), tb_mem_t2 = Some (nv_mem_t2 p), tb_comm_single_gates = Some nv_com_gates,
      tb_comm_single_gate_durations = Some
        [(''INSTR_INIT'', nv_comm_init_duration p), (''INSTR_ROT_X'', nv_comm_gate_duration p),
         (''INSTR_ROT_Y'', nv_comm_gate_duration p), (''INSTR_MEASURE'', nv_comm_meas_duration p),
         (''INSTR_MEASURE_INSTANT'', nv_comm_meas_duration p)],
      tb_comm_single_gate_fidelities = Some
        [(''INSTR_INIT'', nv_comm_init_fidelity p), (''INSTR_ROT_X'', nv_comm_gate_fidelity p),
         (''INSTR_ROT_Y'', nv_comm_gate_fidelity p), (''INSTR_MEASURE'', nv_comm_meas_fidelity p),
         (''INSTR_MEASURE_INSTANT'', nv_comm_meas_fidelity p)],
      tb_mem_single_gates = Some nv_mem_gates,
      tb_mem_single_gate_durations = Some
        [(''INSTR_INIT'', nv_mem_init_duration p), (''INSTR_ROT_X'', nv_mem_gate_duration p),
         (''INSTR_ROT_Y'', nv_mem_gate_duration p), (''INSTR_ROT_Z'', nv_mem_gate_duration p),
         (''INSTR_MEASURE'', nv_mem_meas_duration p), (''INSTR_MEASURE_INSTANT'', nv_mem_meas_duration p)],
      tb_mem_single_gate_fidelities = Some
        [(''INSTR_INIT'', nv_mem_init_fidelity p), (''INSTR_ROT_X'', nv_mem_gate_fidelity p),
         (''INSTR_ROT_Y'', nv_mem_gate_fidelity p), (''INSTR_ROT_Z'', nv_mem_gate_fidelity p),
         (''INSTR_MEASURE'', nv_mem_meas_fidelity p), (''INSTR_MEASURE_INSTANT'', nv_mem_meas_fidelity p)],
      tb_two_gates = Some nv_two_gates,
      tb_two_gate_durations = Some [(''INSTR_CXDIR'', nv_two_gate_duration p), (''INSTR_CYDIR'', nv_two_gate_duration p)],
      tb_two_gate_fidelities = Some [(''INSTR_CXDIR'', nv_two_gate_fidelity p), (''INSTR_CYDIR'', nv_two_gate_fidelity p)]\<rparr>"

lemmas setter_defs =
  all_comm_gates_fidelity_def all_comm_gates_duration_def all_mem_gates_fidelity_def all_mem_gates_duration_def
  all_two_gates_fidelity_def all_two_gates_duration_def comm_gate_fidelity_def comm_gate_duration_def
  mem_gate_fidelity_def mem_gate_duration_def nv_comm_special_def nv_mem_special_def set_gate_def set_gates_def
  comm_t1_def comm_t2_def mem_t1_def mem_t2_def default_nv_gates_def num_qubits_def star_topology_def init_builder_def

lemma from_nv_params_builder: "from_nv_params pd n p = builder_build pd (nv_builder n p)"
  by (simp add: from_nv_params_def nv_builder_def setter_defs nv_com_gates_def nv_mem_gates_def nv_two_gates_def Let_def)








section \<open>Probabilities\<close>

definition depolar_rate_ok :: "gate_config \<Rightarrow> bool" where
  "depolar_rate_ok g \<longleftrightarrow>
     (\<exists>p. map_of (gn_error_model_kwargs (gc_noise_config g)) ''depolar_rate'' = Some p \<and> 0 \<le> p \<and> p \<le> 1)"

definition fidelities_in :: "real \<Rightarrow> (string, real) dict option \<Rightarrow> bool" where
  "fidelities_in low d \<longleftrightarrow> list_all (\<lambda>(g, f). low \<le> f \<and> f \<le> 1) (the d)"

lemma with_depolar_prob_rate:
  assumes "pydantic_ok pd" "with_depolar_prob pd name d p = Inr g" "0 \<le> p" "p \<le> 1"
  shows "depolar_rate_ok g"
proof -
  obtain i where "g = depolar_entry i p name"
    using assms(2) by (auto simp: with_depolar_prob_def pydantic_simps [OF assms(1)] depolar_entry_def)
  with assms(3,4) show ?thesis by (simp add: depolar_rate_ok_def depolar_entry_def gate_depolarise_config_def)
qed

lemma single_gate_rate:
  assumes "pydantic_ok pd" "fidelities_in (1 / 2) (Some fids)"
    and "build_gate (with_single_gate_fidelity pd) durs fids name = Inr g"
  shows "depolar_rate_ok g"
proof -
  obtain d f where f: "map_of fids name = Some f" "with_single_gate_fidelity pd name d f = Inr g"
    using assms(3) by (auto simp: build_gate_def)
  have "1 / 2 \<le> f" "f \<le> 1" using assms(2) map_of_SomeD [OF f(1)] by (auto simp: fidelities_in_def list_all_iff)
  then have "0 \<le> (1 - f) * 2" "(1 - f) * 2 \<le> 1" by simp_all
  with f(2) show ?thesis using with_depolar_prob_rate [OF assms(1)]
    by (auto simp: with_single_gate_fidelity_def fidelity_to_prob_max_mixed_def)
qed

lemma two_gate_rate:
  assumes "pydantic_ok pd" "fidelities_in (1 / 4) (Some fids)"
    and "build_gate (with_two_gate_fidelity pd) durs fids name = Inr g"
  shows "depolar_rate_ok g"
proof -
  obtain d f where f: "map_of fids name = Some f" "with_two_gate_fidelity pd name d f = Inr g"
    using assms(3) by (auto simp: build_gate_def)
  have "1 / 4 \<le> f" "f \<le> 1" using assms(2) map_of_SomeD [OF f(1)] by (auto simp: fidelities_in_def list_all_iff)
  then have "0 \<le> (1 - f) * 4 / 3" "(1 - f) * 4 / 3 \<le> 1" by simp_all
  with f(2) show ?thesis using with_depolar_prob_rate [OF assms(1)]
    by (auto simp: with_two_gate_fidelity_def fidelity_to_prob_max_mixed_def)
qed

lemma gates_entry_gates: "gates_entry pd gate names i = Inr s \<Longrightarrow> g \<in> set (sg_gate_configs s) \<Longrightarrow> \<exists>n. gate n = Inr g"
  by (auto simp: gates_entry_def single_gate_config_init_def dest: rmap_member)

lemma pair_entry_gates: "pair_entry pd gate names p = Inr s \<Longrightarrow> g \<in> set (mg_gate_configs s) \<Longrightarrow> \<exists>n. gate n = Inr g"
  by (auto simp: pair_entry_def multi_gate_config_init_def dest: rmap_member)

text \<open>C19: The probabilities in a built topology are probabilities: when the fidelities of single-qubit
  gates lie between 1/2 and 1 and those of two-qubit gates between 1/4 and 1, every gate of the
  topology that \<open>TopologyConfigBuilder\<close> builds has a depolarising probability between 0 and 1.\<close>

theorem built_rates_are_probabilities:
  assumes pd: "pydantic_ok pd" and b: "builder_build pd b = Inr c"
    and f: "fidelities_in (1 / 2) (tb_comm_single_gate_fidelities b)"
      "fidelities_in (1 / 2) (tb_mem_single_gate_fidelities b)" "fidelities_in (1 / 4) (tb_two_gate_fidelities b)"
  shows "(\<forall>s \<in> set (tc_single_gates c). \<forall>g \<in> set (sg_gate_configs s). depolar_rate_ok g) \<and>
    (\<forall>m \<in> set (tc_multi_gates c). \<forall>g \<in> set (mg_gate_configs m). depolar_rate_ok g)"
proof -
  from b have s: "build_single_gates pd b = Inr (tc_single_gates c)" and m: "build_multi_gates pd b = Inr (tc_multi_gates c)"
    and full: "builder_complete b"
    by (auto simp: builder_build_def)
  obtain cf mf tf where d: "tb_comm_single_gate_fidelities b = Some cf" "tb_mem_single_gate_fidelities b = Some mf"
      "tb_two_gate_fidelities b = Some tf"
    using full by (auto simp: builder_complete_def)
  note r = single_gate_rate [OF pd f(1) [unfolded d]] single_gate_rate [OF pd f(2) [unfolded d]] two_gate_rate [OF pd f(3) [unfolded d]]
  have single: "\<forall>x \<in> set xs. \<forall>g \<in> set (sg_gate_configs x). depolar_rate_ok g"
    if "rmap (gates_entry pd (build_gate (with_single_gate_fidelity pd) durs fids) names) is' = Inr xs"
      "\<And>name g. build_gate (with_single_gate_fidelity pd) durs fids name = Inr g \<Longrightarrow> depolar_rate_ok g" for durs fids names is' xs
    using rmap_member [OF that(1)] gates_entry_gates that(2) by blast
  have first: "\<forall>g \<in> set (sg_gate_configs x). depolar_rate_ok g"
    if "gates_entry pd (build_gate (with_single_gate_fidelity pd) durs cf) names i = Inr x" for durs names i x
    using gates_entry_gates [OF that] r(1) by blast
  have "\<forall>x \<in> set (tc_single_gates c). \<forall>g \<in> set (sg_gate_configs x). depolar_rate_ok g"
  proof (cases "the (tb_uniform b)")
    case True
    with s show ?thesis by (intro single [OF _ r(1)]) (simp add: build_single_gates_def d Let_def)
  next
    case False
    from s [unfolded build_single_gates_def d Let_def if_not_P [OF False]]
    obtain x xs where x: "tc_single_gates c = x # xs"
        "gates_entry pd (build_gate (with_single_gate_fidelity pd) (the (tb_comm_single_gate_durations b)) cf)
          (the (tb_comm_single_gates b)) 0 = Inr x"
        "rmap (gates_entry pd (build_gate (with_single_gate_fidelity pd) (the (tb_mem_single_gate_durations b)) mf)
          (the (tb_mem_single_gates b))) [1..the (tb_num_qubits b) - 1] = Inr xs"
      by (auto simp: eq_commute [of "_ # _"])
    have "\<forall>g \<in> set (sg_gate_configs x). depolar_rate_ok g" by (rule first [OF x(2)])
    moreover have "\<forall>x \<in> set xs. \<forall>g \<in> set (sg_gate_configs x). depolar_rate_ok g"
      by (rule single [OF x(3) r(2)])
    ultimately have "\<forall>y \<in> set (x # xs). \<forall>g \<in> set (sg_gate_configs y). depolar_rate_ok g" by simp
    then show ?thesis by (simp add: x(1))
  qed
  moreover have "depolar_rate_ok g" if x: "x \<in> set (tc_multi_gates c)" and g: "g \<in> set (mg_gate_configs x)" for x g
  proof -
    obtain p where "pair_entry pd (build_gate (with_two_gate_fidelity pd) (the (tb_two_gate_durations b)) tf)
        (the (tb_two_gates b)) p = Inr x"
      using m x by (auto simp: build_multi_gates_def d Let_def split: if_splits dest: rmap_member)
    then show ?thesis using pair_entry_gates [OF _ g] r(3) by blast
  qed
  ultimately show ?thesis by blast
qed

section \<open>Latencies\<close>

text \<open>The latency between the schedulers is not read: in a dictionary of latencies that has the entry
  \<open>internal_sched_latency\<close>, its value becomes the latency of messages between hosts, whatever the
  dictionary says of that, and the latency between the schedulers is 0.\<close>

theorem sched_latency_becomes_peer_latency:
  assumes "pydantic_ok pd" "latencies_from_dict pd (PyDict d) = Inr l"
    and "map_of d ''internal_sched_latency'' = Some (PyNum x)"
  shows "lc_host_peer_latency l = x \<and> lc_internal_sched_latency l = 0"
  using assms(2,3) by (auto simp: latencies_from_dict_def item_or_def dhas_def pydantic_simps [OF assms(1)])

section \<open>Examples\<close>

definition sample_int :: "pyval \<Rightarrow> int res" where
  "sample_int v = (case v of PyNum x \<Rightarrow> if real_of_int \<lfloor>x\<rfloor> = x then Inr \<lfloor>x\<rfloor> else Inl ValueError | _ \<Rightarrow> Inl ValueError)"

definition sample_pydantic :: pydantic where
  "sample_pydantic =
     \<lparr>pd_int = sample_int,
      pd_float = (\<lambda>v. case v of PyNum x \<Rightarrow> Inr x | _ \<Rightarrow> Inl ValueError),
      pd_bool = (\<lambda>v. case v of PyBool b \<Rightarrow> Inr b | _ \<Rightarrow> Inl ValueError),
      pd_str = (\<lambda>v. case v of PyStr s \<Rightarrow> Inr s | _ \<Rightarrow> Inl ValueError),
      pd_int_list = (\<lambda>v. case v of PyList vs \<Rightarrow> rmap sample_int vs | _ \<Rightarrow> Inl ValueError),
      pd_bins = (\<lambda>v. Inl ValueError)\<rparr>"

lemma sample_pydantic_ok: "pydantic_ok sample_pydantic"
proof -
  have "rmap sample_int (map py_of_int ids) = Inr ids" for ids
    by (induction ids) (auto simp: sample_int_def)
  then show ?thesis by (simp add: pydantic_ok_def sample_pydantic_def sample_int_def)
qed

definition sample_nv_params :: nv_params where
  "sample_nv_params = nv_params_default
     \<lparr>nv_comm_t1 := 1000, nv_mem_t2 := 500, nv_comm_meas_fidelity := 9 / 10, nv_two_gate_fidelity := 7 / 10,
      nv_two_gate_duration := 500, nv_comm_gate_duration := 40\<rparr>"

theorem config_agrees_with_builder_witness:
  "rbind (perfect_config_uniform sample_pydantic 2 [''INSTR_INIT'', ''INSTR_H''] 5 [''INSTR_CNOT''] 7) (\<lambda>c.
      rbind (lhi_from_config c) (\<lambda>t. to_ehi t generic_ntf None)) =
    to_ehi (lhi_perfect_uniform 2 [INSTR_INIT, INSTR_H] 5 [INSTR_CNOT] 7) generic_ntf None"
  using config_agrees_with_builder [OF sample_pydantic_ok, of "[''INSTR_INIT'', ''INSTR_H'']" "[INSTR_INIT, INSTR_H]"
    "[''INSTR_CNOT'']" "[INSTR_CNOT]" 2 5 7 generic_ntf None]
  by (simp add: default_instr_registry_def dget_def)



lemma sample_nv_fidelities:
  "fidelities_in (1 / 2) (tb_comm_single_gate_fidelities (nv_builder 2 sample_nv_params))"
  "fidelities_in (1 / 2) (tb_mem_single_gate_fidelities (nv_builder 2 sample_nv_params))"
  "fidelities_in (1 / 4) (tb_two_gate_fidelities (nv_builder 2 sample_nv_params))"
  by (simp_all add: fidelities_in_def nv_builder_def sample_nv_params_def nv_params_default_def)

lemma sample_nv_built: "\<exists>c. from_nv_params sample_pydantic 2 sample_nv_params = Inr c \<and> tc_single_gates c \<noteq> []"
proof -
  have "case from_nv_params sample_pydantic 2 sample_nv_params of Inr c \<Rightarrow> tc_single_gates c \<noteq> [] | Inl e \<Rightarrow> False"
    by code_simp
  then show ?thesis by (auto split: sum.splits)
qed

theorem built_rates_are_probabilities_witness:
  "\<exists>c. from_nv_params sample_pydantic 2 sample_nv_params = Inr c \<and> tc_single_gates c \<noteq> [] \<and>
     (\<forall>s \<in> set (tc_single_gates c). \<forall>g \<in> set (sg_gate_configs s). depolar_rate_ok g)"
proof -
  obtain c where c: "from_nv_params sample_pydantic 2 sample_nv_params = Inr c" "tc_single_gates c \<noteq> []"
    using sample_nv_built by blast
  from built_rates_are_probabilities [OF sample_pydantic_ok c(1) [unfolded from_nv_params_builder] sample_nv_fidelities]
  show ?thesis using c by blast
qed

theorem sched_latency_becomes_peer_latency_witness:
  "\<exists>l. latencies_from_dict sample_pydantic
      (PyDict [(''host_peer_latency'', PyNum 30), (''internal_sched_latency'', PyNum 10)]) = Inr l \<and>
    lc_host_peer_latency l = 10 \<and> lc_internal_sched_latency l = 0"
proof -
  let ?d = "[(''host_peer_latency'', PyNum 30), (''internal_sched_latency'', PyNum 10)]"
  obtain l where l: "latencies_from_dict sample_pydantic (PyDict ?d) = Inr l"
    by (simp add: latencies_from_dict_def item_or_def dhas_def dget_def sample_pydantic_def)
  from sched_latency_becomes_peer_latency [OF sample_pydantic_ok l, of 10] l show ?thesis by simp
qed

end
