(* ===== verification/BuildRun.thy ===== *)
theory BuildRun
  imports Build PortsRun NodeRun ConfigRun
begin

text \<open>
  A node or a network that is built starts in a state in which the invariants of its components
  hold, its device executes the gates of its configuration, its links have the samplers that
  programs are told about, and its Hosts are joined by the configured connections.
\<close>

section \<open>The device of a node\<close>

lemma py_nth_pair: "py_nth [q, r] 0 = Inr q" "py_nth [q, r] 1 = Inr r"
  by (simp_all add: py_nth_def py_index_def)

lemma matches_allow_single:
  "matches_allow (map (\<lambda>(i, t). (i, Some t)) ms) [q] = Inr (\<exists>(i, t) \<in> set ms. [q] \<in> set t)"
  by (induction ms) auto

lemma matches_allow_pair:
  "matches_allow (map (\<lambda>(i, t). (i, Some t)) ms) [q, r] = Inr (\<exists>(i, t) \<in> set ms. [q, r] \<in> set t)"
  by (induction ms) (auto simp only: list.map prod.case matches_allow.simps py_nth_pair rbind.simps, simp_all)

lemma matching_instructions:
  "filter (\<lambda>(j, t). j = i) (qd_phys_instrs (qdevice_init p t q0)) = map (\<lambda>(j, t). (j, Some t))
     (map (\<lambda>h. (ph_instruction h, device_positions (ph_position h)))
       (filter (\<lambda>h. ph_instruction h = i) (qp_phys_instructions p)))"
  by (simp add: qdevice_init_def filter_map comp_def)

lemma device_positions_iff:
  "[q] \<in> set (device_positions p) \<longleftrightarrow> p = Position q"
  "[q, r] \<in> set (device_positions p) \<longleftrightarrow> p = Positions [q, r]"
  by (auto simp: device_positions_def split: position.splits)

lemma allowed_on_device:
  "is_allowed (qdevice_init p t q0) \<lparr>cmd_instr = i, cmd_indices = [q], cmd_angle = a\<rparr> =
    Inr (\<exists>h \<in> set (qp_phys_instructions p). ph_instruction h = i \<and> ph_position h = Position q)"
  "is_allowed (qdevice_init p t q0) \<lparr>cmd_instr = i, cmd_indices = [q, r], cmd_angle = a\<rparr> =
    Inr (\<exists>h \<in> set (qp_phys_instructions p). ph_instruction h = i \<and> ph_position h = Positions [q, r])"
  unfolding is_allowed_def qdevice_command.simps matching_instructions matches_allow_single matches_allow_pair
  by (auto simp: device_positions_iff)

lemma phys_instr_positions:
  "ph_position (single_phys_instr q g) = Position q" "ph_instruction (single_phys_instr q g) = lg_instruction g"
  "ph_position (multi_phys_instr m g) = Positions (qubit_ids m)" "ph_instruction (multi_phys_instr m g) = lg_instruction g"
  by (simp_all add: single_phys_instr_def multi_phys_instr_def multi_qubit.case_eq_if)

lemma in_concat_map:
  "h \<in> set (concat (map (\<lambda>(k, gs). map (f k) gs) d)) \<longleftrightarrow> (\<exists>k gs g. (k, gs) \<in> set d \<and> g \<in> set gs \<and> h = f k g)"
  by (fastforce simp: image_iff)

lemma built_phys_instructions:
  assumes "build_qprocessor_from_topology t = Inr p"
  shows "h \<in> set (qp_phys_instructions p) \<longleftrightarrow>
    (\<exists>q gs g. (q, gs) \<in> set (lt_single_gate_infos t) \<and> g \<in> set gs \<and> h = single_phys_instr q g) \<or>
    (\<exists>m gs g. (m, gs) \<in> set (lt_multi_gate_infos t) \<and> g \<in> set gs \<and> h = multi_phys_instr m g)"
proof -
  have "set (qp_phys_instructions p) =
      set (concat (map (\<lambda>(q, gs). map (single_phys_instr q) gs) (lt_single_gate_infos t))) \<union>
      set (concat (map (\<lambda>(m, gs). map (multi_phys_instr m) gs) (lt_multi_gate_infos t)))"
    using assms by (auto simp only: build_qprocessor_from_topology_def Let_def rbind_eq_Inr sum.inject qprocessor.simps set_append)
  then show ?thesis by (simp only: Un_iff in_concat_map)
qed

lemma find_defined: "List.find P xs \<noteq> None \<longleftrightarrow> (\<exists>x \<in> set xs. P x)"
  by (simp only: find_None_iff) blast

lemma find_gate_iff:
  assumes "dict_ok d"
  shows "(case map_of d k of None \<Rightarrow> None | Some infos \<Rightarrow> List.find (\<lambda>g. lg_instruction g = i) infos) \<noteq> None \<longleftrightarrow>
    (\<exists>gs g. (k, gs) \<in> set d \<and> g \<in> set gs \<and> lg_instruction g = i)"
  unfolding items_map_of [OF assms] by (cases "map_of d k") (simp_all only: option.case find_defined, auto)

lemma multi_qubit_ids: "qubit_ids m = qs \<longleftrightarrow> m = MultiQubit qs"
  by (cases m) simp

lemma allowed_single:
  assumes "build_qprocessor_from_topology t = Inr p" "dict_ok (lt_single_gate_infos t)"
  shows "is_allowed (qdevice_init p t q0) \<lparr>cmd_instr = i, cmd_indices = [q], cmd_angle = a\<rparr> =
    Inr (lhi_find_single_gate t q i \<noteq> None)"
proof -
  have "(\<exists>h \<in> set (qp_phys_instructions p). ph_instruction h = i \<and> ph_position h = Position q) \<longleftrightarrow>
      (\<exists>gs g. (q, gs) \<in> set (lt_single_gate_infos t) \<and> g \<in> set gs \<and> lg_instruction g = i)" (is "?L \<longleftrightarrow> ?R")
  proof
    assume ?L
    then show ?R by (auto simp: built_phys_instructions [OF assms(1)] phys_instr_positions) blast
  next
    assume ?R
    then obtain gs g where g: "(q, gs) \<in> set (lt_single_gate_infos t)" "g \<in> set gs" "lg_instruction g = i" by blast
    then have "single_phys_instr q g \<in> set (qp_phys_instructions p)" unfolding built_phys_instructions [OF assms(1)] by blast
    with g(3) show ?L by (intro bexI) (simp_all add: phys_instr_positions)
  qed
  then show ?thesis
    unfolding allowed_on_device lhi_find_single_gate_def find_gate_iff [OF assms(2)] by simp
qed

lemma allowed_pair:
  assumes "build_qprocessor_from_topology t = Inr p" "dict_ok (lt_multi_gate_infos t)"
  shows "is_allowed (qdevice_init p t q0) \<lparr>cmd_instr = i, cmd_indices = [q, r], cmd_angle = a\<rparr> =
    Inr (lhi_find_multi_gate t [q, r] i \<noteq> None)"
proof -
  have "(\<exists>h \<in> set (qp_phys_instructions p). ph_instruction h = i \<and> ph_position h = Positions [q, r]) \<longleftrightarrow>
      (\<exists>gs g. (MultiQubit [q, r], gs) \<in> set (lt_multi_gate_infos t) \<and> g \<in> set gs \<and> lg_instruction g = i)" (is "?L \<longleftrightarrow> ?R")
  proof
    assume ?L
    then show ?R by (auto simp: built_phys_instructions [OF assms(1)] phys_instr_positions multi_qubit_ids) blast
  next
    assume ?R
    then obtain gs g where g: "(MultiQubit [q, r], gs) \<in> set (lt_multi_gate_infos t)" "g \<in> set gs" "lg_instruction g = i" by blast
    then have "multi_phys_instr (MultiQubit [q, r]) g \<in> set (qp_phys_instructions p)" unfolding built_phys_instructions [OF assms(1)] by blast
    with g(3) show ?L by (intro bexI) (simp_all add: phys_instr_positions)
  qed
  then show ?thesis
    unfolding allowed_on_device lhi_find_multi_gate_def find_gate_iff [OF assms(2)] by simp
qed




section \<open>Nodes\<close>

lemma rbind_InrE: "rbind m f = Inr y \<Longrightarrow> (\<And>x. m = Inr x \<Longrightarrow> f x = Inr y \<Longrightarrow> P) \<Longrightarrow> P"
  by auto

lemma lhi_from_config_ok:
  assumes "lhi_from_config c = Inr t"
  shows "dict_ok (lt_qubit_infos t)" "dict_ok (lt_single_gate_infos t)" "dict_ok (lt_multi_gate_infos t)"
  using assms by (auto simp: lhi_from_config_def topology_from_config_def)

abbreviation node_state :: "'q proc_node \<Rightarrow> 'q node" where
  "node_state n \<equiv> sd_node (px_scheduler n)"

abbreviation node_device :: "'q proc_node \<Rightarrow> 'q qdevice" where
  "node_device n \<equiv> mm_qdevice (nd_mm (node_state n))"

lemma proc_node_init_parts:
  assumes "proc_node_init env q0 name p t lat ntf network netschedule i det dl pr = Inr n"
  obtains comp ehi host env1 ls nd where "node_component_init name i network = Inr comp" "to_ehi t ntf (Some lat) = Inr ehi"
    and "qnos_init (nk_qnos comp) (ll_qnos_instr_time lat) ntf i env = Inr env1"
    and "nd = \<lparr>nd_host = host, nd_mm = init_memmgr (qdevice_init p t q0) (Some ehi), nd_inbox = init_inbox ls,
      nd_sent = [], nd_memory = init_sched_memory\<rparr>"
    and "n = \<lparr>px_component = comp, px_qprocessor = p, px_local_ehi = ehi, px_network_ehi = network, px_env = env1,
      px_is_predictable = pr, px_scheduler = init_node_scheduler i det dl netschedule network nd\<rparr>"
  using assms unfolding proc_node_init_def Let_def by (elim rbind_InrE) (erule (2) that, rule refl, simp only: sum.inject, erule sym)

lemma set_latencies_simps [simp]:
  "px_component (set_latencies c n) = px_component n" "px_qprocessor (set_latencies c n) = px_qprocessor n"
  "px_local_ehi (set_latencies c n) = px_local_ehi n" "px_network_ehi (set_latencies c n) = px_network_ehi n"
  "nd_mm (node_state (set_latencies c n)) = nd_mm (node_state n)"
  "node_inv (px_scheduler (set_latencies c n)) = node_inv (px_scheduler n)"
  "hs_latencies (nd_host (node_state (set_latencies c n))) =
    \<lparr>hl_instr_time = lc_host_instr_time c, hl_peer_latency = lc_host_peer_latency c\<rparr>"
  "px_env (set_latencies c n) = (px_env n)\<lparr>qe_instr_time := lc_qnos_instr_time c\<rparr>"
  by (simp_all add: set_latencies_def Let_def node_inv_def)

lemma init_node_simps [simp]:
  "sd_node (init_node_scheduler i det dl netschedule network nd) = nd"
  "node_inv (init_node_scheduler i det dl netschedule network nd)"
  by (simp_all add: init_node_inv, simp add: init_node_scheduler_def)

lemma built_node_parts:
  assumes "build_procnode_from_config env q0 network netschedule cfg = Inr n"
  obtains t p ehi where "lhi_from_config (pn_topology cfg) = Inr t" "build_qprocessor_from_topology t = Inr p"
    and "to_ehi t (ntf_config_interface (pn_ntf cfg)) (Some (latencies_from_config (pn_latencies cfg))) = Inr ehi"
    and "nd_mm (node_state n) = init_memmgr (qdevice_init p t q0) (Some ehi)" "px_local_ehi n = ehi" "px_qprocessor n = p"
    and "node_component_init (pn_node_name cfg) (pn_node_id cfg) network = Inr (px_component n)"
    and "px_network_ehi n = network" "node_inv (px_scheduler n)"
    and "hs_latencies (nd_host (node_state n)) =
      \<lparr>hl_instr_time = lc_host_instr_time (pn_latencies cfg), hl_peer_latency = lc_host_peer_latency (pn_latencies cfg)\<rparr>"
    and "qe_instr_time (px_env n) = lc_qnos_instr_time (pn_latencies cfg)" "qe_node_id (px_env n) = pn_node_id cfg"
proof -
  from assms obtain t p n0 where t: "lhi_from_config (pn_topology cfg) = Inr t" "build_qprocessor_from_topology t = Inr p"
    and n0: "proc_node_init env q0 (pn_node_name cfg) p t (latencies_from_config (pn_latencies cfg))
      (ntf_config_interface (pn_ntf cfg)) network netschedule (pn_node_id cfg) (pn_determ_sched cfg)
      (pn_use_deadlines cfg) (pn_is_predictable cfg) = Inr n0"
    and n: "n = set_latencies (pn_latencies cfg) n0"
    unfolding build_procnode_from_config_def by (elim rbind_InrE) simp
  from n0 show ?thesis
    by (rule proc_node_init_parts) (rule that [OF t], auto simp: n qnos_init_def)
qed


text \<open>C26: The device of a built node executes exactly the gates of its configuration: a command on one qubit or
  on an ordered pair of qubits is allowed if and only if the topology has the gate there.\<close>

theorem built_node_executes_its_gates:
  assumes "build_procnode_from_config env q0 network netschedule cfg = Inr n" "lhi_from_config (pn_topology cfg) = Inr t"
  shows "is_allowed (node_device n) \<lparr>cmd_instr = i, cmd_indices = [q], cmd_angle = a\<rparr> =
      Inr (lhi_find_single_gate t q i \<noteq> None) \<and>
    is_allowed (node_device n) \<lparr>cmd_instr = i, cmd_indices = [q, r], cmd_angle = a\<rparr> =
      Inr (lhi_find_multi_gate t [q, r] i \<noteq> None)"
proof -
  obtain p ehi where p: "build_qprocessor_from_topology t = Inr p"
    and mm: "nd_mm (node_state n) = init_memmgr (qdevice_init p t q0) (Some ehi)"
    using assms(2) by (rule_tac built_node_parts [OF assms(1)]) simp
  note ok = lhi_from_config_ok [OF assms(2)]
  show ?thesis by (simp add: mm init_memmgr_def allowed_single [OF p ok(2)] allowed_pair [OF p ok(3)])
qed

section \<open>Links\<close>

definition link_key :: "link_between_nodes_config \<Rightarrow> int set" where
  "link_key l = {lb_node_id1 l, lb_node_id2 l}"


lemma add_sampler_Inr:
  assumes "add_sampler ph a b info e = Inr e'"
  shows "map_of (ed_samplers e) {a, b} = None" "ed_network e' = ed_network e"
    and "ed_samplers e' = dset {a, b} \<lparr>dl_sampler = ph_create ph (lk_sampler_factory info) (lk_sampler_kwargs info),
      dl_delay = lk_state_delay info\<rparr> (ed_samplers e)"
  using assms by (auto simp: add_sampler_def add_sampler_kw_def rbind_ensure dhas_def split: if_splits)

definition link_sampler :: "('s, 'st, 'w) physics \<Rightarrow> link_between_nodes_config \<Rightarrow> 's delayed_sampler" where
  "link_sampler ph l = (let info = link_info_from_config (lb_link_config l) in
     \<lparr>dl_sampler = ph_create ph (lk_sampler_factory info) (lk_sampler_kwargs info), dl_delay = lk_state_delay info\<rparr>)"

lemma add_samplers_lookup:
  assumes "add_samplers ph links e = Inr e'"
  shows "ed_network e' = ed_network e \<and> distinct (map link_key links) \<and>
    (\<forall>l \<in> set links. map_of (ed_samplers e) (link_key l) = None \<and>
       map_of (ed_samplers e') (link_key l) = Some (link_sampler ph l)) \<and>
    (\<forall>k. k \<notin> link_key ` set links \<longrightarrow> map_of (ed_samplers e') k = map_of (ed_samplers e) k)"
  using assms
proof (induction links arbitrary: e)
  case (Cons l links)
  from Cons.prems obtain e1 where e1: "add_sampler ph (lb_node_id1 l) (lb_node_id2 l) (link_info_from_config (lb_link_config l)) e = Inr e1"
    and rest: "add_samplers ph links e1 = Inr e'"
    by (auto simp: add_samplers_def)
  note step = add_sampler_Inr [OF e1, folded link_key_def]
  have new: "map_of (ed_samplers e1) (link_key l) = Some (link_sampler ph l)"
    by (simp add: step(3) link_sampler_def Let_def)
  note IH = Cons.IH [OF rest]
  from IH new have fresh: "link_key l \<notin> link_key ` set links" by fastforce
  have other: "map_of (ed_samplers e1) k = map_of (ed_samplers e) k" if "k \<noteq> link_key l" for k
    using that by (simp add: step(3))
  have "map_of (ed_samplers e) (link_key l') = None" if "l' \<in> set links" for l'
    using IH other [of "link_key l'"] that fresh by (metis image_eqI)
  moreover have "ed_network e' = ed_network e" using IH step(2) by simp
  moreover have "distinct (map link_key (l # links))" using IH fresh by simp
  moreover have "map_of (ed_samplers e') (link_key l) = Some (link_sampler ph l)" using IH fresh new by simp
  ultimately show ?case using IH step(1) other by simp
qed (simp add: add_samplers_def)

section \<open>Networks\<close>

lemma dset_mem: "(a, b) \<in> set (dset k v d) \<Longrightarrow> (a, b) = (k, v) \<or> (a, b) \<in> set d"
  by (induction d) (auto split: if_splits)

lemma build_procnodes_mem:
  assumes "rfold (\<lambda>c d. rbind (build_procnode_from_config env q0 network netschedule c) (\<lambda>n.
      Inr (dset (pn_node_name c) n d))) cfgs d0 = Inr d" "(name, n) \<in> set d"
  shows "(name, n) \<in> set d0 \<or>
    (\<exists>c \<in> set cfgs. name = pn_node_name c \<and> build_procnode_from_config env q0 network netschedule c = Inr n)"
  using assms
proof (induction cfgs arbitrary: d0)
  case (Cons c cfgs)
  then obtain m where m: "build_procnode_from_config env q0 network netschedule c = Inr m" by auto
  with Cons.prems Cons.IH [of "dset (pn_node_name c) m d0"] show ?case by (auto dest!: dset_mem)
qed simp

lemma build_procnodes_keys:
  assumes "rfold (\<lambda>c d. rbind (build_procnode_from_config env q0 network netschedule c) (\<lambda>n.
      Inr (dset (pn_node_name c) n d))) cfgs d0 = Inr d" "distinct (keys d0 @ map pn_node_name cfgs)"
  shows "keys d = keys d0 @ map pn_node_name cfgs"
  using assms
proof (induction cfgs arbitrary: d0)
  case (Cons c cfgs)
  then obtain m where m: "build_procnode_from_config env q0 network netschedule c = Inr m" by auto
  have "dset (pn_node_name c) m d0 = d0 @ [(pn_node_name c, m)]" using Cons.prems(2) by (intro dset_fresh) auto
  with m Cons.prems Cons.IH [of "d0 @ [(pn_node_name c, m)]"] show ?case by auto
qed simp

lemma built_network_parts:
  assumes "build_network_from_config env q0 ph w cfg = Inr net"
  obtains network netschedule e0 where "network_ehi_from_config cfg = Inr network"
    and "build_procnodes env q0 network netschedule (nc_nodes cfg) = Inr (pw_nodes net)"
    and "entdist_init network netschedule (map snd (pw_nodes net)) w = Inr e0"
    and "add_samplers ph (nc_links cfg) e0 = Inr (pw_entdist net)"
    and "connect_network (get_latency (nc_cconns cfg)) (entdist_component network) (node_components (pw_nodes net)) =
      Inr (pw_wiring net)"
  using assms unfolding build_network_from_config_def Let_def by (elim rbind_InrE) (erule that, auto)


lemma built_network_nodes:
  assumes "network_ehi_from_config cfg = Inr network"
    and "build_procnodes env q0 network netschedule (nc_nodes cfg) = Inr nodes"
    and "distinct (map pn_node_id (nc_nodes cfg))" "distinct (map pn_node_name (nc_nodes cfg))"
  shows "network_nodes_ok network (node_components nodes)" "keys nodes = map pn_node_name (nc_nodes cfg)"
    and "\<And>x n. x \<in> set (nc_nodes cfg) \<Longrightarrow> (pn_node_name x, n) \<in> set nodes \<Longrightarrow> nk_id (px_component n) = pn_node_id x"
proof -
  note fold = assms(2) [unfolded build_procnodes_def]
  show ks: "keys nodes = map pn_node_name (nc_nodes cfg)"
    using build_procnodes_keys [OF fold] assms(4) by simp
  have comp: "\<exists>c \<in> set (nc_nodes cfg). name = pn_node_name c \<and> nk_name (px_component n) = name \<and>
      nk_id (px_component n) = pn_node_id c \<and> node_component_init name (pn_node_id c) network = Inr (px_component n)"
    if mem: "(name, n) \<in> set nodes" for name n
  proof -
    obtain c where c: "c \<in> set (nc_nodes cfg)" "name = pn_node_name c"
        "build_procnode_from_config env q0 network netschedule c = Inr n"
      using build_procnodes_mem [OF fold mem] by auto
    then have init: "node_component_init name (pn_node_id c) network = Inr (px_component n)"
      by (auto elim: built_node_parts)
    moreover obtain k where "node_component_init name (pn_node_id c) network = Inr k" "nk_name k = name" "nk_id k = pn_node_id c"
      by (rule node_component_init_ok)
    ultimately show ?thesis using c by auto
  qed
  have "get_all_node_names network = map pn_node_name (nc_nodes cfg)"
    using assms(1,3) by (auto simp: network_ehi_from_config_def get_all_node_names_def dict_of_distinct comp_def)
  then show "network_nodes_ok network (node_components nodes)"
    using comp ks assms(4) by (fastforce simp: network_nodes_ok_def comp_def case_prod_unfold)
  show "nk_id (px_component n) = pn_node_id x" if "x \<in> set (nc_nodes cfg)" "(pn_node_name x, n) \<in> set nodes" for x n
    using comp [OF that(2)] that(1) assms(4) by (auto simp: distinct_map dest: inj_onD)
qed

text \<open>The Hosts of a built network are joined as configured: any two of them can send to each other, over
  channels with the latency of the first connection whose nodes are named in the order in which the
  nodes themselves are listed; a connection with the two nodes the other way round is not used, and
  without one there is no delay. No port is connected twice.\<close>

theorem built_connections:
  assumes "build_network_from_config env q0 ph w cfg = Inr net"
    and "distinct (map pn_node_id (nc_nodes cfg))" "distinct (map pn_node_name (nc_nodes cfg))"
    and "(x, y) \<in> set (combinations2 (nc_nodes cfg))"
  shows "\<exists>n m d. (pn_node_name x, n) \<in> set (pw_nodes net) \<and> (pn_node_name y, m) \<in> set (pw_nodes net) \<and>
    host_delivery (ed_network (pw_entdist net)) (pw_wiring net) (pn_node_name x, px_component n) (pn_node_name y, px_component m) \<and>
    host_delivery (ed_network (pw_entdist net)) (pw_wiring net) (pn_node_name y, px_component m) (pn_node_name x, px_component n) \<and>
    {(HostChannel (pn_node_name x) (pn_node_name y), d), (HostChannel (pn_node_name y) (pn_node_name x), d)} \<subseteq>
      set (wi_delays (pw_wiring net)) \<and>
    d = (case nc_cconns cfg of None \<Rightarrow> 0 | Some cs \<Rightarrow>
      (case List.find (\<lambda>c. cc_node_id1 c = pn_node_id x \<and> cc_node_id2 c = pn_node_id y) cs of
         None \<Rightarrow> 0 | Some c \<Rightarrow> cc_latency c)) \<and>
    distinct (concat (map connected_ports (wi_ties (pw_wiring net))))"
proof -
  obtain network netschedule e0 where network: "network_ehi_from_config cfg = Inr network"
    and nodes: "build_procnodes env q0 network netschedule (nc_nodes cfg) = Inr (pw_nodes net)"
    and e0: "entdist_init network netschedule (map snd (pw_nodes net)) w = Inr e0"
      "add_samplers ph (nc_links cfg) e0 = Inr (pw_entdist net)"
    and wiring: "connect_network (get_latency (nc_cconns cfg)) (entdist_component network) (node_components (pw_nodes net)) =
      Inr (pw_wiring net)"
    by (rule built_network_parts [OF assms(1)])
  have net: "ed_network (pw_entdist net) = network"
    using add_samplers_lookup [OF e0(2)] e0(1) by (auto simp: entdist_init_def)
  note ok = built_network_nodes [OF network nodes assms(2,3)]
  have "(pn_node_name x, pn_node_name y) \<in> set (combinations2 (keys (pw_nodes net)))"
    using assms(4) unfolding ok(2) combinations2_map by force
  then obtain n m where nm: "((pn_node_name x, n), (pn_node_name y, m)) \<in> set (combinations2 (pw_nodes net))"
    unfolding combinations2_map by auto
  then have pair: "((pn_node_name x, px_component n), (pn_node_name y, px_component m)) \<in>
      set (combinations2 (node_components (pw_nodes net)))"
    unfolding combinations2_map by force
  note mem = combinations2_sub [OF nm] combinations2_sub [OF assms(4)]
  have "nk_id (px_component n) = pn_node_id x" "nk_id (px_component m) = pn_node_id y"
    using ok(3) mem by blast+
  note ids = this
  let ?a = "(pn_node_name x, px_component n)" and ?b = "(pn_node_name y, px_component m)"
  let ?d = "get_latency (nc_cconns cfg) (pn_node_id x) (pn_node_id y)"
  note wired = pair_in_network [OF ok(1) wiring pair]
  have comps: "?a \<in> set (node_components (pw_nodes net))" "?b \<in> set (node_components (pw_nodes net))"
    using combinations2_sub [OF pair] by blast+
  have neq: "pn_node_name x \<noteq> pn_node_name y"
    using combinations2_neq [OF assms(3), of "pn_node_name x" "pn_node_name y"] assms(4) unfolding combinations2_map by force
  have "host_delivery network (pw_wiring net) ?a ?b" "host_delivery network (pw_wiring net) ?b ?a"
    using host_delivery_ok [OF ok(1) comps neq] host_delivery_ok [OF ok(1) comps(2,1) neq [symmetric]] wired(1) by blast+
  moreover have "{(HostChannel (pn_node_name x) (pn_node_name y), ?d), (HostChannel (pn_node_name y) (pn_node_name x), ?d)} \<subseteq>
      set (wi_delays (pw_wiring net))"
    using wired(2) unfolding ids .
  moreover have "?d = (case nc_cconns cfg of None \<Rightarrow> 0 | Some cs \<Rightarrow>
      (case List.find (\<lambda>c. cc_node_id1 c = pn_node_id x \<and> cc_node_id2 c = pn_node_id y) cs of
         None \<Rightarrow> 0 | Some c \<Rightarrow> cc_latency c))"
    by (simp only: get_latency_def disj_absorb)
  ultimately show ?thesis unfolding net using mem network_ports_distinct [OF ok(1) wiring] by blast
qed

section \<open>Examples\<close>

definition sample_node_env :: "unit qpu_env" where
  "sample_node_env = \<lparr>qe_class = GenericProcessor, qe_hardware = \<lparr>hw_peek = \<lambda>q i. True, hw_execute = \<lambda>cmds q. (None, 0, q)\<rparr>,
     qe_branch = \<lparr>check_unary = \<lambda>k a. a = 0, check_binary = \<lambda>k a b. a = b\<rparr>,
     qe_instantiate = \<lambda>pid args sub. Inr sub, qe_instr_time = 0, qe_node_id = 0, qe_put = \<lambda>i q. q, qe_fuel = 0\<rparr>"

definition sample_world :: "(unit, unit, unit) physics" where
  "sample_world = \<lparr>ph_create = \<lambda>f kw. (), ph_sample = \<lambda>s w. (\<lparr>ds_state = (), ds_num_qubits = 2, ds_duration = 10\<rparr>, w),
     ph_put = \<lambda>st a b w. w\<rparr>"

text \<open>Two nodes with two qubits each and a connection whose nodes are named in the other order.\<close>

definition sample_topology :: topology_config where
  "sample_topology =
     (case perfect_config_uniform sample_pydantic 2 [''INSTR_INIT'', ''INSTR_H''] 5 [''INSTR_CNOT''] 7 of
        Inr c \<Rightarrow> c | Inl e \<Rightarrow> \<lparr>tc_qubits = [], tc_single_gates = [], tc_multi_gates = []\<rparr>)"

definition sample_node_config :: "string \<Rightarrow> int \<Rightarrow> proc_node_config" where
  "sample_node_config name i =
     \<lparr>pn_node_name = name, pn_node_id = i, pn_topology = sample_topology,
      pn_latencies = \<lparr>lc_host_instr_time = 10, lc_qnos_instr_time = 20, lc_host_peer_latency = 30, lc_internal_sched_latency = 0\<rparr>,
      pn_ntf = \<lparr>ntf_interface_cls = ''GenericNtf'', ntf_config_interface = generic_ntf\<rparr>,
      pn_determ_sched = True, pn_use_deadlines = True, pn_is_predictable = False\<rparr>"

definition sample_link_config :: link_between_nodes_config where
  "sample_link_config = \<lparr>lb_node_id1 = 0, lb_node_id2 = 1, lb_link_config =
     \<lparr>li_state_delay = 100, li_sampler_config_cls = ''PerfectSamplerConfig'', li_sampler_config = perfect_sampler_config 0\<rparr>\<rparr>"

definition sample_network_config :: network_config where
  "sample_network_config =
     \<lparr>nc_nodes = [sample_node_config ''alice'' 0, sample_node_config ''bob'' 1], nc_links = [sample_link_config],
      nc_netschedule = None,
      nc_cconns = Some [\<lparr>cc_node_id1 = 1, cc_node_id2 = 0, cc_latency = 50\<rparr>]\<rparr>"

lemma sample_network_builds: "\<exists>net. build_network_from_config sample_node_env () sample_world () sample_network_config = Inr net"
proof -
  have "case build_network_from_config sample_node_env () sample_world () sample_network_config of Inr net \<Rightarrow> True | Inl e \<Rightarrow> False"
    by code_simp
  then show ?thesis by (auto split: sum.splits)
qed

lemma sample_node_builds:
  "\<exists>n t. build_procnode_from_config sample_node_env () sample_pair_network None (sample_node_config ''alice'' 0) = Inr n \<and>
     lhi_from_config (pn_topology (sample_node_config ''alice'' 0)) = Inr t \<and>
     lhi_find_single_gate t 1 INSTR_H \<noteq> None \<and> lhi_find_multi_gate t [0, 1] INSTR_CZ = None"
proof -
  have "case build_procnode_from_config sample_node_env () sample_pair_network None (sample_node_config ''alice'' 0) of
      Inr n \<Rightarrow> True | Inl e \<Rightarrow> False" by code_simp
  moreover have "case lhi_from_config (pn_topology (sample_node_config ''alice'' 0)) of
      Inr t \<Rightarrow> lhi_find_single_gate t 1 INSTR_H \<noteq> None \<and> lhi_find_multi_gate t [0, 1] INSTR_CZ = None | Inl e \<Rightarrow> False" by code_simp
  ultimately show ?thesis by (auto split: sum.splits)
qed


theorem built_node_executes_its_gates_witness:
  "\<exists>n. build_procnode_from_config sample_node_env () sample_pair_network None (sample_node_config ''alice'' 0) = Inr n \<and>
     is_allowed (node_device n) \<lparr>cmd_instr = INSTR_H, cmd_indices = [1], cmd_angle = None\<rparr> = Inr True \<and>
     is_allowed (node_device n) \<lparr>cmd_instr = INSTR_CZ, cmd_indices = [0, 1], cmd_angle = None\<rparr> = Inr False"
proof -
  obtain n t where n: "build_procnode_from_config sample_node_env () sample_pair_network None (sample_node_config ''alice'' 0) = Inr n"
    and t: "lhi_from_config (pn_topology (sample_node_config ''alice'' 0)) = Inr t"
      "lhi_find_single_gate t 1 INSTR_H \<noteq> None" "lhi_find_multi_gate t [0, 1] INSTR_CZ = None"
    using sample_node_builds by blast
  from built_node_executes_its_gates [OF n t(1), of INSTR_H 1 None 0] built_node_executes_its_gates [OF n t(1), of INSTR_CZ 0 None 1]
  show ?thesis using n t(2,3) by auto
qed


theorem built_connections_witness:
  "\<exists>net. build_network_from_config sample_node_env () sample_world () sample_network_config = Inr net \<and>
     (HostChannel ''alice'' ''bob'', 0) \<in> set (wi_delays (pw_wiring net))"
proof -
  obtain net where net: "build_network_from_config sample_node_env () sample_world () sample_network_config = Inr net"
    using sample_network_builds by blast
  from built_connections [OF net, of "sample_node_config ''alice'' 0" "sample_node_config ''bob'' 1"] net show ?thesis
    by (auto simp: sample_network_config_def sample_node_config_def)
qed

end
