(* ===== verification/RunnerRun.thy ===== *)
theory RunnerRun
  imports Runner BuildRun
begin

text \<open>
  What the runners do before the simulation is started: with two nodes, instance \<open>i\<close> of either
  program gets a process whose sockets lead to instance \<open>i\<close> of the other one; with a server and
  several clients only the last client gets a process.
\<close>

section \<open>Nodes of a network\<close>

lemma on_node_InrE:
  assumes "on_node name f net = Inr (x, net')"
  obtains n sd where "map_of (pw_nodes net) name = Some n" "f (px_scheduler n) = Inr (x, sd)"
    and "map_of (pw_nodes net') = (map_of (pw_nodes net))(name \<mapsto> n\<lparr>px_scheduler := sd\<rparr>)"
  using assms unfolding on_node_def
  by (elim rbind_InrE) (auto simp: dget_def split: option.splits prod.splits intro: that)

text \<open>The scheduler of a node, when the network has the node.\<close>

definition scheduler_of :: "('q, 's, 'w) proc_network \<Rightarrow> string \<Rightarrow> 'q node_scheduler option" where
  "scheduler_of net name = map_option px_scheduler (map_of (pw_nodes net) name)"

lemma on_node_scheduler:
  assumes "on_node name f net = Inr (x, net')"
  obtains sd sd' where "scheduler_of net name = Some sd" "f sd = Inr (x, sd')"
    and "scheduler_of net' = (scheduler_of net)(name \<mapsto> sd')"
  using assms by (rule on_node_InrE) (auto simp: scheduler_of_def fun_eq_iff intro: that)

section \<open>Processes of a batch\<close>

lemma initialize_instance [simp]:
  "pc_instance (initialize p) = pc_instance p" "pc_csockets (initialize p) = pc_csockets p"
  "pc_epr_sockets (initialize p) = pc_epr_sockets p"
proof -
  have "pc_instance (fold (\<lambda>(n, v). write_var n v) d p) = pc_instance p \<and>
      pc_csockets (fold (\<lambda>(n, v). write_var n v) d p) = pc_csockets p \<and>
      pc_epr_sockets (fold (\<lambda>(n, v). write_var n v) d p) = pc_epr_sockets p" for d
    by (induction d arbitrary: p) (auto simp: write_var_def set_host_mem_def)
  then show "pc_instance (initialize p) = pc_instance p" "pc_csockets (initialize p) = pc_csockets p"
    "pc_epr_sockets (initialize p) = pc_epr_sockets p"
    by (simp_all add: initialize_def)
qed

lemma create_process_instance: "create_process inst r sd = Inr p \<Longrightarrow> pc_instance p = inst"
  by (auto simp: create_process_def Let_def)

lemma create_process_sockets:
  assumes "create_process inst (Some r) sd = Inr p"
  shows "\<forall>(s, c) \<in> set (pc_csockets p). ck_pid c = pi_pid inst \<and> ck_remote_pid c = r"
    and "\<forall>(s, e) \<in> set (pc_epr_sockets p). es_local_pid e = pi_pid inst \<and> es_remote_pid e = r"
  using assms by (auto simp: create_process_def Let_def dest!: rmap_member)

lemma create_process_network: "sd_network sd = sd_network sd' \<Longrightarrow> create_process inst r sd = create_process inst r sd'"
  unfolding create_process_def by (simp only:)

lemma install_process_effect:
  assumes "install_process inst r dep sd = Inr sd'"
  obtains p where "create_process inst r sd = Inr p" "sd_network sd' = sd_network sd" "sd_batches sd' = sd_batches sd"
    and "map_of (mm_processes (nd_mm (sd_node sd'))) = (map_of (mm_processes (nd_mm (sd_node sd))))(pi_pid inst \<mapsto> initialize p)"
proof -
  from assms obtain p where p: "create_process inst r sd = Inr p"
    and sd': "sd' = sd\<lparr>sd_node := (sd_node sd)\<lparr>nd_mm := put_process (initialize p) (add_process p (nd_mm (sd_node sd)))\<rparr>,
             sd_block_index := dset (pi_pid inst) 0 (sd_block_index sd),
             sd_dependency := dset (pi_pid inst) dep (sd_dependency sd)\<rparr>"
    by (auto simp: install_process_def)
  show ?thesis
    by (rule that [OF p]) (simp_all add: sd' put_process_def add_process_def Let_def create_process_instance [OF p] dset_dset)
qed

lemma created_processes:
  assumes "rfold (create_process_for r lin) xs st = Inr st'" "distinct (map (\<lambda>(b, i, inst). pi_pid inst) xs)"
  shows "(\<forall>(b, i, inst) \<in> set xs. \<exists>q p. remote_pid_of r b i = Inr q \<and> create_process inst q (snd st) = Inr p \<and>
      map_of (mm_processes (nd_mm (sd_node (snd st')))) (pi_pid inst) = Some (initialize p)) \<and>
    (\<forall>k. k \<notin> set (map (\<lambda>(b, i, inst). pi_pid inst) xs) \<longrightarrow>
      map_of (mm_processes (nd_mm (sd_node (snd st')))) k = map_of (mm_processes (nd_mm (sd_node (snd st)))) k) \<and>
    sd_network (snd st') = sd_network (snd st) \<and> sd_batches (snd st') = sd_batches (snd st)"
  using assms
proof (induction xs arbitrary: st)
  case (Cons x xs)
  obtain b i inst prev sd where x: "x = (b, i, inst)" "st = (prev, sd)" by (cases x, cases st)
  from Cons.prems(1) obtain st1 where st1: "create_process_for r lin x st = Inr st1" "rfold (create_process_for r lin) xs st1 = Inr st'"
    by auto
  from st1(1) obtain q sd1 where q: "remote_pid_of r b i = Inr q"
    and inst: "install_process inst q (if lin then prev else - 1) sd = Inr sd1"
    and "st1 = (if lin then pi_pid inst else prev, sd1)"
    by (auto simp: x create_process_for_def)
  with st1(2) have rest: "rfold (create_process_for r lin) xs (if lin then pi_pid inst else prev, sd1) = Inr st'" by simp
  obtain p where p: "create_process inst q sd = Inr p" "sd_network sd1 = sd_network sd" "sd_batches sd1 = sd_batches sd"
    and procs: "map_of (mm_processes (nd_mm (sd_node sd1))) =
      (map_of (mm_processes (nd_mm (sd_node sd))))(pi_pid inst \<mapsto> initialize p)"
    by (rule install_process_effect [OF inst])
  note IH = Cons.IH [OF rest]
  from Cons.prems(2) have fresh: "pi_pid inst \<notin> set (map (\<lambda>(b, i, inst). pi_pid inst) xs)"
    and d: "distinct (map (\<lambda>(b, i, inst). pi_pid inst) xs)" by (auto simp: x)
  have same: "create_process inst' q' sd1 = create_process inst' q' sd" for inst' q'
    by (rule create_process_network [OF p(2)])
  show ?case
    using IH [OF d] p q procs fresh by (auto simp: x same)
qed auto

section \<open>The first batch of a node\<close>

definition fresh_scheduler :: "'q node_scheduler \<Rightarrow> bool" where
  "fresh_scheduler sd \<longleftrightarrow> sd_prog_counter sd = 0 \<and> sd_batch_counter sd = 0 \<and> sd_batches sd = [] \<and>
     mm_processes (nd_mm (sd_node sd)) = []"

lemma built_scheduler_fresh:
  assumes "build_procnode_from_config env q0 network netschedule cfg = Inr n"
  shows "fresh_scheduler (px_scheduler n)"
proof -
  from assms obtain t p n0 where n0: "proc_node_init env q0 (pn_node_name cfg) p t (latencies_from_config (pn_latencies cfg))
      (ntf_config_interface (pn_ntf cfg)) network netschedule (pn_node_id cfg) (pn_determ_sched cfg)
      (pn_use_deadlines cfg) (pn_is_predictable cfg) = Inr n0"
    and n: "n = set_latencies (pn_latencies cfg) n0"
    unfolding build_procnode_from_config_def by (elim rbind_InrE) simp
  from n0 show ?thesis
    by (rule proc_node_init_parts)
      (simp add: n fresh_scheduler_def set_latencies_def Let_def init_node_scheduler_def init_memmgr_def)
qed

lemma built_network_fresh:
  assumes "build_network_from_config env q0 ph w cfg = Inr net" "scheduler_of net name = Some sd"
  shows "fresh_scheduler sd"
proof -
  obtain network netschedule where "build_procnodes env q0 network netschedule (nc_nodes cfg) = Inr (pw_nodes net)"
    by (rule built_network_parts [OF assms(1)])
  note fold = this [unfolded build_procnodes_def]
  from assms(2) obtain n where "(name, n) \<in> set (pw_nodes net)" "sd = px_scheduler n"
    by (auto simp: scheduler_of_def dest: map_of_SomeD)
  then show ?thesis using build_procnodes_mem [OF fold] built_scheduler_fresh by fastforce
qed

lemma submit_fresh:
  assumes "submit_on program inputs n sd = Inr (batch, sd')" "fresh_scheduler sd"
  shows "ba_batch_id batch = 0" "sd_batches sd' = [(0, batch)]" "sd_node sd' = sd_node sd"
    and "map pi_pid (ba_instances batch) = [0..n - 1]"
    and "\<And>k. k < length (ba_instances batch) \<Longrightarrow> pi_program (ba_instances batch ! k) = program \<and>
      py_nth inputs (int k) = Inr (pi_inputs (ba_instances batch ! k))"
proof -
  from assms obtain um insts where insts: "rmap (\<lambda>i. rbind (py_nth inputs i) (\<lambda>inp.
       Inr \<lparr>pi_pid = i, pi_program = program, pi_inputs = inp, pi_unit_module = um\<rparr>)) [0..n - 1] = Inr insts"
    and res: "ba_batch_id batch = 0" "sd_batches sd' = [(0, batch)]" "sd_node sd' = sd_node sd" "ba_instances batch = insts"
    by (auto simp: submit_on_def submit_batch_def create_batch_def fresh_scheduler_def Let_def)
  show "ba_batch_id batch = 0" "sd_batches sd' = [(0, batch)]" "sd_node sd' = sd_node sd" by (rule res)+
  have nth: "length insts = nat n \<and> (\<forall>k < nat n. \<exists>inp. py_nth inputs (int k) = Inr inp \<and>
      insts ! k = \<lparr>pi_pid = int k, pi_program = program, pi_inputs = inp, pi_unit_module = um\<rparr>)"
    using insts by (auto simp: rmap_eq_Inr)
  then show "map pi_pid (ba_instances batch) = [0..n - 1]"
    unfolding res by (auto intro!: nth_equalityI)
  show "pi_program (ba_instances batch ! k) = program \<and> py_nth inputs (int k) = Inr (pi_inputs (ba_instances batch ! k))"
    if "k < length (ba_instances batch)" for k
    using nth that unfolding res by auto
qed

text \<open>The process of instance \<open>i\<close>, whose partner is instance \<open>i\<close> of the other program.\<close>

definition partner_process :: "qoala_program \<Rightarrow> prog_input list \<Rightarrow> int \<Rightarrow> qoala_process \<Rightarrow> bool" where
  "partner_process program inputs i p \<longleftrightarrow>
     pc_pid p = i \<and> pc_program p = program \<and> py_nth inputs i = Inr (pc_inputs p) \<and>
     (\<forall>(s, c) \<in> set (pc_csockets p). ck_pid c = i \<and> ck_remote_pid c = i) \<and>
     (\<forall>(s, e) \<in> set (pc_epr_sockets p). es_local_pid e = i \<and> es_remote_pid e = i)"

lemma create_partners:
  assumes "create_on (Some [(0, [0..n - 1])]) lin sd = Inr (u, sd')" "sd_batches sd = [(0, batch)]"
    and "map pi_pid (ba_instances batch) = [0..n - 1]"
    and "\<And>k. k < length (ba_instances batch) \<Longrightarrow> pi_program (ba_instances batch ! k) = program \<and>
      py_nth inputs (int k) = Inr (pi_inputs (ba_instances batch ! k))"
    and "0 \<le> i" "i < n"
  shows "\<exists>p. map_of (mm_processes (nd_mm (sd_node sd'))) i = Some p \<and> partner_process program inputs i p"
proof -
  let ?insts = "ba_instances batch"
  let ?xs = "map (\<lambda>(i, inst). (0::int, int i, inst)) (enumerate 0 ?insts)"
  from assms(1,2) obtain prev where run: "rfold (create_process_for (Some [(0, [0..n - 1])]) lin) ?xs (- 1, sd) = Inr (prev, sd')"
    by (auto simp: create_on_def create_processes_for_batches_def)
  have pids: "map (\<lambda>(b, i, inst). pi_pid inst) ?xs = [0..n - 1]"
    unfolding assms(3) [symmetric] by (rule nth_equalityI) (simp_all add: nth_enumerate_eq)
  have "distinct (map (\<lambda>(b, i, inst). pi_pid inst) ?xs)" unfolding pids by simp
  from created_processes [OF run this] have all: "\<forall>(b, i, inst) \<in> set ?xs. \<exists>q p.
      remote_pid_of (Some [(0, [0..n - 1])]) b i = Inr q \<and> create_process inst q sd = Inr p \<and>
      map_of (mm_processes (nd_mm (sd_node sd'))) (pi_pid inst) = Some (initialize p)"
    unfolding snd_conv by (rule conjunct1)
  have len: "nat i < length ?insts"
    using arg_cong [OF assms(3), of length] assms(5,6) by simp
  then have "nat i < length ?xs" by simp
  then have "?xs ! nat i \<in> set ?xs" by (rule nth_mem)
  moreover have "?xs ! nat i = (0, i, ?insts ! nat i)" using len assms(5) by (simp add: nth_enumerate_eq)
  ultimately have mem: "(0, i, ?insts ! nat i) \<in> set ?xs" by (simp only:)
  from bspec [OF all mem] obtain q p where q: "remote_pid_of (Some [(0, [0..n - 1])]) 0 i = Inr q"
    and p: "create_process (?insts ! nat i) q sd = Inr p"
      "map_of (mm_processes (nd_mm (sd_node sd'))) (pi_pid (?insts ! nat i)) = Some (initialize p)"
    unfolding prod.case by blast
  have pid: "pi_pid (?insts ! nat i) = i"
    using arg_cong [OF assms(3), of "\<lambda>xs. xs ! nat i"] len assms(5,6) by simp
  have "q = Some i" using q assms(5,6) by (simp add: remote_pid_of_def dget_def py_nth_nonneg)
  with p(1) have "create_process (?insts ! nat i) (Some i) sd = Inr p" by simp
  note created = create_process_instance [OF this] create_process_sockets [OF this]
  have "partner_process program inputs i (initialize p)"
    using assms(4) [OF len] assms(5) created pid by (simp add: partner_process_def)
  with p(2) pid show ?thesis by auto
qed

lemma submit_two_InrE:
  assumes "submit_two n programs inputs name (batches, net) = Inr st"
  obtains program ins batch net' sd sd' where "map_of programs name = Some program" "map_of inputs name = Some ins"
    and "scheduler_of net name = Some sd" "submit_on program ins n sd = Inr (batch, sd')"
    and "scheduler_of net' = (scheduler_of net)(name \<mapsto> sd')" "st = (dset name batch batches, net')"
proof -
  from assms obtain program ins batch net' where p: "map_of programs name = Some program" "map_of inputs name = Some ins"
    and on: "on_node name (submit_on program ins n) net = Inr (batch, net')" and st: "st = (dset name batch batches, net')"
    unfolding submit_two_def prod.case by (elim rbind_InrE) (auto simp: dget_def split: option.splits prod.splits)
  from on show ?thesis by (rule on_node_scheduler) (rule that [OF p _ _ _ st])
qed

lemma create_two_InrE:
  assumes "create_two others batches lin name net = Inr net'"
  obtains other batch u sd sd' where "map_of others name = Some other" "map_of batches other = Some batch"
    and "scheduler_of net name = Some sd"
    and "create_on (Some [(ba_batch_id batch, map pi_pid (ba_instances batch))]) lin sd = Inr (u, sd')"
    and "scheduler_of net' = (scheduler_of net)(name \<mapsto> sd')"
proof -
  from assms obtain other batch u where p: "map_of others name = Some other" "map_of batches other = Some batch"
    and on: "on_node name (create_on (Some [(ba_batch_id batch, map pi_pid (ba_instances batch))]) lin) net = Inr (u, net')"
    unfolding create_two_def by (elim rbind_InrE) (auto simp: dget_def split: option.splits prod.splits)
  from on show ?thesis by (rule on_node_scheduler) (rule that [OF p])
qed

lemma two_keys:
  assumes "length (keys d) = 2" "dict_ok d"
  obtains a x b y where "d = [(a, x), (b, y)]" "a \<noteq> b"
proof -
  from assms(1) obtain p q where "d = [p, q]" by (auto simp: numeral_2_eq_2 length_Suc_conv)
  with assms(2) show ?thesis by (cases p, cases q) (auto intro: that)
qed

text \<open>C23: Running two nodes joins the instances of their programs pairwise: when the network has been prepared,
  every instance of either program has a process on its node, with the program and its own input,
  and all sockets of process \<open>i\<close> lead to process \<open>i\<close> on the other side.\<close>

theorem two_nodes_are_partners:
  assumes "build_network_from_config env q0 ph w cfg = Inr net" "prepare_two n programs inputs lin net = Inr net'"
    and "dict_ok programs" "(name, program) \<in> set programs" "0 \<le> i" "i < n"
  shows "\<exists>sd ins p. scheduler_of net' name = Some sd \<and> map_of inputs name = Some ins \<and>
    map_of (mm_processes (nd_mm (sd_node sd))) i = Some p \<and> partner_process program ins i p"
proof -
  from assms(2) have "length (keys programs) = 2"
    by (auto simp: prepare_two_def rbind_ensure split: if_splits)
  then obtain a x b y where ab: "programs = [(a, x), (b, y)]" "a \<noteq> b" by (rule two_keys [OF _ assms(3)])
  with assms(2) obtain st1 st2 net3 where steps: "submit_two n programs inputs a ([], net) = Inr st1"
      "submit_two n programs inputs b st1 = Inr st2"
      "create_two (dict_of [(a, b), (b, a)]) (fst st2) lin a (snd st2) = Inr net3"
      "create_two (dict_of [(a, b), (b, a)]) (fst st2) lin b net3 = Inr net'"
    by (auto simp: prepare_two_def rbind_ensure Let_def)
  have others: "map_of (dict_of [(a, b), (b, a)]) a = Some b" "map_of (dict_of [(a, b), (b, a)]) b = Some a"
    using ab(2) by simp_all
  obtain ins1 batch1 net1 sd1 sd1' where s1: "map_of inputs a = Some ins1" "scheduler_of net a = Some sd1"
      "submit_on x ins1 n sd1 = Inr (batch1, sd1')" "scheduler_of net1 = (scheduler_of net)(a \<mapsto> sd1')"
      "st1 = (dset a batch1 [], net1)"
    using steps(1) ab by (auto elim!: submit_two_InrE)
  obtain ins2 batch2 net2 sd2 sd2' where s2: "map_of inputs b = Some ins2" "scheduler_of net1 b = Some sd2"
      "submit_on y ins2 n sd2 = Inr (batch2, sd2')" "scheduler_of net2 = (scheduler_of net1)(b \<mapsto> sd2')"
      "st2 = (dset b batch2 (dset a batch1 []), net2)"
    using steps(2) ab unfolding s1(5) by (auto elim!: submit_two_InrE)
  have fresh: "fresh_scheduler sd1" "fresh_scheduler sd2"
    using built_network_fresh [OF assms(1)] s1(2) s2(2) ab(2) by (auto simp: s1(4))
  note f1 = submit_fresh [OF s1(3) fresh(1)] and f2 = submit_fresh [OF s2(3) fresh(2)]
  have batches: "map_of (fst st2) a = Some batch1" "map_of (fst st2) b = Some batch2" using ab(2) by (simp_all add: s2(5))
  obtain u1 sd1'' where c1: "create_on (Some [(0, [0..n - 1])]) lin sd1' = Inr (u1, sd1'')"
      "scheduler_of net3 = (scheduler_of net2)(a \<mapsto> sd1'')"
    using steps(3) ab(2) f2(1,4) batches others by (auto simp: s2(4,5) s1(4) elim!: create_two_InrE)
  obtain u2 sd2'' where c2: "create_on (Some [(0, [0..n - 1])]) lin sd2' = Inr (u2, sd2'')"
      "scheduler_of net' = (scheduler_of net3)(b \<mapsto> sd2'')"
    using steps(4) ab(2) f1(1,4) batches others by (auto simp: c1(2) s2(4,5) elim!: create_two_InrE)
  have "\<exists>p. map_of (mm_processes (nd_mm (sd_node sd1''))) i = Some p \<and> partner_process x ins1 i p"
    by (rule create_partners [OF c1(1) f1(2,4) f1(5) assms(5,6)])
  moreover have "\<exists>p. map_of (mm_processes (nd_mm (sd_node sd2''))) i = Some p \<and> partner_process y ins2 i p"
    by (rule create_partners [OF c2(1) f2(2,4) f2(5) assms(5,6)])
  moreover have "scheduler_of net' a = Some sd1''" "scheduler_of net' b = Some sd2''" using ab(2) by (simp_all add: c1(2) c2(2))
  ultimately show ?thesis using assms(4) s1(1) s2(1) by (auto simp: ab(1))
qed

section \<open>One server, several clients\<close>

text \<open>A node without processes whose batches all have instances.\<close>

definition unprepared :: "'q node_scheduler \<Rightarrow> bool" where
  "unprepared sd \<longleftrightarrow> mm_processes (nd_mm (sd_node sd)) = [] \<and> (\<forall>(k, b) \<in> set (sd_batches sd). ba_instances b \<noteq> [])"

lemma submit_one_unprepared:
  assumes "submit_on program inputs 1 sd = Inr (batch, sd')" "unprepared sd"
  shows "unprepared sd'" "sd_batches sd' \<noteq> []"
proof -
  from assms(1) have sd': "sd_batches sd' = dset (ba_batch_id batch) batch (sd_batches sd)" "sd_node sd' = sd_node sd"
      "length (ba_instances batch) = 1"
    by (auto simp: submit_on_def submit_batch_def create_batch_def Let_def)
  then show "unprepared sd'"
    using assms(2) by (auto simp: unprepared_def dest!: dset_mem)
  show "sd_batches sd' \<noteq> []" unfolding sd' by (cases "sd_batches sd") auto
qed

lemma collect_unprepared:
  assumes "unprepared sd" "sd_batches sd \<noteq> []"
  shows "collect_on sd = Inl KeyError"
proof -
  from assms obtain k b rest inst insts where "sd_batches sd = (k, b) # rest" "ba_instances b = inst # insts"
    by (cases "sd_batches sd") (auto simp: unprepared_def neq_Nil_conv)
  then show ?thesis using assms(1)
    by (simp add: collect_on_def get_batch_results_def collect_batch_results_def collect_batch_result_def
      unprepared_def get_process_def dget_def)
qed

lemma submit_client_InrE:
  assumes "submit_client cp server sp ci si client (pids, net) = Inr (pids', net')"
  obtains ins b batch net1 where "on_node client (submit_on cp ins 1) net = Inr (b, net1)"
    and "on_node server (submit_on (server_copy client sp) si 1) net1 = Inr (batch, net')"
  using assms unfolding submit_client_def prod.case by (elim rbind_InrE) (auto split: prod.splits intro: that)

lemma on_other_node: "on_node name f net = Inr (x, net') \<Longrightarrow> c \<noteq> name \<Longrightarrow> scheduler_of net' c = scheduler_of net c"
  by (erule on_node_scheduler) simp

lemma submit_client_step:
  assumes "submit_client cp server sp ci si client (pids, net) = Inr (pids', net')" "c \<noteq> server"
    and "\<forall>sd. scheduler_of net c = Some sd \<longrightarrow> unprepared sd"
  shows "(\<forall>sd. scheduler_of net' c = Some sd \<longrightarrow> unprepared sd) \<and>
    (client = c \<or> (\<exists>sd. scheduler_of net c = Some sd \<and> sd_batches sd \<noteq> []) \<longrightarrow>
      (\<exists>sd. scheduler_of net' c = Some sd \<and> sd_batches sd \<noteq> []))"
proof -
  obtain ins b batch net1 where on: "on_node client (submit_on cp ins 1) net = Inr (b, net1)"
    and srv: "on_node server (submit_on (server_copy client sp) si 1) net1 = Inr (batch, net')"
    by (rule submit_client_InrE [OF assms(1)])
  obtain sd sd' where sd: "scheduler_of net client = Some sd" "submit_on cp ins 1 sd = Inr (b, sd')"
      "scheduler_of net1 = (scheduler_of net)(client \<mapsto> sd')"
    by (rule on_node_scheduler [OF on])
  have eq: "scheduler_of net' c = scheduler_of net1 c" by (rule on_other_node [OF srv assms(2)])
  show ?thesis
  proof (cases "client = c")
    case True
    then have "unprepared sd" using assms(3) sd(1) by simp
    from submit_one_unprepared [OF sd(2) this] show ?thesis using True by (simp add: eq sd(3))
  next
    case False
    then show ?thesis using assms(3) by (simp add: eq sd(3))
  qed
qed

lemma submit_clients_unprepared:
  assumes "rfold (submit_client cp server sp ci si) clients (pids, net) = Inr (pids', net')" "c \<noteq> server"
    and "\<forall>sd. scheduler_of net c = Some sd \<longrightarrow> unprepared sd"
  shows "(\<forall>sd. scheduler_of net' c = Some sd \<longrightarrow> unprepared sd) \<and>
    (c \<in> set clients \<or> (\<exists>sd. scheduler_of net c = Some sd \<and> sd_batches sd \<noteq> []) \<longrightarrow>
      (\<exists>sd. scheduler_of net' c = Some sd \<and> sd_batches sd \<noteq> []))"
  using assms
proof (induction clients arbitrary: pids net)
  case (Cons x clients)
  from Cons.prems(1) obtain pids1 net1 where step: "submit_client cp server sp ci si x (pids, net) = Inr (pids1, net1)"
    and rest: "rfold (submit_client cp server sp ci si) clients (pids1, net1) = Inr (pids', net')" by auto
  note inv = submit_client_step [OF step Cons.prems(2,3)]
  from Cons.IH [OF rest Cons.prems(2) conjunct1 [OF inv]] inv show ?case by auto
qed auto

lemma create_clients_other:
  assumes "rfold (create_client procnode pids) clients net = Inr net'" "c \<noteq> procnode"
  shows "scheduler_of net' c = scheduler_of net c"
proof (rule rfold_invariant [OF assms(1)])
  show "scheduler_of s' c = scheduler_of net c" if "scheduler_of s c = scheduler_of net c" "create_client procnode pids x s = Inr s'" for x s s'
  proof -
    from that(2) obtain pid where "on_node procnode (create_on (Some [(0, [pid])]) False) s = Inr ((), s')"
      by (auto simp: create_client_def)
    from on_other_node [OF this assms(2)] that(1) show ?thesis by simp
  qed
qed simp

text \<open>C25: With one server and several clients only the last client is prepared: every other client has its batch, but
  no process of it is created, since the loop that creates them uses the variable of the loop
  before; collecting the results of such a node raises \<open>KeyError\<close>.\<close>

theorem only_last_client_is_prepared:
  assumes "build_network_from_config env q0 ph w cfg = Inr net"
    and "prepare_clients clients cp server sp ci si net = Inr net'"
    and "c \<in> set clients" "c \<noteq> last clients" "c \<noteq> server"
  shows "\<exists>sd. scheduler_of net' c = Some sd \<and> sd_batches sd \<noteq> [] \<and>
    mm_processes (nd_mm (sd_node sd)) = [] \<and> collect_on sd = Inl KeyError"
proof -
  let ?f = "create_on (Some (map (\<lambda>i. (i, [0])) [0..int (length clients) - 1])) False"
  from assms(2) obtain pids net1 net2 where
    loop1: "rfold (submit_client cp server sp ci si) clients ([], net) = Inr (pids, net1)"
    and loop2: "rfold (create_client (last clients) pids) clients net1 = Inr net2"
    and srv: "on_node server ?f net2 = Inr ((), net')"
    unfolding prepare_clients_def by (elim rbind_InrE) (auto split: prod.splits elim!: rbind_InrE)
  have "\<forall>sd. scheduler_of net c = Some sd \<longrightarrow> unprepared sd"
    using built_network_fresh [OF assms(1)] by (auto simp: fresh_scheduler_def unprepared_def)
  from submit_clients_unprepared [OF loop1 assms(5) this] assms(3)
  obtain sd where sd: "scheduler_of net1 c = Some sd" "unprepared sd" "sd_batches sd \<noteq> []" by blast
  have "scheduler_of net' c = Some sd"
    using on_other_node [OF srv assms(5)] create_clients_other [OF loop2 assms(4)] sd(1) by simp
  then show ?thesis using sd collect_unprepared [OF sd(2,3)] by (simp add: unprepared_def)
qed

section \<open>Witnesses\<close>

definition sample_app :: "string \<Rightarrow> qoala_program" where
  "sample_app other = mk_program
     \<lparr>pm_name = ''app'', pm_parameters = [''x''], pm_csockets = [(0, other)], pm_epr_sockets = [(0, other)]\<rparr>
     [sample_block ''b0'' CL [mk_op AssignCValueOp [] (Some (IqoalaSingleton ''y'')) [IntV 1]]] None None"

definition sample_apps :: "(string, qoala_program) dict" where
  "sample_apps = [(''alice'', sample_app ''bob''), (''bob'', sample_app ''alice'')]"

definition sample_app_inputs :: "(string, prog_input list) dict" where
  "sample_app_inputs = [(''alice'', [[(''x'', 1)], [(''x'', 2)]]), (''bob'', [[(''x'', 3)], [(''x'', 4)]])]"

definition prepared_pair :: "(unit, unit, unit) proc_network res \<Rightarrow> (unit, unit, unit) proc_network res" where
  "prepared_pair r = rbind r (prepare_two 2 sample_apps sample_app_inputs False)"

theorem two_nodes_are_partners_witness:
  "\<exists>net'. prepared_pair (build_network_from_config sample_node_env () sample_world () sample_network_config) = Inr net' \<and>
     (\<exists>sd p. scheduler_of net' ''bob'' = Some sd \<and> map_of (mm_processes (nd_mm (sd_node sd))) 1 = Some p \<and>
       pc_inputs p = [(''x'', 4)])"
proof -
  have "case prepared_pair (build_network_from_config sample_node_env () sample_world () sample_network_config) of
      Inr net \<Rightarrow> True | Inl e \<Rightarrow> False" by code_simp
  then obtain net net' where net: "build_network_from_config sample_node_env () sample_world () sample_network_config = Inr net"
      "prepare_two 2 sample_apps sample_app_inputs False net = Inr net'"
    by (auto simp: prepared_pair_def elim!: rbind_InrE split: sum.splits)
  have prepared: "prepared_pair (build_network_from_config sample_node_env () sample_world () sample_network_config) = Inr net'"
    using net by (simp add: prepared_pair_def)
  have bob: "dict_ok sample_apps" "(''bob'', sample_app ''alice'') \<in> set sample_apps" by code_simp+
  from two_nodes_are_partners [OF net bob, of 1] obtain sd ins p where
    p: "scheduler_of net' ''bob'' = Some sd" "map_of sample_app_inputs ''bob'' = Some ins"
      "map_of (mm_processes (nd_mm (sd_node sd))) 1 = Some p" "py_nth ins 1 = Inr (pc_inputs p)"
    by (auto simp: partner_process_def)
  from p(2,4) have "pc_inputs p = [(''x'', 4)]"
    by (auto simp: sample_app_inputs_def py_nth_nonneg)
  with prepared p(1,3) show ?thesis by blast
qed

text \<open>Three nodes, all of them connected.\<close>

definition sample_star_config :: network_config where
  "sample_star_config =
     \<lparr>nc_nodes = [sample_node_config ''alice'' 0, sample_node_config ''bob'' 1, sample_node_config ''carol'' 2],
      nc_links = map (\<lambda>(i, j). sample_link_config\<lparr>lb_node_id1 := i, lb_node_id2 := j\<rparr>) [(0, 1), (0, 2), (1, 2)],
      nc_netschedule = None, nc_cconns = None\<rparr>"

definition prepared_star :: "(unit, unit, unit) proc_network res \<Rightarrow> (unit, unit, unit) proc_network res" where
  "prepared_star r = rbind r (prepare_clients [''alice'', ''bob''] (sample_app ''carol'') ''carol'' (sample_app ''alice'')
     [(''alice'', [[(''x'', 1)]]), (''bob'', [[(''x'', 2)]])] [[(''x'', 3)]])"

theorem only_last_client_is_prepared_witness:
  "\<exists>net'. prepared_star (build_network_from_config sample_node_env () sample_world () sample_star_config) = Inr net' \<and>
     (\<exists>sd. scheduler_of net' ''alice'' = Some sd \<and> collect_on sd = Inl KeyError)"
proof -
  have "case prepared_star (build_network_from_config sample_node_env () sample_world () sample_star_config) of
      Inr net \<Rightarrow> True | Inl e \<Rightarrow> False" by code_simp
  then obtain net net' where net: "build_network_from_config sample_node_env () sample_world () sample_star_config = Inr net"
      "prepare_clients [''alice'', ''bob''] (sample_app ''carol'') ''carol'' (sample_app ''alice'')
        [(''alice'', [[(''x'', 1)]]), (''bob'', [[(''x'', 2)]])] [[(''x'', 3)]] net = Inr net'"
    by (auto simp: prepared_star_def split: sum.splits)
  from only_last_client_is_prepared [OF net, of "''alice''"] show ?thesis
    by (auto simp: net prepared_star_def)
qed

end
